(* ===== verification/Metax_Prelude.thy ===== *)
theory Metax_Prelude
  imports Main "HOL-Library.Word" "HOL-Library.Monad_Syntax" "HOL-Library.Multiset"
begin

text \<open>
  Shared notions of the development: the machine types of \<^verbatim>\<open>metax/protocols.hpp\<close>, the result of a
  handler that may throw, abort or run into undefined behaviour, the predicates \<open>keeps\<close> and
  \<open>returns\<close> on such results with their rules (collection \<open>outcome_intros\<close>), and the list and map
  lemmas several components use.
\<close>

named_theorems outcome_intros \<open>introduction rules for keeps and returns\<close>

section \<open>Machine types\<close>

type_synonym byte = "8 word"
type_synonym ID16 = "16 word"
type_synonym ID32 = "32 word"
type_synonym u64 = "64 word"

text \<open>A UUID is its 128 bits; its wire form is the 16 bytes in network order.\<close>

type_synonym uuid = "128 word"

section \<open>Results of handlers\<close>

text \<open>
  \<open>Done s\<close>: the code returned in state \<open>s\<close>. \<open>Thrown s\<close>: a Poco exception is on its way up and \<open>s\<close>
  is what the handler had changed by then. \<open>Aborted\<close>: a \<^verbatim>\<open>poco_assert\<close> failed, which ends in
  \<^verbatim>\<open>abort()\<close>. \<open>Undef\<close>: undefined behaviour, for instance a read outside a buffer.
\<close>

datatype 's outcome = Done 's | Thrown 's | Aborted | Undef

primrec and_then :: "'s outcome \<Rightarrow> ('s \<Rightarrow> 's outcome) \<Rightarrow> 's outcome" where
  "and_then (Done s) f = f s"
| "and_then (Thrown s) f = Thrown s"
| "and_then Aborted f = Aborted"
| "and_then Undef f = Undef"

definition assert_that :: "bool \<Rightarrow> 's \<Rightarrow> 's outcome" where
  "assert_that b s = (if b then Done s else Aborted)"

text \<open>The catch clauses of the input handlers: a Poco exception is logged and dropped.\<close>

primrec catch_log :: "'s outcome \<Rightarrow> 's outcome" where
  "catch_log (Done s) = Done s"
| "catch_log (Thrown s) = Done s"
| "catch_log Aborted = Aborted"
| "catch_log Undef = Undef"

primrec for_each :: "'a list \<Rightarrow> ('a \<Rightarrow> 's \<Rightarrow> 's outcome) \<Rightarrow> 's \<Rightarrow> 's outcome" where
  "for_each [] f s = Done s"
| "for_each (x # xs) f s = and_then (f x s) (for_each xs f)"

text \<open>\<open>keeps P r\<close>: the process survives only in states that satisfy \<open>P\<close>.\<close>

primrec keeps :: "('s \<Rightarrow> bool) \<Rightarrow> 's outcome \<Rightarrow> bool" where
  "keeps P (Done s) = P s"
| "keeps P (Thrown s) = P s"
| "keeps P Aborted = True"
| "keeps P Undef = True"

text \<open>\<open>returns P r\<close>: the code returns normally, in a state that satisfies \<open>P\<close>.\<close>

primrec returns :: "('s \<Rightarrow> bool) \<Rightarrow> 's outcome \<Rightarrow> bool" where
  "returns P (Done s) = P s"
| "returns P (Thrown s) = False"
| "returns P Aborted = False"
| "returns P Undef = False"

text \<open>\<open>survives P r\<close>: the process goes on, after a return or a caught exception, in a state with \<open>P\<close>.\<close>

primrec survives :: "('s \<Rightarrow> bool) \<Rightarrow> 's outcome \<Rightarrow> bool" where
  "survives P (Done s) = P s"
| "survives P (Thrown s) = P s"
| "survives P Aborted = False"
| "survives P Undef = False"

lemma keeps_Done [outcome_intros]: "P s \<Longrightarrow> keeps P (Done s)"
  by simp

lemma keeps_and_then [outcome_intros]:
  "keeps P m \<Longrightarrow> (\<And>s. P s \<Longrightarrow> keeps P (f s)) \<Longrightarrow> keeps P (and_then m f)"
  by (cases m) auto

lemma keeps_assert [outcome_intros]: "P s \<Longrightarrow> keeps P (assert_that b s)"
  by (simp add: assert_that_def)

lemma keeps_catch [outcome_intros]: "keeps P m \<Longrightarrow> keeps P (catch_log m)"
  by (cases m) auto

lemma keeps_if [outcome_intros]:
  "(b \<Longrightarrow> keeps P x) \<Longrightarrow> (\<not> b \<Longrightarrow> keeps P y) \<Longrightarrow> keeps P (if b then x else y)"
  by simp

lemma keeps_for_each [outcome_intros]:
  "P s \<Longrightarrow> (\<And>x s. x \<in> set xs \<Longrightarrow> P s \<Longrightarrow> keeps P (f x s)) \<Longrightarrow> keeps P (for_each xs f s)"
  by (induction xs arbitrary: s) (auto intro!: keeps_and_then)

lemma keeps_mono: "keeps P m \<Longrightarrow> (\<And>s. P s \<Longrightarrow> Q s) \<Longrightarrow> keeps Q m"
  by (cases m) auto

lemma keeps_conj: "keeps P m \<Longrightarrow> keeps Q m \<Longrightarrow> keeps (\<lambda>s. P s \<and> Q s) m"
  by (cases m) auto

lemma keeps_DoneD: "keeps P m \<Longrightarrow> m = Done s \<Longrightarrow> P s"
  by simp

lemma keeps_ThrownD: "keeps P m \<Longrightarrow> m = Thrown s \<Longrightarrow> P s"
  by simp

lemma returns_iff: "returns P m \<longleftrightarrow> (\<exists>s. m = Done s \<and> P s)"
  by (cases m) auto

lemma returns_keeps: "returns P m \<Longrightarrow> keeps P m"
  by (cases m) auto

lemma returns_and_then:
  "returns P m \<Longrightarrow> (\<And>s. P s \<Longrightarrow> returns Q (f s)) \<Longrightarrow> returns Q (and_then m f)"
  by (cases m) auto

lemma survives_and_then:
  "survives P m \<Longrightarrow> (\<And>s. P s \<Longrightarrow> survives P (f s)) \<Longrightarrow> survives P (and_then m f)"
  by (cases m) auto

lemma survives_mono: "survives P m \<Longrightarrow> (\<And>s. P s \<Longrightarrow> Q s) \<Longrightarrow> survives Q m"
  by (cases m) auto

lemma survives_catch: "survives P m \<Longrightarrow> returns P (catch_log m)"
  by (cases m) auto

lemma and_then_Done_iff: "and_then m f = Done s \<longleftrightarrow> (\<exists>s'. m = Done s' \<and> f s' = Done s)"
  by (cases m) auto

lemma and_then_assoc: "and_then (and_then m f) g = and_then m (\<lambda>s. and_then (f s) g)"
  by (cases m) auto

lemma assert_that_simps [simp]:
  "assert_that True s = Done s"
  "assert_that False s = Aborted"
  by (simp_all add: assert_that_def)

lemma assert_that_Done_iff: "assert_that b s = Done t \<longleftrightarrow> b \<and> t = s"
  by (auto simp: assert_that_def)

section \<open>Lists and maps\<close>

text \<open>A \<^verbatim>\<open>std::set\<close> is the sorted list of its elements; \<open>begin()\<close> is the head.\<close>

definition set_insert_all :: "'a::linorder list \<Rightarrow> 'a list \<Rightarrow> 'a list" where
  "set_insert_all xs s = fold insort_insert xs s"

lemma set_set_insert_all [simp]: "set (set_insert_all xs s) = set xs \<union> set s"
  by (induction xs arbitrary: s) (auto simp: set_insert_all_def set_insort_insert)

lemma set_insert_all_Nil [simp]: "set_insert_all [] s = s"
  by (simp add: set_insert_all_def)

lemma set_insert_all_empty_iff: "set_insert_all xs s = [] \<longleftrightarrow> xs = [] \<and> s = []"
  using set_set_insert_all [of xs s] by (metis Un_empty set_empty)

text \<open>
  Removal from a vector the way the timeline does it: the element found is exchanged with the
  last one, and the last one is popped.
\<close>

definition index_of :: "'a \<Rightarrow> 'a list \<Rightarrow> nat" where
  "index_of x xs = length (takeWhile (\<lambda>y. y \<noteq> x) xs)"

definition swap_remove :: "'a \<Rightarrow> 'a list \<Rightarrow> 'a list" where
  "swap_remove x xs = butlast (xs[index_of x xs := last xs])"

lemma index_of_split: "x \<in> set xs \<Longrightarrow> \<exists>us vs. xs = us @ x # vs \<and> index_of x xs = length us \<and> x \<notin> set us"
proof -
  assume "x \<in> set xs"
  then obtain us vs where s: "xs = us @ x # vs" "x \<notin> set us"
    by (meson split_list_first)
  then have "takeWhile (\<lambda>y. y \<noteq> x) xs = us"
    by (auto simp: takeWhile_append)
  with s show ?thesis
    by (auto simp: index_of_def)
qed

lemma index_of_append: "x \<notin> set us \<Longrightarrow> index_of x (us @ x # vs) = length us"
  by (auto simp: index_of_def takeWhile_append)

lemma swap_remove_split:
  assumes "x \<notin> set us"
  shows "swap_remove x (us @ x # vs) = (if vs = [] then us else us @ last vs # butlast vs)"
  using assms
  by (cases vs rule: rev_cases) (simp_all add: swap_remove_def index_of_append butlast_append)

lemma swap_remove_distinct:
  assumes "distinct xs" and "x \<in> set xs"
  shows "distinct (swap_remove x xs)" and "set (swap_remove x xs) = set xs - {x}"
proof -
  obtain us vs where xs: "xs = us @ x # vs" and x: "x \<notin> set us"
    using index_of_split [OF assms(2)] by blast
  have "distinct (swap_remove x xs) \<and> set (swap_remove x xs) = set xs - {x}"
    using assms(1) unfolding xs swap_remove_split [OF x]
    by (cases vs rule: rev_cases) auto
  then show "distinct (swap_remove x xs)" and "set (swap_remove x xs) = set xs - {x}"
    by auto
qed

text \<open>\<^verbatim>\<open>std::map::insert\<close> leaves an existing entry alone.\<close>

definition map_insert :: "'k \<Rightarrow> 'v \<Rightarrow> ('k \<rightharpoonup> 'v) \<Rightarrow> ('k \<rightharpoonup> 'v)" where
  "map_insert k v m = (case m k of None \<Rightarrow> m(k \<mapsto> v) | Some _ \<Rightarrow> m)"

lemma map_insert_apply:
  "map_insert k v m k' = (if k' = k \<and> m k = None then Some v else m k')"
  by (auto simp: map_insert_def split: option.splits)

lemma dom_map_insert [simp]: "dom (map_insert k v m) = insert k (dom m)"
  by (auto simp: map_insert_def split: option.splits)

end
