(* ===== verification/Commands.thy ===== *)
theory Commands
  imports Metax_Prelude
begin

text \<open>
  The enumeration \<^verbatim>\<open>command\<close> of \<^verbatim>\<open>metax/protocols.hpp\<close>. Commands cross the wire as 32-bit integers
  and a received integer is cast back unchecked, so a command is a 32-bit word and each enumerator
  is the numeral the C++ compiler gives it (the first is 0, no enumerator has an initialiser).
\<close>

type_synonym command = "32 word"

abbreviation (input) cmd_connect :: command where "cmd_connect \<equiv> 0"
abbreviation (input) cmd_disconnect :: command where "cmd_disconnect \<equiv> 1"
abbreviation (input) cmd_connected :: command where "cmd_connected \<equiv> 2"
abbreviation (input) cmd_disconnected :: command where "cmd_disconnected \<equiv> 3"
abbreviation (input) cmd_ack :: command where "cmd_ack \<equiv> 4"
abbreviation (input) cmd_nack :: command where "cmd_nack \<equiv> 5"
abbreviation (input) cmd_bind :: command where "cmd_bind \<equiv> 6"
abbreviation (input) cmd_shutdown :: command where "cmd_shutdown \<equiv> 7"
abbreviation (input) cmd_data :: command where "cmd_data \<equiv> 8"
abbreviation (input) cmd_send :: command where "cmd_send \<equiv> 9"
abbreviation (input) cmd_broadcast :: command where "cmd_broadcast \<equiv> 10"
abbreviation (input) cmd_broadcast_except :: command where "cmd_broadcast_except \<equiv> 11"
abbreviation (input) cmd_received_data :: command where "cmd_received_data \<equiv> 12"
abbreviation (input) cmd_create :: command where "cmd_create \<equiv> 13"
abbreviation (input) cmd_id :: command where "cmd_id \<equiv> 14"
abbreviation (input) cmd_prepare_streaming :: command where "cmd_prepare_streaming \<equiv> 15"
abbreviation (input) cmd_clean_stream_request :: command where "cmd_clean_stream_request \<equiv> 16"
abbreviation (input) cmd_get :: command where "cmd_get \<equiv> 17"
abbreviation (input) cmd_save :: command where "cmd_save \<equiv> 18"
abbreviation (input) cmd_auth :: command where "cmd_auth \<equiv> 19"
abbreviation (input) cmd_del :: command where "cmd_del \<equiv> 20"
abbreviation (input) cmd_deleted :: command where "cmd_deleted \<equiv> 21"
abbreviation (input) cmd_get_data :: command where "cmd_get_data \<equiv> 22"
abbreviation (input) cmd_save_confirm :: command where "cmd_save_confirm \<equiv> 23"
abbreviation (input) cmd_share_confirm :: command where "cmd_share_confirm \<equiv> 24"
abbreviation (input) cmd_save_offer :: command where "cmd_save_offer \<equiv> 25"
abbreviation (input) cmd_update :: command where "cmd_update \<equiv> 26"
abbreviation (input) cmd_updated :: command where "cmd_updated \<equiv> 27"
abbreviation (input) cmd_share :: command where "cmd_share \<equiv> 28"
abbreviation (input) cmd_send_to_peer :: command where "cmd_send_to_peer \<equiv> 29"
abbreviation (input) cmd_save_fail :: command where "cmd_save_fail \<equiv> 30"
abbreviation (input) cmd_get_fail :: command where "cmd_get_fail \<equiv> 31"
abbreviation (input) cmd_share_fail :: command where "cmd_share_fail \<equiv> 32"
abbreviation (input) cmd_send_to_fail :: command where "cmd_send_to_fail \<equiv> 33"
abbreviation (input) cmd_reencryption_fail :: command where "cmd_reencryption_fail \<equiv> 34"
abbreviation (input) cmd_decryption_fail :: command where "cmd_decryption_fail \<equiv> 35"
abbreviation (input) cmd_router_fail :: command where "cmd_router_fail \<equiv> 36"
abbreviation (input) cmd_deliver_fail :: command where "cmd_deliver_fail \<equiv> 37"
abbreviation (input) cmd_update_fail :: command where "cmd_update_fail \<equiv> 38"
abbreviation (input) cmd_failed :: command where "cmd_failed \<equiv> 39"
abbreviation (input) cmd_auth_data :: command where "cmd_auth_data \<equiv> 40"
abbreviation (input) cmd_save_data :: command where "cmd_save_data \<equiv> 41"
abbreviation (input) cmd_cancel :: command where "cmd_cancel \<equiv> 42"
abbreviation (input) cmd_finalize :: command where "cmd_finalize \<equiv> 43"
abbreviation (input) cmd_find_peer :: command where "cmd_find_peer \<equiv> 44"
abbreviation (input) cmd_peer_found :: command where "cmd_peer_found \<equiv> 45"
abbreviation (input) cmd_send_to_peer_confirm :: command where "cmd_send_to_peer_confirm \<equiv> 46"
abbreviation (input) cmd_remove_peer :: command where "cmd_remove_peer \<equiv> 47"
abbreviation (input) cmd_remove_peer_confirm :: command where "cmd_remove_peer_confirm \<equiv> 48"
abbreviation (input) cmd_remove_peer_failed :: command where "cmd_remove_peer_failed \<equiv> 49"
abbreviation (input) cmd_add_peer :: command where "cmd_add_peer \<equiv> 50"
abbreviation (input) cmd_add_peer_confirm :: command where "cmd_add_peer_confirm \<equiv> 51"
abbreviation (input) cmd_get_peer_list :: command where "cmd_get_peer_list \<equiv> 52"
abbreviation (input) cmd_get_peer_list_response :: command where "cmd_get_peer_list_response \<equiv> 53"
abbreviation (input) cmd_clear_request :: command where "cmd_clear_request \<equiv> 54"
abbreviation (input) cmd_refuse :: command where "cmd_refuse \<equiv> 55"
abbreviation (input) cmd_no_permissions :: command where "cmd_no_permissions \<equiv> 56"
abbreviation (input) cmd_no_resources :: command where "cmd_no_resources \<equiv> 57"
abbreviation (input) cmd_look_up :: command where "cmd_look_up \<equiv> 58"
abbreviation (input) cmd_key_path :: command where "cmd_key_path \<equiv> 59"
abbreviation (input) cmd_storage_cfg :: command where "cmd_storage_cfg \<equiv> 60"
abbreviation (input) cmd_add_in_cache :: command where "cmd_add_in_cache \<equiv> 61"
abbreviation (input) cmd_write_storage_cfg :: command where "cmd_write_storage_cfg \<equiv> 62"
abbreviation (input) cmd_delete_from_cache :: command where "cmd_delete_from_cache \<equiv> 63"
abbreviation (input) cmd_encrypt :: command where "cmd_encrypt \<equiv> 64"
abbreviation (input) cmd_encrypted :: command where "cmd_encrypted \<equiv> 65"
abbreviation (input) cmd_decrypt :: command where "cmd_decrypt \<equiv> 66"
abbreviation (input) cmd_decrypted :: command where "cmd_decrypted \<equiv> 67"
abbreviation (input) cmd_check_id :: command where "cmd_check_id \<equiv> 68"
abbreviation (input) cmd_id_found :: command where "cmd_id_found \<equiv> 69"
abbreviation (input) cmd_id_not_found :: command where "cmd_id_not_found \<equiv> 70"
abbreviation (input) cmd_reencrypt_key :: command where "cmd_reencrypt_key \<equiv> 71"
abbreviation (input) cmd_reencrypted_key :: command where "cmd_reencrypted_key \<equiv> 72"
abbreviation (input) cmd_move_cache_to_storage :: command where "cmd_move_cache_to_storage \<equiv> 73"
abbreviation (input) cmd_move_cache_to_storage_completed :: command where "cmd_move_cache_to_storage_completed \<equiv> 74"
abbreviation (input) cmd_on_update_register :: command where "cmd_on_update_register \<equiv> 75"
abbreviation (input) cmd_on_update_registered :: command where "cmd_on_update_registered \<equiv> 76"
abbreviation (input) cmd_on_update_register_fail :: command where "cmd_on_update_register_fail \<equiv> 77"
abbreviation (input) cmd_get_public_key :: command where "cmd_get_public_key \<equiv> 78"
abbreviation (input) cmd_get_public_key_response :: command where "cmd_get_public_key_response \<equiv> 79"
abbreviation (input) cmd_update_listeners_path :: command where "cmd_update_listeners_path \<equiv> 80"
abbreviation (input) cmd_kernel_cfg :: command where "cmd_kernel_cfg \<equiv> 81"
abbreviation (input) cmd_save_stream :: command where "cmd_save_stream \<equiv> 82"
abbreviation (input) cmd_save_stream_offer :: command where "cmd_save_stream_offer \<equiv> 83"
abbreviation (input) cmd_livestream_content :: command where "cmd_livestream_content \<equiv> 84"
abbreviation (input) cmd_livestream_cancel :: command where "cmd_livestream_cancel \<equiv> 85"
abbreviation (input) cmd_get_livestream_content :: command where "cmd_get_livestream_content \<equiv> 86"
abbreviation (input) cmd_gen_key_for_stream :: command where "cmd_gen_key_for_stream \<equiv> 87"
abbreviation (input) cmd_stream_encrypt :: command where "cmd_stream_encrypt \<equiv> 88"
abbreviation (input) cmd_stream_decrypt :: command where "cmd_stream_decrypt \<equiv> 89"
abbreviation (input) cmd_prepare_cipher_for_stream :: command where "cmd_prepare_cipher_for_stream \<equiv> 90"
abbreviation (input) cmd_cancel_livestream_get :: command where "cmd_cancel_livestream_get \<equiv> 91"
abbreviation (input) cmd_user_json :: command where "cmd_user_json \<equiv> 92"
abbreviation (input) cmd_initialized_keys :: command where "cmd_initialized_keys \<equiv> 93"
abbreviation (input) cmd_accept_share :: command where "cmd_accept_share \<equiv> 94"
abbreviation (input) cmd_share_accepted :: command where "cmd_share_accepted \<equiv> 95"
abbreviation (input) cmd_accept_share_fail :: command where "cmd_accept_share_fail \<equiv> 96"
abbreviation (input) cmd_decrypt_key :: command where "cmd_decrypt_key \<equiv> 97"
abbreviation (input) cmd_save_stream_fail :: command where "cmd_save_stream_fail \<equiv> 98"
abbreviation (input) cmd_get_livestream_fail :: command where "cmd_get_livestream_fail \<equiv> 99"
abbreviation (input) cmd_livestream_decrypted :: command where "cmd_livestream_decrypted \<equiv> 100"
abbreviation (input) cmd_stream_auth :: command where "cmd_stream_auth \<equiv> 101"
abbreviation (input) cmd_stream_decrypt_fail :: command where "cmd_stream_decrypt_fail \<equiv> 102"
abbreviation (input) cmd_delete_fail :: command where "cmd_delete_fail \<equiv> 103"
abbreviation (input) cmd_notify_update :: command where "cmd_notify_update \<equiv> 104"
abbreviation (input) cmd_device_id :: command where "cmd_device_id \<equiv> 105"
abbreviation (input) cmd_get_online_peers :: command where "cmd_get_online_peers \<equiv> 106"
abbreviation (input) cmd_get_online_peers_response :: command where "cmd_get_online_peers_response \<equiv> 107"
abbreviation (input) cmd_copy :: command where "cmd_copy \<equiv> 108"
abbreviation (input) cmd_copy_succeeded :: command where "cmd_copy_succeeded \<equiv> 109"
abbreviation (input) cmd_copy_failed :: command where "cmd_copy_failed \<equiv> 110"
abbreviation (input) cmd_router_config :: command where "cmd_router_config \<equiv> 111"
abbreviation (input) cmd_get_metax_info :: command where "cmd_get_metax_info \<equiv> 112"
abbreviation (input) cmd_get_metax_info_response :: command where "cmd_get_metax_info_response \<equiv> 113"
abbreviation (input) cmd_journalize :: command where "cmd_journalize \<equiv> 114"
abbreviation (input) cmd_backup_cfg :: command where "cmd_backup_cfg \<equiv> 115"
abbreviation (input) cmd_send_journal_info :: command where "cmd_send_journal_info \<equiv> 116"
abbreviation (input) cmd_get_journal_info :: command where "cmd_get_journal_info \<equiv> 117"
abbreviation (input) cmd_send_uuids :: command where "cmd_send_uuids \<equiv> 118"
abbreviation (input) cmd_get_uuid :: command where "cmd_get_uuid \<equiv> 119"
abbreviation (input) cmd_del_uuids :: command where "cmd_del_uuids \<equiv> 120"
abbreviation (input) cmd_reconnect_to_peers :: command where "cmd_reconnect_to_peers \<equiv> 121"
abbreviation (input) cmd_start_storage_sync :: command where "cmd_start_storage_sync \<equiv> 122"
abbreviation (input) cmd_notify_delete :: command where "cmd_notify_delete \<equiv> 123"
abbreviation (input) cmd_on_update_unregister :: command where "cmd_on_update_unregister \<equiv> 124"
abbreviation (input) cmd_on_update_unregistered :: command where "cmd_on_update_unregistered \<equiv> 125"
abbreviation (input) cmd_on_update_unregister_fail :: command where "cmd_on_update_unregister_fail \<equiv> 126"
abbreviation (input) cmd_sync_finished :: command where "cmd_sync_finished \<equiv> 127"
abbreviation (input) cmd_set_metax_info :: command where "cmd_set_metax_info \<equiv> 128"
abbreviation (input) cmd_set_metax_info_ok :: command where "cmd_set_metax_info_ok \<equiv> 129"
abbreviation (input) cmd_set_metax_info_fail :: command where "cmd_set_metax_info_fail \<equiv> 130"
abbreviation (input) cmd_recording_start :: command where "cmd_recording_start \<equiv> 131"
abbreviation (input) cmd_recording_stop :: command where "cmd_recording_stop \<equiv> 132"
abbreviation (input) cmd_recording_fail :: command where "cmd_recording_fail \<equiv> 133"
abbreviation (input) cmd_recording_started :: command where "cmd_recording_started \<equiv> 134"
abbreviation (input) cmd_recording_stopped :: command where "cmd_recording_stopped \<equiv> 135"
abbreviation (input) cmd_get_user_keys :: command where "cmd_get_user_keys \<equiv> 136"
abbreviation (input) cmd_get_user_keys_response :: command where "cmd_get_user_keys_response \<equiv> 137"
abbreviation (input) cmd_gen_aes_key :: command where "cmd_gen_aes_key \<equiv> 138"
abbreviation (input) cmd_get_aes_key :: command where "cmd_get_aes_key \<equiv> 139"
abbreviation (input) cmd_dump_user_info :: command where "cmd_dump_user_info \<equiv> 140"
abbreviation (input) cmd_dump_user_info_succeeded :: command where "cmd_dump_user_info_succeeded \<equiv> 141"
abbreviation (input) cmd_sync_started :: command where "cmd_sync_started \<equiv> 142"
abbreviation (input) cmd_start_pairing :: command where "cmd_start_pairing \<equiv> 143"
abbreviation (input) cmd_get_generated_code :: command where "cmd_get_generated_code \<equiv> 144"
abbreviation (input) cmd_cancel_pairing :: command where "cmd_cancel_pairing \<equiv> 145"
abbreviation (input) cmd_get_pairing_peers :: command where "cmd_get_pairing_peers \<equiv> 146"
abbreviation (input) cmd_get_pairing_peers_response :: command where "cmd_get_pairing_peers_response \<equiv> 147"
abbreviation (input) cmd_request_keys :: command where "cmd_request_keys \<equiv> 148"
abbreviation (input) cmd_request_keys_response :: command where "cmd_request_keys_response \<equiv> 149"
abbreviation (input) cmd_regenerate_user_keys :: command where "cmd_regenerate_user_keys \<equiv> 150"
abbreviation (input) cmd_regenerate_user_keys_succeeded :: command where "cmd_regenerate_user_keys_succeeded \<equiv> 151"
abbreviation (input) cmd_regenerate_user_keys_fail :: command where "cmd_regenerate_user_keys_fail \<equiv> 152"
abbreviation (input) cmd_start_pairing_fail :: command where "cmd_start_pairing_fail \<equiv> 153"
abbreviation (input) cmd_request_keys_fail :: command where "cmd_request_keys_fail \<equiv> 154"
abbreviation (input) cmd_add_peer_failed :: command where "cmd_add_peer_failed \<equiv> 155"
abbreviation (input) cmd_add_friend :: command where "cmd_add_friend \<equiv> 156"
abbreviation (input) cmd_add_friend_confirm :: command where "cmd_add_friend_confirm \<equiv> 157"
abbreviation (input) cmd_add_friend_failed :: command where "cmd_add_friend_failed \<equiv> 158"
abbreviation (input) cmd_get_friend_list :: command where "cmd_get_friend_list \<equiv> 159"
abbreviation (input) cmd_get_friend_list_response :: command where "cmd_get_friend_list_response \<equiv> 160"
abbreviation (input) cmd_get_friend :: command where "cmd_get_friend \<equiv> 161"
abbreviation (input) cmd_get_friend_found :: command where "cmd_get_friend_found \<equiv> 162"
abbreviation (input) cmd_get_friend_not_found :: command where "cmd_get_friend_not_found \<equiv> 163"
abbreviation (input) cmd_no_space :: command where "cmd_no_space \<equiv> 164"
abbreviation (input) cmd_verify_peer :: command where "cmd_verify_peer \<equiv> 165"
abbreviation (input) cmd_peer_verified :: command where "cmd_peer_verified \<equiv> 166"
abbreviation (input) cmd_peer_not_verified :: command where "cmd_peer_not_verified \<equiv> 167"
abbreviation (input) cmd_get_user_keys_failed :: command where "cmd_get_user_keys_failed \<equiv> 168"
abbreviation (input) cmd_key_init_fail :: command where "cmd_key_init_fail \<equiv> 169"
abbreviation (input) cmd_decrypt_with_portions :: command where "cmd_decrypt_with_portions \<equiv> 170"
abbreviation (input) cmd_max_command :: command where "cmd_max_command \<equiv> 171"

end
