(* ===== verification/Wire.thy ===== *)
theory Wire
  imports Metax_Prelude
begin

text \<open>
  Bytes on the wire. \<open>be16\<close>, \<open>be32\<close>, \<open>be64\<close> and \<open>be128\<close> are what
  \<^verbatim>\<open>Poco::ByteOrder::toNetwork\<close> followed by \<^verbatim>\<open>std::memcpy\<close> leaves in a buffer (for a UUID,
  \<^verbatim>\<open>UUID::copyTo\<close>); \<open>mem_read\<close> is a \<^verbatim>\<open>memcpy\<close> out of a buffer, and its \<open>None\<close> is a read outside of
  the allocation. The locale \<open>wire_codec\<close> is what the serialisers rely on: fixed width and
  decoding after encoding; it is interpreted for the four widths the protocols use.
\<close>

section \<open>Big-endian integers\<close>

fun le_bytes :: "nat \<Rightarrow> nat \<Rightarrow> byte list" where
  "le_bytes 0 k = []"
| "le_bytes (Suc n) k = of_nat (k mod 256) # le_bytes n (k div 256)"

fun le_val :: "byte list \<Rightarrow> nat" where
  "le_val [] = 0"
| "le_val (b # bs) = unat b + 256 * le_val bs"

definition be_bytes :: "nat \<Rightarrow> nat \<Rightarrow> byte list" where
  "be_bytes n k = rev (le_bytes n k)"

definition un_be :: "byte list \<Rightarrow> 'a::len word" where
  "un_be bs = of_nat (le_val (rev bs))"

definition be16 :: "ID16 \<Rightarrow> byte list" where
  "be16 w = be_bytes 2 (unat w)"

definition be32 :: "ID32 \<Rightarrow> byte list" where
  "be32 w = be_bytes 4 (unat w)"

definition be64 :: "u64 \<Rightarrow> byte list" where
  "be64 w = be_bytes 8 (unat w)"

definition be128 :: "uuid \<Rightarrow> byte list" where
  "be128 w = be_bytes 16 (unat w)"

lemma length_le_bytes [simp]: "length (le_bytes n k) = n"
  by (induction n arbitrary: k) auto

lemma length_be_bytes [simp]: "length (be_bytes n k) = n"
  by (simp add: be_bytes_def)

lemma le_val_le_bytes: "le_val (le_bytes n k) = k mod 256 ^ n"
proof (induction n arbitrary: k)
  case 0
  then show ?case by simp
next
  case (Suc n)
  have "le_val (le_bytes (Suc n) k) = k mod 256 + 256 * (k div 256 mod 256 ^ n)"
    by (simp add: Suc unat_of_nat)
  also have "\<dots> = k mod 256 ^ Suc n"
    by (simp add: mod_mult2_eq)
  finally show ?case .
qed

lemma un_be_be_bytes:
  assumes "LENGTH('a::len) = 8 * n"
  shows "un_be (be_bytes n (unat (w :: 'a word))) = w"
proof -
  have "(256 :: nat) ^ n = 2 ^ LENGTH('a)"
    unfolding assms by (simp add: power_mult)
  then have "unat w mod 256 ^ n = unat w"
    by (simp add: take_bit_nat_eq_self flip: take_bit_eq_mod)
  then show ?thesis
    by (simp add: un_be_def be_bytes_def le_val_le_bytes)
qed

section \<open>Reading a buffer\<close>

definition mem_read :: "byte list option \<Rightarrow> nat \<Rightarrow> nat \<Rightarrow> byte list option" where
  "mem_read m off n =
     (case m of None \<Rightarrow> None
      | Some bs \<Rightarrow> if off + n \<le> length bs then Some (take n (drop off bs)) else None)"

lemma mem_read_skip:
  "length pre \<le> off \<Longrightarrow> mem_read (Some (pre @ rest)) off n = mem_read (Some rest) (off - length pre) n"
  by (auto simp: mem_read_def)

lemma mem_read_head: "length x = n \<Longrightarrow> mem_read (Some (x @ rest)) 0 n = Some x"
  by (auto simp: mem_read_def)

lemma mem_read_Some_length: "mem_read m off n = Some bs \<Longrightarrow> length bs = n"
  by (auto simp: mem_read_def split: option.splits if_splits)

definition u16_at :: "byte list option \<Rightarrow> nat \<Rightarrow> ID16 option" where
  "u16_at m off = map_option un_be (mem_read m off 2)"

definition u32_at :: "byte list option \<Rightarrow> nat \<Rightarrow> ID32 option" where
  "u32_at m off = map_option un_be (mem_read m off 4)"

definition u64_at :: "byte list option \<Rightarrow> nat \<Rightarrow> u64 option" where
  "u64_at m off = map_option un_be (mem_read m off 8)"

definition uuid_at :: "byte list option \<Rightarrow> nat \<Rightarrow> uuid option" where
  "uuid_at m off = map_option un_be (mem_read m off 16)"

section \<open>The codec interface\<close>

locale wire_codec =
  fixes enc :: "'a \<Rightarrow> byte list" and dec :: "byte list \<Rightarrow> 'a" and width :: nat
  assumes length_enc: "length (enc x) = width"
    and dec_enc: "dec (enc x) = x"
begin

lemma read_head: "map_option dec (mem_read (Some (enc x @ rest)) 0 width) = Some x"
  by (simp add: mem_read_head length_enc dec_enc)

lemma read_skip:
  "width \<le> off \<Longrightarrow> mem_read (Some (enc x @ rest)) off n = mem_read (Some rest) (off - width) n"
  by (simp add: mem_read_skip length_enc)

lemma enc_inject: "enc x = enc y \<longleftrightarrow> x = y"
  by (metis dec_enc)

lemma length_concat_enc: "length (concat (map enc xs)) = length xs * width"
  by (induction xs) (simp_all add: length_enc)

lemma enc_append_inject: "enc x @ xs = enc y @ ys \<longleftrightarrow> x = y \<and> xs = ys"
  using length_enc [of x] length_enc [of y] by (auto simp: enc_inject)

end

interpretation w16: wire_codec be16 un_be 2
  by unfold_locales (simp_all add: be16_def un_be_be_bytes)

interpretation w32: wire_codec be32 un_be 4
  by unfold_locales (simp_all add: be32_def un_be_be_bytes)

interpretation w64: wire_codec be64 un_be 8
  by unfold_locales (simp_all add: be64_def un_be_be_bytes)

interpretation w128: wire_codec be128 un_be 16
  by unfold_locales (simp_all add: be128_def un_be_be_bytes)

lemma length_be [simp]:
  "length (be16 a) = 2" "length (be32 b) = 4" "length (be64 c) = 8" "length (be128 d) = 16"
  by (simp_all add: w16.length_enc w32.length_enc w64.length_enc w128.length_enc)

lemma at_head [simp]:
  "u16_at (Some (be16 a @ rest)) 0 = Some a"
  "u32_at (Some (be32 b @ rest)) 0 = Some b"
  "u64_at (Some (be64 c @ rest)) 0 = Some c"
  "uuid_at (Some (be128 d @ rest)) 0 = Some d"
  unfolding u16_at_def u32_at_def u64_at_def uuid_at_def
  by (rule w16.read_head w32.read_head w64.read_head w128.read_head)+

lemma at_skip:
  "length pre \<le> off \<Longrightarrow> u16_at (Some (pre @ rest)) off = u16_at (Some rest) (off - length pre)"
  "length pre \<le> off \<Longrightarrow> u32_at (Some (pre @ rest)) off = u32_at (Some rest) (off - length pre)"
  "length pre \<le> off \<Longrightarrow> u64_at (Some (pre @ rest)) off = u64_at (Some rest) (off - length pre)"
  "length pre \<le> off \<Longrightarrow> uuid_at (Some (pre @ rest)) off = uuid_at (Some rest) (off - length pre)"
  by (simp_all add: u16_at_def u32_at_def u64_at_def uuid_at_def mem_read_skip)

text \<open>A counted list of 32-bit ids, read one after the other.\<close>

fun ids_at :: "byte list option \<Rightarrow> nat \<Rightarrow> nat \<Rightarrow> ID32 list option" where
  "ids_at m off 0 = Some []"
| "ids_at m off (Suc n) =
     do { x \<leftarrow> u32_at m off; xs \<leftarrow> ids_at m (off + 4) n; Some (x # xs) }"

lemma ids_at_skip:
  "length pre \<le> off \<Longrightarrow> ids_at (Some (pre @ rest)) off n = ids_at (Some rest) (off - length pre) n"
proof (induction n arbitrary: off)
  case 0
  then show ?case by simp
next
  case (Suc n)
  then have "off + 4 - length pre = off - length pre + 4"
    by simp
  with Suc show ?case by (simp add: at_skip)
qed

lemma ids_at_encoded:
  "ids_at (Some (concat (map be32 ws) @ rest)) 0 (length ws) = Some ws"
  by (induction ws) (simp_all add: ids_at_skip)

lemma ids_at_Some_length: "ids_at m off n = Some ws \<Longrightarrow> length ws = n"
  by (induction n arbitrary: off ws) (auto simp: Option.bind_eq_Some_conv)

end
