(* ===== verification/Package.thy ===== *)
theory Package
  imports Wire
begin

text \<open>
  \<^verbatim>\<open>platform/default_package.cpp\<close>: the payload every protocol package carries. \<open>p_message\<close> is the
  buffer behind the shared pointer (\<open>None\<close> for a null pointer) with every byte that was allocated,
  so the terminating zero of \<open>set_payload\<close> is one of them; \<open>p_size\<close> is the separate size field the
  code trusts. The size and the flags share one 32-bit word on the wire (\<open>size_flags\<close>).
\<close>

unbundle bit_operations_syntax

record package =
  p_size :: ID32
  p_version :: ID32
  p_flags :: "8 word"
  p_message :: "byte list option"
  p_status :: bool

definition default_package :: package where
  "default_package = \<lparr>p_size = 0, p_version = 0, p_flags = 0, p_message = None, p_status = False\<rparr>"

definition resize :: "ID32 \<Rightarrow> 'a package_scheme \<Rightarrow> 'a package_scheme" where
  "resize n p = p\<lparr>p_size := n\<rparr>"

text \<open>\<open>src\<close> is the memory behind the character pointer; its first \<open>p_size p\<close> bytes are copied.\<close>

definition set_payload_chars :: "byte list \<Rightarrow> 'a package_scheme \<Rightarrow> 'a package_scheme outcome" where
  "set_payload_chars src p =
     and_then (assert_that (p_size p \<noteq> 0) p) (\<lambda>p.
       case mem_read (Some src) 0 (unat (p_size p)) of None \<Rightarrow> Undef
       | Some bs \<Rightarrow> Done (p\<lparr>p_message := Some (bs @ [0])\<rparr>))"

definition set_payload_owned :: "byte list \<Rightarrow> 'a package_scheme \<Rightarrow> 'a package_scheme outcome" where
  "set_payload_owned buf p =
     and_then (assert_that (p_size p \<noteq> 0) p) (\<lambda>p. Done (p\<lparr>p_message := Some buf\<rparr>))"

definition set_payload_string :: "byte list \<Rightarrow> 'a package_scheme \<Rightarrow> 'a package_scheme outcome" where
  "set_payload_string str p =
     (let p = resize (of_nat (length str)) p in
      and_then (assert_that (length str = unat (p_size p)) p) (\<lambda>p.
        Done (p\<lparr>p_message := Some (str @ [0])\<rparr>)))"

text \<open>Assignment from another package copies the five members of the base class.\<close>

definition set_payload :: "'b package_scheme \<Rightarrow> 'a package_scheme \<Rightarrow> 'a package_scheme" where
  "set_payload src p = p\<lparr>p_size := p_size src, p_version := p_version src, p_flags := p_flags src,
     p_message := p_message src, p_status := p_status src\<rparr>"

definition reset_package :: "'a package_scheme \<Rightarrow> 'a package_scheme" where
  "reset_package p = p\<lparr>p_message := None, p_size := 0, p_status := False\<rparr>"

definition extract_payload ::
    "'b package_scheme \<Rightarrow> nat \<Rightarrow> 'a package_scheme \<Rightarrow> 'a package_scheme outcome" where
  "extract_payload pkg offset d =
     (let d = reset_package d in
      if offset + 4 > unat (p_size pkg) then Thrown d
      else case u32_at (p_message pkg) offset of None \<Rightarrow> Undef
      | Some n_size \<Rightarrow>
          let d = d\<lparr>p_flags := ucast (drop_bit 24 n_size AND 0x000000FF),
                    p_size := n_size AND 0x00FFFFFF\<rparr>;
              offset = offset + 4 in
          if p_size d = 0 then Done d
          else if offset + unat (p_size d) > unat (p_size pkg) then Thrown d
          else case mem_read (p_message pkg) offset (unat (p_size d)) of None \<Rightarrow> Undef
          | Some bs \<Rightarrow> Done (d\<lparr>p_message := Some (bs @ [0])\<rparr>))"

definition package_of_string :: "byte list \<Rightarrow> package outcome" where
  "package_of_string str = set_payload_string str default_package"

section \<open>Payloads\<close>

text \<open>The bytes a package carries; \<open>None\<close> where size and buffer disagree.\<close>

definition payload_of :: "'a package_scheme \<Rightarrow> byte list option" where
  "payload_of p = (if p_size p = 0 then Some [] else mem_read (p_message p) 0 (unat (p_size p)))"

definition size_flags :: "'a package_scheme \<Rightarrow> ID32" where
  "size_flags p = p_size p OR (push_bit 24 (ucast (p_flags p)) AND 0xFF000000)"

lemma payload_of_length: "payload_of p = Some bs \<Longrightarrow> length bs = unat (p_size p)"
  by (auto simp: payload_of_def mem_read_def split: if_splits option.splits)

lemma payload_of_set_payload [simp]: "payload_of (set_payload src p) = payload_of src"
  by (simp add: payload_of_def set_payload_def)

lemma set_payload_fields [simp]:
  "p_size (set_payload src p) = p_size src" "p_version (set_payload src p) = p_version src"
  "p_flags (set_payload src p) = p_flags src" "p_message (set_payload src p) = p_message src"
  "p_status (set_payload src p) = p_status src"
  by (simp_all add: set_payload_def)

lemma set_payload_string_payload:
  "set_payload_string str p = Done p' \<Longrightarrow> payload_of p' = Some str"
  by (auto simp: set_payload_string_def resize_def Let_def and_then_Done_iff assert_that_Done_iff
      payload_of_def mem_read_def)

text \<open>Packages with a payload of less than 16 MB, as the class comment assumes.\<close>

definition small_package :: "'a package_scheme \<Rightarrow> bool" where
  "small_package p \<longleftrightarrow> unat (p_size p) < 2 ^ 24 \<and> payload_of p \<noteq> None"

lemma bit_less_of_unat_less:
  assumes "unat (w :: ID32) < 2 ^ n" and "bit w k"
  shows "k < n"
proof -
  have "bit (take_bit n (unat w)) k"
    using assms by (simp add: take_bit_nat_eq_self bit_unsigned_iff)
  then show ?thesis
    by (simp add: bit_take_bit_iff)
qed

lemma size_flags_size:
  assumes "unat (p_size p) < 2 ^ 24"
  shows "size_flags p AND 0x00FFFFFF = p_size p"
proof (rule bit_word_eqI)
  fix n
  have b: "bit (p_size p) k \<Longrightarrow> k < 24" for k
    by (rule bit_less_of_unat_less [OF assms])
  have m: "(0x00FFFFFF :: ID32) = mask 24"
    by (simp add: mask_eq_exp_minus_1)
  assume "n < LENGTH(32)"
  then show "bit (size_flags p AND 0x00FFFFFF) n = bit (p_size p) n"
    unfolding m size_flags_def using b [of n] by (auto simp: bit_simps)
qed

lemma size_flags_flags:
  assumes "unat (p_size p) < 2 ^ 24"
  shows "ucast (drop_bit 24 (size_flags p) AND (0x000000FF :: ID32)) = p_flags p"
proof (rule bit_word_eqI)
  fix n
  have b: "bit (p_size p) k \<Longrightarrow> k < 24" for k
    by (rule bit_less_of_unat_less [OF assms])
  have m: "(0x000000FF :: ID32) = mask 8" "(0xFF000000 :: ID32) = push_bit 24 (mask 8)"
    by (simp_all add: mask_eq_exp_minus_1)
  assume "n < LENGTH(8)"
  then show "bit (ucast (drop_bit 24 (size_flags p) AND (0x000000FF :: ID32)) :: 8 word) n = bit (p_flags p) n"
    unfolding m size_flags_def using b [of "24 + n"] by (auto simp: bit_simps)
qed

text \<open>
  What a serialiser appends after its header is what \<open>extract_payload\<close> reads at that offset.
\<close>

definition payload_tail :: "'a package_scheme \<Rightarrow> byte list option" where
  "payload_tail p = map_option (\<lambda>bs. be32 (size_flags p) @ bs) (payload_of p)"

lemma payload_tail_length: "payload_tail p = Some tail \<Longrightarrow> length tail = 4 + unat (p_size p)"
  by (auto simp: payload_tail_def dest: payload_of_length)

lemma extract_payload_tail:
  assumes small: "small_package d" and tail: "payload_tail d = Some tail"
    and msg: "p_message pkg = Some (hdr @ tail)" and sz: "unat (p_size pkg) = length hdr + length tail"
  shows "\<exists>e'. extract_payload pkg (length hdr) e = Done e' \<and> payload_of e' = payload_of d
    \<and> p_size e' = p_size d \<and> p_flags e' = p_flags d \<and> package.more e' = package.more e"
proof -
  from tail obtain bs where pl: "payload_of d = Some bs" and tailE: "tail = be32 (size_flags d) @ bs"
    by (auto simp: payload_tail_def)
  have len: "length bs = unat (p_size d)"
    using pl by (rule payload_of_length)
  have s: "unat (p_size d) < 2 ^ 24"
    using small by (simp add: small_package_def)
  have rd: "u32_at (p_message pkg) (length hdr) = Some (size_flags d)"
    by (simp add: msg tailE at_skip)
  have rp: "mem_read (p_message pkg) (length hdr + 4) (unat (p_size d)) = Some bs"
    using len by (simp add: msg tailE mem_read_skip) (simp add: mem_read_def)
  have "p_size d = 0 \<Longrightarrow> bs = []"
    using len by simp
  then show ?thesis
    using len pl sz rp
    by (auto simp: extract_payload_def Let_def rd size_flags_size [OF s] size_flags_flags [OF s]
        tailE reset_package_def payload_of_def mem_read_def)
qed

end
