(* ===== verification/Protocols.thy ===== *)
theory Protocols
  imports Commands Package
begin

text \<open>
  \<^verbatim>\<open>metax/protocols.hpp\<close>: the packages the tasks exchange and the three wire formats
  (\<^verbatim>\<open>router_data\<close> between routers, \<^verbatim>\<open>link_data\<close> between links, \<^verbatim>\<open>key_transfer_package\<close> between key
  managers). A serialiser returns \<open>None\<close> where the C++ code would write outside the buffer it
  allocates or read outside the payload; a header parser returns \<open>None\<close> where it would read outside
  the received buffer (the code makes no bounds check there). The lemmas are the round trips.
\<close>

section \<open>Packages between tasks\<close>

record router_link_package = package +
  rl_request_id :: ID32
  rl_cmd :: command
  rl_peers :: "ID32 list"
  rl_cmd_rating :: ID32
  rl_should_block_by_sync :: bool

definition router_link_package0 :: router_link_package where
  "router_link_package0 = package.extend default_package
     \<lparr>rl_request_id = 0, rl_cmd = cmd_max_command, rl_peers = [], rl_cmd_rating = 0,
      rl_should_block_by_sync = False\<rparr>"

record kernel_router_package = package +
  kr_request_id :: ID32
  kr_cmd :: command
  kr_uuid :: uuid
  kr_max_response_cnt :: ID16
  kr_winners_count :: ID16
  kr_data_version :: ID32
  kr_last_updated :: u64
  kr_expire_date :: u64

definition kernel_router_package0 :: kernel_router_package where
  "kernel_router_package0 = package.extend default_package
     \<lparr>kr_request_id = 0, kr_cmd = cmd_max_command, kr_uuid = 0, kr_max_response_cnt = 1,
      kr_winners_count = 0, kr_data_version = 0, kr_last_updated = 0, kr_expire_date = 0\<rparr>"

record router_cfg_package = package +
  rc_cmd :: command
  rc_max_hops :: ID16
  rc_peer_response_wait_time :: ID16

record kernel_storage_package = package +
  ks_request_id :: ID32
  ks_cmd :: command
  ks_uuid :: uuid
  ks_should_send_response :: bool
  ks_check_cache :: bool

definition kernel_storage_package0 :: kernel_storage_package where
  "kernel_storage_package0 = package.extend default_package
     \<lparr>ks_request_id = 0, ks_cmd = cmd_max_command, ks_uuid = 0, ks_should_send_response = True,
      ks_check_cache = True\<rparr>"

section \<open>Wire formats\<close>

text \<open>The common end of the serialisers: allocate \<open>tot\<close> bytes, write header, size word, payload.\<close>

definition write_out :: "byte list \<Rightarrow> nat \<Rightarrow> 'a package_scheme \<Rightarrow> 'b package_scheme \<Rightarrow> 'b package_scheme option" where
  "write_out hdr tot d pkg =
     (case payload_tail d of None \<Rightarrow> None
      | Some tail \<Rightarrow>
          let n = of_nat tot :: ID32 in
          if length hdr + length tail = unat n
          then Some (pkg\<lparr>p_size := n, p_message := Some (hdr @ tail)\<rparr>) else None)"

text \<open>A \<^verbatim>\<open>std::string\<close> member: its length in 32 bits, then that many of its bytes.\<close>

definition str_bytes :: "byte list \<Rightarrow> byte list" where
  "str_bytes s = be32 (of_nat (length s)) @ take (unat (of_nat (length s) :: ID32)) s"

definition str_at :: "byte list option \<Rightarrow> nat \<Rightarrow> (byte list \<times> nat) option" where
  "str_at m off =
     do { n \<leftarrow> u32_at m off; s \<leftarrow> mem_read m (off + 4) (unat n); Some (s, off + 4 + unat n) }"

subsection \<open>router\_data\<close>

record router_data = package +
  rd_tender_id :: uuid
  rd_cmd :: command
  rd_uuid :: uuid
  rd_hop_id :: ID16
  rd_data_version :: ID32
  rd_last_updated :: u64
  rd_expire_date :: u64
  rd_winners_id :: "ID32 list"

definition router_data0 :: router_data where
  "router_data0 = package.extend default_package
     \<lparr>rd_tender_id = 0, rd_cmd = cmd_max_command, rd_uuid = 0, rd_hop_id = 0, rd_data_version = 0,
      rd_last_updated = 0, rd_expire_date = 0, rd_winners_id = []\<rparr>"

definition rd_header_bytes :: "'a router_data_scheme \<Rightarrow> byte list" where
  "rd_header_bytes d =
     be32 (p_version d) @ be128 (rd_tender_id d) @ be32 (rd_cmd d) @ be128 (rd_uuid d)
     @ be16 (rd_hop_id d) @ be32 (rd_data_version d) @ be64 (rd_last_updated d)
     @ be64 (rd_expire_date d) @ be64 (of_nat (length (rd_winners_id d)))
     @ concat (map be32 (rd_winners_id d))"

definition rd_header_size :: "'a router_data_scheme \<Rightarrow> ID32" where
  "rd_header_size d =
     of_nat (16 + 4 + 16 + 2 + 4 + 8 + 8 + 4 + length (rd_winners_id d) * 4 + 8)"

definition rd_serialize :: "'a router_data_scheme \<Rightarrow> 'b package_scheme \<Rightarrow> 'b package_scheme option" where
  "rd_serialize d pkg =
     write_out (rd_header_bytes d) (unat (rd_header_size d) + 4 + unat (p_size d)) d pkg"

text \<open>The ids of the winners are appended to those the object already holds.\<close>

definition rd_extract_header ::
    "'b package_scheme \<Rightarrow> 'a router_data_scheme \<Rightarrow> ('a router_data_scheme \<times> ID32) option" where
  "rd_extract_header pkg d =
     do {
       let m = p_message pkg;
       version \<leftarrow> u32_at m 0;
       tender_id \<leftarrow> uuid_at m 4;
       cmd \<leftarrow> u32_at m 20;
       uuid \<leftarrow> uuid_at m 24;
       hop_id \<leftarrow> u16_at m 40;
       data_version \<leftarrow> u32_at m 42;
       last_updated \<leftarrow> u64_at m 46;
       expire_date \<leftarrow> u64_at m 54;
       ws \<leftarrow> u64_at m 62;
       wids \<leftarrow> ids_at m 70 (unat ws);
       Some (d\<lparr>p_version := version, rd_tender_id := tender_id, rd_cmd := cmd, rd_uuid := uuid,
               rd_hop_id := hop_id, rd_data_version := data_version,
               rd_last_updated := last_updated, rd_expire_date := expire_date,
               rd_winners_id := rd_winners_id d @ wids\<rparr>,
             of_nat (70 + 4 * length wids))
     }"

definition rd_reset :: "'a router_data_scheme \<Rightarrow> 'a router_data_scheme" where
  "rd_reset d = reset_package (d\<lparr>rd_tender_id := 0, rd_cmd := cmd_max_command, rd_uuid := 0,
     rd_winners_id := []\<rparr>)"

definition update_hop_id :: "byte list option \<Rightarrow> ID16 \<Rightarrow> byte list option" where
  "update_hop_id m h =
     (case m of None \<Rightarrow> None
      | Some c \<Rightarrow> let b = 16 + 4 + 4 + 16 in
          if b + 2 \<le> length c then Some (take b c @ be16 h @ drop (b + 2) c) else None)"

subsection \<open>link\_data\<close>

record link_data = package +
  ld_cmd :: command
  ld_public_key :: "byte list"
  ld_load_info :: ID32

definition ld_header_bytes :: "'a link_data_scheme \<Rightarrow> byte list" where
  "ld_header_bytes d =
     be32 (p_version d) @ be32 (ld_cmd d) @ str_bytes (ld_public_key d) @ be32 (ld_load_info d)"

definition ld_header_size :: "'a link_data_scheme \<Rightarrow> ID32" where
  "ld_header_size d = of_nat (4 + length (ld_public_key d) + 4 + 4 + 4)"

definition ld_serialize :: "'a link_data_scheme \<Rightarrow> 'b package_scheme \<Rightarrow> 'b package_scheme option" where
  "ld_serialize d pkg =
     write_out (ld_header_bytes d) (unat (ld_header_size d) + 4 + unat (p_size d)) d pkg"

definition ld_extract_header ::
    "'b package_scheme \<Rightarrow> 'a link_data_scheme \<Rightarrow> ('a link_data_scheme \<times> ID32) option" where
  "ld_extract_header pkg d =
     do {
       let m = p_message pkg;
       version \<leftarrow> u32_at m 0;
       cmd \<leftarrow> u32_at m 4;
       (key, off) \<leftarrow> str_at m 8;
       load \<leftarrow> u32_at m off;
       Some (d\<lparr>p_version := version, ld_cmd := cmd, ld_public_key := key, ld_load_info := load\<rparr>,
             of_nat (off + 4))
     }"

subsection \<open>key\_transfer\_package\<close>

record key_transfer_package = package +
  kt_cmd :: command
  kt_code :: "byte list"
  kt_public_key :: "byte list"
  kt_private_key :: "byte list"
  kt_user_json_info :: "byte list"

definition kt_header_bytes :: "'a key_transfer_package_scheme \<Rightarrow> byte list" where
  "kt_header_bytes d =
     be32 (p_version d) @ be32 (kt_cmd d) @ str_bytes (kt_code d) @ str_bytes (kt_public_key d)
     @ str_bytes (kt_private_key d) @ str_bytes (kt_user_json_info d)"

definition kt_header_size :: "'a key_transfer_package_scheme \<Rightarrow> ID32" where
  "kt_header_size d =
     of_nat (4 + length (kt_code d) + 4 + length (kt_public_key d) + 4 + length (kt_private_key d)
             + 4 + length (kt_user_json_info d) + 4 + 4)"

definition kt_serialize :: "'a key_transfer_package_scheme \<Rightarrow> 'b package_scheme \<Rightarrow> 'b package_scheme option" where
  "kt_serialize d pkg =
     write_out (kt_header_bytes d) (unat (kt_header_size d) + 4 + unat (p_size d)) d pkg"

definition kt_extract_header ::
    "'b package_scheme \<Rightarrow> 'a key_transfer_package_scheme \<Rightarrow> ('a key_transfer_package_scheme \<times> ID32) option" where
  "kt_extract_header pkg d =
     do {
       let m = p_message pkg;
       version \<leftarrow> u32_at m 0;
       cmd \<leftarrow> u32_at m 4;
       (code, off) \<leftarrow> str_at m 8;
       (pub, off) \<leftarrow> str_at m off;
       (priv, off) \<leftarrow> str_at m off;
       (json, off) \<leftarrow> str_at m off;
       Some (d\<lparr>p_version := version, kt_cmd := cmd, kt_code := code, kt_public_key := pub,
               kt_private_key := priv, kt_user_json_info := json\<rparr>,
             of_nat off)
     }"

section \<open>Round trips\<close>

lemma unat_of_nat_32: "k < 2 ^ 32 \<Longrightarrow> unat (of_nat k :: ID32) = k"
  by (simp add: unat_of_nat)

lemma unat_of_nat_64: "k < 2 ^ 32 \<Longrightarrow> unat (of_nat k :: u64) = k"
  by (simp add: unat_of_nat)

lemma write_out_Some:
  assumes "small_package d" and "tot = length hdr + 4 + unat (p_size d)" and "tot < 2 ^ 32"
  shows "\<exists>tail. payload_tail d = Some tail \<and>
    write_out hdr tot d pkg = Some (pkg\<lparr>p_size := of_nat tot, p_message := Some (hdr @ tail)\<rparr>)"
proof -
  from assms(1) obtain bs where "payload_of d = Some bs"
    by (auto simp: small_package_def)
  then obtain tail where tail: "payload_tail d = Some tail"
    by (auto simp: payload_tail_def)
  moreover have "unat (of_nat tot :: ID32) = length hdr + length tail"
    using assms(2,3) payload_tail_length [OF tail] by (simp only: unat_of_nat_32 add.assoc)
  ultimately show ?thesis
    by (auto simp: write_out_def Let_def)
qed

lemma write_out_message:
  "write_out hdr tot d pkg = Some pkg' \<Longrightarrow>
    \<exists>tail. payload_tail d = Some tail \<and> p_message pkg' = Some (hdr @ tail)
      \<and> unat (p_size pkg') = length hdr + length tail \<and> package.more pkg' = package.more pkg"
  by (auto simp: write_out_def Let_def split: option.splits if_splits)

text \<open>
  A wire format: \<open>hdr\<close> writes the header of an object, \<open>parse\<close> reads one into an object that
  satisfies \<open>fresh\<close>, \<open>hsize\<close> is the size the code computes, \<open>fits\<close> bounds the lengths by 32 bits and \<open>same\<close> says that the header fields
  agree.
\<close>

locale wire_format =
  fixes hdr :: "'d package_scheme \<Rightarrow> byte list"
    and hsize :: "'d package_scheme \<Rightarrow> ID32"
    and parse :: "'p package_scheme \<Rightarrow> 'd package_scheme \<Rightarrow> ('d package_scheme \<times> ID32) option"
    and fresh :: "'d package_scheme \<Rightarrow> bool"
    and fits :: "'d package_scheme \<Rightarrow> bool"
    and same :: "'d package_scheme \<Rightarrow> 'd package_scheme \<Rightarrow> bool"
  assumes hsize_hdr: "fits d \<Longrightarrow> unat (hsize d) = length (hdr d)"
    and parse_hdr: "fits d \<Longrightarrow> fresh e \<Longrightarrow> p_message pkg = Some (hdr d @ rest) \<Longrightarrow>
      \<exists>e'. parse pkg e = Some (e', hsize e') \<and> same e' d \<and> hsize e' = hsize d"
begin

lemma round_trip:
  assumes small: "small_package d" and fits: "fits d" and bound: "length (hdr d) + 4 + unat (p_size d) < 2 ^ 32"
    and fresh: "fresh e"
  shows "\<exists>pkg' e' x. write_out (hdr d) (unat (hsize d) + 4 + unat (p_size d)) d pkg = Some pkg'
    \<and> package.more pkg' = package.more pkg
    \<and> parse pkg' e = Some (e', hsize e') \<and> same e' d
    \<and> extract_payload pkg' (unat (hsize e')) y = Done x \<and> payload_of x = payload_of d
    \<and> p_size x = p_size d \<and> p_flags x = p_flags d \<and> package.more x = package.more y"
proof -
  have hs: "unat (hsize d) = length (hdr d)"
    using fits by (rule hsize_hdr)
  obtain tail where tail: "payload_tail d = Some tail"
    and w: "write_out (hdr d) (unat (hsize d) + 4 + unat (p_size d)) d pkg
      = Some (pkg\<lparr>p_size := of_nat (unat (hsize d) + 4 + unat (p_size d)), p_message := Some (hdr d @ tail)\<rparr>)"
    using write_out_Some [OF small, of "unat (hsize d) + 4 + unat (p_size d)" "hdr d" pkg] hs bound
    by auto
  let ?p = "pkg\<lparr>p_size := of_nat (unat (hsize d) + 4 + unat (p_size d)), p_message := Some (hdr d @ tail)\<rparr>"
  obtain e' where e': "parse ?p e = Some (e', hsize e')" "same e' d" "hsize e' = hsize d"
    using parse_hdr [OF fits fresh, of ?p tail] by auto
  have "p_size ?p = of_nat (unat (hsize d) + 4 + unat (p_size d))"
    by simp
  then have "unat (p_size ?p) = length (hdr d) + length tail"
    using bound payload_tail_length [OF tail] by (simp only: hs unat_of_nat_32 add.assoc)
  then obtain x where "extract_payload ?p (length (hdr d)) y = Done x" "payload_of x = payload_of d"
    "p_size x = p_size d" "p_flags x = p_flags d" "package.more x = package.more y"
    using extract_payload_tail [OF small tail, of ?p "hdr d" y] by auto
  with w e' hs show ?thesis
    by auto
qed

end

subsection \<open>router\_data\<close>

definition rd_fresh :: "'a router_data_scheme \<Rightarrow> bool" where
  "rd_fresh e \<longleftrightarrow> rd_winners_id e = []"

definition rd_same :: "'a router_data_scheme \<Rightarrow> 'b router_data_scheme \<Rightarrow> bool" where
  "rd_same e d \<longleftrightarrow> p_version e = p_version d \<and> rd_tender_id e = rd_tender_id d \<and> rd_cmd e = rd_cmd d
     \<and> rd_uuid e = rd_uuid d \<and> rd_hop_id e = rd_hop_id d \<and> rd_data_version e = rd_data_version d
     \<and> rd_last_updated e = rd_last_updated d \<and> rd_expire_date e = rd_expire_date d
     \<and> rd_winners_id e = rd_winners_id d"

lemma length_rd_header_bytes:
  "length (rd_header_bytes d) = 70 + 4 * length (rd_winners_id d)"
  by (simp add: rd_header_bytes_def w32.length_concat_enc)

text \<open>Parsing in an object that already holds ids keeps them in front.\<close>

lemma rd_extract_header_encoded:
  assumes len: "length (rd_header_bytes d) < 2 ^ 32"
    and msg: "p_message pkg = Some (rd_header_bytes d @ rest)"
  shows "rd_extract_header pkg e = Some (e\<lparr>p_version := p_version d, rd_tender_id := rd_tender_id d,
      rd_cmd := rd_cmd d, rd_uuid := rd_uuid d, rd_hop_id := rd_hop_id d,
      rd_data_version := rd_data_version d, rd_last_updated := rd_last_updated d,
      rd_expire_date := rd_expire_date d, rd_winners_id := rd_winners_id e @ rd_winners_id d\<rparr>,
    of_nat (length (rd_header_bytes d)))"
proof -
  have w: "unat (of_nat (length (rd_winners_id d)) :: u64) = length (rd_winners_id d)"
    using len by (intro unat_of_nat_64) (simp add: length_rd_header_bytes)
  have ids: "ids_at (Some (concat (map be32 (rd_winners_id d)) @ rest)) 0 (length (rd_winners_id d))
    = Some (rd_winners_id d)"
    by (rule ids_at_encoded)
  show ?thesis
    by (simp add: rd_extract_header_def msg length_rd_header_bytes w)
      (simp add: rd_header_bytes_def at_skip ids_at_skip ids w)
qed

definition rd_fits :: "'a router_data_scheme \<Rightarrow> bool" where
  "rd_fits d \<longleftrightarrow> length (rd_header_bytes d) < 2 ^ 32"

lemma unat_rd_header_size:
  assumes "rd_fits d"
  shows "unat (rd_header_size d) = length (rd_header_bytes d)"
  using assms unfolding rd_fits_def rd_header_size_def length_rd_header_bytes
  by (subst unat_of_nat_32) simp_all

interpretation rdf: wire_format rd_header_bytes rd_header_size rd_extract_header rd_fresh rd_fits rd_same
proof
  fix d :: "'a router_data_scheme"
  assume "rd_fits d"
  then show "unat (rd_header_size d) = length (rd_header_bytes d)"
    by (rule unat_rd_header_size)
next
  fix d e :: "'a router_data_scheme" and pkg :: "'b package_scheme" and rest
  assume "rd_fits d" and "rd_fresh e" and "p_message pkg = Some (rd_header_bytes d @ rest)"
  then show "\<exists>e'. rd_extract_header pkg e = Some (e', rd_header_size e') \<and> rd_same e' d
      \<and> rd_header_size e' = rd_header_size d"
    by (simp add: rd_extract_header_encoded rd_fits_def rd_fresh_def rd_same_def rd_header_size_def
        length_rd_header_bytes add.commute)
qed

subsection \<open>link\_data and key\_transfer\_package\<close>

lemma length_str_bytes: "length s < 2 ^ 32 \<Longrightarrow> length (str_bytes s) = 4 + length s"
  by (simp only: str_bytes_def length_append length_be length_take unat_of_nat_32 min.idem)

lemma str_at_head:
  "length s < 2 ^ 32 \<Longrightarrow> str_at (Some (str_bytes s @ rest)) 0 = Some (s, 4 + length s)"
  by (simp add: str_at_def str_bytes_def unat_of_nat_32 mem_read_skip mem_read_head)

lemma str_at_skip:
  assumes "length pre \<le> off"
  shows "str_at (Some (pre @ rest)) off
    = map_option (\<lambda>(s, o'). (s, o' + length pre)) (str_at (Some rest) (off - length pre))"
  using assms by (auto simp: str_at_def at_skip mem_read_skip split: Option.bind_split)

definition ld_same :: "'a link_data_scheme \<Rightarrow> 'b link_data_scheme \<Rightarrow> bool" where
  "ld_same e d \<longleftrightarrow> p_version e = p_version d \<and> ld_cmd e = ld_cmd d
     \<and> ld_public_key e = ld_public_key d \<and> ld_load_info e = ld_load_info d"

definition kt_same :: "'a key_transfer_package_scheme \<Rightarrow> 'b key_transfer_package_scheme \<Rightarrow> bool" where
  "kt_same e d \<longleftrightarrow> p_version e = p_version d \<and> kt_cmd e = kt_cmd d \<and> kt_code e = kt_code d
     \<and> kt_public_key e = kt_public_key d \<and> kt_private_key e = kt_private_key d
     \<and> kt_user_json_info e = kt_user_json_info d"

definition ld_fits :: "'a link_data_scheme \<Rightarrow> bool" where
  "ld_fits d \<longleftrightarrow> 16 + length (ld_public_key d) < 2 ^ 32"

definition kt_fits :: "'a key_transfer_package_scheme \<Rightarrow> bool" where
  "kt_fits d \<longleftrightarrow> 24 + length (kt_code d) + length (kt_public_key d) + length (kt_private_key d)
     + length (kt_user_json_info d) < 2 ^ 32"

lemma length_ld_header_bytes:
  "ld_fits d \<Longrightarrow> length (ld_header_bytes d) = 16 + length (ld_public_key d)"
  by (simp add: ld_header_bytes_def length_str_bytes ld_fits_def)

lemma length_kt_header_bytes:
  "kt_fits d \<Longrightarrow> length (kt_header_bytes d) = 24 + length (kt_code d) + length (kt_public_key d)
    + length (kt_private_key d) + length (kt_user_json_info d)"
  by (simp add: kt_header_bytes_def length_str_bytes kt_fits_def)

lemma ld_extract_header_encoded:
  assumes "ld_fits d" and "p_message pkg = Some (ld_header_bytes d @ rest)"
  shows "ld_extract_header pkg e =
    Some (e\<lparr>p_version := p_version d, ld_cmd := ld_cmd d, ld_public_key := ld_public_key d,
       ld_load_info := ld_load_info d\<rparr>, of_nat (16 + length (ld_public_key d)))"
  using assms
  by (simp add: ld_fits_def ld_extract_header_def ld_header_bytes_def at_skip str_at_skip
      str_at_head length_str_bytes)

lemma kt_extract_header_encoded:
  assumes "kt_fits d" and "p_message pkg = Some (kt_header_bytes d @ rest)"
  shows "kt_extract_header pkg e =
    Some (e\<lparr>p_version := p_version d, kt_cmd := kt_cmd d, kt_code := kt_code d,
       kt_public_key := kt_public_key d, kt_private_key := kt_private_key d,
       kt_user_json_info := kt_user_json_info d\<rparr>,
     of_nat (24 + length (kt_code d) + length (kt_public_key d) + length (kt_private_key d)
       + length (kt_user_json_info d)))"
  using assms
  by (simp add: kt_fits_def kt_extract_header_def kt_header_bytes_def at_skip str_at_skip
      str_at_head length_str_bytes)

interpretation ldf: wire_format ld_header_bytes ld_header_size ld_extract_header "\<lambda>_. True" ld_fits ld_same
proof
  fix d :: "'a link_data_scheme"
  assume f: "ld_fits d"
  show "unat (ld_header_size d) = length (ld_header_bytes d)"
    using f unfolding length_ld_header_bytes [OF f] ld_header_size_def ld_fits_def
    by (subst unat_of_nat_32) simp_all
next
  fix d e :: "'a link_data_scheme" and pkg :: "'b package_scheme" and rest
  assume "ld_fits d" and "p_message pkg = Some (ld_header_bytes d @ rest)"
  then show "\<exists>e'. ld_extract_header pkg e = Some (e', ld_header_size e') \<and> ld_same e' d
      \<and> ld_header_size e' = ld_header_size d"
    by (simp add: ld_extract_header_encoded ld_same_def ld_header_size_def add.commute)
qed

lemma kt_header_size_alt:
  "kt_header_size d = of_nat (24 + length (kt_code d) + length (kt_public_key d)
    + length (kt_private_key d) + length (kt_user_json_info d))"
  unfolding kt_header_size_def by (rule arg_cong [where f = of_nat]) simp

interpretation ktf: wire_format kt_header_bytes kt_header_size kt_extract_header "\<lambda>_. True" kt_fits kt_same
proof
  fix d :: "'a key_transfer_package_scheme"
  assume f: "kt_fits d"
  show "unat (kt_header_size d) = length (kt_header_bytes d)"
    using f unfolding length_kt_header_bytes [OF f] kt_header_size_def kt_fits_def
    by (subst unat_of_nat_32) simp_all
next
  fix d e :: "'a key_transfer_package_scheme" and pkg :: "'b package_scheme" and rest
  assume "kt_fits d" and "p_message pkg = Some (kt_header_bytes d @ rest)"
  then show "\<exists>e'. kt_extract_header pkg e = Some (e', kt_header_size e') \<and> kt_same e' d
      \<and> kt_header_size e' = kt_header_size d"
    by (auto simp only: kt_extract_header_encoded kt_header_size_alt kt_same_def)
      simp_all
qed

section \<open>Changing the hop count in place\<close>

lemma update_hop_id_encoded:
  "update_hop_id (Some (rd_header_bytes d @ rest)) h = Some (rd_header_bytes (d\<lparr>rd_hop_id := h\<rparr>) @ rest)"
proof -
  let ?a = "be32 (p_version d) @ be128 (rd_tender_id d) @ be32 (rd_cmd d) @ be128 (rd_uuid d)"
  let ?b = "be32 (rd_data_version d) @ be64 (rd_last_updated d) @ be64 (rd_expire_date d)
    @ be64 (of_nat (length (rd_winners_id d))) @ concat (map be32 (rd_winners_id d)) @ rest"
  have "rd_header_bytes (d\<lparr>rd_hop_id := x\<rparr>) @ rest = ?a @ be16 x @ ?b" for x
    by (simp add: rd_header_bytes_def)
  from this [of h] this [of "rd_hop_id d"] show ?thesis
    by (simp add: update_hop_id_def)
qed

end
