(* ===== verification/Csp_Fifo.thy ===== *)
theory Csp_Fifo
  imports Metax_Prelude
begin

text \<open>
  \<^verbatim>\<open>platform/fifo.hpp\<close> and \<^verbatim>\<open>fifo.txx\<close>: the channel between two tasks. The deque always holds one
  element more than was committed: its last element is the slot the writer fills through
  \<^verbatim>\<open>output::operator*\<close>; \<open>push\<close> commits it by appending a fresh object. \<open>pending\<close> is the content a
  reader can see. The locale \<open>channel\<close> is what the tasks rely on: what is written in the slot and
  committed is read later, in order, and nothing else; \<open>fifo\<close> interprets it.
\<close>

record 'a fifo =
  m_internal :: "'a list"
  m_available :: bool
  m_active :: bool
  m_notify :: bool

text \<open>\<open>fresh\<close> is the value of \<^verbatim>\<open>new T()\<close>; \<open>m_notify\<close> says whether an external control is registered.\<close>

definition fifo_new :: "'a \<Rightarrow> 'a fifo" where
  "fifo_new fresh = \<lparr>m_internal = [fresh], m_available = False, m_active = True, m_notify = False\<rparr>"

definition set_external_control :: "'a fifo \<Rightarrow> 'a fifo" where
  "set_external_control f = f\<lparr>m_notify := True\<rparr>"

definition has_data :: "'a fifo \<Rightarrow> bool" where
  "has_data f \<longleftrightarrow> length (m_internal f) > 1"

definition data_count :: "'a fifo \<Rightarrow> nat" where
  "data_count f = length (m_internal f) - 1"

definition fifo_pop :: "'a fifo \<Rightarrow> 'a fifo outcome" where
  "fifo_pop f = and_then (assert_that (has_data f) f) (\<lambda>f. Done (f\<lparr>m_internal := tl (m_internal f)\<rparr>))"

definition fifo_front :: "'a fifo \<Rightarrow> 'a option" where
  "fifo_front f = (if has_data f then Some (hd (m_internal f)) else None)"

definition slot :: "'a fifo \<Rightarrow> 'a" where
  "slot f = last (m_internal f)"

definition set_slot :: "('a \<Rightarrow> 'a) \<Rightarrow> 'a fifo \<Rightarrow> 'a fifo" where
  "set_slot g f = f\<lparr>m_internal := butlast (m_internal f) @ [g (slot f)]\<rparr>"

text \<open>The state after \<open>push\<close>, and \<open>push\<close> with the assertion it makes; they agree on a live fifo.\<close>

definition commit :: "'a \<Rightarrow> 'a fifo \<Rightarrow> 'a fifo" where
  "commit fresh f = f\<lparr>m_internal := m_internal f @ [fresh], m_available := True\<rparr>"

definition fifo_push :: "'a \<Rightarrow> 'a fifo \<Rightarrow> 'a fifo outcome" where
  "fifo_push fresh f = (let f = commit fresh f in assert_that (has_data f) f)"

definition deactivate :: "'a fifo \<Rightarrow> 'a fifo" where
  "deactivate f = f\<lparr>m_active := False, m_available := True\<rparr>"

text \<open>
  \<open>wait_for_data\<close>: it answers at once when there is data or when the fifo is inactive, otherwise it
  sleeps on the event \<open>m_available\<close>. \<open>fifo_wake\<close> is the part after the sleep (the event is
  auto-reset), \<open>None\<close> while the event is not set.
\<close>

definition fifo_wake :: "'a fifo \<Rightarrow> (bool \<times> 'a fifo) option" where
  "fifo_wake f = (if m_available f then Some (m_active f, f\<lparr>m_available := False\<rparr>) else None)"

definition wait_for_data :: "'a fifo \<Rightarrow> (bool \<times> 'a fifo) option" where
  "wait_for_data f =
     (if has_data f then Some (True, f\<lparr>m_available := False\<rparr>)
      else if m_active f then fifo_wake f
      else Some (False, f))"

section \<open>The slot is always there\<close>

definition fifo_ok :: "'a fifo \<Rightarrow> bool" where
  "fifo_ok f \<longleftrightarrow> m_internal f \<noteq> []"

definition pending :: "'a fifo \<Rightarrow> 'a list" where
  "pending f = butlast (m_internal f)"

lemma fifo_ok_ops [simp]:
  "fifo_ok (fifo_new x)" "fifo_ok (set_slot g f)" "fifo_ok (commit x f)"
  "fifo_ok (deactivate f) = fifo_ok f" "fifo_ok (set_external_control f) = fifo_ok f"
  by (simp_all add: fifo_ok_def fifo_new_def set_slot_def commit_def deactivate_def
      set_external_control_def)

lemma fifo_push_Done: "fifo_ok f \<Longrightarrow> fifo_push x f = Done (commit x f)"
  by (cases "m_internal f") (auto simp: fifo_push_def fifo_ok_def commit_def has_data_def Let_def)

lemma has_data_pending: "has_data f \<longleftrightarrow> pending f \<noteq> []"
  by (cases "m_internal f"; cases "tl (m_internal f)") (auto simp: has_data_def pending_def)

lemma fifo_front_pending:
  "fifo_front f = (case pending f of [] \<Rightarrow> None | x # _ \<Rightarrow> Some x)"
  by (cases "m_internal f"; cases "tl (m_internal f)")
    (auto simp: fifo_front_def has_data_def pending_def)

lemma fifo_pop_pending:
  "fifo_pop f = Done f' \<longleftrightarrow> pending f \<noteq> [] \<and> f' = f\<lparr>m_internal := tl (m_internal f)\<rparr>"
  by (auto simp: fifo_pop_def and_then_Done_iff assert_that_Done_iff has_data_pending)

lemma pending_tl: "pending f \<noteq> [] \<Longrightarrow> pending (f\<lparr>m_internal := tl (m_internal f)\<rparr>) = tl (pending f)"
  by (cases "m_internal f") (simp_all add: pending_def butlast_tl)

lemma fifo_ok_tl: "pending f \<noteq> [] \<Longrightarrow> fifo_ok (f\<lparr>m_internal := tl (m_internal f)\<rparr>)"
  by (cases "m_internal f") (auto simp: pending_def fifo_ok_def)

lemma slot_tl: "pending f \<noteq> [] \<Longrightarrow> slot (f\<lparr>m_internal := tl (m_internal f)\<rparr>) = slot f"
  by (cases "m_internal f") (auto simp: pending_def slot_def last_tl)

lemma pending_simps [simp]:
  "pending (fifo_new x) = []" "pending (set_slot g f) = pending f"
  "fifo_ok f \<Longrightarrow> pending (commit x f) = pending f @ [slot f]"
  "pending (deactivate f) = pending f"
  by (simp_all add: pending_def fifo_new_def set_slot_def commit_def slot_def fifo_ok_def deactivate_def)

lemma slot_simps [simp]:
  "slot (fifo_new x) = x" "slot (set_slot g f) = g (slot f)" "slot (commit x f) = x"
  "slot (deactivate f) = slot f"
  by (simp_all add: slot_def fifo_new_def set_slot_def commit_def deactivate_def)

section \<open>The channel interface\<close>

locale channel =
  fixes wr :: "'a \<Rightarrow> 'c \<Rightarrow> 'c"
    and rd :: "'c \<Rightarrow> ('a \<times> 'c) option"
    and content :: "'c \<Rightarrow> 'a list"
    and ok :: "'c \<Rightarrow> bool"
  assumes write_content: "ok c \<Longrightarrow> content (wr x c) = content c @ [x]"
    and write_ok: "ok c \<Longrightarrow> ok (wr x c)"
    and read_content: "ok c \<Longrightarrow> rd c = Some (x, c') \<Longrightarrow> content c = x # content c'"
    and read_ok: "ok c \<Longrightarrow> rd c = Some (x, c') \<Longrightarrow> ok c'"
    and read_None: "ok c \<Longrightarrow> rd c = None \<longleftrightarrow> content c = []"
begin

text \<open>A schedule of writes (\<open>Some x\<close>) and reads (\<open>None\<close>); a read of an empty channel gives nothing.\<close>

fun play :: "'a option list \<Rightarrow> 'c \<Rightarrow> 'a list \<times> 'c" where
  "play [] c = ([], c)"
| "play (Some x # es) c = play es (wr x c)"
| "play (None # es) c =
     (case rd c of None \<Rightarrow> play es c
      | Some (x, c') \<Rightarrow> let (xs, c'') = play es c' in (x # xs, c''))"

fun written :: "'a option list \<Rightarrow> 'a list" where
  "written [] = []"
| "written (Some x # es) = x # written es"
| "written (None # es) = written es"

lemma play_order:
  "ok c \<Longrightarrow> play es c = (xs, c') \<Longrightarrow> ok c' \<and> xs @ content c' = content c @ written es"
proof (induction es c arbitrary: xs c' rule: play.induct)
  case (1 c)
  then show ?case by simp
next
  case (2 x es c)
  then show ?case by (simp add: write_content write_ok)
next
  case (3 es c)
  show ?case
  proof (cases "rd c")
    case None
    with 3 show ?thesis by simp
  next
    case (Some a)
    obtain x c1 where a: "a = (x, c1)" by (cases a)
    obtain ys c2 where p: "play es c1 = (ys, c2)" by (cases "play es c1")
    have ok1: "ok c1" and hd: "content c = x # content c1"
      using 3(3) Some a by (auto intro: read_ok read_content)
    have "ok c2 \<and> ys @ content c2 = content c1 @ written es"
      by (rule "3.IH"(2) [OF Some a [symmetric] ok1 p])
    with hd 3(4) Some a p show ?thesis
      by auto
  qed
qed

end

definition fifo_write :: "'a \<Rightarrow> 'a \<Rightarrow> 'a fifo \<Rightarrow> 'a fifo" where
  "fifo_write fresh x f = commit fresh (set_slot (\<lambda>_. x) f)"

definition fifo_read :: "'a fifo \<Rightarrow> ('a \<times> 'a fifo) option" where
  "fifo_read f = (case fifo_front f of None \<Rightarrow> None
     | Some x \<Rightarrow> (case fifo_pop f of Done f' \<Rightarrow> Some (x, f') | _ \<Rightarrow> None))"

lemma fifo_read_Some:
  "fifo_read f = Some (x, f') \<longleftrightarrow>
    (\<exists>xs. pending f = x # xs) \<and> f' = f\<lparr>m_internal := tl (m_internal f)\<rparr>"
  by (cases "pending f") (auto simp: fifo_read_def fifo_front_pending fifo_pop_def has_data_pending)

interpretation fifo_channel: channel "fifo_write fresh" fifo_read pending fifo_ok
proof
  fix c :: "'a fifo" and c' x
  assume ok: "fifo_ok c"
  show "pending (fifo_write fresh x c) = pending c @ [x]" and "fifo_ok (fifo_write fresh x c)"
    by (simp_all add: fifo_write_def)
  assume "fifo_read c = Some (x, c')"
  then obtain xs where "pending c = x # xs" "c' = c\<lparr>m_internal := tl (m_internal c)\<rparr>"
    by (auto simp: fifo_read_Some)
  then show "pending c = x # pending c'" and "fifo_ok c'"
    by (auto simp: pending_tl intro: fifo_ok_tl)
next
  fix c :: "'a fifo"
  show "fifo_read c = None \<longleftrightarrow> pending c = []"
    by (cases "pending c") (auto simp: fifo_read_def fifo_front_pending fifo_pop_def has_data_pending)
qed

end
