(* ===== verification/Router_State.thy ===== *)
theory Router_State
  imports Protocols Csp_Fifo
begin

text \<open>
  The state of \<^verbatim>\<open>metax/router.cpp\<close>: tenders and their tables, the timeline of tenders, the map from
  request ids to tenders, the channels. A \<^verbatim>\<open>tender&\<close> of the code is a \<open>tref\<close>: the table the object
  lives in and its key there; using one whose object is gone is \<open>Undef\<close>. The timeline is the
  vector of \<^verbatim>\<open>tender*\<close>. \<open>clock\<close> is what \<^verbatim>\<open>Poco::Timestamp()\<close> reads during a step and \<open>uuid_source\<close> the
  stream of the random UUID generator; both belong to the environment.
\<close>

datatype tender_type = Internal | Remote | Max_type

datatype tender_state = Announced | Confirmed | Received | Transporting | Max_state

record tender = router_data +
  t_request_id :: ID32
  t_typ :: tender_type
  t_st :: tender_state
  t_prs :: "ID32 list"
  t_src :: ID32
  t_time :: int
  t_idling_interval :: int
  t_max_response_cnt :: ID16
  t_received_response_cnt :: ID16
  t_winners :: "(ID32 \<times> ID32) list"
  t_is_canceled :: bool

text \<open>The members without an initialiser start as 0; every handler sets them before use.\<close>

definition tender0 :: "int \<Rightarrow> tender" where
  "tender0 now = router_data.extend router_data0
     \<lparr>t_request_id = 0, t_typ = Max_type, t_st = Max_state, t_prs = [], t_src = 0, t_time = now,
      t_idling_interval = 0, t_max_response_cnt = 1, t_received_response_cnt = 0, t_winners = [],
      t_is_canceled = False\<rparr>"

definition read_router_data :: "router_data \<Rightarrow> tender \<Rightarrow> tender" where
  "read_router_data r t = router_data.extend r (router_data.more t)"

definition write_router_data :: "tender \<Rightarrow> router_data \<Rightarrow> router_data" where
  "write_router_data t r = r\<lparr>rd_tender_id := rd_tender_id t, rd_uuid := rd_uuid t, rd_cmd := rd_cmd t,
     rd_hop_id := rd_hop_id t, rd_data_version := rd_data_version t,
     rd_last_updated := rd_last_updated t, rd_expire_date := rd_expire_date t\<rparr>"

definition is_expired :: "int \<Rightarrow> tender \<Rightarrow> bool" where
  "is_expired now t \<longleftrightarrow> t_idling_interval t < now - t_time t"

definition less_than :: "int \<Rightarrow> tender \<Rightarrow> tender \<Rightarrow> bool" where
  "less_than now t1 t2 =
     (if is_expired now t1 \<and> \<not> is_expired now t2 then False
      else if is_expired now t2 \<and> \<not> is_expired now t1 then True
      else t_time t1 > t_time t2)"

record response =
  res_peer :: ID32
  res_offers :: "ID32 list"

datatype ttable = Tenders | Sync_tenders

type_synonym tref = "ttable \<times> uuid"

record router =
  m_tenders :: "uuid \<rightharpoonup> tender"
  m_sync_tenders :: "uuid \<rightharpoonup> tender"
  m_router_data :: router_data
  m_responses :: "uuid \<rightharpoonup> response list"
  m_tenders_timeline :: "tref list"
  m_id_tenders :: "ID32 \<rightharpoonup> uuid"
  m_request_counter :: ID32
  max_hops :: ID16
  response_time :: int
  m_router_timeout :: bool
  m_expired_tender_exists :: bool
  m_is_configured :: bool
  config_rx :: "router_cfg_package fifo"
  kernel_rx :: "kernel_router_package fifo"
  storage_rx :: "kernel_storage_package fifo"
  storage_writer_rx :: "kernel_storage_package fifo"
  cache_rx :: "kernel_storage_package fifo"
  backup_rx :: "kernel_router_package fifo"
  wallet_rx :: "package fifo"
  link_rx :: "router_link_package fifo"
  kernel_tx :: "kernel_router_package fifo"
  wallet_tx :: "package fifo"
  link_tx :: "router_link_package fifo"
  m_signal :: bool
  clock :: int
  uuid_source :: "nat \<Rightarrow> uuid"
  uuid_count :: nat

definition ROUTER_REQUEST_LOWER_BOUND :: ID32 where "ROUTER_REQUEST_LOWER_BOUND = 0x10000000"
definition ROUTER_REQUEST_UPPER_BOUND :: ID32 where "ROUTER_REQUEST_UPPER_BOUND = 0x1FFFFFFF"
definition LINK_REQUEST_UPPER_BOUND :: ID32 where "LINK_REQUEST_UPPER_BOUND = 0x2FFFFFFF"
definition UINT32_MAX :: ID32 where "UINT32_MAX = 0xFFFFFFFF"
definition KERNEL_RESPONSE_TIME :: int where "KERNEL_RESPONSE_TIME = 10000000"
definition SYNC_TENDER_RESPONSE_TIME :: int where "SYNC_TENDER_RESPONSE_TIME = 30000000"

definition router_cfg_package0 :: router_cfg_package where
  "router_cfg_package0 = package.extend default_package
     \<lparr>rc_cmd = cmd_max_command, rc_max_hops = 0, rc_peer_response_wait_time = 0\<rparr>"

definition router_init :: "int \<Rightarrow> (nat \<Rightarrow> uuid) \<Rightarrow> router" where
  "router_init now uuids =
     \<lparr>m_tenders = Map.empty, m_sync_tenders = Map.empty, m_router_data = router_data0,
      m_responses = Map.empty, m_tenders_timeline = [], m_id_tenders = Map.empty,
      m_request_counter = ROUTER_REQUEST_LOWER_BOUND, max_hops = 3, response_time = 30000000,
      m_router_timeout = False, m_expired_tender_exists = False, m_is_configured = False,
      config_rx = set_external_control (fifo_new router_cfg_package0),
      kernel_rx = set_external_control (fifo_new kernel_router_package0),
      storage_rx = set_external_control (fifo_new kernel_storage_package0),
      storage_writer_rx = set_external_control (fifo_new kernel_storage_package0),
      cache_rx = set_external_control (fifo_new kernel_storage_package0),
      backup_rx = set_external_control (fifo_new kernel_router_package0),
      wallet_rx = set_external_control (fifo_new default_package),
      link_rx = set_external_control (fifo_new router_link_package0),
      kernel_tx = fifo_new kernel_router_package0, wallet_tx = fifo_new default_package,
      link_tx = fifo_new router_link_package0, m_signal = False, clock = now,
      uuid_source = uuids, uuid_count = 0\<rparr>"

section \<open>Tenders by reference\<close>

fun tender_at :: "tref \<Rightarrow> router \<Rightarrow> tender option" where
  "tender_at (Tenders, k) s = m_tenders s k"
| "tender_at (Sync_tenders, k) s = m_sync_tenders s k"

fun put_tender :: "tref \<Rightarrow> tender \<Rightarrow> router \<Rightarrow> router" where
  "put_tender (Tenders, k) t s = s\<lparr>m_tenders := (m_tenders s)(k \<mapsto> t)\<rparr>"
| "put_tender (Sync_tenders, k) t s = s\<lparr>m_sync_tenders := (m_sync_tenders s)(k \<mapsto> t)\<rparr>"

definition with_tender :: "tref \<Rightarrow> router \<Rightarrow> (tender \<Rightarrow> router outcome) \<Rightarrow> router outcome" where
  "with_tender r s k = (case tender_at r s of None \<Rightarrow> Undef | Some t \<Rightarrow> k t)"

definition upd_tender :: "tref \<Rightarrow> (tender \<Rightarrow> tender) \<Rightarrow> router \<Rightarrow> router outcome" where
  "upd_tender r f s = with_tender r s (\<lambda>t. Done (put_tender r (f t) s))"

definition touch_tender :: "tref \<Rightarrow> router \<Rightarrow> router outcome" where
  "touch_tender r s = upd_tender r (\<lambda>t. t\<lparr>t_time := clock s\<rparr>) s"

text \<open>The interval of a tender that waits for a round trip: \<^verbatim>\<open>t.hop_id * RESPONSE_TIME\<close>.\<close>

definition round_trip_interval :: "tender \<Rightarrow> router \<Rightarrow> int" where
  "round_trip_interval t s = int (unat (rd_hop_id t)) * response_time s"

definition set_round_trip_interval :: "tref \<Rightarrow> router \<Rightarrow> router outcome" where
  "set_round_trip_interval r s =
     upd_tender r (\<lambda>t. t\<lparr>t_idling_interval := round_trip_interval t s\<rparr>) s"

section \<open>Output slots\<close>

definition out_link :: "(router_link_package \<Rightarrow> router_link_package) \<Rightarrow> router \<Rightarrow> router" where
  "out_link g s = s\<lparr>link_tx := set_slot g (link_tx s)\<rparr>"

definition commit_link :: "router \<Rightarrow> router" where
  "commit_link s = s\<lparr>link_tx := commit router_link_package0 (link_tx s)\<rparr>"

definition out_kernel :: "(kernel_router_package \<Rightarrow> kernel_router_package) \<Rightarrow> router \<Rightarrow> router" where
  "out_kernel g s = s\<lparr>kernel_tx := set_slot g (kernel_tx s)\<rparr>"

definition commit_kernel :: "router \<Rightarrow> router" where
  "commit_kernel s = s\<lparr>kernel_tx := commit kernel_router_package0 (kernel_tx s)\<rparr>"

text \<open>\<^verbatim>\<open>data.serialize(out)\<close> on the slot of the link.\<close>

definition serialize_to_link :: "router_data \<Rightarrow> router \<Rightarrow> router outcome" where
  "serialize_to_link d s =
     (case rd_serialize d (slot (link_tx s)) of None \<Rightarrow> Undef
      | Some out \<Rightarrow> Done (out_link (\<lambda>_. out) s))"

text \<open>\<^verbatim>\<open>out.extract_payload(*link_rx, m_router_data.header_size())\<close> on the slot of the kernel: what it
  wrote stays in the slot when it throws.\<close>

definition extract_to_kernel :: "router_link_package \<Rightarrow> router \<Rightarrow> router outcome" where
  "extract_to_kernel inp s =
     (case extract_payload inp (unat (rd_header_size (m_router_data s))) (slot (kernel_tx s)) of
        Done out \<Rightarrow> Done (out_kernel (\<lambda>_. out) s)
      | Thrown out \<Rightarrow> Thrown (out_kernel (\<lambda>_. out) s)
      | Aborted \<Rightarrow> Aborted
      | Undef \<Rightarrow> Undef)"

text \<open>The same on a local object, which is lost when it throws.\<close>

definition extract_local ::
    "router_link_package \<Rightarrow> ID32 \<Rightarrow> router_data \<Rightarrow> router \<Rightarrow> (router_data \<Rightarrow> router outcome) \<Rightarrow> router outcome" where
  "extract_local inp off d s k =
     (case extract_payload inp (unat off) d of
        Done d \<Rightarrow> k d | Thrown _ \<Rightarrow> Thrown s | Aborted \<Rightarrow> Aborted | Undef \<Rightarrow> Undef)"

section \<open>Ids\<close>

definition get_request_id :: "router \<Rightarrow> ID32 \<times> router" where
  "get_request_id s =
     (let id = m_request_counter s;
          c = m_request_counter s + 1;
          c = (c AND ROUTER_REQUEST_UPPER_BOUND) OR ROUTER_REQUEST_LOWER_BOUND
      in (id, s\<lparr>m_request_counter := c\<rparr>))"

definition get_tender_id :: "router \<Rightarrow> uuid \<times> router" where
  "get_tender_id s = (uuid_source s (uuid_count s), s\<lparr>uuid_count := Suc (uuid_count s)\<rparr>)"

section \<open>Classes of commands\<close>

definition get_command_rating :: "command \<Rightarrow> ID32" where
  "get_command_rating cmd =
     (if cmd \<in> {cmd_on_update_register, cmd_on_update_unregister, cmd_save, cmd_save_stream} then 50
      else if cmd \<in> {cmd_del, cmd_update} then 5
      else if cmd = cmd_get then 10 else 0)"

definition is_first_command_of_multiwinner_tender :: "command \<Rightarrow> bool" where
  "is_first_command_of_multiwinner_tender cmd \<longleftrightarrow>
     cmd = cmd_save \<or> cmd = cmd_update \<or> cmd = cmd_notify_update \<or> cmd = cmd_notify_delete
     \<or> cmd = cmd_del \<or> cmd = cmd_copy"

definition is_confirm_command_of_multiwinner_tender :: "command \<Rightarrow> bool" where
  "is_confirm_command_of_multiwinner_tender cmd \<longleftrightarrow>
     cmd = cmd_save_confirm \<or> cmd = cmd_updated \<or> cmd = cmd_deleted \<or> cmd = cmd_copy_succeeded"

definition is_accept_command_of_multiwinner_tender :: "command \<Rightarrow> command \<Rightarrow> bool" where
  "is_accept_command_of_multiwinner_tender rcmd tcmd \<longleftrightarrow>
     rcmd = cmd_save_data \<or> (rcmd = cmd_auth_data
       \<and> (tcmd = cmd_update \<or> tcmd = cmd_del \<or> tcmd = cmd_copy))"

definition is_offer_command_of_multiwinner_tender :: "command \<Rightarrow> command \<Rightarrow> bool" where
  "is_offer_command_of_multiwinner_tender rcmd tcmd \<longleftrightarrow>
     rcmd = cmd_save_offer \<or> (rcmd = cmd_auth
       \<and> (tcmd = cmd_del \<or> tcmd = cmd_update \<or> tcmd = cmd_copy))"

definition is_invalid_new_tender :: "command \<Rightarrow> bool" where
  "is_invalid_new_tender cmd \<longleftrightarrow>
     cmd_get \<noteq> cmd \<and> cmd_find_peer \<noteq> cmd \<and> cmd_save \<noteq> cmd \<and> cmd_update \<noteq> cmd
     \<and> cmd_save_stream \<noteq> cmd \<and> cmd_del \<noteq> cmd \<and> cmd_notify_update \<noteq> cmd
     \<and> cmd_notify_delete \<noteq> cmd \<and> cmd_copy \<noteq> cmd \<and> cmd_on_update_register \<noteq> cmd
     \<and> cmd_on_update_unregister \<noteq> cmd \<and> cmd_send_journal_info \<noteq> cmd
     \<and> cmd_recording_start \<noteq> cmd \<and> cmd_recording_stop \<noteq> cmd"

definition is_own_sync_tender :: "command \<Rightarrow> bool" where
  "is_own_sync_tender cmd \<longleftrightarrow>
     cmd = cmd_start_storage_sync \<or> cmd = cmd_get_journal_info \<or> cmd = cmd_get_uuid"

text \<open>The commands \<open>clean_up_tender\<close> and \<open>process_expired_tender\<close> take for a sync tender's.\<close>

definition is_sync_cmd :: "command \<Rightarrow> bool" where
  "is_sync_cmd cmd \<longleftrightarrow> cmd = cmd_start_storage_sync \<or> cmd = cmd_get_journal_info"

end
