(* ===== verification/Router_Kernel.thy ===== *)
theory Router_Kernel
  imports Router_State
begin

text \<open>
  The half of \<^verbatim>\<open>metax/router.cpp\<close> that serves the kernel, the storages and the backup: announcing a
  request to all peers as an internal tender, answering a remote tender, refusing it (which
  broadcasts it further), cancelling, and the clean-up of tenders. \<open>inp\<close> is the package at the front
  of the input channel.
\<close>

section \<open>Clean-up\<close>

definition cancel_request :: "ID32 \<Rightarrow> router \<Rightarrow> router" where
  "cancel_request r_id s =
     (if r_id = UINT32_MAX then s
      else commit_kernel (out_kernel (\<lambda>out. out\<lparr>kr_cmd := cmd_cancel, kr_request_id := r_id\<rparr>) s))"

definition clean_up_tender_from_timeline :: "tref \<Rightarrow> router \<Rightarrow> router outcome" where
  "clean_up_tender_from_timeline r s =
     and_then (assert_that (r \<in> set (m_tenders_timeline s)) s) (\<lambda>s.
       Done (s\<lparr>m_tenders_timeline := swap_remove r (m_tenders_timeline s)\<rparr>))"

definition clean_up_sync_tender_info :: "tref \<Rightarrow> router \<Rightarrow> router outcome" where
  "clean_up_sync_tender_info r s = with_tender r s (\<lambda>t.
     and_then (assert_that (is_sync_cmd (rd_cmd t)) s) (\<lambda>s.
     and_then (clean_up_tender_from_timeline r s) (\<lambda>s.
       let s = s\<lparr>m_id_tenders := (m_id_tenders s)(t_request_id t := None)\<rparr>;
           s = s\<lparr>m_sync_tenders := (m_sync_tenders s)(rd_tender_id t := None)\<rparr>
       in if dom (m_sync_tenders s) = {}
          then Done (commit_kernel (out_kernel (\<lambda>out. out\<lparr>kr_cmd := cmd_sync_finished\<rparr>) s))
          else Done s)))"

definition clean_up_tender_info :: "tref \<Rightarrow> router \<Rightarrow> router outcome" where
  "clean_up_tender_info r s = with_tender r s (\<lambda>t.
     and_then (clean_up_tender_from_timeline r s) (\<lambda>s.
       let s = s\<lparr>m_id_tenders := (m_id_tenders s)(t_request_id t := None)\<rparr>;
           s = s\<lparr>m_responses := (m_responses s)(rd_tender_id t := None)\<rparr>;
           s = s\<lparr>m_tenders := (m_tenders s)(rd_tender_id t := None)\<rparr>
       in Done s))"

definition clean_up_tender :: "tref \<Rightarrow> router \<Rightarrow> router outcome" where
  "clean_up_tender r s = with_tender r s (\<lambda>t.
     and_then (if is_sync_cmd (rd_cmd t) then clean_up_sync_tender_info r s
               else clean_up_tender_info r s) (\<lambda>s.
       if t_is_canceled t then Done s else Done (cancel_request (t_request_id t) s)))"

section \<open>Announcing requests of the kernel\<close>

definition post_link_kernel_tender :: "tref \<Rightarrow> 'a package_scheme \<Rightarrow> router \<Rightarrow> router outcome" where
  "post_link_kernel_tender r inp s = with_tender r s (\<lambda>t.
     let data = write_router_data t router_data0;
         data = data\<lparr>rd_hop_id := rd_hop_id data - 1\<rparr>;
         data = set_payload inp data;
         s = out_link (\<lambda>out. out\<lparr>rl_cmd_rating := get_command_rating (rd_cmd t),
               rl_should_block_by_sync := (rd_cmd t = cmd_get), rl_cmd := cmd_broadcast\<rparr>) s
     in and_then (serialize_to_link data s) (\<lambda>s. Done (commit_link s)))"

text \<open>What the handlers of a new request of the kernel have in common; \<open>f\<close> sets their extra members.\<close>

definition new_internal_tender :: "kernel_router_package \<Rightarrow> uuid \<Rightarrow> router \<Rightarrow> tender" where
  "new_internal_tender inp t_id s =
     (let t = (tender0 (clock s))\<lparr>t_max_response_cnt := kr_max_response_cnt inp,
                t_request_id := kr_request_id inp\<rparr>;
          t = t\<lparr>rd_tender_id := t_id, rd_cmd := kr_cmd inp, rd_uuid := kr_uuid inp\<rparr>;
          t = t\<lparr>t_typ := Internal, t_st := Announced\<rparr>;
          t = t\<lparr>rd_hop_id := max_hops s\<rparr>
      in t\<lparr>t_idling_interval := round_trip_interval t s\<rparr>)"

definition announce_request :: "(tender \<Rightarrow> tender) \<Rightarrow> kernel_router_package \<Rightarrow> router \<Rightarrow> router outcome" where
  "announce_request f inp s =
     and_then (assert_that (m_id_tenders s (kr_request_id inp) = None) s) (\<lambda>s.
       let (t_id, s) = get_tender_id s in
       and_then (assert_that (m_tenders s t_id = None) s) (\<lambda>s.
         let r = (Tenders, t_id);
             s = put_tender r (f (new_internal_tender inp t_id s)) s;
             s = s\<lparr>m_tenders_timeline := m_tenders_timeline s @ [r]\<rparr>;
             s = s\<lparr>m_id_tenders := map_insert (kr_request_id inp) t_id (m_id_tenders s)\<rparr>
         in and_then (post_link_kernel_tender r inp s) (touch_tender r)))"

definition handle_kernel_get :: "kernel_router_package \<Rightarrow> router \<Rightarrow> router outcome" where
  "handle_kernel_get inp s =
     and_then (assert_that (kr_cmd inp = cmd_get) s) (announce_request (\<lambda>t. t) inp)"

definition handle_kernel_save_stream :: "kernel_router_package \<Rightarrow> router \<Rightarrow> router outcome" where
  "handle_kernel_save_stream inp s =
     and_then (assert_that (kr_cmd inp = cmd_save_stream) s) (announce_request (\<lambda>t. t) inp)"

definition handle_kernel_find_peer :: "kernel_router_package \<Rightarrow> router \<Rightarrow> router outcome" where
  "handle_kernel_find_peer inp s =
     and_then (assert_that (kr_cmd inp = cmd_find_peer \<or> kr_cmd inp = cmd_notify_update
                            \<or> kr_cmd inp = cmd_notify_delete) s)
       (announce_request (\<lambda>t. t\<lparr>rd_data_version := kr_data_version inp\<rparr>) inp)"

definition handle_kernel_save_request :: "kernel_router_package \<Rightarrow> router \<Rightarrow> router outcome" where
  "handle_kernel_save_request inp s =
     and_then (assert_that (is_first_command_of_multiwinner_tender (kr_cmd inp)) s)
       (announce_request (\<lambda>t. t\<lparr>rd_data_version := kr_data_version inp,
          rd_last_updated := kr_last_updated inp, rd_expire_date := kr_expire_date inp\<rparr>) inp)"

definition handle_kernel_on_update_register_request :: "kernel_router_package \<Rightarrow> router \<Rightarrow> router outcome" where
  "handle_kernel_on_update_register_request inp s =
     and_then (assert_that (kr_cmd inp = cmd_on_update_register) s) (announce_request (\<lambda>t. t) inp)"

definition handle_kernel_on_update_unregister_request :: "kernel_router_package \<Rightarrow> router \<Rightarrow> router outcome" where
  "handle_kernel_on_update_unregister_request inp s =
     and_then (assert_that (kr_cmd inp = cmd_on_update_unregister) s) (announce_request (\<lambda>t. t) inp)"

definition handle_kernel_recording_start :: "kernel_router_package \<Rightarrow> router \<Rightarrow> router outcome" where
  "handle_kernel_recording_start inp s =
     and_then (assert_that (kr_cmd inp = cmd_recording_start) s) (announce_request (\<lambda>t. t) inp)"

definition handle_kernel_recording_stop :: "kernel_router_package \<Rightarrow> router \<Rightarrow> router outcome" where
  "handle_kernel_recording_stop inp s =
     and_then (assert_that (kr_cmd inp = cmd_recording_stop) s) (announce_request (\<lambda>t. t) inp)"

section \<open>Sending data for a tender\<close>

definition send_tender_data :: "tref \<Rightarrow> command \<Rightarrow> 'a package_scheme \<Rightarrow> router \<Rightarrow> router outcome" where
  "send_tender_data r cmd p s = with_tender r s (\<lambda>t.
     let data = write_router_data t router_data0;
         data = data\<lparr>rd_hop_id := rd_hop_id data - 1, rd_cmd := cmd\<rparr>;
         data = set_payload p data;
         s = out_link (\<lambda>out. out\<lparr>rl_cmd := cmd_send\<rparr>) s
     in and_then (assert_that (t_prs t \<noteq> []) s) (\<lambda>s.
        let s = out_link (\<lambda>out. out\<lparr>rl_peers := insort_insert (hd (t_prs t)) (rl_peers out)\<rparr>) s
        in and_then (serialize_to_link data s) (\<lambda>s.
           and_then (set_round_trip_interval r s) (\<lambda>s. Done (commit_link s)))))"

definition find_tender_of_request :: "ID32 \<Rightarrow> router \<Rightarrow> tref option" where
  "find_tender_of_request rid s =
     do { t_id \<leftarrow> m_id_tenders s rid; t \<leftarrow> m_tenders s t_id; Some (Tenders, t_id) }"

definition find_sync_tender_of_request :: "ID32 \<Rightarrow> router \<Rightarrow> tref option" where
  "find_sync_tender_of_request rid s =
     do { t_id \<leftarrow> m_id_tenders s rid; t \<leftarrow> m_sync_tenders s t_id; Some (Sync_tenders, t_id) }"

text \<open>\<^verbatim>\<open>st\<close> must be confirmed or received, \<^verbatim>\<open>typ\<close> remote or internal; then the tender is confirmed.\<close>

definition confirm_for_transfer :: "tref \<Rightarrow> router \<Rightarrow> router outcome" where
  "confirm_for_transfer r s = with_tender r s (\<lambda>t.
     and_then (assert_that (t_st t = Confirmed \<or> t_st t = Received) s) (\<lambda>s.
     and_then (upd_tender r (\<lambda>t. t\<lparr>t_st := Confirmed\<rparr>) s) (\<lambda>s.
     and_then (assert_that (t_typ t = Remote \<or> t_typ t = Internal) s) (\<lambda>s.
       upd_tender r (\<lambda>t. t\<lparr>rd_hop_id := max_hops s\<rparr>) s))))"

definition handle_kernel_data_transfer :: "kernel_router_package \<Rightarrow> router \<Rightarrow> router outcome" where
  "handle_kernel_data_transfer inp s =
     (case find_tender_of_request (kr_request_id inp) s of None \<Rightarrow> Done s
      | Some r \<Rightarrow>
          and_then (confirm_for_transfer r s) (\<lambda>s.
          and_then (if kr_cmd inp = cmd_recording_started
                    then upd_tender r (\<lambda>t. t\<lparr>rd_uuid := kr_uuid inp\<rparr>) s else Done s) (\<lambda>s.
          and_then (if kr_cmd inp = cmd_livestream_content
                    then upd_tender r (\<lambda>t. t\<lparr>rd_data_version := kr_data_version inp\<rparr>) s else Done s) (\<lambda>s.
          and_then (send_tender_data r (kr_cmd inp) inp s) (touch_tender r)))))"

definition handle_storage_data_transfer :: "kernel_storage_package \<Rightarrow> router \<Rightarrow> router outcome" where
  "handle_storage_data_transfer inp s =
     (case find_tender_of_request (ks_request_id inp) s of None \<Rightarrow> Done s
      | Some r \<Rightarrow>
          and_then (confirm_for_transfer r s) (\<lambda>s.
          and_then (send_tender_data r (ks_cmd inp) inp s) (touch_tender r)))"

definition handle_kernel_offer_for_multiwinner_tender :: "tref \<Rightarrow> router \<Rightarrow> router outcome" where
  "handle_kernel_offer_for_multiwinner_tender r s = with_tender r s (\<lambda>t.
     if t_st t \<noteq> Announced then Done s
     else and_then (assert_that (t_typ t = Remote) s) (\<lambda>s.
          and_then (upd_tender r (\<lambda>t. t\<lparr>rd_hop_id := max_hops s\<rparr>) s) (\<lambda>s.
            let res = \<lparr>res_peer = LINK_REQUEST_UPPER_BOUND, res_offers = [0]\<rparr>;
                old = (case m_responses s (rd_tender_id t) of None \<Rightarrow> [] | Some rs \<Rightarrow> rs)
            in touch_tender r (s\<lparr>m_responses := (m_responses s)(rd_tender_id t \<mapsto> old @ [res])\<rparr>))))"

definition handle_kernel_offer :: "kernel_router_package \<Rightarrow> router \<Rightarrow> router outcome" where
  "handle_kernel_offer inp s =
     (case find_tender_of_request (kr_request_id inp) s of None \<Rightarrow> Done s
      | Some r \<Rightarrow> with_tender r s (\<lambda>t.
          if is_first_command_of_multiwinner_tender (rd_cmd t)
          then handle_kernel_offer_for_multiwinner_tender r s
          else handle_kernel_data_transfer inp s))"

text \<open>\<^verbatim>\<open>std::map<ID32, std::vector<ID32>>\<close>: the winners of each peer, peers in ascending order.\<close>

definition winners_by_peer :: "(ID32 \<times> ID32) list \<Rightarrow> (ID32 \<times> ID32 list) list" where
  "winners_by_peer ws =
     map (\<lambda>p. (p, map snd (filter (\<lambda>w. fst w = p) ws))) (set_insert_all (map fst ws) [])"

definition send_accept_to_winner_peers :: "kernel_router_package \<Rightarrow> tref \<Rightarrow> router \<Rightarrow> router outcome" where
  "send_accept_to_winner_peers inp r s = with_tender r s (\<lambda>t.
     for_each (winners_by_peer (t_winners t)) (\<lambda>(peer, ids) s.
       and_then (confirm_for_transfer r s) (\<lambda>s. with_tender r s (\<lambda>t.
         let data = write_router_data t router_data0;
             data = data\<lparr>rd_hop_id := rd_hop_id data - 1, rd_cmd := kr_cmd inp, rd_winners_id := ids\<rparr>;
             data = set_payload inp data;
             s = out_link (\<lambda>out. out\<lparr>rl_cmd := cmd_send, rl_peers := insort_insert peer (rl_peers out)\<rparr>) s
         in and_then (serialize_to_link data s) (\<lambda>s. Done (commit_link s))))) s)"

definition handle_kernel_accept_for_multiwinner_tender :: "kernel_router_package \<Rightarrow> router \<Rightarrow> router outcome" where
  "handle_kernel_accept_for_multiwinner_tender inp s =
     (case find_tender_of_request (kr_request_id inp) s of None \<Rightarrow> Done s
      | Some r \<Rightarrow> with_tender r s (\<lambda>t.
          if is_first_command_of_multiwinner_tender (rd_cmd t)
          then and_then (send_accept_to_winner_peers inp r s) (\<lambda>s.
               and_then (set_round_trip_interval r s) (touch_tender r))
          else handle_kernel_data_transfer inp s))"

definition handle_kernel_confirm_for_multiwinner_tender :: "kernel_router_package \<Rightarrow> router \<Rightarrow> router outcome" where
  "handle_kernel_confirm_for_multiwinner_tender inp s =
     (case find_tender_of_request (kr_request_id inp) s of None \<Rightarrow> Done s
      | Some r \<Rightarrow> with_tender r s (\<lambda>t.
          and_then (assert_that (t_typ t = Remote) s) (\<lambda>s.
          and_then (upd_tender r (\<lambda>t. t\<lparr>rd_hop_id := max_hops s\<rparr>) s) (\<lambda>s.
          and_then (send_tender_data r (kr_cmd inp) inp s) (touch_tender r)))))"

section \<open>Synchronisation requests\<close>

definition post_sync_request_to_link_peer :: "command \<Rightarrow> tref \<Rightarrow> router \<Rightarrow> router outcome" where
  "post_sync_request_to_link_peer cmd r s = with_tender r s (\<lambda>t.
     let s = out_link (\<lambda>out. out\<lparr>rl_cmd := cmd\<rparr>) s in
     and_then (assert_that (t_prs t \<noteq> []) s) (\<lambda>s.
       Done (commit_link (out_link (\<lambda>out. out\<lparr>rl_peers := insort_insert (hd (t_prs t)) (rl_peers out)\<rparr>) s))))"

definition post_sync_finished_request_to_link_peer :: "tref \<Rightarrow> router \<Rightarrow> router outcome" where
  "post_sync_finished_request_to_link_peer = post_sync_request_to_link_peer cmd_sync_finished"

definition post_sync_started_request_to_link_peer :: "tref \<Rightarrow> router \<Rightarrow> router outcome" where
  "post_sync_started_request_to_link_peer = post_sync_request_to_link_peer cmd_sync_started"

definition handle_sync_data_transfer :: "kernel_router_package \<Rightarrow> router \<Rightarrow> router outcome" where
  "handle_sync_data_transfer inp s =
     (case find_sync_tender_of_request (kr_request_id inp) s of None \<Rightarrow> Done s
      | Some r \<Rightarrow>
          and_then (if kr_cmd inp = cmd_send_uuids
                    then post_sync_started_request_to_link_peer r s else Done s) (\<lambda>s.
          and_then (send_tender_data r (kr_cmd inp) inp s) (\<lambda>s.
          and_then (upd_tender r (\<lambda>t. t\<lparr>t_idling_interval := SYNC_TENDER_RESPONSE_TIME\<rparr>) s)
            (touch_tender r))))"

definition handle_kernel_get_uuid_request :: "kernel_router_package \<Rightarrow> router \<Rightarrow> router outcome" where
  "handle_kernel_get_uuid_request inp s =
     (case find_tender_of_request (kr_request_id inp) s of None \<Rightarrow> Done s
      | Some r \<Rightarrow>
          and_then (upd_tender r (\<lambda>t. t\<lparr>rd_data_version := kr_data_version inp,
             rd_last_updated := kr_last_updated inp, rd_expire_date := kr_expire_date inp,
             rd_uuid := kr_uuid inp\<rparr>) s) (\<lambda>s.
          and_then (send_tender_data r (kr_cmd inp) inp s) (\<lambda>s.
          and_then (upd_tender r (\<lambda>t. t\<lparr>t_idling_interval := SYNC_TENDER_RESPONSE_TIME\<rparr>) s)
            (touch_tender r))))"

definition handle_kernel_sync_finished :: "kernel_router_package \<Rightarrow> router \<Rightarrow> router outcome" where
  "handle_kernel_sync_finished inp s =
     and_then (assert_that (kr_cmd inp = cmd_sync_finished) s) (\<lambda>s.
       case find_sync_tender_of_request (kr_request_id inp) s of None \<Rightarrow> Done s
       | Some r \<Rightarrow>
           and_then (post_sync_finished_request_to_link_peer r s) (\<lambda>s.
           and_then (send_tender_data r (kr_cmd inp) inp s) (clean_up_sync_tender_info r)))"

section \<open>Refusing and cancelling\<close>

definition broadcast_tender_to_peers :: "tref \<Rightarrow> 'a package_scheme \<Rightarrow> router \<Rightarrow> router outcome" where
  "broadcast_tender_to_peers r pkg s =
     and_then (set_round_trip_interval r s) (\<lambda>s. with_tender r s (\<lambda>t.
       let data = write_router_data t router_data0;
           data = data\<lparr>rd_hop_id := rd_hop_id data - 1\<rparr>;
           data = set_payload pkg data
       in and_then (serialize_to_link data s) (\<lambda>s.
          let s = out_link (\<lambda>out. out\<lparr>rl_cmd_rating := get_command_rating (rd_cmd t),
                    rl_should_block_by_sync := (rd_cmd t = cmd_get),
                    rl_cmd := cmd_broadcast_except\<rparr>) s
          in and_then (assert_that (length (t_prs t) = 1) s) (\<lambda>s.
             let s = commit_link (out_link (\<lambda>out. out\<lparr>rl_peers := t_prs t\<rparr>) s)
             in and_then (assert_that (t_typ t = Remote) s) (\<lambda>s.
                and_then (upd_tender r (\<lambda>t. t\<lparr>t_request_id := UINT32_MAX\<rparr>) s)
                  (touch_tender r))))))"

definition handle_refuse :: "ID32 \<Rightarrow> 'a package_scheme \<Rightarrow> router \<Rightarrow> router outcome" where
  "handle_refuse rid pkg s =
     (case find_tender_of_request rid s of None \<Rightarrow> Done s
      | Some r \<Rightarrow> with_tender r s (\<lambda>t.
          if rd_hop_id t = 1 then clean_up_tender r s
          else and_then (broadcast_tender_to_peers r pkg s) (\<lambda>s.
                 Done (s\<lparr>m_id_tenders := (m_id_tenders s)(rid := None)\<rparr>))))"

definition handle_kernel_clear_request :: "kernel_router_package \<Rightarrow> router \<Rightarrow> router outcome" where
  "handle_kernel_clear_request inp s =
     (case m_id_tenders s (kr_request_id inp) of None \<Rightarrow> Done s
      | Some t_id \<Rightarrow>
          let r = (Tenders, t_id) in
          and_then (assert_that (m_tenders s t_id \<noteq> None) s) (\<lambda>s.
          and_then (upd_tender r (\<lambda>t. t\<lparr>t_is_canceled := True\<rparr>) s) (\<lambda>s.
          and_then (set_round_trip_interval r s) (touch_tender r))))"

section \<open>Dispatch\<close>

definition process_kernel_input :: "kernel_router_package \<Rightarrow> router \<Rightarrow> router outcome" where
  "process_kernel_input inp s =
     (let c = kr_cmd inp in
      if c = cmd_get then handle_kernel_get inp s
      else if c \<in> {cmd_update, cmd_del, cmd_copy, cmd_save} then handle_kernel_save_request inp s
      else if c = cmd_on_update_register then handle_kernel_on_update_register_request inp s
      else if c = cmd_on_update_unregister then handle_kernel_on_update_unregister_request inp s
      else if c = cmd_save_stream then handle_kernel_save_stream inp s
      else if c = cmd_recording_start then handle_kernel_recording_start inp s
      else if c = cmd_recording_stop then handle_kernel_recording_stop inp s
      else if c \<in> {cmd_notify_update, cmd_notify_delete, cmd_find_peer}
      then handle_kernel_find_peer inp s
      else if c = cmd_refuse then handle_refuse (kr_request_id inp) inp s
      else if c = cmd_clear_request then handle_kernel_clear_request inp s
      else if c \<in> {cmd_auth, cmd_save_offer} then handle_kernel_offer inp s
      else if c \<in> {cmd_auth_data, cmd_save_data}
      then handle_kernel_accept_for_multiwinner_tender inp s
      else if c \<in> {cmd_updated, cmd_get_data, cmd_deleted, cmd_copy_succeeded, cmd_save_confirm}
      then handle_kernel_confirm_for_multiwinner_tender inp s
      else if c \<in> {cmd_send_journal_info, cmd_send_uuids} then handle_sync_data_transfer inp s
      else if c = cmd_sync_finished then handle_kernel_sync_finished inp s
      else if c = cmd_get_uuid then handle_kernel_get_uuid_request inp s
      else if c \<in> {cmd_peer_found, cmd_send_to_peer, cmd_send_to_peer_confirm, cmd_deliver_fail,
                   cmd_no_permissions, cmd_save_stream_offer, cmd_stream_auth,
                   cmd_livestream_content, cmd_get_livestream_content, cmd_cancel_livestream_get,
                   cmd_recording_started, cmd_recording_stopped, cmd_recording_fail,
                   cmd_get_journal_info, cmd_on_update_registered, cmd_on_update_register_fail,
                   cmd_on_update_unregister_fail, cmd_on_update_unregistered}
      then handle_kernel_data_transfer inp s
      else Done s)"

definition process_backup_input :: "kernel_router_package \<Rightarrow> router \<Rightarrow> router outcome" where
  "process_backup_input inp s =
     (if kr_cmd inp \<in> {cmd_update, cmd_save} then handle_kernel_save_request inp s else Done s)"

definition process_storage_input :: "kernel_storage_package \<Rightarrow> router \<Rightarrow> router outcome" where
  "process_storage_input inp s =
     (if ks_cmd inp \<in> {cmd_get_data, cmd_deleted} then handle_storage_data_transfer inp s
      else if ks_cmd inp = cmd_refuse then handle_refuse (ks_request_id inp) inp s
      else Done s)"

definition process_storage_writer_input :: "kernel_storage_package \<Rightarrow> router \<Rightarrow> router outcome" where
  "process_storage_writer_input inp s =
     (if ks_cmd inp \<in> {cmd_save_confirm, cmd_updated} then handle_storage_data_transfer inp s
      else Done s)"

definition process_cache_input :: "kernel_storage_package \<Rightarrow> router \<Rightarrow> router outcome" where
  "process_cache_input inp s = Done s"

end
