(* ===== verification/Router_Link.thy ===== *)
theory Router_Link
  imports Router_Kernel
begin

text \<open>
  The half of \<^verbatim>\<open>metax/router.cpp\<close> that serves the link: a packet of a peer is parsed into
  \<open>m_router_data\<close> and becomes a new remote tender, a response for the kernel, a response to pass on to
  the peers the tender came from, or a step of a synchronisation. The functions of the offer protocol
  that no handler calls any more (\<open>decide_tender_winners\<close> and what follows it) close the theory.
\<close>

section \<open>New tenders\<close>

definition post_new_tender_to_kernel :: "router_link_package \<Rightarrow> ID32 \<Rightarrow> router \<Rightarrow> router outcome" where
  "post_new_tender_to_kernel inp r_id s =
     (let d = m_router_data s;
          s = out_kernel (\<lambda>out. out\<lparr>kr_request_id := r_id, kr_cmd := rd_cmd d, kr_uuid := rd_uuid d,
                kr_data_version := rd_data_version d, kr_last_updated := rd_last_updated d,
                kr_expire_date := rd_expire_date d\<rparr>) s
      in and_then (extract_to_kernel inp s) (\<lambda>s. Done (commit_kernel s)))"

definition forward_remote_tender :: "router_link_package \<Rightarrow> tref \<Rightarrow> router \<Rightarrow> router outcome" where
  "forward_remote_tender inp r s =
     and_then (set_round_trip_interval r s) (\<lambda>s. with_tender r s (\<lambda>t.
       let data = write_router_data t router_data0;
           data = data\<lparr>rd_hop_id := rd_hop_id data - 1\<rparr>
       in extract_local inp (rd_header_size (m_router_data s)) data s (\<lambda>data.
          and_then (serialize_to_link data s) (\<lambda>s.
          let s = out_link (\<lambda>out. out\<lparr>rl_cmd_rating := get_command_rating (rd_cmd t),
                    rl_should_block_by_sync := (rd_cmd t = cmd_get),
                    rl_cmd := cmd_broadcast_except\<rparr>) s
          in and_then (assert_that (length (t_prs t) = 1) s) (\<lambda>s.
             let s = commit_link (out_link (\<lambda>out. out\<lparr>rl_peers := t_prs t\<rparr>) s)
             in and_then (assert_that (t_typ t = Remote) s) (touch_tender r))))))"

text \<open>
  \<open>process_new_tender\<close> runs on the fresh object that \<^verbatim>\<open>operator[]\<close> of the table has just made. It is
  put in the timeline last, after the step that can throw.
\<close>

definition process_new_tender :: "router_link_package \<Rightarrow> tref \<Rightarrow> router \<Rightarrow> router outcome" where
  "process_new_tender inp r s =
     and_then (upd_tender r (read_router_data (m_router_data s)) s) (\<lambda>s.
     and_then (upd_tender r (\<lambda>t. t\<lparr>t_prs := set_insert_all (rl_peers inp) (t_prs t)\<rparr>) s) (\<lambda>s.
       let (rid, s) = get_request_id s in
       and_then (upd_tender r (\<lambda>t. t\<lparr>t_request_id := rid, t_st := Received, t_typ := Remote,
          t_idling_interval := KERNEL_RESPONSE_TIME\<rparr>) s) (\<lambda>s.
       and_then (post_new_tender_to_kernel inp rid s) (\<lambda>s. with_tender r s (\<lambda>t.
         let s = s\<lparr>m_id_tenders := map_insert (t_request_id t) (rd_tender_id t) (m_id_tenders s)\<rparr>;
             s = s\<lparr>m_tenders_timeline := m_tenders_timeline s @ [r]\<rparr>
         in touch_tender r s)))))"

definition handle_new_remote_tender :: "router_link_package \<Rightarrow> router \<Rightarrow> router outcome" where
  "handle_new_remote_tender inp s =
     (let d = m_router_data s; r = (Tenders, rd_tender_id d) in
      and_then (assert_that (rd_tender_id d \<noteq> 0) s) (\<lambda>s.
      and_then (assert_that (rd_cmd d \<noteq> cmd_max_command) s) (\<lambda>s.
      and_then (assert_that (m_tenders s (rd_tender_id d) = None) s) (\<lambda>s.
        if is_invalid_new_tender (rd_cmd d) then Done s
        else and_then (process_new_tender inp r (put_tender r (tender0 (clock s)) s)) (\<lambda>s.
          if is_first_command_of_multiwinner_tender (rd_cmd d)
          then with_tender r s (\<lambda>t.
            if rd_hop_id t \<noteq> 1 then forward_remote_tender inp r s else Done s)
          else Done s)))))"

section \<open>Synchronisation tenders\<close>

definition handle_new_sync_tender :: "router_link_package \<Rightarrow> router \<Rightarrow> router outcome" where
  "handle_new_sync_tender inp s =
     (let d = m_router_data s; r = (Sync_tenders, rd_tender_id d) in
      if rd_cmd d = cmd_sync_finished \<or> rd_cmd d = cmd_get_uuid then Done s
      else and_then (assert_that (rd_cmd d = cmd_get_journal_info \<or> rd_cmd d = cmd_start_storage_sync) s) (\<lambda>s.
        and_then (assert_that (m_sync_tenders s (rd_tender_id d) = None) s) (\<lambda>s.
          process_new_tender inp r (put_tender r (tender0 (clock s)) s))))"

definition process_existing_sync_tender :: "router_link_package \<Rightarrow> tref \<Rightarrow> router \<Rightarrow> router outcome" where
  "process_existing_sync_tender inp r s =
     and_then (upd_tender r (\<lambda>t. t\<lparr>t_st := Confirmed, t_idling_interval := KERNEL_RESPONSE_TIME\<rparr>) s) (\<lambda>s.
     with_tender r s (\<lambda>t.
       and_then (post_new_tender_to_kernel inp (t_request_id t) s) (touch_tender r)))"

definition reset_router_data :: "router \<Rightarrow> router" where
  "reset_router_data s = s\<lparr>m_router_data := rd_reset (m_router_data s)\<rparr>"

definition handle_sync_tenders :: "router_link_package \<Rightarrow> router \<Rightarrow> router outcome" where
  "handle_sync_tenders inp s =
     (let d = m_router_data s in
      and_then (assert_that (is_own_sync_tender (rd_cmd d)) s) (\<lambda>s.
      and_then (case m_sync_tenders s (rd_tender_id d) of
          None \<Rightarrow> handle_new_sync_tender inp s
        | Some _ \<Rightarrow> process_existing_sync_tender inp (Sync_tenders, rd_tender_id d) s) (\<lambda>s.
        Done (reset_router_data s))))"

section \<open>Responses\<close>

definition send_response_to_kernel :: "router_link_package \<Rightarrow> router \<Rightarrow> router outcome" where
  "send_response_to_kernel winner s =
     (case rd_extract_header winner router_data0 of None \<Rightarrow> Undef
      | Some (best, _) \<Rightarrow>
          extract_local winner (rd_header_size best) best s (\<lambda>best.
            let r = (Tenders, rd_tender_id best) in
            and_then (assert_that (m_tenders s (rd_tender_id best) \<noteq> None) s) (\<lambda>s.
            with_tender r s (\<lambda>t.
              if rd_cmd best = cmd_get_data \<and> t_st t = Confirmed then Done s
              else
                and_then (upd_tender r (\<lambda>t. t\<lparr>t_prs := set_insert_all (rl_peers winner) (t_prs t),
                   t_st := Confirmed, t_idling_interval := KERNEL_RESPONSE_TIME\<rparr>) s) (\<lambda>s.
                let s = out_kernel (\<lambda>out. out\<lparr>kr_cmd := rd_cmd best, kr_uuid := rd_uuid best\<rparr>) s in
                and_then (assert_that (t_request_id t \<noteq> UINT32_MAX) s) (\<lambda>s.
                and_then (assert_that (m_id_tenders s (t_request_id t) \<noteq> None) s) (\<lambda>s.
                let s = out_kernel (\<lambda>out. set_payload best (out\<lparr>kr_request_id := t_request_id t,
                          kr_data_version := rd_data_version best\<rparr>)) s in
                and_then (touch_tender r (commit_kernel s)) (\<lambda>s.
                upd_tender r (\<lambda>t. t\<lparr>t_received_response_cnt := t_received_response_cnt t + 1\<rparr>) s))))))))"

definition bypass_tender_response :: "router_link_package \<Rightarrow> router \<Rightarrow> router outcome" where
  "bypass_tender_response winner s =
     (case rd_extract_header winner router_data0 of None \<Rightarrow> Undef
      | Some (best, _) \<Rightarrow>
          let r = (Tenders, rd_tender_id best) in
          and_then (assert_that (m_tenders s (rd_tender_id best) \<noteq> None) s) (\<lambda>s.
          with_tender r s (\<lambda>t.
          and_then (assert_that (t_request_id t = UINT32_MAX
                      \<or> is_first_command_of_multiwinner_tender (rd_cmd t)) s) (\<lambda>s.
          and_then (upd_tender r (\<lambda>t. t\<lparr>rd_hop_id := rd_hop_id best\<rparr>) s) (\<lambda>s.
          and_then (set_round_trip_interval r s) (\<lambda>s.
          case update_hop_id (p_message winner) (rd_hop_id best - 1) of None \<Rightarrow> Undef
          | Some msg \<Rightarrow>
              let s = out_link (\<lambda>out. (set_payload winner out)\<lparr>p_message := Some msg,
                        rl_peers := set_insert_all (t_prs t) (rl_peers out), rl_cmd := cmd_send\<rparr>) s in
              and_then (if rd_cmd (m_router_data s) \<in> {cmd_save_stream_offer, cmd_peer_found, cmd_send_to_peer}
                        then upd_tender r (\<lambda>t. t\<lparr>t_prs := set_insert_all (rl_peers winner) []\<rparr>) s
                        else Done s) (\<lambda>s.
              touch_tender r (commit_link s))))))))"

definition process_remote_tender :: "router_link_package \<Rightarrow> tref \<Rightarrow> router \<Rightarrow> router outcome" where
  "process_remote_tender inp r s = with_tender r s (\<lambda>t.
     let c = rd_cmd (m_router_data s) in
     if ((c = cmd_livestream_content \<or> c = cmd_send_to_peer \<or> c = cmd_cancel_livestream_get)
         \<and> t_st t = Confirmed) \<or> c = cmd_send_uuids
     then send_response_to_kernel inp s
     else bypass_tender_response inp s)"

definition process_existing_tender_data :: "router_link_package \<Rightarrow> router \<Rightarrow> router outcome" where
  "process_existing_tender_data inp s =
     (let d = m_router_data s; r = (Tenders, rd_tender_id d) in
      and_then (assert_that (m_tenders s (rd_tender_id d) \<noteq> None) s) (\<lambda>s.
      and_then (assert_that (rd_cmd d \<noteq> cmd_max_command) s) (\<lambda>s.
      and_then (assert_that (rd_tender_id d \<noteq> 0) s) (\<lambda>s.
      with_tender r s (\<lambda>t.
        if t_is_canceled t then Done s
        else case t_typ t of
          Remote \<Rightarrow> process_remote_tender inp r s
        | Internal \<Rightarrow> send_response_to_kernel inp s
        | Max_type \<Rightarrow> Done s)))))"

definition process_existing_tender :: "router_link_package \<Rightarrow> router \<Rightarrow> router outcome" where
  "process_existing_tender inp s =
     (let d = m_router_data s; r = (Tenders, rd_tender_id d) in
      and_then (assert_that (m_tenders s (rd_tender_id d) \<noteq> None) s) (\<lambda>s.
      and_then (assert_that (rd_cmd d \<noteq> cmd_max_command) s) (\<lambda>s.
      and_then (assert_that (rd_tender_id d \<noteq> 0) s) (\<lambda>s.
        if rd_cmd d \<in> {cmd_get, cmd_save, cmd_update, cmd_del, cmd_copy, cmd_on_update_register,
                       cmd_find_peer}
        then Done s
        else if rd_cmd d = cmd_sync_finished then clean_up_tender_info r s
        else with_tender r s (\<lambda>t.
          and_then (assert_that (t_typ t = Internal \<or> t_typ t = Remote) s)
            (process_existing_tender_data inp))))))"

section \<open>Input of the link\<close>

definition send_notification_to_kernel :: "router_link_package \<Rightarrow> router \<Rightarrow> router outcome" where
  "send_notification_to_kernel inp s =
     and_then (assert_that (rl_cmd inp = cmd_connected \<or> rl_cmd inp = cmd_disconnected) s) (\<lambda>s.
       Done (commit_kernel (out_kernel (\<lambda>out. set_payload inp (out\<lparr>kr_cmd := rl_cmd inp\<rparr>)) s)))"

definition parse_router_data :: "router_link_package \<Rightarrow> router \<Rightarrow> router outcome" where
  "parse_router_data inp s =
     (case rd_extract_header inp (m_router_data s) of None \<Rightarrow> Undef
      | Some (d, _) \<Rightarrow> Done (s\<lparr>m_router_data := d\<rparr>))"

definition handle_link_data :: "router_link_package \<Rightarrow> router \<Rightarrow> router outcome" where
  "handle_link_data inp s =
     and_then (parse_router_data inp s) (\<lambda>s.
       let s = (if rd_tender_id (m_router_data s) = 0
                then let (t_id, s) = get_tender_id s
                     in s\<lparr>m_router_data := (m_router_data s)\<lparr>rd_tender_id := t_id\<rparr>\<rparr>
                else s) in
       if is_own_sync_tender (rd_cmd (m_router_data s)) then handle_sync_tenders inp s
       else
         and_then (assert_that (rd_tender_id (m_router_data s) \<noteq> 0) s) (\<lambda>s.
         and_then (assert_that (rd_cmd (m_router_data s) \<noteq> cmd_max_command) s) (\<lambda>s.
         and_then (case m_tenders s (rd_tender_id (m_router_data s)) of
             None \<Rightarrow> handle_new_remote_tender inp s
           | Some _ \<Rightarrow> process_existing_tender inp s) (\<lambda>s.
           Done (reset_router_data s)))))"

text \<open>Unlike \<open>handle_link_data\<close> it does not reset \<open>m_router_data\<close>.\<close>

definition handle_link_nack :: "router_link_package \<Rightarrow> router \<Rightarrow> router outcome" where
  "handle_link_nack inp s =
     and_then (parse_router_data inp s) (\<lambda>s.
     and_then (assert_that (rd_tender_id (m_router_data s) \<noteq> 0) s) (\<lambda>s.
       case m_tenders s (rd_tender_id (m_router_data s)) of None \<Rightarrow> Done s
       | Some _ \<Rightarrow> clean_up_tender (Tenders, rd_tender_id (m_router_data s)) s))"

definition process_link_input :: "router_link_package \<Rightarrow> router \<Rightarrow> router outcome" where
  "process_link_input inp s =
     (if rl_cmd inp = cmd_nack then handle_link_nack inp s
      else if rl_cmd inp = cmd_received_data then handle_link_data inp s
      else if rl_cmd inp \<in> {cmd_connected, cmd_disconnected} then send_notification_to_kernel inp s
      else Done s)"

section \<open>The offer protocol\<close>

text \<open>These functions are still in the file; nothing calls them (their calls are commented out).\<close>

definition send_incoming_tender_data_to_kernel :: "router_link_package \<Rightarrow> tref \<Rightarrow> router \<Rightarrow> router outcome" where
  "send_incoming_tender_data_to_kernel inp r s = with_tender r s (\<lambda>t.
     let d = m_router_data s in
     and_then (assert_that (rd_cmd d \<noteq> cmd_max_command) s) (\<lambda>s.
     and_then (assert_that (t_request_id t \<noteq> UINT32_MAX) s) (\<lambda>s.
     and_then (upd_tender r (\<lambda>t. t\<lparr>t_st := Confirmed,
        t_prs := set_insert_all (rl_peers inp) (t_prs t)\<rparr>) s) (\<lambda>s.
       let s = out_kernel (\<lambda>out. out\<lparr>kr_request_id := t_request_id t, kr_cmd := rd_cmd d,
                 kr_uuid := rd_uuid d\<rparr>) s
       in and_then (extract_to_kernel inp s) (\<lambda>s. touch_tender r (commit_kernel s))))))"

definition forward_data_to_winner_peer ::
    "router_link_package \<Rightarrow> tref \<Rightarrow> ID32 \<Rightarrow> ID32 list \<Rightarrow> router \<Rightarrow> router outcome" where
  "forward_data_to_winner_peer inp r p w s = with_tender r s (\<lambda>t.
     and_then (assert_that (t_st t = Confirmed \<or> t_st t = Received) s) (\<lambda>s.
     and_then (assert_that (t_typ t = Remote \<or> t_typ t = Internal) s) (\<lambda>s.
     and_then (assert_that (p \<noteq> LINK_REQUEST_UPPER_BOUND) s) (\<lambda>s.
       let data = write_router_data t router_data0;
           data = data\<lparr>rd_hop_id := rd_hop_id data - 1, rd_cmd := rd_cmd (m_router_data s),
             rd_winners_id := w\<rparr>
       in extract_local inp (rd_header_size (m_router_data s)) data s (\<lambda>data.
          let s = out_link (\<lambda>out. out\<lparr>rl_cmd := cmd_send, rl_peers := insort_insert p (rl_peers out)\<rparr>) s
          in and_then (serialize_to_link data s) (\<lambda>s. Done (commit_link s)))))))"

text \<open>The pairs (peer of winner \<open>wid\<close>, offer of winner \<open>i\<close>) that the loop over the received ids collects.\<close>

fun pick_winners :: "(ID32 \<times> ID32) list \<Rightarrow> nat \<Rightarrow> ID32 list \<Rightarrow> (ID32 \<times> ID32) list outcome" where
  "pick_winners ws i [] = Done []"
| "pick_winners ws i (wid # wids) =
     (if \<not> unat wid < length ws then Aborted
      else if \<not> i < length ws then Undef
      else case pick_winners ws (Suc i) wids of
          Done ps \<Rightarrow> Done ((fst (ws ! unat wid), snd (ws ! i)) # ps) | oc \<Rightarrow> oc)"

definition handle_peer_accept_for_multiwinner_tender :: "router_link_package \<Rightarrow> tref \<Rightarrow> router \<Rightarrow> router outcome" where
  "handle_peer_accept_for_multiwinner_tender inp r s = with_tender r s (\<lambda>t.
     let d = m_router_data s in
     and_then (assert_that (is_accept_command_of_multiwinner_tender (rd_cmd d) (rd_cmd t)) s) (\<lambda>s.
       case pick_winners (t_winners t) 0 (rd_winners_id d) of
         Done ws \<Rightarrow>
           and_then (for_each (winners_by_peer ws) (\<lambda>(peer, ids) s.
              if peer = LINK_REQUEST_UPPER_BOUND then send_incoming_tender_data_to_kernel inp r s
              else forward_data_to_winner_peer inp r peer ids s) s) (\<lambda>s.
           and_then (set_round_trip_interval r s) (touch_tender r))
       | Thrown _ \<Rightarrow> Thrown s | Aborted \<Rightarrow> Aborted | Undef \<Rightarrow> Undef))"

definition responses_of :: "uuid \<Rightarrow> router \<Rightarrow> response list" where
  "responses_of t_id s = (case m_responses s t_id of None \<Rightarrow> [] | Some rs \<Rightarrow> rs)"

definition select_all_responses_as_winners :: "response list \<Rightarrow> (ID32 \<times> ID32) list" where
  "select_all_responses_as_winners rs =
     concat (map (\<lambda>r. map (\<lambda>offer. (res_peer r, offer)) (res_offers r)) rs)"

text \<open>
  One pass of the loop over the responses takes offer number \<open>j\<close> of every response that has one, until
  \<open>win\<close> winners are found; \<open>n\<close> passes are made, one for each winner wanted.
\<close>

fun winners_pass :: "nat \<Rightarrow> nat \<Rightarrow> response list \<Rightarrow> (ID32 \<times> ID32) list \<Rightarrow> (ID32 \<times> ID32) list \<times> bool" where
  "winners_pass win j [] ws = (ws, False)"
| "winners_pass win j (r # rs) ws =
     (if j < length (res_offers r)
      then let ws = ws @ [(res_peer r, res_offers r ! j)]
           in if win \<le> length ws then (ws, True) else winners_pass win j rs ws
      else winners_pass win j rs ws)"

fun winners_rounds :: "nat \<Rightarrow> nat \<Rightarrow> nat \<Rightarrow> response list \<Rightarrow> (ID32 \<times> ID32) list \<Rightarrow> (ID32 \<times> ID32) list" where
  "winners_rounds 0 win j rs ws = ws"
| "winners_rounds (Suc n) win j rs ws =
     (let (ws, full) = winners_pass win j rs ws
      in if full then ws else winners_rounds n win (Suc j) rs ws)"

definition decide_tender_winners_for_save_request :: "tender \<Rightarrow> response list \<Rightarrow> (ID32 \<times> ID32) list" where
  "decide_tender_winners_for_save_request t rs =
     (let win_count = (if t_typ t = Internal then unat (t_max_response_cnt t) else 3)
      in winners_rounds win_count win_count 0 rs (t_winners t))"

definition decide_tender_winners :: "tref \<Rightarrow> router \<Rightarrow> router outcome" where
  "decide_tender_winners r s = with_tender r s (\<lambda>t.
     let rs = responses_of (rd_tender_id t) s in
     if rd_cmd t = cmd_del \<or> rd_cmd t = cmd_update \<or> rd_cmd t = cmd_copy
     then upd_tender r (\<lambda>t. t\<lparr>t_winners := t_winners t @ select_all_responses_as_winners rs\<rparr>) s
     else and_then (assert_that (rd_cmd t = cmd_save) s)
       (upd_tender r (\<lambda>t. t\<lparr>t_winners := decide_tender_winners_for_save_request t rs\<rparr>)))"

definition offer_command :: "tender \<Rightarrow> command" where
  "offer_command t = (if rd_cmd t = cmd_save then cmd_save_offer else cmd_auth)"

definition send_multiwinner_tender_offer_to_kernel :: "tref \<Rightarrow> router \<Rightarrow> router outcome" where
  "send_multiwinner_tender_offer_to_kernel r s = with_tender r s (\<lambda>t.
     touch_tender r (commit_kernel (out_kernel (\<lambda>out. out\<lparr>kr_request_id := t_request_id t,
       kr_cmd := offer_command t, kr_uuid := rd_uuid t,
       kr_winners_count := of_nat (length (t_winners t))\<rparr>) s)))"

definition send_multiwinner_tender_offer_to_announcer_peer :: "tref \<Rightarrow> router \<Rightarrow> router outcome" where
  "send_multiwinner_tender_offer_to_announcer_peer r s = with_tender r s (\<lambda>t.
     let data = write_router_data t router_data0;
         data = data\<lparr>rd_cmd := offer_command t,
           rd_winners_id := map of_nat [0..<length (t_winners t)]\<rparr>
     in and_then (serialize_to_link data s) (\<lambda>s.
        let s = out_link (\<lambda>out. out\<lparr>rl_cmd := cmd_send\<rparr>) s in
        and_then (assert_that (t_prs t \<noteq> []) s) (\<lambda>s.
          let s = out_link (\<lambda>out. out\<lparr>rl_peers := insort_insert (hd (t_prs t)) (rl_peers out)\<rparr>) s
          in and_then (set_round_trip_interval r s) (\<lambda>s.
             and_then (touch_tender r s) (\<lambda>s. Done (commit_link s))))))"

definition handle_multiwinner_tender_responses :: "tref \<Rightarrow> router \<Rightarrow> router outcome" where
  "handle_multiwinner_tender_responses r s = with_tender r s (\<lambda>t.
     and_then (assert_that (t_request_id t \<noteq> UINT32_MAX) s) (\<lambda>s.
     and_then (upd_tender r (\<lambda>t. t\<lparr>t_st := Confirmed\<rparr>) s) (\<lambda>s.
     and_then (decide_tender_winners r s) (\<lambda>s. with_tender r s (\<lambda>t.
       let drop_responses = (\<lambda>s. s\<lparr>m_responses := (m_responses s)(rd_tender_id t := None)\<rparr>) in
       if t_winners t = [] then clean_up_tender r (drop_responses s)
       else and_then (if t_typ t = Internal then send_multiwinner_tender_offer_to_kernel r s
                      else send_multiwinner_tender_offer_to_announcer_peer r s) (\<lambda>s.
              Done (drop_responses s)))))))"

end
