(* ===== verification/Router_Loop.thy ===== *)
theory Router_Loop
  imports Router_Link
begin

text \<open>
  The expiry of tenders and the loop of \<^verbatim>\<open>router::runTask\<close>: one iteration serves every input channel
  once (front package, handler, catch clauses, consume) and then at most one expired tender.
\<close>

section \<open>Expired tenders\<close>

text \<open>
  \<^verbatim>\<open>std::make_heap\<close> promises a permutation with a maximal element in front and nothing else; this one
  sifts a maximal element to the front. The locale \<open>heap_order\<close> derives the two facts from the laws of
  the comparison, and only they are used.
\<close>

fun make_heap :: "('a \<Rightarrow> 'a \<Rightarrow> bool) \<Rightarrow> 'a list \<Rightarrow> 'a list" where
  "make_heap lt [] = []"
| "make_heap lt (x # xs) =
     (case make_heap lt xs of [] \<Rightarrow> [x]
      | y # ys \<Rightarrow> if lt x y then y # x # ys else x # y # ys)"

locale heap_order =
  fixes lt :: "'a \<Rightarrow> 'a \<Rightarrow> bool"
  assumes asym: "lt x y \<Longrightarrow> \<not> lt y x"
    and neg_trans: "\<not> lt x y \<Longrightarrow> \<not> lt y z \<Longrightarrow> \<not> lt x z"
begin

lemma mset_heap: "mset (make_heap lt xs) = mset xs"
  by (induction xs) (auto split: list.splits)

lemma front_maximal: "x \<in> set xs \<Longrightarrow> \<not> lt (hd (make_heap lt xs)) x"
proof (induction xs arbitrary: x)
  case (Cons a xs)
  have irr: "\<not> lt z z" for z
    using asym by blast
  show ?case
  proof (cases "make_heap lt xs")
    case Nil
    then have "xs = []"
      using mset_heap [of xs] by simp
    with Cons.prems irr show ?thesis by simp
  next
    case (Cons y ys)
    have "\<not> lt y x'" if "x' \<in> set xs" for x'
      using Cons.IH [OF that] Cons by simp
    moreover have "\<not> lt y a" if "lt a y"
      using that by (rule asym)
    ultimately show ?thesis
      using Cons.prems Cons irr neg_trans [of a y] by (cases "lt a y") fastforce+
  qed
qed simp

end

text \<open>The order the timeline is kept in: \<open>tender::less_than\<close> at a fixed reading of the clock.\<close>

lemma less_than_iff:
  "less_than now t1 t2 \<longleftrightarrow> is_expired now t2 \<and> \<not> is_expired now t1
     \<or> (is_expired now t1 \<longleftrightarrow> is_expired now t2) \<and> t_time t2 < t_time t1"
  by (auto simp: less_than_def)

interpretation by_expiry: heap_order "less_than now" for now
proof
  show "less_than now x y \<Longrightarrow> \<not> less_than now y x" for x y
    by (cases "is_expired now x"; cases "is_expired now y") (simp_all add: less_than_iff)
  show "\<not> less_than now x y \<Longrightarrow> \<not> less_than now y z \<Longrightarrow> \<not> less_than now x z" for x y z
    by (cases "is_expired now x"; cases "is_expired now y"; cases "is_expired now z")
      (simp_all add: less_than_iff)
qed

interpretation by_expiry_ref: heap_order "\<lambda>a b :: tref \<times> tender. less_than now (snd a) (snd b)" for now
proof
  show "less_than now (snd x) (snd y) \<Longrightarrow> \<not> less_than now (snd y) (snd x)" for x y :: "tref \<times> tender"
    by (rule by_expiry.asym)
  show "\<not> less_than now (snd x) (snd y) \<Longrightarrow> \<not> less_than now (snd y) (snd z) \<Longrightarrow> \<not> less_than now (snd x) (snd z)"
    for x y z :: "tref \<times> tender"
    by (rule by_expiry.neg_trans)
qed

fun tenders_of :: "tref list \<Rightarrow> router \<Rightarrow> (tref \<times> tender) list option" where
  "tenders_of [] s = Some []"
| "tenders_of (r # rs) s =
     do { t \<leftarrow> tender_at r s; rts \<leftarrow> tenders_of rs s; Some ((r, t) # rts) }"

definition heap_timeline :: "router \<Rightarrow> router outcome" where
  "heap_timeline s =
     (case tenders_of (m_tenders_timeline s) s of None \<Rightarrow> Undef
      | Some rts \<Rightarrow> Done (s\<lparr>m_tenders_timeline :=
          map fst (make_heap (\<lambda>a b. less_than (clock s) (snd a) (snd b)) rts)\<rparr>))"

definition get_expired_tender :: "router \<Rightarrow> (tref option \<Rightarrow> router \<Rightarrow> router outcome) \<Rightarrow> router outcome" where
  "get_expired_tender s k =
     (if \<not> m_router_timeout s \<and> \<not> m_expired_tender_exists s then k None s
      else if m_tenders_timeline s = [] then k None (s\<lparr>m_router_timeout := False, m_signal := False\<rparr>)
      else and_then (heap_timeline (s\<lparr>m_router_timeout := False, m_signal := False\<rparr>)) (\<lambda>s.
             let r = hd (m_tenders_timeline s) in
             with_tender r s (\<lambda>t. if \<not> is_expired (clock s) t then k None s else k (Some r) s)))"

definition handle_expired_sync_tender :: "tref \<Rightarrow> router \<Rightarrow> router outcome" where
  "handle_expired_sync_tender r s = with_tender r s (\<lambda>t.
     let s = (if t_is_canceled t then s else cancel_request (t_request_id t) s) in
     and_then (post_sync_finished_request_to_link_peer r s) (clean_up_sync_tender_info r))"

definition process_expired_tender :: "tref \<Rightarrow> router \<Rightarrow> router outcome" where
  "process_expired_tender r s = with_tender r s (\<lambda>t.
     if is_sync_cmd (rd_cmd t) then handle_expired_sync_tender r s
     else clean_up_tender r (s\<lparr>m_responses := (m_responses s)(rd_tender_id t := None)\<rparr>))"

definition handle_expired_tenders :: "router \<Rightarrow> router outcome" where
  "handle_expired_tenders s = get_expired_tender s (\<lambda>found s.
     case found of None \<Rightarrow> Done s
     | Some r \<Rightarrow>
         and_then (process_expired_tender r s) (\<lambda>s.
         let s = s\<lparr>m_expired_tender_exists := False\<rparr> in
         if m_tenders_timeline s \<noteq> []
         then and_then (heap_timeline s) (\<lambda>s. with_tender (hd (m_tenders_timeline s)) s (\<lambda>t.
                Done (s\<lparr>m_expired_tender_exists := is_expired (clock s) t\<rparr>)))
         else Done s))"

definition onTimer :: "router \<Rightarrow> router" where
  "onTimer s = s\<lparr>m_router_timeout := True, m_signal := True\<rparr>"

section \<open>Configuration and wallet\<close>

text \<open>\<^verbatim>\<open>peer_response_wait_time * 1000000\<close> is a multiplication of \<^verbatim>\<open>int\<close>, undefined when it overflows.\<close>

definition configure_router :: "router_cfg_package \<Rightarrow> router \<Rightarrow> router outcome" where
  "configure_router inp s =
     and_then (assert_that (rc_cmd inp = cmd_router_config) s) (\<lambda>s.
       let us = int (unat (rc_peer_response_wait_time inp)) * 1000000 in
       if us > 2 ^ 31 - 1 then Undef
       else Done (s\<lparr>max_hops := rc_max_hops inp, response_time := us, m_is_configured := True\<rparr>))"

definition process_config_input :: "router_cfg_package \<Rightarrow> router \<Rightarrow> router outcome" where
  "process_config_input inp s =
     (if rc_cmd inp = cmd_router_config then configure_router inp s else Done s)"

definition end_of_connections :: "byte list" where
  "end_of_connections = map of_char ''router:  end of connections''"

definition process_wallet_input :: "package \<Rightarrow> router \<Rightarrow> router outcome" where
  "process_wallet_input inp s =
     (if p_message inp = None then Undef
      else case set_payload_string end_of_connections (slot (wallet_tx s)) of
        Done out \<Rightarrow> Done (s\<lparr>wallet_tx :=
          deactivate (commit default_package (set_slot (\<lambda>_. out) (wallet_tx s)))\<rparr>)
      | Thrown out \<Rightarrow> Thrown s | Aborted \<Rightarrow> Aborted | Undef \<Rightarrow> Undef)"

section \<open>The inputs\<close>

definition consumed :: "'a fifo \<Rightarrow> ('a fifo \<Rightarrow> router) \<Rightarrow> router outcome" where
  "consumed f put = (case fifo_pop f of Done f' \<Rightarrow> Done (put f') | _ \<Rightarrow> Aborted)"

definition handle_config_input :: "router \<Rightarrow> router outcome" where
  "handle_config_input s =
     (case fifo_front (config_rx s) of None \<Rightarrow> Done s
      | Some inp \<Rightarrow> and_then (catch_log (process_config_input inp s)) (\<lambda>s.
          consumed (config_rx s) (\<lambda>f. s\<lparr>config_rx := f\<rparr>)))"

definition handle_kernel_input :: "router \<Rightarrow> router outcome" where
  "handle_kernel_input s =
     (case fifo_front (kernel_rx s) of None \<Rightarrow> Done s
      | Some inp \<Rightarrow>
          if \<not> m_is_configured s then Done s
          else and_then (catch_log (process_kernel_input inp s)) (\<lambda>s.
            consumed (kernel_rx s) (\<lambda>f. s\<lparr>kernel_rx := f\<rparr>)))"

definition handle_storage_input :: "router \<Rightarrow> router outcome" where
  "handle_storage_input s =
     (case fifo_front (storage_rx s) of None \<Rightarrow> Done s
      | Some inp \<Rightarrow>
          if \<not> m_is_configured s then Done s
          else and_then (catch_log (process_storage_input inp s)) (\<lambda>s.
            consumed (storage_rx s) (\<lambda>f. s\<lparr>storage_rx := f\<rparr>)))"

definition handle_storage_writer_input :: "router \<Rightarrow> router outcome" where
  "handle_storage_writer_input s =
     (case fifo_front (storage_writer_rx s) of None \<Rightarrow> Done s
      | Some inp \<Rightarrow>
          if \<not> m_is_configured s then Done s
          else and_then (catch_log (process_storage_writer_input inp s)) (\<lambda>s.
            consumed (storage_writer_rx s) (\<lambda>f. s\<lparr>storage_writer_rx := f\<rparr>)))"

definition handle_cache_input :: "router \<Rightarrow> router outcome" where
  "handle_cache_input s =
     (case fifo_front (cache_rx s) of None \<Rightarrow> Done s
      | Some inp \<Rightarrow>
          if \<not> m_is_configured s then Done s
          else and_then (catch_log (process_cache_input inp s)) (\<lambda>s.
            consumed (cache_rx s) (\<lambda>f. s\<lparr>cache_rx := f\<rparr>)))"

definition handle_backup_input :: "router \<Rightarrow> router outcome" where
  "handle_backup_input s =
     (case fifo_front (backup_rx s) of None \<Rightarrow> Done s
      | Some inp \<Rightarrow>
          if \<not> m_is_configured s then Done s
          else and_then (catch_log (process_backup_input inp s)) (\<lambda>s.
            consumed (backup_rx s) (\<lambda>f. s\<lparr>backup_rx := f\<rparr>)))"

definition handle_wallet_input :: "router \<Rightarrow> router outcome" where
  "handle_wallet_input s =
     (case fifo_front (wallet_rx s) of None \<Rightarrow> Done s
      | Some inp \<Rightarrow>
          if \<not> m_is_configured s then Done s
          else and_then (catch_log (process_wallet_input inp s)) (\<lambda>s.
            consumed (wallet_rx s) (\<lambda>f. s\<lparr>wallet_rx := f\<rparr>)))"

definition handle_link_input :: "router \<Rightarrow> router outcome" where
  "handle_link_input s =
     (case fifo_front (link_rx s) of None \<Rightarrow> Done s
      | Some inp \<Rightarrow> and_then (catch_log (process_link_input inp s)) (\<lambda>s.
          consumed (link_rx s) (\<lambda>f. s\<lparr>link_rx := f\<rparr>)))"

text \<open>The body of the loop of \<open>wait_for_input_channels\<close> after the wait.\<close>

definition router_iteration :: "router \<Rightarrow> router outcome" where
  "router_iteration s =
     and_then (handle_config_input s) (\<lambda>s.
     and_then (handle_kernel_input s) (\<lambda>s.
     and_then (handle_storage_input s) (\<lambda>s.
     and_then (handle_storage_writer_input s) (\<lambda>s.
     and_then (handle_cache_input s) (\<lambda>s.
     and_then (handle_backup_input s) (\<lambda>s.
     and_then (handle_wallet_input s) (\<lambda>s.
     and_then (handle_link_input s) handle_expired_tenders)))))))"

section \<open>Runs\<close>

text \<open>
  What the other threads do between two iterations: a package arrives on an input, the timer fires,
  time passes. Everything else belongs to the router.
\<close>

datatype router_event =
    From_config router_cfg_package
  | From_kernel kernel_router_package
  | From_storage kernel_storage_package
  | From_storage_writer kernel_storage_package
  | From_cache kernel_storage_package
  | From_backup kernel_router_package
  | From_wallet package
  | From_link router_link_package
  | Timer
  | Elapse nat

fun environment :: "router_event \<Rightarrow> router \<Rightarrow> router" where
  "environment (From_config p) s = s\<lparr>config_rx := fifo_write router_cfg_package0 p (config_rx s), m_signal := True\<rparr>"
| "environment (From_kernel p) s = s\<lparr>kernel_rx := fifo_write kernel_router_package0 p (kernel_rx s), m_signal := True\<rparr>"
| "environment (From_storage p) s = s\<lparr>storage_rx := fifo_write kernel_storage_package0 p (storage_rx s), m_signal := True\<rparr>"
| "environment (From_storage_writer p) s =
     s\<lparr>storage_writer_rx := fifo_write kernel_storage_package0 p (storage_writer_rx s), m_signal := True\<rparr>"
| "environment (From_cache p) s = s\<lparr>cache_rx := fifo_write kernel_storage_package0 p (cache_rx s), m_signal := True\<rparr>"
| "environment (From_backup p) s = s\<lparr>backup_rx := fifo_write kernel_router_package0 p (backup_rx s), m_signal := True\<rparr>"
| "environment (From_wallet p) s = s\<lparr>wallet_rx := fifo_write default_package p (wallet_rx s), m_signal := True\<rparr>"
| "environment (From_link p) s = s\<lparr>link_rx := fifo_write router_link_package0 p (link_rx s), m_signal := True\<rparr>"
| "environment Timer s = onTimer s"
| "environment (Elapse n) s = s\<lparr>clock := clock s + int n\<rparr>"

inductive router_step :: "router \<Rightarrow> router \<Rightarrow> bool" where
  event: "router_step s (environment e s)"
| iteration: "router_iteration s = Done s' \<Longrightarrow> router_step s s'"

inductive router_reachable :: "router \<Rightarrow> bool" where
  start: "router_reachable (router_init now uuids)"
| step: "router_reachable s \<Longrightarrow> router_step s s' \<Longrightarrow> router_reachable s'"

inductive_cases router_stepE: "router_step s s'"

text \<open>A run as a function, for concrete executions: events, each followed by an iteration.\<close>

fun router_run :: "router_event list \<Rightarrow> router \<Rightarrow> router outcome" where
  "router_run [] s = Done s"
| "router_run (e # es) s = and_then (router_iteration (environment e s)) (router_run es)"

lemma router_run_reachable:
  "router_reachable s \<Longrightarrow> router_run es s = Done s' \<Longrightarrow> router_reachable s'"
proof (induction es arbitrary: s)
  case Nil
  then show ?case by simp
next
  case (Cons e es)
  obtain s1 where s1: "router_iteration (environment e s) = Done s1" "router_run es s1 = Done s'"
    using Cons.prems(2) by (auto simp: and_then_Done_iff)
  have "router_reachable (environment e s)"
    using Cons.prems(1) by (rule router_reachable.step) (rule router_step.event)
  then have "router_reachable s1"
    by (rule router_reachable.step) (rule router_step.iteration [OF s1(1)])
  then show ?case
    using s1(2) by (rule Cons.IH)
qed

end
