(* ===== verification/Router_Inv.thy ===== *)
theory Router_Inv
  imports Router_Loop
begin

text \<open>
  The invariant of the router and the pass over its handlers that shows it. \<open>ends P Q m\<close> separates the
  states a handler returns in from those an exception leaves behind; the rules of \<open>run_simps\<close> execute
  a handler symbolically up to its final states, and those of \<open>inv_intros\<close> compose handlers.
\<close>

named_theorems run_simps \<open>symbolic execution of handlers\<close>
named_theorems inv_intros \<open>handlers keep the invariant\<close>

declare split_paired_All [simp del] split_paired_Ex [simp del]

section \<open>Normal and exceptional ends\<close>

primrec ends :: "('s \<Rightarrow> bool) \<Rightarrow> ('s \<Rightarrow> bool) \<Rightarrow> 's outcome \<Rightarrow> bool" where
  "ends P Q (Done s) = P s"
| "ends P Q (Thrown s) = Q s"
| "ends P Q Aborted = True"
| "ends P Q Undef = True"

lemma ends_and_then: "ends R Q m \<Longrightarrow> (\<And>s. R s \<Longrightarrow> ends P Q (f s)) \<Longrightarrow> ends P Q (and_then m f)"
  by (cases m) auto

lemma ends_assert: "ends P Q (and_then (assert_that b s) f) \<longleftrightarrow> (b \<longrightarrow> ends P Q (f s))"
  by (simp add: assert_that_def)

lemma ends_with_tender:
  "(\<And>t. tender_at r s = Some t \<Longrightarrow> ends P Q (k t)) \<Longrightarrow> ends P Q (with_tender r s k)"
  by (cases "tender_at r s") (simp_all add: with_tender_def)

lemma ends_if:
  "(b \<Longrightarrow> ends P Q x) \<Longrightarrow> (\<not> b \<Longrightarrow> ends P Q y) \<Longrightarrow> ends P Q (if b then x else y)"
  by simp

lemma ends_mono:
  "ends P Q m \<Longrightarrow> (\<And>s. P s \<Longrightarrow> P' s) \<Longrightarrow> (\<And>s. Q s \<Longrightarrow> Q' s) \<Longrightarrow> ends P' Q' m"
  by (cases m) auto

lemma ends_catch: "ends P P m \<Longrightarrow> ends P Q (catch_log m)"
  by (cases m) auto

lemma ends_DoneD: "ends P Q m \<Longrightarrow> m = Done s \<Longrightarrow> P s"
  by simp

lemma and_then_with_tender: "and_then (with_tender r s k) f = with_tender r s (\<lambda>t. and_then (k t) f)"
  by (simp add: with_tender_def split: option.splits)

lemma and_then_upd_tender: "and_then (upd_tender r g s) f = with_tender r s (\<lambda>t. f (put_tender r (g t) s))"
  by (simp add: upd_tender_def and_then_with_tender)

lemma and_then_touch_tender:
  "and_then (touch_tender r s) f = with_tender r s (\<lambda>t. f (put_tender r (t\<lparr>t_time := clock s\<rparr>) s))"
  by (simp add: touch_tender_def and_then_upd_tender)

lemma and_then_set_round_trip_interval:
  "and_then (set_round_trip_interval r s) f =
     with_tender r s (\<lambda>t. f (put_tender r (t\<lparr>t_idling_interval := round_trip_interval t s\<rparr>) s))"
  by (simp add: set_round_trip_interval_def and_then_upd_tender)

lemma ends_serialize_to_link:
  "(\<And>out. rd_serialize d (slot (link_tx s)) = Some out \<Longrightarrow> ends P Q (f (out_link (\<lambda>_. out) s)))
   \<Longrightarrow> ends P Q (and_then (serialize_to_link d s) f)"
  by (simp add: serialize_to_link_def split: option.splits)

lemma ends_extract_local:
  "Q s \<Longrightarrow> (\<And>d'. extract_payload inp (unat off) d = Done d' \<Longrightarrow> ends P Q (k d'))
   \<Longrightarrow> ends P Q (extract_local inp off d s k)"
  by (simp add: extract_local_def split: outcome.splits)

lemma ends_extract_to_kernel:
  "(\<And>out. Q (out_kernel (\<lambda>_. out) s)) \<Longrightarrow> (\<And>out. ends P Q (f (out_kernel (\<lambda>_. out) s)))
   \<Longrightarrow> ends P Q (and_then (extract_to_kernel inp s) f)"
  by (simp add: extract_to_kernel_def split: outcome.splits)

lemmas run_rules = ends_with_tender ends_serialize_to_link ends_extract_local ends_extract_to_kernel

lemmas [run_simps] = and_then_assoc and_then_with_tender and_then_upd_tender and_then_touch_tender
  and_then_set_round_trip_interval ends_assert Let_def split_beta

section \<open>Tender tables under updates\<close>

lemma tender_at_put [simp]: "tender_at r' (put_tender r t s) = (if r' = r then Some t else tender_at r' s)"
  by (cases r rule: prod.exhaust; cases "fst r"; cases r'; cases "fst r'") auto

lemma put_tender_select [simp]:
  "m_router_data (put_tender r t s) = m_router_data s"
  "m_responses (put_tender r t s) = m_responses s"
  "m_tenders_timeline (put_tender r t s) = m_tenders_timeline s"
  "m_id_tenders (put_tender r t s) = m_id_tenders s"
  "m_request_counter (put_tender r t s) = m_request_counter s"
  "max_hops (put_tender r t s) = max_hops s"
  "response_time (put_tender r t s) = response_time s"
  "m_expired_tender_exists (put_tender r t s) = m_expired_tender_exists s"
  "kernel_tx (put_tender r t s) = kernel_tx s"
  "link_tx (put_tender r t s) = link_tx s"
  "clock (put_tender r t s) = clock s"
  "uuid_count (put_tender r t s) = uuid_count s"
  by (cases r rule: prod.exhaust; cases "fst r"; simp)+

lemma with_tender_put [simp]: "with_tender r (put_tender r t s) k = k t"
  by (simp add: with_tender_def)

lemma tender_at_frame [simp]:
  "tender_at r (out_link g s) = tender_at r s"
  "tender_at r (commit_link s) = tender_at r s"
  "tender_at r (out_kernel h s) = tender_at r s"
  "tender_at r (commit_kernel s) = tender_at r s"
  "tender_at r (s\<lparr>m_router_data := d\<rparr>) = tender_at r s"
  "tender_at r (s\<lparr>m_responses := rs\<rparr>) = tender_at r s"
  "tender_at r (s\<lparr>m_tenders_timeline := tline\<rparr>) = tender_at r s"
  "tender_at r (s\<lparr>m_id_tenders := ids\<rparr>) = tender_at r s"
  "tender_at r (s\<lparr>m_request_counter := c\<rparr>) = tender_at r s"
  "tender_at r (s\<lparr>uuid_count := n\<rparr>) = tender_at r s"
  "tender_at r (s\<lparr>m_router_timeout := b\<rparr>) = tender_at r s"
  "tender_at r (s\<lparr>m_signal := b\<rparr>) = tender_at r s"
  "tender_at r (s\<lparr>m_expired_tender_exists := b\<rparr>) = tender_at r s"
  "tender_at r (s\<lparr>max_hops := h0\<rparr>) = tender_at r s"
  "tender_at r (s\<lparr>response_time := rt\<rparr>) = tender_at r s"
  "tender_at r (s\<lparr>m_is_configured := b\<rparr>) = tender_at r s"
  "tender_at r (s\<lparr>clock := now\<rparr>) = tender_at r s"
  "tender_at r (s\<lparr>wallet_tx := w\<rparr>) = tender_at r s"
  by (cases r rule: prod.exhaust; cases "fst r";
      simp add: out_link_def commit_link_def out_kernel_def commit_kernel_def)+

lemma tender_at_tables [simp]:
  "tender_at r (s\<lparr>m_tenders := m\<rparr>) = (if fst r = Tenders then m (snd r) else tender_at r s)"
  "tender_at r (s\<lparr>m_sync_tenders := m\<rparr>) = (if fst r = Sync_tenders then m (snd r) else tender_at r s)"
  by (cases r rule: prod.exhaust; cases "fst r"; auto)+

lemma tables_tender_at [run_simps]:
  "m_tenders s k = tender_at (Tenders, k) s"
  "m_sync_tenders s k = tender_at (Sync_tenders, k) s"
  by simp_all

lemma out_select [simp]:
  "m_router_data (out_link g s) = m_router_data s"
  "m_responses (out_link g s) = m_responses s"
  "m_tenders_timeline (out_link g s) = m_tenders_timeline s"
  "m_id_tenders (out_link g s) = m_id_tenders s"
  "m_request_counter (out_link g s) = m_request_counter s"
  "m_router_data (commit_link s) = m_router_data s"
  "m_responses (commit_link s) = m_responses s"
  "m_tenders_timeline (commit_link s) = m_tenders_timeline s"
  "m_id_tenders (commit_link s) = m_id_tenders s"
  "m_request_counter (commit_link s) = m_request_counter s"
  "m_router_data (out_kernel h s) = m_router_data s"
  "m_responses (out_kernel h s) = m_responses s"
  "m_tenders_timeline (out_kernel h s) = m_tenders_timeline s"
  "m_id_tenders (out_kernel h s) = m_id_tenders s"
  "m_request_counter (out_kernel h s) = m_request_counter s"
  "link_tx (out_kernel h s) = link_tx s"
  "m_router_data (commit_kernel s) = m_router_data s"
  "m_responses (commit_kernel s) = m_responses s"
  "m_tenders_timeline (commit_kernel s) = m_tenders_timeline s"
  "m_id_tenders (commit_kernel s) = m_id_tenders s"
  "m_request_counter (commit_kernel s) = m_request_counter s"
  "link_tx (commit_kernel s) = link_tx s"
  "kernel_tx (out_link g s) = kernel_tx s"
  "kernel_tx (commit_link s) = kernel_tx s"
  "clock (out_link g s) = clock s"
  "clock (commit_link s) = clock s"
  "clock (out_kernel h s) = clock s"
  "clock (commit_kernel s) = clock s"
  by (simp_all add: out_link_def commit_link_def out_kernel_def commit_kernel_def)

lemma fifo_ok_out:
  "fifo_ok (link_tx (out_link g s))" "fifo_ok (link_tx (commit_link s))"
  "fifo_ok (kernel_tx (out_kernel h s))" "fifo_ok (kernel_tx (commit_kernel s))"
  by (simp_all add: out_link_def commit_link_def out_kernel_def commit_kernel_def)

lemma link_slot_commit [simp]: "slot (link_tx (commit_link s)) = router_link_package0"
  by (simp add: commit_link_def)

section \<open>The invariant\<close>

text \<open>
  \<open>router_inv b\<close>: every tender is filed under its own id, in the table its command belongs to, and has
  been given a type; only the router's own tenders are in the state \<open>announced\<close> and none has winners;
  the timeline names each tender at most once and no tender that is gone; request ids are in the
  router's range; no response is stored; nothing is left in the output slot of the link. With
  \<open>b\<close>, every tender is in the timeline, so that it will expire.
\<close>

definition tender_ok :: "tref \<Rightarrow> tender \<Rightarrow> bool" where
  "tender_ok r t \<longleftrightarrow> rd_tender_id t = snd r \<and> (fst r = Sync_tenders \<longleftrightarrow> is_sync_cmd (rd_cmd t))
     \<and> t_typ t \<noteq> Max_type \<and> (t_st t = Announced \<longrightarrow> t_typ t = Internal) \<and> t_winners t = []"

definition tables_inv :: "bool \<Rightarrow> router \<Rightarrow> bool" where
  "tables_inv b s \<longleftrightarrow>
     (\<forall>r t. tender_at r s = Some t \<longrightarrow> tender_ok r t)
     \<and> distinct (m_tenders_timeline s)
     \<and> (\<forall>r. r \<in> set (m_tenders_timeline s) \<longrightarrow> tender_at r s \<noteq> None)
     \<and> ROUTER_REQUEST_LOWER_BOUND \<le> m_request_counter s
     \<and> m_request_counter s \<le> ROUTER_REQUEST_UPPER_BOUND
     \<and> m_responses s = Map.empty
     \<and> fifo_ok (link_tx s) \<and> fifo_ok (kernel_tx s)
     \<and> (b \<longrightarrow> (\<forall>r. tender_at r s \<noteq> None \<longrightarrow> r \<in> set (m_tenders_timeline s)))"

definition router_inv :: "bool \<Rightarrow> router \<Rightarrow> bool" where
  "router_inv b s \<longleftrightarrow> tables_inv b s \<and> slot (link_tx s) = router_link_package0"

abbreviation keeps_inv :: "bool \<Rightarrow> router outcome \<Rightarrow> bool" where
  "keeps_inv b \<equiv> ends (router_inv b) (router_inv False)"

lemma tables_inv_weaken: "tables_inv b s \<Longrightarrow> tables_inv False s"
  by (simp add: tables_inv_def)

lemma router_inv_weaken: "router_inv b s \<Longrightarrow> router_inv False s"
  by (auto simp: router_inv_def intro: tables_inv_weaken)

lemma router_inv_tables: "router_inv b s \<Longrightarrow> tables_inv b s"
  by (simp add: router_inv_def)

lemma inv_tender_ok: "tables_inv b s \<Longrightarrow> tender_at r s = Some t \<Longrightarrow> tender_ok r t"
  by (simp add: tables_inv_def)

lemma tables_inv_put:
  "tables_inv b s \<Longrightarrow> tender_at r s = Some t \<Longrightarrow> tender_ok r t' \<Longrightarrow> tables_inv b (put_tender r t' s)"
  by (auto simp: tables_inv_def)

text \<open>Adding an object the timeline does not know yet, and scheduling it.\<close>

lemma tables_inv_put_new:
  "tables_inv b s \<Longrightarrow> tender_ok r t' \<Longrightarrow> tables_inv False (put_tender r t' s)"
  by (auto simp: tables_inv_def)

lemma tables_inv_schedule:
  assumes "tables_inv b s" and "tender_at r s = None" and "tender_ok r t'"
  shows "tables_inv b ((put_tender r t' s)\<lparr>m_tenders_timeline := m_tenders_timeline s @ [r]\<rparr>)"
proof -
  have "r \<notin> set (m_tenders_timeline s)"
    using assms(1,2) by (auto simp: tables_inv_def)
  with assms show ?thesis
    by (auto simp: tables_inv_def)
qed

lemma tables_inv_out [simp, inv_intros]:
  "tables_inv b s \<Longrightarrow> tables_inv b (out_link g s)"
  "tables_inv b s \<Longrightarrow> tables_inv b (commit_link s)"
  "tables_inv b s \<Longrightarrow> tables_inv b (out_kernel h s)"
  "tables_inv b s \<Longrightarrow> tables_inv b (commit_kernel s)"
  by (simp_all add: tables_inv_def fifo_ok_out)

lemma tables_inv_frame [simp]:
  "tables_inv b (s\<lparr>m_router_data := d\<rparr>) = tables_inv b s"
  "tables_inv b (s\<lparr>m_id_tenders := ids\<rparr>) = tables_inv b s"
  "tables_inv b (s\<lparr>uuid_count := n\<rparr>) = tables_inv b s"
  "tables_inv b (s\<lparr>m_router_timeout := c\<rparr>) = tables_inv b s"
  "tables_inv b (s\<lparr>m_signal := c\<rparr>) = tables_inv b s"
  "tables_inv b (s\<lparr>m_expired_tender_exists := c\<rparr>) = tables_inv b s"
  "tables_inv b (s\<lparr>max_hops := h0\<rparr>) = tables_inv b s"
  "tables_inv b (s\<lparr>response_time := rt\<rparr>) = tables_inv b s"
  "tables_inv b (s\<lparr>m_is_configured := c\<rparr>) = tables_inv b s"
  "tables_inv b (s\<lparr>clock := now\<rparr>) = tables_inv b s"
  "tables_inv b (s\<lparr>wallet_tx := w\<rparr>) = tables_inv b s"
  by (simp_all add: tables_inv_def)

lemma router_inv_commit_link [simp, inv_intros]: "tables_inv b s \<Longrightarrow> router_inv b (commit_link s)"
  by (simp add: router_inv_def)

lemma router_inv_out_kernel [simp, inv_intros]:
  "router_inv b s \<Longrightarrow> router_inv b (out_kernel h s)"
  "router_inv b s \<Longrightarrow> router_inv b (commit_kernel s)"
  by (simp_all add: router_inv_def)

lemma router_inv_frame [simp]:
  "router_inv b (s\<lparr>m_router_data := d\<rparr>) = router_inv b s"
  "router_inv b (s\<lparr>m_id_tenders := ids\<rparr>) = router_inv b s"
  "router_inv b (s\<lparr>uuid_count := n\<rparr>) = router_inv b s"
  "router_inv b (s\<lparr>m_router_timeout := c\<rparr>) = router_inv b s"
  "router_inv b (s\<lparr>m_signal := c\<rparr>) = router_inv b s"
  "router_inv b (s\<lparr>m_expired_tender_exists := c\<rparr>) = router_inv b s"
  "router_inv b (s\<lparr>max_hops := h0\<rparr>) = router_inv b s"
  "router_inv b (s\<lparr>response_time := rt\<rparr>) = router_inv b s"
  "router_inv b (s\<lparr>m_is_configured := c\<rparr>) = router_inv b s"
  "router_inv b (s\<lparr>clock := now\<rparr>) = router_inv b s"
  "router_inv b (s\<lparr>wallet_tx := w\<rparr>) = router_inv b s"
  by (simp_all add: router_inv_def)

lemma router_inv_put:
  "router_inv b s \<Longrightarrow> tender_at r s = Some t \<Longrightarrow> tender_ok r t' \<Longrightarrow> router_inv b (put_tender r t' s)"
  by (simp add: router_inv_def tables_inv_put)

lemma tender_ok_simps [simp]:
  "tender_ok r (t\<lparr>t_time := x1\<rparr>) = tender_ok r t"
  "tender_ok r (t\<lparr>t_idling_interval := x2\<rparr>) = tender_ok r t"
  "tender_ok r (t\<lparr>t_request_id := x3\<rparr>) = tender_ok r t"
  "tender_ok r (t\<lparr>t_prs := x4\<rparr>) = tender_ok r t"
  "tender_ok r (t\<lparr>t_is_canceled := x5\<rparr>) = tender_ok r t"
  "tender_ok r (t\<lparr>t_received_response_cnt := x6\<rparr>) = tender_ok r t"
  "tender_ok r (t\<lparr>rd_hop_id := x7\<rparr>) = tender_ok r t"
  "tender_ok r (t\<lparr>rd_uuid := x8\<rparr>) = tender_ok r t"
  "tender_ok r (t\<lparr>rd_data_version := x9\<rparr>) = tender_ok r t"
  "tender_ok r (t\<lparr>rd_last_updated := x10\<rparr>) = tender_ok r t"
  "tender_ok r (t\<lparr>rd_expire_date := x11\<rparr>) = tender_ok r t"
  by (simp_all add: tender_ok_def)

lemma tender_ok_confirmed [simp]: "tender_ok r t \<Longrightarrow> tender_ok r (t\<lparr>t_st := Confirmed\<rparr>)"
  by (simp add: tender_ok_def)


lemma tables_put:
  "tables_inv b s \<Longrightarrow> tender_at r s \<noteq> None \<Longrightarrow> tender_ok r t' \<Longrightarrow> tables_inv b (put_tender r t' s)"
  by (auto intro: tables_inv_put)


lemma ends_known_tender:
  "tables_inv b s \<Longrightarrow> (\<And>t. tender_at r s = Some t \<Longrightarrow> tender_ok r t \<Longrightarrow> ends P Q (k t))
   \<Longrightarrow> ends P Q (with_tender r s k)"
  by (auto intro!: ends_with_tender intro: inv_tender_ok)

lemmas inv_rules = tables_inv_out ends_serialize_to_link ends_extract_local ends_extract_to_kernel ends_if tables_put
lemmas inv_simps = run_simps router_inv_def
lemmas inv_facts = tables_inv_weaken
declare tender_at.simps [simp del] put_tender.simps [simp del]

lemma upd_inv: "router_inv b s \<Longrightarrow> (\<And>t. tender_at r s = Some t \<Longrightarrow> tender_ok r t \<Longrightarrow> tender_ok r (f t)) \<Longrightarrow> keeps_inv b (upd_tender r f s)"
  unfolding upd_tender_def by (auto simp: inv_simps intro!: inv_rules ends_known_tender [of b] intro: inv_facts)

lemma touch_inv [inv_intros]: "router_inv b s \<Longrightarrow> keeps_inv b (touch_tender r s)"
  unfolding touch_tender_def by (rule upd_inv; simp)

lemma send_tender_data_inv [inv_intros]:
  "router_inv b s \<Longrightarrow> keeps_inv b (send_tender_data r c p s)"
  unfolding send_tender_data_def
  by (auto simp: inv_simps intro!: inv_rules ends_known_tender [of b] intro: inv_facts)

lemma post_link_kernel_tender_inv [inv_intros]:
  "router_inv b s \<Longrightarrow> keeps_inv b (post_link_kernel_tender r p s)"
  unfolding post_link_kernel_tender_def
  by (auto simp: inv_simps intro!: inv_rules ends_known_tender [of b] intro: inv_facts)

lemma post_sync_request_inv [inv_intros]:
  "router_inv b s \<Longrightarrow> keeps_inv b (post_sync_request_to_link_peer c r s)"
  unfolding post_sync_request_to_link_peer_def
  by (auto simp: inv_simps intro!: inv_rules ends_known_tender [of b] intro: inv_facts)

lemma broadcast_tender_to_peers_inv [inv_intros]:
  "router_inv b s \<Longrightarrow> keeps_inv b (broadcast_tender_to_peers r p s)"
  unfolding broadcast_tender_to_peers_def
  by (auto simp: inv_simps touch_tender_def upd_tender_def intro!: inv_rules ends_known_tender [of b] intro: inv_facts)

lemma forward_remote_tender_inv [inv_intros]:
  "router_inv b s \<Longrightarrow> keeps_inv b (forward_remote_tender inp r s)"
  unfolding forward_remote_tender_def
  by (auto simp: inv_simps touch_tender_def upd_tender_def intro!: inv_rules ends_known_tender [of b] intro: inv_facts)

lemma confirm_for_transfer_inv [inv_intros]:
  "router_inv b s \<Longrightarrow> keeps_inv b (confirm_for_transfer r s)"
  unfolding confirm_for_transfer_def
  by (auto simp: inv_simps upd_tender_def intro!: inv_rules ends_known_tender [of b] intro: inv_facts)
 
lemma send_response_to_kernel_inv [inv_intros]:
  "router_inv b s \<Longrightarrow> keeps_inv b (send_response_to_kernel inp s)"
  unfolding send_response_to_kernel_def
  by (auto simp: inv_simps upd_tender_def split: option.split intro!: inv_rules ends_known_tender [of b] intro: inv_facts)

lemma bypass_tender_response_inv [inv_intros]:
  "router_inv b s \<Longrightarrow> keeps_inv b (bypass_tender_response inp s)"
  unfolding bypass_tender_response_def
  by (auto simp: inv_simps upd_tender_def touch_tender_def split: option.split intro!: inv_rules ends_known_tender [of b] intro: inv_facts)




lemma bitmask_range:
  "ROUTER_REQUEST_LOWER_BOUND \<le> ((c AND ROUTER_REQUEST_UPPER_BOUND) OR ROUTER_REQUEST_LOWER_BOUND)"
  "((c AND ROUTER_REQUEST_UPPER_BOUND) OR ROUTER_REQUEST_LOWER_BOUND) \<le> ROUTER_REQUEST_UPPER_BOUND"
proof -
  show "ROUTER_REQUEST_LOWER_BOUND \<le> ((c AND ROUTER_REQUEST_UPPER_BOUND) OR ROUTER_REQUEST_LOWER_BOUND)"
    by (subst or.commute) (rule le_word_or2)
  have "ROUTER_REQUEST_LOWER_BOUND = ROUTER_REQUEST_LOWER_BOUND AND ROUTER_REQUEST_UPPER_BOUND"
    by (simp add: ROUTER_REQUEST_LOWER_BOUND_def ROUTER_REQUEST_UPPER_BOUND_def)
  then have "(c AND ROUTER_REQUEST_UPPER_BOUND) OR ROUTER_REQUEST_LOWER_BOUND
      = (c OR ROUTER_REQUEST_LOWER_BOUND) AND ROUTER_REQUEST_UPPER_BOUND"
    by (metis bit.conj_disj_distrib2)
  then show "((c AND ROUTER_REQUEST_UPPER_BOUND) OR ROUTER_REQUEST_LOWER_BOUND) \<le> ROUTER_REQUEST_UPPER_BOUND"
    by (simp add: word_and_le1)
qed

lemma tables_inv_new:
  assumes "tables_inv b s" and "tender_at r s = None"
    and "\<And>r'. r' \<noteq> r \<Longrightarrow> tender_at r' s' = tender_at r' s"
    and "\<exists>t. tender_at r s' = Some t \<and> tender_ok r t"
    and "m_tenders_timeline s' = m_tenders_timeline s @ [r]"
    and "ROUTER_REQUEST_LOWER_BOUND \<le> m_request_counter s'"
    and "m_request_counter s' \<le> ROUTER_REQUEST_UPPER_BOUND"
    and "m_responses s' = Map.empty" and "fifo_ok (link_tx s')" and "fifo_ok (kernel_tx s')"
  shows "tables_inv b s'"
proof -
  obtain t' where t': "tender_at r s' = Some t'" "tender_ok r t'"
    using assms(4) by blast
  have r: "r \<notin> set (m_tenders_timeline s)"
    using assms(1,2) by (auto simp: tables_inv_def)
  have at: "tender_at r' s' = (if r' = r then Some t' else tender_at r' s)" for r'
    using assms(3) t'(1) by simp
  have ok: "tender_ok r'' t''" if "tender_at r'' s' = Some t''" for r'' t''
    using that assms(1) t'(2) by (auto simp: at tables_inv_def split: if_splits)
  have live: "tender_at r'' s' \<noteq> None" if "r'' \<in> set (m_tenders_timeline s')" for r''
    using that assms(1) by (auto simp: at assms(5) tables_inv_def split: if_splits)
  have sched: "r'' \<in> set (m_tenders_timeline s')" if "b" "tender_at r'' s' \<noteq> None" for r''
    using that assms(1) by (auto simp: at assms(5) tables_inv_def split: if_splits)
  have "distinct (m_tenders_timeline s')"
    using assms(1) r by (simp add: assms(5) tables_inv_def)
  then show ?thesis
    using ok live sched assms(6-10) by (simp add: tables_inv_def)
qed

lemma tables_inv_gone:
  assumes "tables_inv b s" and "r \<in> set (m_tenders_timeline s)"
    and "\<And>r'. tender_at r' s' = (if r' = r then None else tender_at r' s)"
    and "m_tenders_timeline s' = swap_remove r (m_tenders_timeline s)"
    and "m_request_counter s' = m_request_counter s"
    and "m_responses s' = Map.empty" and "fifo_ok (link_tx s')" and "fifo_ok (kernel_tx s')"
  shows "tables_inv b s'"
proof -
  have "distinct (m_tenders_timeline s)"
    using assms(1) by (simp add: tables_inv_def)
  note d = swap_remove_distinct [OF this assms(2)]
  show ?thesis
    using assms(1) unfolding tables_inv_def assms(3-6) d using assms(7,8) by (auto simp: d)
qed


lemma not_sync_table: "fst r \<noteq> Sync_tenders \<longleftrightarrow> fst r = Tenders"
  by (cases "fst r") auto

lemma tables_inv_responses: "tables_inv b s \<Longrightarrow> m_responses s = Map.empty"
  by (simp add: tables_inv_def)

lemma tables_inv_fifos: "tables_inv b s \<Longrightarrow> fifo_ok (link_tx s)" "tables_inv b s \<Longrightarrow> fifo_ok (kernel_tx s)"
  by (simp_all add: tables_inv_def)



lemma tender_at_fst:
  "tender_at r s = (if fst r = Tenders then m_tenders s (snd r) else m_sync_tenders s (snd r))"
  by (cases r; cases "fst r") (simp_all add: tender_at.simps)

lemma tables_inv_drop:
  assumes "tables_inv b s" and "r \<in> set (m_tenders_timeline s)" and "fst r = Tenders"
    and "m = (m_tenders s)(snd r := None)"
  shows "tables_inv b (s\<lparr>m_tenders_timeline := swap_remove r (m_tenders_timeline s), m_id_tenders := ids,
     m_responses := (m_responses s)(k := None), m_tenders := m\<rparr>)" (is "tables_inv b ?s")
proof (rule tables_inv_gone [OF assms(1,2)])
  fix r'
  show "tender_at r' ?s = (if r' = r then None else tender_at r' s)"
    using assms(3,4) by (cases "fst r'") (simp_all add: prod_eq_iff tender_at_fst)
qed (simp_all add: tables_inv_responses [OF assms(1)] tables_inv_fifos [OF assms(1)])

lemma tables_inv_drop_sync:
  assumes "tables_inv b s" and "r \<in> set (m_tenders_timeline s)" and "fst r = Sync_tenders"
    and "m = (m_sync_tenders s)(snd r := None)"
  shows "tables_inv b (s\<lparr>m_tenders_timeline := swap_remove r (m_tenders_timeline s), m_id_tenders := ids,
     m_sync_tenders := m\<rparr>)" (is "tables_inv b ?s")
proof (rule tables_inv_gone [OF assms(1,2)])
  fix r'
  show "tender_at r' ?s = (if r' = r then None else tender_at r' s)"
    using assms(3,4) by (cases "fst r'") (simp_all add: prod_eq_iff tender_at_fst)
qed (simp_all add: tables_inv_responses [OF assms(1)] tables_inv_fifos [OF assms(1)])

lemma clean_up_tender_info_inv [inv_intros]:
  "router_inv b s \<Longrightarrow> fst r = Tenders \<Longrightarrow> keeps_inv b (clean_up_tender_info r s)"
  unfolding clean_up_tender_info_def clean_up_tender_from_timeline_def
  by (auto simp: inv_simps tender_ok_def intro!: inv_rules ends_known_tender [of b] tables_inv_drop)

lemma clean_up_sync_tender_info_inv [inv_intros]:
  "router_inv b s \<Longrightarrow> keeps_inv b (clean_up_sync_tender_info r s)"
  unfolding clean_up_sync_tender_info_def clean_up_tender_from_timeline_def
  by (auto simp: inv_simps tender_ok_def intro!: inv_rules ends_known_tender [of b] tables_inv_drop_sync)

lemma cancel_request_inv [simp, inv_intros]: "router_inv b s \<Longrightarrow> router_inv b (cancel_request rid s)"
  by (simp add: cancel_request_def)

lemma clean_up_tender_inv [inv_intros]:
  "router_inv b s \<Longrightarrow> keeps_inv b (clean_up_tender r s)"
  unfolding clean_up_tender_def
  apply (rule ends_known_tender [OF router_inv_tables], assumption)
  apply (rule ends_and_then [where R = "router_inv b"])
  apply (auto intro!: inv_intros ends_if simp: tender_ok_def not_sync_table)
  done

lemma get_request_id_inv: "tables_inv b s \<Longrightarrow> tables_inv b (snd (get_request_id s))"
  using bitmask_range by (simp add: get_request_id_def tables_inv_def Let_def)


lemma new_internal_tender_ok:
  "\<not> is_sync_cmd (kr_cmd inp) \<Longrightarrow> tender_ok (Tenders, t_id) (new_internal_tender inp t_id s)"
  by (simp add: tender_ok_def new_internal_tender_def tender0_def Let_def router_data.defs)

lemma announce_request_inv [inv_intros]:
  assumes "router_inv b s" and "\<And>r t. tender_ok r t \<Longrightarrow> tender_ok r (f t)" and "\<not> is_sync_cmd (kr_cmd inp)"
  shows "keeps_inv b (announce_request f inp s)"
  unfolding announce_request_def
  apply (simp add: inv_simps get_tender_id_def)
  apply (intro impI ends_and_then [where R = "router_inv b"] inv_intros)
  subgoal 
    using assms(1) 
    apply (simp add: router_inv_def)
    apply (rule tables_inv_schedule [of b "s\<lparr>uuid_count := Suc (uuid_count s)\<rparr>", simplified])
    apply (auto intro!: assms(2) new_internal_tender_ok assms(3))
    done
  apply assumption
  done

lemma put_put [simp]: "put_tender r t (put_tender r t' s) = put_tender r t s"
  by (cases r; cases "fst r") (simp_all add: put_tender.simps)

lemma put_counter [simp]:
   "put_tender r t (s\<lparr>m_request_counter := c\<rparr>) = (put_tender r t s)\<lparr>m_request_counter := c\<rparr>"
  by (cases r; cases "fst r") (simp_all add: put_tender.simps)


text \<open>The object \<open>process_new_tender\<close> has made before it posts the request to the kernel.\<close>

definition received :: "router_data \<Rightarrow> ID32 list \<Rightarrow> ID32 \<Rightarrow> tender \<Rightarrow> tender" where
  "received d ps rid t = (let t = read_router_data d t; t = t\<lparr>t_prs := set_insert_all ps (t_prs t)\<rparr>
     in t\<lparr>t_request_id := rid, t_st := Received, t_typ := Remote,
          t_idling_interval := KERNEL_RESPONSE_TIME\<rparr>)"

lemma received_ok:
  assumes "snd r = rd_tender_id d" and "fst r = Sync_tenders \<longleftrightarrow> is_sync_cmd (rd_cmd d)"
  shows "tender_ok r (received d ps rid (tender0 now))"
  using assms by (simp add: tender_ok_def received_def read_router_data_def tender0_def router_data.defs Let_def)

lemma process_new_tender_inv [inv_intros]:
  assumes "router_inv b s" and "tender_at r s = None" and "snd r = rd_tender_id (m_router_data s)"
    and "fst r = Sync_tenders \<longleftrightarrow> is_sync_cmd (rd_cmd (m_router_data s))"
  shows "keeps_inv b (process_new_tender inp r (put_tender r (tender0 now) s))"
proof -
  let ?t = "received (m_router_data s) (rl_peers inp) (m_request_counter s) (tender0 now)"
  have ok: "tender_ok r ?t"
    using assms(3,4) by (rule received_ok)
  let ?s = "(put_tender r ?t s)\<lparr>m_request_counter :=
     (m_request_counter s + 1 AND ROUTER_REQUEST_UPPER_BOUND) OR ROUTER_REQUEST_LOWER_BOUND\<rparr>"
  have run: "process_new_tender inp r (put_tender r (tender0 now) s) =
    and_then (post_new_tender_to_kernel inp (m_request_counter s) ?s) (\<lambda>s. with_tender r s (\<lambda>t.
         let s = s\<lparr>m_id_tenders := map_insert (t_request_id t) (rd_tender_id t) (m_id_tenders s)\<rparr>;
             s = s\<lparr>m_tenders_timeline := m_tenders_timeline s @ [r]\<rparr>
         in touch_tender r s))"
    by (simp add: process_new_tender_def run_simps get_request_id_def with_tender_def received_def)
  have new: "tables_inv False ?s"
    using tables_inv_put_new [OF router_inv_tables [OF assms(1)] ok] bitmask_range
    by (simp add: tables_inv_def)
  show ?thesis
    unfolding run post_new_tender_to_kernel_def
    apply (simp add: run_simps)
    apply (intro ends_extract_to_kernel)
    using assms(1) new apply (simp add: router_inv_def)
    apply (simp add: with_tender_def touch_tender_def upd_tender_def)
    using assms(1) apply (simp add: router_inv_def)
    apply (rule tables_inv_new [OF router_inv_tables [OF assms(1)] assms(2)])
    using ok bitmask_range by (auto simp: tables_inv_responses tables_inv_fifos fifo_ok_out)
qed



lemma ends_Done: "P s \<Longrightarrow> ends P Q (Done s)" by simp

lemma ends_assert_that: "P s \<Longrightarrow> ends P Q (assert_that b s)"
  by (simp add: assert_that_def)

section \<open>The handlers of the kernel\<close>

lemma handle_kernel_get_inv [inv_intros]: "router_inv b s \<Longrightarrow> keeps_inv b (handle_kernel_get inp s)"
  unfolding handle_kernel_get_def by (auto simp: ends_assert is_sync_cmd_def intro!: inv_intros)
lemma handle_kernel_save_stream_inv [inv_intros]: "router_inv b s \<Longrightarrow> keeps_inv b (handle_kernel_save_stream inp s)"
  unfolding handle_kernel_save_stream_def by (auto simp: ends_assert is_sync_cmd_def intro!: inv_intros)
lemma handle_kernel_find_peer_inv [inv_intros]: "router_inv b s \<Longrightarrow> keeps_inv b (handle_kernel_find_peer inp s)"
  unfolding handle_kernel_find_peer_def by (auto simp: ends_assert is_sync_cmd_def intro!: inv_intros)
lemma handle_kernel_save_request_inv [inv_intros]: "router_inv b s \<Longrightarrow> keeps_inv b (handle_kernel_save_request inp s)"
  unfolding handle_kernel_save_request_def
  by (auto simp: ends_assert is_sync_cmd_def is_first_command_of_multiwinner_tender_def intro!: inv_intros)
lemma handle_kernel_reg_inv [inv_intros]: "router_inv b s \<Longrightarrow> keeps_inv b (handle_kernel_on_update_register_request inp s)"
  unfolding handle_kernel_on_update_register_request_def by (auto simp: ends_assert is_sync_cmd_def intro!: inv_intros)
lemma handle_kernel_unreg_inv [inv_intros]: "router_inv b s \<Longrightarrow> keeps_inv b (handle_kernel_on_update_unregister_request inp s)"
  unfolding handle_kernel_on_update_unregister_request_def by (auto simp: ends_assert is_sync_cmd_def intro!: inv_intros)
lemma handle_kernel_recording_start_inv [inv_intros]: "router_inv b s \<Longrightarrow> keeps_inv b (handle_kernel_recording_start inp s)"
  unfolding handle_kernel_recording_start_def by (auto simp: ends_assert is_sync_cmd_def intro!: inv_intros)
lemma handle_kernel_recording_stop_inv [inv_intros]: "router_inv b s \<Longrightarrow> keeps_inv b (handle_kernel_recording_stop inp s)"
  unfolding handle_kernel_recording_stop_def by (auto simp: ends_assert is_sync_cmd_def intro!: inv_intros)

lemma ends_case_option:
  "(x = None \<Longrightarrow> ends P Q m) \<Longrightarrow> (\<And>y. x = Some y \<Longrightarrow> ends P Q (f y))
   \<Longrightarrow> ends P Q (case x of None \<Rightarrow> m | Some y \<Rightarrow> f y)"
  by (cases x) auto

lemmas compose_rules = ends_assert_that ends_case_option ends_if ends_and_then [where R = "router_inv b" for b]

lemma handle_kernel_data_transfer_inv [inv_intros]:
  "router_inv b s \<Longrightarrow> keeps_inv b (handle_kernel_data_transfer inp s)"
  unfolding handle_kernel_data_transfer_def
  by (auto intro!: inv_intros compose_rules upd_inv)

lemma handle_storage_data_transfer_inv [inv_intros]:
  "router_inv b s \<Longrightarrow> keeps_inv b (handle_storage_data_transfer inp s)"
  unfolding handle_storage_data_transfer_def
  by (auto intro!: inv_intros compose_rules upd_inv)

lemma with_tender_inv:
  "router_inv b s \<Longrightarrow> (\<And>t. tender_at r s = Some t \<Longrightarrow> tender_ok r t \<Longrightarrow> keeps_inv b (k t))
   \<Longrightarrow> keeps_inv b (with_tender r s k)"
  by (auto intro: ends_known_tender router_inv_tables)

lemma handle_kernel_offer_inv [inv_intros]:
  "router_inv b s \<Longrightarrow> keeps_inv b (handle_kernel_offer inp s)"
  unfolding handle_kernel_offer_def handle_kernel_offer_for_multiwinner_tender_def
  by (auto simp: ends_assert tender_ok_def intro!: inv_intros ends_case_option ends_if with_tender_inv)

lemma send_accept_inv [inv_intros]:
  "router_inv b s \<Longrightarrow> keeps_inv b (send_accept_to_winner_peers inp r s)"
  unfolding send_accept_to_winner_peers_def
  by (auto simp: tender_ok_def winners_by_peer_def intro!: with_tender_inv)

lemma set_round_trip_interval_inv [inv_intros]:
  "router_inv b s \<Longrightarrow> keeps_inv b (set_round_trip_interval r s)"
  unfolding set_round_trip_interval_def by (rule upd_inv) simp_all

lemma handle_kernel_accept_inv [inv_intros]:
  "router_inv b s \<Longrightarrow> keeps_inv b (handle_kernel_accept_for_multiwinner_tender inp s)"
  unfolding handle_kernel_accept_for_multiwinner_tender_def
  by (auto intro!: inv_intros compose_rules with_tender_inv)

lemma handle_kernel_confirm_inv [inv_intros]:
  "router_inv b s \<Longrightarrow> keeps_inv b (handle_kernel_confirm_for_multiwinner_tender inp s)"
  unfolding handle_kernel_confirm_for_multiwinner_tender_def
  by (auto simp: ends_assert intro!: inv_intros compose_rules with_tender_inv upd_inv)

lemma handle_sync_data_transfer_inv [inv_intros]:
  "router_inv b s \<Longrightarrow> keeps_inv b (handle_sync_data_transfer inp s)"
  unfolding handle_sync_data_transfer_def post_sync_started_request_to_link_peer_def
  by (auto intro!: inv_intros compose_rules upd_inv)

lemma handle_kernel_get_uuid_request_inv [inv_intros]:
  "router_inv b s \<Longrightarrow> keeps_inv b (handle_kernel_get_uuid_request inp s)"
  unfolding handle_kernel_get_uuid_request_def
  by (auto intro!: inv_intros compose_rules upd_inv)

lemma handle_kernel_sync_finished_inv [inv_intros]:
  "router_inv b s \<Longrightarrow> keeps_inv b (handle_kernel_sync_finished inp s)"
  unfolding handle_kernel_sync_finished_def post_sync_finished_request_to_link_peer_def
  by (auto simp: ends_assert intro!: inv_intros compose_rules)

lemma handle_refuse_inv [inv_intros]:
  "router_inv b s \<Longrightarrow> keeps_inv b (handle_refuse rid p s)"
  unfolding handle_refuse_def
  by (auto intro!: inv_intros compose_rules with_tender_inv)

lemma handle_kernel_clear_request_inv [inv_intros]:
  "router_inv b s \<Longrightarrow> keeps_inv b (handle_kernel_clear_request inp s)"
  unfolding handle_kernel_clear_request_def
  by (auto simp: Let_def ends_assert intro!: inv_intros compose_rules upd_inv)

lemma process_kernel_input_inv [inv_intros]:
  "router_inv b s \<Longrightarrow> keeps_inv b (process_kernel_input inp s)"
  unfolding process_kernel_input_def Let_def
  by (intro ends_if inv_intros ends_Done; assumption)

lemma process_backup_input_inv [inv_intros]:
  "router_inv b s \<Longrightarrow> keeps_inv b (process_backup_input inp s)"
  unfolding process_backup_input_def by (intro ends_if inv_intros ends_Done; assumption)

lemma process_storage_input_inv [inv_intros]:
  "router_inv b s \<Longrightarrow> keeps_inv b (process_storage_input inp s)"
  unfolding process_storage_input_def by (intro ends_if inv_intros ends_Done; assumption)

lemma process_storage_writer_input_inv [inv_intros]:
  "router_inv b s \<Longrightarrow> keeps_inv b (process_storage_writer_input inp s)"
  unfolding process_storage_writer_input_def by (intro ends_if inv_intros ends_Done; assumption)

lemma process_cache_input_inv [inv_intros]:
  "router_inv b s \<Longrightarrow> keeps_inv b (process_cache_input inp s)"
  unfolding process_cache_input_def by simp

section \<open>The handlers of the link\<close>


lemma handle_new_remote_tender_inv [inv_intros]:
  "router_inv b s \<Longrightarrow> keeps_inv b (handle_new_remote_tender inp s)"
  unfolding handle_new_remote_tender_def
  by (auto simp: run_simps is_invalid_new_tender_def is_sync_cmd_def
       intro!: compose_rules with_tender_inv inv_intros)

lemma handle_new_sync_tender_inv [inv_intros]:
  "router_inv b s \<Longrightarrow> keeps_inv b (handle_new_sync_tender inp s)"
  unfolding handle_new_sync_tender_def
  by (auto simp: run_simps is_sync_cmd_def intro!: inv_intros)

lemma post_new_tender_to_kernel_inv [inv_intros]:
  "router_inv b s \<Longrightarrow> keeps_inv b (post_new_tender_to_kernel inp rid s)"
  unfolding post_new_tender_to_kernel_def
  by (auto simp: run_simps intro!: ends_extract_to_kernel inv_intros intro: router_inv_weaken)

lemma process_existing_sync_tender_inv [inv_intros]:
  "router_inv b s \<Longrightarrow> keeps_inv b (process_existing_sync_tender inp r s)"
  unfolding process_existing_sync_tender_def
  by (auto intro!: inv_intros compose_rules with_tender_inv upd_inv)

lemma reset_router_data_inv [simp]: "router_inv b (reset_router_data s) = router_inv b s"
  by (simp add: reset_router_data_def)

lemma handle_sync_tenders_inv [inv_intros]:
  "router_inv b s \<Longrightarrow> keeps_inv b (handle_sync_tenders inp s)"
  unfolding handle_sync_tenders_def
  by (auto simp: Let_def intro!: inv_intros compose_rules)

lemma process_existing_tender_inv [inv_intros]:
  "router_inv b s \<Longrightarrow> keeps_inv b (process_existing_tender inp s)"
  unfolding process_existing_tender_def process_existing_tender_data_def process_remote_tender_def
  by (auto simp: Let_def split: tender_type.split intro!: inv_intros compose_rules with_tender_inv)

lemma parse_router_data_inv [inv_intros]:
  "router_inv b s \<Longrightarrow> keeps_inv b (parse_router_data inp s)"
  unfolding parse_router_data_def by (auto intro!: ends_case_option)

lemma handle_link_data_inv [inv_intros]:
  "router_inv b s \<Longrightarrow> keeps_inv b (handle_link_data inp s)"
  unfolding handle_link_data_def
  by (auto simp: Let_def get_tender_id_def intro!: inv_intros compose_rules)

lemma handle_link_nack_inv [inv_intros]:
  "router_inv b s \<Longrightarrow> keeps_inv b (handle_link_nack inp s)"
  unfolding handle_link_nack_def
  by (auto intro!: inv_intros compose_rules)

lemma process_link_input_inv [inv_intros]:
  "router_inv b s \<Longrightarrow> keeps_inv b (process_link_input inp s)"
  unfolding process_link_input_def send_notification_to_kernel_def
  by (auto intro!: inv_intros compose_rules)

section \<open>Expiry, configuration and the loop\<close>

lemma tenders_of_fst: "tenders_of rs s = Some rts \<Longrightarrow> map fst rts = rs"
  by (induction rs arbitrary: rts) (auto split: bind_splits)


lemma heap_timeline_mset:
  assumes "heap_timeline s = Done s'"
  obtains tline where "s' = s\<lparr>m_tenders_timeline := tline\<rparr>" and "mset tline = mset (m_tenders_timeline s)"
proof -
  obtain rts where rts: "tenders_of (m_tenders_timeline s) s = Some rts"
    and s': "s' = s\<lparr>m_tenders_timeline :=
       map fst (make_heap (\<lambda>a b. less_than (clock s) (snd a) (snd b)) rts)\<rparr>"
    using assms by (auto simp: heap_timeline_def split: option.splits)
  show thesis
    by (rule that [OF s']) (simp add: by_expiry_ref.mset_heap tenders_of_fst [OF rts] flip: tenders_of_fst [OF rts])
qed

lemma tables_inv_mset:
  assumes "tables_inv b s" and "mset tline = mset (m_tenders_timeline s)"
  shows "tables_inv b (s\<lparr>m_tenders_timeline := tline\<rparr>)"
  using assms mset_eq_setD [OF assms(2)] mset_eq_imp_distinct_iff [OF assms(2)]
  by (simp add: tables_inv_def)

lemma heap_timeline_inv [inv_intros]:
  assumes "router_inv b s"
  shows "keeps_inv b (heap_timeline s)"
proof (cases "heap_timeline s")
  case (Done s')
  then obtain tline where "s' = s\<lparr>m_tenders_timeline := tline\<rparr>" "mset tline = mset (m_tenders_timeline s)"
    by (rule heap_timeline_mset)
  then show ?thesis
    using assms Done by (auto simp: router_inv_def intro: tables_inv_mset)
qed (auto simp: heap_timeline_def split: option.splits)

lemma get_expired_tender_inv:
  "router_inv b s \<Longrightarrow> (\<And>r s. router_inv b s \<Longrightarrow> keeps_inv b (k r s)) \<Longrightarrow> keeps_inv b (get_expired_tender s k)"
  unfolding get_expired_tender_def
  by (auto simp: Let_def intro!: inv_intros compose_rules with_tender_inv)

lemma handle_expired_sync_tender_inv [inv_intros]:
  "router_inv b s \<Longrightarrow> keeps_inv b (handle_expired_sync_tender r s)"
  unfolding handle_expired_sync_tender_def post_sync_finished_request_to_link_peer_def
  by (auto simp: Let_def intro!: inv_intros compose_rules with_tender_inv)

lemma router_inv_drop_responses [simp]:
  "router_inv b s \<Longrightarrow> router_inv b (s\<lparr>m_responses := (m_responses s)(k := None)\<rparr>)"
  by (simp add: router_inv_def tables_inv_def)

lemma process_expired_tender_inv [inv_intros]:
  "router_inv b s \<Longrightarrow> keeps_inv b (process_expired_tender r s)"
  unfolding process_expired_tender_def
  by (auto intro!: inv_intros compose_rules with_tender_inv)

lemma handle_expired_tenders_inv [inv_intros]:
  "router_inv b s \<Longrightarrow> keeps_inv b (handle_expired_tenders s)"
  unfolding handle_expired_tenders_def
  by (auto simp: Let_def intro!: inv_intros compose_rules with_tender_inv get_expired_tender_inv)

lemma process_config_input_inv [inv_intros]:
  "router_inv b s \<Longrightarrow> keeps_inv b (process_config_input inp s)"
  unfolding process_config_input_def configure_router_def
  by (auto simp: Let_def ends_assert intro!: ends_if)

lemma process_wallet_input_inv [inv_intros]:
  "router_inv b s \<Longrightarrow> keeps_inv b (process_wallet_input inp s)"
  unfolding process_wallet_input_def
  by (auto intro: router_inv_weaken split: outcome.split)


lemma tender_at_rx [simp]:
  "tender_at r (s\<lparr>config_rx := f1\<rparr>) = tender_at r s"
  "tender_at r (s\<lparr>kernel_rx := f2\<rparr>) = tender_at r s"
  "tender_at r (s\<lparr>storage_rx := f3\<rparr>) = tender_at r s"
  "tender_at r (s\<lparr>storage_writer_rx := f4\<rparr>) = tender_at r s"
  "tender_at r (s\<lparr>cache_rx := f5\<rparr>) = tender_at r s"
  "tender_at r (s\<lparr>backup_rx := f6\<rparr>) = tender_at r s"
  "tender_at r (s\<lparr>wallet_rx := f7\<rparr>) = tender_at r s"
  "tender_at r (s\<lparr>link_rx := f8\<rparr>) = tender_at r s"
  by (simp_all add: tender_at_fst)

lemma router_inv_rx [simp]:
  "router_inv b (s\<lparr>config_rx := f1\<rparr>) = router_inv b s"
  "router_inv b (s\<lparr>kernel_rx := f2\<rparr>) = router_inv b s"
  "router_inv b (s\<lparr>storage_rx := f3\<rparr>) = router_inv b s"
  "router_inv b (s\<lparr>storage_writer_rx := f4\<rparr>) = router_inv b s"
  "router_inv b (s\<lparr>cache_rx := f5\<rparr>) = router_inv b s"
  "router_inv b (s\<lparr>backup_rx := f6\<rparr>) = router_inv b s"
  "router_inv b (s\<lparr>wallet_rx := f7\<rparr>) = router_inv b s"
  "router_inv b (s\<lparr>link_rx := f8\<rparr>) = router_inv b s"
  by (simp_all add: router_inv_def tables_inv_def)

text \<open>The catch clauses turn an exception into a normal return: only the weak invariant is left.\<close>

lemma handled_inv:
  assumes "router_inv False s" and "\<And>inp. keeps_inv False (process inp s)"
    and "\<And>s f. router_inv False (put f s) = router_inv False s"
  shows "keeps_inv False (and_then (catch_log (process inp s)) (\<lambda>s. consumed (rx s) (\<lambda>f. put f s)))"
proof (rule ends_and_then [where R = "router_inv False"])
  show "keeps_inv False (catch_log (process inp s))"
    by (rule ends_catch) (rule assms(2))
qed (simp add: consumed_def assms(3) split: outcome.split)

lemma handle_input_inv [inv_intros]:
  assumes "router_inv False s"
  shows "keeps_inv False (handle_config_input s)" "keeps_inv False (handle_kernel_input s)"
    "keeps_inv False (handle_storage_input s)" "keeps_inv False (handle_storage_writer_input s)"
    "keeps_inv False (handle_cache_input s)" "keeps_inv False (handle_backup_input s)"
    "keeps_inv False (handle_wallet_input s)" "keeps_inv False (handle_link_input s)"
  unfolding handle_config_input_def handle_kernel_input_def handle_storage_input_def
    handle_storage_writer_input_def handle_cache_input_def handle_backup_input_def
    handle_wallet_input_def handle_link_input_def
  by (intro ends_case_option ends_if ends_Done handled_inv inv_intros assms router_inv_rx)+

lemma router_iteration_inv [inv_intros]: "router_inv False s \<Longrightarrow> keeps_inv False (router_iteration s)"
  unfolding router_iteration_def by (intro ends_and_then [where R = "router_inv False"] inv_intros)

lemma tender_at_init [simp]: "tender_at r (router_init now uuids) = None"
  by (simp add: tender_at_fst router_init_def)

lemma router_init_inv: "router_inv b (router_init now uuids)"
proof -
  have sel: "m_tenders_timeline (router_init now uuids) = []" "m_responses (router_init now uuids) = Map.empty"
    "m_request_counter (router_init now uuids) = ROUTER_REQUEST_LOWER_BOUND"
    "slot (link_tx (router_init now uuids)) = router_link_package0"
    "fifo_ok (link_tx (router_init now uuids))" "fifo_ok (kernel_tx (router_init now uuids))"
    by (simp_all add: router_init_def)
  show ?thesis
    by (simp add: router_inv_def tables_inv_def sel ROUTER_REQUEST_LOWER_BOUND_def ROUTER_REQUEST_UPPER_BOUND_def)
qed

lemma environment_inv: "router_inv False s \<Longrightarrow> router_inv False (environment e s)"
  by (cases e) (simp_all add: onTimer_def)

lemma router_reachable_inv: "router_reachable s \<Longrightarrow> router_inv False s"
proof (induction rule: router_reachable.induct)
  case (start now uuids)
  show ?case by (rule router_init_inv)
next
  case (step s s')
  from step.hyps(2) show ?case
  proof (rule router_stepE)
    fix e assume "s' = environment e s"
    with step.IH show ?thesis by (simp add: environment_inv)
  next
    assume "router_iteration s = Done s'"
    with router_iteration_inv [OF step.IH] show ?thesis by simp
  qed
qed


end
