(* ===== verification/Router_Traffic.thy ===== *)
theory Router_Traffic
  imports Router_Inv
begin

text \<open>
  What a handler hands to the link and to the kernel, read off the channels: the three functions that
  write a tender to the link produce one package whose bytes are the tender's header with one hop less,
  followed by the payload; a package received from the link is parsed back to that header and payload.
\<close>


section \<open>What goes out\<close>

text \<open>\<open>sent s s' out\<close>: between \<open>s\<close> and \<open>s'\<close> the router handed exactly \<open>out\<close> to the link.\<close>

definition sent :: "router \<Rightarrow> router \<Rightarrow> router_link_package \<Rightarrow> bool" where
  "sent s s' out \<longleftrightarrow> pending (link_tx s') = pending (link_tx s) @ [out]"

definition told :: "router \<Rightarrow> router \<Rightarrow> kernel_router_package \<Rightarrow> bool" where
  "told s s' out \<longleftrightarrow> pending (kernel_tx s') = pending (kernel_tx s) @ [out]"

text \<open>The bytes of \<open>out\<close> are the header \<open>d\<close> and the payload of \<open>p\<close>.\<close>

definition carries :: "'a package_scheme \<Rightarrow> router_data \<Rightarrow> 'b package_scheme \<Rightarrow> bool" where
  "carries out d p \<longleftrightarrow> (\<exists>tail. payload_tail p = Some tail \<and> p_message out = Some (rd_header_bytes d @ tail)
     \<and> unat (p_size out) = length (rd_header_bytes d) + length tail)"

text \<open>The header a router writes for tender \<open>t\<close> with command \<open>c\<close>: one hop less, no winners.\<close>

definition next_hop :: "tender \<Rightarrow> command \<Rightarrow> 'a package_scheme \<Rightarrow> router_data" where
  "next_hop t c p = set_payload p ((write_router_data t router_data0)\<lparr>rd_hop_id := rd_hop_id t - 1, rd_cmd := c\<rparr>)"

lemma next_hop_fields [simp]:
  "rd_tender_id (next_hop t c p) = rd_tender_id t" "rd_cmd (next_hop t c p) = c"
  "rd_uuid (next_hop t c p) = rd_uuid t" "rd_hop_id (next_hop t c p) = rd_hop_id t - 1"
  "rd_data_version (next_hop t c p) = rd_data_version t" "rd_winners_id (next_hop t c p) = []"
  by (simp_all add: next_hop_def write_router_data_def router_data0_def default_package_def package.defs router_data.defs set_payload_def)

lemma serialize_carries:
  assumes "rd_serialize (set_payload p d) pkg = Some out"
  shows "carries out (set_payload p d) p" and "package.more out = package.more pkg"
proof -
  have "payload_tail (set_payload p d) = payload_tail p"
    by (simp add: payload_tail_def size_flags_def)
  with write_out_message [OF assms [unfolded rd_serialize_def]]
  show "carries out (set_payload p d) p" and "package.more out = package.more pkg"
    by (auto simp: carries_def)
qed

lemma more_fields:
  assumes "package.more (p :: router_link_package) = package.more q"
  shows "rl_cmd p = rl_cmd q" "rl_peers p = rl_peers q" "rl_cmd_rating p = rl_cmd_rating q"
    "rl_should_block_by_sync p = rl_should_block_by_sync q"
  using assms by (cases p; cases q; simp)+

lemmas sending_simps = Let_def and_then_Done_iff assert_that_Done_iff with_tender_def touch_tender_def
  upd_tender_def set_round_trip_interval_def serialize_to_link_def

lemma out_fields [simp]:
  "link_tx (out_link g s) = set_slot g (link_tx s)"
  "link_tx (commit_link s) = commit router_link_package0 (link_tx s)"
  "kernel_tx (out_kernel h s) = set_slot h (kernel_tx s)"
  "kernel_tx (commit_kernel s) = commit kernel_router_package0 (kernel_tx s)"
  by (simp_all add: out_link_def commit_link_def out_kernel_def commit_kernel_def)

lemma post_link_kernel_tender_sends:
  assumes inv: "router_inv b s" and t: "tender_at r s = Some t"
    and run: "post_link_kernel_tender r inp s = Done s'"
  shows "\<exists>out. sent s s' out \<and> rl_cmd out = cmd_broadcast \<and> rl_peers out = []
    \<and> carries out (next_hop t (rd_cmd t) inp) inp"
proof -
  have ok: "fifo_ok (link_tx s)" "slot (link_tx s) = router_link_package0"
    using inv by (simp_all add: router_inv_def tables_inv_def)
  obtain out where out: "rd_serialize (next_hop t (rd_cmd t) inp) (router_link_package0\<lparr>
         rl_cmd_rating := get_command_rating (rd_cmd t), rl_should_block_by_sync := (rd_cmd t = cmd_get),
         rl_cmd := cmd_broadcast\<rparr>) = Some out" (is "rd_serialize _ ?pkg = _")
     and s': "s' = commit_link (out_link (\<lambda>_. out) (out_link (\<lambda>out. out\<lparr>rl_cmd_rating := get_command_rating (rd_cmd t),
               rl_should_block_by_sync := (rd_cmd t = cmd_get), rl_cmd := cmd_broadcast\<rparr>) s))"
    using run t ok
    by (auto simp: post_link_kernel_tender_def sending_simps next_hop_def write_router_data_def router_data0_def default_package_def package.defs router_data.defs
        split: option.splits)
  note c = serialize_carries [OF out [unfolded next_hop_def], folded next_hop_def]
  show ?thesis
    using c(1) more_fields [OF c(2)] ok by (auto simp: s' sent_def router_link_package0_def default_package_def router_link_package.defs package.defs)
qed

lemma broadcast_tender_to_peers_sends:
  assumes inv: "router_inv b s" and t: "tender_at r s = Some t"
    and run: "broadcast_tender_to_peers r inp s = Done s'"
  shows "\<exists>out. sent s s' out \<and> rl_cmd out = cmd_broadcast_except \<and> rl_peers out = t_prs t
    \<and> length (t_prs t) = 1 \<and> t_typ t = Remote \<and> carries out (next_hop t (rd_cmd t) inp) inp
    \<and> (\<exists>t'. tender_at r s' = Some t' \<and> t_request_id t' = UINT32_MAX) \<and> m_id_tenders s' = m_id_tenders s"
proof -
  have ok: "fifo_ok (link_tx s)" "slot (link_tx s) = router_link_package0"
    using inv by (simp_all add: router_inv_def tables_inv_def)
  obtain out where out: "rd_serialize (next_hop t (rd_cmd t) inp) router_link_package0 = Some out"
     and s': "pending (link_tx s') = pending (link_tx s) @ [out\<lparr>rl_cmd_rating := get_command_rating (rd_cmd t),
         rl_should_block_by_sync := (rd_cmd t = cmd_get), rl_cmd := cmd_broadcast_except, rl_peers := t_prs t\<rparr>]"
     and rest: "length (t_prs t) = 1 \<and> t_typ t = Remote \<and> m_id_tenders s' = m_id_tenders s
        \<and> (\<exists>t'. tender_at r s' = Some t' \<and> t_request_id t' = UINT32_MAX)"
    using run t ok
    by (auto simp: broadcast_tender_to_peers_def sending_simps next_hop_def write_router_data_def router_data0_def default_package_def package.defs router_data.defs
        split: option.splits)
  note c = serialize_carries [OF out [unfolded next_hop_def], folded next_hop_def]
  show ?thesis
    using c(1) rest by (auto simp: s' sent_def carries_def)
qed

lemma send_tender_data_sends:
  assumes inv: "router_inv b s" and t: "tender_at r s = Some t"
    and run: "send_tender_data r c inp s = Done s'"
  shows "\<exists>out. sent s s' out \<and> rl_cmd out = cmd_send \<and> rl_peers out = [hd (t_prs t)]
    \<and> t_prs t \<noteq> [] \<and> carries out (next_hop t c inp) inp"
proof -
  have ok: "fifo_ok (link_tx s)" "slot (link_tx s) = router_link_package0"
    using inv by (simp_all add: router_inv_def tables_inv_def)
  obtain out where out: "rd_serialize (next_hop t c inp) (router_link_package0\<lparr>rl_cmd := cmd_send,
       rl_peers := insort_insert (hd (t_prs t)) (rl_peers (router_link_package0\<lparr>rl_cmd := cmd_send\<rparr>))\<rparr>) = Some out"
     and s': "pending (link_tx s') = pending (link_tx s) @ [out]" and ne: "t_prs t \<noteq> []"
    using run t ok
    by (auto simp: send_tender_data_def sending_simps next_hop_def write_router_data_def router_data0_def default_package_def package.defs router_data.defs
        split: option.splits)
  note c = serialize_carries [OF out [unfolded next_hop_def], folded next_hop_def]
  show ?thesis
    using c(1) more_fields [OF c(2)] ok ne
    by (auto simp: s' sent_def router_link_package0_def default_package_def router_link_package.defs package.defs insort_insert_key_def)
qed

lemma new_internal_tender_fields [simp]:
  "rd_tender_id (new_internal_tender inp k s) = k" "rd_cmd (new_internal_tender inp k s) = kr_cmd inp"
  "rd_uuid (new_internal_tender inp k s) = kr_uuid inp" "rd_hop_id (new_internal_tender inp k s) = max_hops s"
  by (simp_all add: new_internal_tender_def Let_def)

text \<open>The changes the announcing handlers make to the new tender before they post it.\<close>

definition stamps :: "(tender \<Rightarrow> tender) \<Rightarrow> bool" where
  "stamps f \<longleftrightarrow> (\<forall>t. rd_tender_id (f t) = rd_tender_id t \<and> rd_cmd (f t) = rd_cmd t
     \<and> rd_uuid (f t) = rd_uuid t \<and> rd_hop_id (f t) = rd_hop_id t)
     \<and> (\<forall>r t. tender_ok r t \<longrightarrow> tender_ok r (f t))"

lemma announce_request_sends:
  assumes inv: "router_inv b s" and f: "stamps f" and c: "\<not> is_sync_cmd (kr_cmd inp)"
    and run: "announce_request f inp s = Done s'"
  shows "\<exists>out d. sent s s' out \<and> rl_cmd out = cmd_broadcast \<and> rl_peers out = [] \<and> carries out d inp
    \<and> rd_tender_id d = uuid_source s (uuid_count s) \<and> rd_cmd d = kr_cmd inp \<and> rd_uuid d = kr_uuid inp
    \<and> rd_hop_id d = max_hops s - 1 \<and> rd_winners_id d = []"
proof -
  let ?k = "uuid_source s (uuid_count s)" and ?s = "s\<lparr>uuid_count := Suc (uuid_count s)\<rparr>"
  let ?r = "(Tenders, ?k)" and ?t = "f (new_internal_tender inp ?k ?s)"
  let ?s1 = "(put_tender ?r ?t ?s)\<lparr>m_tenders_timeline := m_tenders_timeline s @ [?r],
               m_id_tenders := map_insert (kr_request_id inp) ?k (m_id_tenders s)\<rparr>"
  obtain s2 where new: "tender_at ?r s = None" and p: "post_link_kernel_tender ?r inp ?s1 = Done s2"
      and t: "touch_tender ?r s2 = Done s'"
    using run by (auto simp: announce_request_def get_tender_id_def Let_def and_then_Done_iff
       assert_that_Done_iff tables_tender_at)
  have "tender_ok ?r ?t"
    using f c by (auto simp: stamps_def intro: new_internal_tender_ok)
  then have "tables_inv b ?s1"
    using tables_inv_schedule [of b ?s ?r ?t] inv new by (simp add: router_inv_def)
  then have i: "router_inv b ?s1" and at: "tender_at ?r ?s1 = Some ?t"
    using inv by (simp_all add: router_inv_def)
  show ?thesis
    using post_link_kernel_tender_sends [OF i at p] t f
    by (fastforce simp: sent_def touch_tender_def upd_tender_def with_tender_def stamps_def split: option.splits)
qed

section \<open>What comes in\<close>

text \<open>A package the link delivers: \<open>d\<close> and the payload of \<open>p\<close> in its bytes, sizes as the formats allow.\<close>

definition delivers :: "router_link_package \<Rightarrow> router_data \<Rightarrow> 'a package_scheme \<Rightarrow> bool" where
  "delivers q d p \<longleftrightarrow> rl_cmd q = cmd_received_data \<and> carries q d p \<and> small_package p
     \<and> length (rd_winners_id d) < 2 ^ 24"

definition parsed :: "router_data \<Rightarrow> router_data \<Rightarrow> router_data" where
  "parsed d e = e\<lparr>p_version := p_version d, rd_tender_id := rd_tender_id d,
      rd_cmd := rd_cmd d, rd_uuid := rd_uuid d, rd_hop_id := rd_hop_id d,
      rd_data_version := rd_data_version d, rd_last_updated := rd_last_updated d,
      rd_expire_date := rd_expire_date d, rd_winners_id := rd_winners_id e @ rd_winners_id d\<rparr>"

lemma parsed_fields [simp]:
  "rd_tender_id (parsed d e) = rd_tender_id d" "rd_cmd (parsed d e) = rd_cmd d"
  "rd_uuid (parsed d e) = rd_uuid d" "rd_hop_id (parsed d e) = rd_hop_id d"
  "rd_data_version (parsed d e) = rd_data_version d"
  "rd_winners_id (parsed d e) = rd_winners_id e @ rd_winners_id d"
  by (simp_all add: parsed_def)

lemma delivers_parse:
  assumes "delivers q d p"
  shows "\<exists>n. rd_extract_header q e = Some (parsed d e, n)"
proof -
  obtain tail where "p_message q = Some (rd_header_bytes d @ tail)"
    using assms by (auto simp: delivers_def carries_def)
  moreover have "length (rd_header_bytes d) < 2 ^ 32"
    using assms by (simp add: delivers_def length_rd_header_bytes)
  ultimately show ?thesis
    by (simp add: rd_extract_header_encoded parsed_def)
qed

lemma delivers_payload:
  assumes "delivers q d p" and "rd_winners_id e = []"
  shows "\<exists>x. extract_payload q (unat (rd_header_size (parsed d e))) y = Done x \<and> payload_of x = payload_of p
    \<and> p_size x = p_size p \<and> p_flags x = p_flags p \<and> package.more x = package.more y"
proof -
  have fits: "rd_fits (parsed d e)"
    using assms by (simp add: rd_fits_def length_rd_header_bytes delivers_def)
  have "unat (rd_header_size (parsed d e)) = length (rd_header_bytes d)"
    unfolding unat_rd_header_size [OF fits] by (simp add: length_rd_header_bytes assms(2))
  then show ?thesis
    using assms(1) by (auto simp: delivers_def carries_def intro: extract_payload_tail)
qed

lemma parse_delivered:
  "delivers q d p \<Longrightarrow> parse_router_data q s = Done (s\<lparr>m_router_data := parsed d (m_router_data s)\<rparr>)"
  using delivers_parse [of q d p "m_router_data s"] by (auto simp: parse_router_data_def)

lemma kr_more:
  assumes "package.more (p :: kernel_router_package) = package.more q"
  shows "kr_cmd p = kr_cmd q" "kr_request_id p = kr_request_id q" "kr_uuid p = kr_uuid q"
    "kr_data_version p = kr_data_version q"
  using assms by (cases p; cases q; simp)+

lemma with_tender_known: "tender_at r s = Some t \<Longrightarrow> with_tender r s k = k t"
  by (simp add: with_tender_def)

text \<open>The first command of a tender the router does not know reaches the kernel with its payload.\<close>

lemma process_new_tender_tells:
  assumes q: "delivers q d p" and w: "rd_winners_id e = []"
    and s: "m_router_data s = parsed d e" and ok: "fifo_ok (kernel_tx s)"
  shows "\<exists>s' k t. process_new_tender q r (put_tender r (tender0 now) s) = Done s' \<and> told s s' k
    \<and> kr_cmd k = rd_cmd d \<and> kr_uuid k = rd_uuid d \<and> kr_request_id k = m_request_counter s
    \<and> payload_of k = payload_of p \<and> p_size k = p_size p
    \<and> tender_at r s' = Some t \<and> t_typ t = Remote \<and> rd_hop_id t = rd_hop_id d \<and> rd_cmd t = rd_cmd d
    \<and> rd_tender_id t = rd_tender_id d \<and> rd_uuid t = rd_uuid d \<and> t_prs t = set_insert_all (rl_peers q) []
    \<and> t_request_id t = m_request_counter s \<and> set (t_prs t) = set (rl_peers q)
    \<and> r \<in> set (m_tenders_timeline s') \<and> link_tx s' = link_tx s \<and> m_router_data s' = parsed d e"
proof -
  obtain x where x: "extract_payload q (unat (rd_header_size (parsed d e))) (slot (kernel_tx s)\<lparr>
      kr_request_id := m_request_counter s, kr_cmd := rd_cmd d, kr_uuid := rd_uuid d,
      kr_data_version := rd_data_version d, kr_last_updated := rd_last_updated (parsed d e),
      kr_expire_date := rd_expire_date (parsed d e)\<rparr>) = Done x" 
   "payload_of x = payload_of p" "p_size x = p_size p" 
    and m: "package.more x = package.more (slot (kernel_tx s)\<lparr>
      kr_request_id := m_request_counter s, kr_cmd := rd_cmd d, kr_uuid := rd_uuid d,
      kr_data_version := rd_data_version d, kr_last_updated := rd_last_updated (parsed d e),
      kr_expire_date := rd_expire_date (parsed d e)\<rparr>)"
    using delivers_payload [OF q w] by blast
  show ?thesis
    using x kr_more [OF m] ok
    by (simp add: process_new_tender_def and_then_upd_tender with_tender_known get_request_id_def Let_def
       post_new_tender_to_kernel_def extract_to_kernel_def s told_def touch_tender_def upd_tender_def and_then_assoc
       read_router_data_def router_data.defs tender0_def)
qed

lemma link_data_new:
  assumes q: "delivers q d p" and id: "rd_tender_id d \<noteq> 0" and new: "tender_at (Tenders, rd_tender_id d) s = None"
    and w: "rd_winners_id (m_router_data s) = []" and inv: "router_inv b s"
    and valid: "\<not> is_invalid_new_tender (rd_cmd d)" and single: "\<not> is_first_command_of_multiwinner_tender (rd_cmd d)"
  shows "\<exists>s' k t. process_link_input q s = Done s' \<and> told s s' k
    \<and> kr_cmd k = rd_cmd d \<and> kr_uuid k = rd_uuid d \<and> kr_request_id k = m_request_counter s
    \<and> payload_of k = payload_of p \<and> p_size k = p_size p
    \<and> tender_at (Tenders, rd_tender_id d) s' = Some t \<and> t_typ t = Remote \<and> rd_hop_id t = rd_hop_id d
    \<and> t_request_id t = m_request_counter s \<and> set (t_prs t) = set (rl_peers q)
    \<and> (Tenders, rd_tender_id d) \<in> set (m_tenders_timeline s') \<and> link_tx s' = link_tx s"
proof -
  let ?r = "(Tenders, rd_tender_id d)" and ?s = "s\<lparr>m_router_data := parsed d (m_router_data s)\<rparr>"
  have own: "\<not> is_own_sync_tender (rd_cmd d)" "rd_cmd d \<noteq> cmd_max_command"
    using valid by (auto simp: is_invalid_new_tender_def is_own_sync_tender_def)
  have ok: "fifo_ok (kernel_tx ?s)" using inv by (simp add: router_inv_def tables_inv_def)
  obtain s' k t where p: "process_new_tender q ?r (put_tender ?r (tender0 (clock s)) ?s) = Done s'" 
    and rest: "told ?s s' k \<and> kr_cmd k = rd_cmd d \<and> kr_uuid k = rd_uuid d \<and> kr_request_id k = m_request_counter ?s
    \<and> payload_of k = payload_of p \<and> p_size k = p_size p
    \<and> tender_at ?r s' = Some t \<and> t_typ t = Remote \<and> rd_hop_id t = rd_hop_id d \<and> rd_cmd t = rd_cmd d
    \<and> t_request_id t = m_request_counter ?s \<and> set (t_prs t) = set (rl_peers q)
    \<and> ?r \<in> set (m_tenders_timeline s') \<and> link_tx s' = link_tx ?s"
    using process_new_tender_tells [OF q w _ ok, of ?r "clock s"] by auto
  have "process_link_input q s = Done (reset_router_data s')"
    using q own id new p valid single
    by (simp add: process_link_input_def delivers_def handle_link_data_def parse_delivered [OF q] Let_def
        handle_new_remote_tender_def tables_tender_at)
  then show ?thesis
    using rest by (auto simp: told_def reset_router_data_def)
qed

lemma carries_same_tail:
  assumes "rd_serialize d pkg = Some out" and "payload_of d = payload_of p" and "p_size d = p_size p"
    and "p_flags d = p_flags p"
  shows "carries out d p" and "package.more out = package.more pkg"
proof -
  have "payload_tail d = payload_tail p"
    using assms(2-4) by (simp add: payload_tail_def size_flags_def)
  with write_out_message [OF assms(1) [unfolded rd_serialize_def]]
  show "carries out d p" and "package.more out = package.more pkg"
    by (auto simp: carries_def)
qed

lemma rd_more:
  assumes "package.more (p :: router_data) = package.more q"
  shows "rd_tender_id p = rd_tender_id q" "rd_cmd p = rd_cmd q" "rd_uuid p = rd_uuid q"
    "rd_hop_id p = rd_hop_id q" "rd_winners_id p = rd_winners_id q"
  using assms by (cases p; cases q; simp)+

lemma forward_remote_tender_sends:
  assumes q: "delivers q d p" and w: "rd_winners_id e = []" and m: "m_router_data s = parsed d e"
    and ok: "fifo_ok (link_tx s)" "slot (link_tx s) = router_link_package0"
    and t: "tender_at r s = Some t" and run: "forward_remote_tender q r s = Done s'"
  shows "\<exists>out h. sent s s' out \<and> rl_cmd out = cmd_broadcast_except \<and> rl_peers out = t_prs t
     \<and> carries out h p \<and> rd_tender_id h = rd_tender_id t \<and> rd_cmd h = rd_cmd t \<and> rd_uuid h = rd_uuid t
     \<and> rd_hop_id h = rd_hop_id t - 1 \<and> kernel_tx s' = kernel_tx s"
proof -
  let ?h = "(write_router_data t router_data0)\<lparr>rd_hop_id := rd_hop_id t - 1\<rparr>"
  obtain x where x: "extract_payload q (unat (rd_header_size (parsed d e))) ?h = Done x"
    and pl: "payload_of x = payload_of p" "p_size x = p_size p" "p_flags x = p_flags p"
    and mx: "package.more x = package.more ?h"
    using delivers_payload [OF q w] by blast
  obtain out where out: "rd_serialize x router_link_package0 = Some out"
    and s': "pending (link_tx s') = pending (link_tx s) @ [out\<lparr>rl_cmd_rating := get_command_rating (rd_cmd t),
         rl_should_block_by_sync := (rd_cmd t = cmd_get), rl_cmd := cmd_broadcast_except, rl_peers := t_prs t\<rparr>]"
       "kernel_tx s' = kernel_tx s"
    using run t ok x
    by (auto simp: forward_remote_tender_def sending_simps extract_local_def m write_router_data_def
      split: option.splits outcome.splits)
  show ?thesis
    using carries_same_tail(1) [OF out pl] rd_more [OF mx]
    by (intro exI [of _ "out\<lparr>rl_cmd_rating := get_command_rating (rd_cmd t),
         rl_should_block_by_sync := (rd_cmd t = cmd_get), rl_cmd := cmd_broadcast_except, rl_peers := t_prs t\<rparr>"]
         exI [of _ x]) (auto simp: s' sent_def carries_def write_router_data_def)
qed

lemma forward_remote_tender_runs:
  assumes q: "delivers q d p" and w: "rd_winners_id e = []" and m: "m_router_data s = parsed d e"
    and t: "tender_at r s = Some t" "t_typ t = Remote" "length (t_prs t) = 1"
  shows "\<exists>s'. forward_remote_tender q r s = Done s'"
proof -
  let ?h = "(write_router_data t router_data0)\<lparr>rd_hop_id := rd_hop_id t - 1\<rparr>"
  obtain x where x: "extract_payload q (unat (rd_header_size (parsed d e))) ?h = Done x"
    and pl: "payload_of x = payload_of p" "p_size x = p_size p"
    and mx: "package.more x = package.more ?h"
    using delivers_payload [OF q w] by blast
  have small: "small_package x"
    using q pl by (simp add: delivers_def small_package_def)
  have wx: "rd_winners_id x = []"
    using rd_more(5) [OF mx] by (simp add: write_router_data_def router_data0_def router_data.defs
        default_package_def package.defs)
  have hs: "unat (rd_header_size x) = length (rd_header_bytes x)"
    by (rule unat_rd_header_size) (simp add: rd_fits_def length_rd_header_bytes wx)
  have "unat (rd_header_size x) + 4 + unat (p_size x) < 2 ^ 32"
    using small unfolding hs by (simp add: length_rd_header_bytes wx small_package_def)
  then have "\<exists>out. rd_serialize x pkg = Some out" for pkg :: router_link_package
    using write_out_Some [OF small, of "unat (rd_header_size x) + 4 + unat (p_size x)" "rd_header_bytes x" pkg] hs
    by (auto simp: rd_serialize_def)
  then obtain out where "rd_serialize x (slot (link_tx s)) = Some out"
    by blast
  then show ?thesis
    using t x by (simp add: forward_remote_tender_def and_then_set_round_trip_interval with_tender_known Let_def
      extract_local_def m write_router_data_def serialize_to_link_def touch_tender_def upd_tender_def)
qed

lemma link_data_new_multi:
  assumes q: "delivers q d p" and id: "rd_tender_id d \<noteq> 0" and new: "tender_at (Tenders, rd_tender_id d) s = None"
    and w: "rd_winners_id (m_router_data s) = []" and inv: "router_inv b s"
    and multi: "is_first_command_of_multiwinner_tender (rd_cmd d)" and one: "rl_peers q = [peer]"
  shows "\<exists>s' k. process_link_input q s = Done s' \<and> told s s' k \<and> kr_cmd k = rd_cmd d \<and> kr_uuid k = rd_uuid d \<and> payload_of k = payload_of p
    \<and> (if rd_hop_id d = 1 then link_tx s' = link_tx s
       else \<exists>out h. sent s s' out \<and> rl_cmd out = cmd_broadcast_except \<and> set (rl_peers out) = set (rl_peers q)
         \<and> carries out h p \<and> rd_tender_id h = rd_tender_id d \<and> rd_cmd h = rd_cmd d \<and> rd_uuid h = rd_uuid d
         \<and> rd_hop_id h = rd_hop_id d - 1)"
proof -
  let ?r = "(Tenders, rd_tender_id d)" and ?s = "s\<lparr>m_router_data := parsed d (m_router_data s)\<rparr>"
  have own: "\<not> is_own_sync_tender (rd_cmd d)" "rd_cmd d \<noteq> cmd_max_command" "\<not> is_invalid_new_tender (rd_cmd d)"
    using multi by (auto simp: is_invalid_new_tender_def is_own_sync_tender_def is_first_command_of_multiwinner_tender_def)
  have ok: "fifo_ok (kernel_tx ?s)" and lok: "fifo_ok (link_tx s)" "slot (link_tx s) = router_link_package0"
    using inv by (simp_all add: router_inv_def tables_inv_def)
  obtain s1 k t where p: "process_new_tender q ?r (put_tender ?r (tender0 (clock s)) ?s) = Done s1" 
    and k: "told ?s s1 k" "kr_cmd k = rd_cmd d" "kr_uuid k = rd_uuid d" "payload_of k = payload_of p"
    and t: "tender_at ?r s1 = Some t" "t_typ t = Remote" "rd_hop_id t = rd_hop_id d" "rd_cmd t = rd_cmd d"
      "set (t_prs t) = set (rl_peers q)" "rd_tender_id t = rd_tender_id d" "rd_uuid t = rd_uuid d" "t_prs t = [peer]"
    and l: "link_tx s1 = link_tx ?s" and r: "m_router_data s1 = parsed d (m_router_data s)"
    using process_new_tender_tells [OF q w _ ok, of ?r "clock s"] one by (auto simp: set_insert_all_def insort_insert_key_def)
  let ?fwd = "if rd_hop_id t \<noteq> 1 then forward_remote_tender q ?r s1 else Done s1"
  have split: "process_link_input q s = and_then ?fwd (\<lambda>s. Done (reset_router_data s))"
    using q own id new p multi t
    by (simp add: process_link_input_def delivers_def handle_link_data_def parse_delivered [OF q] Let_def
        handle_new_remote_tender_def tables_tender_at with_tender_known)
  show ?thesis
  proof (cases "rd_hop_id d = 1")
    case True
    then show ?thesis
      using split k l t by (auto simp: told_def reset_router_data_def)
  next
    case False
    obtain s2 where f: "forward_remote_tender q ?r s1 = Done s2"
      using forward_remote_tender_runs [OF q w r t(1,2)] t(8) by auto
    then have run: "process_link_input q s = Done (reset_router_data s2)"
      using split t False by simp
    from forward_remote_tender_sends [OF q w r _ _ t(1) f] l lok show ?thesis
      using False k t run by (auto simp: sent_def told_def reset_router_data_def)
  qed
qed

section \<open>Responses\<close>

lemma rd_more_version:
  "package.more (p :: router_data) = package.more q \<Longrightarrow> rd_data_version p = rd_data_version q"
  by (cases p; cases q; simp)


definition starts_tender :: "command \<Rightarrow> bool" where
  "starts_tender c \<longleftrightarrow> c \<in> {cmd_get, cmd_save, cmd_update, cmd_del, cmd_copy, cmd_on_update_register, cmd_find_peer}"

lemma existing_tender_step:
  assumes q: "delivers q d p" and id: "rd_tender_id d \<noteq> 0" and t: "tender_at (Tenders, rd_tender_id d) s = Some t"
    and own: "\<not> is_own_sync_tender (rd_cmd d)" "rd_cmd d \<noteq> cmd_max_command"
  shows "process_link_input q s = and_then
     (process_existing_tender q (s\<lparr>m_router_data := parsed d (m_router_data s)\<rparr>)) (\<lambda>s. Done (reset_router_data s))"
  using q id t own
  by (simp add: process_link_input_def delivers_def handle_link_data_def parse_delivered [OF q] Let_def
        handle_new_remote_tender_def tables_tender_at with_tender_known)

lemma duplicate_dropped:
  assumes q: "delivers q d p" and id: "rd_tender_id d \<noteq> 0" and t: "tender_at (Tenders, rd_tender_id d) s = Some t"
    and c: "starts_tender (rd_cmd d)"
  shows "process_link_input q s = Done (s\<lparr>m_router_data := rd_reset (parsed d (m_router_data s))\<rparr>)"
proof -
  have c': "\<not> is_own_sync_tender (rd_cmd d)" "rd_cmd d \<noteq> cmd_max_command"
    using c by (auto simp: starts_tender_def is_own_sync_tender_def)
  then show ?thesis
    using c id t
    by (auto simp: existing_tender_step [OF q id t c'] process_existing_tender_def starts_tender_def tables_tender_at
       reset_router_data_def)
qed

text \<open>The responses a router hands on: not a first command, not an end of a synchronisation.\<close>

definition is_response :: "command \<Rightarrow> bool" where
  "is_response c \<longleftrightarrow> \<not> starts_tender c \<and> \<not> is_own_sync_tender c \<and> c \<noteq> cmd_max_command \<and> c \<noteq> cmd_sync_finished"

lemma existing_tender_response:
  assumes q: "delivers q d p" and id: "rd_tender_id d \<noteq> 0" and t: "tender_at (Tenders, rd_tender_id d) s = Some t"
    and c: "is_response (rd_cmd d)" and live: "\<not> t_is_canceled t" and ty: "t_typ t \<noteq> Max_type"
  shows "process_link_input q s = and_then
     ((if t_typ t = Internal then send_response_to_kernel q else process_remote_tender q (Tenders, rd_tender_id d))
        (s\<lparr>m_router_data := parsed d (m_router_data s)\<rparr>)) (\<lambda>s. Done (reset_router_data s))"
proof -
  have c': "\<not> is_own_sync_tender (rd_cmd d)" "rd_cmd d \<noteq> cmd_max_command"
    using c by (auto simp: is_response_def)
  then show ?thesis
    using c id t live ty
    by (cases "t_typ t") (simp_all add: existing_tender_step [OF q id t c'] process_existing_tender_def starts_tender_def tables_tender_at
       is_response_def process_existing_tender_data_def with_tender_known)
qed

lemma kr_set_payload:
  "kr_cmd (set_payload p k) = kr_cmd k" "kr_uuid (set_payload p k) = kr_uuid k"
  "kr_request_id (set_payload p k) = kr_request_id k" "kr_data_version (set_payload p k) = kr_data_version k"
  by (simp_all add: set_payload_def)

lemma response_to_kernel:
  assumes q: "delivers q d p" and id: "rd_tender_id d \<noteq> 0" and t: "tender_at (Tenders, rd_tender_id d) s = Some t"
    and c: "is_response (rd_cmd d)" and live: "\<not> t_is_canceled t" and ty: "t_typ t = Internal"
    and rid: "t_request_id t \<noteq> UINT32_MAX" "m_id_tenders s (t_request_id t) \<noteq> None"
    and fresh: "\<not> (rd_cmd d = cmd_get_data \<and> t_st t = Confirmed)" and inv: "router_inv b s"
  shows "\<exists>s' k t'. process_link_input q s = Done s' \<and> told s s' k \<and> kr_cmd k = rd_cmd d \<and> kr_uuid k = rd_uuid d
     \<and> kr_request_id k = t_request_id t \<and> kr_data_version k = rd_data_version d \<and> payload_of k = payload_of p \<and> p_size k = p_size p
     \<and> link_tx s' = link_tx s \<and> tender_at (Tenders, rd_tender_id d) s' = Some t' \<and> t_st t' = Confirmed"
proof -
  have w: "rd_winners_id router_data0 = []"
    by (simp add: router_data0_def router_data.defs default_package_def package.defs)
  obtain n where h: "rd_extract_header q router_data0 = Some (parsed d router_data0, n)"
    using delivers_parse [OF q] by blast
  obtain x where x: "extract_payload q (unat (rd_header_size (parsed d router_data0))) (parsed d router_data0) = Done x"
    "payload_of x = payload_of p" "p_size x = p_size p" 
    and m: "package.more x = package.more (parsed d router_data0)"
    using delivers_payload [OF q w] by blast
  have f: "rd_tender_id x = rd_tender_id d" "rd_cmd x = rd_cmd d" "rd_uuid x = rd_uuid d" 
    "rd_data_version x = rd_data_version d"
    using rd_more [OF m] rd_more_version [OF m] by simp_all
  have ok: "fifo_ok (kernel_tx s)" using inv by (simp add: router_inv_def tables_inv_def)
  let ?r = "(Tenders, rd_tender_id d)" and ?s = "s\<lparr>m_router_data := parsed d (m_router_data s)\<rparr>"
  let ?t = "t\<lparr>t_prs := set_insert_all (rl_peers q) (t_prs t), t_st := Confirmed, t_idling_interval := KERNEL_RESPONSE_TIME\<rparr>"
  have go: "(rd_cmd x = cmd_get_data \<and> t_st t = Confirmed) = False"
    using fresh unfolding f by blast
  have at: "tender_at ?r ?s = Some t"
    using t by simp
  obtain s1 where run: "send_response_to_kernel q ?s = Done s1" and k: "kernel_tx s1 = commit kernel_router_package0 
       (set_slot (\<lambda>out. set_payload x (out\<lparr>kr_request_id := t_request_id t, kr_data_version := rd_data_version x\<rparr>))
         (set_slot (\<lambda>out. out\<lparr>kr_cmd := rd_cmd x, kr_uuid := rd_uuid x\<rparr>) (kernel_tx s)))" "link_tx s1 = link_tx s"
     and st: "\<exists>t'. tender_at ?r s1 = Some t' \<and> t_st t' = Confirmed"
    using at rid
    by (simp add: send_response_to_kernel_def h extract_local_def x(1) f(1) tables_tender_at with_tender_known
       and_then_upd_tender and_then_touch_tender upd_tender_def Let_def go)
  then show ?thesis
    using ok by (auto simp: existing_tender_response [OF q id t c live] ty told_def reset_router_data_def x f kr_set_payload)
qed

lemma response_bypassed:
  assumes q: "delivers q d p" and id: "rd_tender_id d \<noteq> 0" and t: "tender_at (Tenders, rd_tender_id d) s = Some t"
    and c: "is_response (rd_cmd d)" and live: "\<not> t_is_canceled t" and ty: "t_typ t = Remote"
    and c2: "rd_cmd d \<noteq> cmd_send_uuids" "t_st t \<noteq> Confirmed"
    and rid: "t_request_id t = UINT32_MAX \<or> is_first_command_of_multiwinner_tender (rd_cmd t)" and inv: "router_inv b s"
  shows "\<exists>s' out. process_link_input q s = Done s' \<and> sent s s' out \<and> rl_cmd out = cmd_send 
     \<and> set (rl_peers out) = set (t_prs t) \<and> carries out (d\<lparr>rd_hop_id := rd_hop_id d - 1\<rparr>) p \<and> kernel_tx s' = kernel_tx s"
proof -
  obtain n where h: "rd_extract_header q router_data0 = Some (parsed d router_data0, n)"
    using delivers_parse [OF q] by blast
  obtain tail where tail: "payload_tail p = Some tail" "p_message q = Some (rd_header_bytes d @ tail)"
     "unat (p_size q) = length (rd_header_bytes d) + length tail"
    using q by (auto simp: delivers_def carries_def)
  have l: "length (rd_header_bytes (d\<lparr>rd_hop_id := h\<rparr>)) = length (rd_header_bytes d)" for h
    by (simp add: length_rd_header_bytes)
  have "fifo_ok (link_tx s)" "slot (link_tx s) = router_link_package0" 
    using inv by (simp_all add: router_inv_def tables_inv_def)
  then show ?thesis
    using t rid c2 
    by (simp add: existing_tender_response [OF q id t c live] ty process_remote_tender_def bypass_tender_response_def h
       with_tender_known tables_tender_at and_then_upd_tender and_then_touch_tender and_then_set_round_trip_interval upd_tender_def touch_tender_def 
       sent_def reset_router_data_def Let_def tail update_hop_id_encoded carries_def l router_link_package0_def default_package_def router_link_package.defs package.defs)
qed


lemma second_data_dropped:
  assumes q: "delivers q d p" and id: "rd_tender_id d \<noteq> 0" and t: "tender_at (Tenders, rd_tender_id d) s = Some t"
    and c: "rd_cmd d = cmd_get_data" and live: "\<not> t_is_canceled t" and ty: "t_typ t = Internal"
    and st: "t_st t = Confirmed"
  shows "process_link_input q s = Done (s\<lparr>m_router_data := rd_reset (parsed d (m_router_data s))\<rparr>)"
proof -
  have w: "rd_winners_id router_data0 = []"
    by (simp add: router_data0_def router_data.defs default_package_def package.defs)
  obtain n where h: "rd_extract_header q router_data0 = Some (parsed d router_data0, n)"
    using delivers_parse [OF q] by blast
  obtain x where x: "extract_payload q (unat (rd_header_size (parsed d router_data0))) (parsed d router_data0) = Done x"
    and m: "package.more x = package.more (parsed d router_data0)"
    using delivers_payload [OF q w] by blast
  have c': "is_response (rd_cmd d)"
    by (simp add: c is_response_def starts_tender_def is_own_sync_tender_def)
  show ?thesis
    using t st c
    by (simp add: existing_tender_response [OF q id t c' live] ty send_response_to_kernel_def h extract_local_def x rd_more [OF m]
       with_tender_known tables_tender_at reset_router_data_def)
qed

lemma canceled_ignored:
  assumes q: "delivers q d p" and id: "rd_tender_id d \<noteq> 0" and t: "tender_at (Tenders, rd_tender_id d) s = Some t"
    and c: "is_response (rd_cmd d)" and dead: "t_is_canceled t" and ty: "t_typ t \<noteq> Max_type"
  shows "process_link_input q s = Done (s\<lparr>m_router_data := rd_reset (parsed d (m_router_data s))\<rparr>)"
proof -
  have c': "\<not> is_own_sync_tender (rd_cmd d)" "rd_cmd d \<noteq> cmd_max_command"
    using c by (auto simp: is_response_def)
  then show ?thesis
    using c id t dead ty
    by (cases "t_typ t") (simp_all add: existing_tender_step [OF q id t c'] process_existing_tender_def starts_tender_def tables_tender_at
       is_response_def process_existing_tender_data_def with_tender_known reset_router_data_def)
qed

end
