(* ===== verification/Router_Expiry.thy ===== *)
theory Router_Expiry
  imports Router_Traffic
begin

text \<open>
  Expiry of tenders: what \<open>handle_expired_tenders\<close> does in one iteration of the loop, and what repeated
  iterations without input do. \<open>expired_in s\<close> are the scheduled tenders whose time is over.
\<close>


definition expired_in :: "router \<Rightarrow> tref set" where
  "expired_in s = {r \<in> set (m_tenders_timeline s). \<exists>t. tender_at r s = Some t \<and> is_expired (clock s) t}"

lemma tenders_of_at:
  "tenders_of rs s = Some rts \<Longrightarrow> (r, t) \<in> set rts \<Longrightarrow> r \<in> set rs \<and> tender_at r s = Some t"
  by (induction rs arbitrary: rts) (auto split: bind_splits)

lemma tenders_of_total: "(\<And>r. r \<in> set rs \<Longrightarrow> tender_at r s \<noteq> None) \<Longrightarrow> \<exists>rts. tenders_of rs s = Some rts"
  by (induction rs) (fastforce split: bind_splits)+

text \<open>The heap of the timeline is never undefined, and its front is a maximal tender.\<close>

lemma heap_timeline_front:
  assumes inv: "tables_inv b s" and ne: "m_tenders_timeline s \<noteq> []"
  obtains r tline t where "heap_timeline s = Done (s\<lparr>m_tenders_timeline := r # tline\<rparr>)"
    and "mset (r # tline) = mset (m_tenders_timeline s)" and "tender_at r s = Some t"
    and "\<And>r' t'. r' \<in> set (m_tenders_timeline s) \<Longrightarrow> tender_at r' s = Some t' \<Longrightarrow> \<not> less_than (clock s) t t'"
proof -
  obtain rts where rts: "tenders_of (m_tenders_timeline s) s = Some rts"
    using tenders_of_total [of "m_tenders_timeline s" s] inv by (auto simp: tables_inv_def)
  let ?lt = "\<lambda>a b :: tref \<times> tender. less_than (clock s) (snd a) (snd b)"
  have fst: "map fst rts = m_tenders_timeline s"
    using rts by (rule tenders_of_fst)
  then have "rts \<noteq> []" using ne by auto
  then have "make_heap ?lt rts \<noteq> []"
    using by_expiry_ref.mset_heap [of "clock s" rts] by (metis mset_zero_iff)
  then obtain x xs where h: "make_heap ?lt rts = x # xs"
    by (cases "make_heap ?lt rts") auto
  obtain r t where x: "x = (r, t)" by (cases x)
  have m: "mset (x # xs) = mset rts"
    using by_expiry_ref.mset_heap [of "clock s" rts] h by simp
  then have "(r, t) \<in> set rts"
    by (metis x list.set_intros(1) set_mset_mset)
  then have at: "tender_at r s = Some t"
    using tenders_of_at [OF rts] by blast
  have perm: "mset (r # map fst xs) = mset (m_tenders_timeline s)"
    using arg_cong [OF m, of "image_mset fst"] by (simp add: x flip: fst)
  have top: "\<not> less_than (clock s) t t'" if in_tl: "r' \<in> set (m_tenders_timeline s)"
    and at': "tender_at r' s = Some t'" for r' t'
  proof -
    have "r' \<in> fst ` set rts"
      using in_tl by (simp flip: fst)
    then obtain t2 where t2: "(r', t2) \<in> set rts"
      by force
    then have "t2 = t'"
      using tenders_of_at [OF rts t2] at' by simp
    with t2 show ?thesis
      using by_expiry_ref.front_maximal [of "(r', t')" rts "clock s"] by (simp add: h x)
  qed
  have "heap_timeline s = Done (s\<lparr>m_tenders_timeline := r # map fst xs\<rparr>)"
    by (simp add: heap_timeline_def rts h x)
  from that [OF this perm at top] show thesis .
qed

lemma post_sync_request_runs:
  assumes "tender_at r s = Some t" and "t_prs t \<noteq> []"
  shows "\<exists>s'. post_sync_request_to_link_peer c r s = Done s' \<and> (\<forall>r'. tender_at r' s' = tender_at r' s)
    \<and> m_tenders_timeline s' = m_tenders_timeline s \<and> clock s' = clock s
    \<and> m_router_timeout s' = m_router_timeout s \<and> m_expired_tender_exists s' = m_expired_tender_exists s"
  using assms by (simp add: post_sync_request_to_link_peer_def with_tender_known Let_def) (simp add: out_link_def commit_link_def)

definition same_but :: "tref \<Rightarrow> router \<Rightarrow> router \<Rightarrow> bool" where
  "same_but r s s' \<longleftrightarrow> m_tenders_timeline s' = swap_remove r (m_tenders_timeline s)
     \<and> (\<forall>r'. tender_at r' s' = (if r' = r then None else tender_at r' s)) \<and> clock s' = clock s"

lemma cancel_request_select [simp]:
  "m_tenders_timeline (cancel_request i s) = m_tenders_timeline s" "tender_at r (cancel_request i s) = tender_at r s"
  "clock (cancel_request i s) = clock s" 
  by (simp_all add: cancel_request_def)

lemma timeline_live:
  "tables_inv b s \<Longrightarrow> r \<in> set (m_tenders_timeline s) \<Longrightarrow> \<exists>t. tender_at r s = Some t \<and> tender_ok r t"
  unfolding tables_inv_def by (metis not_None_eq)

lemma dropped_at:
  "fst r = Tenders \<Longrightarrow> tender_at r' (s\<lparr>m_tenders_timeline := x, m_id_tenders := y, m_responses := z,
     m_tenders := (m_tenders s)(snd r := None)\<rparr>) = (if r' = r then None else tender_at r' s)"
  "fst r = Sync_tenders \<Longrightarrow> (m_sync_tenders s)(snd r := None) = m \<Longrightarrow>
     tender_at r' (s\<lparr>m_tenders_timeline := x, m_id_tenders := y, m_sync_tenders := m\<rparr>) = (if r' = r then None else tender_at r' s)"
  by (cases "fst r'"; auto simp: prod_eq_iff tender_at_fst)+

lemma clean_up_tender_info_runs:
  assumes "tables_inv b s" and "r \<in> set (m_tenders_timeline s)" and "fst r = Tenders"
  shows "\<exists>s'. clean_up_tender_info r s = Done s' \<and> same_but r s s'"
proof -
  obtain t where t: "tender_at r s = Some t" "rd_tender_id t = snd r"
    using timeline_live [OF assms(1,2)] by (auto simp: tender_ok_def)
  show ?thesis
    using t assms(2,3)
    by (simp add: clean_up_tender_info_def clean_up_tender_from_timeline_def with_tender_known same_but_def Let_def
       dropped_at del: tender_at_tables)
qed

lemma clean_up_sync_tender_info_runs:
  assumes "tables_inv b s" and "r \<in> set (m_tenders_timeline s)" and "fst r = Sync_tenders"
  shows "\<exists>s'. clean_up_sync_tender_info r s = Done s' \<and> same_but r s s'"
proof -
  obtain t where t: "tender_at r s = Some t" "rd_tender_id t = snd r" "is_sync_cmd (rd_cmd t)"
    using timeline_live [OF assms(1,2)] assms(3) by (auto simp: tender_ok_def)
  have c: "tender_at r' (commit_kernel (out_kernel h s')) = tender_at r' s'" for r' h s'
    by simp
  show ?thesis
    using t assms(2,3)
    by (simp add: clean_up_sync_tender_info_def clean_up_tender_from_timeline_def with_tender_known same_but_def Let_def
       dropped_at(2) del: tender_at_tables)
qed

lemma clean_up_tender_runs:
  assumes "tables_inv b s" and "r \<in> set (m_tenders_timeline s)" and "fst r = Tenders"
  shows "\<exists>s'. clean_up_tender r s = Done s' \<and> same_but r s s'"
proof -
  obtain t where t: "tender_at r s = Some t" "\<not> is_sync_cmd (rd_cmd t)"
    using timeline_live [OF assms(1,2)] assms(3) by (auto simp: tender_ok_def)
  show ?thesis
    using t clean_up_tender_info_runs [OF assms]
    by (auto simp: clean_up_tender_def with_tender_known same_but_def)
qed

text \<open>A sync tender tells its peer that it is over: it needs one.\<close>

definition has_peer :: "tref \<Rightarrow> router \<Rightarrow> bool" where
  "has_peer r s \<longleftrightarrow> fst r = Sync_tenders \<longrightarrow> (\<exists>t. tender_at r s = Some t \<and> t_prs t \<noteq> [])"

lemma process_expired_tender_runs:
  assumes inv: "tables_inv b s" and r: "r \<in> set (m_tenders_timeline s)" and p: "has_peer r s"
  shows "\<exists>s'. process_expired_tender r s = Done s' \<and> same_but r s s'"
proof -
  obtain t where t: "tender_at r s = Some t" "tender_ok r t"
    using timeline_live [OF inv r] by auto
  show ?thesis
  proof (cases "is_sync_cmd (rd_cmd t)")
    case False
    then have tb: "fst r = Tenders"
      using t by (simp add: tender_ok_def not_sync_table)
    have i: "tables_inv b (s\<lparr>m_responses := (m_responses s)(rd_tender_id t := None)\<rparr>)"
      using inv by (simp add: tables_inv_def)
    show ?thesis
      using False t clean_up_tender_runs [OF i _ tb] r
      by (auto simp: process_expired_tender_def with_tender_known same_but_def)
  next
    case True
    then have tb: "fst r = Sync_tenders"
      using t by (simp add: tender_ok_def)
    let ?s = "if t_is_canceled t then s else cancel_request (t_request_id t) s"
    have at: "tender_at r ?s = Some t" and pr: "t_prs t \<noteq> []"
      using t p tb by (auto simp: has_peer_def)
    obtain s1 where s1: "post_sync_finished_request_to_link_peer r ?s = Done s1" 
       and same: "\<forall>r'. tender_at r' s1 = tender_at r' ?s" "m_tenders_timeline s1 = m_tenders_timeline ?s" "clock s1 = clock ?s"
      using post_sync_request_runs [OF at pr, of cmd_sync_finished]
      unfolding post_sync_finished_request_to_link_peer_def by blast
    have i: "tables_inv b ?s"
      using inv by (simp add: cancel_request_def)
    have i1: "ends (tables_inv b) (\<lambda>_. True) (post_sync_finished_request_to_link_peer r ?s)"
      unfolding post_sync_finished_request_to_link_peer_def post_sync_request_to_link_peer_def
      using i by (auto simp: run_simps intro!: inv_rules ends_known_tender [of b])
    have "r \<in> set (m_tenders_timeline s1)"
      using r same(2) by simp
    then obtain s2 where "clean_up_sync_tender_info r s1 = Done s2" "same_but r s1 s2"
      using clean_up_sync_tender_info_runs [of b s1 r] i1 s1 tb by auto
    then show ?thesis
      using True t s1 same
      by (auto simp: process_expired_tender_def handle_expired_sync_tender_def with_tender_known same_but_def Let_def)
  qed
qed


lemma less_than_expired: "\<not> less_than now t t' \<Longrightarrow> is_expired now t' \<Longrightarrow> is_expired now t \<and> t_time t \<le> t_time t'"
  by (auto simp: less_than_iff)

lemma same_but_expired:
  assumes "tables_inv b s" and "r \<in> set (m_tenders_timeline s)" and "same_but r s s'"
  shows "expired_in s' = expired_in s - {r}" and "set (m_tenders_timeline s') = set (m_tenders_timeline s) - {r}"
proof -
  have d: "distinct (m_tenders_timeline s)"
    using assms(1) by (simp add: tables_inv_def)
  show tl': "set (m_tenders_timeline s') = set (m_tenders_timeline s) - {r}"
    using assms(3) swap_remove_distinct(2) [OF d assms(2)] by (simp add: same_but_def)
  show "expired_in s' = expired_in s - {r}"
    using assms(3) unfolding expired_in_def tl' by (auto simp: same_but_def)
qed

lemma get_expired_tender_cases:
  assumes inv: "router_inv b s" and flag: "m_router_timeout s \<or> m_expired_tender_exists s"
  obtains s0 where "get_expired_tender s k = k None s0" and "expired_in s = {}" and "router_inv b s0"
    "set (m_tenders_timeline s0) = set (m_tenders_timeline s)" "\<And>r. tender_at r s0 = tender_at r s" "clock s0 = clock s"
    "link_tx s0 = link_tx s" "kernel_tx s0 = kernel_tx s"
  | r t s0 where "get_expired_tender s k = k (Some r) s0" and "r \<in> expired_in s" and "router_inv b s0"
    "tender_at r s = Some t" "\<And>r' t'. r' \<in> expired_in s \<Longrightarrow> tender_at r' s = Some t' \<Longrightarrow> t_time t \<le> t_time t'"
    "set (m_tenders_timeline s0) = set (m_tenders_timeline s)" "\<And>r. tender_at r s0 = tender_at r s" "clock s0 = clock s"
proof (cases "m_tenders_timeline s = []")
  case True
  show thesis
    by (rule that(1) [of "s\<lparr>m_router_timeout := False, m_signal := False\<rparr>"])
      (use True flag inv in \<open>auto simp: get_expired_tender_def expired_in_def\<close>)
next
  case False
  let ?s = "s\<lparr>m_router_timeout := False, m_signal := False\<rparr>"
  have i: "tables_inv b ?s" "m_tenders_timeline ?s \<noteq> []"
    using inv False by (simp_all add: router_inv_def)
  obtain r tline t where h: "heap_timeline ?s = Done (?s\<lparr>m_tenders_timeline := r # tline\<rparr>)"
    and m: "mset (r # tline) = mset (m_tenders_timeline ?s)" and t: "tender_at r ?s = Some t"
    and top: "\<And>r' t'. r' \<in> set (m_tenders_timeline ?s) \<Longrightarrow> tender_at r' ?s = Some t' \<Longrightarrow> \<not> less_than (clock ?s) t t'"
    by (rule heap_timeline_front [OF i]) (rule that; assumption)
  let ?s0 = "?s\<lparr>m_tenders_timeline := r # tline\<rparr>"
  have set: "set (m_tenders_timeline ?s0) = set (m_tenders_timeline s)"
    using mset_eq_setD [OF m] by simp
  have run: "get_expired_tender s k = (if is_expired (clock s) t then k (Some r) ?s0 else k None ?s0)"
    using False flag t by (auto simp: get_expired_tender_def h with_tender_known)
  have inv0: "router_inv b ?s0"
    using inv tables_inv_mset [OF i(1) m] by (simp add: router_inv_def)
  have max: "is_expired (clock s) t \<and> t_time t \<le> t_time t'"
    if "r' \<in> expired_in s" "tender_at r' s = Some t'" for r' t'
    using that top [of r' t'] less_than_expired [of "clock s" t t'] by (auto simp: expired_in_def)
  show thesis
  proof (cases "is_expired (clock s) t")
    case True
    then have "r \<in> expired_in s"
      using t set by (auto simp: expired_in_def)
    then show thesis
      using that(2) [of r ?s0 t] run True inv0 t set max by simp
  next
    case not_exp: False
    then have "expired_in s = {}"
      using max by (force simp: expired_in_def)
    then show thesis
      using that(1) [of ?s0] run not_exp inv0 set by simp
  qed
qed

lemma handle_expired_none:
  assumes inv: "router_inv b s" and flag: "m_router_timeout s \<or> m_expired_tender_exists s" and none: "expired_in s = {}"
  shows "\<exists>s'. handle_expired_tenders s = Done s' \<and> set (m_tenders_timeline s') = set (m_tenders_timeline s)
    \<and> (\<forall>r. tender_at r s' = tender_at r s) \<and> clock s' = clock s \<and> link_tx s' = link_tx s \<and> kernel_tx s' = kernel_tx s"
  unfolding handle_expired_tenders_def
  by (rule get_expired_tender_cases [OF inv flag, where k = "\<lambda>found s. case found of None \<Rightarrow> Done s
     | Some r \<Rightarrow>
         and_then (process_expired_tender r s) (\<lambda>s.
         let s = s\<lparr>m_expired_tender_exists := False\<rparr> in
         if m_tenders_timeline s \<noteq> []
         then and_then (heap_timeline s) (\<lambda>s. with_tender (hd (m_tenders_timeline s)) s (\<lambda>t.
                Done (s\<lparr>m_expired_tender_exists := is_expired (clock s) t\<rparr>)))
         else Done s)"]) (use none in auto)

lemma handle_expired_one:
  assumes inv: "router_inv b s" and flag: "m_router_timeout s \<or> m_expired_tender_exists s" and some: "expired_in s \<noteq> {}"
    and peers: "\<forall>r \<in> expired_in s. has_peer r s"
  shows "\<exists>r t s'. r \<in> expired_in s \<and> tender_at r s = Some t
    \<and> (\<forall>r' \<in> expired_in s. \<forall>t'. tender_at r' s = Some t' \<longrightarrow> t_time t \<le> t_time t')
    \<and> handle_expired_tenders s = Done s' \<and> set (m_tenders_timeline s') = set (m_tenders_timeline s) - {r}
    \<and> (\<forall>r'. tender_at r' s' = (if r' = r then None else tender_at r' s)) \<and> clock s' = clock s
    \<and> expired_in s' = expired_in s - {r} \<and> (m_expired_tender_exists s' \<longleftrightarrow> expired_in s' \<noteq> {})"
proof -
  let ?rest = "\<lambda>s. let s = s\<lparr>m_expired_tender_exists := False\<rparr> in
         if m_tenders_timeline s \<noteq> []
         then and_then (heap_timeline s) (\<lambda>s. with_tender (hd (m_tenders_timeline s)) s (\<lambda>t.
                Done (s\<lparr>m_expired_tender_exists := is_expired (clock s) t\<rparr>)))
         else Done s"
  obtain r t s0 where r: "r \<in> expired_in s" "tender_at r s = Some t"
      "\<And>r' t'. r' \<in> expired_in s \<Longrightarrow> tender_at r' s = Some t' \<Longrightarrow> t_time t \<le> t_time t'"
    and run: "handle_expired_tenders s = and_then (process_expired_tender r s0) ?rest" and i0: "router_inv b s0"
    and s0: "set (m_tenders_timeline s0) = set (m_tenders_timeline s)" "\<And>r. tender_at r s0 = tender_at r s" "clock s0 = clock s"
    unfolding handle_expired_tenders_def
    by (rule get_expired_tender_cases [OF inv flag, where k = "\<lambda>found s. case found of None \<Rightarrow> Done s
     | Some r \<Rightarrow> and_then (process_expired_tender r s) ?rest"]) (use some in auto)
  have r0: "r \<in> set (m_tenders_timeline s0)" "has_peer r s0"
    using r(1) s0 peers by (auto simp: expired_in_def has_peer_def)
  obtain s1 where s1: "process_expired_tender r s0 = Done s1" "same_but r s0 s1"
    using process_expired_tender_runs [OF router_inv_tables [OF i0] r0] by blast
  have i1: "router_inv b s1"
    using process_expired_tender_inv [OF i0, of r] s1 by simp
  note e = same_but_expired [OF router_inv_tables [OF i0] r0(1) s1(2)]
  have e0: "expired_in s0 = expired_in s"
    using s0 by (simp add: expired_in_def)
  let ?s = "s1\<lparr>m_expired_tender_exists := False\<rparr>"
  have "\<exists>s'. ?rest s1 = Done s' \<and> set (m_tenders_timeline s') = set (m_tenders_timeline s1)
     \<and> (\<forall>r. tender_at r s' = tender_at r s1) \<and> clock s' = clock s1
     \<and> (m_expired_tender_exists s' \<longleftrightarrow> expired_in s1 \<noteq> {})"
  proof (cases "m_tenders_timeline s1 = []")
    case True
    then show ?thesis by (simp add: expired_in_def)
  next
    case False
    then have i: "tables_inv b ?s" "m_tenders_timeline ?s \<noteq> []"
      using i1 by (simp_all add: router_inv_def)
    obtain r2 tline t2 where h: "heap_timeline ?s = Done (?s\<lparr>m_tenders_timeline := r2 # tline\<rparr>)"
      and m: "mset (r2 # tline) = mset (m_tenders_timeline ?s)" and t2: "tender_at r2 ?s = Some t2"
      and top: "\<And>r' t'. r' \<in> set (m_tenders_timeline ?s) \<Longrightarrow> tender_at r' ?s = Some t' \<Longrightarrow> \<not> less_than (clock ?s) t2 t'"
      by (rule heap_timeline_front [OF i]) (rule that; assumption)
    have set: "set (r2 # tline) = set (m_tenders_timeline s1)"
      using mset_eq_setD [OF m] by simp
    have "is_expired (clock s1) t2 \<longleftrightarrow> expired_in s1 \<noteq> {}"
    proof
      assume "is_expired (clock s1) t2"
      then have "r2 \<in> expired_in s1"
        using t2 set by (auto simp: expired_in_def)
      then show "expired_in s1 \<noteq> {}" by blast
    next
      assume "expired_in s1 \<noteq> {}"
      then obtain r' t' where "r' \<in> set (m_tenders_timeline s1)" "tender_at r' s1 = Some t'" "is_expired (clock s1) t'"
        by (auto simp: expired_in_def)
      with top [of r' t'] less_than_expired [of "clock s1" t2 t'] show "is_expired (clock s1) t2"
        by simp
    qed
    then show ?thesis
      using False h t2 set by (simp add: with_tender_known)
  qed
  then obtain s' where s': "?rest s1 = Done s'" "set (m_tenders_timeline s') = set (m_tenders_timeline s1)"
     "\<forall>r. tender_at r s' = tender_at r s1" "clock s' = clock s1" "m_expired_tender_exists s' \<longleftrightarrow> expired_in s1 \<noteq> {}"
    by blast
  have "expired_in s' = expired_in s1"
    using s' by (simp add: expired_in_def)
  then show ?thesis
    using r run s1 s' s0 e e0
    by (intro exI [of _ r] exI [of _ t] exI [of _ s']) (auto simp: same_but_def)
qed


text \<open>Iterations without input and without a tick of the clock.\<close>

primrec expire_n :: "nat \<Rightarrow> router \<Rightarrow> router outcome" where
  "expire_n 0 s = Done s"
| "expire_n (Suc n) s = and_then (handle_expired_tenders s) (expire_n n)"

lemma expire_n_idle:
  "\<not> m_router_timeout s \<Longrightarrow> \<not> m_expired_tender_exists s \<Longrightarrow> expire_n n s = Done s"
  by (induction n) (simp_all add: handle_expired_tenders_def get_expired_tender_def)

lemma expire_n_none:
  assumes "router_inv b s" and "expired_in s = {}"
  shows "\<exists>s'. expire_n n s = Done s' \<and> (\<forall>r. tender_at r s' = tender_at r s) \<and> expired_in s' = {}"
  using assms
proof (induction n arbitrary: s)
  case (Suc n)
  show ?case
  proof (cases "m_router_timeout s \<or> m_expired_tender_exists s")
    case True
    obtain s1 where s1: "handle_expired_tenders s = Done s1" "set (m_tenders_timeline s1) = set (m_tenders_timeline s)"
      "\<forall>r. tender_at r s1 = tender_at r s" "clock s1 = clock s"
      using handle_expired_none [OF Suc.prems(1) True Suc.prems(2)] by blast
    have "router_inv b s1"
      using handle_expired_tenders_inv [OF Suc.prems(1)] s1 by simp
    moreover have "expired_in s1 = {}"
      using Suc.prems(2) s1 by (simp add: expired_in_def)
    ultimately show ?thesis
      using Suc.IH [of s1] s1 by simp
  next
    case False
    then show ?thesis
      using expire_n_idle [of s "Suc n"] Suc.prems(2) by auto
  qed
qed simp

lemma expire_n_all:
  assumes "router_inv b s" and "m_router_timeout s \<or> m_expired_tender_exists s"
    and "\<forall>r \<in> expired_in s. has_peer r s" and "card (expired_in s) \<le> n"
  shows "\<exists>s'. expire_n n s = Done s' \<and> expired_in s' = {}
    \<and> (\<forall>r. tender_at r s' = (if r \<in> expired_in s then None else tender_at r s))"
  using assms
proof (induction n arbitrary: s)
  case 0
  moreover have "finite (expired_in s)"
    by (simp add: expired_in_def)
  ultimately show ?case by simp
next
  case (Suc n)
  have fin: "finite (expired_in s)"
    by (simp add: expired_in_def)
  show ?case
  proof (cases "expired_in s = {}")
    case True
    then show ?thesis
      using expire_n_none [OF Suc.prems(1) True, of "Suc n"] True by auto
  next
    case False
    note one = handle_expired_one [OF Suc.prems(1,2) False Suc.prems(3)]
    obtain r s1 where r: "r \<in> expired_in s" and s1: "handle_expired_tenders s = Done s1"
      and at: "\<forall>r'. tender_at r' s1 = (if r' = r then None else tender_at r' s)"
      and e: "expired_in s1 = expired_in s - {r}" and f: "m_expired_tender_exists s1 \<longleftrightarrow> expired_in s1 \<noteq> {}"
      by (rule exE [OF one], elim exE conjE) (rule that; assumption)
    have i1: "router_inv b s1"
      using handle_expired_tenders_inv [OF Suc.prems(1)] s1 by simp
    have "\<exists>s'. expire_n n s1 = Done s' \<and> expired_in s' = {}
      \<and> (\<forall>r. tender_at r s' = (if r \<in> expired_in s1 then None else tender_at r s1))"
    proof (cases "expired_in s1 = {}")
      case True
      then show ?thesis
        using expire_n_none [OF i1 True, of n] True by auto
    next
      case ne: False
      have "\<forall>r' \<in> expired_in s1. has_peer r' s1"
        using Suc.prems(3) by (auto simp: e at has_peer_def)
      moreover have "card (expired_in s1) \<le> n"
        using Suc.prems(4) r fin by (simp add: e)
      ultimately show ?thesis
        using Suc.IH [OF i1] f ne by blast
    qed
    then show ?thesis
      using s1 at e r by auto
  qed
qed

end
