(* ===== verification/Router_Props.thy ===== *)
theory Router_Props
  imports Router_Expiry
begin

text \<open>
  The properties of the router (\<^verbatim>\<open>metax/router.cpp\<close>), each with a witness where it has hypotheses. The
  first sections hold the lemmas on request ids and the concrete states and packages of the witnesses.
\<close>

section \<open>Request ids\<close>

definition next_counter :: "ID32 \<Rightarrow> ID32" where
  "next_counter c = ((c + 1) AND ROUTER_REQUEST_UPPER_BOUND) OR ROUTER_REQUEST_LOWER_BOUND"

lemma in_range_bits:
  assumes "ROUTER_REQUEST_LOWER_BOUND \<le> x" and "x \<le> ROUTER_REQUEST_UPPER_BOUND"
  shows "(x AND ROUTER_REQUEST_UPPER_BOUND) OR ROUTER_REQUEST_LOWER_BOUND = x"
proof -
  have n: "2 ^ 28 \<le> unat x" "unat x < 2 ^ 29"
    using assms by (simp_all add: word_le_nat_alt ROUTER_REQUEST_LOWER_BOUND_def ROUTER_REQUEST_UPPER_BOUND_def)
  have "x AND ROUTER_REQUEST_UPPER_BOUND = take_bit 29 x"
    by (simp add: ROUTER_REQUEST_UPPER_BOUND_def take_bit_eq_mask mask_eq_exp_minus_1)
  also have "\<dots> = x"
    using n(2) by (simp add: word_unat_eq_iff unsigned_take_bit_eq take_bit_nat_eq_self)
  finally have a: "x AND ROUTER_REQUEST_UPPER_BOUND = x" .
  have "unat x div 2 ^ 28 = 1"
    using n by (intro div_nat_eqI) simp_all
  then have "bit (unat x) 28"
    by (simp add: bit_iff_odd)
  then have b: "bit x 28"
    by (simp add: bit_unsigned_iff)
  have "set_bit 28 x = x"
    by (rule bit_word_eqI) (use b in \<open>auto simp: bit_set_bit_iff\<close>)
  then have "x OR push_bit 28 1 = x"
    by (simp only: set_bit_eq_or)
  then show ?thesis
    by (simp add: a ROUTER_REQUEST_LOWER_BOUND_def)
qed

lemma next_counter_step:
  assumes "ROUTER_REQUEST_LOWER_BOUND \<le> c" and "c \<le> ROUTER_REQUEST_UPPER_BOUND"
  shows "next_counter c = (if c = ROUTER_REQUEST_UPPER_BOUND then ROUTER_REQUEST_LOWER_BOUND else c + 1)"
proof (cases "c = ROUTER_REQUEST_UPPER_BOUND")
  case True
  then show ?thesis
    by (simp add: next_counter_def ROUTER_REQUEST_UPPER_BOUND_def ROUTER_REQUEST_LOWER_BOUND_def)
next
  case False
  have "c < ROUTER_REQUEST_UPPER_BOUND"
    using False assms(2) by simp
  then have "c + 1 \<le> ROUTER_REQUEST_UPPER_BOUND" "c \<le> c + 1"
    by (simp_all add: inc_le word_le_nat_alt word_less_nat_alt unat_word_ariths ROUTER_REQUEST_UPPER_BOUND_def)
  then show ?thesis
    using in_range_bits [of "c + 1"] False assms(1) by (simp add: next_counter_def)
qed

lemma next_counter_offset:
  assumes "ROUTER_REQUEST_LOWER_BOUND \<le> c" and "c \<le> ROUTER_REQUEST_UPPER_BOUND"
  shows "unat (next_counter c) = 2 ^ 28 + (unat c - 2 ^ 28 + 1) mod 2 ^ 28"
proof -
  have n: "2 ^ 28 \<le> unat c" "unat c < 2 ^ 29"
    using assms by (simp_all add: word_le_nat_alt ROUTER_REQUEST_LOWER_BOUND_def ROUTER_REQUEST_UPPER_BOUND_def)
  show ?thesis
  proof (cases "c = ROUTER_REQUEST_UPPER_BOUND")
    case True
    then show ?thesis
      unfolding next_counter_step [OF assms] by (simp add: ROUTER_REQUEST_UPPER_BOUND_def ROUTER_REQUEST_LOWER_BOUND_def)
  next
    case False
    then have "unat c \<noteq> 2 ^ 29 - 1"
      by (simp add: word_unat_eq_iff ROUTER_REQUEST_UPPER_BOUND_def)
    then show ?thesis
      unfolding next_counter_step [OF assms] using False n by (simp add: unat_word_ariths)
  qed
qed

text \<open>The ids of \<open>n\<close> calls in a row.\<close>

primrec draw_ids :: "nat \<Rightarrow> router \<Rightarrow> ID32 list" where
  "draw_ids 0 s = []"
| "draw_ids (Suc n) s = (let (i, s) = get_request_id s in i # draw_ids n s)"

lemma draw_ids_nth:
  assumes "ROUTER_REQUEST_LOWER_BOUND \<le> m_request_counter s" and "m_request_counter s \<le> ROUTER_REQUEST_UPPER_BOUND"
  shows "map unat (draw_ids n s) = map (\<lambda>i. 2 ^ 28 + (unat (m_request_counter s) - 2 ^ 28 + i) mod 2 ^ 28) [0..<n]"
  using assms
proof (induction n arbitrary: s)
  case (Suc n)
  let ?c = "m_request_counter s" and ?s = "s\<lparr>m_request_counter := next_counter (m_request_counter s)\<rparr>"
  have n: "2 ^ 28 \<le> unat ?c" "unat ?c < 2 ^ 29"
    using Suc.prems by (simp_all add: word_le_nat_alt ROUTER_REQUEST_LOWER_BOUND_def ROUTER_REQUEST_UPPER_BOUND_def)
  have r: "ROUTER_REQUEST_LOWER_BOUND \<le> next_counter ?c" "next_counter ?c \<le> ROUTER_REQUEST_UPPER_BOUND"
    by (simp_all add: next_counter_def bitmask_range)
  have "map unat (draw_ids (Suc n) s) = unat ?c # map unat (draw_ids n ?s)"
    by (simp add: get_request_id_def next_counter_def Let_def)
  also have "\<dots> = unat ?c # map (\<lambda>i. 2 ^ 28 + (unat (next_counter ?c) - 2 ^ 28 + i) mod 2 ^ 28) [0..<n]"
    using Suc.IH [of ?s] r by simp
  also have "\<dots> = unat ?c # map (\<lambda>i. 2 ^ 28 + (unat ?c - 2 ^ 28 + Suc i) mod 2 ^ 28) [0..<n]"
    unfolding next_counter_offset [OF Suc.prems] by (simp add: mod_simps)
  also have "\<dots> = map (\<lambda>i. 2 ^ 28 + (unat ?c - 2 ^ 28 + i) mod 2 ^ 28) [0..<Suc n]"
    using n by (simp only: map_upt_Suc) simp
  finally show ?case .
qed simp

lemma offset_inj:
  assumes "(a + i) mod m = (a + j) mod (m :: nat)" and "j < m" and "i \<le> j"
  shows "i = j"
proof -
  have "a + i \<le> a + j"
    using assms(3) by simp
  then have "m dvd (a + j) - (a + i)"
    using assms(1) by (metis mod_eq_dvd_iff_nat)
  then have "m dvd j - i"
    by simp
  then show ?thesis
    using assms(2,3) by (cases "j - i = 0") (auto dest: dvd_imp_le)
qed

lemma distinct_offsets:
  assumes "n \<le> (m :: nat)"
  shows "distinct (map (\<lambda>i. k + (a + i) mod m) [0..<n])"
proof -
  have inj: "inj_on (\<lambda>i. k + (a + i) mod m) (set [0..<n])"
  proof (rule inj_onI)
    fix i j
    assume i: "i \<in> set [0..<n]" and j: "j \<in> set [0..<n]" and e: "k + (a + i) mod m = k + (a + j) mod m"
    have l: "i < m" "j < m"
      using i j assms by simp_all
    have "(a + i) mod m = (a + j) mod m"
      using e by simp
    then show "i = j"
      using offset_inj [OF _ l(2), of a i] offset_inj [OF _ l(1), of a j] by (metis nle_le)
  qed
  show ?thesis
    unfolding distinct_map by (intro conjI distinct_upt inj)
qed

section \<open>Concrete states and packages\<close>

definition ex_init :: router where
  "ex_init = router_init 0 (\<lambda>n. of_nat (n + 1))"

definition ex_payload :: package where
  "ex_payload = default_package\<lparr>p_size := 3, p_message := Some [1, 2, 3, 0]\<rparr>"

definition ex_request :: "command \<Rightarrow> kernel_router_package" where
  "ex_request c = kernel_router_package0\<lparr>p_size := 3, p_message := Some [1, 2, 3, 0], kr_cmd := c,
     kr_uuid := 77, kr_request_id := 5\<rparr>"

definition ex_header :: "command \<Rightarrow> ID16 \<Rightarrow> router_data" where
  "ex_header c h = router_data0\<lparr>rd_tender_id := 9, rd_cmd := c, rd_uuid := 77, rd_hop_id := h\<rparr>"

definition ex_packet :: "router_data \<Rightarrow> router_link_package" where
  "ex_packet d = router_link_package0\<lparr>rl_cmd := cmd_received_data, rl_peers := [4], p_size := 77,
     p_message := Some (rd_header_bytes d @ be32 3 @ [1, 2, 3])\<rparr>"

text \<open>A router with one tender, filed under 9.\<close>

definition ex_tender :: "tender_type \<Rightarrow> tender_state \<Rightarrow> command \<Rightarrow> ID32 \<Rightarrow> tender" where
  "ex_tender ty st c rid = (tender0 0)\<lparr>rd_tender_id := 9, rd_cmd := c, rd_uuid := 77, rd_hop_id := 3, t_typ := ty,
     t_st := st, t_request_id := rid, t_prs := [4]\<rparr>"

definition ex_state :: "tender \<Rightarrow> router" where
  "ex_state t = (put_tender (Tenders, 9) t ex_init)\<lparr>m_tenders_timeline := [(Tenders, 9)],
     m_id_tenders := [t_request_id t \<mapsto> 9]\<rparr>"

lemma ex_init_inv: "router_inv b ex_init"
  by (simp add: ex_init_def router_init_inv)

lemma ex_init_reachable: "router_reachable ex_init"
  unfolding ex_init_def by (rule router_reachable.start)

lemma ex_state_inv:
  assumes "tender_ok (Tenders, 9) t"
  shows "router_inv b (ex_state t)"
proof -
  have n: "m_tenders_timeline ex_init = []" "tender_at (Tenders, 9) ex_init = None"
    by (simp_all add: ex_init_def) (simp add: router_init_def)
  show ?thesis
    using tables_inv_schedule [OF router_inv_tables [OF ex_init_inv] n(2) assms, of b] n ex_init_inv [of b]
    by (simp add: ex_state_def router_inv_def)
qed

lemma ex_tender_ok:
  "\<not> is_sync_cmd c \<Longrightarrow> ty \<noteq> Max_type \<Longrightarrow> st \<noteq> Announced \<Longrightarrow> tender_ok (Tenders, 9) (ex_tender ty st c rid)"
  by (simp add: tender_ok_def ex_tender_def tender0_def router_data.defs)

lemma ex_state_at [simp]: "tender_at (Tenders, 9) (ex_state t) = Some t"
  by (simp add: ex_state_def)

lemma ex_state_ids [simp]: "m_id_tenders (ex_state t) = [t_request_id t \<mapsto> 9]"
  by (simp add: ex_state_def)

lemma ex_tender_fields [simp]:
  "t_typ (ex_tender ty st c rid) = ty" "t_st (ex_tender ty st c rid) = st" "rd_cmd (ex_tender ty st c rid) = c"
  "t_request_id (ex_tender ty st c rid) = rid" "t_is_canceled (ex_tender ty st c rid) = False"
  "t_prs (ex_tender ty st c rid) = [4]" "rd_hop_id (ex_tender ty st c rid) = 3"
  by (simp_all add: ex_tender_def tender0_def router_data.defs)

lemma ex_header_fields [simp]:
  "rd_tender_id (ex_header c h) = 9" "rd_cmd (ex_header c h) = c" "rd_hop_id (ex_header c h) = h"
  "rd_winners_id (ex_header c h) = []"
  by (simp_all add: ex_header_def router_data0_def router_data.defs default_package_def package.defs)

lemma ex_delivers: "delivers (ex_packet (ex_header c h)) (ex_header c h) ex_payload"
  by (simp add: delivers_def carries_def ex_packet_def ex_payload_def payload_tail_def payload_of_def
      size_flags_def mem_read_def default_package_def small_package_def length_rd_header_bytes)

section \<open>The tables of the router\<close>

text \<open>C4: in every state the router can reach, whatever the other tasks and the peers send, the timeline names
  each tender at most once and only tenders that still exist (no dangling pointer), every tender is filed
  under its own id in the table its command belongs to, and the heap of the timeline is well defined.\<close>

theorem reachable_timeline:
  assumes "router_reachable s"
  shows "distinct (m_tenders_timeline s)
    \<and> (\<forall>r \<in> set (m_tenders_timeline s). tender_at r s \<noteq> None)
    \<and> (\<forall>r t. tender_at r s = Some t \<longrightarrow> rd_tender_id t = snd r \<and> t_typ t \<noteq> Max_type
          \<and> (fst r = Sync_tenders \<longleftrightarrow> is_sync_cmd (rd_cmd t)))
    \<and> (\<exists>s'. heap_timeline s = Done s')"
proof -
  have inv: "tables_inv False s"
    using router_reachable_inv [OF assms] by (rule router_inv_tables)
  obtain rts where "tenders_of (m_tenders_timeline s) s = Some rts"
    using tenders_of_total [of "m_tenders_timeline s" s] timeline_live [OF inv] by fastforce
  then have "\<exists>s'. heap_timeline s = Done s'"
    by (simp add: heap_timeline_def)
  then show ?thesis
    using inv timeline_live [OF inv] by (auto simp: tables_inv_def tender_ok_def)
qed

text \<open>C17: a handler of the kernel's, the storages' or the link's input that returns without an exception leaves no
  tender outside the timeline, so every tender it created or touched will expire.\<close>

theorem tenders_stay_scheduled:
  assumes "router_reachable s" and "\<forall>r. tender_at r s \<noteq> None \<longrightarrow> r \<in> set (m_tenders_timeline s)"
    and "process_link_input q s = Done s' \<or> process_kernel_input k s = Done s' \<or> process_storage_input p s = Done s'
      \<or> process_storage_writer_input p s = Done s' \<or> process_backup_input k s = Done s'"
  shows "\<forall>r. tender_at r s' \<noteq> None \<longrightarrow> r \<in> set (m_tenders_timeline s')"
proof -
  have i: "router_inv True s"
    using router_reachable_inv [OF assms(1)] assms(2) by (simp add: router_inv_def tables_inv_def)
  have "router_inv True s'"
    using assms(3) process_link_input_inv [OF i, of q] process_kernel_input_inv [OF i, of k] process_storage_input_inv [OF i, of p]
      process_storage_writer_input_inv [OF i, of p] process_backup_input_inv [OF i, of k] by auto
  then show ?thesis
    by (simp add: router_inv_def tables_inv_def)
qed

text \<open>The offer protocol is dead: in every reachable state no response is recorded and no tender has a winner,
  so an acceptance (\<open>save_data\<close>, \<open>auth_data\<close>) of the kernel for a save, update, delete or copy puts nothing on the link.\<close>

theorem offers_are_dead:
  assumes "router_reachable s"
  shows "m_responses s = Map.empty \<and> (\<forall>r t. tender_at r s = Some t \<longrightarrow> t_winners t = [])
    \<and> (\<forall>r t s'. find_tender_of_request (kr_request_id k) s = Some r \<longrightarrow> tender_at r s = Some t
         \<longrightarrow> is_first_command_of_multiwinner_tender (rd_cmd t)
         \<longrightarrow> handle_kernel_accept_for_multiwinner_tender k s = Done s' \<longrightarrow> link_tx s' = link_tx s)"
proof -
  have inv: "tables_inv False s"
    using router_reachable_inv [OF assms] by (rule router_inv_tables)
  have w: "t_winners t = []" if "tender_at r s = Some t" for r t
    using inv_tender_ok [OF inv that] by (simp add: tender_ok_def)
  have "link_tx s' = link_tx s" if "find_tender_of_request (kr_request_id k) s = Some r" "tender_at r s = Some t"
      "is_first_command_of_multiwinner_tender (rd_cmd t)"
      "handle_kernel_accept_for_multiwinner_tender k s = Done s'" for r t s'
    using that w [OF that(2)]
    by (auto simp: handle_kernel_accept_for_multiwinner_tender_def send_accept_to_winner_peers_def with_tender_known
      winners_by_peer_def and_then_set_round_trip_interval touch_tender_def upd_tender_def)
  with w tables_inv_responses [OF inv] show ?thesis
    by blast
qed

text \<open>Request ids stay in the router's range, and no id is drawn twice among any \<open>2^28\<close> in a row.\<close>

theorem request_ids_unique:
  assumes "router_reachable s" and "n \<le> 2 ^ 28"
  shows "distinct (draw_ids n s)
    \<and> (\<forall>i \<in> set (draw_ids n s). ROUTER_REQUEST_LOWER_BOUND \<le> i \<and> i \<le> ROUTER_REQUEST_UPPER_BOUND)"
proof -
  have c: "ROUTER_REQUEST_LOWER_BOUND \<le> m_request_counter s" "m_request_counter s \<le> ROUTER_REQUEST_UPPER_BOUND"
    using router_reachable_inv [OF assms(1)] by (simp_all add: router_inv_def tables_inv_def)
  have "distinct (map unat (draw_ids n s))"
    unfolding draw_ids_nth [OF c] using assms(2) by (intro distinct_offsets) simp
  moreover have "2 ^ 28 \<le> unat i \<and> unat i \<le> 2 ^ 29 - 1" if "i \<in> set (draw_ids n s)" for i
  proof -
    have "unat i \<in> set (map unat (draw_ids n s))"
      using that by simp
    then show ?thesis
      unfolding draw_ids_nth [OF c] by (auto simp flip: less_eq_Suc_le intro: order_trans [OF _ less_imp_le_nat] simp: less_Suc_eq_le [symmetric])
  qed
  ultimately show ?thesis
    by (auto simp: distinct_map word_le_nat_alt ROUTER_REQUEST_LOWER_BOUND_def ROUTER_REQUEST_UPPER_BOUND_def)
qed

section \<open>Requests and responses across the network\<close>

lemma announcing:
  assumes "kr_cmd inp \<in> {cmd_get, cmd_save_stream, cmd_find_peer, cmd_on_update_register, cmd_on_update_unregister,
      cmd_recording_start, cmd_recording_stop}" and "process_kernel_input inp s = Done s'"
  shows "\<exists>f. stamps f \<and> announce_request f inp s = Done s'"
proof (cases "kr_cmd inp = cmd_find_peer")
  case True
  then have "announce_request (\<lambda>t. t\<lparr>rd_data_version := kr_data_version inp\<rparr>) inp s = Done s'"
    using assms(2) by (simp add: process_kernel_input_def Let_def handle_kernel_find_peer_def)
  then show ?thesis
    by (intro exI conjI) (simp_all add: stamps_def)
next
  case False
  then have "announce_request (\<lambda>t. t) inp s = Done s'"
    using assms by (auto simp: process_kernel_input_def Let_def handle_kernel_get_def handle_kernel_save_stream_def
       handle_kernel_on_update_register_request_def handle_kernel_on_update_unregister_request_def
       handle_kernel_recording_start_def handle_kernel_recording_stop_def)
  then show ?thesis
    by (intro exI conjI) (simp_all add: stamps_def)
qed

text \<open>C5: a request the kernel announces is broadcast to all peers as one package; the router of a peer that does not
  know the tender hands its own kernel that command, uuid and payload, under a request id of its own,
  and files a scheduled remote tender with one hop less and the sender as its peer.\<close>

theorem request_reaches_peer_kernel:
  assumes "router_reachable s" and "router_reachable s'" and "process_kernel_input inp s = Done s1"
    and "kr_cmd inp \<in> {cmd_get, cmd_save_stream, cmd_find_peer, cmd_on_update_register, cmd_on_update_unregister,
      cmd_recording_start, cmd_recording_stop}"
    and "small_package inp" and "tid = uuid_source s (uuid_count s)" and "tid \<noteq> 0"
    and "tender_at (Tenders, tid) s' = None" and "rd_winners_id (m_router_data s') = []"
  shows "\<exists>out. sent s s1 out \<and> rl_cmd out = cmd_broadcast
    \<and> (\<forall>q :: router_link_package. rl_cmd q = cmd_received_data \<and> p_message q = p_message out \<and> p_size q = p_size out \<longrightarrow>
        (\<exists>s2 k t. process_link_input q s' = Done s2 \<and> told s' s2 k \<and> kr_cmd k = kr_cmd inp
          \<and> kr_uuid k = kr_uuid inp \<and> payload_of k = payload_of inp \<and> kr_request_id k = m_request_counter s'
          \<and> tender_at (Tenders, tid) s2 = Some t \<and> t_typ t = Remote \<and> rd_hop_id t = max_hops s - 1
          \<and> set (t_prs t) = set (rl_peers q) \<and> (Tenders, tid) \<in> set (m_tenders_timeline s2)))"
proof -
  note inv = router_reachable_inv [OF assms(1)] and inv' = router_reachable_inv [OF assms(2)]
  obtain f where f: "stamps f" "announce_request f inp s = Done s1"
    using announcing [OF assms(4,3)] by blast
  have c: "\<not> is_sync_cmd (kr_cmd inp)" "\<not> is_invalid_new_tender (kr_cmd inp)"
     "\<not> is_first_command_of_multiwinner_tender (kr_cmd inp)"
    using assms(4) by (auto simp: is_sync_cmd_def is_invalid_new_tender_def is_first_command_of_multiwinner_tender_def)
  obtain out d where out: "sent s s1 out" "rl_cmd out = cmd_broadcast" "carries out d inp"
    and d: "rd_tender_id d = tid" "rd_cmd d = kr_cmd inp" "rd_uuid d = kr_uuid inp"
      "rd_hop_id d = max_hops s - 1" "rd_winners_id d = []"
    using announce_request_sends [OF inv f(1) c(1) f(2)] assms(6) by auto
  show ?thesis
  proof (intro exI [of _ out] conjI allI impI out(1,2))
    fix q :: router_link_package
    assume q: "rl_cmd q = cmd_received_data \<and> p_message q = p_message out \<and> p_size q = p_size out"
    then have del: "delivers q d inp"
      using out(3) d(5) assms(5) by (simp add: delivers_def carries_def)
    have pre: "rd_tender_id d \<noteq> 0" "tender_at (Tenders, rd_tender_id d) s' = None"
      "\<not> is_invalid_new_tender (rd_cmd d)" "\<not> is_first_command_of_multiwinner_tender (rd_cmd d)"
      using d assms(7,8) c by simp_all
    show "\<exists>s2 k t. process_link_input q s' = Done s2 \<and> told s' s2 k \<and> kr_cmd k = kr_cmd inp
          \<and> kr_uuid k = kr_uuid inp \<and> payload_of k = payload_of inp \<and> kr_request_id k = m_request_counter s'
          \<and> tender_at (Tenders, tid) s2 = Some t \<and> t_typ t = Remote \<and> rd_hop_id t = max_hops s - 1
          \<and> set (t_prs t) = set (rl_peers q) \<and> (Tenders, tid) \<in> set (m_tenders_timeline s2)"
      using link_data_new [OF del pre(1,2) assms(9) inv' pre(3,4)] unfolding d by blast
  qed
qed

lemmas router_defs = default_package_def resize_def set_payload_chars_def set_payload_owned_def set_payload_string_def set_payload_def reset_package_def extract_payload_def package_of_string_def payload_of_def size_flags_def small_package_def payload_tail_def be_bytes_def un_be_def be16_def be32_def be64_def be128_def mem_read_def u16_at_def u32_at_def u64_at_def uuid_at_def router_link_package0_def kernel_router_package0_def kernel_storage_package0_def write_out_def str_bytes_def str_at_def router_data0_def rd_header_bytes_def rd_header_size_def rd_serialize_def rd_extract_header_def rd_reset_def update_hop_id_def ld_header_bytes_def ld_header_size_def ld_serialize_def ld_extract_header_def kt_header_bytes_def kt_header_size_def kt_serialize_def kt_extract_header_def rd_fresh_def rd_same_def rd_fits_def ld_same_def kt_same_def ld_fits_def kt_fits_def fifo_new_def set_external_control_def has_data_def data_count_def fifo_pop_def fifo_front_def slot_def set_slot_def commit_def fifo_push_def deactivate_def fifo_wake_def wait_for_data_def fifo_ok_def pending_def fifo_write_def fifo_read_def tender0_def read_router_data_def write_router_data_def is_expired_def less_than_def ROUTER_REQUEST_LOWER_BOUND_def ROUTER_REQUEST_UPPER_BOUND_def LINK_REQUEST_UPPER_BOUND_def UINT32_MAX_def KERNEL_RESPONSE_TIME_def SYNC_TENDER_RESPONSE_TIME_def router_cfg_package0_def router_init_def with_tender_def upd_tender_def touch_tender_def round_trip_interval_def set_round_trip_interval_def out_link_def commit_link_def out_kernel_def commit_kernel_def serialize_to_link_def extract_to_kernel_def extract_local_def get_request_id_def get_tender_id_def get_command_rating_def is_first_command_of_multiwinner_tender_def is_confirm_command_of_multiwinner_tender_def is_accept_command_of_multiwinner_tender_def is_offer_command_of_multiwinner_tender_def is_invalid_new_tender_def is_own_sync_tender_def is_sync_cmd_def cancel_request_def clean_up_tender_from_timeline_def clean_up_sync_tender_info_def clean_up_tender_info_def clean_up_tender_def post_link_kernel_tender_def new_internal_tender_def announce_request_def handle_kernel_get_def handle_kernel_save_stream_def handle_kernel_find_peer_def handle_kernel_save_request_def handle_kernel_on_update_register_request_def handle_kernel_on_update_unregister_request_def handle_kernel_recording_start_def handle_kernel_recording_stop_def send_tender_data_def find_tender_of_request_def find_sync_tender_of_request_def confirm_for_transfer_def handle_kernel_data_transfer_def handle_storage_data_transfer_def handle_kernel_offer_for_multiwinner_tender_def handle_kernel_offer_def winners_by_peer_def send_accept_to_winner_peers_def handle_kernel_accept_for_multiwinner_tender_def handle_kernel_confirm_for_multiwinner_tender_def post_sync_request_to_link_peer_def post_sync_finished_request_to_link_peer_def post_sync_started_request_to_link_peer_def handle_sync_data_transfer_def handle_kernel_get_uuid_request_def handle_kernel_sync_finished_def broadcast_tender_to_peers_def handle_refuse_def handle_kernel_clear_request_def process_kernel_input_def process_backup_input_def process_storage_input_def process_storage_writer_input_def process_cache_input_def post_new_tender_to_kernel_def forward_remote_tender_def process_new_tender_def handle_new_remote_tender_def handle_new_sync_tender_def process_existing_sync_tender_def reset_router_data_def handle_sync_tenders_def send_response_to_kernel_def bypass_tender_response_def process_remote_tender_def process_existing_tender_data_def process_existing_tender_def send_notification_to_kernel_def parse_router_data_def handle_link_data_def handle_link_nack_def process_link_input_def send_incoming_tender_data_to_kernel_def forward_data_to_winner_peer_def handle_peer_accept_for_multiwinner_tender_def responses_of_def select_all_responses_as_winners_def decide_tender_winners_for_save_request_def decide_tender_winners_def offer_command_def send_multiwinner_tender_offer_to_kernel_def send_multiwinner_tender_offer_to_announcer_peer_def handle_multiwinner_tender_responses_def heap_timeline_def get_expired_tender_def handle_expired_sync_tender_def process_expired_tender_def handle_expired_tenders_def onTimer_def configure_router_def process_config_input_def end_of_connections_def process_wallet_input_def consumed_def handle_config_input_def handle_kernel_input_def handle_storage_input_def handle_storage_writer_input_def handle_cache_input_def handle_backup_input_def handle_wallet_input_def handle_link_input_def router_iteration_def 
  package.defs router_data.defs router_cfg_package.defs kernel_router_package.defs router_link_package.defs
  tender_at.simps put_tender.simps
  ex_init_def ex_payload_def ex_request_def ex_header_def ex_packet_def ex_tender_def ex_state_def

theorem reachable_timeline_witness:
  "\<exists>s. router_reachable s \<and> m_tenders_timeline s \<noteq> [] \<and> distinct (m_tenders_timeline s)
     \<and> (\<exists>s'. heap_timeline s = Done s')"
proof -
  obtain s where s: "router_run [From_config (router_cfg_package0\<lparr>rc_cmd := cmd_router_config, rc_max_hops := 3,
      rc_peer_response_wait_time := 30\<rparr>), From_kernel (ex_request cmd_get)] ex_init = Done s"
    "m_tenders_timeline s = [(Tenders, 1)]"
    by (simp add: router_defs)
  note r = router_run_reachable [OF ex_init_reachable s(1)]
  show ?thesis
    using reachable_timeline [OF r] r s(2) by auto
qed

theorem tenders_stay_scheduled_witness:
  "\<exists>s'. process_kernel_input (ex_request cmd_get) ex_init = Done s'
    \<and> tender_at (Tenders, 1) s' \<noteq> None \<and> (Tenders, 1) \<in> set (m_tenders_timeline s')"
proof -
  obtain s' where s': "process_kernel_input (ex_request cmd_get) ex_init = Done s'" and at: "tender_at (Tenders, 1) s' \<noteq> None"
    by (simp add: router_defs)
  have "\<forall>r. tender_at r ex_init \<noteq> None \<longrightarrow> r \<in> set (m_tenders_timeline ex_init)"
    by (simp add: ex_init_def)
  from tenders_stay_scheduled [OF ex_init_reachable this, of _ s' "ex_request cmd_get"] s' at show ?thesis
    by blast
qed

theorem offers_are_dead_witness:
  "m_responses ex_init = Map.empty"
  using offers_are_dead [OF ex_init_reachable] by blast

theorem request_ids_unique_witness:
  "distinct (draw_ids 3 ex_init)"
  using request_ids_unique [OF ex_init_reachable, of 3] by simp

theorem request_reaches_peer_kernel_witness:
  "\<exists>s1 out. process_kernel_input (ex_request cmd_get) ex_init = Done s1 \<and> sent ex_init s1 out
    \<and> (\<exists>s2 k. process_link_input (router_link_package0\<lparr>rl_cmd := cmd_received_data, p_message := p_message out,
          p_size := p_size out\<rparr>) ex_init = Done s2 \<and> told ex_init s2 k \<and> kr_cmd k = cmd_get \<and> kr_uuid k = 77
         \<and> payload_of k = Some [1, 2, 3])"
proof -
  obtain s1 where s1: "process_kernel_input (ex_request cmd_get) ex_init = Done s1"
    by (simp add: router_defs)
  have c: "kr_cmd (ex_request cmd_get) \<in> {cmd_get, cmd_save_stream, cmd_find_peer, cmd_on_update_register,
      cmd_on_update_unregister, cmd_recording_start, cmd_recording_stop}" "kr_cmd (ex_request cmd_get) = cmd_get"
      "kr_uuid (ex_request cmd_get) = 77" "payload_of (ex_request cmd_get) = Some [1, 2, 3]"
      "small_package (ex_request cmd_get)"
    by (simp_all add: ex_request_def kernel_router_package0_def default_package_def package.defs kernel_router_package.defs
       small_package_def payload_of_def mem_read_def)
  have i: "(1 :: uuid) = uuid_source ex_init (uuid_count ex_init)" "tender_at (Tenders, 1) ex_init = None"
     "rd_winners_id (m_router_data ex_init) = []"
    by (simp_all add: router_defs)
  obtain out where out: "sent ex_init s1 out" and "\<forall>q :: router_link_package. rl_cmd q = cmd_received_data \<and> p_message q = p_message out
       \<and> p_size q = p_size out \<longrightarrow>
        (\<exists>s2 k t. process_link_input q ex_init = Done s2 \<and> told ex_init s2 k \<and> kr_cmd k = kr_cmd (ex_request cmd_get)
          \<and> kr_uuid k = kr_uuid (ex_request cmd_get) \<and> payload_of k = payload_of (ex_request cmd_get) 
          \<and> kr_request_id k = m_request_counter ex_init
          \<and> tender_at (Tenders, 1) s2 = Some t \<and> t_typ t = Remote \<and> rd_hop_id t = max_hops ex_init - 1
          \<and> set (t_prs t) = set (rl_peers q) \<and> (Tenders, 1) \<in> set (m_tenders_timeline s2))"
    using request_reaches_peer_kernel [OF ex_init_reachable ex_init_reachable s1 c(1) c(5) i(1) _ i(2,3)] by auto
  from this(2) [rule_format, of "router_link_package0\<lparr>rl_cmd := cmd_received_data, p_message := p_message out,
          p_size := p_size out\<rparr>"] s1 out show ?thesis
    unfolding c by auto
qed

text \<open>C24: a response to a request of its own kernel is handed to the kernel once: with the response's command, uuid,
  version and payload, under the id the kernel gave the request. A second \<open>get_data\<close> for it is dropped.\<close>

theorem response_reaches_kernel:
  assumes "router_reachable s" and "delivers q d p" and "rd_tender_id d \<noteq> 0"
    and "tender_at (Tenders, rd_tender_id d) s = Some t" and "t_typ t = Internal" and "\<not> t_is_canceled t"
    and "is_response (rd_cmd d)" and "t_request_id t \<noteq> UINT32_MAX" and "m_id_tenders s (t_request_id t) \<noteq> None"
  shows "if rd_cmd d = cmd_get_data \<and> t_st t = Confirmed
    then \<exists>s'. process_link_input q s = Done s' \<and> kernel_tx s' = kernel_tx s \<and> link_tx s' = link_tx s
      \<and> (\<forall>r. tender_at r s' = tender_at r s)
    else \<exists>s' k t'. process_link_input q s = Done s' \<and> told s s' k \<and> kr_cmd k = rd_cmd d \<and> kr_uuid k = rd_uuid d
      \<and> kr_request_id k = t_request_id t \<and> kr_data_version k = rd_data_version d \<and> payload_of k = payload_of p
      \<and> p_size k = p_size p \<and> link_tx s' = link_tx s
      \<and> tender_at (Tenders, rd_tender_id d) s' = Some t' \<and> t_st t' = Confirmed"
proof (cases "rd_cmd d = cmd_get_data \<and> t_st t = Confirmed")
  case True
  then show ?thesis
    using second_data_dropped [OF assms(2-4) _ assms(6,5)] by simp
next
  case False
  show ?thesis
    unfolding if_not_P [OF False]
    by (rule response_to_kernel [OF assms(2-4,7,6,5,8,9) False router_reachable_inv [OF assms(1)]])
qed

text \<open>C25: a response to a request of a peer that this router passed on is sent to exactly the peers the request came
  from, byte for byte except for the hop count, which is one less, and is not shown to the kernel.\<close>

theorem response_is_passed_on:
  assumes "router_inv b s" and "delivers q d p" and "rd_tender_id d \<noteq> 0"
    and "tender_at (Tenders, rd_tender_id d) s = Some t" and "t_typ t = Remote" and "\<not> t_is_canceled t"
    and "is_response (rd_cmd d)" and "rd_cmd d \<noteq> cmd_send_uuids" and "t_st t \<noteq> Confirmed"
    and "t_request_id t = UINT32_MAX \<or> is_first_command_of_multiwinner_tender (rd_cmd t)"
  shows "\<exists>s' out. process_link_input q s = Done s' \<and> sent s s' out \<and> rl_cmd out = cmd_send
     \<and> set (rl_peers out) = set (t_prs t) \<and> carries out (d\<lparr>rd_hop_id := rd_hop_id d - 1\<rparr>) p
     \<and> kernel_tx s' = kernel_tx s"
  using response_bypassed [OF assms(2-4,7,6,5,8,9,10,1)] by blast

text \<open>A packet that starts a tender the router already has (a copy that arrives over a second path) changes
  nothing: no tender, no channel, no id; only the parse buffer is reset.\<close>

theorem duplicate_requests_ignored:
  assumes "delivers q d p" and "rd_tender_id d \<noteq> 0" and "tender_at (Tenders, rd_tender_id d) s \<noteq> None"
    and "rd_cmd d \<in> {cmd_get, cmd_save, cmd_update, cmd_del, cmd_copy, cmd_on_update_register, cmd_find_peer}"
  shows "\<exists>e. process_link_input q s = Done (s\<lparr>m_router_data := e\<rparr>)"
  using assms duplicate_dropped [OF assms(1,2)] by (fastforce simp: starts_tender_def)

text \<open>C26: the first command of a save, update, delete, copy or notification both reaches the kernel and is forwarded:
  to all peers but the one it came from, with the same payload and one hop less. With one hop left it is
  not forwarded.\<close>

theorem multiwinner_request_is_flooded:
  assumes "router_reachable s" and "delivers q d p" and "rd_tender_id d \<noteq> 0"
    and "tender_at (Tenders, rd_tender_id d) s = None" and "rd_winners_id (m_router_data s) = []"
    and "is_first_command_of_multiwinner_tender (rd_cmd d)" and "rl_peers q = [peer]"
  shows "\<exists>s' k. process_link_input q s = Done s' \<and> told s s' k \<and> kr_cmd k = rd_cmd d \<and> kr_uuid k = rd_uuid d \<and> payload_of k = payload_of p
    \<and> (if rd_hop_id d = 1 then link_tx s' = link_tx s
       else \<exists>out h. sent s s' out \<and> rl_cmd out = cmd_broadcast_except \<and> set (rl_peers out) = set (rl_peers q)
         \<and> carries out h p \<and> rd_tender_id h = rd_tender_id d \<and> rd_cmd h = rd_cmd d \<and> rd_uuid h = rd_uuid d
         \<and> rd_hop_id h = rd_hop_id d - 1)"
  using link_data_new_multi [OF assms(2-5) router_reachable_inv [OF assms(1)] assms(6,7)] .

lemma find_tender_Some:
  "find_tender_of_request rid s = Some r \<Longrightarrow> fst r = Tenders \<and> (\<exists>t. tender_at r s = Some t)"
  by (auto simp: find_tender_of_request_def tables_tender_at split: bind_splits)

lemma clean_up_tender_Done:
  assumes "clean_up_tender r s = Done s'" and "tables_inv b s" and "fst r = Tenders"
  shows "r \<in> set (m_tenders_timeline s)" and "link_tx s' = link_tx s"
proof -
  obtain t where t: "tender_at r s = Some t"
    using assms(1) by (cases "tender_at r s") (auto simp: clean_up_tender_def with_tender_def)
  then have "\<not> is_sync_cmd (rd_cmd t)"
    using inv_tender_ok [OF assms(2) t] assms(3) by (simp add: tender_ok_def)
  with t assms(1) show "r \<in> set (m_tenders_timeline s)" "link_tx s' = link_tx s"
    by (auto simp: clean_up_tender_def clean_up_tender_info_def clean_up_tender_from_timeline_def with_tender_known
      and_then_Done_iff assert_that_Done_iff Let_def cancel_request_def split: if_splits)
qed

text \<open>When the kernel or a storage refuses a remote tender, the router passes it on to all peers but the one it came
  from, with the payload of the refusal and one hop less, and gives up its request id; a tender with one hop left is
  removed and nothing is sent.\<close>

theorem refused_tender_is_passed_on:
  assumes "router_inv b s" and "find_tender_of_request rid s = Some r" and "tender_at r s = Some t"
    and "handle_refuse rid p s = Done s'"
  shows "if rd_hop_id t = 1
    then tender_at r s' = None \<and> r \<notin> set (m_tenders_timeline s') \<and> link_tx s' = link_tx s
    else \<exists>out d. sent s s' out \<and> rl_cmd out = cmd_broadcast_except \<and> rl_peers out = t_prs t \<and> length (t_prs t) = 1
      \<and> carries out d p \<and> rd_tender_id d = rd_tender_id t \<and> rd_cmd d = rd_cmd t \<and> rd_uuid d = rd_uuid t
      \<and> rd_hop_id d = rd_hop_id t - 1 \<and> m_id_tenders s' rid = None
      \<and> (\<exists>t'. tender_at r s' = Some t' \<and> t_request_id t' = UINT32_MAX)"
proof (cases "rd_hop_id t = 1")
  case True
  note inv = router_inv_tables [OF assms(1)]
  have run: "clean_up_tender r s = Done s'" and tb: "fst r = Tenders"
    using assms True find_tender_Some [OF assms(2)] by (simp_all add: handle_refuse_def with_tender_known)
  note c = clean_up_tender_Done [OF run inv tb]
  obtain s2 where s2: "clean_up_tender r s = Done s2" "same_but r s s2"
    using clean_up_tender_runs [OF inv c(1) tb] by blast
  then have sb: "same_but r s s'"
    using run by simp
  show ?thesis
    using True c same_but_expired(2) [OF inv c(1) sb] sb by (simp add: same_but_def)
next
  case False
  obtain s1 where s1: "broadcast_tender_to_peers r p s = Done s1"
    and s': "s' = s1\<lparr>m_id_tenders := (m_id_tenders s1)(rid := None)\<rparr>"
    using assms False by (auto simp: handle_refuse_def with_tender_known and_then_Done_iff)
  show ?thesis
    using broadcast_tender_to_peers_sends [OF assms(1) assms(3) s1] False
    by (fastforce simp: s' sent_def)
qed

text \<open>After the kernel has cancelled a request no response to it reaches the kernel and none is passed on.\<close>

theorem cancelled_request_is_silent:
  assumes "router_inv b s" and "handle_kernel_clear_request k s = Done s1"
    and "m_id_tenders s (kr_request_id k) = Some (rd_tender_id d)" and "delivers q d p" and "rd_tender_id d \<noteq> 0"
    and "is_response (rd_cmd d)"
  shows "\<exists>s2. process_link_input q s1 = Done s2 \<and> kernel_tx s2 = kernel_tx s \<and> link_tx s2 = link_tx s"
proof -
  let ?r = "(Tenders, rd_tender_id d)"
  obtain t where t: "tender_at ?r s = Some t"
    using assms(2,3) by (auto simp: handle_kernel_clear_request_def Let_def and_then_Done_iff assert_that_Done_iff
       tables_tender_at)
  have ok: "tender_ok ?r t"
    using inv_tender_ok [OF router_inv_tables [OF assms(1)] t] .
  obtain t' where t': "tender_at ?r s1 = Some t'" "t_is_canceled t'" "t_typ t' = t_typ t"
    and ch: "kernel_tx s1 = kernel_tx s" "link_tx s1 = link_tx s"
    using assms(2,3) t by (auto simp: handle_kernel_clear_request_def Let_def and_then_upd_tender
       and_then_set_round_trip_interval touch_tender_def upd_tender_def tables_tender_at with_tender_known)
  show ?thesis
    using canceled_ignored [OF assms(4,5) t'(1) assms(6) t'(2)] ok t' ch by (simp add: tender_ok_def)
qed

section \<open>Expiry\<close>

text \<open>One iteration removes the oldest of the expired tenders, and no other, and remembers whether one is left;
  it removes nothing when none is expired.\<close>

theorem oldest_expired_tender_goes_first:
  assumes "router_inv b s" and "m_router_timeout s \<or> m_expired_tender_exists s"
    and "\<forall>r \<in> expired_in s. has_peer r s"
  shows "if expired_in s = {}
    then \<exists>s'. handle_expired_tenders s = Done s' \<and> (\<forall>r. tender_at r s' = tender_at r s)
      \<and> set (m_tenders_timeline s') = set (m_tenders_timeline s) \<and> link_tx s' = link_tx s \<and> kernel_tx s' = kernel_tx s
    else \<exists>r t s'. r \<in> expired_in s \<and> tender_at r s = Some t
      \<and> (\<forall>r' \<in> expired_in s. \<forall>t'. tender_at r' s = Some t' \<longrightarrow> t_time t \<le> t_time t')
      \<and> handle_expired_tenders s = Done s' \<and> (\<forall>r'. tender_at r' s' = (if r' = r then None else tender_at r' s))
      \<and> expired_in s' = expired_in s - {r} \<and> (m_expired_tender_exists s' \<longleftrightarrow> expired_in s' \<noteq> {})"
proof (cases "expired_in s = {}")
  case True
  then show ?thesis
    using handle_expired_none [OF assms(1) assms(2) True] by auto
next
  case False
  note one = handle_expired_one [OF assms(1) assms(2) False assms(3)]
  show ?thesis
    unfolding if_not_P [OF False] by (rule exE [OF one]) (elim exE conjE, intro exI conjI; assumption)
qed

text \<open>
  C20: after the timer has fired, as many iterations as there are expired tenders remove all of them and no other,
  without an abort, when every expired tender of a synchronisation still has a peer (\<open>has_peer\<close>), which its expiry
  asserts.
\<close>

theorem expired_tenders_are_all_removed:
  assumes "router_inv b s" and "m_router_timeout s" and "\<forall>r \<in> expired_in s. has_peer r s"
    and "card (expired_in s) \<le> n"
  shows "\<exists>s'. expire_n n s = Done s' \<and> expired_in s' = {}
    \<and> (\<forall>r. tender_at r s' = (if r \<in> expired_in s then None else tender_at r s))"
  using expire_n_all [OF assms(1) _ assms(3,4)] assms(2) by blast

section \<open>Packets that break the router\<close>

lemma parse_header:
  assumes "p_message q = Some (rd_header_bytes d @ rest)" and "length (rd_winners_id d) < 2 ^ 24"
  shows "parse_router_data q s = Done (s\<lparr>m_router_data := parsed d (m_router_data s)\<rparr>)"
proof -
  have "length (rd_header_bytes d) < 2 ^ 32"
    using assms(2) by (simp add: length_rd_header_bytes)
  then show ?thesis
    using assms(1) by (simp add: parse_router_data_def rd_extract_header_encoded parsed_def)
qed

text \<open>A request whose packet ends before the payload's size word makes the router throw after it has filed the
  tender and before it schedules it: the tender never expires, and a later \<open>nack\<close> for its id aborts the process.\<close>

theorem truncated_request_then_nack_aborts:
  fixes d d' :: router_data
  assumes "router_reachable s" and "rl_cmd q = cmd_received_data" and "p_message q = Some (rd_header_bytes d @ rest)"
    and "rd_winners_id d = []" and "unat (p_size q) < 74" and "rd_winners_id (m_router_data s) = []"
    and "rd_tender_id d \<noteq> 0" and "tender_at (Tenders, rd_tender_id d) s = None"
    and "\<not> is_invalid_new_tender (rd_cmd d)"
    and "rl_cmd n = cmd_nack" and "p_message n = Some (rd_header_bytes d' @ rest')" and "rd_winners_id d' = []"
    and "rd_tender_id d' = rd_tender_id d"
  shows "\<exists>s'. process_link_input q s = Thrown s' \<and> tender_at (Tenders, rd_tender_id d) s' \<noteq> None
    \<and> (Tenders, rd_tender_id d) \<notin> set (m_tenders_timeline s') \<and> process_link_input n s' = Aborted"
proof -
  let ?r = "(Tenders, rd_tender_id d)" and ?s = "s\<lparr>m_router_data := parsed d (m_router_data s)\<rparr>"
  note inv = router_inv_tables [OF router_reachable_inv [OF assms(1)]]
  have own: "\<not> is_own_sync_tender (rd_cmd d)" "rd_cmd d \<noteq> cmd_max_command" "\<not> is_sync_cmd (rd_cmd d)"
    using assms(9) by (auto simp: is_invalid_new_tender_def is_own_sync_tender_def is_sync_cmd_def)
  have notl: "?r \<notin> set (m_tenders_timeline s)"
    using inv assms(8) by (auto simp: tables_inv_def)
  have hs: "unat (rd_header_size (parsed d (m_router_data s))) = 70"
    using assms(4,6) by (subst unat_rd_header_size) (simp_all add: rd_fits_def length_rd_header_bytes)
  have thr: "\<exists>out. extract_payload q 70 y = Thrown out" for y :: kernel_router_package
    using assms(5) by (simp add: extract_payload_def Let_def)
  obtain s' t where s': "process_new_tender q ?r (put_tender ?r (tender0 (clock s)) ?s) = Thrown s'"
    and at: "tender_at ?r s' = Some t" "rd_cmd t = rd_cmd d" "m_tenders_timeline s' = m_tenders_timeline s"
    using thr [of "slot (kernel_tx s)\<lparr>
      kr_request_id := m_request_counter s, kr_cmd := rd_cmd d, kr_uuid := rd_uuid d,
      kr_data_version := rd_data_version d, kr_last_updated := rd_last_updated (parsed d (m_router_data s)),
      kr_expire_date := rd_expire_date (parsed d (m_router_data s))\<rparr>"]
    by (auto simp: process_new_tender_def and_then_upd_tender with_tender_known get_request_id_def Let_def
       post_new_tender_to_kernel_def extract_to_kernel_def hs and_then_assoc
       read_router_data_def router_data.defs tender0_def)
  have run: "process_link_input q s = Thrown s'"
    using assms(2,4,7-9) own s'
    by (simp add: process_link_input_def handle_link_data_def parse_header [OF assms(3)] Let_def
        handle_new_remote_tender_def tables_tender_at)
  have "process_link_input n s' = Aborted"
    using assms(7,10,12,13) at own notl
    by (simp add: process_link_input_def handle_link_nack_def parse_header [OF assms(11)] tables_tender_at
      clean_up_tender_def clean_up_tender_info_def clean_up_tender_from_timeline_def with_tender_known)
  then show ?thesis
    using run at notl by auto
qed

text \<open>A packet whose command is the out-of-range value \<open>max_command\<close> aborts the process.\<close>

theorem max_command_aborts:
  assumes "delivers q d p" and "rd_tender_id d \<noteq> 0" and "rd_cmd d = cmd_max_command"
  shows "process_link_input q s = Aborted"
  using assms
  by (simp add: process_link_input_def handle_link_data_def delivers_def parse_delivered [OF assms(1)] Let_def
      is_own_sync_tender_def)

text \<open>The handler of a \<open>nack\<close> leaves the winners it parsed in the parse buffer, so the router then looks for the
  payload of the next packet four bytes too far for each of them.\<close>

theorem nack_shifts_next_payload:
  fixes d d2 :: router_data
  assumes "rl_cmd n = cmd_nack" and "p_message n = Some (rd_header_bytes d @ rest)" and "length (rd_winners_id d) < 2 ^ 24"
    and "rd_tender_id d \<noteq> 0" and "m_tenders s (rd_tender_id d) = None" and "rd_winners_id (m_router_data s) = []"
    and "process_link_input n s = Done s'"
    and "p_message q = Some (rd_header_bytes d2 @ rest2)" and "length (rd_winners_id d2) < 2 ^ 24"
  shows "\<exists>s2. parse_router_data q s' = Done s2 \<and>
    unat (rd_header_size (m_router_data s2)) = length (rd_header_bytes d2) + 4 * length (rd_winners_id d)"
proof -
  have s': "m_router_data s' = parsed d (m_router_data s)"
    using assms(1,4,5,7) by (auto simp: process_link_input_def handle_link_nack_def parse_header [OF assms(2,3)])
  let ?e = "parsed d2 (m_router_data s')"
  have "unat (rd_header_size ?e) = length (rd_header_bytes ?e)"
    using assms(3,6,9) by (intro unat_rd_header_size) (simp add: rd_fits_def length_rd_header_bytes s')
  then show ?thesis
    using assms(6) by (simp add: parse_header [OF assms(8,9)] length_rd_header_bytes s')
qed

section \<open>Witnesses\<close>

lemmas ex_simps = ex_init_def ex_payload_def ex_request_def default_package_def package.defs

lemma ex_payload_of: "payload_of ex_payload = Some [1, 2, 3]" "small_package ex_payload"
  by (simp_all add: ex_payload_def payload_of_def mem_read_def default_package_def small_package_def)

lemma is_response_ex: "is_response cmd_get_data" "is_response cmd_save_confirm"
  by (simp_all add: is_response_def starts_tender_def is_own_sync_tender_def)

text \<open>The command of a response to a request the router made itself: the state is that after a configuration and a get
  request, the tender's id is the first UUID of the generator.\<close>

definition ex_answer :: router_data where
  "ex_answer = (ex_header cmd_get_data 2)\<lparr>rd_tender_id := 1\<rparr>"

lemma ex_answer_fields [simp]:
  "rd_tender_id ex_answer = 1" "rd_cmd ex_answer = cmd_get_data" "rd_winners_id ex_answer = []"
  by (simp_all add: ex_answer_def)

lemma ex_answer_delivers: "delivers (ex_packet ex_answer) ex_answer ex_payload"
  by (simp add: delivers_def carries_def ex_packet_def ex_payload_def payload_tail_def payload_of_def
      size_flags_def mem_read_def default_package_def small_package_def length_rd_header_bytes)

theorem response_reaches_kernel_witness:
  "\<exists>s s' k. router_reachable s \<and> process_link_input (ex_packet ex_answer) s = Done s' \<and> told s s' k
     \<and> kr_cmd k = cmd_get_data \<and> kr_request_id k = 5 \<and> payload_of k = Some [1, 2, 3]"
proof -
  have "\<exists>s. router_run [From_config (router_cfg_package0\<lparr>rc_cmd := cmd_router_config, rc_max_hops := 3,
      rc_peer_response_wait_time := 30\<rparr>), From_kernel (ex_request cmd_get)] ex_init = Done s
    \<and> m_id_tenders s 5 = Some 1 \<and> (\<exists>t. tender_at (Tenders, 1) s = Some t \<and> t_typ t = Internal
      \<and> t_st t = Announced \<and> \<not> t_is_canceled t \<and> t_request_id t = 5)"
    by (simp add: router_defs map_insert_def)
  then obtain s t where s: "router_run [From_config (router_cfg_package0\<lparr>rc_cmd := cmd_router_config, rc_max_hops := 3,
      rc_peer_response_wait_time := 30\<rparr>), From_kernel (ex_request cmd_get)] ex_init = Done s"
    and t: "tender_at (Tenders, 1) s = Some t" "t_typ t = Internal" "t_st t = Announced" "\<not> t_is_canceled t"
      "t_request_id t = 5" "m_id_tenders s 5 = Some 1"
    by blast
  note r = router_run_reachable [OF ex_init_reachable s]
  have "t_request_id t \<noteq> UINT32_MAX" "m_id_tenders s (t_request_id t) \<noteq> None"
      "tender_at (Tenders, rd_tender_id ex_answer) s = Some t" "is_response (rd_cmd ex_answer)"
      "rd_tender_id ex_answer \<noteq> 0"
    using t is_response_ex by (simp_all add: UINT32_MAX_def)
  from response_reaches_kernel [OF r ex_answer_delivers this(5,3) t(2,4) this(4,1,2)] t r ex_payload_of
  show ?thesis by auto
qed

theorem response_is_passed_on_witness:
  "\<exists>s' out. process_link_input (ex_packet (ex_header cmd_save_confirm 2))
       (ex_state (ex_tender Remote Received cmd_save UINT32_MAX)) = Done s'
     \<and> sent (ex_state (ex_tender Remote Received cmd_save UINT32_MAX)) s' out
     \<and> rl_cmd out = cmd_send \<and> set (rl_peers out) = {4} \<and> carries out (ex_header cmd_save_confirm 1) ex_payload"
proof -
  let ?t = "ex_tender Remote Received cmd_save UINT32_MAX"
  have inv: "router_inv True (ex_state ?t)"
    by (intro ex_state_inv ex_tender_ok) (simp_all add: is_sync_cmd_def)
  have h: "(ex_header cmd_save_confirm 2)\<lparr>rd_hop_id := 1\<rparr> = ex_header cmd_save_confirm 1"
    by (simp add: ex_header_def)
  show ?thesis
    using response_is_passed_on [OF inv ex_delivers, of cmd_save_confirm 2 ?t] is_response_ex by (simp add: h) blast
qed

theorem duplicate_requests_ignored_witness:
  "\<exists>e. process_link_input (ex_packet (ex_header cmd_get 2)) (ex_state (ex_tender Remote Received cmd_get 5))
     = Done ((ex_state (ex_tender Remote Received cmd_get 5))\<lparr>m_router_data := e\<rparr>)"
  by (rule duplicate_requests_ignored [OF ex_delivers]) simp_all

theorem multiwinner_request_is_flooded_witness:
  "\<exists>s' k out h. process_link_input (ex_packet (ex_header cmd_save 2)) ex_init = Done s'
    \<and> told ex_init s' k \<and> kr_cmd k = cmd_save \<and> payload_of k = Some [1, 2, 3]
    \<and> sent ex_init s' out \<and> set (rl_peers out) = {4} \<and> carries out h ex_payload \<and> rd_hop_id h = 1"
proof -
  have p: "rl_peers (ex_packet (ex_header cmd_save 2)) = [4]" "rd_winners_id (m_router_data ex_init) = []"
     "tender_at (Tenders, 9) ex_init = None"
    by (simp_all add: ex_packet_def router_defs)
  show ?thesis
    using multiwinner_request_is_flooded [OF ex_init_reachable ex_delivers, of cmd_save 2 4] p ex_payload_of
    by (auto simp: is_first_command_of_multiwinner_tender_def)
qed

theorem refused_tender_is_passed_on_witness:
  "\<exists>s' out d. handle_refuse 5 ex_payload (ex_state (ex_tender Remote Received cmd_get 5)) = Done s'
     \<and> sent (ex_state (ex_tender Remote Received cmd_get 5)) s' out \<and> rl_peers out = [4] \<and> rd_hop_id d = 2
     \<and> carries out d ex_payload"
proof -
  let ?s = "ex_state (ex_tender Remote Received cmd_get 5)"
  have inv: "router_inv True ?s"
    by (intro ex_state_inv ex_tender_ok) (simp_all add: is_sync_cmd_def)
  have f: "find_tender_of_request 5 ?s = Some (Tenders, 9)"
    by (simp add: find_tender_of_request_def tables_tender_at)
  obtain s' where s': "handle_refuse 5 ex_payload ?s = Done s'"
    by (simp add: router_defs)
  show ?thesis
    using refused_tender_is_passed_on [OF inv f ex_state_at s'] s' by auto
qed

theorem cancelled_request_is_silent_witness:
  "\<exists>s1 s2. handle_kernel_clear_request (ex_request cmd_clear_request) (ex_state (ex_tender Internal Confirmed cmd_get 5)) = Done s1
     \<and> process_link_input (ex_packet (ex_header cmd_get_data 2)) s1 = Done s2
     \<and> kernel_tx s2 = kernel_tx (ex_state (ex_tender Internal Confirmed cmd_get 5))"
proof -
  let ?s = "ex_state (ex_tender Internal Confirmed cmd_get 5)"
  have inv: "router_inv True ?s"
    by (intro ex_state_inv ex_tender_ok) (simp_all add: is_sync_cmd_def)
  obtain s1 where s1: "handle_kernel_clear_request (ex_request cmd_clear_request) ?s = Done s1"
    by (simp add: router_defs)
  have "m_id_tenders ?s (kr_request_id (ex_request cmd_clear_request)) = Some (rd_tender_id (ex_header cmd_get_data 2))"
    by (simp add: ex_request_def)
  from cancelled_request_is_silent [OF inv s1 this ex_delivers] is_response_ex s1 show ?thesis
    by auto
qed

text \<open>The state of the expiry: one tender, far past its time, and the timer has fired.\<close>

definition ex_late :: router where
  "ex_late = (ex_state (ex_tender Remote Received cmd_get 5))\<lparr>clock := 1000000, m_router_timeout := True\<rparr>"

lemma ex_late_inv: "router_inv True ex_late"
  unfolding ex_late_def router_inv_frame by (intro ex_state_inv ex_tender_ok) (simp_all add: is_sync_cmd_def)

lemma ex_late_expired: "expired_in ex_late = {(Tenders, 9)}"
  by (auto simp: expired_in_def ex_late_def is_expired_def ex_tender_def tender0_def router_data.defs)
     (auto simp: ex_state_def)

theorem oldest_expired_tender_goes_first_witness:
  "\<exists>s'. handle_expired_tenders ex_late = Done s' \<and> tender_at (Tenders, 9) s' = None \<and> \<not> m_expired_tender_exists s'"
proof -
  have f: "m_router_timeout ex_late \<or> m_expired_tender_exists ex_late"
    by (simp add: ex_late_def)
  have p: "\<forall>r \<in> expired_in ex_late. has_peer r ex_late"
    by (simp add: ex_late_expired has_peer_def)
  show ?thesis
    using oldest_expired_tender_goes_first [OF ex_late_inv f p] by (auto simp: ex_late_expired)
qed

theorem expired_tenders_are_all_removed_witness:
  "\<exists>s'. expire_n 1 ex_late = Done s' \<and> tender_at (Tenders, 9) s' = None"
proof -
  have f: "m_router_timeout ex_late"
    by (simp add: ex_late_def)
  have p: "\<forall>r \<in> expired_in ex_late. has_peer r ex_late"
    by (simp add: ex_late_expired has_peer_def)
  show ?thesis
    using expired_tenders_are_all_removed [OF ex_late_inv f p, of 1] by (auto simp: ex_late_expired)
qed

definition ex_bytes :: "command \<Rightarrow> router_data \<Rightarrow> ID32 \<Rightarrow> router_link_package" where
  "ex_bytes c d n = router_link_package0\<lparr>rl_cmd := c, rl_peers := [4], p_size := n, p_message := Some (rd_header_bytes d @ [])\<rparr>"

theorem truncated_request_then_nack_aborts_witness:
  "\<exists>s'. process_link_input (ex_bytes cmd_received_data (ex_header cmd_get 3) 70) ex_init = Thrown s'
     \<and> process_link_input (ex_bytes cmd_nack (ex_header cmd_get 3) 70) s' = Aborted"
proof -
  have w: "rd_winners_id (m_router_data ex_init) = []" "tender_at (Tenders, 9) ex_init = None"
    by (simp_all add: router_defs)
  show ?thesis
    using truncated_request_then_nack_aborts [OF ex_init_reachable, of "ex_bytes cmd_received_data (ex_header cmd_get 3) 70"
      "ex_header cmd_get 3" "[]" "ex_bytes cmd_nack (ex_header cmd_get 3) 70" "ex_header cmd_get 3" "[]"] w
    by (auto simp: ex_bytes_def is_invalid_new_tender_def)
qed

theorem max_command_aborts_witness:
  "process_link_input (ex_packet (ex_header cmd_max_command 3)) ex_init = Aborted"
  by (rule max_command_aborts [OF ex_delivers]) simp_all

theorem nack_shifts_next_payload_witness:
  "\<exists>s' s2. process_link_input (ex_bytes cmd_nack ((ex_header cmd_get 3)\<lparr>rd_winners_id := [1]\<rparr>) 74) ex_init = Done s'
     \<and> parse_router_data (ex_packet (ex_header cmd_get 3)) s' = Done s2 \<and> unat (rd_header_size (m_router_data s2)) = 74"
proof -
  let ?d = "(ex_header cmd_get 3)\<lparr>rd_winners_id := [1]\<rparr>" and ?q = "ex_packet (ex_header cmd_get 3)"
  have n: "p_message (ex_bytes cmd_nack ?d 74) = Some (rd_header_bytes ?d @ [])" "rl_cmd (ex_bytes cmd_nack ?d 74) = cmd_nack"
    by (simp_all add: ex_bytes_def)
  have q: "p_message ?q = Some (rd_header_bytes (ex_header cmd_get 3) @ be32 3 @ [1, 2, 3])"
    by (simp add: ex_packet_def)
  have w: "rd_winners_id (m_router_data ex_init) = []" "m_tenders ex_init (rd_tender_id ?d) = None"
    by (simp_all add: router_defs)
  have l: "length (rd_winners_id ?d) < 2 ^ 24" "rd_tender_id ?d \<noteq> 0" 
    by (simp_all add: ex_header_def)
  obtain s' where s': "process_link_input (ex_bytes cmd_nack ?d 74) ex_init = Done s'"
    using w(2) l(2) by (simp add: process_link_input_def n handle_link_nack_def parse_header [OF n(1) l(1)])
  show ?thesis
    using nack_shifts_next_payload [OF n(2,1) l w(2,1) s' q] s' by (auto simp: length_rd_header_bytes)
qed

end
