(* ===== verification/Protocol_Props.thy ===== *)
theory Protocol_Props
  imports Protocols Csp_Fifo
begin

text \<open>
  The properties of the wire formats (\<^verbatim>\<open>metax/protocols.hpp\<close>, \<^verbatim>\<open>platform/default_package.cpp\<close>) and of the
  channels between tasks (\<^verbatim>\<open>platform/fifo.txx\<close>), with their witnesses.
\<close>

section \<open>Round trips\<close>

text \<open>C23: what \<open>router_data::serialize\<close> writes, \<open>extract_header\<close> into an object without winners and
  \<open>extract_payload\<close> at \<open>header_size()\<close> read back: every header field, the payload, its size and its flags, for
  payloads below 16 MB and fewer than \<open>2^24\<close> winners. The buffer it allocates is filled exactly.\<close>

theorem router_data_round_trip:
  fixes d e :: router_data and pkg :: router_link_package and y :: kernel_router_package
  assumes "small_package d" and "length (rd_winners_id d) < 2 ^ 24" and "rd_winners_id e = []"
  shows "\<exists>pkg' e' x. rd_serialize d pkg = Some pkg' \<and> package.more pkg' = package.more pkg
    \<and> rd_extract_header pkg' e = Some (e', rd_header_size e') \<and> rd_same e' d
    \<and> extract_payload pkg' (unat (rd_header_size e')) y = Done x \<and> payload_of x = payload_of d
    \<and> p_size x = p_size d \<and> p_flags x = p_flags d \<and> package.more x = package.more y"
proof -
  have l: "length (rd_header_bytes d) + 4 + unat (p_size d) < 2 ^ 32"
    using assms(1,2) by (simp add: length_rd_header_bytes small_package_def)
  then have f: "rd_fits d" and fr: "rd_fresh e"
    using assms(3) by (simp_all add: rd_fits_def rd_fresh_def)
  show ?thesis
    using rdf.round_trip [OF assms(1) f l fr, of pkg y] unfolding rd_serialize_def .
qed

text \<open>The same for the packages of the links.\<close>

theorem link_data_round_trip:
  fixes d e :: link_data and pkg y :: package
  assumes "small_package d" and "length (ld_public_key d) < 2 ^ 24"
  shows "\<exists>pkg' e' x. ld_serialize d pkg = Some pkg'
    \<and> ld_extract_header pkg' e = Some (e', ld_header_size e') \<and> ld_same e' d
    \<and> extract_payload pkg' (unat (ld_header_size e')) y = Done x \<and> payload_of x = payload_of d
    \<and> p_size x = p_size d \<and> p_flags x = p_flags d"
proof -
  have f: "ld_fits d"
    using assms(2) by (simp add: ld_fits_def)
  have l: "length (ld_header_bytes d) + 4 + unat (p_size d) < 2 ^ 32"
    using assms unfolding length_ld_header_bytes [OF f] by (simp add: small_package_def)
  show ?thesis
    using ldf.round_trip [OF assms(1) f l TrueI, of pkg e y] unfolding ld_serialize_def by blast
qed

text \<open>The same for the packages in which users' keys travel: the four strings and the payload come back whatever
  bytes they hold, zeros included.\<close>

theorem key_transfer_round_trip:
  fixes d e :: key_transfer_package and pkg y :: package
  assumes "small_package d" and "length (kt_code d) < 2 ^ 24" and "length (kt_public_key d) < 2 ^ 24"
    and "length (kt_private_key d) < 2 ^ 24" and "length (kt_user_json_info d) < 2 ^ 24"
  shows "\<exists>pkg' e' x. kt_serialize d pkg = Some pkg'
    \<and> kt_extract_header pkg' e = Some (e', kt_header_size e') \<and> kt_same e' d
    \<and> extract_payload pkg' (unat (kt_header_size e')) y = Done x \<and> payload_of x = payload_of d
    \<and> p_size x = p_size d \<and> p_flags x = p_flags d"
proof -
  have f: "kt_fits d"
    using assms(2-5) by (simp add: kt_fits_def)
  have l: "length (kt_header_bytes d) + 4 + unat (p_size d) < 2 ^ 32"
    using assms unfolding length_kt_header_bytes [OF f] by (simp add: small_package_def)
  show ?thesis
    using ktf.round_trip [OF assms(1) f l TrueI, of pkg e y] unfolding kt_serialize_def by blast
qed

text \<open>Writing the hop count into a serialised package in place gives the bytes of the same package with that hop
  count: nothing else changes.\<close>

theorem update_hop_id_in_place:
  assumes "rd_serialize d pkg = Some pkg'"
  shows "\<exists>pkg2. rd_serialize (d\<lparr>rd_hop_id := h\<rparr>) pkg = Some pkg2
    \<and> update_hop_id (p_message pkg') h = p_message pkg2 \<and> p_size pkg2 = p_size pkg'"
proof -
  have same: "rd_header_size (d\<lparr>rd_hop_id := h\<rparr>) = rd_header_size d" "payload_tail (d\<lparr>rd_hop_id := h\<rparr>) = payload_tail d"
    "length (rd_header_bytes (d\<lparr>rd_hop_id := h\<rparr>)) = length (rd_header_bytes d)"
    by (simp_all add: rd_header_size_def payload_tail_def payload_of_def size_flags_def length_rd_header_bytes)
  show ?thesis
    using assms by (auto simp: rd_serialize_def write_out_def same Let_def update_hop_id_encoded split: option.splits if_splits)
qed

section \<open>Bounds of the payload\<close>

text \<open>\<open>extract_payload\<close> never accepts a payload that its package does not hold: it throws when the size word or the
  announced payload reaches past the size of the package, and what it accepts is the bytes at the offset.\<close>

theorem extract_payload_bounds:
  assumes "extract_payload pkg off d = Done x" and "p_size x \<noteq> 0"
  shows "off + 4 + unat (p_size x) \<le> unat (p_size pkg) \<and> unat (p_size x) < 2 ^ 24
    \<and> payload_of x = mem_read (p_message pkg) (off + 4) (unat (p_size x)) \<and> payload_of x \<noteq> None"
proof -
  obtain w where w: "off + 4 \<le> unat (p_size pkg)" "u32_at (p_message pkg) off = Some w"
    using assms(1) by (auto simp: extract_payload_def Let_def split: if_splits option.splits)
  have m: "(0x00FFFFFF :: ID32) = mask 24"
    by (simp add: mask_eq_exp_minus_1)
  have sz: "p_size x = w AND 0x00FFFFFF"
    using assms(1) w by (auto simp: extract_payload_def Let_def split: if_splits option.splits)
  have lt: "unat (w AND 0x00FFFFFF) < 2 ^ 24"
    unfolding m take_bit_eq_mask [symmetric] by (simp add: unsigned_take_bit_eq take_bit_nat_less_exp [of 24, simplified])
  obtain bs where bs: "off + 4 + unat (p_size x) \<le> unat (p_size pkg)"
    "mem_read (p_message pkg) (off + 4) (unat (p_size x)) = Some bs" "p_message x = Some (bs @ [0])"
    using assms w sz by (auto simp: extract_payload_def Let_def split: if_splits option.splits)
  have "length bs = unat (p_size x)"
    using bs(2) by (auto simp: mem_read_def split: option.splits if_splits)
  then have "payload_of x = Some bs"
    using assms(2) bs(3) by (simp add: payload_of_def mem_read_def)
  then show ?thesis
    using bs sz lt by simp
qed

section \<open>Channels\<close>

text \<open>Whatever the order of writes and reads, a reader of a channel gets a prefix of what was written, in order, and
  the rest is still in the channel; nothing is lost, repeated or made up.\<close>

theorem channel_is_fifo:
  assumes "channel.play (fifo_write fresh) fifo_read es (fifo_new fresh) = (xs, f)"
  shows "xs @ pending f = channel.written es"
  using fifo_channel.play_order [of "fifo_new fresh" fresh es xs f] assms by simp

text \<open>The answer of \<open>wait_for_data\<close>: with data it is always true at once; an inactive empty channel answers false;
  an active empty one waits unless its event was left set, and then it answers true although there is no data.\<close>

theorem wait_for_data_answers:
  "wait_for_data f = (if pending f \<noteq> [] then Some (True, f\<lparr>m_available := False\<rparr>)
     else if \<not> m_active f then Some (False, f)
     else if m_available f then Some (True, f\<lparr>m_available := False\<rparr>) else None)"
  by (simp add: wait_for_data_def has_data_pending fifo_wake_def)

section \<open>Witnesses\<close>

definition wit_data :: router_data where
  "wit_data = router_data0\<lparr>p_size := 2, p_message := Some [7, 8, 0], p_flags := 5, rd_winners_id := [1, 2]\<rparr>"

lemma wit_data_facts: "small_package wit_data" "rd_winners_id wit_data = [1, 2]" "payload_of wit_data = Some [7, 8]"
  by (simp_all add: wit_data_def small_package_def payload_of_def mem_read_def router_data0_def router_data.defs
      default_package_def package.defs)

theorem router_data_round_trip_witness:
  "\<exists>pkg e x. rd_serialize wit_data router_link_package0 = Some pkg
     \<and> rd_extract_header pkg router_data0 = Some (e, rd_header_size e) \<and> rd_winners_id e = [1, 2]
     \<and> extract_payload pkg (unat (rd_header_size e)) kernel_router_package0 = Done x \<and> payload_of x = Some [7, 8]"
  using router_data_round_trip [of wit_data router_data0 router_link_package0 kernel_router_package0] wit_data_facts
  by (auto simp: rd_same_def router_data0_def router_data.defs default_package_def package.defs)

definition wit_link :: link_data where
  "wit_link = package.extend (default_package\<lparr>p_size := 2, p_message := Some [7, 8, 0]\<rparr>)
     \<lparr>ld_cmd = cmd_ack, ld_public_key = [65, 0, 66], ld_load_info = 3\<rparr>"

theorem link_data_round_trip_witness:
  "\<exists>pkg e n. ld_serialize wit_link default_package = Some pkg \<and> ld_extract_header pkg wit_link = Some (e, n)
     \<and> ld_public_key e = [65, 0, 66]"
proof -
  have "small_package wit_link" "length (ld_public_key wit_link) < 2 ^ 24" "ld_public_key wit_link = [65, 0, 66]"
    by (simp_all add: wit_link_def small_package_def payload_of_def mem_read_def default_package_def package.defs)
  then show ?thesis
    using link_data_round_trip [of wit_link default_package wit_link default_package] by (auto simp: ld_same_def)
qed

definition wit_keys :: key_transfer_package where
  "wit_keys = package.extend (default_package\<lparr>p_size := 2, p_message := Some [7, 8, 0]\<rparr>)
     \<lparr>kt_cmd = cmd_ack, kt_code = [1], kt_public_key = [65, 0, 66], kt_private_key = [], kt_user_json_info = [123, 125]\<rparr>"

theorem key_transfer_round_trip_witness:
  "\<exists>pkg e n. kt_serialize wit_keys default_package = Some pkg \<and> kt_extract_header pkg wit_keys = Some (e, n)
     \<and> kt_public_key e = [65, 0, 66] \<and> kt_private_key e = [] \<and> kt_user_json_info e = [123, 125]"
proof -
  have "small_package wit_keys" and f: "kt_code wit_keys = [1]" "kt_public_key wit_keys = [65, 0, 66]"
    "kt_private_key wit_keys = []" "kt_user_json_info wit_keys = [123, 125]"
    by (simp_all add: wit_keys_def small_package_def payload_of_def mem_read_def default_package_def package.defs)
  then show ?thesis
    using key_transfer_round_trip [of wit_keys default_package wit_keys default_package] by (auto simp: kt_same_def)
qed

theorem update_hop_id_in_place_witness:
  "\<exists>pkg pkg2. rd_serialize wit_data router_link_package0 = Some pkg
     \<and> rd_serialize (wit_data\<lparr>rd_hop_id := 4\<rparr>) router_link_package0 = Some pkg2
     \<and> update_hop_id (p_message pkg) 4 = p_message pkg2"
proof -
  obtain pkg where "rd_serialize wit_data router_link_package0 = Some pkg"
    by (simp add: rd_serialize_def write_out_def payload_tail_def wit_data_facts rd_header_size_def length_rd_header_bytes)
      (simp add: wit_data_def)
  from update_hop_id_in_place [OF this, of 4] this show ?thesis
    by blast
qed

theorem extract_payload_bounds_witness:
  "\<exists>x. extract_payload (default_package\<lparr>p_size := 6, p_message := Some [0, 0, 0, 2, 7, 8]\<rparr>) 0 default_package = Done x
     \<and> payload_of x = Some [7, 8]"
proof -
  let ?p = "default_package\<lparr>p_size := 6, p_message := Some [0, 0, 0, 2, 7, 8]\<rparr>"
  obtain x where x: "extract_payload ?p 0 default_package = Done x" "p_size x = 2"
    by (simp add: extract_payload_def Let_def default_package_def reset_package_def u32_at_def mem_read_def un_be_def)
  have "payload_of x = Some [7, 8]"
    using extract_payload_bounds [OF x(1)] x(2) by (simp add: mem_read_def)
  with x show ?thesis by blast
qed

theorem channel_is_fifo_witness:
  "\<exists>f. channel.play (fifo_write 0) fifo_read [Some 1, Some 2, None, Some 3, None] (fifo_new (0 :: nat)) = ([1, 2], f)
     \<and> pending f = [3]"
proof -
  obtain f where f: "channel.play (fifo_write 0) fifo_read [Some 1, Some 2, None, Some 3, None] (fifo_new (0 :: nat))
      = ([1, 2], f)"
    by (simp add: fifo_read_def fifo_front_def fifo_pop_def has_data_def fifo_write_def commit_def set_slot_def
        fifo_new_def slot_def)
  show ?thesis
    using channel_is_fifo [OF f] f by simp
qed

end
