(* ===== verification/Poco_Lib.thy ===== *)
theory Poco_Lib
  imports Wire
begin

text \<open>
  What the modelled tasks use of the Poco library: \<^verbatim>\<open>UUID::toString\<close>, \<^verbatim>\<open>UUID::tryParse\<close> and
  \<^verbatim>\<open>StringTokenizer\<close> (without options). They are a parameter of the model, the record \<open>poco\<close>;
  \<open>poco_ok\<close> states the documented behaviour the tasks rely on, and \<open>poco_ref\<close> is an implementation
  of it (the hyphenated hexadecimal format) for concrete runs. \<open>chars\<close> and \<open>bytes_of\<close> pass between
  the bytes of a package and the characters of a \<^verbatim>\<open>std::string\<close>.
\<close>

section \<open>Strings\<close>

definition chars :: "byte list \<Rightarrow> string" where
  "chars bs = map (\<lambda>b. char_of (unat b)) bs"

definition bytes_of :: "string \<Rightarrow> byte list" where
  "bytes_of s = map (\<lambda>c. of_nat (of_char c)) s"

lemma chars_bytes_of [simp]: "chars (bytes_of s) = s"
proof -
  have "unat (of_nat (of_char c) :: byte) = of_char c" for c
    by (simp add: unat_of_nat take_bit_nat_eq_self)
  then show ?thesis
    by (simp add: chars_def bytes_of_def comp_def)
qed

lemma length_bytes_of [simp]: "length (bytes_of s) = length s"
  by (simp add: bytes_of_def)

text \<open>A \<^verbatim>\<open>const char*\<close> read as a string ends at the first zero; without one the read leaves the buffer.\<close>

definition c_str :: "byte list \<Rightarrow> string option" where
  "c_str bs = (if 0 \<in> set bs then Some (chars (takeWhile (\<lambda>b. b \<noteq> 0) bs)) else None)"

lemma char_of_0: "char_of (0::nat) = CHR 0x00"
  by (simp add: char_of_def)

lemma c_str_bytes_of:
  assumes "CHR 0x00 \<notin> set s"
  shows "c_str (bytes_of s @ 0 # bs) = Some s"
proof -
  have "of_nat (of_char c) \<noteq> (0 :: byte)" if "c \<in> set s" for c
  proof
    assume "of_nat (of_char c) = (0 :: byte)"
    then have "unat (of_nat (of_char c) :: byte) = 0"
      by simp
    then have "of_char c = (0::nat)"
      by (simp add: unat_of_nat take_bit_nat_eq_self)
    then have "c = CHR 0x00"
      by (metis char_of_char char_of_0)
    with assms that show False by simp
  qed
  then have "takeWhile (\<lambda>b. b \<noteq> 0) (bytes_of s @ 0 # bs) = bytes_of s"
    by (subst takeWhile_append2) (auto simp: bytes_of_def)
  then show ?thesis
    by (simp add: c_str_def)
qed

section \<open>The library\<close>

record poco =
  uuid_to_string :: "uuid \<Rightarrow> string"
  uuid_try_parse :: "string \<Rightarrow> uuid option"
  tokenize :: "string \<Rightarrow> char \<Rightarrow> string list"

fun join :: "char \<Rightarrow> string list \<Rightarrow> string" where
  "join c [] = []"
| "join c [t] = t"
| "join c (t # ts) = t @ c # join c ts"

definition plain :: "string \<Rightarrow> bool" where
  "plain s \<longleftrightarrow> s \<noteq> [] \<and> set s \<inter> {CHR 0x00, CHR '','', CHR '' '', CHR 0x0A} = {}"

definition poco_ok :: "poco \<Rightarrow> bool" where
  "poco_ok L \<longleftrightarrow>
     (\<forall>u. uuid_try_parse L (uuid_to_string L u) = Some u \<and> plain (uuid_to_string L u))
     \<and> (\<forall>c ts. (\<forall>t \<in> set ts. t \<noteq> [] \<and> c \<notin> set t) \<longrightarrow> tokenize L (join c ts) c = ts)"

lemma poco_okD:
  assumes "poco_ok L"
  shows "uuid_try_parse L (uuid_to_string L u) = Some u" "plain (uuid_to_string L u)"
    "\<forall>t \<in> set ts. t \<noteq> [] \<and> c \<notin> set t \<Longrightarrow> tokenize L (join c ts) c = ts"
  using assms by (simp_all add: poco_ok_def)

lemma uuid_to_string_inj: "poco_ok L \<Longrightarrow> uuid_to_string L u = uuid_to_string L v \<longleftrightarrow> u = v"
  by (metis poco_okD(1) option.inject)

section \<open>A reference implementation\<close>

definition hex_digit :: "nat \<Rightarrow> char" where
  "hex_digit n = char_of (if n < 10 then 48 + n else 87 + n)"

definition un_hex :: "char \<Rightarrow> nat" where
  "un_hex c = (let k = of_char c in if k < 97 then k - 48 else k - 87)"

definition hex_pair :: "byte \<Rightarrow> string" where
  "hex_pair b = [hex_digit (unat b div 16), hex_digit (unat b mod 16)]"

fun un_pairs :: "string \<Rightarrow> byte list" where
  "un_pairs (c # d # s) = of_nat (16 * un_hex c + un_hex d) # un_pairs s"
| "un_pairs s = []"

definition ref_to_string :: "uuid \<Rightarrow> string" where
  "ref_to_string u =
     (let h = concat (map hex_pair (be128 u)) in
      take 8 h @ ''-'' @ take 4 (drop 8 h) @ ''-'' @ take 4 (drop 12 h) @ ''-''
      @ take 4 (drop 16 h) @ ''-'' @ drop 20 h)"

definition ref_try_parse :: "string \<Rightarrow> uuid option" where
  "ref_try_parse s =
     (if length s = 36 then Some (un_be (un_pairs (filter (\<lambda>c. c \<noteq> CHR ''-'') s))) else None)"

fun split_at :: "char \<Rightarrow> string \<Rightarrow> string \<Rightarrow> string list" where
  "split_at c tok [] = [tok]"
| "split_at c tok (x # xs) =
     (if x = c then tok # split_at c [] xs else split_at c (tok @ [x]) xs)"

definition ref_tokenize :: "string \<Rightarrow> char \<Rightarrow> string list" where
  "ref_tokenize s c = (if s = [] then [] else split_at c [] s)"

definition poco_ref :: poco where
  "poco_ref = \<lparr>uuid_to_string = ref_to_string, uuid_try_parse = ref_try_parse, tokenize = ref_tokenize\<rparr>"

lemma split_at_plain: "c \<notin> set t \<Longrightarrow> split_at c tok (t @ c # s) = (tok @ t) # split_at c [] s"
  by (induction t arbitrary: tok) auto

lemma split_at_end: "c \<notin> set t \<Longrightarrow> split_at c tok t = [tok @ t]"
  by (induction t arbitrary: tok) auto

lemma ref_tokenize_join:
  "\<forall>t \<in> set ts. t \<noteq> [] \<and> c \<notin> set t \<Longrightarrow> ref_tokenize (join c ts) c = ts"
proof (induction c ts rule: join.induct)
  case (3 c t u ts)
  then have "join c (u # ts) \<noteq> []"
    by (cases ts) auto
  with 3 show ?case
    by (simp add: ref_tokenize_def split_at_plain)
qed (simp_all add: ref_tokenize_def split_at_end)

lemma hex_digit_props:
  assumes "n < 16"
  shows "un_hex (hex_digit n) = n"
    "hex_digit n \<notin> {CHR 0x00, CHR '','', CHR '' '', CHR 0x0A, CHR ''-''}"
proof -
  have code: "of_char (hex_digit n) = (if n < 10 then 48 + n else 87 + n)"
    using assms by (simp add: hex_digit_def)
  with assms show "un_hex (hex_digit n) = n"
    by (simp add: un_hex_def)
  have "hex_digit n \<noteq> c" if "of_char c < (48::nat)" for c
    using code that by (auto split: if_splits)
  from this [of "CHR 0x00"] this [of "CHR '',''"] this [of "CHR '' ''"]
    this [of "CHR 0x0A"] this [of "CHR ''-''"]
  show "hex_digit n \<notin> {CHR 0x00, CHR '','', CHR '' '', CHR 0x0A, CHR ''-''}"
    by simp
qed

lemma unat_byte: "unat (b :: byte) < 256"
proof -
  have "int (unat b) < 2 ^ 8"
    using uint_lt2p [of b] by simp
  then have "int (unat b) < 256"
    by simp
  then show ?thesis
    by linarith
qed

lemma un_pairs_hex: "un_pairs (concat (map hex_pair bs)) = bs"
proof (induction bs)
  case (Cons b bs)
  have "unat b < 256"
    by (rule unat_byte)
  then have "un_hex (hex_digit (unat b div 16)) = unat b div 16"
    and "un_hex (hex_digit (unat b mod 16)) = unat b mod 16"
    by (intro hex_digit_props; simp add: div_less_iff_less_mult)+
  with Cons show ?case
    by (simp add: hex_pair_def)
qed simp

lemma hex_chars:
  assumes "c \<in> set (concat (map hex_pair bs))"
  shows "c \<notin> {CHR 0x00, CHR '','', CHR '' '', CHR 0x0A, CHR ''-''}"
proof -
  have "\<exists>b :: byte. c = hex_digit (unat b div 16) \<or> c = hex_digit (unat b mod 16)"
    using assms by (auto simp: hex_pair_def)
  then obtain b :: byte where c: "c = hex_digit (unat b div 16) \<or> c = hex_digit (unat b mod 16)" ..
  have "unat b div 16 < 16" "unat b mod 16 < 16"
    using unat_byte [of b] by (simp_all add: div_less_iff_less_mult)
  from this [THEN hex_digit_props(2)] c show ?thesis
    by auto
qed

lemma length_hex: "length (concat (map hex_pair bs)) = 2 * length bs"
  by (induction bs) (simp_all add: hex_pair_def)

lemma take_drop_hex:
  assumes "length h = 32"
  shows "take 8 h @ take 4 (drop 8 h) @ take 4 (drop 12 h) @ take 4 (drop 16 h) @ drop 20 h = h"
proof -
  have "take 8 h @ take 4 (drop 8 h) @ take 4 (drop 12 h) @ take 4 (drop 16 h) @ drop 20 h
      = take 8 h @ take 4 (drop 8 h) @ take 4 (drop 4 (drop 8 h))
        @ take 4 (drop 4 (drop 4 (drop 8 h))) @ drop 4 (drop 4 (drop 4 (drop 8 h)))"
    by (simp add: add.commute)
  then show ?thesis
    by (metis append_take_drop_id)
qed

lemma poco_ref_ok: "poco_ok poco_ref"
proof -
  have "ref_try_parse (ref_to_string u) = Some u \<and> plain (ref_to_string u)" for u
  proof -
    define h where "h = concat (map hex_pair (be128 u))"
    have len: "length h = 32"
      by (simp add: h_def length_hex be128_def)
    have keep: "filter (\<lambda>c. c \<noteq> CHR ''-'') s = s" if "set s \<subseteq> set h" for s
      using that hex_chars [of _ "be128 u"] by (fastforce simp: h_def intro!: filter_True)
    have sub: "set (take n (drop m h)) \<subseteq> set h" "set (take n h) \<subseteq> set h" "set (drop n h) \<subseteq> set h" for n m
      by (meson in_set_takeD in_set_dropD subsetI)+
    have "filter (\<lambda>c. c \<noteq> CHR ''-'') (ref_to_string u) = h"
      unfolding ref_to_string_def Let_def h_def [symmetric] filter_append filter.simps keep [OF sub(1)] keep [OF sub(2)]
        keep [OF sub(3)] using take_drop_hex [OF len] by simp
    moreover have "length (ref_to_string u) = 36"
      by (simp add: ref_to_string_def Let_def len flip: h_def)
    moreover have "(un_be (be_bytes 16 (unat u)) :: uuid) = u"
      by (rule un_be_be_bytes) simp
    ultimately have "ref_try_parse (ref_to_string u) = Some u"
      by (simp add: ref_try_parse_def un_pairs_hex h_def) (simp add: be128_def)
    moreover have "c \<in> set (ref_to_string u) \<Longrightarrow> c = CHR ''-'' \<or> c \<in> set h" for c
      unfolding ref_to_string_def Let_def h_def [symmetric] by (auto dest: in_set_takeD in_set_dropD)
    then have "c \<in> set (ref_to_string u) \<Longrightarrow> c \<notin> {CHR 0x00, CHR '','', CHR '' '', CHR 0x0A}" for c
      using hex_chars [of c "be128 u", folded h_def] by auto
    then have "plain (ref_to_string u)"
      using \<open>length (ref_to_string u) = 36\<close> unfolding plain_def by fastforce
    ultimately show ?thesis
      by blast
  qed
  then show ?thesis
    by (simp add: poco_ok_def poco_ref_def ref_tokenize_join)
qed

end
