(* ===== verification/Text_Json.thy ===== *)
theory Text_Json
  imports Poco_Lib Package "HOL-Library.Char_ord" "HOL-Library.List_Lexorder"
begin

text \<open>
  Text and JSON, as several tasks use them: numbers written to and read from text, lines, tables sorted by key, JSON
  objects as the list of their members in the order of their names, and the conversions of JSON values.
\<close>

section \<open>Numbers in text\<close>

fun decimal :: "nat \<Rightarrow> string" where
  "decimal n = (if n < 10 then [char_of (48 + n)] else decimal (n div 10) @ [char_of (48 + n mod 10)])"

declare decimal.simps [simp del]

definition decimal_int :: "int \<Rightarrow> string" where
  "decimal_int i = (if i < 0 then CHR ''-'' # decimal (nat (- i)) else decimal (nat i))"

definition is_digit :: "char \<Rightarrow> bool" where
  "is_digit c \<longleftrightarrow> 48 \<le> (of_char c :: nat) \<and> (of_char c :: nat) < 58"

definition digits_value :: "string \<Rightarrow> nat" where
  "digits_value ds = foldl (\<lambda>n c. 10 * n + (of_char c - 48)) 0 ds"

definition is_space :: "char \<Rightarrow> bool" where
  "is_space c \<longleftrightarrow> (of_char c :: nat) = 32 \<or> 9 \<le> (of_char c :: nat) \<and> (of_char c :: nat) < 14"

text \<open>
  \<^verbatim>\<open>utils::from_string\<close> at an unsigned type of \<open>w\<close> bits: extraction from a stream, which gives 0
  without a digit, the largest value on overflow, and negates modulo \<open>2 ^ w\<close> after a minus sign.
\<close>

definition from_string :: "nat \<Rightarrow> string \<Rightarrow> nat" where
  "from_string w s =
     (let s = dropWhile is_space s;
          neg = (s \<noteq> [] \<and> hd s = CHR ''-'');
          s = (if s \<noteq> [] \<and> (hd s = CHR ''-'' \<or> hd s = CHR ''+'') then tl s else s);
          n = digits_value (takeWhile is_digit s) in
      if n \<ge> 2 ^ w then 2 ^ w - 1 else if neg then (2 ^ w - n) mod 2 ^ w else n)"

text \<open>\<^verbatim>\<open>std::getline\<close> until the stream ends.\<close>

fun get_lines :: "string \<Rightarrow> string \<Rightarrow> string list" where
  "get_lines l [] = (if l = [] then [] else [l])"
| "get_lines l (c # s) = (if c = CHR 0x0A then l # get_lines [] s else get_lines (l @ [c]) s)"

subsection \<open>Reading back\<close>

lemma of_char_digit: "k < 10 \<Longrightarrow> (of_char (char_of (48 + k) :: char) :: nat) = 48 + k"
  by simp

lemma is_digit_char: "(k :: nat) < 10 \<Longrightarrow> is_digit (char_of (48 + k))"
  by (simp add: is_digit_def)

lemma digits_value_snoc: "digits_value (ds @ [c]) = 10 * digits_value ds + (of_char c - 48)"
  by (simp add: digits_value_def)

lemma decimal_props: "decimal n \<noteq> [] \<and> digits_value (decimal n) = n \<and> list_all is_digit (decimal n)"
proof (induction n rule: decimal.induct)
  case (1 n)
  show ?case
  proof (cases "n < 10")
    case True
    then show ?thesis
      by (subst (1 2 3) decimal.simps) (simp add: digits_value_def is_digit_char)
  next
    case False
    have c: "(of_char (char_of (48 + n mod 10) :: char) :: nat) = 48 + n mod 10"
      by (rule of_char_digit) simp
    from False 1 show ?thesis
      by (subst (1 2 3) decimal.simps) (simp add: digits_value_snoc c is_digit_char)
  qed
qed

lemma decimal_digit: "c \<in> set (decimal n) \<Longrightarrow> is_digit c"
  using decimal_props [of n] by (simp add: list_all_iff)

lemma from_string_decimal:
  assumes "n < 2 ^ w"
  shows "from_string w (decimal n) = n"
proof -
  have d: "\<forall>c \<in> set (decimal n). is_digit c" and v: "digits_value (decimal n) = n" and ne: "decimal n \<noteq> []"
    using decimal_props [of n] by (simp_all add: list_all_iff)
  have sp: "\<not> is_space (hd (decimal n))" and sg: "hd (decimal n) \<noteq> CHR ''-''" "hd (decimal n) \<noteq> CHR ''+''"
    using d hd_in_set [OF ne] by (auto simp: is_digit_def is_space_def)
  have "dropWhile is_space (decimal n) = decimal n"
    using sp ne by (cases "decimal n") auto
  moreover have tw: "takeWhile is_digit (decimal n) = decimal n"
    using d by simp
  ultimately show ?thesis
    using sg v assms by (simp add: from_string_def Let_def tw)
qed

lemma decimal_int_nat: "0 \<le> i \<Longrightarrow> decimal_int i = decimal (nat i)"
  by (simp add: decimal_int_def)

lemma get_lines_line: "CHR 0x0A \<notin> set l \<Longrightarrow> get_lines a (l @ CHR 0x0A # s) = (a @ l) # get_lines [] s"
  by (induction l arbitrary: a) auto

lemma get_lines_concat:
  "\<forall>l \<in> set ls. CHR 0x0A \<notin> set l \<Longrightarrow> get_lines [] (concat (map (\<lambda>l. l @ [CHR 0x0A]) ls)) = ls"
  by (induction ls) (simp_all add: get_lines_line)

section \<open>Tables\<close>

text \<open>\<open>m_ims_req_ids\<close> is searched by value, so it is the list a \<^verbatim>\<open>std::map\<close> iterates over.\<close>

fun tab_set :: "'k::linorder \<Rightarrow> 'v \<Rightarrow> ('k \<times> 'v) list \<Rightarrow> ('k \<times> 'v) list" where
  "tab_set k v [] = [(k, v)]"
| "tab_set k v ((k', v') # m) =
     (if k = k' then (k, v) # m else if k < k' then (k, v) # (k', v') # m else (k', v') # tab_set k v m)"

definition tab_erase :: "'k \<Rightarrow> ('k \<times> 'v) list \<Rightarrow> ('k \<times> 'v) list" where
  "tab_erase k m = filter (\<lambda>e. fst e \<noteq> k) m"

definition tab_find_value :: "'v \<Rightarrow> ('k \<times> 'v) list \<Rightarrow> 'k option" where
  "tab_find_value v m = map_option fst (find (\<lambda>e. snd e = v) m)"

lemma map_of_tab_set [simp]: "map_of (tab_set k v m) = (map_of m)(k \<mapsto> v)"
  by (induction k v m rule: tab_set.induct) auto

lemma map_of_tab_erase [simp]: "map_of (tab_erase k m) = (map_of m)(k := None)"
  by (induction m) (auto simp: tab_erase_def)

section \<open>JSON objects\<close>

fun obj_set :: "string \<Rightarrow> 'v \<Rightarrow> (string \<times> 'v) list \<Rightarrow> (string \<times> 'v) list" where
  "obj_set k v [] = [(k, v)]"
| "obj_set k v ((k', v') # m) =
     (if k = k' then (k, v) # m else if k < k' then (k, v) # (k', v') # m else (k', v') # obj_set k v m)"

definition obj_has :: "string \<Rightarrow> (string \<times> 'v) list \<Rightarrow> bool" where
  "obj_has k m \<longleftrightarrow> map_of m k \<noteq> None"

definition obj_remove :: "string \<Rightarrow> (string \<times> 'v) list \<Rightarrow> (string \<times> 'v) list" where
  "obj_remove k m = filter (\<lambda>e. fst e \<noteq> k) m"

subsection \<open>Objects as maps\<close>

lemma map_of_obj_set [simp]: "map_of (obj_set k v m) = (map_of m)(k \<mapsto> v)"
  by (induction k v m rule: obj_set.induct) (auto simp: fun_eq_iff)

lemma map_of_obj_remove [simp]: "map_of (obj_remove k m) = (map_of m)(k := None)"
  by (induction m) (auto simp: obj_remove_def fun_eq_iff)

lemma keys_obj_set [simp]: "fst ` set (obj_set k v m) = insert k (fst ` set m)"
  by (induction k v m rule: obj_set.induct) auto

lemma keys_obj_remove: "map fst (obj_remove k m) = filter (\<lambda>n. n \<noteq> k) (map fst m)"
  by (induction m) (auto simp: obj_remove_def)

definition ordered :: "(string \<times> 'v) list \<Rightarrow> bool" where
  "ordered m \<longleftrightarrow> sorted_wrt (<) (map fst m)"

lemma ordered_obj_set: "ordered m \<Longrightarrow> ordered (obj_set k v m)"
proof (induction k v m rule: obj_set.induct)
  case (2 k v k' v' m)
  have "set (map fst (obj_set k v m)) = insert k (set (map fst m))"
    using keys_obj_set [of k v m] by simp
  with 2 show ?case
    by (auto simp: ordered_def not_less)
qed (simp add: ordered_def)

lemma ordered_distinct: "ordered m \<Longrightarrow> distinct (map fst m)"
  by (simp add: ordered_def strict_sorted_iff)

section \<open>JSON values\<close>

text \<open>\<open>J_real\<close> is a number with a fraction, as its text.\<close>

datatype json = J_obj "(string \<times> json) list" | J_arr "json list" | J_str string | J_num int | J_bool bool
  | J_real string | J_null

type_synonym jobj = "(string \<times> json) list"

definition get_object :: "string \<Rightarrow> jobj \<Rightarrow> jobj option" where
  "get_object n o1 = (case map_of o1 n of Some (J_obj m) \<Rightarrow> Some m | _ \<Rightarrow> None)"

definition get_array :: "string \<Rightarrow> jobj \<Rightarrow> json list option" where
  "get_array n o1 = (case map_of o1 n of Some (J_arr m) \<Rightarrow> Some m | _ \<Rightarrow> None)"

text \<open>
  The library: UUIDs, the JSON printer and parser (\<open>None\<close>: the parser throws, or the text is no object),
  conversions of a \<^verbatim>\<open>Dynamic::Var\<close> that is neither number nor text, and base64.
\<close>

record klib =
  kl_poco :: poco
  kl_parse :: "string \<Rightarrow> jobj option"
  kl_print :: "jobj \<Rightarrow> string"
  kl_to_int :: "json \<Rightarrow> int option"
  kl_to_text :: "json \<Rightarrow> string option"
  kl_b64_encode :: "byte list \<Rightarrow> string"
  kl_b64_decode :: "string \<Rightarrow> byte list"

text \<open>\<open>getValue\<close> of an integer, of an unsigned number of \<open>w\<close> bits and of a text: \<open>None\<close> when the conversion throws.\<close>

definition to_int :: "klib \<Rightarrow> json \<Rightarrow> int option" where
  "to_int L j = (case j of J_num i \<Rightarrow> Some i | J_bool b \<Rightarrow> Some (of_bool b) | J_null \<Rightarrow> None | J_obj m \<Rightarrow> None | J_arr m \<Rightarrow> None
     | _ \<Rightarrow> kl_to_int L j)"

definition to_unsigned :: "klib \<Rightarrow> nat \<Rightarrow> json \<Rightarrow> nat option" where
  "to_unsigned L w j = (case to_int L j of None \<Rightarrow> None | Some i \<Rightarrow> if 0 \<le> i \<and> i < 2 ^ w then Some (nat i) else None)"

definition get_unsigned :: "klib \<Rightarrow> nat \<Rightarrow> string \<Rightarrow> jobj \<Rightarrow> nat option" where
  "get_unsigned L w n o1 = (case map_of o1 n of None \<Rightarrow> None | Some j \<Rightarrow> to_unsigned L w j)"

definition get_int :: "klib \<Rightarrow> nat \<Rightarrow> string \<Rightarrow> jobj \<Rightarrow> int option" where
  "get_int L w n o1 = (case map_of o1 n of None \<Rightarrow> None | Some j \<Rightarrow>
     (case to_int L j of None \<Rightarrow> None | Some i \<Rightarrow> if - (2 ^ (w - 1)) \<le> i \<and> i < 2 ^ (w - 1) then Some i else None))"

definition to_text :: "klib \<Rightarrow> json \<Rightarrow> string option" where
  "to_text L j = (case j of J_str t \<Rightarrow> Some t | J_null \<Rightarrow> None | _ \<Rightarrow> kl_to_text L j)"

definition get_text :: "klib \<Rightarrow> string \<Rightarrow> jobj \<Rightarrow> string option" where
  "get_text L n o1 = (case map_of o1 n of None \<Rightarrow> None | Some j \<Rightarrow> to_text L j)"

definition opt_text :: "klib \<Rightarrow> string \<Rightarrow> jobj \<Rightarrow> string" where
  "opt_text L n o1 = (case get_text L n o1 of None \<Rightarrow> [] | Some t \<Rightarrow> t)"

end
