(* ===== verification/Backup.thy ===== *)
theory Backup
  imports Protocols Csp_Fifo Text_Json
begin

text \<open>
  \<^verbatim>\<open>metax/backup.cpp\<close>: the journal of what the node stores (\<^verbatim>\<open>device json\<close>), its expiry, its file, and
  the exchange of journals with a peer. A JSON object is the list of its members in the order of their
  names; the members of an entry the code reads are optional numbers and flags. The record
  \<open>backup_lib\<close> stands for the cipher with the JSON printer and parser (\<open>seal\<close>, \<open>unseal\<close>), the keys
  (\<open>make_key\<close>) and the parser of a synchronisation message. The task has no catch clauses of its own:
  an exception that reaches \<^verbatim>\<open>runTask\<close> ends the process, like a failed assertion.
\<close>

section \<open>Members of the documents\<close>

record json_entry =
  e_version :: "int option"
  e_is_deleted :: "bool option"
  e_last_updated :: "int option"
  e_expiration_date :: "int option"

type_synonym journal = "(string \<times> json_entry) list"

record device_json =
  dj_version :: "int option"
  dj_protocol_version :: "int option"
  dj_storage :: "journal option"

text \<open>\<^verbatim>\<open>getValue\<close> at an integer type throws when the member is missing or out of range.\<close>

definition get_uint :: "nat \<Rightarrow> int option \<Rightarrow> int option" where
  "get_uint w v = (case v of None \<Rightarrow> None | Some i \<Rightarrow> if 0 \<le> i \<and> i < 2 ^ w then Some i else None)"

definition get_int64 :: "int option \<Rightarrow> int option" where
  "get_int64 v = (case v of None \<Rightarrow> None | Some i \<Rightarrow> if - (2 ^ 63) \<le> i \<and> i < 2 ^ 63 then Some i else None)"

text \<open>\<^verbatim>\<open>Poco::Timestamp\<close> of a \<^verbatim>\<open>UInt64\<close>.\<close>

definition timestamp :: "int \<Rightarrow> int" where
  "timestamp i = (if i < 2 ^ 63 then i else i - 2 ^ 64)"

section \<open>Packages and state\<close>

text \<open>\<open>data_version\<close> and \<open>sync_class\<close> share their memory.\<close>

record kernel_backup_package = package +
  kb_request_id :: ID32
  kb_cmd :: command
  kb_uuid :: uuid
  kb_time :: int
  kb_data_version :: ID32
  kb_last_updated :: u64
  kb_expire_date :: u64
  kb_is_deleted :: bool
  kb_sync_uuids :: "(string \<times> char) list option"
  kb_key :: string
  kb_iv :: string

text \<open>\<open>time\<close> is initialised with the current time.\<close>

definition kernel_backup_package0 :: "int \<Rightarrow> kernel_backup_package" where
  "kernel_backup_package0 now = package.extend default_package
     \<lparr>kb_request_id = 0, kb_cmd = cmd_max_command, kb_uuid = 0, kb_time = now, kb_data_version = 0,
      kb_last_updated = 0, kb_expire_date = 0, kb_is_deleted = False, kb_sync_uuids = None,
      kb_key = [], kb_iv = []\<rparr>"

abbreviation sync_class :: "kernel_backup_package \<Rightarrow> ID32" where
  "sync_class \<equiv> kb_data_version"

text \<open>
  \<open>bc_aes_key\<close>, \<open>bc_aes_iv\<close> and \<open>bc_uuid\<close> are the members of \<^verbatim>\<open>user_json_info_ptr\<close> that are read; the
  tasks treat a null pointer like an object without members.
\<close>

record backup_cfg_package = package +
  bc_cmd :: command
  bc_metadata_path :: string
  bc_aes_key :: "string option"
  bc_aes_iv :: "string option"
  bc_uuid :: "string option"
  bc_is_generated :: bool
  bc_periodic_interval :: ID16

definition backup_cfg_package0 :: backup_cfg_package where
  "backup_cfg_package0 = package.extend default_package
     \<lparr>bc_cmd = cmd_max_command, bc_metadata_path = [], bc_aes_key = None, bc_aes_iv = None,
      bc_uuid = None, bc_is_generated = False, bc_periodic_interval = 0\<rparr>"

record backup_user_manager_package = package +
  bu_cmd :: command
  bu_uuid :: uuid
  bu_data_version :: u64
  bu_last_updated :: u64

definition backup_user_manager_package0 :: backup_user_manager_package where
  "backup_user_manager_package0 = package.extend default_package
     \<lparr>bu_cmd = cmd_max_command, bu_uuid = 0, bu_data_version = 0, bu_last_updated = 0\<rparr>"

record ('k, 'f) backup_lib =
  make_key :: "string \<Rightarrow> string \<Rightarrow> 'k option"
  seal :: "'k \<Rightarrow> device_json \<Rightarrow> 'f"
  unseal :: "'k \<Rightarrow> 'f \<Rightarrow> device_json option"
  json_uuids :: "string \<Rightarrow> string option option"

text \<open>\<open>bk_files\<close> is the disk, \<open>bk_clock\<close> what \<^verbatim>\<open>Poco::Timestamp()\<close> reads.\<close>

record ('k, 'f) backup =
  bk_kernel_rx :: "kernel_backup_package fifo"
  bk_router_rx :: "kernel_router_package fifo"
  bk_config_rx :: "backup_cfg_package fifo"
  bk_storage_rx :: "kernel_storage_package fifo"
  bk_user_manager_rx :: "backup_user_manager_package fifo"
  bk_kernel_tx :: "kernel_backup_package fifo"
  bk_storage_tx :: "kernel_storage_package fifo"
  bk_cache_tx :: "kernel_storage_package fifo"
  m_device_json_path :: string
  m_device_json :: "device_json option"
  m_device_json_updated :: bool
  m_timer_interval :: nat
  m_timeout :: bool
  m_clean_up_timeout :: bool
  m_device_json_cipher :: "'k option"
  bk_files :: "string \<rightharpoonup> 'f"
  bk_clock :: int

definition backup_new :: "int \<Rightarrow> (string \<rightharpoonup> 'f) \<Rightarrow> ('k, 'f) backup" where
  "backup_new now disk =
     \<lparr>bk_kernel_rx = set_external_control (fifo_new (kernel_backup_package0 now)),
      bk_router_rx = set_external_control (fifo_new kernel_router_package0),
      bk_config_rx = set_external_control (fifo_new backup_cfg_package0),
      bk_storage_rx = set_external_control (fifo_new kernel_storage_package0),
      bk_user_manager_rx = set_external_control (fifo_new backup_user_manager_package0),
      bk_kernel_tx = fifo_new (kernel_backup_package0 now), bk_storage_tx = fifo_new kernel_storage_package0,
      bk_cache_tx = fifo_new kernel_storage_package0, m_device_json_path = [], m_device_json = None,
      m_device_json_updated = False, m_timer_interval = 0, m_timeout = False, m_clean_up_timeout = False,
      m_device_json_cipher = None, bk_files = disk, bk_clock = now\<rparr>"

text \<open>\<open>m_storage_data\<close> points into the device json.\<close>

definition m_storage_data :: "('k, 'f) backup \<Rightarrow> journal option" where
  "m_storage_data s = (case m_device_json s of None \<Rightarrow> None | Some d \<Rightarrow> dj_storage d)"

definition set_storage_data :: "journal \<Rightarrow> ('k, 'f) backup \<Rightarrow> ('k, 'f) backup" where
  "set_storage_data m s = s\<lparr>m_device_json := map_option (\<lambda>d. d\<lparr>dj_storage := Some m\<rparr>) (m_device_json s)\<rparr>"

definition with_journal :: "('k, 'f) backup \<Rightarrow> (journal \<Rightarrow> ('k, 'f) backup outcome) \<Rightarrow> ('k, 'f) backup outcome" where
  "with_journal s k = (case m_storage_data s of None \<Rightarrow> Aborted | Some m \<Rightarrow> k m)"

definition to_kernel_b :: "(kernel_backup_package \<Rightarrow> kernel_backup_package) \<Rightarrow> ('k, 'f) backup \<Rightarrow> ('k, 'f) backup" where
  "to_kernel_b g s = s\<lparr>bk_kernel_tx := set_slot g (bk_kernel_tx s)\<rparr>"

definition commit_to_kernel_b :: "('k, 'f) backup \<Rightarrow> ('k, 'f) backup" where
  "commit_to_kernel_b s = s\<lparr>bk_kernel_tx := commit (kernel_backup_package0 (bk_clock s)) (bk_kernel_tx s)\<rparr>"


section \<open>The file\<close>

text \<open>\<open>terminate\<close>: the catch clauses of these functions call \<^verbatim>\<open>std::terminate\<close>.\<close>

definition initialize_key :: "('k, 'f) backup_lib \<Rightarrow> string \<Rightarrow> string \<Rightarrow> ('k, 'f) backup \<Rightarrow> ('k, 'f) backup outcome" where
  "initialize_key B key iv s = (case make_key B key iv of None \<Rightarrow> Aborted
     | Some k \<Rightarrow> Done (s\<lparr>m_device_json_cipher := Some k\<rparr>))"

definition initialize_key_info :: "('k, 'f) backup_lib \<Rightarrow> backup_cfg_package \<Rightarrow> ('k, 'f) backup \<Rightarrow> ('k, 'f) backup outcome" where
  "initialize_key_info B inp s = (case (bc_aes_iv inp, bc_aes_key inp) of
     (Some i, Some k) \<Rightarrow> initialize_key B k i s | _ \<Rightarrow> Aborted)"

definition save_device_json :: "('k, 'f) backup_lib \<Rightarrow> ('k, 'f) backup \<Rightarrow> ('k, 'f) backup outcome" where
  "save_device_json B s =
     (if \<not> m_device_json_updated s then Done s
      else case (m_device_json s, m_device_json_cipher s) of
        (Some d, Some k) \<Rightarrow>
          Done (s\<lparr>bk_files := (bk_files s)(m_device_json_path s \<mapsto> seal B k d), m_device_json_updated := False\<rparr>)
      | _ \<Rightarrow> Aborted)"

text \<open>The older name of the version is replaced; what is left must have both members.\<close>

definition upgrade_json :: "device_json \<Rightarrow> device_json option" where
  "upgrade_json d =
     (case dj_version d of None \<Rightarrow> Some d
      | Some v \<Rightarrow> (case get_uint 32 (Some v) of None \<Rightarrow> None
          | Some v \<Rightarrow> Some (d\<lparr>dj_protocol_version := Some v, dj_version := None\<rparr>)))"

definition parse_device_json :: "('k, 'f) backup_lib \<Rightarrow> 'f \<Rightarrow> ('k, 'f) backup \<Rightarrow> ('k, 'f) backup outcome" where
  "parse_device_json B f s =
     (case m_device_json_cipher s of None \<Rightarrow> Aborted
      | Some k \<Rightarrow> (case unseal B k f of None \<Rightarrow> Aborted
          | Some d \<Rightarrow> (case upgrade_json d of None \<Rightarrow> Aborted
              | Some d \<Rightarrow> if dj_storage d = None \<or> dj_protocol_version d = None then Aborted
                          else Done (s\<lparr>m_device_json := Some d\<rparr>))))"

definition initialize_device_json :: "('k, 'f) backup_lib \<Rightarrow> string \<Rightarrow> ('k, 'f) backup \<Rightarrow> ('k, 'f) backup outcome" where
  "initialize_device_json B path s =
     (let s = s\<lparr>m_device_json_path := path\<rparr> in
      and_then (assert_that (path \<noteq> []) s) (\<lambda>s.
        case bk_files s path of
          Some f \<Rightarrow> parse_device_json B f s
        | None \<Rightarrow> save_device_json B (s\<lparr>m_device_json := Some \<lparr>dj_version = None, dj_protocol_version = Some 1,
            dj_storage = Some []\<rparr>, m_device_json_updated := True\<rparr>)))"

definition configure_and_start_timer :: "ID16 \<Rightarrow> ('k, 'f) backup \<Rightarrow> ('k, 'f) backup" where
  "configure_and_start_timer periodic_interval s =
     (if 0 < periodic_interval then s\<lparr>m_timer_interval := 1000 * unat periodic_interval\<rparr> else s)"

definition initialize :: "('k, 'f) backup_lib \<Rightarrow> backup_cfg_package \<Rightarrow> ('k, 'f) backup \<Rightarrow> ('k, 'f) backup outcome" where
  "initialize B inp s =
     and_then (assert_that (bc_metadata_path inp \<noteq> []) s) (\<lambda>s.
     and_then (initialize_key_info B inp s) (\<lambda>s.
     and_then (initialize_device_json B (bc_metadata_path inp) s) (\<lambda>s.
       Done (configure_and_start_timer (bc_periodic_interval inp) s))))"

section \<open>Messages to the storage and the kernel\<close>

definition post_storage_delete_request_for_uuids :: "string list \<Rightarrow> ('k, 'f) backup \<Rightarrow> ('k, 'f) backup outcome" where
  "post_storage_delete_request_for_uuids uuids s =
     (if uuids = [] then Done s
      else case set_payload_string (bytes_of (join CHR '','' uuids)) ((slot (bk_storage_tx s))\<lparr>ks_cmd := cmd_del_uuids\<rparr>) of
        Done out \<Rightarrow> Done (s\<lparr>bk_storage_tx := commit kernel_storage_package0 (set_slot (\<lambda>_. out) (bk_storage_tx s))\<rparr>)
      | _ \<Rightarrow> Aborted)"

text \<open>A name that is no uuid makes \<^verbatim>\<open>out.uuid.parse\<close> throw; the slot keeps what was written.\<close>

definition post_kernel_notify_delete :: "poco \<Rightarrow> string \<Rightarrow> ID32 \<Rightarrow> ('k, 'f) backup \<Rightarrow> ('k, 'f) backup outcome" where
  "post_kernel_notify_delete L uuid v s =
     (let s = to_kernel_b (\<lambda>out. out\<lparr>kb_cmd := cmd_notify_delete, kb_data_version := v\<rparr>) s in
      case uuid_try_parse L uuid of None \<Rightarrow> Thrown s
      | Some u \<Rightarrow> Done (commit_to_kernel_b (to_kernel_b (\<lambda>out. out\<lparr>kb_uuid := u\<rparr>) s)))"

definition post_storage_remove_from_cache_request :: "poco \<Rightarrow> string \<Rightarrow> ('k, 'f) backup \<Rightarrow> ('k, 'f) backup outcome" where
  "post_storage_remove_from_cache_request L uuid s =
     (let s = s\<lparr>bk_cache_tx := set_slot (\<lambda>out. out\<lparr>ks_cmd := cmd_delete_from_cache\<rparr>) (bk_cache_tx s)\<rparr> in
      case uuid_try_parse L uuid of None \<Rightarrow> Thrown s
      | Some u \<Rightarrow> Done (s\<lparr>bk_cache_tx := commit kernel_storage_package0
                     (set_slot (\<lambda>out. out\<lparr>ks_uuid := u\<rparr>) (bk_cache_tx s))\<rparr>))"

definition post_kernel_send_uuids :: "(string \<times> char) list \<Rightarrow> ID32 \<Rightarrow> ('k, 'f) backup \<Rightarrow> ('k, 'f) backup" where
  "post_kernel_send_uuids obj rid s =
     commit_to_kernel_b (to_kernel_b (\<lambda>out. out\<lparr>kb_cmd := cmd_send_uuids, kb_request_id := rid,
       kb_sync_uuids := Some obj\<rparr>) s)"

section \<open>Entries of the journal\<close>

text \<open>Thirty days in microseconds.\<close>

definition deletion_delay :: int where
  "deletion_delay = 30 * 86400 * 1000000"

definition handle_add_in_device_json :: "poco \<Rightarrow> kernel_backup_package \<Rightarrow> ('k, 'f) backup \<Rightarrow> ('k, 'f) backup outcome" where
  "handle_add_in_device_json L inp s = with_journal s (\<lambda>m.
     let e = \<lparr>e_version = Some (uint (kb_data_version inp)), e_is_deleted = Some (kb_is_deleted inp),
              e_last_updated = Some (uint (kb_last_updated inp)),
              e_expiration_date = Some (uint (kb_expire_date inp))\<rparr> in
     Done ((set_storage_data (obj_set (uuid_to_string L (kb_uuid inp)) e m) s)\<lparr>m_device_json_updated := True\<rparr>))"

definition handle_add_user_info :: "poco \<Rightarrow> backup_user_manager_package \<Rightarrow> ('k, 'f) backup \<Rightarrow> ('k, 'f) backup outcome" where
  "handle_add_user_info L inp s =
     (if bu_last_updated inp = 0 then Done s
      else with_journal s (\<lambda>m.
        let e = \<lparr>e_version = Some (uint (bu_data_version inp)), e_is_deleted = Some False,
                 e_last_updated = Some (uint (bu_last_updated inp)), e_expiration_date = Some 0\<rparr> in
        Done ((set_storage_data (obj_set (uuid_to_string L (bu_uuid inp)) e m) s)\<lparr>m_device_json_updated := True\<rparr>)))"

definition handle_kernel_delete_from_device_json ::
    "poco \<Rightarrow> uuid \<Rightarrow> ID32 \<Rightarrow> u64 \<Rightarrow> ('k, 'f) backup \<Rightarrow> ('k, 'f) backup outcome" where
  "handle_kernel_delete_from_device_json L u version last_updated s = with_journal s (\<lambda>m.
     let n = uuid_to_string L u in
     case map_of m n of None \<Rightarrow> Done s
     | Some e \<Rightarrow>
         let e = e\<lparr>e_is_deleted := Some True, e_version := Some (uint version),
                   e_last_updated := Some (uint last_updated),
                   e_expiration_date := Some (bk_clock s + deletion_delay)\<rparr> in
         Done ((set_storage_data (obj_set n e m) s)\<lparr>m_device_json_updated := True\<rparr>))"

text \<open>
  One entry of \<open>clean_up_expired_data\<close>: the entry, and the names to forget and to delete from the
  storage. \<open>None\<close>: its date does not fit and the exception is on its way up.
\<close>

definition handle_expired_data ::
    "int \<Rightarrow> string \<Rightarrow> json_entry \<Rightarrow> string list \<Rightarrow> string list \<Rightarrow> (json_entry \<times> string list \<times> string list) option" where
  "handle_expired_data now uuid obj d_uuids s_uuids =
     (case get_int64 (e_expiration_date obj) of None \<Rightarrow> None
      | Some e \<Rightarrow>
          if e \<noteq> 0 \<and> now \<ge> e then
            case e_is_deleted obj of
              None \<Rightarrow> Some (obj, d_uuids, s_uuids)
            | Some True \<Rightarrow> Some (obj, d_uuids @ [uuid], s_uuids)
            | Some False \<Rightarrow> Some (obj\<lparr>e_is_deleted := Some True, e_expiration_date := Some (now + deletion_delay)\<rparr>,
                d_uuids, s_uuids @ [uuid])
          else Some (obj, d_uuids, s_uuids))"

text \<open>The loop: the entries changed in place so far, and whether it ended by an exception.\<close>

fun clean_up_loop :: "int \<Rightarrow> journal \<Rightarrow> string list \<Rightarrow> string list \<Rightarrow> bool \<times> journal \<times> string list \<times> string list" where
  "clean_up_loop now [] d_uuids s_uuids = (True, [], d_uuids, s_uuids)"
| "clean_up_loop now ((n, u) # m) d_uuids s_uuids =
     (if e_expiration_date u = None then
        case clean_up_loop now m d_uuids s_uuids of (ok, m, ds, ss) \<Rightarrow> (ok, (n, u) # m, ds, ss)
      else case handle_expired_data now n u d_uuids s_uuids of
          None \<Rightarrow> (False, (n, u) # m, d_uuids, s_uuids)
        | Some (u, d_uuids, s_uuids) \<Rightarrow>
            (case clean_up_loop now m d_uuids s_uuids of (ok, m, ds, ss) \<Rightarrow> (ok, (n, u) # m, ds, ss)))"

definition clean_up_expired_data :: "('k, 'f) backup \<Rightarrow> ('k, 'f) backup outcome" where
  "clean_up_expired_data s = with_journal s (\<lambda>m.
     let (ok, m, d_uuids, s_uuids) = clean_up_loop (bk_clock s) m [] [];
         s = set_storage_data m s in
     if \<not> ok then Thrown s
     else and_then (post_storage_delete_request_for_uuids s_uuids s) (\<lambda>s.
       let s = set_storage_data (fold obj_remove d_uuids m) s in
       Done (if s_uuids \<noteq> [] \<or> d_uuids \<noteq> [] then s\<lparr>m_device_json_updated := True\<rparr> else s)))"

section \<open>Sending the journal\<close>

text \<open>\<open>None\<close> stands for an exception of \<^verbatim>\<open>getValue\<close>.\<close>

definition construct_journal_info_line :: "json_entry \<Rightarrow> int \<Rightarrow> string \<Rightarrow> string option" where
  "construct_journal_info_line obj last_seen uuid =
     (case (e_last_updated obj, e_version obj, e_is_deleted obj) of
        (Some lu, Some v, Some del) \<Rightarrow>
          (case get_uint 64 (Some lu) of None \<Rightarrow> None
           | Some lu \<Rightarrow>
               if timestamp lu > last_seen
               then Some (uuid @ '' '' @ decimal_int (timestamp lu) @ '' ''
                 @ (if del then ''d'' else ''s'') @ '' '' @ decimal_int v @ [CHR 0x0A])
               else Some [])
      | _ \<Rightarrow> Some [])"

definition send_journal_info_by_last_seen_time :: "int \<Rightarrow> journal \<Rightarrow> string" where
  "send_journal_info_by_last_seen_time last_seen m =
     concat (map (\<lambda>(n, u). case construct_journal_info_line u last_seen n of None \<Rightarrow> [] | Some l \<Rightarrow> l) m)"

definition send_journal_info_for_uuids ::
    "poco \<Rightarrow> ('k, 'f) backup_lib \<Rightarrow> string \<Rightarrow> int \<Rightarrow> journal \<Rightarrow> string option" where
  "send_journal_info_for_uuids L B msg last_seen m =
     (case json_uuids B msg of None \<Rightarrow> None
      | Some None \<Rightarrow> Some []
      | Some (Some uuids) \<Rightarrow> Some (concat (map (\<lambda>j.
          case map_of m j of None \<Rightarrow> []
          | Some u \<Rightarrow> (case construct_journal_info_line u last_seen j of None \<Rightarrow> [] | Some l \<Rightarrow> l))
          (tokenize L uuids CHR '',''))))"

definition handle_kernel_send_journal_info ::
    "poco \<Rightarrow> ('k, 'f) backup_lib \<Rightarrow> kernel_backup_package \<Rightarrow> ('k, 'f) backup \<Rightarrow> ('k, 'f) backup outcome" where
  "handle_kernel_send_journal_info L B inp s =
     and_then (assert_that (kb_cmd inp = cmd_send_journal_info) s) (\<lambda>s.
       let answer = (\<lambda>j s. case set_payload_string (bytes_of j) ((slot (bk_kernel_tx s))\<lparr>
                kb_cmd := cmd_get_journal_info, kb_request_id := kb_request_id inp\<rparr>) of
              Done out \<Rightarrow> Done (commit_to_kernel_b (to_kernel_b (\<lambda>_. out) s)) | _ \<Rightarrow> Aborted) in
       case p_message inp of
         None \<Rightarrow> with_journal s (\<lambda>m. answer (send_journal_info_by_last_seen_time (kb_time inp) m) s)
       | Some b \<Rightarrow> (case c_str b of None \<Rightarrow> Undef
           | Some msg \<Rightarrow>
               (case m_storage_data s of None \<Rightarrow> answer [] s
                | Some m \<Rightarrow> (case send_journal_info_for_uuids L B msg (kb_time inp) m of
                    None \<Rightarrow> answer [] s | Some j \<Rightarrow> answer j s))))"


section \<open>Receiving a journal\<close>

definition update_info_for_deleted_uuid :: "poco \<Rightarrow> string \<Rightarrow> string \<Rightarrow> string \<Rightarrow> ('k, 'f) backup \<Rightarrow> ('k, 'f) backup outcome" where
  "update_info_for_deleted_uuid L uuid last_updated dversion s =
     (let v = from_string 32 dversion in
      case uuid_try_parse L uuid of None \<Rightarrow> Thrown s
      | Some u \<Rightarrow> handle_kernel_delete_from_device_json L u (of_nat v) (of_nat (from_string 64 last_updated)) s)"

text \<open>The answer, or \<open>None\<close> for an exception of \<^verbatim>\<open>getValue\<close>.\<close>

definition should_get_update :: "json_entry \<Rightarrow> string \<Rightarrow> string \<Rightarrow> bool option" where
  "should_get_update obj version last_updated =
     (let pu = timestamp (int (from_string 64 last_updated));
          pv = int (from_string 32 version) in
      case get_uint 32 (e_version obj) of None \<Rightarrow> None
      | Some ov \<Rightarrow>
          if ov < pv then Some True
          else if ov = pv then
            (case get_uint 64 (e_last_updated obj) of None \<Rightarrow> None | Some ou \<Rightarrow> Some (timestamp ou < pu))
          else Some False)"

text \<open>
  The lines of a received journal: the names to ask for with \<open>'s'\<close> (new) or \<open>'u'\<close> (newer), and the
  names to delete from the storage.
\<close>

fun journal_lines :: "poco \<Rightarrow> ID32 \<Rightarrow> string list \<Rightarrow> (string \<times> char) list \<Rightarrow> string list \<Rightarrow> ('k, 'f) backup \<Rightarrow>
    ((string \<times> char) list \<Rightarrow> string list \<Rightarrow> ('k, 'f) backup \<Rightarrow> ('k, 'f) backup outcome) \<Rightarrow> ('k, 'f) backup outcome" where
  "journal_lines L sclass [] obj d s k = k obj d s"
| "journal_lines L sclass (l # ls) obj d s k =
     (case tokenize L l CHR '' '' of
        [n, lu, o', v] \<Rightarrow>
          if o' = ''d'' then
            and_then (update_info_for_deleted_uuid L n lu v s) (\<lambda>s.
            and_then (post_kernel_notify_delete L n (of_nat (from_string 64 v)) s) (\<lambda>s.
              journal_lines L sclass ls obj (d @ [n]) s k))
          else if o' = ''s'' then
            (case m_storage_data s of None \<Rightarrow> Thrown s
             | Some m \<Rightarrow>
                (case (case map_of m n of
                         None \<Rightarrow> Some (if sclass = 1 then obj_set n (CHR ''s'') obj else obj)
                       | Some e \<Rightarrow> map_option (\<lambda>b. if b then obj_set n (CHR ''u'') obj else obj) (should_get_update e v lu)) of
                   None \<Rightarrow> Thrown s
                 | Some obj \<Rightarrow> and_then (post_storage_remove_from_cache_request L n s) (\<lambda>s.
                     journal_lines L sclass ls obj d s k)))
          else Aborted
      | _ \<Rightarrow> Aborted)"

definition handle_kernel_get_journal_info :: "poco \<Rightarrow> kernel_backup_package \<Rightarrow> ('k, 'f) backup \<Rightarrow> ('k, 'f) backup outcome" where
  "handle_kernel_get_journal_info L inp s =
     (case p_message inp of None \<Rightarrow> Aborted
      | Some b \<Rightarrow> (case c_str b of None \<Rightarrow> Undef
          | Some msg \<Rightarrow> journal_lines L (sync_class inp) (get_lines [] msg) [] [] s (\<lambda>obj d s.
              and_then (post_storage_delete_request_for_uuids d s) (\<lambda>s.
                Done (post_kernel_send_uuids obj (kb_request_id inp) s)))))"

section \<open>Requests\<close>

text \<open>\<^verbatim>\<open>catch (...)\<close> around the whole function: what was written to the slot stays there.\<close>

definition handle_storage_get_uuid :: "poco \<Rightarrow> kernel_storage_package \<Rightarrow> ('k, 'f) backup \<Rightarrow> ('k, 'f) backup" where
  "handle_storage_get_uuid L inp s =
     (case m_storage_data s of None \<Rightarrow> s
      | Some m \<Rightarrow> (case map_of m (uuid_to_string L (ks_uuid inp)) of None \<Rightarrow> s
          | Some u \<Rightarrow>
              let s = to_kernel_b (\<lambda>out. set_payload inp (out\<lparr>kb_request_id := ks_request_id inp,
                        kb_uuid := ks_uuid inp, kb_cmd := ks_cmd inp\<rparr>)) s in
              (case get_uint 32 (e_version u) of None \<Rightarrow> s
               | Some v \<Rightarrow>
                  let s = to_kernel_b (\<lambda>out. out\<lparr>kb_data_version := of_int v\<rparr>) s in
                  (case get_uint 64 (e_last_updated u) of None \<Rightarrow> s
                   | Some lu \<Rightarrow>
                      let s = to_kernel_b (\<lambda>out. out\<lparr>kb_last_updated := of_int lu\<rparr>) s in
                      (case (if e_expiration_date u = None then Some 0 else get_uint 64 (e_expiration_date u)) of
                         None \<Rightarrow> s
                       | Some e \<Rightarrow> commit_to_kernel_b (to_kernel_b (\<lambda>out. out\<lparr>kb_expire_date := of_int e\<rparr>) s))))))"

definition handle_kernel_dump_user_info ::
    "('k, 'f) backup_lib \<Rightarrow> kernel_backup_package \<Rightarrow> ('k, 'f) backup \<Rightarrow> ('k, 'f) backup outcome" where
  "handle_kernel_dump_user_info B inp s =
     and_then (if kb_key inp \<noteq> [] \<and> kb_iv inp \<noteq> []
               then and_then (initialize_key B (kb_key inp) (kb_iv inp) s)
                      (\<lambda>s. Done (s\<lparr>m_device_json_updated := True\<rparr>))
               else Done s) (\<lambda>s.
     and_then (save_device_json B s) (\<lambda>s.
       Done (commit_to_kernel_b (to_kernel_b (\<lambda>out. out\<lparr>kb_cmd := cmd_save_confirm,
         kb_request_id := kb_request_id inp\<rparr>) s))))"

section \<open>The task\<close>

definition backup_consume :: "'a fifo \<Rightarrow> ('a fifo \<Rightarrow> ('k, 'f) backup) \<Rightarrow> ('k, 'f) backup outcome" where
  "backup_consume f put = (case fifo_pop f of Done f' \<Rightarrow> Done (put f') | _ \<Rightarrow> Aborted)"

definition backup_process_kernel_input ::
    "poco \<Rightarrow> ('k, 'f) backup_lib \<Rightarrow> kernel_backup_package \<Rightarrow> ('k, 'f) backup \<Rightarrow> ('k, 'f) backup outcome" where
  "backup_process_kernel_input L B inp s =
     (let c = kb_cmd inp in
      if c = cmd_send_journal_info then handle_kernel_send_journal_info L B inp s
      else if c = cmd_del then handle_kernel_delete_from_device_json L (kb_uuid inp) (kb_data_version inp) (kb_last_updated inp) s
      else if c = cmd_save then handle_add_in_device_json L inp s
      else if c = cmd_get_journal_info then handle_kernel_get_journal_info L inp s
      else if c = cmd_dump_user_info then handle_kernel_dump_user_info B inp s
      else Done s)"

definition backup_handle_kernel_input :: "poco \<Rightarrow> ('k, 'f) backup_lib \<Rightarrow> ('k, 'f) backup \<Rightarrow> ('k, 'f) backup outcome" where
  "backup_handle_kernel_input L B s = (case fifo_front (bk_kernel_rx s) of None \<Rightarrow> Done s
     | Some inp \<Rightarrow>
         if m_device_json s = None then Done s
         else and_then (backup_process_kernel_input L B inp s) (\<lambda>s.
           backup_consume (bk_kernel_rx s) (\<lambda>f. s\<lparr>bk_kernel_rx := f\<rparr>)))"

text \<open>\<open>finalize\<close> is left in the channel for the end of the task.\<close>

definition backup_handle_user_manager_input :: "poco \<Rightarrow> ('k, 'f) backup \<Rightarrow> ('k, 'f) backup outcome" where
  "backup_handle_user_manager_input L s = (case fifo_front (bk_user_manager_rx s) of None \<Rightarrow> Done s
     | Some inp \<Rightarrow>
         if bu_cmd inp = cmd_finalize then Done s
         else and_then (if bu_cmd inp = cmd_save \<or> bu_cmd inp = cmd_update then handle_add_user_info L inp s else Done s)
           (\<lambda>s. backup_consume (bk_user_manager_rx s) (\<lambda>f. s\<lparr>bk_user_manager_rx := f\<rparr>)))"

definition backup_handle_storage_input :: "poco \<Rightarrow> ('k, 'f) backup \<Rightarrow> ('k, 'f) backup outcome" where
  "backup_handle_storage_input L s = (case fifo_front (bk_storage_rx s) of None \<Rightarrow> Done s
     | Some inp \<Rightarrow>
         let s = (if ks_cmd inp = cmd_get_uuid then handle_storage_get_uuid L inp s else s) in
         backup_consume (bk_storage_rx s) (\<lambda>f. s\<lparr>bk_storage_rx := f\<rparr>))"

definition backup_handle_config_input :: "('k, 'f) backup_lib \<Rightarrow> ('k, 'f) backup \<Rightarrow> ('k, 'f) backup outcome" where
  "backup_handle_config_input B s = (case fifo_front (bk_config_rx s) of None \<Rightarrow> Done s
     | Some inp \<Rightarrow>
         and_then (if bc_cmd inp = cmd_backup_cfg then initialize B inp s else Done s)
           (\<lambda>s. backup_consume (bk_config_rx s) (\<lambda>f. s\<lparr>bk_config_rx := f\<rparr>)))"

text \<open>The payload is passed on with whatever command the slot holds.\<close>

definition backup_handle_router_input :: "('k, 'f) backup \<Rightarrow> ('k, 'f) backup outcome" where
  "backup_handle_router_input s = (case fifo_front (bk_router_rx s) of None \<Rightarrow> Done s
     | Some inp \<Rightarrow>
         let s = commit_to_kernel_b (to_kernel_b (set_payload inp) s) in
         backup_consume (bk_router_rx s) (\<lambda>f. s\<lparr>bk_router_rx := f\<rparr>))"

definition backup_on_timer :: "('k, 'f) backup \<Rightarrow> ('k, 'f) backup" where
  "backup_on_timer s = s\<lparr>m_timeout := True\<rparr>"

definition on_clean_up_timer :: "('k, 'f) backup \<Rightarrow> ('k, 'f) backup" where
  "on_clean_up_timer s = s\<lparr>m_clean_up_timeout := True\<rparr>"

definition handle_timer_expiration :: "('k, 'f) backup_lib \<Rightarrow> ('k, 'f) backup \<Rightarrow> ('k, 'f) backup outcome" where
  "handle_timer_expiration B s =
     (if m_timeout s then and_then (save_device_json B s) (\<lambda>s. Done (s\<lparr>m_timeout := False\<rparr>)) else Done s)"

definition handle_clean_up_time_expiration :: "('k, 'f) backup \<Rightarrow> ('k, 'f) backup outcome" where
  "handle_clean_up_time_expiration s =
     (if m_clean_up_timeout s \<and> m_device_json s \<noteq> None
      then and_then (clean_up_expired_data s) (\<lambda>s. Done (s\<lparr>m_clean_up_timeout := False\<rparr>)) else Done s)"

definition backup_turn :: "poco \<Rightarrow> ('k, 'f) backup_lib \<Rightarrow> ('k, 'f) backup \<Rightarrow> ('k, 'f) backup outcome" where
  "backup_turn L B s =
     and_then (backup_handle_config_input B s) (\<lambda>s.
     and_then (backup_handle_kernel_input L B s) (\<lambda>s.
     and_then (backup_handle_router_input s) (\<lambda>s.
     and_then (backup_handle_storage_input L s) (\<lambda>s.
     and_then (backup_handle_user_manager_input L s) (\<lambda>s.
     and_then (handle_timer_expiration B s) handle_clean_up_time_expiration)))))"

text \<open>
  The end of \<^verbatim>\<open>runTask\<close>: the loop over the rest of the kernel's messages, \<open>None\<close> if it never ends, and the
  wait for \<open>finalize\<close>, \<open>None\<close> while the user manager has not sent it.
\<close>

partial_function (option) drain_kernel ::
    "poco \<Rightarrow> ('k, 'f) backup_lib \<Rightarrow> ('k, 'f) backup \<Rightarrow> ('k, 'f) backup outcome option" where
  "drain_kernel L B s =
     (if has_data (bk_kernel_rx s) then
        (case backup_handle_kernel_input L B s of
           Done s \<Rightarrow> drain_kernel L B s
         | r \<Rightarrow> Some r)
      else Some (Done s))"

fun find_finalize :: "poco \<Rightarrow> backup_user_manager_package list \<Rightarrow> ('k, 'f) backup \<Rightarrow> ('k, 'f) backup outcome option" where
  "find_finalize L [] s = None"
| "find_finalize L (inp # ps) s =
     (if bu_cmd inp = cmd_finalize then Some (handle_add_user_info L inp s)
      else find_finalize L ps (s\<lparr>bk_user_manager_rx := (bk_user_manager_rx s)\<lparr>m_internal := tl (m_internal (bk_user_manager_rx s))\<rparr>\<rparr>))"

definition wait_for_final_messages :: "poco \<Rightarrow> ('k, 'f) backup \<Rightarrow> ('k, 'f) backup outcome option" where
  "wait_for_final_messages L s = find_finalize L (butlast (m_internal (bk_user_manager_rx s))) s"

definition backup_shutdown :: "poco \<Rightarrow> ('k, 'f) backup_lib \<Rightarrow> ('k, 'f) backup \<Rightarrow> ('k, 'f) backup outcome option" where
  "backup_shutdown L B s =
     (case drain_kernel L B s of
        Some (Done s) \<Rightarrow>
          (case wait_for_final_messages L s of
             Some r \<Rightarrow> Some (and_then r (save_device_json B))
           | None \<Rightarrow> None)
      | r \<Rightarrow> r)"

end
