(* ===== verification/Db_Json.thy ===== *)
theory Db_Json
  imports Package "HOL-Library.AList"
begin

text \<open>
  \<^verbatim>\<open>platform/db_json.cpp\<close>: the store of named payloads in a storage directory and a cache directory,
  with the sizes it accounts for. A directory is the list of its files in the order
  \<^verbatim>\<open>Poco::File::list\<close> gives them; a file is its bytes and its time of modification. Names are single
  path components other than \<^verbatim>\<open>cache\<close>. \<open>db_clock\<close> is what \<^verbatim>\<open>Poco::Timestamp()\<close> reads;
  \<open>read_fails\<close>, \<open>write_fails\<close> and \<open>cache_write_fails\<close> are the names of files that cannot be opened,
  \<open>io_error\<close> the message and the code of the exception a failing copy of a file throws. All of them belong to the environment. The locale \<open>keyed_store\<close> is what a user of the store relies on.
\<close>

section \<open>Files\<close>

record disk_file =
  f_bytes :: "byte list"
  f_mtime :: int

type_synonym dir = "(string \<times> disk_file) list"

definition file_exists :: "string \<Rightarrow> dir \<Rightarrow> bool" where
  "file_exists n d \<longleftrightarrow> map_of d n \<noteq> None"

text \<open>\<^verbatim>\<open>Poco::File::getSize\<close> of an existing file, as \<^verbatim>\<open>unsigned long\<close>.\<close>

definition file_size :: "disk_file \<Rightarrow> u64" where
  "file_size f = of_nat (length (f_bytes f))"

text \<open>Writing truncates a file that exists; a new one is listed last.\<close>

definition file_write :: "string \<Rightarrow> byte list \<Rightarrow> int \<Rightarrow> dir \<Rightarrow> dir" where
  "file_write n bs now d = AList.update n \<lparr>f_bytes = bs, f_mtime = now\<rparr> d"

definition file_remove :: "string \<Rightarrow> dir \<Rightarrow> dir" where
  "file_remove n d = AList.delete n d"

section \<open>State\<close>

record db_json =
  m_db_dir :: dir
  m_cache_dir :: dir
  m_cache_size :: u64
  m_storage_size :: u64
  m_cache_age :: u64
  m_cache_limit :: u64
  m_storage_limit :: u64
  db_clock :: int
  read_fails :: "string list"
  write_fails :: "string list"
  cache_write_fails :: "string list"
  io_error :: "string \<times> int"

text \<open>
  Exceptions: a \<^verbatim>\<open>Poco::Exception\<close> with its message and code, a failed \<^verbatim>\<open>poco_assert\<close> (also a
  \<^verbatim>\<open>Poco::Exception\<close>), an exception of the standard library, and undefined behaviour.
\<close>

datatype db_error = Poco_exception string int | Assertion_violation | Std_exception | Undefined

type_synonym 'a db_result = "db_error + 'a"

text \<open>\<open>m_storage_limit\<close> is an \<^verbatim>\<open>int64_t\<close>: its sign bit means no limit.\<close>

definition limited :: "db_json \<Rightarrow> bool" where
  "limited s \<longleftrightarrow> 0 \<le>s m_storage_limit s"

definition db_new :: "dir \<Rightarrow> dir \<Rightarrow> int \<Rightarrow> u64 \<Rightarrow> u64 \<Rightarrow> u64 \<Rightarrow> u64 \<Rightarrow> u64 \<Rightarrow> db_json" where
  "db_new db_dir cache_dir now cache_size storage_size l t m =
     \<lparr>m_db_dir = db_dir, m_cache_dir = cache_dir, m_cache_size = cache_size,
      m_storage_size = storage_size, m_cache_age = l * 60000000, m_cache_limit = t,
      m_storage_limit = m, db_clock = now, read_fails = [], write_fails = [], cache_write_fails = [],
      io_error = ([], 0)\<rparr>"

section \<open>Operations\<close>

definition look_up_in_cache :: "string \<Rightarrow> db_json \<Rightarrow> bool" where
  "look_up_in_cache n s \<longleftrightarrow> file_exists n (m_cache_dir s)"

definition look_up :: "string \<Rightarrow> bool \<Rightarrow> db_json \<Rightarrow> bool" where
  "look_up n should_look_up_cache s \<longleftrightarrow>
     should_look_up_cache \<and> look_up_in_cache n s \<or> file_exists n (m_db_dir s)"

text \<open>
  The length goes through \<^verbatim>\<open>uint32_t\<close> into \<^verbatim>\<open>int32_t\<close>; a negative one makes \<^verbatim>\<open>new char[length + 1]\<close>
  throw, and the increment overflows at the largest one.
\<close>

definition read_package :: "byte list \<Rightarrow> package db_result" where
  "read_package bs =
     (let length = (of_nat (length bs) :: ID32) in
      if length = 0 then Inr default_package
      else if length = 0x7FFFFFFF then Inl Undefined
      else if length <s 0 then Inl Std_exception
      else case set_payload_owned (take (unat length) bs @ [0]) (resize length default_package) of
             Done dp \<Rightarrow> Inr dp | _ \<Rightarrow> Inl Assertion_violation)"

definition db_get :: "string \<Rightarrow> db_json \<Rightarrow> package db_result" where
  "db_get n s =
     (if \<not> look_up n True s then Inl (Poco_exception ''Not found!'' 0)
      else case map_of (if look_up_in_cache n s then m_cache_dir s else m_db_dir s) n of
             None \<Rightarrow> Inl Assertion_violation
           | Some f \<Rightarrow> if n \<in> set (read_fails s) then Inl Assertion_violation
                       else read_package (f_bytes f))"

text \<open>The bytes \<^verbatim>\<open>ofs.write(content.message, (int32_t)content.size)\<close> reads.\<close>

definition content_bytes :: "'a package_scheme \<Rightarrow> byte list option" where
  "content_bytes content = (if p_size content <s 0 then None else payload_of content)"

definition create :: "string \<Rightarrow> 'a package_scheme \<Rightarrow> db_json \<Rightarrow> db_json db_result" where
  "create n content s =
     (if limited s \<and> m_storage_size s + ucast (p_size content) > m_storage_limit s
      then Inl (Poco_exception ''Failed to save: No space in storage'' 28)
      else case content_bytes content of None \<Rightarrow> Inl Undefined
      | Some bs \<Rightarrow>
          if n \<in> set (write_fails s) then Inl (Poco_exception (''Could not save in '' @ n) 0)
          else Inr (s\<lparr>m_db_dir := file_write n bs (db_clock s) (m_db_dir s),
                      m_storage_size := m_storage_size s + ucast (p_size content)\<rparr>))"

text \<open>Here the state of the stream is not checked.\<close>

definition add_in_cache :: "string \<Rightarrow> 'a package_scheme \<Rightarrow> db_json \<Rightarrow> db_json db_result" where
  "add_in_cache n content s =
     (case content_bytes content of None \<Rightarrow> Inl Undefined
      | Some bs \<Rightarrow>
          Inr (s\<lparr>m_cache_dir := (if n \<in> set (cache_write_fails s) then m_cache_dir s
                                 else file_write n bs (db_clock s) (m_cache_dir s)),
                 m_cache_size := m_cache_size s + ucast (p_size content)\<rparr>))"

definition delete_uuid_from_cache :: "string \<Rightarrow> db_json \<Rightarrow> db_json" where
  "delete_uuid_from_cache n s =
     (case map_of (m_cache_dir s) n of None \<Rightarrow> s
      | Some f \<Rightarrow> s\<lparr>m_cache_size := m_cache_size s - file_size f,
                     m_cache_dir := file_remove n (m_cache_dir s)\<rparr>)"

definition delete_uuid :: "string \<Rightarrow> db_json \<Rightarrow> db_json" where
  "delete_uuid n s =
     (let s = (if look_up_in_cache n s then delete_uuid_from_cache n s else s) in
      case map_of (m_db_dir s) n of None \<Rightarrow> s
      | Some f \<Rightarrow> s\<lparr>m_storage_size := m_storage_size s - file_size f,
                     m_db_dir := file_remove n (m_db_dir s)\<rparr>)"

definition reduce_uuid_size :: "string \<Rightarrow> db_json \<Rightarrow> db_json" where
  "reduce_uuid_size n s =
     (case map_of (m_db_dir s) n of None \<Rightarrow> s
      | Some f \<Rightarrow> s\<lparr>m_storage_size := m_storage_size s - file_size f\<rparr>)"

text \<open>\<^verbatim>\<open>m_storage_size + s > m_storage_limit\<close> converts the limit to \<^verbatim>\<open>uint64_t\<close>, a negative one too.\<close>

definition copy :: "string \<Rightarrow> string \<Rightarrow> db_json \<Rightarrow> db_json db_result" where
  "copy old_n new_n s =
     (case map_of (m_db_dir s) old_n of None \<Rightarrow> Inl Assertion_violation
      | Some f \<Rightarrow>
          if m_storage_size s + file_size f > m_storage_limit s
          then Inl (Poco_exception ''Failed to copy: No space in storage'' 28)
          else if old_n \<in> set (read_fails s) \<or> new_n \<in> set (write_fails s)
          then Inl (Poco_exception (fst (io_error s)) (snd (io_error s)))
          else Inr (s\<lparr>m_db_dir := file_write new_n (f_bytes f) (db_clock s) (m_db_dir s),
                      m_storage_size := m_storage_size s + file_size f\<rparr>))"

definition get_all_names :: "db_json \<Rightarrow> string list" where
  "get_all_names s = map fst (m_cache_dir s) @ map fst (m_db_dir s)"

text \<open>The names separated by commas; \<open>is_uuid\<close> is \<^verbatim>\<open>Poco::UUID::tryParse\<close>.\<close>

fun join_names :: "(string \<Rightarrow> bool) \<Rightarrow> string \<Rightarrow> string list \<Rightarrow> string" where
  "join_names is_uuid uuids [] = uuids"
| "join_names is_uuid uuids (i # v) =
     join_names is_uuid
       (if is_uuid i then if uuids = [] then uuids @ i else uuids @ '','' @ i else uuids) v"

definition get_all_uuids :: "(string \<Rightarrow> bool) \<Rightarrow> db_json \<Rightarrow> string" where
  "get_all_uuids is_uuid s = join_names is_uuid [] (get_all_names s)"

text \<open>
  \<open>cleanup_cache\<close>: the files in the order of their modification (files of the same time in the order
  of the directory, where \<^verbatim>\<open>std::sort\<close> promises nothing), removed from the front.
\<close>

definition too_old :: "db_json \<Rightarrow> disk_file \<Rightarrow> bool" where
  "too_old s f \<longleftrightarrow> m_cache_age s \<noteq> 0 \<and> f_mtime f < db_clock s - sint (m_cache_age s)"

fun cleanup_loop :: "dir \<Rightarrow> db_json \<Rightarrow> db_json" where
  "cleanup_loop [] s = s"
| "cleanup_loop (b # v) s =
     (if too_old s (snd b) \<or> m_cache_size s > m_cache_limit s
      then cleanup_loop v (s\<lparr>m_cache_size := m_cache_size s - file_size (snd b),
                             m_cache_dir := file_remove (fst b) (m_cache_dir s)\<rparr>)
      else s)"

definition cleanup_cache :: "db_json \<Rightarrow> db_json" where
  "cleanup_cache s = cleanup_loop (sort_key (\<lambda>b. f_mtime (snd b)) (m_cache_dir s)) s"

text \<open>\<^verbatim>\<open>Poco::File::moveTo\<close> copies the file and removes the original; files that cannot be moved stay.\<close>

fun move_loop :: "dir \<Rightarrow> bool \<Rightarrow> db_json \<Rightarrow> bool \<times> db_json" where
  "move_loop [] status s = (status, s)"
| "move_loop (b # v) status s =
     (if fst b \<in> set (read_fails s) \<or> fst b \<in> set (write_fails s) then move_loop v False s
      else move_loop v status
        (s\<lparr>m_db_dir := file_write (fst b) (f_bytes (snd b)) (db_clock s) (m_db_dir s),
           m_cache_dir := file_remove (fst b) (m_cache_dir s)\<rparr>))"

definition move_cache_to_storage :: "db_json \<Rightarrow> bool \<times> db_json" where
  "move_cache_to_storage s =
     (let (status, s) = move_loop (m_cache_dir s) True s in (status, s\<lparr>m_cache_size := 0\<rparr>))"

definition get_cache_size :: "db_json \<Rightarrow> u64" where
  "get_cache_size s = m_cache_size s"

definition get_storage_size :: "db_json \<Rightarrow> u64" where
  "get_storage_size s = m_storage_size s"

section \<open>Directories\<close>

definition dir_size :: "dir \<Rightarrow> nat" where
  "dir_size d = sum_list (map (\<lambda>b. length (f_bytes (snd b))) d)"

lemma dir_size_simps [simp]:
  "dir_size [] = 0" "dir_size (b # d) = length (f_bytes (snd b)) + dir_size d"
  by (simp_all add: dir_size_def)

lemma map_of_write [simp]:
  "map_of (file_write n bs now d) = (map_of d)(n \<mapsto> \<lparr>f_bytes = bs, f_mtime = now\<rparr>)"
  by (simp add: file_write_def update_conv')

lemma map_of_remove [simp]: "map_of (file_remove n d) = (map_of d)(n := None)"
  by (simp add: file_remove_def delete_conv' fun_eq_iff)

lemma distinct_write [simp]: "distinct (map fst d) \<Longrightarrow> distinct (map fst (file_write n bs now d))"
  unfolding file_write_def by (rule distinct_update)

lemma distinct_remove [simp]: "distinct (map fst d) \<Longrightarrow> distinct (map fst (file_remove n d))"
  unfolding file_remove_def by (rule distinct_delete)

lemma dir_size_remove_absent: "map_of d n = None \<Longrightarrow> file_remove n d = d"
  by (simp add: file_remove_def delete_id map_of_eq_None_iff)

lemma dir_size_remove:
  "distinct (map fst d) \<Longrightarrow> map_of d n = Some f \<Longrightarrow>
   dir_size (file_remove n d) + length (f_bytes f) = dir_size d"
  by (induction d) (auto simp: file_remove_def delete_id map_of_eq_None_iff image_iff split: if_splits)

lemma dir_size_write_new:
  "map_of d n = None \<Longrightarrow> dir_size (file_write n bs now d) = dir_size d + length bs"
  by (induction d) (auto simp: file_write_def split: if_splits)

lemma dir_size_write_old:
  "distinct (map fst d) \<Longrightarrow> map_of d n = Some f \<Longrightarrow>
   dir_size (file_write n bs now d) + length (f_bytes f) = dir_size d + length bs"
  by (induction d) (auto simp: file_write_def split: if_splits)

section \<open>Accounting\<close>

text \<open>The sizes in memory are those of the directories (modulo the width of the counters).\<close>

definition accounted :: "db_json \<Rightarrow> bool" where
  "accounted s \<longleftrightarrow> distinct (map fst (m_db_dir s)) \<and> distinct (map fst (m_cache_dir s))
     \<and> m_storage_size s = of_nat (dir_size (m_db_dir s))
     \<and> m_cache_size s = of_nat (dir_size (m_cache_dir s))"

lemma unat_of_nonneg:
  assumes "\<not> (w :: 'a::len word) <s 0"
  shows "unat w < 2 ^ (LENGTH('a) - 1)"
proof -
  obtain k where k: "LENGTH('a) = Suc k"
    by (cases "LENGTH('a)") auto
  have "sint w \<ge> 0"
    using assms by (simp add: word_sless_alt)
  then have "\<not> bit (uint w) k"
    by (simp add: sint_uint signed_take_bit_nonnegative_iff k)
  moreover have "take_bit (Suc k) (uint w) = uint w"
    unfolding k [symmetric] using uint_lt2p [of w] by (simp add: take_bit_int_eq_self)
  ultimately have "uint w = take_bit k (uint w)"
    using take_bit_Suc_from_most [of k "uint w"] by simp
  then have "uint w < 2 ^ k"
    by (metis take_bit_int_less_exp)
  then have "int (unat w) < int (2 ^ k)"
    by simp
  then show ?thesis
    unfolding k by (simp; linarith)
qed

lemma content_bytes_size:
  assumes "content_bytes content = Some bs"
  shows "ucast (p_size content) = (of_nat (length bs) :: u64)" and "length bs < 2 ^ 31"
proof -
  have len: "length bs = unat (p_size content)" and nn: "\<not> p_size content <s 0"
    using assms by (auto simp: content_bytes_def split: if_splits dest: payload_of_length)
  then show "ucast (p_size content) = (of_nat (length bs) :: u64)"
    by simp
  from len unat_of_nonneg [OF nn] show "length bs < 2 ^ 31"
    by simp
qed

lemma create_Inr:
  "create n content s = Inr s' \<longleftrightarrow>
     (\<exists>bs. content_bytes content = Some bs \<and> n \<notin> set (write_fails s)
       \<and> (limited s \<longrightarrow> m_storage_size s + of_nat (length bs) \<le> m_storage_limit s)
       \<and> s' = s\<lparr>m_db_dir := file_write n bs (db_clock s) (m_db_dir s),
                m_storage_size := m_storage_size s + of_nat (length bs)\<rparr>)"
  by (auto simp: create_def content_bytes_size(1) not_less split: option.splits)


lemma accountedD:
  assumes "accounted s"
  shows "distinct (map fst (m_db_dir s))" "distinct (map fst (m_cache_dir s))"
    "m_storage_size s = of_nat (dir_size (m_db_dir s))"
    "m_cache_size s = of_nat (dir_size (m_cache_dir s))"
  using assms by (simp_all add: accounted_def)

lemma of_nat_diff_word: "a + b = c \<Longrightarrow> (of_nat c :: u64) - of_nat b = of_nat a"
  by (metis add_diff_cancel_right' of_nat_add)

lemma accounted_create_new:
  assumes "accounted s" and "create n content s = Inr s'" and "map_of (m_db_dir s) n = None"
  shows "accounted s'"
  using assms by (auto simp: accounted_def create_Inr dir_size_write_new)

text \<open>An overwrite is accounted for when the old size is taken off before.\<close>

lemma accounted_overwrite:
  assumes acc: "accounted s" and cr: "create n content (reduce_uuid_size n s) = Inr s'"
  shows "accounted s'"
proof (cases "map_of (m_db_dir s) n")
  case None
  with cr have "create n content s = Inr s'"
    by (simp add: reduce_uuid_size_def)
  with acc show ?thesis
    using None by (rule accounted_create_new)
next
  case (Some f)
  from cr obtain bs where "s' = s\<lparr>m_db_dir := file_write n bs (db_clock s) (m_db_dir s),
      m_storage_size := m_storage_size s - file_size f + of_nat (length bs)\<rparr>"
    by (auto simp: create_Inr reduce_uuid_size_def Some)
  moreover have "dir_size (file_write n bs (db_clock s) (m_db_dir s)) + length (f_bytes f)
      = dir_size (m_db_dir s) + length bs"
    using acc Some by (intro dir_size_write_old) (simp_all add: accounted_def)
  then have "(of_nat (dir_size (m_db_dir s) + length bs) :: u64) - of_nat (length (f_bytes f))
      = of_nat (dir_size (file_write n bs (db_clock s) (m_db_dir s)))"
    by (rule of_nat_diff_word)
  ultimately show ?thesis
    using acc by (simp add: accounted_def file_size_def algebra_simps)
qed

lemma accounted_add_in_cache:
  assumes "accounted s" and "add_in_cache n content s = Inr s'"
    and "map_of (m_cache_dir s) n = None" and "n \<notin> set (cache_write_fails s)"
  shows "accounted s'"
  using assms
  by (auto simp: accounted_def add_in_cache_def content_bytes_size(1) dir_size_write_new
      split: option.splits)

lemma accounted_remove:
  assumes "distinct (map fst d)" and "map_of d n = Some f"
  shows "(of_nat (dir_size d) :: u64) - file_size f = of_nat (dir_size (file_remove n d))"
  unfolding file_size_def by (rule of_nat_diff_word [OF dir_size_remove [OF assms]])

lemma accounted_delete_from_cache:
  "accounted s \<Longrightarrow> accounted (delete_uuid_from_cache n s)"
  by (auto simp: accounted_def delete_uuid_from_cache_def accounted_remove split: option.splits)

lemma accounted_delete:
  assumes "accounted s"
  shows "accounted (delete_uuid n s)"
proof -
  define s1 where "s1 = (if look_up_in_cache n s then delete_uuid_from_cache n s else s)"
  have "accounted s1"
    using assms by (simp add: s1_def accounted_delete_from_cache)
  then show ?thesis
    unfolding delete_uuid_def s1_def [symmetric] Let_def
    by (auto simp: accounted_def accounted_remove split: option.splits)
qed

lemma accounted_copy_new:
  assumes "accounted s" and "copy old_n new_n s = Inr s'" and "map_of (m_db_dir s) new_n = None"
  shows "accounted s'"
  using assms
  by (auto simp: accounted_def copy_def dir_size_write_new file_size_def split: option.splits if_splits)

lemma cleanup_loop_accounted:
  assumes "accounted s" and "distinct (map fst v)" and "\<forall>b \<in> set v. map_of (m_cache_dir s) (fst b) = Some (snd b)"
  shows "accounted (cleanup_loop v s)"
  using assms
proof (induction v arbitrary: s)
  case (Cons b v)
  let ?s = "s\<lparr>m_cache_size := m_cache_size s - file_size (snd b),
              m_cache_dir := file_remove (fst b) (m_cache_dir s)\<rparr>"
  have "accounted ?s"
    using Cons.prems by (auto simp: accounted_def accounted_remove)
  moreover have "\<forall>c \<in> set v. map_of (m_cache_dir ?s) (fst c) = Some (snd c)"
    using Cons.prems by (auto simp: image_iff)
  ultimately have "accounted (cleanup_loop v ?s)"
    using Cons.prems by (intro Cons.IH) auto
  then show ?case
    using Cons.prems by simp
qed simp

lemma accounted_cleanup:
  assumes "accounted s"
  shows "accounted (cleanup_cache s)"
proof -
  have "distinct (map fst (sort_key (\<lambda>b. f_mtime (snd b)) (m_cache_dir s)))"
    using accountedD(2) [OF assms] by (simp add: distinct_map)
  then show ?thesis
    unfolding cleanup_cache_def using assms
    by (intro cleanup_loop_accounted) (auto simp: accounted_def intro: map_of_is_SomeI)
qed

section \<open>The limits\<close>

lemma no_wrap_le:
  assumes "a + b < 2 ^ 64" and "(of_nat a :: u64) + of_nat b \<le> l"
  shows "a + b \<le> unat l"
proof -
  have "(of_nat (a + b) :: u64) \<le> l"
    using assms(2) by simp
  then have "unat (of_nat (a + b) :: u64) \<le> unat l"
    by (rule word_le_nat_alt [THEN iffD1])
  moreover have "unat (of_nat (a + b) :: u64) = a + b"
    using assms(1) by (simp add: unat_of_nat take_bit_nat_eq_self del: of_nat_add)
  ultimately show ?thesis
    by simp
qed

lemma create_within_limit:
  assumes acc: "accounted s" and cr: "create n content (reduce_uuid_size n s) = Inr s'"
    and lim: "limited s" and bound: "dir_size (m_db_dir s) + 2 ^ 31 < 2 ^ 64"
  shows "dir_size (m_db_dir s') \<le> unat (m_storage_limit s)"
proof -
  from cr lim obtain bs where bs: "content_bytes content = Some bs"
    and le: "m_storage_size (reduce_uuid_size n s) + of_nat (length bs) \<le> m_storage_limit s"
    and s': "m_db_dir s' = file_write n bs (db_clock s) (m_db_dir s)"
    by (auto simp: create_Inr limited_def reduce_uuid_size_def split: option.splits)
  show ?thesis
  proof (cases "map_of (m_db_dir s) n")
    case None
    then show ?thesis
      using le bound content_bytes_size(2) [OF bs] acc unfolding s'
      by (subst dir_size_write_new) (auto intro!: no_wrap_le simp: reduce_uuid_size_def accounted_def)
  next
    case (Some f)
    have sz: "dir_size (file_remove n (m_db_dir s)) + length (f_bytes f) = dir_size (m_db_dir s)"
      using acc Some by (intro dir_size_remove) (simp_all add: accounted_def)
    have "m_storage_size (reduce_uuid_size n s) = of_nat (dir_size (file_remove n (m_db_dir s)))"
      using acc Some by (simp add: reduce_uuid_size_def accounted_def accounted_remove)
    then have "dir_size (file_remove n (m_db_dir s)) + length bs \<le> unat (m_storage_limit s)"
      using le sz bound content_bytes_size(2) [OF bs] by (intro no_wrap_le) simp_all
    moreover have "dir_size (file_write n bs (db_clock s) (m_db_dir s)) + length (f_bytes f)
        = dir_size (m_db_dir s) + length bs"
      using acc Some by (intro dir_size_write_old) (simp_all add: accounted_def)
    ultimately show ?thesis
      using sz s' by simp
  qed
qed

section \<open>Cleaning up the cache\<close>

text \<open>How many files of \<open>v\<close> the loop removes, computed on sizes that do not wrap.\<close>

fun cleanup_count :: "dir \<Rightarrow> db_json \<Rightarrow> nat" where
  "cleanup_count [] s = 0"
| "cleanup_count (b # v) s =
     (if too_old s (snd b) \<or> dir_size (b # v) > unat (m_cache_limit s)
      then Suc (cleanup_count v s) else 0)"

lemma cleanup_count_cong:
  "m_cache_limit s = m_cache_limit s' \<Longrightarrow> m_cache_age s = m_cache_age s' \<Longrightarrow> db_clock s = db_clock s' \<Longrightarrow>
   cleanup_count v s = cleanup_count v s'"
  by (induction v) (simp_all add: too_old_def)

lemma remove_filter: "file_remove n d = filter (\<lambda>b. fst b \<noteq> n) d"
  unfolding file_remove_def AList.delete_eq by (rule filter_cong) auto

lemma cleanup_loop_runs:
  assumes "m_cache_size s = of_nat (dir_size v)" and "dir_size v < 2 ^ 64"
  shows "cleanup_loop v s = s\<lparr>m_cache_size := of_nat (dir_size (drop (cleanup_count v s) v)),
    m_cache_dir := filter (\<lambda>b. fst b \<notin> fst ` set (take (cleanup_count v s) v)) (m_cache_dir s)\<rparr>"
  using assms
proof (induction v arbitrary: s)
  case (Cons b v)
  let ?s = "s\<lparr>m_cache_size := m_cache_size s - file_size (snd b),
              m_cache_dir := file_remove (fst b) (m_cache_dir s)\<rparr>"
  have over: "m_cache_size s > m_cache_limit s \<longleftrightarrow> dir_size (b # v) > unat (m_cache_limit s)"
    unfolding Cons.prems(1) word_less_nat_alt
    using Cons.prems(2) by (simp add: unat_of_nat take_bit_nat_eq_self del: of_nat_add)
  have sz: "m_cache_size ?s = of_nat (dir_size v)"
    using Cons.prems(1) by (simp add: file_size_def)
  have cnt: "cleanup_count v ?s = cleanup_count v s"
    by (rule cleanup_count_cong) simp_all
  have IH: "cleanup_loop v ?s = ?s\<lparr>m_cache_size := of_nat (dir_size (drop (cleanup_count v s) v)),
      m_cache_dir := filter (\<lambda>c. fst c \<notin> fst ` set (take (cleanup_count v s) v)) (m_cache_dir ?s)\<rparr>"
    using Cons.IH [OF sz] Cons.prems(2) unfolding cnt by simp
  have "filter (\<lambda>c. fst c \<notin> fst ` set (take (cleanup_count v s) v)) (file_remove (fst b) (m_cache_dir s))
      = filter (\<lambda>c. fst c \<notin> fst ` set (b # take (cleanup_count v s) v)) (m_cache_dir s)"
    by (auto simp: remove_filter intro!: filter_cong)
  with IH show ?case
    using over Cons.prems(1) by simp
next
  case Nil
  then show ?case by simp
qed

lemma cleanup_count_spec:
  "cleanup_count v s \<le> length v
   \<and> (\<forall>j < cleanup_count v s. too_old s (snd (v ! j)) \<or> dir_size (drop j v) > unat (m_cache_limit s))
   \<and> (cleanup_count v s < length v \<longrightarrow> \<not> too_old s (snd (v ! cleanup_count v s))
        \<and> dir_size (drop (cleanup_count v s) v) \<le> unat (m_cache_limit s))"
  by (induction v) (auto simp: less_Suc_eq_0_disj nth_Cons' split: if_splits)

lemma dir_size_mset: "dir_size d = (\<Sum>b\<in>#mset d. length (f_bytes (snd b)))"
  by (induction d) auto

lemma dir_size_sort [simp]: "dir_size (sort_key g d) = dir_size d"
  by (simp add: dir_size_mset)

lemma cleanup_cache_runs:
  assumes "accounted s" and "dir_size (m_cache_dir s) < 2 ^ 64"
  defines "v \<equiv> sort_key (\<lambda>b. f_mtime (snd b)) (m_cache_dir s)"
  shows "cleanup_cache s = s\<lparr>m_cache_size := of_nat (dir_size (drop (cleanup_count v s) v)),
    m_cache_dir := filter (\<lambda>b. fst b \<notin> fst ` set (take (cleanup_count v s) v)) (m_cache_dir s)\<rparr>"
  unfolding cleanup_cache_def v_def using assms(1,2)
  by (intro cleanup_loop_runs) (simp_all add: accounted_def)

end
