(* ===== verification/Storage.thy ===== *)
theory Storage
  imports Complex_Main Protocols Csp_Fifo Db_Json Poco_Lib
begin

text \<open>
  \<^verbatim>\<open>metax/storage.cpp\<close>: the task that serves the kernel, the router and the backup from the
  database. The three storage tasks of a node share the static \<open>s_db\<close>; the state here is that
  database with the channels of one of them. The functions for the router run on threads of their
  own and take the mutex of its channel; each of them is a function on the state. \<^verbatim>\<open>double\<close> members
  of the configuration are rational numbers.
\<close>

record storage_cfg_package = package +
  sc_cmd :: command
  sc_cache_size_limit_in_gb :: rat
  sc_size_limit_in_gb :: rat
  sc_cache_age :: rat
  sc_cache_size :: u64
  sc_storage_size :: u64

definition storage_cfg_package0 :: storage_cfg_package where
  "storage_cfg_package0 = package.extend default_package
     \<lparr>sc_cmd = cmd_max_command, sc_cache_size_limit_in_gb = 0, sc_size_limit_in_gb = 0,
      sc_cache_age = 0, sc_cache_size = 0, sc_storage_size = 0\<rparr>"

record storage =
  sg_kernel_rx :: "kernel_storage_package fifo"
  sg_config_rx :: "storage_cfg_package fifo"
  sg_backup_rx :: "kernel_storage_package fifo"
  sg_kernel_tx :: "kernel_storage_package fifo"
  sg_config_tx :: "storage_cfg_package fifo"
  sg_router_tx :: "kernel_storage_package fifo"
  sg_backup_tx :: "kernel_storage_package fifo"
  is_cache_owner :: bool
  s_db :: "db_json option"

definition storage_new :: "bool \<Rightarrow> db_json option \<Rightarrow> storage" where
  "storage_new owner db =
     \<lparr>sg_kernel_rx = set_external_control (fifo_new kernel_storage_package0),
      sg_config_rx = set_external_control (fifo_new storage_cfg_package0),
      sg_backup_rx = set_external_control (fifo_new kernel_storage_package0),
      sg_kernel_tx = fifo_new kernel_storage_package0, sg_config_tx = fifo_new storage_cfg_package0,
      sg_router_tx = fifo_new kernel_storage_package0, sg_backup_tx = fifo_new kernel_storage_package0,
      is_cache_owner = owner, s_db = db\<rparr>"

section \<open>Channels and the database\<close>

definition to_kernel :: "(kernel_storage_package \<Rightarrow> kernel_storage_package) \<Rightarrow> storage \<Rightarrow> storage" where
  "to_kernel g s = s\<lparr>sg_kernel_tx := set_slot g (sg_kernel_tx s)\<rparr>"

definition commit_to_kernel :: "storage \<Rightarrow> storage" where
  "commit_to_kernel s = s\<lparr>sg_kernel_tx := commit kernel_storage_package0 (sg_kernel_tx s)\<rparr>"

definition send_to_router :: "(kernel_storage_package \<Rightarrow> kernel_storage_package) \<Rightarrow> storage \<Rightarrow> storage" where
  "send_to_router g s =
     s\<lparr>sg_router_tx := commit kernel_storage_package0 (set_slot g (sg_router_tx s))\<rparr>"

definition to_backup :: "(kernel_storage_package \<Rightarrow> kernel_storage_package) \<Rightarrow> storage \<Rightarrow> storage" where
  "to_backup g s = s\<lparr>sg_backup_tx := set_slot g (sg_backup_tx s)\<rparr>"

definition commit_to_backup :: "storage \<Rightarrow> storage" where
  "commit_to_backup s = s\<lparr>sg_backup_tx := commit kernel_storage_package0 (sg_backup_tx s)\<rparr>"

text \<open>\<^verbatim>\<open>poco_assert(nullptr != s_db)\<close> in front of a use of the database.\<close>

definition with_db :: "storage \<Rightarrow> (db_json \<Rightarrow> storage outcome) \<Rightarrow> storage outcome" where
  "with_db s k = (case s_db s of None \<Rightarrow> Aborted | Some db \<Rightarrow> k db)"

definition put_db :: "db_json \<Rightarrow> storage \<Rightarrow> storage" where
  "put_db db s = s\<lparr>s_db := Some db\<rparr>"

text \<open>An exception of the database on its way up to the catch clauses of the task.\<close>

definition raise :: "db_error \<Rightarrow> storage \<Rightarrow> storage outcome" where
  "raise e s = (case e of Poco_exception _ _ \<Rightarrow> Thrown s | Assertion_violation \<Rightarrow> Aborted
     | Std_exception \<Rightarrow> Thrown s | Undefined \<Rightarrow> Undef)"

text \<open>
  The commands and the messages the catch clauses \<^verbatim>\<open>catch (const Poco::Exception& e)\<close> answer with;
  \<open>None\<close> for an exception they do not catch. The text of a failed assertion is that of Poco.
\<close>

definition failure_of :: "db_error \<Rightarrow> (command \<times> string) option" where
  "failure_of e = (case e of
     Poco_exception msg code \<Rightarrow> Some (if code = 28 then cmd_no_space else cmd_failed, msg)
   | Assertion_violation \<Rightarrow> Some (cmd_failed, ''Assertion violation'')
   | _ \<Rightarrow> None)"

section \<open>Looking up and reading\<close>

definition metadata_text :: string where
  "metadata_text = ''This is a metadata for the requested node ''"

definition send_ack_with_metadata :: "kernel_storage_package \<Rightarrow> storage \<Rightarrow> storage outcome" where
  "send_ack_with_metadata inp s =
     (let s = to_kernel (\<lambda>out. out\<lparr>ks_request_id := ks_request_id inp, ks_cmd := cmd_ack\<rparr>) s in
      case set_payload_string (bytes_of metadata_text) (slot (sg_kernel_tx s)) of
        Done out \<Rightarrow>
          Done (commit_to_kernel (to_kernel (\<lambda>_. out\<lparr>ks_uuid := ks_uuid inp\<rparr>) s))
      | _ \<Rightarrow> Aborted)"

definition send_nack :: "kernel_storage_package \<Rightarrow> storage \<Rightarrow> storage" where
  "send_nack inp s =
     commit_to_kernel (to_kernel (\<lambda>out. out\<lparr>ks_request_id := ks_request_id inp, ks_cmd := cmd_nack,
       ks_uuid := ks_uuid inp\<rparr>) s)"

definition look_up_request :: "poco \<Rightarrow> kernel_storage_package \<Rightarrow> storage \<Rightarrow> storage outcome" where
  "look_up_request L inp s = with_db s (\<lambda>db.
     if look_up (uuid_to_string L (ks_uuid inp)) (ks_check_cache inp) db
     then send_ack_with_metadata inp s else Done (send_nack inp s))"

definition look_up_data_in_db :: "poco \<Rightarrow> uuid \<Rightarrow> bool \<Rightarrow> storage \<Rightarrow> bool option" where
  "look_up_data_in_db L u check_cache s =
     map_option (look_up (uuid_to_string L u) check_cache) (s_db s)"

definition get_data_from_db :: "poco \<Rightarrow> kernel_storage_package \<Rightarrow> storage \<Rightarrow> storage outcome" where
  "get_data_from_db L inp s =
     (let s = to_kernel (\<lambda>out. out\<lparr>ks_request_id := ks_request_id inp, ks_cmd := cmd_get_data,
                ks_uuid := ks_uuid inp\<rparr>) s in
      with_db s (\<lambda>db. case db_get (uuid_to_string L (ks_uuid inp)) db of
        Inr d \<Rightarrow> Done (commit_to_kernel (to_kernel (set_payload d) s))
      | Inl e \<Rightarrow> if failure_of e = None then raise e s
                 else Done (commit_to_kernel (to_kernel (\<lambda>out. out\<lparr>ks_cmd := cmd_failed\<rparr>) s))))"

definition get_data_from_db_for_router_async ::
    "poco \<Rightarrow> ID32 \<Rightarrow> uuid \<Rightarrow> bool \<Rightarrow> storage \<Rightarrow> storage outcome" where
  "get_data_from_db_for_router_async L rid u check_cache s = with_db s (\<lambda>db.
     let n = uuid_to_string L u;
         found = (if look_up n check_cache db then Some (db_get n db) else None) in
     if found = Some (Inl Undefined) then Undef
     else let (cmd, d) = (case found of Some (Inr d) \<Rightarrow> (cmd_get_data, d)
                          | _ \<Rightarrow> (cmd_refuse, default_package)) in
       Done (send_to_router (\<lambda>out. set_payload d
         (out\<lparr>ks_cmd := cmd, ks_request_id := rid, ks_uuid := u\<rparr>)) s))"

definition send_uuids_for_sync_process :: "poco \<Rightarrow> kernel_storage_package \<Rightarrow> storage \<Rightarrow> storage outcome" where
  "send_uuids_for_sync_process L inp s =
     (let s = to_kernel (\<lambda>out. out\<lparr>ks_request_id := ks_request_id inp,
                ks_cmd := cmd_start_storage_sync\<rparr>) s in
      with_db s (\<lambda>db.
        case set_payload_string (bytes_of (get_all_uuids (\<lambda>n. uuid_try_parse L n \<noteq> None) db))
               (slot (sg_kernel_tx s)) of
          Done out \<Rightarrow> Done (commit_to_kernel (to_kernel (\<lambda>_. out) s))
        | _ \<Rightarrow> Aborted))"

text \<open>One name of \<open>send_uuids\<close>: an exception of Poco is caught inside the loop.\<close>

definition send_uuid :: "poco \<Rightarrow> kernel_storage_package \<Rightarrow> string \<Rightarrow> storage \<Rightarrow> storage outcome" where
  "send_uuid L inp i s = with_db s (\<lambda>db.
     if look_up i True db then
       case db_get i db of
         Inl e \<Rightarrow> if failure_of e = None then raise e s else Done s
       | Inr d \<Rightarrow>
           let s = to_backup (\<lambda>out. (set_payload d out)\<lparr>ks_request_id := ks_request_id inp,
                     ks_cmd := cmd_get_uuid\<rparr>) s in
           (case uuid_try_parse L i of None \<Rightarrow> Done s
            | Some u \<Rightarrow> Done (commit_to_backup (to_backup (\<lambda>out. out\<lparr>ks_uuid := u\<rparr>) s)))
     else Done s)"

text \<open>
  The assertions on \<^verbatim>\<open>in.message\<close> and the database, then the names \<^verbatim>\<open>in.message.get()\<close> lists.
\<close>

definition listed_names ::
    "poco \<Rightarrow> kernel_storage_package \<Rightarrow> storage \<Rightarrow> (string list \<Rightarrow> storage outcome) \<Rightarrow> storage outcome" where
  "listed_names L inp s k = (case p_message inp of None \<Rightarrow> Aborted
     | Some m \<Rightarrow> with_db s (\<lambda>_.
         case c_str m of None \<Rightarrow> Undef | Some str \<Rightarrow> k (tokenize L str CHR '','')))"

definition send_uuids :: "poco \<Rightarrow> kernel_storage_package \<Rightarrow> storage \<Rightarrow> storage outcome" where
  "send_uuids L inp s = listed_names L inp s (\<lambda>names. for_each names (send_uuid L inp) s)"

section \<open>Writing\<close>

definition post_cfg_manager_write_storage_cfg_request :: "storage \<Rightarrow> storage outcome" where
  "post_cfg_manager_write_storage_cfg_request s = with_db s (\<lambda>db.
     Done (s\<lparr>sg_config_tx := commit storage_cfg_package0 (set_slot (\<lambda>out. out\<lparr>
        sc_cmd := cmd_write_storage_cfg, sc_cache_size := get_cache_size db,
        sc_storage_size := get_storage_size db\<rparr>) (sg_config_tx s))\<rparr>))"

text \<open>\<^verbatim>\<open>reduce_uuid_size\<close> and \<^verbatim>\<open>create\<close>: the exception if there was one, and the database.\<close>

definition overwrite :: "string \<Rightarrow> 'a package_scheme \<Rightarrow> db_json \<Rightarrow> db_error option \<times> db_json" where
  "overwrite n content db =
     (let db = reduce_uuid_size n db in
      case create n content db of Inl e \<Rightarrow> (Some e, db) | Inr db \<Rightarrow> (None, db))"

definition respond_to_save :: "kernel_storage_package \<Rightarrow> command \<Rightarrow> string \<Rightarrow> storage \<Rightarrow> storage outcome" where
  "respond_to_save inp cmd msg s =
     (if ks_should_send_response inp then
        let s = to_kernel (\<lambda>out. out\<lparr>ks_uuid := ks_uuid inp, ks_request_id := ks_request_id inp,
                  ks_cmd := cmd\<rparr>) s in
        case set_payload_string (bytes_of msg) (slot (sg_kernel_tx s)) of
          Done out \<Rightarrow> Done (commit_to_kernel (to_kernel (\<lambda>_. out) s))
        | _ \<Rightarrow> Aborted
      else Done s)"

definition save_data :: "poco \<Rightarrow> kernel_storage_package \<Rightarrow> storage \<Rightarrow> storage outcome" where
  "save_data L inp s =
     and_then (assert_that (ks_cmd inp = cmd_save_data) s) (\<lambda>s. with_db s (\<lambda>db.
       case overwrite (uuid_to_string L (ks_uuid inp)) inp db of
         (None, db) \<Rightarrow>
           and_then (post_cfg_manager_write_storage_cfg_request (put_db db s))
             (respond_to_save inp cmd_save_confirm [])
       | (Some e, db) \<Rightarrow>
           (case failure_of e of None \<Rightarrow> raise e (put_db db s)
            | Some (cmd, msg) \<Rightarrow> respond_to_save inp cmd msg (put_db db s))))"

text \<open>On a thread of the router; an exception other than Poco's would end the process.\<close>

definition answer_router :: "ID32 \<Rightarrow> uuid \<Rightarrow> command \<Rightarrow> storage \<Rightarrow> storage" where
  "answer_router rid u cmd s =
     send_to_router (\<lambda>out. out\<lparr>ks_uuid := u, ks_request_id := rid, ks_cmd := cmd\<rparr>) s"

definition save_data_async_for_router :: "poco \<Rightarrow> ID32 \<Rightarrow> uuid \<Rightarrow> package \<Rightarrow> storage \<Rightarrow> storage outcome" where
  "save_data_async_for_router L rid u data s = with_db s (\<lambda>db.
     case create (uuid_to_string L u) data db of
       Inr db \<Rightarrow> Done (answer_router rid u cmd_save_confirm (put_db db s))
     | Inl e \<Rightarrow> if failure_of e = None then raise e s else Done s)"

definition update_data_async_for_router :: "poco \<Rightarrow> ID32 \<Rightarrow> uuid \<Rightarrow> package \<Rightarrow> storage \<Rightarrow> storage outcome" where
  "update_data_async_for_router L rid u data s = with_db s (\<lambda>db.
     case overwrite (uuid_to_string L u) data db of
       (None, db) \<Rightarrow> Done (answer_router rid u cmd_updated (put_db db s))
     | (Some e, db) \<Rightarrow> if failure_of e = None then raise e (put_db db s) else Done (put_db db s))"

definition add_in_cache_request :: "poco \<Rightarrow> kernel_storage_package \<Rightarrow> storage \<Rightarrow> storage outcome" where
  "add_in_cache_request L inp s =
     and_then (assert_that (ks_cmd inp = cmd_add_in_cache) s) (\<lambda>s. with_db s (\<lambda>db.
       case add_in_cache (uuid_to_string L (ks_uuid inp)) inp db of
         Inr db \<Rightarrow> post_cfg_manager_write_storage_cfg_request (put_db db s)
       | Inl e \<Rightarrow> raise e s))"

text \<open>The text of the exception goes out with \<^verbatim>\<open>no_space\<close> and \<^verbatim>\<open>failed\<close>, which other answers have not.\<close>

definition answer_copy :: "kernel_storage_package \<Rightarrow> storage \<Rightarrow> storage outcome" where
  "answer_copy inp s =
     post_cfg_manager_write_storage_cfg_request (commit_to_kernel
       (to_kernel (\<lambda>out. out\<lparr>ks_uuid := ks_uuid inp, ks_request_id := ks_request_id inp\<rparr>) s))"

definition copy_data :: "poco \<Rightarrow> kernel_storage_package \<Rightarrow> storage \<Rightarrow> storage outcome" where
  "copy_data L inp s =
     and_then (assert_that (ks_cmd inp = cmd_copy \<and> p_message inp \<noteq> None) s) (\<lambda>s. with_db s (\<lambda>db.
       let n = uuid_to_string L (ks_uuid inp) in
       if look_up n False db then
         case payload_of inp of None \<Rightarrow> Undef
         | Some bs \<Rightarrow>
             (case copy n (chars bs) db of
                Inr db \<Rightarrow> answer_copy inp
                  (to_kernel (\<lambda>out. out\<lparr>ks_cmd := cmd_copy_succeeded\<rparr>) (put_db db s))
              | Inl e \<Rightarrow>
                  (case failure_of e of None \<Rightarrow> raise e s
                   | Some (cmd, msg) \<Rightarrow>
                       let s = to_kernel (\<lambda>out. out\<lparr>ks_cmd := cmd\<rparr>) s in
                       (case set_payload_string (bytes_of msg) (slot (sg_kernel_tx s)) of
                          Done out \<Rightarrow> answer_copy inp (to_kernel (\<lambda>_. out) s)
                        | _ \<Rightarrow> Aborted)))
       else answer_copy inp (to_kernel (\<lambda>out. out\<lparr>ks_cmd := cmd_nack\<rparr>) s)))"

section \<open>Deleting\<close>

definition delete_listed :: "string \<Rightarrow> storage \<Rightarrow> storage outcome" where
  "delete_listed i s = with_db s (\<lambda>db.
     Done (if look_up i True db then put_db (delete_uuid i db) s else s))"

definition delete_uuids :: "poco \<Rightarrow> kernel_storage_package \<Rightarrow> storage \<Rightarrow> storage outcome" where
  "delete_uuids L inp s =
     and_then (assert_that (ks_cmd inp = cmd_del_uuids) s) (\<lambda>s.
       listed_names L inp s (\<lambda>names.
         and_then (for_each names delete_listed s) post_cfg_manager_write_storage_cfg_request))"

definition drop_cached :: "string \<Rightarrow> storage \<Rightarrow> storage outcome" where
  "drop_cached n s = with_db s (\<lambda>db.
     if look_up_in_cache n db
     then post_cfg_manager_write_storage_cfg_request (put_db (delete_uuid_from_cache n db) s)
     else Done s)"

definition drop_stored :: "string \<Rightarrow> storage \<Rightarrow> storage outcome" where
  "drop_stored n s = with_db s (\<lambda>db.
     if look_up n False db
     then post_cfg_manager_write_storage_cfg_request
       (to_kernel (\<lambda>out. out\<lparr>ks_cmd := cmd_deleted\<rparr>) (put_db (delete_uuid n db) s))
     else Done s)"

definition delete_data :: "poco \<Rightarrow> kernel_storage_package \<Rightarrow> storage \<Rightarrow> storage outcome" where
  "delete_data L inp s =
     and_then (assert_that (ks_cmd inp = cmd_del) s) (\<lambda>s. with_db s (\<lambda>_.
       let s = to_kernel (\<lambda>out. out\<lparr>ks_uuid := ks_uuid inp, ks_cmd := cmd_nack,
                 ks_request_id := ks_request_id inp\<rparr>) s;
           n = uuid_to_string L (ks_uuid inp) in
       and_then (drop_cached n s) (\<lambda>s.
       and_then (drop_stored n s) (\<lambda>s. Done (commit_to_kernel s)))))"

definition delete_data_async_for_router :: "poco \<Rightarrow> ID32 \<Rightarrow> uuid \<Rightarrow> bool \<Rightarrow> storage \<Rightarrow> storage outcome" where
  "delete_data_async_for_router L rid u respond s = with_db s (\<lambda>db.
     let s = put_db (delete_uuid (uuid_to_string L u) db) s in
     post_cfg_manager_write_storage_cfg_request
       (if respond then answer_router rid u cmd_deleted s else s))"

definition delete_data_from_cache :: "poco \<Rightarrow> kernel_storage_package \<Rightarrow> storage \<Rightarrow> storage outcome" where
  "delete_data_from_cache L inp s =
     and_then (assert_that (ks_cmd inp = cmd_delete_from_cache) s) (\<lambda>s. with_db s (\<lambda>db.
       post_cfg_manager_write_storage_cfg_request
         (put_db (delete_uuid_from_cache (uuid_to_string L (ks_uuid inp)) db) s)))"

section \<open>The cache\<close>

definition move_cache_request :: "kernel_storage_package \<Rightarrow> storage \<Rightarrow> storage outcome" where
  "move_cache_request inp s =
     (case s_db s of None \<Rightarrow> Undef
      | Some db \<Rightarrow>
          let (st, db) = move_cache_to_storage db in
          and_then (post_cfg_manager_write_storage_cfg_request (put_db db s)) (\<lambda>s.
            Done (commit_to_kernel (to_kernel (\<lambda>out. out\<lparr>ks_request_id := ks_request_id inp,
              ks_cmd := cmd_move_cache_to_storage_completed, p_status := st\<rparr>) s))))"

definition cleanup_cache_timer :: "storage \<Rightarrow> storage outcome" where
  "cleanup_cache_timer s = with_db s (\<lambda>db.
     post_cfg_manager_write_storage_cfg_request (put_db (cleanup_cache db) s))"

section \<open>Configuration\<close>

text \<open>Conversions from \<^verbatim>\<open>double\<close> truncate towards zero and are undefined out of range.\<close>

definition trunc :: "rat \<Rightarrow> int" where
  "trunc x = (if 0 \<le> x then \<lfloor>x\<rfloor> else \<lceil>x\<rceil>)"

definition to_uint64 :: "rat \<Rightarrow> u64 option" where
  "to_uint64 x = (if 0 \<le> trunc x \<and> trunc x < 2 ^ 64 then Some (of_int (trunc x)) else None)"

definition to_int64 :: "rat \<Rightarrow> u64 option" where
  "to_int64 x = (if - (2 ^ 63) \<le> trunc x \<and> trunc x < 2 ^ 63 then Some (of_int (trunc x)) else None)"

text \<open>
  \<open>dirs\<close> is what lies at the configured path: the files of the storage and of the cache directory
  and the time.
\<close>

definition handle_config_storage ::
    "(string \<Rightarrow> dir \<times> dir \<times> int) \<Rightarrow> storage_cfg_package \<Rightarrow> storage \<Rightarrow> storage outcome" where
  "handle_config_storage dirs inp s =
     and_then (assert_that (sc_cmd inp = cmd_storage_cfg) s) (\<lambda>s.
       case p_message inp of None \<Rightarrow> Undef
       | Some m \<Rightarrow> (case c_str m of None \<Rightarrow> Undef
       | Some path \<Rightarrow>
           let g = 2 ^ 30 :: rat;
               lim = (if sc_size_limit_in_gb inp < 0 then to_int64 (sc_size_limit_in_gb inp)
                      else to_int64 (g * sc_size_limit_in_gb inp));
               (db_dir, cache_dir, now) = dirs path in
           (case (to_uint64 (g * sc_cache_size_limit_in_gb inp), to_uint64 (sc_cache_age inp), lim) of
              (Some l, Some age, Some m) \<Rightarrow>
                Done (put_db (db_new db_dir cache_dir now (sc_cache_size inp) (sc_storage_size inp) age l m) s)
            | _ \<Rightarrow> Undef)))"

section \<open>The task\<close>

definition storage_process_kernel_input :: "poco \<Rightarrow> kernel_storage_package \<Rightarrow> storage \<Rightarrow> storage outcome" where
  "storage_process_kernel_input L inp s =
     (let c = ks_cmd inp in
      if c = cmd_look_up then look_up_request L inp s
      else if c = cmd_get then get_data_from_db L inp s
      else if c = cmd_save_data then save_data L inp s
      else if c = cmd_del then delete_data L inp s
      else if c = cmd_copy then copy_data L inp s
      else if c = cmd_add_in_cache then add_in_cache_request L inp s
      else if c = cmd_delete_from_cache then delete_data_from_cache L inp s
      else if c = cmd_move_cache_to_storage then move_cache_request inp s
      else if c = cmd_send_uuids then send_uuids L inp s
      else if c = cmd_start_storage_sync then send_uuids_for_sync_process L inp s
      else Done s)"

definition storage_process_backup_input :: "poco \<Rightarrow> kernel_storage_package \<Rightarrow> storage \<Rightarrow> storage outcome" where
  "storage_process_backup_input L inp s =
     (if ks_cmd inp = cmd_del_uuids then delete_uuids L inp s
      else if ks_cmd inp = cmd_delete_from_cache then delete_data_from_cache L inp s
      else Done s)"

definition storage_process_config_input ::
    "(string \<Rightarrow> dir \<times> dir \<times> int) \<Rightarrow> storage_cfg_package \<Rightarrow> storage \<Rightarrow> storage outcome" where
  "storage_process_config_input dirs inp s =
     (if sc_cmd inp = cmd_storage_cfg then handle_config_storage dirs inp s else Done s)"

definition consume_from :: "'a fifo \<Rightarrow> ('a fifo \<Rightarrow> storage) \<Rightarrow> storage outcome" where
  "consume_from f put = (case fifo_pop f of Done f' \<Rightarrow> Done (put f') | _ \<Rightarrow> Aborted)"

text \<open>The handlers keep a message in its channel until the database is there.\<close>

definition storage_handle_kernel_input :: "poco \<Rightarrow> storage \<Rightarrow> storage outcome" where
  "storage_handle_kernel_input L s = (case fifo_front (sg_kernel_rx s) of None \<Rightarrow> Done s
     | Some inp \<Rightarrow>
         if s_db s = None then Done s
         else and_then (catch_log (storage_process_kernel_input L inp s)) (\<lambda>s.
           consume_from (sg_kernel_rx s) (\<lambda>f. s\<lparr>sg_kernel_rx := f\<rparr>)))"

definition storage_handle_backup_input :: "poco \<Rightarrow> storage \<Rightarrow> storage outcome" where
  "storage_handle_backup_input L s = (case fifo_front (sg_backup_rx s) of None \<Rightarrow> Done s
     | Some inp \<Rightarrow>
         if s_db s = None then Done s
         else and_then (catch_log (storage_process_backup_input L inp s)) (\<lambda>s.
           consume_from (sg_backup_rx s) (\<lambda>f. s\<lparr>sg_backup_rx := f\<rparr>)))"

definition storage_handle_config_input :: "(string \<Rightarrow> dir \<times> dir \<times> int) \<Rightarrow> storage \<Rightarrow> storage outcome" where
  "storage_handle_config_input dirs s = (case fifo_front (sg_config_rx s) of None \<Rightarrow> Done s
     | Some inp \<Rightarrow>
         and_then (catch_log (storage_process_config_input dirs inp s)) (\<lambda>s.
           consume_from (sg_config_rx s) (\<lambda>f. s\<lparr>sg_config_rx := f\<rparr>)))"

text \<open>One turn of the loop of \<^verbatim>\<open>runTask\<close>.\<close>

definition storage_turn :: "poco \<Rightarrow> (string \<Rightarrow> dir \<times> dir \<times> int) \<Rightarrow> storage \<Rightarrow> storage outcome" where
  "storage_turn L dirs s =
     and_then (storage_handle_config_input dirs s) (\<lambda>s.
     and_then (storage_handle_kernel_input L s) (storage_handle_backup_input L))"

end
