(* ===== verification/Storage_Inv.thy ===== *)
theory Storage_Inv
  imports Storage
begin

text \<open>
  The storage task as a database machine: \<open>kernel_effect\<close> and \<open>backup_effect\<close> are what a message does to
  the database, whatever the answers; the handlers implement them. On top of it: the database as a map
  from names to payloads (locale \<open>keyed_store\<close>), the accounting of sizes, and what a message leaves alone.
\<close>

section \<open>Effects of messages\<close>

definition kernel_effect :: "poco \<Rightarrow> kernel_storage_package \<Rightarrow> db_json \<Rightarrow> db_json" where
  "kernel_effect L inp db =
     (let n = uuid_to_string L (ks_uuid inp); c = ks_cmd inp in
      if c = cmd_save_data then snd (overwrite n inp db)
      else if c = cmd_del then delete_uuid n db
      else if c = cmd_copy then
        (case payload_of inp of None \<Rightarrow> db
         | Some bs \<Rightarrow> (case copy n (chars bs) db of Inl _ \<Rightarrow> db | Inr db' \<Rightarrow> db'))
      else if c = cmd_add_in_cache then (case add_in_cache n inp db of Inl _ \<Rightarrow> db | Inr db' \<Rightarrow> db')
      else if c = cmd_delete_from_cache then delete_uuid_from_cache n db
      else if c = cmd_move_cache_to_storage then snd (move_cache_to_storage db)
      else db)"

lemma s_db_simps [simp]:
  "s_db (to_kernel g s) = s_db s" "s_db (commit_to_kernel s) = s_db s"
  "s_db (send_to_router g s) = s_db s" "s_db (to_backup g s) = s_db s"
  "s_db (commit_to_backup s) = s_db s" "s_db (put_db db s) = Some db" "s_db (send_nack inp s) = s_db s"
  "s_db (answer_router r u c s) = s_db s"
  by (simp_all add: to_kernel_def commit_to_kernel_def send_to_router_def to_backup_def
      commit_to_backup_def put_db_def send_nack_def answer_router_def)

lemma with_db_Some [simp]: "s_db s = Some db \<Longrightarrow> with_db s k = k db"
  by (simp add: with_db_def)

definition db_is :: "db_json \<Rightarrow> storage \<Rightarrow> bool" where
  "db_is db s \<longleftrightarrow> s_db s = Some db"

lemma set_payload_string_fits:
  "length str < 2 ^ 32 \<Longrightarrow>
   set_payload_string str p = Done (p\<lparr>p_size := of_nat (length str), p_message := Some (str @ [0])\<rparr>)"
  by (simp add: set_payload_string_def resize_def Let_def unat_of_nat take_bit_nat_eq_self)

lemma set_payload_string_cases:
  "set_payload_string str p = Aborted \<or> (\<exists>p'. set_payload_string str p = Done p')"
  by (simp add: set_payload_string_def Let_def assert_that_def)

lemma raise_keeps: "db_is db s \<Longrightarrow> keeps (db_is db) (raise e s)"
  by (cases e) (simp_all add: raise_def)

lemma post_cfg_Done:
  "s_db s = Some db \<Longrightarrow> \<exists>s'. post_cfg_manager_write_storage_cfg_request s = Done s' \<and> s_db s' = Some db
     \<and> sg_kernel_tx s' = sg_kernel_tx s \<and> sg_backup_tx s' = sg_backup_tx s \<and> sg_router_tx s' = sg_router_tx s
     \<and> sg_kernel_rx s' = sg_kernel_rx s \<and> sg_backup_rx s' = sg_backup_rx s \<and> sg_config_rx s' = sg_config_rx s"
  by (simp add: post_cfg_manager_write_storage_cfg_request_def)

lemma post_cfg_keeps: "db_is db s \<Longrightarrow> keeps (db_is db) (post_cfg_manager_write_storage_cfg_request s)"
  by (auto simp: db_is_def post_cfg_manager_write_storage_cfg_request_def)

lemma respond_keeps: "db_is db s \<Longrightarrow> keeps (db_is db) (respond_to_save inp cmd msg s)"
  using set_payload_string_cases by (auto simp: respond_to_save_def Let_def db_is_def split: outcome.splits)

lemma answer_copy_keeps: "db_is db s \<Longrightarrow> keeps (db_is db) (answer_copy inp s)"
  unfolding answer_copy_def by (rule post_cfg_keeps) (simp add: db_is_def)

lemma for_each_keeps_db:
  "(\<And>x s. s_db s = Some db \<Longrightarrow> keeps (db_is db) (f x s)) \<Longrightarrow> s_db s = Some db \<Longrightarrow>
   keeps (db_is db) (for_each xs f s)"
  by (rule keeps_for_each) (simp_all add: db_is_def)

lemma delete_parts:
  "delete_uuid n db =
     (let db = (if look_up_in_cache n db then delete_uuid_from_cache n db else db) in
      if look_up n False db then delete_uuid n db else db)"
  by (cases "map_of (m_cache_dir db) n"; cases "map_of (m_db_dir db) n")
    (simp_all add: delete_uuid_def look_up_def look_up_in_cache_def file_exists_def
      delete_uuid_from_cache_def)

lemmas request_defs = look_up_request_def get_data_from_db_def save_data_def delete_data_def copy_data_def
  add_in_cache_request_def delete_data_from_cache_def move_cache_request_def send_uuids_def
  send_uuids_for_sync_process_def

lemma send_uuid_keeps: "s_db s = Some db \<Longrightarrow> keeps (db_is db) (send_uuid L inp i s)"
  by (auto simp: send_uuid_def db_is_def Let_def split: sum.splits option.splits
      intro!: raise_keeps)


lemma look_up_request_keeps: "s_db s = Some db \<Longrightarrow> keeps (db_is db) (look_up_request L inp s)"
  using set_payload_string_cases
  by (auto simp: look_up_request_def send_ack_with_metadata_def db_is_def Let_def split: outcome.splits)

lemma get_data_keeps: "s_db s = Some db \<Longrightarrow> keeps (db_is db) (get_data_from_db L inp s)"
  by (auto simp: get_data_from_db_def db_is_def Let_def split: sum.splits intro!: raise_keeps)

lemma keeps_after_assert:
  "(b \<Longrightarrow> keeps Q (k s)) \<Longrightarrow> keeps Q (and_then (assert_that b s) k)"
  by (simp add: assert_that_def)

lemma save_data_keeps:
  assumes db: "s_db s = Some db"
  shows "keeps (db_is (snd (overwrite (uuid_to_string L (ks_uuid inp)) inp db))) (save_data L inp s)"
proof -
  obtain r db' where ow: "overwrite (uuid_to_string L (ks_uuid inp)) inp db = (r, db')"
    by (cases "overwrite (uuid_to_string L (ks_uuid inp)) inp db")
  have "db_is db' (put_db db' s)"
    by (simp add: db_is_def)
  then show ?thesis
    unfolding save_data_def using db ow
    by (intro keeps_after_assert)
      (auto split: option.splits intro!: keeps_and_then post_cfg_keeps respond_keeps raise_keeps)
qed

text \<open>\<open>replies s s' r\<close>: the package \<open>r\<close> was sent to the kernel, and nothing else.\<close>

definition replies :: "storage \<Rightarrow> storage \<Rightarrow> kernel_storage_package \<Rightarrow> bool" where
  "replies s s' r \<longleftrightarrow>
     sg_kernel_tx s' = commit kernel_storage_package0 (set_slot (\<lambda>_. r) (sg_kernel_tx s))"

lemma set_slot_set_slot [simp]: "set_slot g (set_slot h f) = set_slot (\<lambda>x. g (h x)) f"
  by (simp add: set_slot_def slot_def)

lemma slot_set_slot [simp]: "slot (set_slot g f) = g (slot f)"
  by (simp add: set_slot_def slot_def)

lemma set_slot_const: "set_slot g f = set_slot (\<lambda>_. g (slot f)) f"
  by (simp add: set_slot_def)

lemma replies_commit:
  "sg_kernel_tx s' = commit kernel_storage_package0 (set_slot g (sg_kernel_tx s)) \<Longrightarrow>
   replies s s' (g (slot (sg_kernel_tx s)))"
  unfolding replies_def by (subst (asm) set_slot_const)

lemma drop_cached_Done:
  assumes "s_db s = Some db"
  shows "\<exists>s'. drop_cached n s = Done s'
    \<and> s_db s' = Some (if look_up_in_cache n db then delete_uuid_from_cache n db else db)
    \<and> sg_kernel_tx s' = sg_kernel_tx s"
  using assms post_cfg_Done [of "put_db (delete_uuid_from_cache n db) s"]
  by (auto simp: drop_cached_def put_db_def)

lemma drop_stored_Done:
  assumes "s_db s = Some db"
  shows "\<exists>s'. drop_stored n s = Done s'
    \<and> s_db s' = Some (if look_up n False db then delete_uuid n db else db)
    \<and> sg_kernel_tx s' = (if look_up n False db
         then set_slot (\<lambda>out. out\<lparr>ks_cmd := cmd_deleted\<rparr>) (sg_kernel_tx s) else sg_kernel_tx s)"
  using assms post_cfg_Done [of "to_kernel (\<lambda>out. out\<lparr>ks_cmd := cmd_deleted\<rparr>) (put_db (delete_uuid n db) s)"]
  by (auto simp: drop_stored_def to_kernel_def put_db_def)

lemma delete_data_Done:
  fixes L inp
  assumes "s_db s = Some db" and "ks_cmd inp = cmd_del"
  defines "n \<equiv> uuid_to_string L (ks_uuid inp)"
  shows "\<exists>s'. delete_data L inp s = Done s' \<and> s_db s' = Some (delete_uuid n db)
    \<and> (\<exists>r. replies s s' r \<and> ks_uuid r = ks_uuid inp \<and> ks_request_id r = ks_request_id inp
         \<and> ks_cmd r = (if look_up n False db then cmd_deleted else cmd_nack))"
proof -
  define s0 where "s0 = to_kernel (\<lambda>out. out\<lparr>ks_uuid := ks_uuid inp, ks_cmd := cmd_nack,
    ks_request_id := ks_request_id inp\<rparr>) s"
  define db1 where "db1 = (if look_up_in_cache n db then delete_uuid_from_cache n db else db)"
  have lu: "look_up n False db1 = look_up n False db"
    by (simp add: db1_def look_up_def delete_uuid_from_cache_def split: option.split)
  have "s_db s0 = Some db"
    using assms(1) by (simp add: s0_def)
  then obtain s1 where 1: "drop_cached n s0 = Done s1" "s_db s1 = Some db1" "sg_kernel_tx s1 = sg_kernel_tx s0"
    using drop_cached_Done unfolding db1_def by blast
  then obtain s2 where 2: "drop_stored n s1 = Done s2"
    "s_db s2 = Some (if look_up n False db1 then delete_uuid n db1 else db1)"
    "sg_kernel_tx s2 = (if look_up n False db1
         then set_slot (\<lambda>out. out\<lparr>ks_cmd := cmd_deleted\<rparr>) (sg_kernel_tx s1) else sg_kernel_tx s1)"
    using drop_stored_Done by blast
  have "delete_uuid n db = (if look_up n False db1 then delete_uuid n db1 else db1)"
    using delete_parts [of n db] by (simp add: db1_def Let_def split: if_splits)
  moreover have "delete_data L inp s = Done (commit_to_kernel s2)"
    using 1 2 assms(1,2) by (simp add: delete_data_def s0_def [symmetric] n_def [symmetric])
  moreover have "\<exists>g. sg_kernel_tx (commit_to_kernel s2)
        = commit kernel_storage_package0 (set_slot g (sg_kernel_tx s))
      \<and> (\<forall>x. ks_uuid (g x) = ks_uuid inp \<and> ks_request_id (g x) = ks_request_id inp
           \<and> ks_cmd (g x) = (if look_up n False db then cmd_deleted else cmd_nack))"
    using 1(3) 2(3) lu
    by (cases "look_up n False db") (auto simp: commit_to_kernel_def s0_def to_kernel_def)
  ultimately show ?thesis
    using 2(2) by (auto dest!: replies_commit)
qed


lemma delete_data_keeps:
  "s_db s = Some db \<Longrightarrow>
   keeps (db_is (delete_uuid (uuid_to_string L (ks_uuid inp)) db)) (delete_data L inp s)"
  using delete_data_Done [of s db inp L]
  by (cases "ks_cmd inp = cmd_del") (auto simp: db_is_def delete_data_def)

lemma copy_data_keeps:
  assumes db: "s_db s = Some db" and c: "ks_cmd inp = cmd_copy"
  shows "keeps (db_is (kernel_effect L inp db)) (copy_data L inp s)"
proof -
  let ?n = "uuid_to_string L (ks_uuid inp)"
  have ex: "look_up ?n False db \<longleftrightarrow> map_of (m_db_dir db) ?n \<noteq> None"
    by (simp add: look_up_def file_exists_def)
  have e: "kernel_effect L inp db = (case payload_of inp of None \<Rightarrow> db
      | Some bs \<Rightarrow> (case copy ?n (chars bs) db of Inl _ \<Rightarrow> db | Inr db' \<Rightarrow> db'))"
    by (simp add: kernel_effect_def c Let_def)
  have none: "map_of (m_db_dir db) ?n = None \<Longrightarrow> kernel_effect L inp db = db"
    unfolding e by (simp add: copy_def split: option.split)
  have ans: "keeps (db_is d) (answer_copy inp (to_kernel g s))" if "s_db s = Some d" for d g s
    by (rule answer_copy_keeps) (simp add: db_is_def that)
  have ans': "keeps (db_is db) (case set_payload_string bs p of Done out \<Rightarrow> answer_copy inp (to_kernel (\<lambda>_. out) (to_kernel g s))
      | _ \<Rightarrow> Aborted)" for bs p g
    by (cases "set_payload_string bs p") (simp_all add: ans db)
  show ?thesis
  proof (cases "map_of (m_db_dir db) ?n = None")
    case True
    then show ?thesis
      using db c by (auto simp: copy_data_def Let_def ex none ans assert_that_def)
  next
    case False
    have r: "keeps (db_is db) (raise x s)" for x
      by (rule raise_keeps) (simp add: db_is_def db)
    show ?thesis
      unfolding copy_data_def using False db unfolding e
      by (intro keeps_after_assert)
        (auto simp: Let_def ex r ans ans' split: option.split sum.split prod.split)
  qed
qed

lemma add_in_cache_keeps:
  assumes "s_db s = Some db" and "ks_cmd inp = cmd_add_in_cache"
  shows "keeps (db_is (kernel_effect L inp db)) (add_in_cache_request L inp s)"
  using assms unfolding add_in_cache_request_def
  by (intro keeps_after_assert)
    (auto simp: kernel_effect_def Let_def db_is_def split: sum.split intro!: post_cfg_keeps raise_keeps)

lemma delete_from_cache_keeps:
  "s_db s = Some db \<Longrightarrow>
   keeps (db_is (delete_uuid_from_cache (uuid_to_string L (ks_uuid inp)) db)) (delete_data_from_cache L inp s)"
  unfolding delete_data_from_cache_def
  by (intro keeps_after_assert) (auto simp: db_is_def intro!: post_cfg_keeps)

lemma move_cache_keeps:
  assumes "s_db s = Some db"
  shows "keeps (db_is (snd (move_cache_to_storage db))) (move_cache_request inp s)"
proof -
  obtain st db' where m: "move_cache_to_storage db = (st, db')"
    by (cases "move_cache_to_storage db")
  obtain s' where "post_cfg_manager_write_storage_cfg_request (put_db db' s) = Done s'" "s_db s' = Some db'"
    using post_cfg_Done [of "put_db db' s" db'] by auto
  then show ?thesis
    using assms m by (simp add: move_cache_request_def db_is_def)
qed

lemma listed_names_keeps:
  "s_db s = Some db \<Longrightarrow> (\<And>names. keeps Q (k names)) \<Longrightarrow> keeps Q (listed_names L inp s k)"
  by (simp add: listed_names_def split: option.split)

lemma send_uuids_keeps: "s_db s = Some db \<Longrightarrow> keeps (db_is db) (send_uuids L inp s)"
  unfolding send_uuids_def by (intro listed_names_keeps for_each_keeps_db send_uuid_keeps)

lemma sync_keeps: "s_db s = Some db \<Longrightarrow> keeps (db_is db) (send_uuids_for_sync_process L inp s)"
  by (simp add: send_uuids_for_sync_process_def Let_def db_is_def split: outcome.split)

lemma kernel_input_effect:
  assumes "s_db s = Some db"
  shows "keeps (db_is (kernel_effect L inp db)) (storage_process_kernel_input L inp s)"
  using assms look_up_request_keeps [OF assms, of L inp] get_data_keeps [OF assms, of L inp]
    save_data_keeps [OF assms, of L inp] delete_data_keeps [OF assms, of L inp]
    copy_data_keeps [OF assms, of inp L] add_in_cache_keeps [OF assms, of inp L]
    delete_from_cache_keeps [OF assms, of L inp] move_cache_keeps [OF assms, of inp]
    send_uuids_keeps [OF assms, of L inp] sync_keeps [OF assms, of L inp]
  by (simp add: storage_process_kernel_input_def Let_def) (simp add: kernel_effect_def Let_def db_is_def)


section \<open>The database as a map\<close>

text \<open>
  What a user of a store of named payloads relies on; \<open>put\<close> answers whether it succeeded. After any
  sequence of operations the store holds what the successful ones put there.
\<close>

datatype ('k, 'p) store_op = Put 'k 'p | Del 'k

text \<open>A run of operations next to the map its successful operations define.\<close>

fun run_ops :: "('k \<Rightarrow> 'p \<Rightarrow> 's \<Rightarrow> bool \<times> 's) \<Rightarrow> ('k \<Rightarrow> 's \<Rightarrow> 's) \<Rightarrow> ('p \<Rightarrow> 'v)
    \<Rightarrow> ('k, 'p) store_op list \<Rightarrow> 's \<Rightarrow> ('k \<rightharpoonup> 'v) \<Rightarrow> 's \<times> ('k \<rightharpoonup> 'v)" where
  "run_ops put del val [] s m = (s, m)"
| "run_ops put del val (Put k p # ops) s m =
     (case put k p s of (ok, s') \<Rightarrow> run_ops put del val ops s' (if ok then m(k \<mapsto> val p) else m))"
| "run_ops put del val (Del k # ops) s m = run_ops put del val ops (del k s) (m(k := None))"

locale keyed_store =
  fixes put :: "'k \<Rightarrow> 'p \<Rightarrow> 's \<Rightarrow> bool \<times> 's"
    and del :: "'k \<Rightarrow> 's \<Rightarrow> 's"
    and lookup :: "'k \<Rightarrow> 's \<Rightarrow> 'v option"
    and val :: "'p \<Rightarrow> 'v"
  assumes lookup_put: "put k p s = (ok, s') \<Longrightarrow>
      lookup k' s' = (if ok \<and> k' = k then Some (val p) else lookup k' s)"
    and lookup_del: "lookup k' (del k s) = (if k' = k then None else lookup k' s)"
begin

lemma run_is_map:
  "run_ops put del val ops s m = (s', m') \<Longrightarrow> \<forall>k. lookup k s = m k \<Longrightarrow> lookup k s' = m' k"
proof (induction ops arbitrary: s m)
  case (Cons a ops)
  show ?case
  proof (cases a)
    case (Put k0 p)
    obtain ok s1 where put: "put k0 p s = (ok, s1)"
      by (cases "put k0 p s")
    have "\<forall>k'. lookup k' s1 = (if ok then m(k0 \<mapsto> val p) else m) k'"
      using lookup_put [OF put] Cons.prems(2) by auto
    with Cons.IH Cons.prems(1) put Put show ?thesis
      by simp
  next
    case (Del k0)
    have "\<forall>k. lookup k (del k0 s) = (m(k0 := None)) k"
      using Cons.prems(2) by (simp add: lookup_del)
    then show ?thesis
      using Cons.prems(1) Del Cons.IH [of "del k0 s" "m(k0 := None)"] by (simp del: fun_upd_apply)
  qed
qed simp

lemma lookup_put_other: "put k p s = (ok, s') \<Longrightarrow> k' \<noteq> k \<Longrightarrow> lookup k' s' = lookup k' s"
  by (simp add: lookup_put)

end

definition stored :: "string \<Rightarrow> db_json \<Rightarrow> byte list option" where
  "stored n db = map_option f_bytes (map_of (m_db_dir db) n)"

definition cached :: "string \<Rightarrow> db_json \<Rightarrow> byte list option" where
  "cached n db = map_option f_bytes (map_of (m_cache_dir db) n)"

text \<open>\<open>overwrite\<close> as the \<open>put\<close> of the store, with the exception turned into the answer.\<close>

definition db_put :: "string \<Rightarrow> 'a package_scheme \<Rightarrow> db_json \<Rightarrow> bool \<times> db_json" where
  "db_put n content db = (let (e, db) = overwrite n content db in (e = None, db))"

lemma stored_reduce [simp]: "stored k (reduce_uuid_size n db) = stored k db"
  by (simp add: stored_def reduce_uuid_size_def split: option.split)

lemma stored_delete_from_cache [simp]: "stored k (delete_uuid_from_cache n db) = stored k db"
  by (simp add: stored_def delete_uuid_from_cache_def split: option.split)

lemma stored_create:
  "create n content db = Inr db' \<Longrightarrow>
   stored k db' = (if k = n then content_bytes content else stored k db)"
  by (auto simp: create_Inr stored_def)

lemma stored_delete: "stored k (delete_uuid n db) = (if k = n then None else stored k db)"
  by (auto simp: stored_def delete_uuid_def delete_uuid_from_cache_def Let_def split: option.split)

lemma stored_overwrite:
  "overwrite n content db = (None, db') \<Longrightarrow>
   stored k db' = (if k = n then content_bytes content else stored k db)"
  by (auto simp: overwrite_def Let_def stored_create split: sum.splits)

lemma stored_overwrite_failed: "overwrite n content db = (Some e, db') \<Longrightarrow> stored k db' = stored k db"
  by (auto simp: overwrite_def Let_def split: sum.splits)

lemma overwrite_content:
  "overwrite n content db = (None, db') \<Longrightarrow> \<exists>bs. content_bytes content = Some bs"
  by (auto simp: overwrite_def Let_def create_Inr split: sum.splits)

interpretation db_store: keyed_store db_put delete_uuid stored "\<lambda>p. the (content_bytes p)"
proof
  fix n k :: string and p :: "'a package_scheme" and db db' ok
  assume "db_put n p db = (ok, db')"
  then show "stored k db' = (if ok \<and> k = n then Some (the (content_bytes p)) else stored k db)"
    using overwrite_content [of n p db db']
    by (cases "fst (overwrite n p db)")
      (auto simp: db_put_def stored_overwrite [of n p db db'] stored_overwrite_failed split: prod.splits)
qed (simp add: stored_delete)


section \<open>What a message leaves alone\<close>

text \<open>\<open>held n\<close>: the file \<open>n\<close> in both directories.\<close>

definition held :: "string \<Rightarrow> db_json \<Rightarrow> disk_file option \<times> disk_file option" where
  "held n db = (map_of (m_db_dir db) n, map_of (m_cache_dir db) n)"

definition touches :: "poco \<Rightarrow> string \<Rightarrow> kernel_storage_package \<Rightarrow> bool" where
  "touches L n inp \<longleftrightarrow>
     ks_cmd inp = cmd_move_cache_to_storage
     \<or> uuid_to_string L (ks_uuid inp) = n
         \<and> ks_cmd inp \<in> {cmd_save_data, cmd_del, cmd_add_in_cache, cmd_delete_from_cache}
     \<or> ks_cmd inp = cmd_copy \<and> (\<exists>bs. payload_of inp = Some bs \<and> chars bs = n)"

lemma held_overwrite: "k \<noteq> n \<Longrightarrow> held n (snd (overwrite k content db)) = held n db"
  by (auto simp: overwrite_def held_def reduce_uuid_size_def create_Inr Let_def
      split: sum.split option.split)

lemma held_delete: "k \<noteq> n \<Longrightarrow> held n (delete_uuid k db) = held n db"
  by (simp add: delete_uuid_def delete_uuid_from_cache_def held_def Let_def split: option.split)

lemma held_delete_from_cache: "k \<noteq> n \<Longrightarrow> held n (delete_uuid_from_cache k db) = held n db"
  by (simp add: delete_uuid_from_cache_def held_def split: option.split)

lemma held_copy: "copy k k' db = Inr db' \<Longrightarrow> k' \<noteq> n \<Longrightarrow> held n db' = held n db"
  by (auto simp: copy_def held_def split: option.splits if_splits)

lemma held_add_in_cache: "add_in_cache k content db = Inr db' \<Longrightarrow> k \<noteq> n \<Longrightarrow> held n db' = held n db"
  by (auto simp: add_in_cache_def held_def split: option.splits)

lemma held_kernel_effect:
  assumes "\<not> touches L n inp"
  shows "held n (kernel_effect L inp db) = held n db"
proof -
  let ?k = "uuid_to_string L (ks_uuid inp)"
  have cp: "held n (case payload_of inp of None \<Rightarrow> db
      | Some bs \<Rightarrow> (case copy ?k (chars bs) db of Inl _ \<Rightarrow> db | Inr db' \<Rightarrow> db')) = held n db"
    if "ks_cmd inp = cmd_copy"
    using assms that by (auto simp: touches_def held_copy split: option.split sum.split)
  have ad: "held n (case add_in_cache ?k inp db of Inl _ \<Rightarrow> db | Inr db' \<Rightarrow> db') = held n db" if "?k \<noteq> n"
    using that by (simp add: held_add_in_cache split: sum.split)
  show ?thesis
    using assms cp ad
    by (cases "?k = n") (auto simp: kernel_effect_def touches_def Let_def held_overwrite held_delete
        held_delete_from_cache)
qed

lemma read_fails_move: "read_fails (snd (move_loop v b db)) = read_fails db"
  by (induction v b db rule: move_loop.induct) simp_all

lemma read_fails_ops:
  "read_fails (snd (overwrite k content db)) = read_fails db"
  "read_fails (delete_uuid k db) = read_fails db"
  "read_fails (delete_uuid_from_cache k db) = read_fails db"
  "copy k k' db = Inr db' \<Longrightarrow> read_fails db' = read_fails db"
  "add_in_cache k content db = Inr db' \<Longrightarrow> read_fails db' = read_fails db"
  "read_fails (snd (move_cache_to_storage db)) = read_fails db"
  using read_fails_move [of "m_cache_dir db" True db]
  by (auto simp: overwrite_def reduce_uuid_size_def create_Inr delete_uuid_def Let_def
      delete_uuid_from_cache_def copy_def add_in_cache_def move_cache_to_storage_def
      split: option.splits sum.split if_splits prod.split)

lemma read_fails_kernel_effect: "read_fails (kernel_effect L inp db) = read_fails db"
  by (simp add: kernel_effect_def Let_def read_fails_ops split: option.split sum.split)

end
