(* ===== verification/Backup_Inv.thy ===== *)
theory Backup_Inv
  imports Backup Storage_Inv
begin

text \<open>
  Lemmas on the backup task: JSON objects as a keyed store, what the handlers keep, and the loop over a received
  journal as a fold over its entries.
\<close>

interpretation json_object: keyed_store "\<lambda>k v m. (True, obj_set k v m)" obj_remove "\<lambda>k m. map_of m k" "\<lambda>v. v"
  by unfold_locales auto

section \<open>What a request leaves alone\<close>

definition stays :: "('k, 'f) backup \<Rightarrow> ('k, 'f) backup \<Rightarrow> bool" where
  "stays s0 s \<longleftrightarrow> bk_kernel_rx s = bk_kernel_rx s0 \<and> (m_device_json s0 \<noteq> None \<longrightarrow> m_device_json s \<noteq> None)"

lemma stays_refl [simp]: "stays s s"
  by (simp add: stays_def)

lemma stays_simps [simp]:
  "stays s0 (to_kernel_b g s) = stays s0 s" "stays s0 (commit_to_kernel_b s) = stays s0 s"
  "stays s0 (set_storage_data m s) = stays s0 s" "stays s0 (s\<lparr>m_device_json_updated := b\<rparr>) = stays s0 s"
  "stays s0 (s\<lparr>bk_storage_tx := t\<rparr>) = stays s0 s" "stays s0 (s\<lparr>bk_cache_tx := t\<rparr>) = stays s0 s"
  "stays s0 (s\<lparr>bk_files := d\<rparr>) = stays s0 s" "stays s0 (s\<lparr>m_device_json_cipher := c\<rparr>) = stays s0 s"
  "stays s0 (post_kernel_send_uuids obj r s) = stays s0 s"
  by (simp_all add: stays_def to_kernel_b_def commit_to_kernel_b_def set_storage_data_def
      post_kernel_send_uuids_def)

lemma with_journal_keeps:
  "(\<And>m. m_storage_data s = Some m \<Longrightarrow> keeps P (k m)) \<Longrightarrow> keeps P (with_journal s k)"
  by (simp add: with_journal_def split: option.split)

lemma posts_stay [intro]:
  assumes "stays s0 s"
  shows "keeps (stays s0) (post_storage_delete_request_for_uuids us s)"
    "keeps (stays s0) (post_kernel_notify_delete L n v s)"
    "keeps (stays s0) (post_storage_remove_from_cache_request L n s)"
  using assms set_payload_string_cases
  by (auto simp: post_storage_delete_request_for_uuids_def post_kernel_notify_delete_def Let_def
      post_storage_remove_from_cache_request_def split: option.split outcome.split)

lemma entries_stay [intro]:
  assumes "stays s0 s"
  shows "keeps (stays s0) (handle_add_in_device_json L inp s)"
    "keeps (stays s0) (handle_kernel_delete_from_device_json L u v lu s)"
    "keeps (stays s0) (update_info_for_deleted_uuid L n lus vs s)"
  using assms
  by (auto simp: handle_add_in_device_json_def handle_kernel_delete_from_device_json_def Let_def
      update_info_for_deleted_uuid_def intro!: with_journal_keeps split: option.split)

lemma files_stay [intro]:
  assumes "stays s0 s"
  shows "keeps (stays s0) (save_device_json B s)" "keeps (stays s0) (initialize_key B key iv s)"
  using assms by (auto simp: save_device_json_def initialize_key_def split: option.split)

lemma journal_lines_stay:
  "stays s0 s \<Longrightarrow> (\<And>obj d s. stays s0 s \<Longrightarrow> keeps (stays s0) (k obj d s)) \<Longrightarrow>
   keeps (stays s0) (journal_lines L cl ls obj d s k)"
proof (induction ls arbitrary: obj d s)
  case (Cons l ls)
  have del: "keeps (stays s0) (and_then (update_info_for_deleted_uuid L n lu v s) (\<lambda>s.
      and_then (post_kernel_notify_delete L n (of_nat (from_string 64 v)) s) (\<lambda>s.
        journal_lines L cl ls obj (d @ [n]) s k)))" for n lu v
    using Cons by (intro keeps_and_then) auto
  have sv: "keeps (stays s0) (and_then (post_storage_remove_from_cache_request L n s) (\<lambda>s.
      journal_lines L cl ls obj d s k))" for n obj
    using Cons by (intro keeps_and_then) auto
  show ?case
    using del sv Cons.prems(1) by (auto split: list.split option.split)
qed simp

lemma get_journal_stays: "stays s0 s \<Longrightarrow> keeps (stays s0) (handle_kernel_get_journal_info L inp s)"
  unfolding handle_kernel_get_journal_info_def
  by (auto split: option.split intro!: journal_lines_stay keeps_and_then)

lemma send_journal_stays: "stays s0 s \<Longrightarrow> keeps (stays s0) (handle_kernel_send_journal_info L B inp s)"
  using set_payload_string_cases unfolding handle_kernel_send_journal_info_def
  by (intro keeps_after_assert) (auto simp: Let_def split: option.split outcome.split intro!: with_journal_keeps)

lemma dump_stays: "stays s0 s \<Longrightarrow> keeps (stays s0) (handle_kernel_dump_user_info B inp s)"
  unfolding handle_kernel_dump_user_info_def by (intro keeps_and_then) (auto intro!: keeps_and_then)

lemma kernel_request_stays: "keeps (stays s) (backup_process_kernel_input L B inp s)"
  unfolding backup_process_kernel_input_def Let_def
  by (auto intro!: get_journal_stays send_journal_stays dump_stays)

section \<open>The journal on its way to a peer\<close>

text \<open>A line as data: the name, the time of the last update, whether it is a deletion, the version.\<close>

type_synonym journal_line = "string \<times> nat \<times> bool \<times> nat"

definition line_tokens :: "journal_line \<Rightarrow> string list" where
  "line_tokens x = (case x of (n, lu, del, v) \<Rightarrow>
     [n, decimal lu, if del then ''d'' else ''s'', decimal v])"

definition good_entry :: "json_entry \<Rightarrow> bool" where
  "good_entry e \<longleftrightarrow> (\<exists>v lu. e_version e = Some v \<and> 0 \<le> v \<and> v < 2 ^ 32
     \<and> e_last_updated e = Some lu \<and> 0 \<le> lu \<and> lu < 2 ^ 63 \<and> e_is_deleted e \<noteq> None)"

definition entry_data :: "json_entry \<Rightarrow> nat \<times> bool \<times> nat" where
  "entry_data e = (nat (the (e_last_updated e)), the (e_is_deleted e), nat (the (e_version e)))"

definition news :: "int \<Rightarrow> journal \<Rightarrow> journal_line list" where
  "news last_seen m = map (\<lambda>(n, e). (n, entry_data e)) (filter (\<lambda>(n, e). the (e_last_updated e) > last_seen) m)"

definition journal_text :: "journal_line list \<Rightarrow> string" where
  "journal_text xs = concat (map (\<lambda>l. l @ [CHR 0x0A]) (map (\<lambda>x. join CHR '' '' (line_tokens x)) xs))"

definition good_journal :: "journal \<Rightarrow> bool" where
  "good_journal m \<longleftrightarrow> (\<forall>(n, e) \<in> set m. good_entry e)"

lemma good_line:
  assumes "good_entry e"
  shows "construct_journal_info_line e t n =
    Some (if the (e_last_updated e) > t then join CHR '' '' (line_tokens (n, entry_data e)) @ [CHR 0x0A] else [])"
  using assms
  by (auto simp: good_entry_def construct_journal_info_line_def get_uint_def timestamp_def line_tokens_def
      entry_data_def decimal_int_nat)

lemma sent_journal:
  "good_journal m \<Longrightarrow> send_journal_info_by_last_seen_time t m = journal_text (news t m)"
  by (induction m)
    (auto simp: send_journal_info_by_last_seen_time_def journal_text_def news_def good_journal_def good_line)

text \<open>Names a peer can read: the canonical form of a uuid.\<close>

definition uuid_name :: "poco \<Rightarrow> string \<Rightarrow> bool" where
  "uuid_name L n \<longleftrightarrow> (\<exists>u. n = uuid_to_string L u)"

lemma uuid_name_props:
  assumes "poco_ok L" and "uuid_name L n"
  shows "plain n" and "\<exists>u. uuid_try_parse L n = Some u \<and> uuid_to_string L u = n"
  using assms poco_okD(1,2) [OF assms(1)] by (auto simp: uuid_name_def)

lemma decimal_no: "(of_char c :: nat) < 48 \<Longrightarrow> c \<notin> set (decimal n)"
  using decimal_digit [of c n] by (auto simp: is_digit_def)

lemma decimal_chars [simp]:
  "decimal n \<noteq> []" "[] \<noteq> decimal n" "CHR '' '' \<notin> set (decimal n)" "CHR 0x0A \<notin> set (decimal n)" "CHR 0x00 \<notin> set (decimal n)"
  using decimal_props [of n] by (simp_all add: decimal_no) metis

lemma line_token_chars:
  assumes "plain (fst x)" and "t \<in> set (line_tokens x)"
  shows "t \<noteq> []" "CHR '' '' \<notin> set t" "CHR 0x0A \<notin> set t" "CHR 0x00 \<notin> set t"
  using assms by (auto simp: line_tokens_def plain_def split: prod.splits if_splits)

lemma tokenize_line:
  "poco_ok L \<Longrightarrow> plain (fst x) \<Longrightarrow> tokenize L (join CHR '' '' (line_tokens x)) CHR '' '' = line_tokens x"
  by (rule poco_okD(3)) (auto dest: line_token_chars)

lemma set_join: "set (join c ts) \<subseteq> insert c (\<Union> (set ` set ts))"
  by (induction c ts rule: join.induct) auto

lemma line_chars:
  assumes "plain (fst x)"
  shows "CHR 0x0A \<notin> set (join CHR '' '' (line_tokens x))" "CHR 0x00 \<notin> set (join CHR '' '' (line_tokens x))"
  using set_join [of "CHR '' ''" "line_tokens x"] line_token_chars(3,4) [OF assms] by fastforce+

lemma journal_text_lines:
  assumes "\<forall>x \<in> set xs. plain (fst x)"
  shows "get_lines [] (journal_text xs) = map (\<lambda>x. join CHR '' '' (line_tokens x)) xs"
    and "CHR 0x00 \<notin> set (journal_text xs)"
proof -
  have c: "\<forall>x \<in> set xs. CHR 0x0A \<notin> set (join CHR '' '' (line_tokens x)) \<and> CHR 0x00 \<notin> set (join CHR '' '' (line_tokens x))"
    using assms line_chars by blast
  then show "get_lines [] (journal_text xs) = map (\<lambda>x. join CHR '' '' (line_tokens x)) xs"
    unfolding journal_text_def by (subst get_lines_concat) force+
  show "CHR 0x00 \<notin> set (journal_text xs)"
    using c by (auto simp: journal_text_def)
qed

section \<open>The journal read by a peer\<close>

definition newer :: "json_entry \<Rightarrow> nat \<Rightarrow> nat \<Rightarrow> bool" where
  "newer e v lu \<longleftrightarrow> the (e_version e) < int v \<or> the (e_version e) = int v \<and> the (e_last_updated e) < int lu"

definition mark_deleted :: "int \<Rightarrow> nat \<Rightarrow> nat \<Rightarrow> json_entry \<Rightarrow> json_entry" where
  "mark_deleted now lu v e = e\<lparr>e_is_deleted := Some True, e_version := Some (int v),
     e_last_updated := Some (int lu), e_expiration_date := Some (now + deletion_delay)\<rparr>"

lemma should_get_update_newer:
  assumes "good_entry e" and "v < 2 ^ 32" and "lu < 2 ^ 63"
  shows "should_get_update e (decimal v) (decimal lu) = Some (newer e v lu)"
proof -
  have "from_string 32 (decimal v) = v" "from_string 64 (decimal lu) = lu"
    using assms(2,3) by (simp_all add: from_string_decimal)
  then show ?thesis
    using assms by (auto simp: should_get_update_def good_entry_def get_uint_def timestamp_def newer_def Let_def)
qed

text \<open>One line: the names to ask for, the names to delete and the journal of the reader.\<close>

fun merge_line :: "int \<Rightarrow> ID32 \<Rightarrow> journal_line \<Rightarrow> (string \<times> char) list \<times> string list \<times> journal \<Rightarrow>
    (string \<times> char) list \<times> string list \<times> journal" where
  "merge_line now cl (n, lu, del, v) (obj, d, m) =
     (if del then (obj, d @ [n], case map_of m n of None \<Rightarrow> m | Some e \<Rightarrow> obj_set n (mark_deleted now lu v e) m)
      else (case map_of m n of
              None \<Rightarrow> if cl = 1 then obj_set n (CHR ''s'') obj else obj
            | Some e \<Rightarrow> if newer e v lu then obj_set n (CHR ''u'') obj else obj, d, m))"

lemma m_storage_data_simps [simp]:
  "m_storage_data (to_kernel_b g s) = m_storage_data s" "m_storage_data (commit_to_kernel_b s) = m_storage_data s"
  "m_storage_data (s\<lparr>bk_storage_tx := t\<rparr>) = m_storage_data s" "m_storage_data (s\<lparr>bk_cache_tx := c\<rparr>) = m_storage_data s"
  "m_storage_data (s\<lparr>m_device_json_updated := b\<rparr>) = m_storage_data s"
  "m_storage_data s \<noteq> None \<Longrightarrow> m_storage_data (set_storage_data m s) = Some m"
  by (auto simp: m_storage_data_def to_kernel_b_def commit_to_kernel_b_def set_storage_data_def split: option.splits)

lemma good_journal_map: "good_journal m \<Longrightarrow> map_of m n = Some e \<Longrightarrow> good_entry e"
  by (auto simp: good_journal_def dest: map_of_SomeD)

lemma good_mark: "v < 2 ^ 32 \<Longrightarrow> lu < 2 ^ 63 \<Longrightarrow> good_entry (mark_deleted now lu v e)"
  by (simp add: good_entry_def mark_deleted_def)

text \<open>Every entry the map gives is good; unlike \<open>good_journal\<close> this is about the map alone.\<close>

definition good_map :: "journal \<Rightarrow> bool" where
  "good_map m \<longleftrightarrow> (\<forall>n e. map_of m n = Some e \<longrightarrow> good_entry e)"

lemma delete_entry_runs:
  assumes m: "m_storage_data s = Some m" and n: "uuid_try_parse L n = Some u" "uuid_to_string L u = n"
    and v: "v < 2 ^ 32" and lu: "lu < 2 ^ 63"
  shows "\<exists>s'. update_info_for_deleted_uuid L n (decimal lu) (decimal v) s = Done s'
    \<and> m_storage_data s' = Some (case map_of m n of None \<Rightarrow> m
        | Some e \<Rightarrow> obj_set n (mark_deleted (bk_clock s) lu v e) m)
    \<and> bk_clock s' = bk_clock s \<and> bk_storage_tx s' = bk_storage_tx s \<and> bk_kernel_tx s' = bk_kernel_tx s"
proof -
  have f: "from_string 32 (decimal v) = v" "from_string 64 (decimal lu) = lu"
    using v lu by (simp_all add: from_string_decimal)
  have w: "uint (of_nat v :: ID32) = int v" "uint (of_nat lu :: u64) = int lu"
    using v lu by (simp_all add: unsigned_of_nat take_bit_nat_eq_self)
  show ?thesis
    using m n
    by (auto simp: update_info_for_deleted_uuid_def f handle_kernel_delete_from_device_json_def with_journal_def
        Let_def mark_deleted_def w set_storage_data_def split: option.split)
       (auto simp: m_storage_data_def split: option.splits)
qed

lemma notify_delete_runs:
  "uuid_try_parse L n = Some u \<Longrightarrow> \<exists>s'. post_kernel_notify_delete L n v s = Done s'
    \<and> m_storage_data s' = m_storage_data s \<and> bk_clock s' = bk_clock s \<and> bk_storage_tx s' = bk_storage_tx s
    \<and> fifo_ok (bk_kernel_tx s')"
  by (simp add: post_kernel_notify_delete_def Let_def) (simp add: to_kernel_b_def commit_to_kernel_b_def)

lemma remove_from_cache_runs:
  "uuid_try_parse L n = Some u \<Longrightarrow> \<exists>s'. post_storage_remove_from_cache_request L n s = Done s'
    \<and> m_storage_data s' = m_storage_data s \<and> bk_clock s' = bk_clock s \<and> bk_storage_tx s' = bk_storage_tx s
    \<and> bk_kernel_tx s' = bk_kernel_tx s"
  by (simp add: post_storage_remove_from_cache_request_def Let_def)

definition good_line_data :: "poco \<Rightarrow> journal_line \<Rightarrow> bool" where
  "good_line_data L x \<longleftrightarrow> uuid_name L (fst x) \<and> fst (snd x) < 2 ^ 63 \<and> snd (snd (snd x)) < 2 ^ 32"

lemma journal_lines_runs:
  assumes ok: "poco_ok L" and "\<forall>x \<in> set xs. good_line_data L x" and "m_storage_data s = Some m" and "good_map m"
    and "fifo_ok (bk_kernel_tx s)"
  shows "\<exists>s' obj' d' m'. journal_lines L cl (map (\<lambda>x. join CHR '' '' (line_tokens x)) xs) obj d s k = k obj' d' s'
    \<and> fold (merge_line (bk_clock s) cl) xs (obj, d, m) = (obj', d', m') \<and> m_storage_data s' = Some m'
    \<and> bk_storage_tx s' = bk_storage_tx s \<and> bk_clock s' = bk_clock s \<and> fifo_ok (bk_kernel_tx s')"
  using assms(2-5)
proof (induction xs arbitrary: obj d s m)
  case (Cons x xs)
  obtain n lu del v where x: "x = (n, lu, del, v)"
    by (cases x)
  from Cons.prems(1) have xs: "\<forall>x \<in> set xs. good_line_data L x"
    and n: "uuid_name L n" and lu: "lu < 2 ^ 63" and v: "v < 2 ^ 32"
    by (auto simp: x good_line_data_def)
  obtain u where u: "uuid_try_parse L n = Some u" "uuid_to_string L u = n"
    using uuid_name_props(2) [OF ok n] by blast
  have tok: "tokenize L (join CHR '' '' (line_tokens x)) CHR '' '' =
      [n, decimal lu, if del then ''d'' else ''s'', decimal v]"
    using tokenize_line [OF ok, of x] uuid_name_props(1) [OF ok n] by (simp add: x line_tokens_def)
  show ?case
  proof (cases del)
    case True
    define m1 where "m1 = (case map_of m n of None \<Rightarrow> m
      | Some e \<Rightarrow> obj_set n (mark_deleted (bk_clock s) lu v e) m)"
    obtain s1 where 1: "update_info_for_deleted_uuid L n (decimal lu) (decimal v) s = Done s1"
      "m_storage_data s1 = Some m1" "bk_clock s1 = bk_clock s" "bk_storage_tx s1 = bk_storage_tx s"
      using delete_entry_runs [OF Cons.prems(2) u v lu] unfolding m1_def by blast
    obtain s2 where 2: "post_kernel_notify_delete L n (of_nat (from_string 64 (decimal v))) s1 = Done s2"
      "m_storage_data s2 = Some m1" "bk_clock s2 = bk_clock s" "bk_storage_tx s2 = bk_storage_tx s"
      "fifo_ok (bk_kernel_tx s2)"
      using notify_delete_runs [OF u(1), of _ s1] 1(2-4) by auto
    have g: "good_map m1"
      using Cons.prems(3) good_mark [OF v lu] by (auto simp: m1_def good_map_def split: option.splits)
    from Cons.IH [OF xs 2(2) g 2(5), of obj "d @ [n]"] show ?thesis
      using True 1 2 by (simp add: tok) (simp add: x m1_def)
  next
    case False
    define obj1 where "obj1 = (case map_of m n of None \<Rightarrow> if cl = 1 then obj_set n (CHR ''s'') obj else obj
      | Some e \<Rightarrow> if newer e v lu then obj_set n (CHR ''u'') obj else obj)"
    have q: "(case map_of m n of None \<Rightarrow> Some (if cl = 1 then obj_set n (CHR ''s'') obj else obj)
        | Some e \<Rightarrow> map_option (\<lambda>b. if b then obj_set n (CHR ''u'') obj else obj) (should_get_update e (decimal v) (decimal lu)))
      = Some obj1"
      using Cons.prems(3) v lu by (auto simp: obj1_def good_map_def should_get_update_newer split: option.splits)
    obtain s1 where 1: "post_storage_remove_from_cache_request L n s = Done s1" "m_storage_data s1 = Some m"
      "bk_clock s1 = bk_clock s" "bk_storage_tx s1 = bk_storage_tx s" "bk_kernel_tx s1 = bk_kernel_tx s"
      using remove_from_cache_runs [OF u(1), of s] Cons.prems(2) by auto
    have tx: "fifo_ok (bk_kernel_tx s1)"
      using Cons.prems(4) 1(5) by simp
    from Cons.IH [OF xs 1(2) Cons.prems(3) tx, of obj1 d] show ?thesis
      using False 1 Cons.prems(2) by (simp add: tok q) (simp add: x obj1_def)
  qed
qed auto

section \<open>What the merge does\<close>

text \<open>The entry of a name after the merge, and what is asked of the peer about it.\<close>

definition merged_entry :: "int \<Rightarrow> (nat \<times> bool \<times> nat) option \<Rightarrow> json_entry option \<Rightarrow> json_entry option" where
  "merged_entry now line e = (case line of Some (lu, True, v) \<Rightarrow> map_option (mark_deleted now lu v) e | _ \<Rightarrow> e)"

definition asked :: "ID32 \<Rightarrow> (nat \<times> bool \<times> nat) option \<Rightarrow> json_entry option \<Rightarrow> char option \<Rightarrow> char option" where
  "asked cl line e old = (case line of
     Some (lu, False, v) \<Rightarrow> (case e of
         None \<Rightarrow> if cl = 1 then Some (CHR ''s'') else old
       | Some e \<Rightarrow> if newer e v lu then Some (CHR ''u'') else old)
   | _ \<Rightarrow> old)"

text \<open>The lines are those of different names.\<close>

lemma merge_lines_spec:
  assumes "distinct (map fst xs)" and "fold (merge_line now cl) xs (obj, d, m) = (obj', d', m')"
  shows "map_of m' n = merged_entry now (map_of xs n) (map_of m n)
    \<and> map_of obj' n = asked cl (map_of xs n) (map_of m n) (map_of obj n)
    \<and> d' = d @ map fst (filter (\<lambda>x. fst (snd (snd x))) xs)"
  using assms
proof (induction xs arbitrary: obj d m)
  case (Cons x xs)
  obtain k lu del v where x: "x = (k, lu, del, v)"
    by (cases x)
  obtain obj1 d1 m1 where 1: "merge_line now cl x (obj, d, m) = (obj1, d1, m1)"
    by (cases "merge_line now cl x (obj, d, m)")
  from Cons.prems(1) have ds: "distinct (map fst xs)" and k: "map_of xs k = None"
    by (simp_all add: x map_of_eq_None_iff)
  have f: "fold (merge_line now cl) xs (obj1, d1, m1) = (obj', d', m')"
    using Cons.prems(2) 1 by (simp del: merge_line.simps)
  have m1: "map_of m1 n = (if k = n then merged_entry now (Some (lu, del, v)) (map_of m n) else map_of m n)"
    using 1 by (cases del; cases "map_of m k") (auto simp: x merged_entry_def)
  have o1: "map_of obj1 n = (if k = n then asked cl (Some (lu, del, v)) (map_of m n) (map_of obj n) else map_of obj n)"
    using 1 by (cases del; cases "map_of m k") (auto simp: x asked_def)
  have d1: "d1 = d @ (if del then [k] else [])"
    using 1 by (cases del) (auto simp: x)
  have none: "merged_entry now None e = e" "asked cl None e old = old" for e old
    by (simp_all add: merged_entry_def asked_def)
  show ?case
    using Cons.IH [OF ds f] k unfolding m1 o1 d1 x
    by (cases "k = n"; cases del) (auto simp: none)
qed (simp add: merged_entry_def asked_def)

end
