(* ===== verification/Storage_Props.thy ===== *)
theory Storage_Props
  imports Storage_Inv
begin

text \<open>
  The properties of the storage task and of its database, each with a concrete run.
\<close>

section \<open>Answers\<close>

lemma payload_of_set_string:
  "length str < 2 ^ 32 \<Longrightarrow> set_payload_string str p = Done p' \<Longrightarrow> payload_of p' = Some str"
  by (rule set_payload_string_payload)

lemma respond_Done:
  assumes db: "s_db s = Some db" and len: "length msg < 2 ^ 32" and resp: "ks_should_send_response inp"
  shows "\<exists>s' r. respond_to_save inp cmd msg s = Done s' \<and> s_db s' = Some db \<and> replies s s' r
    \<and> ks_cmd r = cmd \<and> ks_uuid r = ks_uuid inp \<and> ks_request_id r = ks_request_id inp
    \<and> payload_of r = Some (bytes_of msg)"
proof -
  define s1 where "s1 = to_kernel (\<lambda>out. out\<lparr>ks_uuid := ks_uuid inp, ks_request_id := ks_request_id inp,
    ks_cmd := cmd\<rparr>) s"
  define r where "r = slot (sg_kernel_tx s1)\<lparr>p_size := of_nat (length msg), p_message := Some (bytes_of msg @ [0])\<rparr>"
  have sp: "set_payload_string (bytes_of msg) (slot (sg_kernel_tx s1)) = Done r"
    using len set_payload_string_fits [of "bytes_of msg"] by (simp add: r_def)
  then have "payload_of r = Some (bytes_of msg)"
    by (rule set_payload_string_payload)
  moreover have "ks_cmd r = cmd" "ks_uuid r = ks_uuid inp" "ks_request_id r = ks_request_id inp"
    by (simp_all add: r_def s1_def to_kernel_def)
  moreover have "respond_to_save inp cmd msg s = Done (commit_to_kernel (to_kernel (\<lambda>_. r) s1))"
    using resp sp by (simp add: respond_to_save_def s1_def [symmetric])
  moreover have "replies s (commit_to_kernel (to_kernel (\<lambda>_. r) s1)) r"
    by (simp add: replies_def commit_to_kernel_def to_kernel_def s1_def)
  ultimately show ?thesis
    using db by (auto simp: s1_def)
qed

lemma look_up_ok:
  assumes "s_db s = Some db" and "ks_cmd inp = cmd_look_up"
  shows "\<exists>s' r. storage_process_kernel_input L inp s = Done s' \<and> s_db s' = Some db \<and> replies s s' r
    \<and> ks_cmd r = (if look_up (uuid_to_string L (ks_uuid inp)) (ks_check_cache inp) db then cmd_ack else cmd_nack)
    \<and> ks_uuid r = ks_uuid inp \<and> ks_request_id r = ks_request_id inp"
proof -
  define g where "g = (\<lambda>out :: kernel_storage_package. out\<lparr>ks_request_id := ks_request_id inp, ks_cmd := cmd_nack,
    ks_uuid := ks_uuid inp\<rparr>)"
  define h where "h = (\<lambda>out :: kernel_storage_package. out\<lparr>ks_request_id := ks_request_id inp, ks_cmd := cmd_ack,
    p_size := of_nat (length metadata_text), p_message := Some (bytes_of metadata_text @ [0]),
    ks_uuid := ks_uuid inp\<rparr>)"
  have fits: "length (bytes_of metadata_text) < 2 ^ 32"
    by (simp add: metadata_text_def)
  have ack: "send_ack_with_metadata inp s = Done (commit_to_kernel (to_kernel h s))"
    by (simp add: send_ack_with_metadata_def set_payload_string_fits [OF fits] h_def to_kernel_def)
      (simp add: set_slot_def)
  have nack: "send_nack inp s = commit_to_kernel (to_kernel g s)"
    by (simp add: send_nack_def g_def)
  have "replies s (commit_to_kernel (to_kernel f s)) (f (slot (sg_kernel_tx s)))" for f
    by (rule replies_commit) (simp add: commit_to_kernel_def to_kernel_def)
  from this [of g] this [of h] show ?thesis
    using assms ack nack
    by (simp add: storage_process_kernel_input_def look_up_request_def) (auto simp: g_def h_def)
qed

lemma replies_cong: "sg_kernel_tx s = sg_kernel_tx s0 \<Longrightarrow> replies s s' r \<longleftrightarrow> replies s0 s' r"
  by (simp add: replies_def)

lemma put_db_tx [simp]: "sg_kernel_tx (put_db db s) = sg_kernel_tx s"
  by (simp add: put_db_def)

lemma save_data_ok:
  assumes "s_db s = Some db" and "ks_cmd inp = cmd_save_data" and "ks_should_send_response inp"
    and "overwrite (uuid_to_string L (ks_uuid inp)) inp db = (None, db')"
  shows "\<exists>s' r. storage_process_kernel_input L inp s = Done s' \<and> s_db s' = Some db' \<and> replies s s' r
    \<and> ks_cmd r = cmd_save_confirm \<and> ks_uuid r = ks_uuid inp \<and> ks_request_id r = ks_request_id inp"
proof -
  obtain s1 where 1: "post_cfg_manager_write_storage_cfg_request (put_db db' s) = Done s1" "s_db s1 = Some db'"
    "sg_kernel_tx s1 = sg_kernel_tx s"
    using post_cfg_Done [of "put_db db' s" db'] by auto
  obtain s' r where "respond_to_save inp cmd_save_confirm [] s1 = Done s'" "s_db s' = Some db'"
    "replies s1 s' r" "ks_cmd r = cmd_save_confirm" "ks_uuid r = ks_uuid inp" "ks_request_id r = ks_request_id inp"
    using respond_Done [OF 1(2) _ assms(3), of "[]" cmd_save_confirm] by auto
  then show ?thesis
    using assms 1 replies_cong [OF 1(3)]
    by (auto simp: storage_process_kernel_input_def save_data_def)
qed

lemma save_data_failed:
  assumes "s_db s = Some db" and "ks_cmd inp = cmd_save_data" and "ks_should_send_response inp"
    and "overwrite (uuid_to_string L (ks_uuid inp)) inp db = (Some e, db')"
    and "failure_of e = Some (cmd, msg)" and "length msg < 2 ^ 32"
  shows "\<exists>s' r. storage_process_kernel_input L inp s = Done s' \<and> s_db s' = Some db' \<and> replies s s' r
    \<and> ks_cmd r = cmd \<and> ks_uuid r = ks_uuid inp \<and> ks_request_id r = ks_request_id inp
    \<and> payload_of r = Some (bytes_of msg)"
  using assms respond_Done [of "put_db db' s" db' msg inp cmd] replies_cong [of "put_db db' s" s]
  by (auto simp: storage_process_kernel_input_def save_data_def)

lemma get_data_ok:
  assumes "s_db s = Some db" and "ks_cmd inp = cmd_get"
    and "db_get (uuid_to_string L (ks_uuid inp)) db = Inr d"
  shows "\<exists>s' r. storage_process_kernel_input L inp s = Done s' \<and> s_db s' = Some db \<and> replies s s' r
    \<and> ks_cmd r = cmd_get_data \<and> ks_uuid r = ks_uuid inp \<and> ks_request_id r = ks_request_id inp
    \<and> payload_of r = payload_of d"
proof -
  define g where "g = (\<lambda>out :: kernel_storage_package. set_payload d (out\<lparr>ks_request_id := ks_request_id inp, ks_cmd := cmd_get_data,
    ks_uuid := ks_uuid inp\<rparr>))"
  define s' where "s' = commit_to_kernel (to_kernel g s)"
  have "storage_process_kernel_input L inp s = Done s'"
    using assms by (simp add: storage_process_kernel_input_def get_data_from_db_def s'_def g_def
        to_kernel_def commit_to_kernel_def)
  moreover have "replies s s' (g (slot (sg_kernel_tx s)))"
    by (rule replies_commit) (simp add: s'_def commit_to_kernel_def to_kernel_def)
  moreover have "s_db s' = Some db"
    using assms by (simp add: s'_def)
  ultimately show ?thesis
    by (auto simp: g_def set_payload_def payload_of_def)
qed

text \<open>What \<open>get\<close> reads back of a file that is not cached.\<close>

lemma read_package_payload:
  assumes "length bs < 2 ^ 31 - 1"
  shows "\<exists>d. read_package bs = Inr d \<and> payload_of d = Some bs"
proof -
  have u: "unat (of_nat (length bs) :: ID32) = length bs"
    using assms by (simp add: unat_of_nat take_bit_nat_eq_self)
  have "\<not> (of_nat (length bs) :: ID32) <s 0"
  proof
    assume "(of_nat (length bs) :: ID32) <s 0"
    then have "sint (of_nat (length bs) :: ID32) < 0"
      by (simp add: word_sless_alt)
    moreover have "signed_take_bit 31 (int (length bs)) = int (length bs)"
      using assms by (intro signed_take_bit_int_eq_self) simp_all
    then have "sint (of_nat (length bs) :: ID32) = int (length bs)"
      using arg_cong [OF u, of int] by (simp add: sint_uint)
    ultimately show False by simp
  qed
  moreover have "(of_nat (length bs) :: ID32) \<noteq> 0x7FFFFFFF"
  proof
    assume "(of_nat (length bs) :: ID32) = 0x7FFFFFFF"
    then have "unat (of_nat (length bs) :: ID32) = unat (0x7FFFFFFF :: ID32)"
      by simp
    with assms u show False by simp
  qed
  moreover have "(of_nat (length bs) :: ID32) = 0 \<longleftrightarrow> bs = []"
  proof
    assume "(of_nat (length bs) :: ID32) = 0"
    then have "unat (of_nat (length bs) :: ID32) = 0"
      by simp
    with u show "bs = []"
      by simp
  qed simp
  ultimately show ?thesis
    using u by (cases "bs = []")
      (simp_all add: read_package_def Let_def set_payload_owned_def resize_def assert_that_def
        payload_of_def default_package_def mem_read_def)
qed


lemma db_get_stored:
  assumes "stored n db = Some bs" and "cached n db = None" and "n \<notin> set (read_fails db)"
    and "length bs < 2 ^ 31 - 1"
  shows "\<exists>d. db_get n db = Inr d \<and> payload_of d = Some bs"
  using assms read_package_payload [of bs]
  by (auto simp: stored_def cached_def db_get_def look_up_def look_up_in_cache_def file_exists_def)

section \<open>A concrete node\<close>

text \<open>A database of at most 1000 bytes with two stored files and a cached one, and requests.\<close>

definition ex_name :: "uuid \<Rightarrow> string" where
  "ex_name u = uuid_to_string poco_ref u"

definition ex_db :: db_json where
  "ex_db = db_new [(ex_name 1, \<lparr>f_bytes = [1, 2, 3], f_mtime = 5\<rparr>), (ex_name 2, \<lparr>f_bytes = [7], f_mtime = 6\<rparr>)]
     [(ex_name 3, \<lparr>f_bytes = [9, 9], f_mtime = 8\<rparr>)] 100 2 4 0 50 1000"

definition ex_storage :: storage where
  "ex_storage = storage_new True (Some ex_db)"

definition ex_request :: "command \<Rightarrow> uuid \<Rightarrow> byte list \<Rightarrow> kernel_storage_package" where
  "ex_request c u bs = kernel_storage_package0\<lparr>ks_request_id := 77, ks_cmd := c, ks_uuid := u,
     p_size := of_nat (length bs), p_message := (if bs = [] then None else Some (bs @ [0]))\<rparr>"

lemma ex_name_eq [simp]: "ex_name u = ex_name v \<longleftrightarrow> u = v"
  by (simp add: ex_name_def uuid_to_string_inj [OF poco_ref_ok])

lemma ex_name_fold [simp]: "uuid_to_string poco_ref u = ex_name u"
  by (simp add: ex_name_def)

lemma ex_simps [simp]:
  "s_db ex_storage = Some ex_db" "ks_cmd (ex_request c u bs) = c" "ks_uuid (ex_request c u bs) = u"
  "ks_request_id (ex_request c u bs) = 77" "ks_should_send_response (ex_request c u bs)"
  "p_size (ex_request c u bs) = of_nat (length bs)"
  by (simp_all add: ex_storage_def storage_new_def ex_request_def kernel_storage_package0_def package.defs)

lemma ex_db_simps [simp]:
  "m_db_dir ex_db = [(ex_name 1, \<lparr>f_bytes = [1, 2, 3], f_mtime = 5\<rparr>), (ex_name 2, \<lparr>f_bytes = [7], f_mtime = 6\<rparr>)]"
  "m_cache_dir ex_db = [(ex_name 3, \<lparr>f_bytes = [9, 9], f_mtime = 8\<rparr>)]"
  "m_storage_size ex_db = 4" "m_cache_size ex_db = 2" "m_storage_limit ex_db = 1000"
  "m_cache_limit ex_db = 50" "m_cache_age ex_db = 0" "db_clock ex_db = 100"
  "read_fails ex_db = []" "write_fails ex_db = []" "cache_write_fails ex_db = []"
  by (simp_all add: ex_db_def db_new_def)

lemma ex_accounted: "accounted ex_db"
  by (simp add: accounted_def)

lemma ex_content [simp]: "content_bytes (ex_request c u [4, 5]) = Some [4, 5]"
  by (simp add: content_bytes_def payload_of_def ex_request_def kernel_storage_package0_def mem_read_def
      word_sless_alt)

section \<open>Runs of requests\<close>

text \<open>Requests of the kernel served one after the other, exceptions caught after each.\<close>

definition serve :: "poco \<Rightarrow> kernel_storage_package list \<Rightarrow> storage \<Rightarrow> storage outcome" where
  "serve L ms s = for_each ms (\<lambda>m s. catch_log (storage_process_kernel_input L m s)) s"

lemma serve_effect:
  assumes "serve L ms s = Done s'" and "s_db s = Some db"
  shows "s_db s' = Some (fold (kernel_effect L) ms db)"
  using assms
proof (induction ms arbitrary: s db)
  case (Cons m ms)
  from Cons.prems(1) obtain s1 where 1: "catch_log (storage_process_kernel_input L m s) = Done s1"
    and 2: "serve L ms s1 = Done s'"
    by (auto simp: serve_def and_then_Done_iff)
  have "s_db s1 = Some (kernel_effect L m db)"
    using kernel_input_effect [OF Cons.prems(2), of L m] 1
    by (cases "storage_process_kernel_input L m s") (simp_all add: db_is_def)
  with Cons.IH [OF 2] show ?case by simp
qed (simp add: serve_def)

lemma untouched_run:
  "\<forall>m \<in> set ms. \<not> touches L n m \<Longrightarrow>
   held n (fold (kernel_effect L) ms db) = held n db
   \<and> read_fails (fold (kernel_effect L) ms db) = read_fails db"
  by (induction ms arbitrary: db) (simp_all add: held_kernel_effect read_fails_kernel_effect)

lemma held_stored: "held n db = held n db' \<Longrightarrow> stored n db = stored n db' \<and> cached n db = cached n db'"
  by (simp add: held_def stored_def cached_def)

lemma cached_overwrite [simp]: "cached n (snd (overwrite k content db)) = cached n db"
  by (auto simp: cached_def overwrite_def reduce_uuid_size_def create_Inr Let_def
      split: sum.split option.split)

lemma content_payload: "content_bytes p = Some bs \<Longrightarrow> payload_of p = Some bs"
  by (simp add: content_bytes_def split: if_splits)

text \<open>
  C14: A payload that the storage confirmed to have saved is what it answers to a later request for
  it, whatever requests about other uuids come in between; the name must not be in the cache.
\<close>

theorem saved_data_is_returned:
  assumes db: "s_db s = Some db" and save: "ks_cmd inp = cmd_save_data" "ks_should_send_response inp"
    and ok: "fst (overwrite (uuid_to_string L (ks_uuid inp)) inp db) = None"
    and fresh: "cached (uuid_to_string L (ks_uuid inp)) db = None"
    and readable: "uuid_to_string L (ks_uuid inp) \<notin> set (read_fails db)"
    and size: "unat (p_size inp) < 2 ^ 31 - 1"
    and others: "\<forall>m \<in> set ms. \<not> touches L (uuid_to_string L (ks_uuid inp)) m"
    and run: "serve L (inp # ms) s = Done s'"
    and get: "ks_cmd g = cmd_get" "ks_uuid g = ks_uuid inp"
  shows "\<exists>s'' r. storage_process_kernel_input L g s' = Done s'' \<and> replies s' s'' r
    \<and> ks_cmd r = cmd_get_data \<and> ks_uuid r = ks_uuid inp \<and> ks_request_id r = ks_request_id g
    \<and> payload_of r = payload_of inp"
proof -
  let ?n = "uuid_to_string L (ks_uuid inp)"
  obtain db1 where ow: "overwrite ?n inp db = (None, db1)"
    using ok by (cases "overwrite ?n inp db") auto
  obtain bs where bs: "content_bytes inp = Some bs"
    using overwrite_content [OF ow] ..
  let ?db' = "fold (kernel_effect L) (inp # ms) db"
  have e: "kernel_effect L inp db = db1"
    by (simp add: kernel_effect_def save Let_def ow)
  have db': "s_db s' = Some ?db'"
    by (rule serve_effect [OF run db])
  have h: "held ?n ?db' = held ?n db1" and rf: "read_fails ?db' = read_fails db1"
    using untouched_run [OF others, of db1] by (simp_all add: e)
  have "stored ?n ?db' = Some bs" and "cached ?n ?db' = None"
    using held_stored [OF h] stored_overwrite [OF ow, of ?n] fresh bs cached_overwrite [of ?n ?n inp db]
    by (simp_all add: ow)
  moreover have "?n \<notin> set (read_fails ?db')"
    unfolding rf using readable read_fails_ops(1) [of ?n inp db] by (simp add: ow)
  moreover have "length bs < 2 ^ 31 - 1"
    using size payload_of_length [OF content_payload [OF bs]] by simp
  ultimately obtain d where "db_get ?n ?db' = Inr d" "payload_of d = Some bs"
    using db_get_stored by blast
  with get_data_ok [OF db' get(1), of L d] get(2) content_payload [OF bs] show ?thesis
    by (simp only:) blast
qed


lemma saved_data_is_returned_witness:
  "\<exists>s' s'' r. serve poco_ref [ex_request cmd_save_data 4 [4, 5], ex_request cmd_look_up 4 []] ex_storage = Done s'
    \<and> storage_process_kernel_input poco_ref (ex_request cmd_get 4 []) s' = Done s'' \<and> replies s' s'' r
    \<and> ks_cmd r = cmd_get_data \<and> ks_uuid r = 4 \<and> payload_of r = Some [4, 5]"
proof -
  let ?i = "ex_request cmd_save_data 4 [4, 5]" and ?m = "ex_request cmd_look_up 4 []"
  have ow: "fst (overwrite (ex_name 4) ?i ex_db) = None"
    by (simp add: overwrite_def reduce_uuid_size_def create_def)
  then obtain db1 where ow1: "overwrite (ex_name 4) ?i ex_db = (None, db1)"
    by (cases "overwrite (ex_name 4) ?i ex_db") auto
  obtain s1 where 1: "storage_process_kernel_input poco_ref ?i ex_storage = Done s1" "s_db s1 = Some db1"
    using save_data_ok [of ex_storage ex_db ?i poco_ref db1] ow1 by auto
  have "\<exists>s2. storage_process_kernel_input poco_ref ?m s1 = Done s2"
    using look_up_ok [OF 1(2), of ?m poco_ref] by auto
  then obtain s' where run: "serve poco_ref [?i, ?m] ex_storage = Done s'"
    using 1 by (auto simp: serve_def)
  have pay: "payload_of ?i = Some [4, 5]"
    by (rule content_payload) simp
  have "\<exists>s'' r. storage_process_kernel_input poco_ref (ex_request cmd_get 4 []) s' = Done s'' \<and> replies s' s'' r
    \<and> ks_cmd r = cmd_get_data \<and> ks_uuid r = ks_uuid ?i \<and> ks_request_id r = ks_request_id (ex_request cmd_get 4 [])
    \<and> payload_of r = payload_of ?i"
    by (rule saved_data_is_returned [where db = ex_db and s = ex_storage and ms = "[?m]"])
      (use ow run in \<open>simp_all add: cached_def touches_def\<close>)
  with run pay show ?thesis by auto
qed

section \<open>A full storage\<close>

lemma overwrite_refused:
  assumes "limited db"
    and "m_storage_limit db < m_storage_size (reduce_uuid_size n db) + ucast (p_size content)"
  shows "overwrite n content db =
    (Some (Poco_exception ''Failed to save: No space in storage'' 28), reduce_uuid_size n db)"
proof -
  have "limited (reduce_uuid_size n db)" "m_storage_limit (reduce_uuid_size n db) = m_storage_limit db"
    using assms(1) by (simp_all add: limited_def reduce_uuid_size_def split: option.split)
  with assms(2) show ?thesis
    by (simp add: overwrite_def create_def)
qed

text \<open>
  A save that does not fit is answered with \<open>no_space\<close> and the text of the exception, and no
  file changes; but the size of the file it was to replace is taken off the account for good.
\<close>

theorem refused_save_is_answered:
  assumes db: "s_db s = Some db" and save: "ks_cmd inp = cmd_save_data" "ks_should_send_response inp"
    and lim: "limited db"
    and full: "m_storage_limit db < m_storage_size (reduce_uuid_size (uuid_to_string L (ks_uuid inp)) db)
                 + ucast (p_size inp)"
  shows "\<exists>s' r db'. storage_process_kernel_input L inp s = Done s' \<and> replies s s' r
    \<and> ks_cmd r = cmd_no_space \<and> ks_request_id r = ks_request_id inp
    \<and> payload_of r = Some (bytes_of ''Failed to save: No space in storage'')
    \<and> s_db s' = Some db' \<and> (\<forall>k. held k db' = held k db)
    \<and> m_storage_size db' = m_storage_size db -
        (case stored (uuid_to_string L (ks_uuid inp)) db of None \<Rightarrow> 0 | Some bs \<Rightarrow> of_nat (length bs))"
proof -
  let ?n = "uuid_to_string L (ks_uuid inp)"
  let ?e = "Poco_exception ''Failed to save: No space in storage'' 28"
  have ow: "overwrite ?n inp db = (Some ?e, reduce_uuid_size ?n db)"
    using lim full by (rule overwrite_refused)
  have f: "failure_of ?e = Some (cmd_no_space, ''Failed to save: No space in storage'')"
    by (simp add: failure_of_def)
  have "m_storage_size (reduce_uuid_size ?n db) = m_storage_size db -
        (case stored ?n db of None \<Rightarrow> 0 | Some bs \<Rightarrow> of_nat (length bs))"
    by (simp add: reduce_uuid_size_def stored_def file_size_def split: option.split)
  moreover have "held k (reduce_uuid_size ?n db) = held k db" for k
    by (simp add: held_def reduce_uuid_size_def split: option.split)
  ultimately show ?thesis
    using save_data_failed [OF db save ow f] by auto
qed

lemma dir_size_of_map:
  assumes "distinct (map fst d)" "distinct (map fst d')" "map_of d = map_of d'"
  shows "dir_size d = dir_size d'"
proof -
  have "set d = set d'"
    using map_of_inject_set [OF assms(1,2)] assms(3) by simp
  then have "mset d = mset d'"
    using assms(1,2) by (simp add: set_eq_iff_mset_eq_distinct distinct_map)
  then show ?thesis
    by (simp add: dir_size_mset)
qed

definition ex_full :: storage where
  "ex_full = put_db (ex_db\<lparr>m_storage_limit := 4\<rparr>) ex_storage"

lemma refused_save_is_answered_witness:
  "\<exists>s' r db'. storage_process_kernel_input poco_ref (ex_request cmd_save_data 2 [4, 5]) ex_full = Done s'
    \<and> replies ex_full s' r \<and> ks_cmd r = cmd_no_space \<and> s_db s' = Some db'
    \<and> stored (ex_name 2) db' = Some [7] \<and> m_storage_size db' = 3 \<and> \<not> accounted db'"
proof -
  let ?i = "ex_request cmd_save_data 2 [4, 5]" and ?db = "ex_db\<lparr>m_storage_limit := 4\<rparr>"
  have "\<exists>s' r db'. storage_process_kernel_input poco_ref ?i ex_full = Done s' \<and> replies ex_full s' r
    \<and> ks_cmd r = cmd_no_space \<and> ks_request_id r = ks_request_id ?i
    \<and> payload_of r = Some (bytes_of ''Failed to save: No space in storage'')
    \<and> s_db s' = Some db' \<and> (\<forall>k. held k db' = held k ?db)
    \<and> m_storage_size db' = m_storage_size ?db -
        (case stored (uuid_to_string poco_ref (ks_uuid ?i)) ?db of None \<Rightarrow> 0 | Some bs \<Rightarrow> of_nat (length bs))"
    by (rule refused_save_is_answered)
      (simp_all add: ex_full_def limited_def word_sless_alt word_sle_eq reduce_uuid_size_def file_size_def)
  then obtain s' r db' where r: "storage_process_kernel_input poco_ref ?i ex_full = Done s'"
    "replies ex_full s' r" "ks_cmd r = cmd_no_space" "s_db s' = Some db'"
    and h: "\<forall>k. held k db' = held k ?db" and sz: "m_storage_size db' = 3"
    by (auto simp: stored_def)
  have st: "stored (ex_name 2) db' = Some [7]"
    using held_stored [OF h [rule_format, of "ex_name 2"]] by (simp add: stored_def)
  have "\<not> accounted db'"
  proof
    assume acc: "accounted db'"
    have "map_of (m_db_dir db') = map_of (m_db_dir ?db)"
      using h by (auto simp: held_def)
    with acc have "dir_size (m_db_dir db') = dir_size (m_db_dir ?db)"
      by (intro dir_size_of_map) (simp_all add: accounted_def)
    with acc sz show False
      by (simp add: accounted_def)
  qed
  with r st sz show ?thesis by blast
qed


section \<open>Accounting over runs\<close>

text \<open>
  The requests whose sizes the database keeps track of: a save that succeeds, a copy to a name not
  yet used, a new file for the cache, every deletion and every question. Not: moving the cache.
\<close>

definition regular :: "poco \<Rightarrow> kernel_storage_package \<Rightarrow> db_json \<Rightarrow> bool" where
  "regular L inp db =
     (let n = uuid_to_string L (ks_uuid inp) in
      (ks_cmd inp = cmd_save_data \<longrightarrow> fst (overwrite n inp db) = None)
      \<and> (ks_cmd inp = cmd_copy \<longrightarrow>
           (case payload_of inp of None \<Rightarrow> True | Some bs \<Rightarrow> map_of (m_db_dir db) (chars bs) = None))
      \<and> (ks_cmd inp = cmd_add_in_cache \<longrightarrow>
           map_of (m_cache_dir db) n = None \<and> n \<notin> set (cache_write_fails db))
      \<and> ks_cmd inp \<noteq> cmd_move_cache_to_storage)"

fun regular_run :: "poco \<Rightarrow> kernel_storage_package list \<Rightarrow> db_json \<Rightarrow> bool" where
  "regular_run L [] db = True"
| "regular_run L (m # ms) db = (regular L m db \<and> regular_run L ms (kernel_effect L m db))"

lemma overwrite_None:
  "overwrite n content db = (None, db') \<longleftrightarrow> create n content (reduce_uuid_size n db) = Inr db'"
  by (auto simp: overwrite_def Let_def split: sum.split)

lemma regular_accounted:
  assumes "accounted db" and "regular L inp db"
  shows "accounted (kernel_effect L inp db)"
proof -
  let ?n = "uuid_to_string L (ks_uuid inp)"
  have sv: "accounted (snd (overwrite ?n inp db))" if "fst (overwrite ?n inp db) = None"
    using that accounted_overwrite [OF assms(1), of ?n inp]
    by (metis overwrite_None prod.collapse)
  have cp: "accounted (case payload_of inp of None \<Rightarrow> db
      | Some bs \<Rightarrow> (case copy ?n (chars bs) db of Inl _ \<Rightarrow> db | Inr db' \<Rightarrow> db'))"
    if "case payload_of inp of None \<Rightarrow> True | Some bs \<Rightarrow> map_of (m_db_dir db) (chars bs) = None"
    using that assms(1) by (auto intro: accounted_copy_new split: option.splits sum.split)
  have ad: "accounted (case add_in_cache ?n inp db of Inl _ \<Rightarrow> db | Inr db' \<Rightarrow> db')"
    if "map_of (m_cache_dir db) ?n = None \<and> ?n \<notin> set (cache_write_fails db)"
    using that assms(1) by (auto intro: accounted_add_in_cache split: sum.split)
  show ?thesis
    using assms sv cp ad accounted_delete [OF assms(1), of ?n] accounted_delete_from_cache [OF assms(1), of ?n]
    by (simp add: kernel_effect_def regular_def Let_def)
qed

lemma regular_run_accounted:
  "accounted db \<Longrightarrow> regular_run L ms db \<Longrightarrow> accounted (fold (kernel_effect L) ms db)"
  by (induction ms arbitrary: db) (simp_all add: regular_accounted)

text \<open>
  C15: The accounted sizes of the storage and the cache stay those of the files over every run of
  such requests, whatever the order and whatever the other requests answer.
\<close>

theorem storage_accounting:
  assumes "s_db s = Some db" and "accounted db" and "regular_run L ms db" and "serve L ms s = Done s'"
  shows "\<exists>db'. s_db s' = Some db' \<and> accounted db'"
  using serve_effect [OF assms(4,1)] regular_run_accounted [OF assms(2,3)] by blast

section \<open>The limit over runs\<close>

lemma dir_size_delete_le: "distinct (map fst d) \<Longrightarrow> dir_size (file_remove n d) \<le> dir_size d"
proof (cases "map_of d n")
  case (Some f)
  assume "distinct (map fst d)"
  from dir_size_remove [OF this Some] show ?thesis by simp
qed (simp add: dir_size_remove_absent)

lemma dir_size_effect_delete:
  "accounted db \<Longrightarrow> dir_size (m_db_dir (delete_uuid n db)) \<le> dir_size (m_db_dir db)"
  by (auto simp: delete_uuid_def delete_uuid_from_cache_def Let_def accounted_def dir_size_delete_le
      split: option.split)


lemma limit_bound: "limited db \<Longrightarrow> unat (m_storage_limit db) < 2 ^ 63"
  using unat_of_nonneg [of "m_storage_limit db"]
  by (simp add: limited_def word_sle_eq word_sless_alt not_less)

lemma copy_within_limit:
  assumes acc: "accounted db" and cp: "copy k n db = Inr db'" and new: "map_of (m_db_dir db) n = None"
    and lim: "limited db" and small: "dir_size (m_db_dir db) \<le> unat (m_storage_limit db)"
  shows "dir_size (m_db_dir db') \<le> unat (m_storage_limit db)"
proof -
  from cp obtain f where f: "map_of (m_db_dir db) k = Some f"
    and le: "m_storage_size db + file_size f \<le> m_storage_limit db"
    and db': "m_db_dir db' = file_write n (f_bytes f) (db_clock db) (m_db_dir db)"
    by (auto simp: copy_def not_less split: option.splits if_splits)
  have "length (f_bytes f) \<le> dir_size (m_db_dir db)"
    using dir_size_remove [OF accountedD(1) [OF acc] f] by simp
  then have "dir_size (m_db_dir db) + length (f_bytes f) < 2 ^ 64"
    using small limit_bound [OF lim] by simp
  then show ?thesis
    using le acc unfolding db' dir_size_write_new [OF new]
    by (intro no_wrap_le) (simp_all add: accounted_def file_size_def)
qed

lemma limit_ops:
  "m_storage_limit (snd (overwrite k content db)) = m_storage_limit db"
  "m_storage_limit (delete_uuid k db) = m_storage_limit db"
  "m_storage_limit (delete_uuid_from_cache k db) = m_storage_limit db"
  "copy k k' db = Inr db' \<Longrightarrow> m_storage_limit db' = m_storage_limit db"
  "add_in_cache k content db = Inr db' \<Longrightarrow> m_storage_limit db' = m_storage_limit db"
  by (auto simp: overwrite_def reduce_uuid_size_def create_Inr delete_uuid_def Let_def
      delete_uuid_from_cache_def copy_def add_in_cache_def split: option.splits sum.split if_splits)

lemma regular_within:
  assumes acc: "accounted db" and reg: "regular L inp db" and lim: "limited db"
    and small: "dir_size (m_db_dir db) \<le> unat (m_storage_limit db)"
  shows "dir_size (m_db_dir (kernel_effect L inp db)) \<le> unat (m_storage_limit db)"
proof -
  let ?n = "uuid_to_string L (ks_uuid inp)"
  have "dir_size (m_db_dir db) + 2 ^ 31 < 2 ^ 64"
    using small limit_bound [OF lim] by simp
  then have sv: "dir_size (m_db_dir (snd (overwrite ?n inp db))) \<le> unat (m_storage_limit db)"
    if "fst (overwrite ?n inp db) = None"
    using create_within_limit [OF acc _ lim, of ?n inp] that by (metis overwrite_None prod.collapse)
  have cp: "dir_size (m_db_dir (case payload_of inp of None \<Rightarrow> db
      | Some bs \<Rightarrow> (case copy ?n (chars bs) db of Inl _ \<Rightarrow> db | Inr db' \<Rightarrow> db'))) \<le> unat (m_storage_limit db)"
    if "case payload_of inp of None \<Rightarrow> True | Some bs \<Rightarrow> map_of (m_db_dir db) (chars bs) = None"
    using that small copy_within_limit [OF acc _ _ lim small, of ?n]
    by (auto split: option.splits sum.split)
  have ad: "m_db_dir (case add_in_cache ?n inp db of Inl _ \<Rightarrow> db | Inr db' \<Rightarrow> db') = m_db_dir db"
    by (auto simp: add_in_cache_def split: option.split)
  have dc: "m_db_dir (delete_uuid_from_cache ?n db) = m_db_dir db"
    by (simp add: delete_uuid_from_cache_def split: option.split)
  show ?thesis
    using reg sv cp ad dc small dir_size_effect_delete [OF acc, of ?n]
    by (simp add: kernel_effect_def regular_def Let_def)
qed

lemma limit_kernel_effect:
  "regular L inp db \<Longrightarrow> m_storage_limit (kernel_effect L inp db) = m_storage_limit db"
  by (simp add: kernel_effect_def regular_def Let_def limit_ops split: option.split sum.split)

lemma regular_run_within:
  "accounted db \<Longrightarrow> limited db \<Longrightarrow> dir_size (m_db_dir db) \<le> unat (m_storage_limit db) \<Longrightarrow> regular_run L ms db \<Longrightarrow>
   dir_size (m_db_dir (fold (kernel_effect L) ms db)) \<le> unat (m_storage_limit db)"
proof (induction ms arbitrary: db)
  case (Cons m ms)
  have lim: "m_storage_limit (kernel_effect L m db) = m_storage_limit db"
    using Cons.prems by (intro limit_kernel_effect) simp
  with Cons.prems Cons.IH [of "kernel_effect L m db"] show ?case
    using regular_within [of db L m] regular_accounted [of db L m] by (simp add: limited_def)
qed simp

text \<open>
  C22: A storage with a limit never holds more bytes than that, over every such run.
\<close>

theorem storage_within_limit:
  assumes "s_db s = Some db" and "accounted db" and "limited db"
    and "dir_size (m_db_dir db) \<le> unat (m_storage_limit db)"
    and "regular_run L ms db" and "serve L ms s = Done s'"
  shows "\<exists>db'. s_db s' = Some db' \<and> dir_size (m_db_dir db') \<le> unat (m_storage_limit db)"
  using serve_effect [OF assms(6,1)] regular_run_within [OF assms(2-5)] by blast


definition ex_run :: "kernel_storage_package list" where
  "ex_run = [ex_request cmd_save_data 4 [4, 5], ex_request cmd_del 2 []]"

lemma ex_overwrite:
  "overwrite (ex_name 4) (ex_request cmd_save_data 4 [4, 5]) ex_db =
     (None, ex_db\<lparr>m_db_dir := m_db_dir ex_db @ [(ex_name 4, \<lparr>f_bytes = [4, 5], f_mtime = 100\<rparr>)], m_storage_size := 6\<rparr>)"
  by (simp add: overwrite_def reduce_uuid_size_def create_def file_write_def)

lemma ex_run_Done: "\<exists>s'. serve poco_ref ex_run ex_storage = Done s'"
proof -
  obtain s1 db1 where 1: "storage_process_kernel_input poco_ref (ex_request cmd_save_data 4 [4, 5]) ex_storage = Done s1"
    "s_db s1 = Some db1"
    using save_data_ok [of ex_storage ex_db "ex_request cmd_save_data 4 [4, 5]" poco_ref] ex_overwrite by auto
  obtain s2 where "delete_data poco_ref (ex_request cmd_del 2 []) s1 = Done s2"
    using delete_data_Done [OF 1(2), of "ex_request cmd_del 2 []" poco_ref] by auto
  with 1 show ?thesis
    by (auto simp: serve_def ex_run_def storage_process_kernel_input_def)
qed

lemma ex_run_regular: "regular_run poco_ref ex_run ex_db"
  by (simp add: ex_run_def regular_def Let_def ex_overwrite)

lemma storage_accounting_witness:
  "\<exists>s' db'. serve poco_ref ex_run ex_storage = Done s' \<and> s_db s' = Some db' \<and> accounted db'"
proof -
  obtain s' where "serve poco_ref ex_run ex_storage = Done s'"
    using ex_run_Done ..
  with storage_accounting [OF _ ex_accounted ex_run_regular this] show ?thesis
    by auto
qed

lemma storage_within_limit_witness:
  "\<exists>s' db'. serve poco_ref ex_run ex_storage = Done s' \<and> s_db s' = Some db' \<and> dir_size (m_db_dir db') \<le> 1000"
proof -
  obtain s' where "serve poco_ref ex_run ex_storage = Done s'"
    using ex_run_Done ..
  with storage_within_limit [OF _ ex_accounted _ _ ex_run_regular this] show ?thesis
    by (auto simp: limited_def word_sle_eq)
qed

section \<open>The cache\<close>

text \<open>
  C27: Cleaning up removes the oldest cached files, one after the other, as long as the next one is
  too old or the rest is over the limit, and no other file; afterwards the size is accounted for.
\<close>

theorem cleanup_removes_oldest:
  fixes db :: db_json
  assumes "accounted db" and "dir_size (m_cache_dir db) < 2 ^ 64"
  defines "v \<equiv> sort_key (\<lambda>b. f_mtime (snd b)) (m_cache_dir db)"
  shows "\<exists>k \<le> length v. set (m_cache_dir (cleanup_cache db)) = set (drop k v)
    \<and> (\<forall>j < k. too_old db (snd (v ! j)) \<or> dir_size (drop j v) > unat (m_cache_limit db))
    \<and> (k < length v \<longrightarrow> \<not> too_old db (snd (v ! k)) \<and> dir_size (drop k v) \<le> unat (m_cache_limit db))
    \<and> m_db_dir (cleanup_cache db) = m_db_dir db \<and> accounted (cleanup_cache db)"
proof -
  let ?k = "cleanup_count v db"
  have run: "cleanup_cache db = db\<lparr>m_cache_size := of_nat (dir_size (drop ?k v)),
      m_cache_dir := filter (\<lambda>b. fst b \<notin> fst ` set (take ?k v)) (m_cache_dir db)\<rparr>"
    unfolding v_def by (rule cleanup_cache_runs [OF assms(1,2)])
  have "distinct (map fst v)"
    using accountedD(2) [OF assms(1)] by (simp add: v_def distinct_map)
  then have "distinct (map fst (take ?k v) @ map fst (drop ?k v))"
    by (simp flip: map_append)
  moreover have "set (m_cache_dir db) = set (take ?k v) \<union> set (drop ?k v)"
    by (metis append_take_drop_id set_append set_sort v_def)
  ultimately have "set (m_cache_dir (cleanup_cache db)) = set (drop ?k v)"
    unfolding run by (auto simp: image_iff)
  moreover have "m_db_dir (cleanup_cache db) = m_db_dir db"
    by (simp add: run)
  ultimately show ?thesis
    using cleanup_count_spec [of v db] accounted_cleanup [OF assms(1)] by blast
qed

definition ex_cache :: db_json where
  "ex_cache = ex_db\<lparr>m_cache_dir := [(ex_name 5, \<lparr>f_bytes = replicate 30 0, f_mtime = 9\<rparr>),
     (ex_name 6, \<lparr>f_bytes = replicate 30 0, f_mtime = 7\<rparr>)], m_cache_size := 60\<rparr>"

lemma cleanup_removes_oldest_witness:
  "set (m_cache_dir (cleanup_cache ex_cache)) = {(ex_name 5, \<lparr>f_bytes = replicate 30 0, f_mtime = 9\<rparr>)}
   \<and> accounted (cleanup_cache ex_cache)"
proof -
  have acc: "accounted ex_cache"
    by (simp add: accounted_def ex_cache_def)
  let ?a = "(ex_name 6, \<lparr>f_bytes = replicate 30 0, f_mtime = 7\<rparr>)"
  let ?b = "(ex_name 5, \<lparr>f_bytes = replicate 30 0, f_mtime = 9\<rparr>)"
  have v: "sort_key (\<lambda>b. f_mtime (snd b)) (m_cache_dir ex_cache) = [?a, ?b]"
    by (simp add: ex_cache_def)
  have lim: "m_cache_limit ex_cache = 50" and old: "\<not> too_old ex_cache f" for f
    by (simp_all add: ex_cache_def too_old_def)
  have "dir_size (m_cache_dir ex_cache) < 2 ^ 64"
    by (simp add: ex_cache_def)
  from cleanup_removes_oldest [OF acc this] obtain k where
    k: "k \<le> Suc (Suc 0)" "set (m_cache_dir (cleanup_cache ex_cache)) = set (drop k [?a, ?b])"
      "\<forall>j < k. dir_size (drop j [?a, ?b]) > 50" "k < Suc (Suc 0) \<longrightarrow> dir_size (drop k [?a, ?b]) \<le> 50"
      "accounted (cleanup_cache ex_cache)"
    unfolding v lim by (elim exE conjE, intro that) (simp_all add: old)
  then have "k \<noteq> 0" and "k \<noteq> 2"
    using spec [OF k(3), of 1] by (cases "k = 0"; simp)+
  with k(1) have "k = 1"
    by simp
  with k show ?thesis
    by simp
qed

section \<open>The files as a map\<close>

text \<open>
  C21: After any sequence of overwrites and deletions the storage holds for every name what the last
  successful operation on it left: refused writes leave nothing behind, and names do not interfere.
\<close>

theorem database_is_map:
  assumes "run_ops db_put delete_uuid (\<lambda>p. the (content_bytes p)) ops db (\<lambda>n. stored n db) = (db', m)"
  shows "stored n db' = m n"
  by (rule db_store.run_is_map [OF assms]) simp

lemma database_is_map_witness:
  "\<exists>db' m. run_ops db_put delete_uuid (\<lambda>p. the (content_bytes p))
      [Put (ex_name 4) (ex_request cmd_save_data 4 [4, 5]), Del (ex_name 2)] ex_db (\<lambda>n. stored n ex_db) = (db', m)
    \<and> stored (ex_name 4) db' = Some [4, 5] \<and> stored (ex_name 2) db' = None \<and> stored (ex_name 1) db' = Some [1, 2, 3]"
proof -
  let ?ops = "[Put (ex_name 4) (ex_request cmd_save_data 4 [4, 5]), Del (ex_name 2)]"
  obtain db' m where r: "run_ops db_put delete_uuid (\<lambda>p. the (content_bytes p)) ?ops ex_db (\<lambda>n. stored n ex_db) = (db', m)"
    by (cases "run_ops db_put delete_uuid (\<lambda>p. the (content_bytes p)) ?ops ex_db (\<lambda>n. stored n ex_db)")
  then have "m (ex_name 4) = Some [4, 5]" "m (ex_name 2) = None" "m (ex_name 1) = Some [1, 2, 3]"
    by (auto simp: db_put_def ex_overwrite stored_def)
  with r database_is_map [OF r, of "ex_name 4"] database_is_map [OF r, of "ex_name 2"]
    database_is_map [OF r, of "ex_name 1"]
  show ?thesis by simp
qed

section \<open>Synchronisation\<close>

lemma join_snoc: "ts \<noteq> [] \<Longrightarrow> join c (ts @ [t]) = join c ts @ c # t"
  by (induction c ts rule: join.induct) auto

lemma join_names_join:
  "\<forall>t \<in> set ts. t \<noteq> [] \<Longrightarrow> \<forall>t \<in> set v. is_uuid t \<longrightarrow> t \<noteq> [] \<Longrightarrow>
   join_names is_uuid (join CHR '','' ts) v = join CHR '','' (ts @ filter is_uuid v)"
proof (induction v arbitrary: ts)
  case (Cons i v)
  have e: "join CHR '','' ts = [] \<longleftrightarrow> ts = []"
    using Cons.prems(1) by (cases ts; cases "tl ts") auto
  have "join_names is_uuid (join CHR '','' (ts @ [i])) v = join CHR '','' ((ts @ [i]) @ filter is_uuid v)"
    if "is_uuid i"
    using Cons that by (intro Cons.IH) auto
  with Cons.IH [of ts] Cons.prems e show ?case
    by (cases "is_uuid i"; cases "ts = []") (simp_all add: join_snoc)
qed simp

lemma get_all_uuids_join:
  "\<forall>t \<in> set (get_all_names db). is_uuid t \<longrightarrow> t \<noteq> [] \<Longrightarrow>
   get_all_uuids is_uuid db = join CHR '','' (filter is_uuid (get_all_names db))"
  using join_names_join [of "[]" "get_all_names db" is_uuid] by (simp add: get_all_uuids_def)


definition sync_view :: "kernel_storage_package \<Rightarrow> command \<times> ID32 \<times> uuid \<times> byte list option" where
  "sync_view p = (ks_cmd p, ks_request_id p, ks_uuid p, payload_of p)"

lemma send_uuid_sends:
  assumes "s_db s = Some db" and "fifo_ok (sg_backup_tx s)" and "db_get i db = Inr d"
    and "uuid_try_parse L i = Some u"
  shows "\<exists>s' p. send_uuid L inp i s = Done s' \<and> s_db s' = Some db \<and> fifo_ok (sg_backup_tx s')
    \<and> pending (sg_backup_tx s') = pending (sg_backup_tx s) @ [p]
    \<and> sync_view p = (cmd_get_uuid, ks_request_id inp, u, payload_of d)"
proof -
  define g where "g = (\<lambda>out :: kernel_storage_package. (set_payload d out)\<lparr>ks_request_id := ks_request_id inp,
    ks_cmd := cmd_get_uuid, ks_uuid := u\<rparr>)"
  have "look_up i True db"
    using assms(3) by (auto simp: db_get_def split: if_splits)
  then have "send_uuid L inp i s = Done (commit_to_backup (to_backup g s))"
    using assms by (simp add: send_uuid_def Let_def to_backup_def g_def)
  moreover have "sync_view (g x) = (cmd_get_uuid, ks_request_id inp, u, payload_of d)" for x
    by (simp add: sync_view_def g_def payload_of_def set_payload_def)
  ultimately show ?thesis
    using assms(1) by (simp add: commit_to_backup_def to_backup_def)
qed

lemma send_uuids_loop:
  assumes "s_db s = Some db" and "fifo_ok (sg_backup_tx s)"
    and "\<forall>i \<in> set names. uuid_try_parse L i \<noteq> None \<and> (\<exists>d. db_get i db = Inr d)"
  shows "\<exists>s' ps. for_each names (send_uuid L inp) s = Done s'
    \<and> pending (sg_backup_tx s') = pending (sg_backup_tx s) @ ps
    \<and> map sync_view ps = map (\<lambda>i. (cmd_get_uuid, ks_request_id inp, the (uuid_try_parse L i),
          payload_of (projr (db_get i db)))) names"
  using assms
proof (induction names arbitrary: s)
  case (Cons i names)
  obtain u d where u: "uuid_try_parse L i = Some u" and d: "db_get i db = Inr d"
    using Cons.prems(3) by auto
  obtain s1 p where 1: "send_uuid L inp i s = Done s1" "s_db s1 = Some db" "fifo_ok (sg_backup_tx s1)"
    "pending (sg_backup_tx s1) = pending (sg_backup_tx s) @ [p]"
    "sync_view p = (cmd_get_uuid, ks_request_id inp, u, payload_of d)"
    using send_uuid_sends [OF Cons.prems(1,2) d u] by blast
  obtain s' ps where "for_each names (send_uuid L inp) s1 = Done s'"
    "pending (sg_backup_tx s') = pending (sg_backup_tx s1) @ ps"
    "map sync_view ps = map (\<lambda>i. (cmd_get_uuid, ks_request_id inp, the (uuid_try_parse L i),
          payload_of (projr (db_get i db)))) names"
    using Cons.IH [OF 1(2,3)] Cons.prems(3) by auto
  with 1 u d show ?case
    by (intro exI [of _ s'] exI [of _ "p # ps"]) simp
qed simp

lemma sync_reply:
  assumes "s_db s = Some db" and "ks_cmd inp = cmd_start_storage_sync"
    and "length (get_all_uuids (\<lambda>n. uuid_try_parse L n \<noteq> None) db) < 2 ^ 32"
  shows "\<exists>s' r. storage_process_kernel_input L inp s = Done s' \<and> s_db s' = Some db \<and> replies s s' r
    \<and> sg_backup_tx s' = sg_backup_tx s \<and> ks_request_id r = ks_request_id inp \<and> ks_cmd r = cmd_start_storage_sync
    \<and> p_message r = Some (bytes_of (get_all_uuids (\<lambda>n. uuid_try_parse L n \<noteq> None) db) @ [0])"
proof -
  let ?t = "bytes_of (get_all_uuids (\<lambda>n. uuid_try_parse L n \<noteq> None) db)"
  define g where "g = (\<lambda>out :: kernel_storage_package. out\<lparr>ks_request_id := ks_request_id inp,
    ks_cmd := cmd_start_storage_sync, p_size := of_nat (length ?t), p_message := Some (?t @ [0])\<rparr>)"
  have fits: "length ?t < 2 ^ 32"
    using assms(3) by simp
  have "storage_process_kernel_input L inp s = Done (commit_to_kernel (to_kernel g s))"
    using assms(1,2) by (simp add: storage_process_kernel_input_def send_uuids_for_sync_process_def
        set_payload_string_fits [OF fits] g_def to_kernel_def del: not_None_eq) (simp add: set_slot_def)
  moreover have "replies s (commit_to_kernel (to_kernel g s)) (g (slot (sg_kernel_tx s)))"
    by (rule replies_commit) (simp add: commit_to_kernel_def to_kernel_def)
  ultimately show ?thesis
    using assms(1) by (auto simp: g_def commit_to_kernel_def to_kernel_def)
qed

lemma replies_inj:
  assumes "replies s s' r" and "replies s s' r'"
  shows "r = r'"
proof -
  have "slot (set_slot (\<lambda>_. r) (sg_kernel_tx s)) = last (butlast (m_internal (sg_kernel_tx s')))"
    if "replies s s' r" for r
    using that by (simp add: replies_def commit_def slot_def)
  from this [OF assms(1)] this [OF assms(2)] show ?thesis
    by simp
qed

text \<open>
  When the storage is asked for the files on the list it answered a synchronisation request with,
  it sends every file of the cache and the storage directory that is named by a uuid to the backup
  task, in the order of the list, each with its uuid and its content.
\<close>

theorem sync_sends_every_file:
  assumes ok: "poco_ok L" and db: "s_db s = Some db" and tx: "fifo_ok (sg_backup_tx s)"
    and files: "\<forall>n \<in> set (get_all_names db). uuid_try_parse L n \<noteq> None \<longrightarrow> plain n \<and> (\<exists>d. db_get n db = Inr d)"
    and fits: "length (get_all_uuids (\<lambda>n. uuid_try_parse L n \<noteq> None) db) < 2 ^ 32"
    and sync: "ks_cmd req = cmd_start_storage_sync" "storage_process_kernel_input L req s = Done s1" "replies s s1 r"
    and send: "ks_cmd inp = cmd_send_uuids" "p_message inp = p_message r"
  shows "\<exists>s2 ps. storage_process_kernel_input L inp s1 = Done s2
    \<and> pending (sg_backup_tx s2) = pending (sg_backup_tx s) @ ps
    \<and> map sync_view ps = map (\<lambda>n. (cmd_get_uuid, ks_request_id inp, the (uuid_try_parse L n),
          payload_of (projr (db_get n db)))) (filter (\<lambda>n. uuid_try_parse L n \<noteq> None) (get_all_names db))"
proof -
  let ?names = "filter (\<lambda>n. uuid_try_parse L n \<noteq> None) (get_all_names db)"
  let ?list = "join CHR '','' ?names"
  have all: "get_all_uuids (\<lambda>n. uuid_try_parse L n \<noteq> None) db = ?list"
    using files by (intro get_all_uuids_join) (auto simp: plain_def)
  obtain s1' r' where "storage_process_kernel_input L req s = Done s1'" "s_db s1' = Some db" "replies s s1' r'"
    "sg_backup_tx s1' = sg_backup_tx s" "p_message r' = Some (bytes_of ?list @ [0])"
    using sync_reply [OF db sync(1) fits] all by auto
  with sync(2,3) replies_inj have s1: "s_db s1 = Some db" "sg_backup_tx s1 = sg_backup_tx s"
    and msg: "p_message inp = Some (bytes_of ?list @ [0])"
    using send(2) by auto
  have "set (join c ts) \<subseteq> insert c (\<Union> (set ` set ts))" for c ts
    by (induction c ts rule: join.induct) auto
  then have "CHR 0x00 \<notin> set ?list"
    using files by (fastforce simp: plain_def)
  then have "c_str (bytes_of ?list @ [0]) = Some ?list"
    using c_str_bytes_of [of ?list "[]"] by simp
  moreover have "tokenize L ?list CHR '','' = ?names"
    using files by (intro poco_okD(3) [OF ok]) (auto simp: plain_def)
  ultimately have "storage_process_kernel_input L inp s1 = for_each ?names (send_uuid L inp) s1"
    using s1 by (simp add: storage_process_kernel_input_def send(1) send_uuids_def listed_names_def msg)
  then show ?thesis
    using send_uuids_loop [OF s1(1), of ?names L inp] tx files s1(2) by auto
qed


lemma ex_names:
  "get_all_names ex_db = [ex_name 3, ex_name 1, ex_name 2]"
  "uuid_try_parse poco_ref (ex_name u) = Some u" "plain (ex_name u)"
  using poco_okD(1,2) [OF poco_ref_ok, of u] by (simp_all add: get_all_names_def)

lemma length_ex_name: "length (ex_name u) = 36"
  unfolding ex_name_def by (simp add: poco_ref_def ref_to_string_def Let_def length_hex be128_def del: ex_name_fold)

lemma ex_db_get: "n \<in> {ex_name 1, ex_name 2, ex_name 3} \<Longrightarrow> \<exists>d. db_get n ex_db = Inr d"
  using read_package_payload [of "[1, 2, 3]"] read_package_payload [of "[7]"] read_package_payload [of "[9, 9]"]
  by (auto simp: db_get_def look_up_def look_up_in_cache_def file_exists_def)

lemma sync_sends_every_file_witness:
  "\<exists>s1 r s2 ps. storage_process_kernel_input poco_ref (ex_request cmd_start_storage_sync 0 []) ex_storage = Done s1
    \<and> replies ex_storage s1 r \<and> storage_process_kernel_input poco_ref ((ex_request cmd_send_uuids 0 [])\<lparr>p_message := p_message r\<rparr>) s1 = Done s2
    \<and> pending (sg_backup_tx s2) = ps \<and> map ks_uuid ps = [3, 1, 2]"
proof -
  let ?q = "ex_request cmd_start_storage_sync 0 []"
  have all: "get_all_uuids (\<lambda>n. uuid_try_parse poco_ref n \<noteq> None) ex_db
      = join CHR '','' [ex_name 3, ex_name 1, ex_name 2]"
    by (subst get_all_uuids_join) (use ex_names(3) in \<open>auto simp: ex_names(1,2) plain_def\<close>)
  have fits: "length (get_all_uuids (\<lambda>n. uuid_try_parse poco_ref n \<noteq> None) ex_db) < 2 ^ 32"
    unfolding all by (simp add: length_ex_name)
  obtain s1 r where 1: "storage_process_kernel_input poco_ref ?q ex_storage = Done s1" "replies ex_storage s1 r"
    using sync_reply [OF _ _ fits, of ex_storage ?q] by auto
  let ?i = "(ex_request cmd_send_uuids 0 [])\<lparr>p_message := p_message r\<rparr>"
  have tx: "fifo_ok (sg_backup_tx ex_storage)" and none: "pending (sg_backup_tx ex_storage) = []"
    by (simp_all add: ex_storage_def storage_new_def)
  have c: "ks_cmd ?i = cmd_send_uuids"
    by (simp add: ex_request_def)
  obtain s2 ps where 2: "storage_process_kernel_input poco_ref ?i s1 = Done s2"
    "pending (sg_backup_tx s2) = pending (sg_backup_tx ex_storage) @ ps"
    "map sync_view ps = map (\<lambda>n. (cmd_get_uuid, ks_request_id ?i, the (uuid_try_parse poco_ref n),
          payload_of (projr (db_get n ex_db)))) (filter (\<lambda>n. uuid_try_parse poco_ref n \<noteq> None) (get_all_names ex_db))"
    using sync_sends_every_file [OF poco_ref_ok _ tx _ fits _ 1 c] ex_db_get by (auto simp: ex_names)
  from 2(3) have "map (fst \<circ> snd \<circ> snd) (map sync_view ps) = [3, 1, 2]"
    by (simp add: ex_names)
  then have "map ks_uuid ps = [3, 1, 2]"
    by (simp add: sync_view_def comp_def)
  with 1 2(1,2) none show ?thesis
    by (metis append_Nil)
qed

end
