(* ===== verification/Backup_Props.thy ===== *)
theory Backup_Props
  imports Backup_Inv Storage_Props
begin

text \<open>
  The properties of the backup task, each with a concrete run.
\<close>

section \<open>Exchange of journals\<close>

lemma map_of_news:
  "distinct (map fst m) \<Longrightarrow> map_of (news t m) n =
     (case map_of m n of None \<Rightarrow> None | Some e \<Rightarrow> if the (e_last_updated e) > t then Some (entry_data e) else None)"
  by (induction m) (auto simp: news_def map_of_eq_None_iff image_iff split: option.splits)

lemma news_names: "set (map fst (news t m)) \<subseteq> set (map fst m)" "distinct (map fst m) \<Longrightarrow> distinct (map fst (news t m))"
proof -
  have e: "map fst (news t m) = map fst (filter (\<lambda>(n, e). the (e_last_updated e) > t) m)"
    by (simp add: news_def comp_def case_prod_beta)
  show "set (map fst (news t m)) \<subseteq> set (map fst m)"
    unfolding e by auto
  show "distinct (map fst m) \<Longrightarrow> distinct (map fst (news t m))"
    unfolding e by (rule distinct_map_filter)
qed

lemma post_delete_runs:
  assumes "us \<noteq> []" and "length (join CHR '','' us) < 2 ^ 32" and "fifo_ok (bk_storage_tx s)"
  shows "\<exists>s' p. post_storage_delete_request_for_uuids us s = Done s'
    \<and> pending (bk_storage_tx s') = pending (bk_storage_tx s) @ [p] \<and> ks_cmd p = cmd_del_uuids
    \<and> payload_of p = Some (bytes_of (join CHR '','' us)) \<and> m_storage_data s' = m_storage_data s
    \<and> bk_kernel_tx s' = bk_kernel_tx s \<and> bk_clock s' = bk_clock s"
proof -
  let ?t = "bytes_of (join CHR '','' us)"
  define p where "p = (slot (bk_storage_tx s))\<lparr>ks_cmd := cmd_del_uuids, p_size := of_nat (length ?t), p_message := Some (?t @ [0])\<rparr>"
  have sp: "set_payload_string ?t ((slot (bk_storage_tx s))\<lparr>ks_cmd := cmd_del_uuids\<rparr>) = Done p"
    using assms(2) by (simp add: p_def set_payload_string_fits)
  then have "payload_of p = Some ?t"
    by (rule set_payload_string_payload)
  then show ?thesis
    using assms sp by (simp add: post_storage_delete_request_for_uuids_def) (simp add: p_def)
qed

lemma length_join_le: "length (join c ts) \<le> sum_list (map (\<lambda>t. length t + 1) ts)"
  by (induction c ts rule: join.induct) auto

lemma line_length: "length (fst x) \<le> length (join CHR '' '' (line_tokens x))"
  by (auto simp: line_tokens_def split: prod.split)

lemma deletes_fit:
  "length (join CHR '','' (map fst (filter P xs))) \<le> length (journal_text xs)"
proof -
  have "sum_list (map (\<lambda>t. length t + 1) (map fst (filter P xs))) \<le> length (journal_text xs)"
  proof (induction xs)
    case (Cons x xs)
    then show ?case
      using line_length [of x] by (auto simp: journal_text_def)
  qed (simp add: journal_text_def)
  with length_join_le show ?thesis
    by (rule order_trans)
qed

lemma send_journal_runs:
  assumes "m_storage_data a = Some ma" and "good_journal ma" and "kb_cmd ra = cmd_send_journal_info"
    and "p_message ra = None" and "length (journal_text (news (kb_time ra) ma)) < 2 ^ 32" and "fifo_ok (bk_kernel_tx a)"
  shows "\<exists>a' p. backup_process_kernel_input L B ra a = Done a' \<and> m_storage_data a' = Some ma
    \<and> pending (bk_kernel_tx a') = pending (bk_kernel_tx a) @ [p] \<and> kb_cmd p = cmd_get_journal_info
    \<and> kb_request_id p = kb_request_id ra
    \<and> p_message p = Some (bytes_of (journal_text (news (kb_time ra) ma)) @ [0])"
proof -
  let ?t = "bytes_of (journal_text (news (kb_time ra) ma))"
  define p where "p = (slot (bk_kernel_tx a))\<lparr>kb_cmd := cmd_get_journal_info, kb_request_id := kb_request_id ra,
    p_size := of_nat (length ?t), p_message := Some (?t @ [0])\<rparr>"
  have sp: "set_payload_string ?t ((slot (bk_kernel_tx a))\<lparr>kb_cmd := cmd_get_journal_info,
      kb_request_id := kb_request_id ra\<rparr>) = Done p"
    using assms(5) by (simp add: p_def set_payload_string_fits)
  have "backup_process_kernel_input L B ra a = Done (commit_to_kernel_b (to_kernel_b (\<lambda>_. p) a))"
    using assms(1-4) sp by (simp add: backup_process_kernel_input_def handle_kernel_send_journal_info_def
        with_journal_def sent_journal Let_def)
  then show ?thesis
    using assms(1,6) by (simp add: to_kernel_b_def commit_to_kernel_b_def p_def m_storage_data_def)
qed

lemma journal_lines_good:
  assumes "good_journal m" and "\<forall>n \<in> set (map fst m). uuid_name L n"
  shows "\<forall>x \<in> set (news t m). good_line_data L x"
  using assms by (fastforce simp: news_def good_line_data_def entry_data_def good_journal_def good_entry_def)


lemma send_uuids_runs:
  fixes s :: "('k, 'f) backup" and obj r
  assumes "fifo_ok (bk_kernel_tx s)"
  defines "s' \<equiv> post_kernel_send_uuids obj r s"
  shows "m_storage_data s' = m_storage_data s" "bk_storage_tx s' = bk_storage_tx s"
    "kb_cmd (last (pending (bk_kernel_tx s'))) = cmd_send_uuids"
    "kb_request_id (last (pending (bk_kernel_tx s'))) = r"
    "kb_sync_uuids (last (pending (bk_kernel_tx s'))) = Some obj"
  using assms(1) unfolding s'_def post_kernel_send_uuids_def
  by (simp_all) (simp_all add: to_kernel_b_def commit_to_kernel_b_def)

lemma receive_journal_runs:
  fixes b :: "('k, 'f) backup"
  assumes ok: "poco_ok L" and good: "\<forall>x \<in> set xs. good_line_data L x" and ds: "distinct (map fst xs)"
    and fits: "length (journal_text xs) < 2 ^ 32"
    and b: "m_storage_data b = Some mb" "good_map mb" "fifo_ok (bk_kernel_tx b)" "fifo_ok (bk_storage_tx b)"
    and rb: "kb_cmd rb = cmd_get_journal_info" "p_message rb = Some (bytes_of (journal_text xs) @ [0])"
  shows "\<exists>b' mb' obj d. backup_process_kernel_input L B rb b = Done b' \<and> m_storage_data b' = Some mb'
    \<and> kb_cmd (last (pending (bk_kernel_tx b'))) = cmd_send_uuids
    \<and> kb_request_id (last (pending (bk_kernel_tx b'))) = kb_request_id rb
    \<and> kb_sync_uuids (last (pending (bk_kernel_tx b'))) = Some obj
    \<and> (\<forall>n. map_of mb' n = merged_entry (bk_clock b) (map_of xs n) (map_of mb n)
         \<and> map_of obj n = asked (sync_class rb) (map_of xs n) (map_of mb n) None)
    \<and> d = map fst (filter (\<lambda>x. fst (snd (snd x))) xs)
    \<and> (d \<noteq> [] \<longrightarrow> ks_cmd (last (pending (bk_storage_tx b'))) = cmd_del_uuids
         \<and> payload_of (last (pending (bk_storage_tx b'))) = Some (bytes_of (join CHR '','' d)))"
proof -
  have plain: "\<forall>x \<in> set xs. plain (fst x)"
    using good uuid_name_props(1) [OF ok] by (auto simp: good_line_data_def)
  define k where "k = (\<lambda>obj d (s :: ('k, 'f) backup). and_then (post_storage_delete_request_for_uuids d s) (\<lambda>s.
    Done (post_kernel_send_uuids obj (kb_request_id rb) s)))"
  have run: "backup_process_kernel_input L B rb b
      = journal_lines L (sync_class rb) (map (\<lambda>x. join CHR '' '' (line_tokens x)) xs) [] [] b k"
    using rb c_str_bytes_of [OF journal_text_lines(2) [OF plain]] journal_text_lines(1) [OF plain]
    by (simp add: backup_process_kernel_input_def handle_kernel_get_journal_info_def k_def)
  obtain b1 obj d mb' where 1: "backup_process_kernel_input L B rb b = k obj d b1"
    "fold (merge_line (bk_clock b) (sync_class rb)) xs ([], [], mb) = (obj, d, mb')"
    "m_storage_data b1 = Some mb'" "bk_storage_tx b1 = bk_storage_tx b" "fifo_ok (bk_kernel_tx b1)"
    using journal_lines_runs [OF ok good b(1,2,3), of "sync_class rb" "[]" "[]" k] unfolding run by blast
  have spec: "map_of mb' n = merged_entry (bk_clock b) (map_of xs n) (map_of mb n)"
    "map_of obj n = asked (sync_class rb) (map_of xs n) (map_of mb n) None"
    "d = map fst (filter (\<lambda>x. fst (snd (snd x))) xs)" for n
    using merge_lines_spec [OF ds 1(2), of n] by simp_all
  have "length (join CHR '','' d) < 2 ^ 32"
    using deletes_fit [of "\<lambda>x. fst (snd (snd x))" xs] fits spec(3) by simp
  then obtain b2 where 2: "post_storage_delete_request_for_uuids d b1 = Done b2" "m_storage_data b2 = Some mb'"
    "bk_kernel_tx b2 = bk_kernel_tx b1"
    "d \<noteq> [] \<longrightarrow> ks_cmd (last (pending (bk_storage_tx b2))) = cmd_del_uuids
       \<and> payload_of (last (pending (bk_storage_tx b2))) = Some (bytes_of (join CHR '','' d))"
    using post_delete_runs [of d b1] 1(3,4) b(4)
    by (cases "d = []") (auto simp: post_storage_delete_request_for_uuids_def)
  have "backup_process_kernel_input L B rb b = Done (post_kernel_send_uuids obj (kb_request_id rb) b2)"
    using 1(1) 2(1) by (simp add: k_def)
  moreover have "fifo_ok (bk_kernel_tx b2)"
    using 1(5) 2(3) by simp
  ultimately show ?thesis
    using 2(2,4) spec
    by - (rule exI [of _ "post_kernel_send_uuids obj (kb_request_id rb) b2"], rule exI [of _ mb'],
        rule exI [of _ obj], rule exI [of _ d], simp add: send_uuids_runs)
qed

text \<open>
  C16: A node \<open>b\<close> that reads the journal a node \<open>a\<close> sent for a time \<open>t\<close> ends with exactly this: every entry
  of \<open>a\<close> that is newer than \<open>t\<close> and marked deleted marks the entry of \<open>b\<close> deleted (whatever the version
  \<open>b\<close> has), and its name is on the list of files to delete; of the other entries newer than \<open>t\<close> it asks for
  those it lacks (in class 1 only) and those that are newer than its own, by version and then by time.
\<close>

theorem journal_exchange:
  assumes ok: "poco_ok L"
    and a: "m_storage_data a = Some ma" "good_journal ma" "\<forall>n \<in> set (map fst ma). uuid_name L n"
      "distinct (map fst ma)" "fifo_ok (bk_kernel_tx a)"
    and ask: "kb_cmd ra = cmd_send_journal_info" "p_message ra = None"
    and fits: "length (journal_text (news (kb_time ra) ma)) < 2 ^ 32"
    and sent: "backup_process_kernel_input L B ra a = Done a'" "pending (bk_kernel_tx a') = pending (bk_kernel_tx a) @ [p]"
    and b: "m_storage_data b = Some mb" "good_map mb" "fifo_ok (bk_kernel_tx b)" "fifo_ok (bk_storage_tx b)"
    and got: "kb_cmd rb = cmd_get_journal_info" "p_message rb = p_message p"
  shows "\<exists>b' mb' obj d. backup_process_kernel_input L B' rb b = Done b' \<and> m_storage_data b' = Some mb'
    \<and> kb_cmd (last (pending (bk_kernel_tx b'))) = cmd_send_uuids
    \<and> kb_request_id (last (pending (bk_kernel_tx b'))) = kb_request_id rb
    \<and> kb_sync_uuids (last (pending (bk_kernel_tx b'))) = Some obj
    \<and> (\<forall>n. let line = (case map_of ma n of None \<Rightarrow> None
              | Some e \<Rightarrow> if the (e_last_updated e) > kb_time ra then Some (entry_data e) else None) in
         map_of mb' n = merged_entry (bk_clock b) line (map_of mb n)
         \<and> map_of obj n = asked (sync_class rb) line (map_of mb n) None)
    \<and> d = map fst (filter (\<lambda>x. fst (snd (snd x))) (news (kb_time ra) ma))
    \<and> (d \<noteq> [] \<longrightarrow> ks_cmd (last (pending (bk_storage_tx b'))) = cmd_del_uuids
         \<and> payload_of (last (pending (bk_storage_tx b'))) = Some (bytes_of (join CHR '','' d)))"
proof -
  let ?xs = "news (kb_time ra) ma"
  obtain p' where "pending (bk_kernel_tx a') = pending (bk_kernel_tx a) @ [p']"
    "p_message p' = Some (bytes_of (journal_text ?xs) @ [0])"
    using send_journal_runs [OF a(1,2) ask fits a(5), of L B] sent(1) by auto
  with sent(2) got(2) have msg: "p_message rb = Some (bytes_of (journal_text ?xs) @ [0])"
    by simp
  show ?thesis
    using receive_journal_runs [OF ok journal_lines_good [OF a(2,3)] news_names(2) [OF a(4)] fits b got(1) msg, of B']
    unfolding map_of_news [OF a(4)] Let_def .
qed


section \<open>Concrete tasks\<close>

text \<open>A library whose cipher keeps the key next to the text.\<close>

definition ex_lib :: "(string \<times> string, (string \<times> string) \<times> device_json) backup_lib" where
  "ex_lib = \<lparr>make_key = (\<lambda>k i. if k = [] then None else Some (k, i)), seal = Pair,
     unseal = (\<lambda>k f. if fst f = k then Some (snd f) else None), json_uuids = (\<lambda>s. Some (Some s))\<rparr>"

definition ex_entry :: "int \<Rightarrow> int \<Rightarrow> bool \<Rightarrow> int \<Rightarrow> json_entry" where
  "ex_entry v lu del ex = \<lparr>e_version = Some v, e_is_deleted = Some del, e_last_updated = Some lu, e_expiration_date = Some ex\<rparr>"

definition ex_backup :: "journal \<Rightarrow> (string \<times> string, (string \<times> string) \<times> device_json) backup" where
  "ex_backup m = (backup_new 1000 Map.empty)\<lparr>m_device_json := Some \<lparr>dj_version = None,
     dj_protocol_version = Some 1, dj_storage = Some m\<rparr>, m_device_json_path := ''device.json'',
     m_device_json_cipher := Some (''k'', ''i'')\<rparr>"

definition ex_journal_a :: journal where
  "ex_journal_a = [(ex_name 1, ex_entry 3 500 False 0), (ex_name 2, ex_entry 1 600 True 0), (ex_name 3, ex_entry 2 400 False 0)]"

definition ex_journal_b :: journal where
  "ex_journal_b = [(ex_name 2, ex_entry 9 900 False 0), (ex_name 3, ex_entry 2 300 False 0)]"

definition ex_ask :: kernel_backup_package where
  "ex_ask = (kernel_backup_package0 1000)\<lparr>kb_cmd := cmd_send_journal_info, kb_time := 100\<rparr>"

definition ex_got :: "byte list option \<Rightarrow> kernel_backup_package" where
  "ex_got msg = (kernel_backup_package0 1000)\<lparr>kb_cmd := cmd_get_journal_info, kb_data_version := 1, p_message := msg\<rparr>"

lemma ex_backup_simps [simp]:
  "m_storage_data (ex_backup m) = Some m" "fifo_ok (bk_kernel_tx (ex_backup m))" "fifo_ok (bk_storage_tx (ex_backup m))"
  "pending (bk_kernel_tx (ex_backup m)) = []" "bk_clock (ex_backup m) = 1000"
  by (simp_all add: ex_backup_def m_storage_data_def backup_new_def)

lemma ex_packages [simp]:
  "kb_cmd ex_ask = cmd_send_journal_info" "p_message ex_ask = None" "kb_time ex_ask = 100"
  "kb_cmd (ex_got msg) = cmd_get_journal_info" "p_message (ex_got msg) = msg" "kb_data_version (ex_got msg) = 1"
  by (simp_all add: ex_ask_def ex_got_def kernel_backup_package0_def package.defs default_package_def)

lemma journal_exchange_witness:
  "\<exists>a' p b' mb' obj. backup_process_kernel_input poco_ref ex_lib ex_ask (ex_backup ex_journal_a) = Done a'
    \<and> pending (bk_kernel_tx a') = [p]
    \<and> backup_process_kernel_input poco_ref ex_lib (ex_got (p_message p)) (ex_backup ex_journal_b) = Done b'
    \<and> kb_sync_uuids (last (pending (bk_kernel_tx b'))) = Some obj
    \<and> map_of obj (ex_name 1) = Some (CHR ''s'') \<and> map_of obj (ex_name 2) = None \<and> map_of obj (ex_name 3) = Some (CHR ''u'')
    \<and> m_storage_data b' = Some mb' \<and> map_of mb' (ex_name 2) = Some (ex_entry 1 600 True (1000 + deletion_delay))"
proof -
  let ?a = "ex_backup ex_journal_a" and ?b = "ex_backup ex_journal_b"
  have good: "good_journal ex_journal_a" "good_map ex_journal_b"
    by (auto simp: good_journal_def good_map_def ex_journal_a_def ex_journal_b_def good_entry_def ex_entry_def split: if_splits)
  have names: "\<forall>n \<in> set (map fst ex_journal_a). uuid_name poco_ref n" "distinct (map fst ex_journal_a)"
    by (auto simp: ex_journal_a_def uuid_name_def)
  have fits: "length (journal_text (news (kb_time ex_ask) ex_journal_a)) < 2 ^ 32"
    by (simp add: journal_text_def news_def ex_journal_a_def ex_entry_def entry_data_def line_tokens_def
        length_ex_name decimal.simps)
  obtain a' p where 1: "backup_process_kernel_input poco_ref ex_lib ex_ask ?a = Done a'"
    "pending (bk_kernel_tx a') = pending (bk_kernel_tx ?a) @ [p]"
    using send_journal_runs [OF ex_backup_simps(1) good(1) ex_packages(1,2) fits ex_backup_simps(2), of poco_ref ex_lib]
    by blast
  obtain b' mb' obj where 2: "backup_process_kernel_input poco_ref ex_lib (ex_got (p_message p)) ?b = Done b'"
    "m_storage_data b' = Some mb'" "kb_sync_uuids (last (pending (bk_kernel_tx b'))) = Some obj"
    and n: "\<And>n. let line = (case map_of ex_journal_a n of None \<Rightarrow> None
              | Some e \<Rightarrow> if the (e_last_updated e) > kb_time ex_ask then Some (entry_data e) else None) in
         map_of mb' n = merged_entry (bk_clock ?b) line (map_of ex_journal_b n)
         \<and> map_of obj n = asked (sync_class (ex_got (p_message p))) line (map_of ex_journal_b n) None"
    using journal_exchange [OF poco_ref_ok ex_backup_simps(1) good(1) names ex_backup_simps(2) ex_packages(1,2) fits 1
        ex_backup_simps(1) good(2) ex_backup_simps(2,3) ex_packages(4,5), of ex_lib] by blast
  have "map_of obj (ex_name 1) = Some (CHR ''s'')" "map_of obj (ex_name 2) = None" "map_of obj (ex_name 3) = Some (CHR ''u'')"
    "map_of mb' (ex_name 2) = Some (ex_entry 1 600 True (1000 + deletion_delay))"
    using n [of "ex_name 1"] n [of "ex_name 2"] n [of "ex_name 3"]
    by (simp_all add: ex_journal_a_def ex_journal_b_def ex_entry_def entry_data_def asked_def merged_entry_def newer_def
        mark_deleted_def)
  with 1 2 show ?thesis
    by auto
qed

section \<open>The file of the journal\<close>

text \<open>
  C28: The journal survives a restart: a task that starts on the disk another one saved to, with the same
  path and keys, has the same journal in memory, when the cipher decrypts what it encrypted.
\<close>

theorem journal_survives_restart:
  assumes upd: "m_device_json_updated s" and d: "m_device_json s = Some d" "dj_version d = None"
      "dj_protocol_version d \<noteq> None" "dj_storage d \<noteq> None"
    and key: "m_device_json_cipher s = Some k" "make_key B key iv = Some k" and cipher: "unseal B k (seal B k d) = Some d"
    and path: "m_device_json_path s \<noteq> []" "bc_metadata_path cfg = m_device_json_path s"
    and cfg: "bc_aes_key cfg = Some key" "bc_aes_iv cfg = Some iv"
  shows "\<exists>s' t. save_device_json B s = Done s'
    \<and> initialize B cfg (backup_new now (bk_files s')) = Done t
    \<and> m_device_json t = Some d \<and> \<not> m_device_json_updated s' \<and> \<not> m_device_json_updated t"
proof -
  have "upgrade_json d = Some d"
    using d by (simp add: upgrade_json_def)
  then show ?thesis
    using assms
    by (simp add: save_device_json_def initialize_def initialize_key_info_def initialize_key_def
        initialize_device_json_def parse_device_json_def configure_and_start_timer_def backup_new_def Let_def)
qed


definition ex_cfg :: backup_cfg_package where
  "ex_cfg = backup_cfg_package0\<lparr>bc_cmd := cmd_backup_cfg, bc_metadata_path := ''device.json'',
     bc_aes_key := Some ''k'', bc_aes_iv := Some ''i'', bc_periodic_interval := 60\<rparr>"

lemma journal_survives_restart_witness:
  "\<exists>s' t. save_device_json ex_lib ((ex_backup ex_journal_a)\<lparr>m_device_json_updated := True\<rparr>) = Done s'
    \<and> initialize ex_lib ex_cfg (backup_new 2000 (bk_files s')) = Done t \<and> m_storage_data t = Some ex_journal_a"
proof -
  let ?s = "(ex_backup ex_journal_a)\<lparr>m_device_json_updated := True\<rparr>"
  let ?d = "\<lparr>dj_version = None, dj_protocol_version = Some 1, dj_storage = Some ex_journal_a\<rparr>"
  have "\<exists>s' t. save_device_json ex_lib ?s = Done s' \<and> initialize ex_lib ex_cfg (backup_new 2000 (bk_files s')) = Done t
      \<and> m_device_json t = Some ?d \<and> \<not> m_device_json_updated s' \<and> \<not> m_device_json_updated t"
    by (rule journal_survives_restart [where k = "(''k'', ''i'')" and key = "''k''" and iv = "''i''"])
      (simp_all add: ex_backup_def ex_lib_def ex_cfg_def backup_new_def)
  then show ?thesis
    by (auto simp: m_storage_data_def)
qed

section \<open>Malformed journals\<close>

lemma bad_first_line:
  assumes "length (tokenize L l CHR '' '') = 4 \<Longrightarrow> uuid_try_parse L (hd (tokenize L l CHR '' '')) = None
      \<or> tokenize L l CHR '' '' ! 2 \<notin> {''d'', ''s''}"
  shows "journal_lines L cl (l # ls) obj d s k \<noteq> Done s'"
proof (cases "length (tokenize L l CHR '' '') = 4")
  case True
  then obtain n lu o' v where t: "tokenize L l CHR '' '' = [n, lu, o', v]"
    by (auto simp: numeral_eq_Suc length_Suc_conv)
  with assms have "uuid_try_parse L n = None \<or> o' \<notin> {''d'', ''s''}"
    by simp
  then show ?thesis
    by (auto simp: t update_info_for_deleted_uuid_def post_storage_remove_from_cache_request_def Let_def
        split: option.splits if_splits)
next
  case False
  then show ?thesis
    by (auto split: list.splits)
qed

text \<open>
  A journal whose first line has not four fields, names no uuid or has an unknown operation ends the
  task and with it the process: the task has no catch clause between the request and \<open>runTask\<close>, which
  aborts or terminates. The text comes from a peer.
\<close>

theorem malformed_journal_ends_task:
  assumes conf: "m_device_json s \<noteq> None" "fifo_front (bk_config_rx s) = None"
    and front: "fifo_front (bk_kernel_rx s) = Some inp" "kb_cmd inp = cmd_get_journal_info"
    and msg: "p_message inp = Some b" "c_str b = Some msg" "get_lines [] msg = l # ls"
    and bad: "length (tokenize L l CHR '' '') = 4 \<Longrightarrow> uuid_try_parse L (hd (tokenize L l CHR '' '')) = None
      \<or> tokenize L l CHR '' '' ! 2 \<notin> {''d'', ''s''}"
  shows "backup_turn L B s \<noteq> Done s'"
proof -
  have "backup_process_kernel_input L B inp s \<noteq> Done t" for t
    using front msg bad_first_line [OF bad]
    by (simp add: backup_process_kernel_input_def handle_kernel_get_journal_info_def del: journal_lines.simps)
  then have "backup_handle_kernel_input L B s \<noteq> Done t" for t
    using conf front by (auto simp: backup_handle_kernel_input_def and_then_Done_iff)
  then show ?thesis
    using conf by (auto simp: backup_turn_def backup_handle_config_input_def and_then_Done_iff)
qed

lemma malformed_journal_ends_task_witness:
  "\<forall>s'. backup_turn poco_ref ex_lib ((ex_backup ex_journal_b)\<lparr>bk_kernel_rx :=
     fifo_write (kernel_backup_package0 0) (ex_got (Some (bytes_of ''garbage'' @ [0]))) (fifo_new (kernel_backup_package0 0))\<rparr>) \<noteq> Done s'"
proof (rule allI, rule malformed_journal_ends_task [where inp = "ex_got (Some (bytes_of ''garbage'' @ [0]))" and b = "bytes_of ''garbage'' @ [0]" and msg = "''garbage''" and l = "''garbage''" and ls = "[]"])
  show "c_str (bytes_of ''garbage'' @ [0]) = Some ''garbage''"
    by (rule c_str_bytes_of) simp
  have "tokenize poco_ref ''garbage'' CHR '' '' = [''garbage'']"
    using poco_okD(3) [OF poco_ref_ok, of "[''garbage'']" "CHR '' ''"] by simp
  then show "length (tokenize poco_ref ''garbage'' CHR '' '') = 4 \<Longrightarrow>
      uuid_try_parse poco_ref (hd (tokenize poco_ref ''garbage'' CHR '' '')) = None
      \<or> tokenize poco_ref ''garbage'' CHR '' '' ! 2 \<notin> {''d'', ''s''}"
    by simp
qed (simp_all add: ex_backup_def backup_new_def fifo_front_pending fifo_write_def set_external_control_def fifo_new_def pending_def
    set_slot_def commit_def)

section \<open>Expiry\<close>

definition entry_expired :: "int \<Rightarrow> json_entry \<Rightarrow> bool" where
  "entry_expired now e \<longleftrightarrow> (\<exists>x. e_expiration_date e = Some x \<and> x \<noteq> 0 \<and> x \<le> now)"

definition dates_fit :: "journal \<Rightarrow> bool" where
  "dates_fit m \<longleftrightarrow> (\<forall>(n, e) \<in> set m. e_expiration_date e = None \<or> get_int64 (e_expiration_date e) \<noteq> None)"

definition forgotten :: "int \<Rightarrow> json_entry \<Rightarrow> bool" where
  "forgotten now e \<longleftrightarrow> entry_expired now e \<and> e_is_deleted e = Some True"

definition newly_deleted :: "int \<Rightarrow> json_entry \<Rightarrow> bool" where
  "newly_deleted now e \<longleftrightarrow> entry_expired now e \<and> e_is_deleted e = Some False"

definition after_clean_up :: "int \<Rightarrow> json_entry \<Rightarrow> json_entry" where
  "after_clean_up now e =
     (if newly_deleted now e then e\<lparr>e_is_deleted := Some True, e_expiration_date := Some (now + deletion_delay)\<rparr> else e)"

lemma clean_up_loop_runs:
  "dates_fit m \<Longrightarrow> clean_up_loop now m ds ss =
     (True, map (\<lambda>(n, e). (n, after_clean_up now e)) m,
      ds @ map fst (filter (\<lambda>(n, e). forgotten now e) m), ss @ map fst (filter (\<lambda>(n, e). newly_deleted now e) m))"
proof (induction m arbitrary: ds ss)
  case (Cons x m)
  obtain n e where x: "x = (n, e)"
    by (cases x)
  have fit: "dates_fit m" and e: "e_expiration_date e = None \<or> get_int64 (e_expiration_date e) \<noteq> None"
    using Cons.prems by (auto simp: dates_fit_def x)
  show ?case
  proof (cases "e_expiration_date e")
    case None
    then show ?thesis
      using Cons.IH [OF fit]
      by (simp add: x forgotten_def newly_deleted_def entry_expired_def after_clean_up_def)
  next
    case (Some y)
    have g: "get_int64 (Some y) = Some y"
      using e Some by (auto simp: get_int64_def split: if_splits)
    have d: "e_is_deleted e \<in> {None, Some True, Some False}"
      by (cases "e_is_deleted e") auto
    show ?thesis
      using Cons.IH [OF fit] d Some g
      by (cases "y \<noteq> 0 \<and> y \<le> now") (auto simp: x handle_expired_data_def forgotten_def newly_deleted_def
          entry_expired_def after_clean_up_def)
  qed
qed (simp add: dates_fit_def)

lemma map_of_fold_remove: "map_of (fold obj_remove ds m) n = (if n \<in> set ds then None else map_of m n)"
  by (induction ds arbitrary: m) auto

lemma map_of_map_snd: "map_of (map (\<lambda>(n, e). (n, f e)) m) n = map_option f (map_of m n)"
  by (induction m) auto


text \<open>
  C29: Data leaves the node in two phases. When the date of an entry has passed, an entry that is not
  deleted is marked so with a new date thirty days later, and the storage is told to delete its file;
  an entry that is marked is forgotten. All others stay as they are.
\<close>

theorem expiry_in_two_phases:
  assumes m: "m_storage_data s = Some m" "distinct (map fst m)" "dates_fit m"
    and tx: "fifo_ok (bk_storage_tx s)"
    and fits: "length (join CHR '','' (map fst (filter (\<lambda>(n, e). newly_deleted (bk_clock s) e) m))) < 2 ^ 32"
  shows "\<exists>s' m'. clean_up_expired_data s = Done s' \<and> m_storage_data s' = Some m'
    \<and> (\<forall>n. map_of m' n = (case map_of m n of None \<Rightarrow> None
         | Some e \<Rightarrow> if forgotten (bk_clock s) e then None else Some (after_clean_up (bk_clock s) e)))
    \<and> (let us = map fst (filter (\<lambda>(n, e). newly_deleted (bk_clock s) e) m) in
       us \<noteq> [] \<longrightarrow> ks_cmd (last (pending (bk_storage_tx s'))) = cmd_del_uuids
         \<and> payload_of (last (pending (bk_storage_tx s'))) = Some (bytes_of (join CHR '','' us)))"
proof -
  let ?now = "bk_clock s"
  let ?ss = "map fst (filter (\<lambda>(n, e). newly_deleted ?now e) m)"
  let ?ds = "map fst (filter (\<lambda>(n, e). forgotten ?now e) m)"
  let ?m1 = "map (\<lambda>(n, e). (n, after_clean_up ?now e)) m"
  define s1 where "s1 = set_storage_data ?m1 s"
  have s1: "m_storage_data s1 = Some ?m1" "bk_storage_tx s1 = bk_storage_tx s"
    using m(1) by (simp_all add: s1_def) (simp add: set_storage_data_def)
  obtain s2 where 2: "post_storage_delete_request_for_uuids ?ss s1 = Done s2" "m_storage_data s2 = Some ?m1"
    "?ss \<noteq> [] \<longrightarrow> ks_cmd (last (pending (bk_storage_tx s2))) = cmd_del_uuids
       \<and> payload_of (last (pending (bk_storage_tx s2))) = Some (bytes_of (join CHR '','' ?ss))"
    using post_delete_runs [of ?ss s1] fits tx s1
    by (cases "?ss = []") (auto simp: post_storage_delete_request_for_uuids_def)
  define s3 where "s3 = (let s = set_storage_data (fold obj_remove ?ds ?m1) s2 in
    if ?ss \<noteq> [] \<or> ?ds \<noteq> [] then s\<lparr>m_device_json_updated := True\<rparr> else s)"
  have "clean_up_expired_data s = Done s3"
    using m(1) clean_up_loop_runs [OF m(3), of ?now "[]" "[]"] 2(1)
    by (simp add: clean_up_expired_data_def with_journal_def s1_def [symmetric] s3_def Let_def)
  moreover have "m_storage_data s3 = Some (fold obj_remove ?ds ?m1)" "bk_storage_tx s3 = bk_storage_tx s2"
    using 2(2) by (simp_all add: s3_def Let_def) (simp_all add: set_storage_data_def)
  moreover have "n \<in> set ?ds \<longleftrightarrow> (\<exists>e. map_of m n = Some e \<and> forgotten ?now e)" for n
    using m(2) by (force simp: image_iff dest: map_of_SomeD)
  then have "map_of (fold obj_remove ?ds ?m1) n = (case map_of m n of None \<Rightarrow> None
       | Some e \<Rightarrow> if forgotten ?now e then None else Some (after_clean_up ?now e))" for n
    by (simp add: map_of_fold_remove map_of_map_snd split: option.split)
  ultimately show ?thesis
    using 2(3) by (intro exI [of _ s3] exI [of _ "fold obj_remove ?ds ?m1"]) (simp add: Let_def)
qed

definition ex_old :: journal where
  "ex_old = [(ex_name 1, ex_entry 1 5 False 900), (ex_name 2, ex_entry 1 5 True 900), (ex_name 3, ex_entry 1 5 False 0)]"

lemma expiry_in_two_phases_witness:
  "\<exists>s' m'. clean_up_expired_data (ex_backup ex_old) = Done s' \<and> m_storage_data s' = Some m'
    \<and> map_of m' (ex_name 1) = Some (ex_entry 1 5 True (1000 + deletion_delay)) \<and> map_of m' (ex_name 2) = None
    \<and> map_of m' (ex_name 3) = Some (ex_entry 1 5 False 0)
    \<and> payload_of (last (pending (bk_storage_tx s'))) = Some (bytes_of (ex_name 1))"
proof -
  have defs: "map fst (filter (\<lambda>(n, e). newly_deleted 1000 e) ex_old) = [ex_name 1]"
    by (simp add: ex_old_def newly_deleted_def entry_expired_def ex_entry_def)
  have d: "distinct (map fst ex_old)" and f: "dates_fit ex_old"
    by (simp_all add: ex_old_def dates_fit_def get_int64_def ex_entry_def)
  have "length (join CHR '','' (map fst (filter (\<lambda>(n, e). newly_deleted (bk_clock (ex_backup ex_old)) e) ex_old))) < 2 ^ 32"
    by (simp add: defs length_ex_name)
  note two = expiry_in_two_phases [OF ex_backup_simps(1) d f ex_backup_simps(3) this]
  have clock: "bk_clock (ex_backup ex_old) = 1000"
    by (simp add: ex_backup_def backup_new_def)
  obtain s' m' where 1: "clean_up_expired_data (ex_backup ex_old) = Done s'" "m_storage_data s' = Some m'"
    and n: "\<forall>n. map_of m' n = (case map_of ex_old n of None \<Rightarrow> None
         | Some e \<Rightarrow> if forgotten 1000 e then None else Some (after_clean_up 1000 e))"
    and p: "payload_of (last (pending (bk_storage_tx s'))) = Some (bytes_of (ex_name 1))"
    using two unfolding clock defs Let_def by auto
  show ?thesis
    using 1 p n [rule_format, of "ex_name 1"] n [rule_format, of "ex_name 2"] n [rule_format, of "ex_name 3"]
    by (simp add: ex_old_def forgotten_def newly_deleted_def entry_expired_def after_clean_up_def ex_entry_def)
qed

section \<open>The end of the task\<close>

lemma drain_never_ends:
  assumes "drain_kernel L B s = Some r"
  shows "m_device_json s \<noteq> None \<or> \<not> has_data (bk_kernel_rx s)"
  using assms
proof (induction rule: drain_kernel.raw_induct [rotated, consumes 1, case_names step])
  case (step drain L B s r)
  show ?case
  proof (rule ccontr)
    assume stuck: "\<not> (m_device_json s \<noteq> None \<or> \<not> has_data (bk_kernel_rx s))"
    then have "backup_handle_kernel_input L B s = Done s"
      by (simp add: backup_handle_kernel_input_def split: option.split)
    with step(2) stuck have "drain L B s = Some r"
      by simp
    from step(1) [OF this] stuck show False
      by blast
  qed
qed

lemma handle_kernel_shrinks:
  assumes "m_device_json s \<noteq> None" and "has_data (bk_kernel_rx s)" and "backup_handle_kernel_input L B s = Done s'"
  shows "m_device_json s' \<noteq> None" and "length (m_internal (bk_kernel_rx s')) < length (m_internal (bk_kernel_rx s))"
proof -
  obtain inp where "fifo_front (bk_kernel_rx s) = Some inp"
    using assms(2) by (simp add: fifo_front_def)
  with assms obtain s1 where 1: "backup_process_kernel_input L B inp s = Done s1"
    and 2: "backup_consume (bk_kernel_rx s1) (\<lambda>f. s1\<lparr>bk_kernel_rx := f\<rparr>) = Done s'"
    by (auto simp: backup_handle_kernel_input_def and_then_Done_iff)
  have "stays s s1"
    using kernel_request_stays [of s L B inp] 1 by simp
  with 2 assms(1) show "m_device_json s' \<noteq> None"
    and "length (m_internal (bk_kernel_rx s')) < length (m_internal (bk_kernel_rx s))"
    by (cases "m_internal (bk_kernel_rx s)"; auto simp: stays_def backup_consume_def fifo_pop_pending pending_def
        split: outcome.splits)+
qed

lemma drain_ends:
  "m_device_json s \<noteq> None \<Longrightarrow> \<exists>r. drain_kernel L B s = Some r"
proof (induction "length (m_internal (bk_kernel_rx s))" arbitrary: s rule: less_induct)
  case less
  show ?case
  proof (cases "has_data (bk_kernel_rx s)")
    case True
    show ?thesis
    proof (cases "backup_handle_kernel_input L B s")
      case (Done s1)
      from less.hyps [OF handle_kernel_shrinks(2) [OF less.prems True Done] handle_kernel_shrinks(1) [OF less.prems True Done]]
      show ?thesis
        using True Done by (subst drain_kernel.simps) simp
    qed (use True in \<open>subst drain_kernel.simps, simp\<close>)+
  qed (subst drain_kernel.simps, simp)
qed

text \<open>
  C30: The loop at the end of the task that serves the rest of the kernel's requests ends if and only if
  the task was configured or nothing is left: a request that is waiting for a configuration that never
  came keeps the loop running for ever.
\<close>

theorem shutdown_loop_ends_iff:
  "(\<exists>r. drain_kernel L B s = Some r) \<longleftrightarrow> m_device_json s \<noteq> None \<or> \<not> has_data (bk_kernel_rx s)"
proof
  assume ends: "m_device_json s \<noteq> None \<or> \<not> has_data (bk_kernel_rx s)"
  show "\<exists>r. drain_kernel L B s = Some r"
  proof (cases "has_data (bk_kernel_rx s)")
    case True
    with ends show ?thesis
      by (intro drain_ends) simp
  qed (subst drain_kernel.simps, simp)
qed (use drain_never_ends in blast)

lemma shutdown_loop_ends_iff_witness:
  "let s = (backup_new 0 (\<lambda>_. None))\<lparr>bk_kernel_rx := fifo_write (kernel_backup_package0 0) ex_ask (fifo_new (kernel_backup_package0 0))\<rparr>
   in \<not> (\<exists>r. drain_kernel poco_ref ex_lib s = Some r)
    \<and> (\<exists>r. drain_kernel poco_ref ex_lib (s\<lparr>m_device_json := Some \<lparr>dj_version = None, dj_protocol_version = Some 1, dj_storage = Some []\<rparr>\<rparr>) = Some r)"
  unfolding Let_def shutdown_loop_ends_iff
  by (simp add: backup_new_def has_data_def fifo_write_def set_slot_def commit_def fifo_push_def fifo_new_def)

end
