(* ===== verification/User_Manager.thy ===== *)
theory User_Manager
  imports Backup
begin

text \<open>
  \<^verbatim>\<open>metax/user_manager.cpp\<close>: the user's document (\<^verbatim>\<open>user json\<close>) with the keys of the data the user owns,
  its file, and its exchange with the kernel and the backup. The record \<open>um_lib\<close> stands for the cipher
  (\<open>um_make_key\<close>, \<open>encrypt\<close>, \<open>decrypt\<close> and the stream decryptor of files), the JSON printer and parser and
  the creation of directories. Exceptions in a request of the kernel or in the configuration are caught;
  one that reaches \<^verbatim>\<open>runTask\<close> ends the process.
\<close>

section \<open>The document\<close>

text \<open>
  A member that may be missing (\<open>None\<close>) or not convertible to a number (\<open>Some None\<close>). \<open>uj_rest\<close> is the rest
  of the document, which the code never reads.
\<close>

datatype 'v owned_value = Owned (ov_key: string) (ov_iv: string) (ov_copies: u64) | Other 'v

type_synonym 'v owned_data = "(string \<times> 'v owned_value) list"

record ('r, 'v) user_json =
  uj_has_protocol_version :: bool
  uj_version :: "int option option"
  uj_last_updated :: "int option option"
  uj_owned_data :: "'v owned_data option option"
  uj_rest :: 'r

definition as_number :: "int option option \<Rightarrow> int option" where
  "as_number v = (case v of None \<Rightarrow> None | Some x \<Rightarrow> x)"

text \<open>
  The pointer \<^verbatim>\<open>m_owned_data\<close>: null, the object inside \<^verbatim>\<open>m_user_json\<close>, or an object of a document that
  has been replaced meanwhile.
\<close>

datatype 'v owned_ref = Null_data | In_user_json | Apart "'v owned_data"

record kernel_user_manager_package = package +
  ku_request_id :: ID32
  ku_cmd :: command
  ku_uuid :: uuid
  ku_iv :: string
  ku_key :: string
  ku_owned :: bool
  ku_copy_count :: u64
  ku_last_updated :: u64

definition kernel_user_manager_package0 :: kernel_user_manager_package where
  "kernel_user_manager_package0 = package.extend default_package
     \<lparr>ku_request_id = 0, ku_cmd = cmd_max_command, ku_uuid = 0, ku_iv = [], ku_key = [],
      ku_owned = True, ku_copy_count = 1, ku_last_updated = 0\<rparr>"

text \<open>\<^verbatim>\<open>data_version\<close> is the low half of \<^verbatim>\<open>copy_count\<close> (a union).\<close>

definition ku_data_version :: "'a kernel_user_manager_package_scheme \<Rightarrow> ID32" where
  "ku_data_version p = ucast (ku_copy_count p)"

definition set_data_version :: "ID32 \<Rightarrow> 'a kernel_user_manager_package_scheme \<Rightarrow> 'a kernel_user_manager_package_scheme" where
  "set_data_version v p = p\<lparr>ku_copy_count := (ku_copy_count p AND NOT 0xFFFFFFFF) OR ucast v\<rparr>"

record ('k, 'r, 'v) um_lib =
  um_make_key :: "string \<Rightarrow> string \<Rightarrow> 'k option"
  encrypt :: "'k \<Rightarrow> string \<Rightarrow> string"
  decrypt :: "'k \<Rightarrow> string \<Rightarrow> string option"
  decrypt_stream :: "'k \<Rightarrow> string \<Rightarrow> string"
  print_json :: "('r, 'v) user_json \<Rightarrow> string"
  parse_json :: "string \<Rightarrow> ('r, 'v) user_json option"
  create_directories :: "string \<Rightarrow> bool"
  foreign_data :: 'r

record ('k, 'r, 'v) user_manager =
  um_kernel_rx :: "kernel_user_manager_package fifo"
  um_config_rx :: "backup_cfg_package fifo"
  um_kernel_tx :: "kernel_user_manager_package fifo"
  um_backup_tx :: "backup_user_manager_package fifo"
  m_metadata_dump_timer :: ID16
  m_user_json_path :: string
  m_storage_path :: string
  m_user_json_uuid :: string
  m_user_json :: "('r, 'v) user_json option"
  m_owned_data :: "'v owned_ref"
  m_user_json_cipher :: "'k option"
  m_user_json_updated :: bool
  m_should_get_user_json :: bool
  m_should_save_user_json :: bool
  m_is_user_json_saved :: bool
  m_um_interval :: nat
  m_um_timeout :: bool
  um_files :: "string \<rightharpoonup> string"
  um_clock :: int

definition user_manager_new :: "int \<Rightarrow> (string \<rightharpoonup> string) \<Rightarrow> ('k, 'r, 'v) user_manager" where
  "user_manager_new now disk =
     \<lparr>um_kernel_rx = set_external_control (fifo_new kernel_user_manager_package0),
      um_config_rx = set_external_control (fifo_new backup_cfg_package0),
      um_kernel_tx = fifo_new kernel_user_manager_package0,
      um_backup_tx = fifo_new backup_user_manager_package0, m_metadata_dump_timer = 5,
      m_user_json_path = [], m_storage_path = [], m_user_json_uuid = [], m_user_json = None,
      m_owned_data = Null_data, m_user_json_cipher = None, m_user_json_updated = False,
      m_should_get_user_json = False, m_should_save_user_json = False, m_is_user_json_saved = True,
      m_um_interval = 0, m_um_timeout = False, um_files = disk, um_clock = now\<rparr>"

section \<open>Access\<close>

text \<open>A null pointer to the document throws; \<open>f\<close> may throw as well (\<open>None\<close>).\<close>

definition with_json :: "('k, 'r, 'v) user_manager \<Rightarrow> (('r, 'v) user_json \<Rightarrow> ('k, 'r, 'v) user_manager outcome) \<Rightarrow>
    ('k, 'r, 'v) user_manager outcome" where
  "with_json s f = (case m_user_json s of None \<Rightarrow> Thrown s | Some j \<Rightarrow> f j)"

definition with_number :: "('k, 'r, 'v) user_manager \<Rightarrow> int option option \<Rightarrow> (u64 \<Rightarrow> ('k, 'r, 'v) user_manager outcome) \<Rightarrow>
    ('k, 'r, 'v) user_manager outcome" where
  "with_number s v f = (case get_uint 64 (as_number v) of None \<Rightarrow> Thrown s | Some i \<Rightarrow> f (of_int i))"

text \<open>The owned data the pointer leads to, and an update of it in place.\<close>

definition owned_of :: "('k, 'r, 'v) user_manager \<Rightarrow> 'v owned_data option" where
  "owned_of s =
     (case m_owned_data s of Null_data \<Rightarrow> None
      | In_user_json \<Rightarrow> (case m_user_json s of None \<Rightarrow> None
          | Some j \<Rightarrow> (case uj_owned_data j of Some (Some m) \<Rightarrow> Some m | _ \<Rightarrow> None))
      | Apart m \<Rightarrow> Some m)"

definition update_owned :: "('v owned_data \<Rightarrow> 'v owned_data) \<Rightarrow> ('k, 'r, 'v) user_manager \<Rightarrow> ('k, 'r, 'v) user_manager outcome" where
  "update_owned g s =
     (case m_owned_data s of Null_data \<Rightarrow> Thrown s
      | In_user_json \<Rightarrow> Done (s\<lparr>m_user_json := map_option (\<lambda>j. j\<lparr>uj_owned_data := map_option (map_option g) (uj_owned_data j)\<rparr>) (m_user_json s)\<rparr>)
      | Apart m \<Rightarrow> Done (s\<lparr>m_owned_data := Apart (g m)\<rparr>))"

text \<open>A new document: the pointer to the owned data keeps the old object alive.\<close>

definition replace_json :: "('r, 'v) user_json \<Rightarrow> ('k, 'r, 'v) user_manager \<Rightarrow> ('k, 'r, 'v) user_manager" where
  "replace_json j s = s\<lparr>m_owned_data := (case owned_of s of None \<Rightarrow> Null_data | Some m \<Rightarrow> Apart m), m_user_json := Some j\<rparr>"

definition to_kernel_u :: "(kernel_user_manager_package \<Rightarrow> kernel_user_manager_package) \<Rightarrow> ('k, 'r, 'v) user_manager \<Rightarrow>
    ('k, 'r, 'v) user_manager" where
  "to_kernel_u g s = s\<lparr>um_kernel_tx := set_slot g (um_kernel_tx s)\<rparr>"

definition commit_to_kernel_u :: "('k, 'r, 'v) user_manager \<Rightarrow> ('k, 'r, 'v) user_manager" where
  "commit_to_kernel_u s = s\<lparr>um_kernel_tx := commit kernel_user_manager_package0 (um_kernel_tx s)\<rparr>"

definition to_backup_u :: "(backup_user_manager_package \<Rightarrow> backup_user_manager_package) \<Rightarrow> ('k, 'r, 'v) user_manager \<Rightarrow>
    ('k, 'r, 'v) user_manager" where
  "to_backup_u g s = s\<lparr>um_backup_tx := set_slot g (um_backup_tx s)\<rparr>"

definition commit_to_backup_u :: "('k, 'r, 'v) user_manager \<Rightarrow> ('k, 'r, 'v) user_manager" where
  "commit_to_backup_u s = s\<lparr>um_backup_tx := commit backup_user_manager_package0 (um_backup_tx s)\<rparr>"

definition payload_to_kernel :: "string \<Rightarrow> ('k, 'r, 'v) user_manager \<Rightarrow> ('k, 'r, 'v) user_manager outcome" where
  "payload_to_kernel t s = (case set_payload_string (bytes_of t) (slot (um_kernel_tx s)) of
     Done out \<Rightarrow> Done (to_kernel_u (\<lambda>_. out) s) | _ \<Rightarrow> Aborted)"

definition uuid_to_kernel :: "poco \<Rightarrow> ('k, 'r, 'v) user_manager \<Rightarrow> ('k, 'r, 'v) user_manager outcome" where
  "uuid_to_kernel L s = (case uuid_try_parse L (m_user_json_uuid s) of None \<Rightarrow> Thrown s
     | Some u \<Rightarrow> Done (to_kernel_u (\<lambda>out. out\<lparr>ku_uuid := u\<rparr>) s))"

section \<open>The document and its file\<close>

definition create_cipher :: "('k, 'r, 'v) um_lib \<Rightarrow> string option \<Rightarrow> string option \<Rightarrow> ('k, 'r, 'v) user_manager \<Rightarrow>
    ('k, 'r, 'v) user_manager outcome" where
  "create_cipher B key iv s =
     (case (iv, key) of
        (Some i, Some k) \<Rightarrow> (case um_make_key B k i of None \<Rightarrow> Aborted
          | Some c \<Rightarrow> Done (s\<lparr>m_user_json_cipher := Some c\<rparr>))
      | _ \<Rightarrow> Aborted)"

definition validate_user_json :: "('r, 'v) user_json \<Rightarrow> bool" where
  "validate_user_json j \<longleftrightarrow> uj_has_protocol_version j \<and> uj_owned_data j \<noteq> None"

text \<open>The document is replaced before it is validated.\<close>

definition parse_user_json_from_string :: "('k, 'r, 'v) um_lib \<Rightarrow> string \<Rightarrow> ('k, 'r, 'v) user_manager \<Rightarrow>
    ('k, 'r, 'v) user_manager outcome" where
  "parse_user_json_from_string B uj s =
     (case parse_json B uj of None \<Rightarrow> Thrown s
      | Some j \<Rightarrow>
          let j = (if uj_version j = None then j\<lparr>uj_version := Some (Some 1)\<rparr> else j);
              j = (if uj_last_updated j = None then j\<lparr>uj_last_updated := Some (Some (um_clock s))\<rparr> else j);
              s = replace_json j s in
          if \<not> validate_user_json j then Thrown s
          else Done (s\<lparr>m_owned_data := (case uj_owned_data j of Some (Some m) \<Rightarrow> In_user_json | _ \<Rightarrow> Null_data)\<rparr>))"

definition generate_user_json :: "('k, 'r, 'v) um_lib \<Rightarrow> ('k, 'r, 'v) user_manager \<Rightarrow> ('k, 'r, 'v) user_manager" where
  "generate_user_json B s =
     s\<lparr>m_user_json := Some \<lparr>uj_has_protocol_version = True, uj_version = Some (Some 1),
         uj_last_updated = Some (Some (um_clock s)), uj_owned_data = Some (Some []), uj_rest = foreign_data B\<rparr>,
       m_owned_data := In_user_json, m_should_save_user_json := True, m_is_user_json_saved := False\<rparr>"

definition save_in_file :: "string \<Rightarrow> ('k, 'r, 'v) user_manager \<Rightarrow> ('k, 'r, 'v) user_manager" where
  "save_in_file c s = s\<lparr>um_files := (um_files s)(m_user_json_path s \<mapsto> c)\<rparr>"

definition update_device_json :: "poco \<Rightarrow> command \<Rightarrow> ('k, 'r, 'v) user_manager \<Rightarrow> ('k, 'r, 'v) user_manager outcome" where
  "update_device_json L cmd s =
     and_then (assert_that (m_user_json s \<noteq> None) s) (\<lambda>s. with_json s (\<lambda>j.
       let s = to_backup_u (\<lambda>out. out\<lparr>bu_cmd := cmd\<rparr>) s in
       with_number s (uj_version j) (\<lambda>v.
       let s = to_backup_u (\<lambda>out. out\<lparr>bu_data_version := v\<rparr>) s in
       with_number s (uj_last_updated j) (\<lambda>lu.
       let s = to_backup_u (\<lambda>out. out\<lparr>bu_last_updated := lu\<rparr>) s in
       case uuid_try_parse L (m_user_json_uuid s) of None \<Rightarrow> Thrown s
       | Some u \<Rightarrow> Done (commit_to_backup_u (to_backup_u (\<lambda>out. out\<lparr>bu_uuid := u\<rparr>) s))))))"

definition backup_user_json :: "poco \<Rightarrow> string \<Rightarrow> command \<Rightarrow> u64 \<Rightarrow> ('k, 'r, 'v) user_manager \<Rightarrow> ('k, 'r, 'v) user_manager outcome" where
  "backup_user_json L euj cmd lu s =
     and_then (payload_to_kernel euj s) (\<lambda>s.
     and_then (uuid_to_kernel L (to_kernel_u (\<lambda>out. out\<lparr>ku_cmd := cmd, ku_last_updated := lu\<rparr>) s)) (\<lambda>s.
       with_json s (\<lambda>j. with_number s (uj_version j) (\<lambda>v.
         Done (commit_to_kernel_u (to_kernel_u (set_data_version (ucast v)) s))))))"

text \<open>The string \<^verbatim>\<open>save_user_json\<close> returns is the printed document of the state it ends in.\<close>

definition save_user_json :: "poco \<Rightarrow> ('k, 'r, 'v) um_lib \<Rightarrow> command \<Rightarrow> ('k, 'r, 'v) user_manager \<Rightarrow>
    ('k, 'r, 'v) user_manager outcome" where
  "save_user_json L B cmd s =
     (case (m_user_json s, m_user_json_cipher s) of
        (Some j, Some k) \<Rightarrow>
          let lu = of_int (um_clock s) :: u64;
              j = j\<lparr>uj_last_updated := Some (Some (uint lu))\<rparr>;
              euj = encrypt B k (print_json B j);
              s = save_in_file euj (s\<lparr>m_user_json := Some j\<rparr>) in
          and_then (update_device_json L cmd s) (\<lambda>s.
            if m_is_user_json_saved s then backup_user_json L euj cmd_update lu s else Done s)
      | _ \<Rightarrow> Aborted)"

definition send_user_json_to_kernel :: "poco \<Rightarrow> string \<Rightarrow> ('k, 'r, 'v) user_manager \<Rightarrow> ('k, 'r, 'v) user_manager outcome" where
  "send_user_json_to_kernel L uj s =
     and_then (payload_to_kernel uj s) (\<lambda>s.
     and_then (uuid_to_kernel L (to_kernel_u (\<lambda>out. out\<lparr>ku_cmd := cmd_user_json\<rparr>) s)) (\<lambda>s.
       Done (commit_to_kernel_u s)))"

definition post_to_kernel :: "poco \<Rightarrow> command \<Rightarrow> ('k, 'r, 'v) user_manager \<Rightarrow> ('k, 'r, 'v) user_manager outcome" where
  "post_to_kernel L cmd s =
     and_then (uuid_to_kernel L (to_kernel_u (\<lambda>out. out\<lparr>ku_cmd := cmd\<rparr>) s)) (\<lambda>s. Done (commit_to_kernel_u s))"

definition request_user_json_from_network :: "poco \<Rightarrow> ('k, 'r, 'v) user_manager \<Rightarrow> ('k, 'r, 'v) user_manager outcome" where
  "request_user_json_from_network L s = post_to_kernel L cmd_get s"

definition update_version :: "('k, 'r, 'v) user_manager \<Rightarrow> ('k, 'r, 'v) user_manager outcome" where
  "update_version s = with_json s (\<lambda>j. with_number s (uj_version j) (\<lambda>v.
     Done (s\<lparr>m_user_json := Some (j\<lparr>uj_version := Some (Some (uint (v + 1)))\<rparr>)\<rparr>)))"

text \<open>The three places that save a changed document.\<close>

definition save_if_updated :: "poco \<Rightarrow> ('k, 'r, 'v) um_lib \<Rightarrow> ('k, 'r, 'v) user_manager \<Rightarrow> ('k, 'r, 'v) user_manager outcome" where
  "save_if_updated L B s =
     (if m_user_json_updated s
      then and_then (update_version s) (\<lambda>s.
           and_then (save_user_json L B cmd_update s) (\<lambda>s. Done (s\<lparr>m_user_json_updated := False\<rparr>)))
      else Done s)"

section \<open>Configuration\<close>

definition decrypt_user_json :: "('k, 'r, 'v) um_lib \<Rightarrow> string \<Rightarrow> ('k, 'r, 'v) user_manager \<Rightarrow>
    (string \<Rightarrow> ('k, 'r, 'v) user_manager \<Rightarrow> ('k, 'r, 'v) user_manager outcome) \<Rightarrow> ('k, 'r, 'v) user_manager outcome" where
  "decrypt_user_json B f s k =
     (case m_user_json_cipher s of None \<Rightarrow> Thrown s
      | Some c \<Rightarrow> if decrypt_stream B c f = [] then Thrown s else k (decrypt_stream B c f) s)"

definition process_user_json_get :: "poco \<Rightarrow> ('k, 'r, 'v) um_lib \<Rightarrow> ('k, 'r, 'v) user_manager \<Rightarrow> ('k, 'r, 'v) user_manager outcome" where
  "process_user_json_get L B s =
     (let s = s\<lparr>m_user_json_path := m_storage_path s @ CHR ''/'' # m_user_json_uuid s\<rparr> in
      case um_files s (m_user_json_path s) of
        Some f \<Rightarrow> decrypt_user_json B f s (\<lambda>uj s.
          and_then (parse_user_json_from_string B uj s) (send_user_json_to_kernel L uj))
      | None \<Rightarrow> Done (s\<lparr>m_should_get_user_json := True\<rparr>))"

definition init_user_json :: "poco \<Rightarrow> ('k, 'r, 'v) um_lib \<Rightarrow> backup_cfg_package \<Rightarrow> ('k, 'r, 'v) user_manager \<Rightarrow>
    ('k, 'r, 'v) user_manager outcome" where
  "init_user_json L B inp s =
     (case bc_uuid inp of None \<Rightarrow> Aborted
      | Some u \<Rightarrow>
          and_then (create_cipher B (bc_aes_key inp) (bc_aes_iv inp) s) (\<lambda>s.
          and_then (assert_that (u \<noteq> []) (s\<lparr>m_user_json_uuid := u\<rparr>)) (\<lambda>s.
            if bc_is_generated inp then
              let s = generate_user_json B (s\<lparr>m_user_json_path := m_storage_path s @ CHR ''/'' # m_user_json_uuid s\<rparr>) in
              and_then (save_user_json L B cmd_save s) (\<lambda>s. with_json s (\<lambda>j.
                send_user_json_to_kernel L (print_json B j) s))
            else process_user_json_get L B s)))"

definition start_timer :: "('k, 'r, 'v) user_manager \<Rightarrow> ('k, 'r, 'v) user_manager" where
  "start_timer s = (if 0 < m_metadata_dump_timer s then s\<lparr>m_um_interval := 1000 * unat (m_metadata_dump_timer s)\<rparr> else s)"

definition um_on_timer :: "('k, 'r, 'v) user_manager \<Rightarrow> ('k, 'r, 'v) user_manager" where
  "um_on_timer s = s\<lparr>m_um_timeout := True\<rparr>"

definition um_handle_timer_expiration :: "poco \<Rightarrow> ('k, 'r, 'v) um_lib \<Rightarrow> ('k, 'r, 'v) user_manager \<Rightarrow>
    ('k, 'r, 'v) user_manager outcome" where
  "um_handle_timer_expiration L B s =
     (if m_um_timeout s then and_then (save_if_updated L B s) (\<lambda>s. Done (s\<lparr>m_um_timeout := False\<rparr>)) else Done s)"

section \<open>Requests of the kernel\<close>

definition um_handle_kernel_save :: "poco \<Rightarrow> kernel_user_manager_package \<Rightarrow> ('k, 'r, 'v) user_manager \<Rightarrow>
    ('k, 'r, 'v) user_manager outcome" where
  "um_handle_kernel_save L inp s =
     and_then (update_owned (obj_set (uuid_to_string L (ku_uuid inp))
                 (Owned (ku_key inp) (ku_iv inp) (ku_copy_count inp))) s)
       (\<lambda>s. Done (s\<lparr>m_user_json_updated := True\<rparr>))"

definition um_handle_kernel_delete :: "poco \<Rightarrow> kernel_user_manager_package \<Rightarrow> ('k, 'r, 'v) user_manager \<Rightarrow>
    ('k, 'r, 'v) user_manager outcome" where
  "um_handle_kernel_delete L inp s =
     and_then (update_owned (obj_remove (uuid_to_string L (ku_uuid inp))) s)
       (\<lambda>s. Done (s\<lparr>m_user_json_updated := True\<rparr>))"

definition handle_kernel_save_confirm :: "('k, 'r, 'v) user_manager \<Rightarrow> ('k, 'r, 'v) user_manager" where
  "handle_kernel_save_confirm s = s\<lparr>m_is_user_json_saved := True\<rparr>"

definition handle_kernel_save_fail :: "poco \<Rightarrow> ('k, 'r, 'v) um_lib \<Rightarrow> ('k, 'r, 'v) user_manager \<Rightarrow> ('k, 'r, 'v) user_manager outcome" where
  "handle_kernel_save_fail L B s =
     and_then (save_if_updated L B s) (\<lambda>s. with_json s (\<lambda>j.
       case m_user_json_cipher s of None \<Rightarrow> Thrown s
       | Some k \<Rightarrow> with_number s (uj_last_updated j) (\<lambda>lu.
           backup_user_json L (encrypt B k (print_json B j)) cmd_save lu s)))"

definition process_kernel_connected_request :: "poco \<Rightarrow> ('k, 'r, 'v) um_lib \<Rightarrow> ('k, 'r, 'v) user_manager \<Rightarrow>
    ('k, 'r, 'v) user_manager outcome" where
  "process_kernel_connected_request L B s =
     (if m_should_get_user_json s
      then and_then (request_user_json_from_network L s) (\<lambda>s. Done (s\<lparr>m_should_get_user_json := False\<rparr>))
      else if m_should_save_user_json s
      then and_then (handle_kernel_save_fail L B s) (\<lambda>s. Done (s\<lparr>m_should_save_user_json := False\<rparr>))
      else post_to_kernel L cmd_on_update_register s)"

text \<open>The file is written before the received document is decrypted.\<close>

definition parse_recieved_user_json :: "poco \<Rightarrow> ('k, 'r, 'v) um_lib \<Rightarrow> kernel_user_manager_package \<Rightarrow>
    ('k, 'r, 'v) user_manager \<Rightarrow> ('k, 'r, 'v) user_manager outcome" where
  "parse_recieved_user_json L B inp s =
     (case m_user_json_cipher s of None \<Rightarrow> Aborted
      | Some k \<Rightarrow>
         if p_message inp = None \<and> p_size inp \<noteq> 0 then Thrown s
         else case payload_of inp of None \<Rightarrow> Undef
         | Some bs \<Rightarrow>
             let s = save_in_file (chars bs) s in
             case decrypt B k (chars bs) of None \<Rightarrow> Thrown s
             | Some uj \<Rightarrow>
                 and_then (parse_user_json_from_string B uj s) (\<lambda>s.
                 and_then (send_user_json_to_kernel L uj s) (post_to_kernel L cmd_on_update_register)))"

definition um_handle_kernel_dump_user_info :: "poco \<Rightarrow> ('k, 'r, 'v) um_lib \<Rightarrow> kernel_user_manager_package \<Rightarrow>
    ('k, 'r, 'v) user_manager \<Rightarrow> ('k, 'r, 'v) user_manager outcome" where
  "um_handle_kernel_dump_user_info L B inp s =
     and_then (if ku_key inp \<noteq> [] \<and> ku_iv inp \<noteq> []
               then and_then (create_cipher B (Some (ku_key inp)) (Some (ku_iv inp)) s)
                      (\<lambda>s. Done (s\<lparr>m_user_json_updated := True\<rparr>))
               else Done s) (\<lambda>s.
     and_then (save_if_updated L B s) (\<lambda>s.
       Done (commit_to_kernel_u (to_kernel_u (\<lambda>out. out\<lparr>ku_cmd := cmd_save_confirm,
         ku_request_id := ku_request_id inp\<rparr>) s))))"

definition um_handle_kernel_update :: "poco \<Rightarrow> kernel_user_manager_package \<Rightarrow> ('k, 'r, 'v) user_manager \<Rightarrow>
    ('k, 'r, 'v) user_manager outcome" where
  "um_handle_kernel_update L inp s = with_json s (\<lambda>j. with_number s (uj_version j) (\<lambda>v.
     if v < ucast (ku_data_version inp) then request_user_json_from_network L s else Done s))"

definition um_process_kernel_input :: "poco \<Rightarrow> ('k, 'r, 'v) um_lib \<Rightarrow> kernel_user_manager_package \<Rightarrow>
    ('k, 'r, 'v) user_manager \<Rightarrow> ('k, 'r, 'v) user_manager outcome" where
  "um_process_kernel_input L B inp s =
     (let c = ku_cmd inp in
      if c = cmd_save then um_handle_kernel_save L inp s
      else if c = cmd_del then um_handle_kernel_delete L inp s
      else if c = cmd_dump_user_info then um_handle_kernel_dump_user_info L B inp s
      else if c = cmd_update then um_handle_kernel_update L inp s
      else if c = cmd_save_data then parse_recieved_user_json L B inp s
      else if c = cmd_connected then process_kernel_connected_request L B s
      else if c = cmd_failed then request_user_json_from_network L s
      else if c = cmd_save_fail then handle_kernel_save_fail L B s
      else if c = cmd_save_confirm then Done (handle_kernel_save_confirm s)
      else Done s)"

section \<open>The task\<close>

definition um_consume :: "'a fifo \<Rightarrow> ('a fifo \<Rightarrow> ('k, 'r, 'v) user_manager) \<Rightarrow> ('k, 'r, 'v) user_manager outcome" where
  "um_consume f put = (case fifo_pop f of Done f' \<Rightarrow> Done (put f') | _ \<Rightarrow> Aborted)"

definition um_handle_kernel_input :: "poco \<Rightarrow> ('k, 'r, 'v) um_lib \<Rightarrow> ('k, 'r, 'v) user_manager \<Rightarrow> ('k, 'r, 'v) user_manager outcome" where
  "um_handle_kernel_input L B s = (case fifo_front (um_kernel_rx s) of None \<Rightarrow> Done s
     | Some inp \<Rightarrow> and_then (catch_log (um_process_kernel_input L B inp s)) (\<lambda>s.
         um_consume (um_kernel_rx s) (\<lambda>f. s\<lparr>um_kernel_rx := f\<rparr>)))"

definition um_configure :: "poco \<Rightarrow> ('k, 'r, 'v) um_lib \<Rightarrow> backup_cfg_package \<Rightarrow> ('k, 'r, 'v) user_manager \<Rightarrow>
    ('k, 'r, 'v) user_manager outcome" where
  "um_configure L B inp s =
     (let s = s\<lparr>m_storage_path := bc_metadata_path inp, m_metadata_dump_timer := bc_periodic_interval inp\<rparr> in
      if \<not> create_directories B (m_storage_path s) then Thrown s
      else and_then (init_user_json L B inp s) (\<lambda>s. Done (start_timer s)))"

definition um_handle_config_input :: "poco \<Rightarrow> ('k, 'r, 'v) um_lib \<Rightarrow> ('k, 'r, 'v) user_manager \<Rightarrow> ('k, 'r, 'v) user_manager outcome" where
  "um_handle_config_input L B s = (case fifo_front (um_config_rx s) of None \<Rightarrow> Done s
     | Some inp \<Rightarrow>
         and_then (case um_configure L B inp s of
                     Thrown s \<Rightarrow> Done (commit_to_kernel_u (to_kernel_u (\<lambda>out. out\<lparr>ku_cmd := cmd_key_init_fail\<rparr>) s))
                   | r \<Rightarrow> r) (\<lambda>s.
         um_consume (um_config_rx s) (\<lambda>f. s\<lparr>um_config_rx := f\<rparr>)))"

definition um_turn :: "poco \<Rightarrow> ('k, 'r, 'v) um_lib \<Rightarrow> ('k, 'r, 'v) user_manager \<Rightarrow> ('k, 'r, 'v) user_manager outcome" where
  "um_turn L B s =
     and_then (um_handle_config_input L B s) (\<lambda>s.
     and_then (um_handle_kernel_input L B s) (um_handle_timer_expiration L B))"

partial_function (option) um_drain_kernel :: "poco \<Rightarrow> ('k, 'r, 'v) um_lib \<Rightarrow> ('k, 'r, 'v) user_manager \<Rightarrow>
    ('k, 'r, 'v) user_manager outcome option" where
  "um_drain_kernel L B s =
     (if has_data (um_kernel_rx s) then
        (case um_handle_kernel_input L B s of
           Done s \<Rightarrow> um_drain_kernel L B s
         | r \<Rightarrow> Some r)
      else Some (Done s))"

definition handle_user_json_final_save :: "poco \<Rightarrow> ('k, 'r, 'v) um_lib \<Rightarrow> ('k, 'r, 'v) user_manager \<Rightarrow>
    ('k, 'r, 'v) user_manager outcome" where
  "handle_user_json_final_save L B s =
     (if m_user_json s = None
      then Done (commit_to_backup_u (to_backup_u (\<lambda>out. out\<lparr>bu_cmd := cmd_finalize, bu_last_updated := 0\<rparr>) s))
      else if m_user_json_updated s then and_then (update_version s) (save_user_json L B cmd_finalize)
      else update_device_json L cmd_finalize s)"

definition um_shutdown :: "poco \<Rightarrow> ('k, 'r, 'v) um_lib \<Rightarrow> ('k, 'r, 'v) user_manager \<Rightarrow> ('k, 'r, 'v) user_manager outcome option" where
  "um_shutdown L B s =
     (case um_drain_kernel L B s of
        Some (Done s) \<Rightarrow> Some (handle_user_json_final_save L B s)
      | r \<Rightarrow> r)"

end
