(* ===== verification/User_Manager_Props.thy ===== *)
theory User_Manager_Props
  imports User_Manager Backup_Props
begin

text \<open>
  The properties of the user manager, each with a concrete run.
\<close>

section \<open>Owned data\<close>

definition serve_owned :: "poco \<Rightarrow> kernel_user_manager_package \<Rightarrow> 'v owned_data \<Rightarrow> 'v owned_data" where
  "serve_owned L p m =
     (if ku_cmd p = cmd_save then obj_set (uuid_to_string L (ku_uuid p)) (Owned (ku_key p) (ku_iv p) (ku_copy_count p)) m
      else obj_remove (uuid_to_string L (ku_uuid p)) m)"

definition owned_request :: "kernel_user_manager_package \<Rightarrow> bool" where
  "owned_request p \<longleftrightarrow> ku_cmd p \<in> {cmd_save, cmd_del}"

lemma update_owned_attached:
  "m_user_json s = Some j \<Longrightarrow> uj_owned_data j = Some (Some m) \<Longrightarrow> m_owned_data s = In_user_json \<Longrightarrow>
   update_owned g s = Done (s\<lparr>m_user_json := Some (j\<lparr>uj_owned_data := Some (Some (g m))\<rparr>)\<rparr>)"
  by (simp add: update_owned_def)

lemma owned_request_runs:
  assumes "owned_request p" and "m_user_json s = Some j" "uj_owned_data j = Some (Some m)" "m_owned_data s = In_user_json"
  shows "um_process_kernel_input L B p s =
    Done (s\<lparr>m_user_json := Some (j\<lparr>uj_owned_data := Some (Some (serve_owned L p m))\<rparr>), m_user_json_updated := True\<rparr>)"
  using assms(1) update_owned_attached [OF assms(2-4)]
  by (auto simp: owned_request_def um_process_kernel_input_def um_handle_kernel_save_def um_handle_kernel_delete_def
      serve_owned_def)

lemma um_consume_pending:
  "pending f \<noteq> [] \<Longrightarrow> um_consume f g = Done (g (f\<lparr>m_internal := tl (m_internal f)\<rparr>))"
  by (simp add: um_consume_def fifo_pop_def has_data_pending)

lemma drain_owned_requests:
  assumes "list_all owned_request (pending (um_kernel_rx s))"
    and "m_user_json s = Some j" "uj_owned_data j = Some (Some m)" "m_owned_data s = In_user_json"
  shows "\<exists>f. um_drain_kernel L B s = Some (Done (s\<lparr>um_kernel_rx := f,
    m_user_json := Some (j\<lparr>uj_owned_data := Some (Some (fold (serve_owned L) (pending (um_kernel_rx s)) m))\<rparr>),
    m_user_json_updated := (m_user_json_updated s \<or> pending (um_kernel_rx s) \<noteq> [])\<rparr>))"
  using assms
proof (induction "pending (um_kernel_rx s)" arbitrary: s j m)
  case Nil
  then have "um_drain_kernel L B s = Some (Done s)"
    by (subst um_drain_kernel.simps) (simp add: has_data_pending)
  moreover have "s\<lparr>um_kernel_rx := um_kernel_rx s, m_user_json := Some (j\<lparr>uj_owned_data := Some (Some m)\<rparr>),
      m_user_json_updated := m_user_json_updated s\<rparr> = s"
    using Nil.prems by (cases s; cases j) simp
  ultimately show ?case
    using Nil.hyps by (intro exI [of _ "um_kernel_rx s"]) (simp flip: Nil.hyps)
next
  case (Cons p ps)
  let ?f = "(um_kernel_rx s)\<lparr>m_internal := tl (m_internal (um_kernel_rx s))\<rparr>"
  let ?s = "s\<lparr>um_kernel_rx := ?f, m_user_json := Some (j\<lparr>uj_owned_data := Some (Some (serve_owned L p m))\<rparr>),
    m_user_json_updated := True\<rparr>"
  have ne: "pending (um_kernel_rx s) \<noteq> []" and front: "fifo_front (um_kernel_rx s) = Some p"
    using Cons.hyps(2) by (auto simp: fifo_front_pending split: list.split)
  have p: "owned_request p" and ps: "pending ?f = ps" "list_all owned_request ps"
    using Cons.prems(1) pending_tl [OF ne] by (simp_all flip: Cons.hyps(2))
  have "um_handle_kernel_input L B s = Done ?s"
    using owned_request_runs [OF p Cons.prems(2-4)] ne
    by (simp add: um_handle_kernel_input_def front um_consume_pending)
  moreover obtain f where "um_drain_kernel L B ?s = Some (Done (?s\<lparr>um_kernel_rx := f,
      m_user_json := Some ((j\<lparr>uj_owned_data := Some (Some (serve_owned L p m))\<rparr>)\<lparr>uj_owned_data :=
        Some (Some (fold (serve_owned L) ps (serve_owned L p m)))\<rparr>), m_user_json_updated := True\<rparr>))"
    using Cons.hyps(1) [of ?s "j\<lparr>uj_owned_data := Some (Some (serve_owned L p m))\<rparr>" "serve_owned L p m"]
      Cons.prems ps by auto
  ultimately show ?case
    using ne by (subst um_drain_kernel.simps) (auto simp: has_data_pending simp flip: Cons.hyps(2))
qed

text \<open>The document the task saves at its end.\<close>

definition final_document :: "poco \<Rightarrow> ('k, 'r, 'v) user_manager \<Rightarrow> ('r, 'v) user_json \<Rightarrow> int \<Rightarrow> 'v owned_data \<Rightarrow> ('r, 'v) user_json" where
  "final_document L s j v m = j\<lparr>uj_owned_data := Some (Some (fold (serve_owned L) (pending (um_kernel_rx s)) m)),
     uj_version := Some (Some (uint (of_int (v + 1) :: u64))), uj_last_updated := Some (Some (uint (of_int (um_clock s) :: u64)))\<rparr>"

definition owned_map :: "poco \<Rightarrow> kernel_user_manager_package \<Rightarrow> (string \<rightharpoonup> 'v owned_value) \<Rightarrow> string \<rightharpoonup> 'v owned_value" where
  "owned_map L p M = M(uuid_to_string L (ku_uuid p) :=
     (if ku_cmd p = cmd_save then Some (Owned (ku_key p) (ku_iv p) (ku_copy_count p)) else None))"

lemma map_of_serve_owned: "map_of (fold (serve_owned L) ps m) = fold (owned_map L) ps (map_of m)"
proof (induction ps arbitrary: m)
  case (Cons p ps)
  have "map_of (serve_owned L p m) = owned_map L p (map_of m)"
    by (simp add: serve_owned_def owned_map_def)
  with Cons show ?case
    by simp
qed simp

lemma get_uint_uint [simp]: "get_uint 64 (Some (uint (w :: u64))) = Some (uint w)"
  using uint_lt2p [of w] by (simp add: get_uint_def)


lemma payload_to_kernel_fits:
  "length t < 2 ^ 32 \<Longrightarrow> \<exists>out. payload_to_kernel t s = Done (to_kernel_u (\<lambda>_. out) s)"
  by (auto simp: payload_to_kernel_def set_payload_string_fits)

lemma um_tx_simps [simp]:
  "m_user_json (to_kernel_u g s) = m_user_json s" "m_user_json_uuid (to_kernel_u g s) = m_user_json_uuid s"
  "um_files (to_kernel_u g s) = um_files s" "m_user_json (commit_to_kernel_u s) = m_user_json s"
  "um_files (commit_to_kernel_u s) = um_files s" "m_user_json (to_backup_u h s) = m_user_json s"
  "m_user_json_uuid (to_backup_u h s) = m_user_json_uuid s" "um_files (to_backup_u h s) = um_files s"
  "m_user_json (commit_to_backup_u s) = m_user_json s" "um_files (commit_to_backup_u s) = um_files s"
  "m_user_json_uuid (commit_to_backup_u s) = m_user_json_uuid s"
  "m_is_user_json_saved (commit_to_backup_u s) = m_is_user_json_saved s"
  "m_is_user_json_saved (to_backup_u h s) = m_is_user_json_saved s"
  "um_config_rx (to_kernel_u g s) = um_config_rx s" "um_config_rx (commit_to_kernel_u s) = um_config_rx s"
  "m_owned_data (to_kernel_u g s) = m_owned_data s" "m_owned_data (commit_to_kernel_u s) = m_owned_data s"
  by (simp_all add: to_kernel_u_def commit_to_kernel_u_def to_backup_u_def commit_to_backup_u_def)

lemma with_number_uint [simp]: "with_number s (Some (Some (uint (w :: u64)))) f = f w"
  by (simp add: with_number_def as_number_def)

lemma save_user_json_runs:
  assumes "m_user_json s = Some j" "m_user_json_cipher s = Some k" "uj_version j = Some (Some (uint (v :: u64)))"
    and uuid: "uuid_try_parse L (m_user_json_uuid s) = Some u"
    and j': "j' = j\<lparr>uj_last_updated := Some (Some (uint (of_int (um_clock s) :: u64)))\<rparr>"
    and fits: "length (encrypt B k (print_json B j')) < 2 ^ 32"
  shows "\<exists>s'. save_user_json L B cmd s = Done s' \<and> m_user_json s' = Some j'
    \<and> um_files s' = (um_files s)(m_user_json_path s \<mapsto> encrypt B k (print_json B j'))"
proof -
  define s1 where "s1 = save_in_file (encrypt B k (print_json B j')) (s\<lparr>m_user_json := Some j'\<rparr>)"
  have s1: "m_user_json s1 = Some j'" "m_user_json_uuid s1 = m_user_json_uuid s"
    "um_files s1 = (um_files s)(m_user_json_path s \<mapsto> encrypt B k (print_json B j'))"
    by (simp_all add: s1_def save_in_file_def)
  have v: "uj_version j' = Some (Some (uint v))" "uj_last_updated j' = Some (Some (uint (of_int (um_clock s) :: u64)))"
    using assms(3) by (simp_all add: j')
  obtain g where dev: "update_device_json L cmd s1 = Done (commit_to_backup_u (to_backup_u g s1))"
    using uuid s1 v by (force simp: update_device_json_def with_json_def to_backup_u_def set_slot_def Let_def)
  obtain out where pay: "payload_to_kernel (encrypt B k (print_json B j')) (commit_to_backup_u (to_backup_u g s1))
      = Done (to_kernel_u (\<lambda>_. out) (commit_to_backup_u (to_backup_u g s1)))"
    using payload_to_kernel_fits [OF fits] by blast
  show ?thesis
    using assms(1,2) dev pay s1 v uuid
    by (simp add: save_user_json_def Let_def j' [symmetric] s1_def [symmetric] backup_user_json_def with_json_def
        uuid_to_kernel_def)
qed

lemma load_document:
  assumes cfg: "bc_uuid cfg = Some un" "un \<noteq> []" "\<not> bc_is_generated cfg" "bc_aes_key cfg = Some key" "bc_aes_iv cfg = Some iv"
    and lib: "um_make_key B key iv = Some k" "create_directories B (bc_metadata_path cfg)"
    and stored: "disk (bc_metadata_path cfg @ CHR ''/'' # un) = Some c" "decrypt_stream B k c = t" "t \<noteq> []" "length t < 2 ^ 32"
    and doc: "parse_json B t = Some j" "uj_has_protocol_version j" "uj_owned_data j = Some (Some m)"
      "uj_version j = Some a" "uj_last_updated j = Some b"
    and uuid: "uuid_try_parse L un = Some u"
  shows "\<exists>s. um_configure L B cfg (user_manager_new now disk) = Done s \<and> m_user_json s = Some j \<and> owned_of s = Some m"
proof -
  let ?s = "(user_manager_new now disk)\<lparr>m_storage_path := bc_metadata_path cfg, m_metadata_dump_timer := bc_periodic_interval cfg,
    m_user_json_cipher := Some k, m_user_json_uuid := un, m_user_json_path := bc_metadata_path cfg @ CHR ''/'' # un\<rparr>"
  define s1 where "s1 = (replace_json j ?s)\<lparr>m_owned_data := In_user_json\<rparr>"
  have p: "parse_user_json_from_string B t ?s = Done s1"
    using doc by (simp add: parse_user_json_from_string_def validate_user_json_def s1_def Let_def)
  have s1: "m_user_json s1 = Some j" "m_owned_data s1 = In_user_json" "m_user_json_uuid s1 = un"
    by (simp_all add: s1_def replace_json_def)
  obtain out where "payload_to_kernel t s1 = Done (to_kernel_u (\<lambda>_. out) s1)"
    using payload_to_kernel_fits [OF stored(4)] by blast
  then obtain s2 where "send_user_json_to_kernel L t s1 = Done s2" "m_user_json s2 = Some j" "m_owned_data s2 = In_user_json"
    using s1 uuid by (simp add: send_user_json_to_kernel_def uuid_to_kernel_def)
  then show ?thesis
    using cfg lib stored p doc(3)
    by (simp add: um_configure_def init_user_json_def create_cipher_def process_user_json_get_def decrypt_user_json_def
        Let_def start_timer_def owned_of_def user_manager_new_def)
qed


text \<open>
  C31: The keys a user owns survive a restart. Whatever saves and deletions wait when the task is stopped,
  the file it writes at its end holds the document with all of them applied in order and the next version,
  and a task that is configured on that disk with the same keys has that document and those keys in memory,
  when printing and encrypting the document can be undone.
\<close>

theorem owned_data_survives_restart:
  assumes reqs: "list_all owned_request (pending (um_kernel_rx s))" "pending (um_kernel_rx s) \<noteq> []"
    and doc: "m_user_json s = Some j" "uj_owned_data j = Some (Some m)" "m_owned_data s = In_user_json"
      "uj_version j = Some (Some v)" "0 \<le> v" "v < 2 ^ 64" "uj_has_protocol_version j"
    and key: "m_user_json_cipher s = Some k" "um_make_key B key iv = Some k"
    and uuid: "uuid_try_parse L (m_user_json_uuid s) = Some u" "m_user_json_uuid s \<noteq> []"
    and path: "m_user_json_path s = bc_metadata_path cfg @ CHR ''/'' # m_user_json_uuid s"
      "create_directories B (bc_metadata_path cfg)"
    and cfg: "bc_uuid cfg = Some (m_user_json_uuid s)" "\<not> bc_is_generated cfg" "bc_aes_key cfg = Some key" "bc_aes_iv cfg = Some iv"
    and j': "j' = final_document L s j v m"
    and lib: "parse_json B (print_json B j') = Some j'" "print_json B j' \<noteq> []" "length (print_json B j') < 2 ^ 32"
      "decrypt_stream B k (encrypt B k (print_json B j')) = print_json B j'" "length (encrypt B k (print_json B j')) < 2 ^ 32"
  shows "\<exists>s' t m'. um_shutdown L B s = Some (Done s')
    \<and> um_configure L B cfg (user_manager_new now (um_files s')) = Done t \<and> m_user_json t = Some j' \<and> owned_of t = Some m'
    \<and> map_of m' = fold (owned_map L) (pending (um_kernel_rx s)) (map_of m)"
proof -
  let ?m = "fold (serve_owned L) (pending (um_kernel_rx s)) m"
  obtain f where d: "um_drain_kernel L B s = Some (Done (s\<lparr>um_kernel_rx := f,
      m_user_json := Some (j\<lparr>uj_owned_data := Some (Some ?m)\<rparr>), m_user_json_updated := True\<rparr>))"
    using drain_owned_requests [OF reqs(1) doc(1-3)] reqs(2) by auto
  define s2 where "s2 = s\<lparr>um_kernel_rx := f, m_user_json := Some (j\<lparr>uj_owned_data := Some (Some ?m),
      uj_version := Some (Some (uint (of_int v + 1 :: u64)))\<rparr>), m_user_json_updated := True\<rparr>"
  have "get_uint 64 (Some v) = Some v"
    using doc(5,6) by (simp add: get_uint_def)
  then have up: "update_version (s\<lparr>um_kernel_rx := f, m_user_json := Some (j\<lparr>uj_owned_data := Some (Some ?m)\<rparr>),
      m_user_json_updated := True\<rparr>) = Done s2"
    using doc(4) by (simp add: update_version_def with_json_def with_number_def as_number_def s2_def)
  have "j' = (j\<lparr>uj_owned_data := Some (Some ?m), uj_version := Some (Some (uint (of_int v + 1 :: u64)))\<rparr>)
      \<lparr>uj_last_updated := Some (Some (uint (of_int (um_clock s2) :: u64)))\<rparr>"
    by (simp add: j' final_document_def s2_def)
  then obtain s' where s': "save_user_json L B cmd_finalize s2 = Done s'"
      "um_files s' = (um_files s)(m_user_json_path s \<mapsto> encrypt B k (print_json B j'))"
    using save_user_json_runs [of s2 _ k "of_int v + 1" L u j' B cmd_finalize] key(1) uuid(1) lib(5) by (auto simp: s2_def)
  then have "um_shutdown L B s = Some (Done s')"
    by (simp add: um_shutdown_def d handle_user_json_final_save_def up)
  moreover have "\<exists>t. um_configure L B cfg (user_manager_new now (um_files s')) = Done t \<and> m_user_json t = Some j' \<and> owned_of t = Some ?m"
    by (rule load_document [OF cfg(1) uuid(2) cfg(2-4) key(2) path(2) _ lib(4,2,3,1)])
      (use s'(2) path(1) doc(7) uuid(1) in \<open>simp_all add: j' final_document_def\<close>)
  ultimately show ?thesis
    using map_of_serve_owned by blast
qed


text \<open>A concrete library: the document in fields between commas, a cipher that reverses.\<close>

fun ref_fields :: "unit owned_data \<Rightarrow> string list" where
  "ref_fields ((n, Owned k i c) # m) = n # k # i # decimal (unat c) # ref_fields m"
| "ref_fields _ = []"

fun ref_owned :: "string list \<Rightarrow> unit owned_data" where
  "ref_owned (n # k # i # c # ts) = (n, Owned k i (of_nat (from_string 64 c))) # ref_owned ts"
| "ref_owned _ = []"

definition ref_print :: "(unit, unit) user_json \<Rightarrow> string" where
  "ref_print j = (case (uj_version j, uj_last_updated j, uj_owned_data j) of
     (Some (Some v), Some (Some lu), Some (Some m)) \<Rightarrow> join CHR '','' (decimal (nat v) # decimal (nat lu) # ref_fields m)
   | _ \<Rightarrow> ''null'')"

definition ref_parse :: "string \<Rightarrow> (unit, unit) user_json option" where
  "ref_parse t = (case ref_tokenize t CHR '','' of
     v # lu # ts \<Rightarrow> Some \<lparr>uj_has_protocol_version = True, uj_version = Some (Some (int (from_string 64 v))),
       uj_last_updated = Some (Some (int (from_string 64 lu))), uj_owned_data = Some (Some (ref_owned ts)), uj_rest = ()\<rparr>
   | _ \<Rightarrow> None)"

definition ex_um_lib :: "(string \<times> string, unit, unit) um_lib" where
  "ex_um_lib = \<lparr>um_make_key = (\<lambda>k i. if k = [] then None else Some (k, i)), encrypt = (\<lambda>k s. rev s),
     decrypt = (\<lambda>k s. Some (rev s)), decrypt_stream = (\<lambda>k s. rev s), print_json = ref_print, parse_json = ref_parse,
     create_directories = (\<lambda>_. True), foreign_data = ()\<rparr>"

definition ex_ku :: "command \<Rightarrow> uuid \<Rightarrow> string \<Rightarrow> kernel_user_manager_package" where
  "ex_ku c u key = kernel_user_manager_package0\<lparr>ku_cmd := c, ku_uuid := u, ku_key := key, ku_iv := ''iv'', ku_copy_count := 2\<rparr>"

definition ex_um :: "kernel_user_manager_package list \<Rightarrow> (string \<times> string, unit, unit) user_manager" where
  "ex_um reqs = (user_manager_new 1000 (\<lambda>_. None))\<lparr>
     um_kernel_rx := fold (fifo_write kernel_user_manager_package0) reqs (fifo_new kernel_user_manager_package0),
     m_storage_path := ''dir'', m_user_json_uuid := ex_name 9, m_user_json_path := ''dir/'' @ ex_name 9,
     m_user_json := Some \<lparr>uj_has_protocol_version = True, uj_version = Some (Some 4), uj_last_updated = Some (Some 500),
       uj_owned_data = Some (Some [(ex_name 2, Owned ''k'' ''i'' 1), (ex_name 3, Owned ''k'' ''i'' 1)]), uj_rest = ()\<rparr>,
     m_owned_data := In_user_json, m_user_json_cipher := Some (''k'', ''i'')\<rparr>"

definition ex_um_cfg :: backup_cfg_package where
  "ex_um_cfg = backup_cfg_package0\<lparr>bc_cmd := cmd_backup_cfg, bc_metadata_path := ''dir'', bc_aes_key := Some ''k'',
     bc_aes_iv := Some ''i'', bc_uuid := Some (ex_name 9)\<rparr>"

lemma pending_writes:
  "fifo_ok f \<Longrightarrow> pending (fold (fifo_write x) ps f) = pending f @ ps"
  by (induction ps arbitrary: f) (simp_all add: fifo_write_def)

lemma ex_um_simps [simp]:
  "pending (um_kernel_rx (ex_um reqs)) = reqs" "m_user_json_uuid (ex_um reqs) = ex_name 9"
  "m_user_json_cipher (ex_um reqs) = Some (''k'', ''i'')" "m_owned_data (ex_um reqs) = In_user_json"
  "um_clock (ex_um reqs) = 1000" "m_user_json_path (ex_um reqs) = ''dir/'' @ ex_name 9"
  by (simp_all add: ex_um_def pending_writes user_manager_new_def)

lemma ex_name_parses [simp]: "uuid_try_parse poco_ref (ex_name u) = Some u" "ex_name u \<noteq> []" "CHR '','' \<notin> set (ex_name u)"
  using poco_okD(1,2) [OF poco_ref_ok, of u] by (simp_all add: plain_def)

definition ex_document :: "(unit, unit) user_json" where
  "ex_document = \<lparr>uj_has_protocol_version = True, uj_version = Some (Some 5), uj_last_updated = Some (Some 1000),
     uj_owned_data = Some (Some [(ex_name 2, Owned ''new'' ''iv'' 2)]), uj_rest = ()\<rparr>"

lemma ex_document_printed:
  "ref_print ex_document = join CHR '','' [decimal 5, decimal 1000, ex_name 2, ''new'', ''iv'', decimal 2]"
  by (simp add: ref_print_def ex_document_def)

lemma ex_document_parsed: "ref_parse (ref_print ex_document) = Some ex_document"
proof -
  have "ref_tokenize (ref_print ex_document) CHR '','' = [decimal 5, decimal 1000, ex_name 2, ''new'', ''iv'', decimal 2]"
    unfolding ex_document_printed by (rule ref_tokenize_join) (simp add: decimal_no decimal_props)
  then show ?thesis
    by (simp add: ref_parse_def from_string_decimal) (simp add: ex_document_def)
qed

lemma owned_data_survives_restart_witness:
  "\<exists>s' t. um_shutdown poco_ref ex_um_lib (ex_um [ex_ku cmd_save 2 ''new'', ex_ku cmd_del 3 []]) = Some (Done s')
    \<and> um_configure poco_ref ex_um_lib ex_um_cfg (user_manager_new 2000 (um_files s')) = Done t
    \<and> m_user_json t = Some ex_document"
proof -
  let ?s = "ex_um [ex_ku cmd_save 2 ''new'', ex_ku cmd_del 3 []]"
  let ?m = "[(ex_name 2, Owned ''k'' ''i'' 1), (ex_name 3, Owned ''k'' ''i'' 1)] :: unit owned_data"
  have json: "m_user_json ?s = Some \<lparr>uj_has_protocol_version = True, uj_version = Some (Some 4), uj_last_updated = Some (Some 500),
       uj_owned_data = Some (Some ?m), uj_rest = ()\<rparr>"
    by (simp add: ex_um_def)
  have len: "length (ref_print ex_document) < 4294967296" "ref_print ex_document \<noteq> []"
    unfolding ex_document_printed by (simp_all add: length_ex_name decimal.simps)
  have doc: "ex_document = \<lparr>uj_has_protocol_version = True, uj_version = Some (Some 5), uj_last_updated = Some (Some 1000),
      uj_owned_data = Some (Some (obj_remove (ex_name 3) [(ex_name 2, Owned ''new'' ''iv'' 2), (ex_name 3, Owned ''k'' ''i'' 1)])), uj_rest = ()\<rparr>"
    by (simp add: ex_document_def obj_remove_def)
  have gen: "\<not> bc_is_generated backup_cfg_package0"
    by (simp add: backup_cfg_package0_def package.defs default_package_def)
  have "\<exists>s' t m'. um_shutdown poco_ref ex_um_lib ?s = Some (Done s')
    \<and> um_configure poco_ref ex_um_lib ex_um_cfg (user_manager_new 2000 (um_files s')) = Done t \<and> m_user_json t = Some ex_document
    \<and> owned_of t = Some m' \<and> map_of m' = fold (owned_map poco_ref) (pending (um_kernel_rx ?s)) (map_of ?m)"
    by (rule owned_data_survives_restart [OF _ _ json, where v = 4 and k = "(''k'', ''i'')" and key = "''k''" and iv = "''i''" and u = 9])
      (simp_all add: owned_request_def ex_ku_def ex_um_lib_def ex_um_cfg_def ex_document_parsed len gen final_document_def serve_owned_def doc [symmetric])
  then show ?thesis
    by blast
qed


section \<open>A document from the network\<close>

definition restart :: "int \<Rightarrow> (string \<rightharpoonup> string) \<Rightarrow> backup_cfg_package \<Rightarrow> ('k, 'r, 'v) user_manager" where
  "restart now disk cfg = (user_manager_new now disk)\<lparr>um_config_rx :=
     fifo_write backup_cfg_package0 cfg (fifo_new backup_cfg_package0)\<rparr>"

text \<open>
  Whatever the kernel hands over as the user's document replaces the file before it is decrypted. When
  it cannot be decrypted, the task keeps its old document, but the file holds the received bytes: a task that
  is configured on that disk answers \<^verbatim>\<open>key_init_fail\<close> and has no document and no keys.
\<close>

theorem received_garbage_locks_out:
  fixes s :: "('k, 'r, 'v) user_manager"
  assumes key: "m_user_json_cipher s = Some k" "um_make_key B key iv = Some k"
    and msg: "ku_cmd inp = cmd_save_data" "payload_of inp = Some bs" "p_message inp \<noteq> None \<or> p_size inp = 0"
    and bad: "decrypt B k (chars bs) = None" "decrypt_stream B k (chars bs) = []"
    and path: "m_user_json_path s = bc_metadata_path cfg @ CHR ''/'' # m_user_json_uuid s"
      "create_directories B (bc_metadata_path cfg)"
    and cfg: "bc_uuid cfg = Some (m_user_json_uuid s)" "\<not> bc_is_generated cfg" "bc_aes_key cfg = Some key" "bc_aes_iv cfg = Some iv"
      "m_user_json_uuid s \<noteq> []"
  shows "\<exists>s'. um_process_kernel_input L B inp s = Thrown s'
    \<and> m_user_json s' = m_user_json s \<and> um_files s' (m_user_json_path s) = Some (chars bs)
    \<and> (\<exists>t :: ('k, 'r, 'v) user_manager. um_handle_config_input L B (restart now (um_files s') cfg) = Done t
         \<and> m_user_json t = None \<and> m_owned_data t = Null_data \<and> map ku_cmd (pending (um_kernel_tx t)) = [cmd_key_init_fail])"
proof -
  let ?s = "save_in_file (chars bs) s" and ?t = "restart now (um_files (save_in_file (chars bs) s)) cfg :: ('k, 'r, 'v) user_manager"
  have s': "um_process_kernel_input L B inp s = Thrown ?s" "m_user_json ?s = m_user_json s"
    "um_files ?s (m_user_json_path s) = Some (chars bs)"
    using key(1) msg bad(1) by (auto simp: um_process_kernel_input_def parse_recieved_user_json_def Let_def save_in_file_def)
  have t: "fifo_front (um_config_rx ?t) = Some cfg" "fifo_ok (um_config_rx ?t)" "pending (um_config_rx ?t) = [cfg]"
    by (simp_all add: restart_def fifo_front_pending fifo_write_def)
  let ?u = "?t\<lparr>m_storage_path := bc_metadata_path cfg, m_metadata_dump_timer := bc_periodic_interval cfg,
    m_user_json_cipher := Some k, m_user_json_uuid := m_user_json_uuid s, m_user_json_path := m_user_json_path s\<rparr>"
  have "um_configure L B cfg ?t = Thrown ?u"
    using key(2) bad(2) path cfg
    by (simp add: um_configure_def init_user_json_def create_cipher_def process_user_json_get_def decrypt_user_json_def
        Let_def restart_def save_in_file_def user_manager_new_def)
  moreover have "um_config_rx ?u = um_config_rx ?t" "m_user_json ?u = None" "m_owned_data ?u = Null_data"
    "fifo_ok (um_kernel_tx ?u)" "pending (um_kernel_tx ?u) = []"
    by (simp_all add: restart_def user_manager_new_def)
  ultimately have "\<exists>t. um_handle_config_input L B ?t = Done t \<and> m_user_json t = None
      \<and> m_owned_data t = Null_data \<and> map ku_cmd (pending (um_kernel_tx t)) = [cmd_key_init_fail]"
    using t(1,3) by (simp add: um_handle_config_input_def um_consume_pending) (simp add: to_kernel_u_def commit_to_kernel_u_def)
  with s' show ?thesis
    by - (rule exI [of _ ?s], simp)
qed

text \<open>A cipher that refuses what does not end with a mark.\<close>

definition ex_um_lib2 :: "(string \<times> string, unit, unit) um_lib" where
  "ex_um_lib2 = ex_um_lib\<lparr>encrypt := (\<lambda>k s. CHR ''#'' # s),
     decrypt := (\<lambda>k s. if s \<noteq> [] \<and> hd s = CHR ''#'' then Some (tl s) else None),
     decrypt_stream := (\<lambda>k s. if s \<noteq> [] \<and> hd s = CHR ''#'' then tl s else [])\<rparr>"

lemma received_garbage_locks_out_witness:
  "\<exists>s'. um_process_kernel_input poco_ref ex_um_lib2 ((ex_ku cmd_save_data 9 [])\<lparr>p_size := 2, p_message := Some (bytes_of ''no'' @ [0])\<rparr>) (ex_um []) = Thrown s'
    \<and> (\<exists>t. um_handle_config_input poco_ref ex_um_lib2 (restart 2000 (um_files s') ex_um_cfg) = Done t \<and> m_user_json t = None)"
proof -
  have p: "payload_of ((ex_ku cmd_save_data 9 [])\<lparr>p_size := 2, p_message := Some (bytes_of ''no'' @ [0])\<rparr>) = Some (bytes_of ''no'')"
    by (simp add: payload_of_def mem_read_def)
  have gen: "\<not> bc_is_generated backup_cfg_package0"
    by (simp add: backup_cfg_package0_def package.defs default_package_def)
  let ?inp = "(ex_ku cmd_save_data 9 [])\<lparr>p_size := 2, p_message := Some (bytes_of ''no'' @ [0])\<rparr>"
  have "\<exists>s'. um_process_kernel_input poco_ref ex_um_lib2 ?inp (ex_um []) = Thrown s'
    \<and> m_user_json s' = m_user_json (ex_um []) \<and> um_files s' (m_user_json_path (ex_um [])) = Some (chars (bytes_of ''no''))
    \<and> (\<exists>t :: (string \<times> string, unit, unit) user_manager. um_handle_config_input poco_ref ex_um_lib2 (restart 2000 (um_files s') ex_um_cfg) = Done t
         \<and> m_user_json t = None \<and> m_owned_data t = Null_data \<and> map ku_cmd (pending (um_kernel_tx t)) = [cmd_key_init_fail])"
    by (rule received_garbage_locks_out [OF _ _ _ p, where k = "(''k'', ''i'')" and key = "''k''" and iv = "''i''"])
      (simp_all add: ex_um_lib2_def ex_um_lib_def ex_um_cfg_def ex_ku_def gen)
  then show ?thesis
    by blast
qed

end
