(* ===== verification/Kernel_Pieces.thy ===== *)
theory Kernel_Pieces
  imports Backup_Inv
begin

text \<open>
  The part of \<^verbatim>\<open>metax/kernel.cpp\<close> that cuts a file into pieces, puts pieces back into a file, and
  computes what a request for a range of a media file sends. A file is the list of its bytes; the UUID
  generator is a function \<open>src\<close> of the number of calls so far. Ranges are 64-bit words because the code
  compares \<^verbatim>\<open>int64_t\<close> with \<^verbatim>\<open>UInt64\<close>, which converts to unsigned.
\<close>

section \<open>Cutting\<close>

definition max_chunk_size :: nat where
  "max_chunk_size = 7000000"

record piece =
  pc_from :: "int option"
  pc_size :: "int option"
  pc_aes_key :: "string option"
  pc_aes_iv :: "string option"

type_synonym pieces = "(string \<times> piece) list"

definition create_piece_json :: "u64 \<Rightarrow> ID32 \<Rightarrow> piece" where
  "create_piece_json from0 size0 = \<lparr>pc_from = Some (uint from0), pc_size = Some (uint size0), pc_aes_key = None, pc_aes_iv = None\<rparr>"

text \<open>The loop of \<open>generate_pieces_json\<close>: \<open>b\<close> is a 32-bit variable, \<open>s\<close> what is left of the size.\<close>

function pieces_loop :: "poco \<Rightarrow> (nat \<Rightarrow> uuid) \<Rightarrow> nat \<Rightarrow> ID32 \<Rightarrow> nat \<Rightarrow> pieces \<Rightarrow> nat \<times> pieces" where
  "pieces_loop L src k b s pj =
     (if max_chunk_size < s
      then pieces_loop L src (Suc k) (b + of_nat max_chunk_size) (s - max_chunk_size)
             (obj_set (uuid_to_string L (src k)) (create_piece_json (ucast b) (of_nat max_chunk_size)) pj)
      else if 0 < s then (Suc k, obj_set (uuid_to_string L (src k)) (create_piece_json (ucast b) (of_nat s)) pj)
      else (k, pj))"
  by pat_completeness auto
termination
  by (relation "measure (\<lambda>(L, src, k, b, s, pj). s)") (auto simp: max_chunk_size_def)

declare pieces_loop.simps [simp del]

definition generate_pieces_json :: "poco \<Rightarrow> (nat \<Rightarrow> uuid) \<Rightarrow> nat \<Rightarrow> nat \<Rightarrow> nat \<times> pieces" where
  "generate_pieces_json L src k s = (if s \<le> max_chunk_size then (k, []) else pieces_loop L src k 0 s [])"

text \<open>\<open>get_piece_data_for_save\<close>; reading outside the data is undefined.\<close>

definition read_piece :: "byte list \<Rightarrow> nat \<Rightarrow> nat \<Rightarrow> byte list option" where
  "read_piece c start n = (if start + n \<le> length c then Some (take n (drop start c)) else None)"

section \<open>Putting back\<close>

definition file_write_at :: "nat \<Rightarrow> byte list \<Rightarrow> byte list \<Rightarrow> byte list" where
  "file_write_at p d f =
     (if d = [] then f else take p (f @ replicate (p - length f) 0) @ d @ drop (p + length d) f)"

text \<open>
  \<open>prepare_file_write\<close> of a file without inline content: \<^verbatim>\<open>seekp(size - 1)\<close>, which fails for a
  negative argument, and one byte \<^verbatim>\<open>'0'\<close>.
\<close>

definition prepare_file :: "nat \<Rightarrow> byte list" where
  "prepare_file n = (if n = 0 \<or> 2 ^ 63 < n then [] else file_write_at (n - 1) [48] [])"

text \<open>One piece of the saved content \<open>c\<close> on its way: read at its place, written at \<open>get_start_position\<close>.\<close>

definition transfer_piece :: "byte list \<Rightarrow> piece \<Rightarrow> byte list \<Rightarrow> byte list" where
  "transfer_piece c p f =
     (case (pc_from p, pc_size p) of
        (Some a, Some n) \<Rightarrow> (case read_piece c (nat a) (nat n) of
            None \<Rightarrow> f | Some d \<Rightarrow> file_write_at (nat a) d f)
      | _ \<Rightarrow> f)"

section \<open>Ranges\<close>

record chunk =
  ch_requested :: bool
  ch_available :: bool
  ch_start :: u64
  ch_size :: u64
  ch_uuid :: uuid
  ch_file :: string

definition normalize_streaming_range :: "u64 \<Rightarrow> u64 \<times> u64 \<Rightarrow> u64 \<times> u64" where
  "normalize_streaming_range l r =
     (let (a, b) = r;
          (a, b) = (if a = -1 then (if b = -1 then (0, l - 1) else (l - b, l - 1))
                    else if b = -1 then (a, l - 1) else (a, b + (a - 1)));
          a = (if a > l then 0 else a);
          b = (if b > l then l - 1 else b) in
      (a, b))"

definition range_step :: "u64 \<times> u64 \<Rightarrow> nat \<times> chunk \<Rightarrow> u64 \<times> u64 \<Rightarrow> u64 \<times> u64" where
  "range_step r = (\<lambda>(i, c) (cur, lst).
     (if ch_start c < fst r \<and> fst r < ch_start c + ch_size c then of_nat i else cur,
      if ch_start c < snd r \<and> snd r < ch_start c + ch_size c then of_nat i + 1 else lst))"

definition calculate_chunks :: "chunk list \<Rightarrow> u64 \<times> u64 \<Rightarrow> u64 \<times> u64 \<Rightarrow> u64 \<times> u64" where
  "calculate_chunks v r cl = fold (range_step r) (zip [0..<length v] v) cl"

text \<open>\<open>prepare_partial_chunk\<close>: what is copied from the file \<open>d\<close> of a chunk.\<close>

definition partial_chunk :: "u64 \<times> u64 \<Rightarrow> chunk \<Rightarrow> byte list \<Rightarrow> byte list" where
  "partial_chunk r c d =
     (let b = (if ch_start c < fst r then fst r - ch_start c else 0);
          e = (if ch_start c + ch_size c - 1 > snd r then snd r - ch_start c + 1 else ch_size c) in
      take (unat e - unat b) (drop (unat b) d))"

definition chunk_response :: "u64 \<times> u64 \<Rightarrow> chunk \<Rightarrow> byte list \<Rightarrow> byte list" where
  "chunk_response r c d =
     (if ch_start c < fst r \<or> ch_start c + ch_size c - 1 > snd r then partial_chunk r c d else d)"

text \<open>
  The loop of \<open>send_available_chunks_to_ims\<close>: what it sends, and the new value of \<open>curr\<close>. The contents of
  the temporary files are \<open>files\<close>.
\<close>

function available_chunks :: "u64 \<times> u64 \<Rightarrow> chunk list \<Rightarrow> (string \<Rightarrow> byte list) \<Rightarrow> u64 \<Rightarrow> u64 \<Rightarrow> byte list list \<times> u64" where
  "available_chunks r v files cur lst =
     (if cur < lst \<and> ch_available (v ! unat cur)
      then let (ds, cur') = available_chunks r v files (cur + 1) lst in
           (chunk_response r (v ! unat cur) (files (ch_file (v ! unat cur))) # ds, cur')
      else ([], cur))"
  by pat_completeness auto
termination
proof (relation "measure (\<lambda>(r, v, files, cur, lst). unat lst - unat cur)", goal_cases)
  case (2 r v files cur lst)
  then have less: "unat cur < unat lst"
    by (simp add: word_less_nat_alt)
  moreover have "unat lst < 2 ^ 64"
    using unsigned_less [of lst] by simp
  ultimately have "unat (cur + 1) = Suc (unat cur)"
    by (simp add: unat_word_ariths)
  with less show ?case
    by simp
qed simp

declare available_chunks.simps [simp del]

end
