(* ===== verification/Actions.thy ===== *)
theory Actions
  imports Text_Json
begin

text \<open>
  The small language in which the handlers of the kernel, the key manager and the link are written. A handler is an
  \<^emph>\<open>action\<close>: a function from the state to a result that is a state (\<open>Returns\<close>), an exception in flight with the state
  it left behind (\<open>Raises\<close>) or undefined behaviour (\<open>Crashes\<close>: a dangling reference, a read through a null pointer).
\<close>

section \<open>Results and actions\<close>

datatype exn = Poco_error | Assertion_violation | Std_error

datatype 's run = Returns 's | Raises exn 's | Crashes

type_synonym 's act = "'s \<Rightarrow> 's run"

primrec and_run :: "'s run \<Rightarrow> ('s \<Rightarrow> 's run) \<Rightarrow> 's run" where
  "and_run (Returns s) f = f s"
| "and_run (Raises e s) f = Raises e s"
| "and_run Crashes f = Crashes"

text \<open>\<open>run_all\<close> is a block of statements, \<open>check\<close> is \<^verbatim>\<open>poco_assert\<close>, \<open>look\<close> reads the state.\<close>

primrec run_all :: "('s \<Rightarrow> 's run) list \<Rightarrow> 's \<Rightarrow> 's run" where
  "run_all [] s = Returns s"
| "run_all (a # as) s = and_run (a s) (run_all as)"

definition skip :: "'s \<Rightarrow> 's run" where
  "skip s = Returns s"

definition upd :: "('s \<Rightarrow> 's) \<Rightarrow> 's \<Rightarrow> 's run" where
  "upd f s = Returns (f s)"

definition raise_error :: "exn \<Rightarrow> 's \<Rightarrow> 's run" where
  "raise_error e s = Raises e s"

definition crash :: "'s \<Rightarrow> 's run" where
  "crash s = Crashes"

definition check :: "('s \<Rightarrow> bool) \<Rightarrow> 's \<Rightarrow> 's run" where
  "check P s = (if P s then Returns s else Raises Assertion_violation s)"

definition look :: "('s \<Rightarrow> 'a) \<Rightarrow> ('a \<Rightarrow> 's \<Rightarrow> 's run) \<Rightarrow> 's \<Rightarrow> 's run" where
  "look f k s = k (f s) s"

definition only_if :: "bool \<Rightarrow> ('s \<Rightarrow> 's run) \<Rightarrow> 's \<Rightarrow> 's run" where
  "only_if b a = (if b then a else skip)"

text \<open>An optional value that is missing: \<open>on_some\<close> does nothing, \<open>need\<close> raises.\<close>

definition on_some :: "'a option \<Rightarrow> ('a \<Rightarrow> 's \<Rightarrow> 's run) \<Rightarrow> 's \<Rightarrow> 's run" where
  "on_some x k = (case x of None \<Rightarrow> skip | Some a \<Rightarrow> k a)"

definition need :: "exn \<Rightarrow> 'a option \<Rightarrow> ('a \<Rightarrow> 's \<Rightarrow> 's run) \<Rightarrow> 's \<Rightarrow> 's run" where
  "need e x k = (case x of None \<Rightarrow> raise_error e | Some a \<Rightarrow> k a)"

definition must :: "'a option \<Rightarrow> ('a \<Rightarrow> 's \<Rightarrow> 's run) \<Rightarrow> 's \<Rightarrow> 's run" where
  "must x k = (case x of None \<Rightarrow> crash | Some a \<Rightarrow> k a)"

primrec each :: "'a list \<Rightarrow> ('a \<Rightarrow> 's \<Rightarrow> 's run) \<Rightarrow> 's \<Rightarrow> 's run" where
  "each [] f s = Returns s"
| "each (x # xs) f s = and_run (f x s) (each xs f)"

text \<open>\<^verbatim>\<open>catch (const Poco::Exception&)\<close>: a failed assertion is one of these, an error of the standard library is not.\<close>

definition catching_poco :: "('s \<Rightarrow> 's run) \<Rightarrow> ('s \<Rightarrow> 's run) \<Rightarrow> 's \<Rightarrow> 's run" where
  "catching_poco a h s = (case a s of Raises Poco_error s' \<Rightarrow> h s' | Raises Assertion_violation s' \<Rightarrow> h s' | r \<Rightarrow> r)"

text \<open>The catch clauses of the input handlers: a failed assertion aborts, everything else is logged.\<close>

definition guarded :: "('s \<Rightarrow> 's run) \<Rightarrow> 's \<Rightarrow> 's run" where
  "guarded a s = (case a s of Raises Poco_error s' \<Rightarrow> Returns s' | Raises Std_error s' \<Rightarrow> Returns s' | r \<Rightarrow> r)"

text \<open>A call of a library that returns a value or throws.\<close>

definition attempt :: "exn + 'a \<Rightarrow> ('a \<Rightarrow> 's act) \<Rightarrow> 's act" where
  "attempt r k = (case r of Inl e \<Rightarrow> raise_error e | Inr x \<Rightarrow> k x)"

text \<open>\<^verbatim>\<open>catch (...)\<close>, and the catch clauses of an input handler that end the process whatever was thrown.\<close>

definition catching_all :: "'s act \<Rightarrow> 's act \<Rightarrow> 's act" where
  "catching_all a h s = (case a s of Raises e s' \<Rightarrow> h s' | r \<Rightarrow> r)"

definition fatal :: "'s act \<Rightarrow> 's act" where
  "fatal a s = (case a s of Raises e s' \<Rightarrow> Raises Assertion_violation s' | r \<Rightarrow> r)"

lemmas action_defs = skip_def upd_def raise_error_def crash_def check_def look_def only_if_def on_some_def need_def must_def

lemma and_run_assoc: "and_run (and_run m f) g = and_run m (\<lambda>s. and_run (f s) g)"
  by (cases m) auto

lemma and_run_done: "and_run m (run_all []) = m"
  by (cases m) simp_all

lemma and_run_Returns_iff: "and_run m f = Returns s \<longleftrightarrow> (\<exists>s'. m = Returns s' \<and> f s' = Returns s)"
  by (cases m) auto

lemma run_all_append: "run_all (as @ bs) = (\<lambda>s. and_run (run_all as s) (run_all bs))"
  by (induction as) (auto simp: and_run_assoc)

section \<open>Messages\<close>

text \<open>\<^verbatim>\<open>message.get()\<close> as a C string; \<^verbatim>\<open>std::string(message.get(), size)\<close>; a package made from a text.\<close>

definition c_message :: "'a package_scheme \<Rightarrow> (string \<Rightarrow> 's act) \<Rightarrow> 's act" where
  "c_message p k = must (case p_message p of None \<Rightarrow> None | Some bs \<Rightarrow> c_str bs) k"

definition sized_message :: "'a package_scheme \<Rightarrow> (string \<Rightarrow> 's act) \<Rightarrow> 's act" where
  "sized_message p k =
     (case p_message p of
        None \<Rightarrow> if p_size p = 0 then k [] else raise_error Std_error
      | Some bs \<Rightarrow> must (map_option chars (mem_read (Some bs) 0 (unat (p_size p)))) k)"

definition has_message :: "'a package_scheme \<Rightarrow> bool" where
  "has_message p = (case p_message p of None \<Rightarrow> False | Some _ \<Rightarrow> True)"

definition text_package :: "string \<Rightarrow> (package \<Rightarrow> 's act) \<Rightarrow> 's act" where
  "text_package t k = (case set_payload_string (bytes_of t) default_package of Done p \<Rightarrow> k p | _ \<Rightarrow> raise_error Assertion_violation)"

definition bytes_package :: "byte list \<Rightarrow> (package \<Rightarrow> 's act) \<Rightarrow> 's act" where
  "bytes_package t k = (case set_payload_string t default_package of Done p \<Rightarrow> k p | _ \<Rightarrow> raise_error Assertion_violation)"

text \<open>The base class of a package, as the slicing copy takes it.\<close>

definition sliced :: "'a package_scheme \<Rightarrow> package" where
  "sliced p = set_payload p default_package"

text \<open>The package of a text that fits.\<close>

definition text_pkg :: "string \<Rightarrow> package" where
  "text_pkg t = default_package\<lparr>p_size := of_nat (length t), p_message := Some (bytes_of t @ [0])\<rparr>"

lemma text_package_pkg: "length t < 2 ^ 32 \<Longrightarrow> text_package t k = k (text_pkg t)"
  by (simp add: text_package_def set_payload_string_def resize_def Let_def unat_of_nat take_bit_nat_eq_self text_pkg_def)

lemma payload_text_pkg [simp]: "length t < 2 ^ 32 \<Longrightarrow> payload_of (text_pkg t) = Some (bytes_of t)"
  by (simp add: payload_of_def text_pkg_def mem_read_def unat_of_nat take_bit_nat_eq_self word_unat_eq_iff bytes_of_def)

end
