(* ===== verification/Kernel_State.thy ===== *)
theory Kernel_State
  imports Kernel_Pieces User_Manager Actions
begin

text \<open>
  The state of the kernel, \<^verbatim>\<open>metax/kernel.hpp\<close>. Its handlers are the \<open>actions\<close> of theory \<open>Actions\<close>. A failed
  \<^verbatim>\<open>poco_assert\<close> is an exception like the others, because \<^verbatim>\<open>handle_unencrypted_master_object\<close> catches it; only the
  input handlers turn it into an abort. A reference to a request is the key of its node in \<open>m_requests\<close>. JSON objects
  are values: an object is reachable from two requests only when neither changes it. The lists of streaming chunks and
  the files are shared, so they live in a store. Logging is left out.
\<close>

section \<open>Pieces as JSON\<close>

text \<open>The members of a piece as JSON.\<close>

definition piece_json :: "piece \<Rightarrow> json" where
  "piece_json p = J_obj (
     (case pc_aes_iv p of None \<Rightarrow> [] | Some t \<Rightarrow> [(''aes_iv'', J_str t)])
     @ (case pc_aes_key p of None \<Rightarrow> [] | Some t \<Rightarrow> [(''aes_key'', J_str t)])
     @ (case pc_from p of None \<Rightarrow> [] | Some i \<Rightarrow> [(''from'', J_num i)])
     @ (case pc_size p of None \<Rightarrow> [] | Some i \<Rightarrow> [(''size'', J_num i)]))"

definition pieces_json :: "pieces \<Rightarrow> jobj" where
  "pieces_json ps = map (\<lambda>(n, p). (n, piece_json p)) ps"

section \<open>Packages of the kernel\<close>

datatype save_option = Save_default | No_local | Local

record ims_kernel_package = package +
  im_request_id :: ID32
  im_cmd :: command
  im_uuid :: uuid
  im_rec_uuid :: uuid
  im_file_path :: string
  im_expire_date :: u64
  im_response_file_path :: "string option"
  im_keep_chunks :: bool
  im_content_type :: string
  im_enc :: bool
  im_user_id :: package
  im_chunk_count :: u64
  im_get_range :: "u64 \<times> u64"
  im_content_length :: u64
  im_cache :: bool
  im_aes_key :: string
  im_aes_iv :: string
  im_local :: save_option

definition ims_kernel_package0 :: ims_kernel_package where
  "ims_kernel_package0 = package.extend default_package
     \<lparr>im_request_id = 0, im_cmd = cmd_max_command, im_uuid = 0, im_rec_uuid = 0, im_file_path = [], im_expire_date = 0,
      im_response_file_path = None, im_keep_chunks = False, im_content_type = [], im_enc = True, im_user_id = default_package,
      im_chunk_count = 0, im_get_range = (-1, -1), im_content_length = 0, im_cache = True, im_aes_key = [], im_aes_iv = [],
      im_local = Save_default\<rparr>"

record kernel_key_manager_package = package +
  km_request_id :: ID32
  km_cmd :: command
  km_uuid :: uuid
  km_aes_key :: string
  km_aes_iv :: string
  km_path :: string
  km_orig_size :: ID32

definition kernel_key_manager_package0 :: kernel_key_manager_package where
  "kernel_key_manager_package0 = package.extend default_package
     \<lparr>km_request_id = 0, km_cmd = cmd_max_command, km_uuid = 0, km_aes_key = [], km_aes_iv = [], km_path = [], km_orig_size = 0\<rparr>"

text \<open>The constructor leaves the six configuration members uninitialised; the model starts them at 0.\<close>

record kernel_cfg_package = package +
  kc_request_id :: ID32
  kc_cmd :: command
  kc_user_id :: package
  kc_storage_class :: ID32
  kc_sync_class :: ID32
  kc_enable_livestream_hosting :: bool
  kc_data_copy_count :: ID16
  kc_router_save_queue_size :: ID32
  kc_router_get_queue_size :: ID32

definition kernel_cfg_package0 :: kernel_cfg_package where
  "kernel_cfg_package0 = package.extend default_package
     \<lparr>kc_request_id = 0, kc_cmd = cmd_max_command, kc_user_id = default_package, kc_storage_class = 0, kc_sync_class = 0,
      kc_enable_livestream_hosting = False, kc_data_copy_count = 0, kc_router_save_queue_size = 0, kc_router_get_queue_size = 0\<rparr>"

section \<open>Requests\<close>

datatype req_state = Lookup_in_db | Requested | Authentication | Receiving | Sending | Save_accept | Max_req_state

datatype req_type = T_ims | T_router | T_kernel | T_backup | T_user_manager | Max_req_type

text \<open>
  \<open>rq_curr\<close>, \<open>rq_last\<close> and \<open>rq_list\<close> are the \<^verbatim>\<open>streaming_state\<close>; the list of chunks is an address of the store.
  A \<^verbatim>\<open>std::set\<close> is the sorted list of its elements.
\<close>

record request =
  rq_request_id :: ID32
  rq_uuid :: uuid
  rq_st :: req_state
  rq_cmd :: command
  rq_keep_chunks :: bool
  rq_typ :: req_type
  rq_data :: package
  rq_fail_count :: ID16
  rq_master_json :: "jobj option"
  rq_parent_req_id :: ID32
  rq_size :: ID32
  rq_file_path :: string
  rq_response_file_path :: "string option"
  rq_content_type :: string
  rq_updated :: ID16
  rq_enc :: bool
  rq_aes_key :: string
  rq_aes_iv :: string
  rq_old_master_json :: "jobj option"
  rq_curr :: u64
  rq_last :: u64
  rq_list :: "nat option"
  rq_get_range :: "u64 \<times> u64"
  rq_cache :: bool
  rq_units :: "ID32 list"
  rq_backup_units :: "ID32 list"
  rq_saved_units :: "uuid list"
  rq_local :: bool
  rq_winners_count :: ID16
  rq_copy_uuid :: uuid
  rq_data_version :: ID32
  rq_last_updated :: u64
  rq_expire_date :: u64

definition request_dated :: "ID32 \<Rightarrow> uuid \<Rightarrow> req_state \<Rightarrow> command \<Rightarrow> req_type \<Rightarrow> ID32 \<Rightarrow> u64 \<Rightarrow> u64 \<Rightarrow> request" where
  "request_dated i u st c t v lu ed =
     \<lparr>rq_request_id = i, rq_uuid = u, rq_st = st, rq_cmd = c, rq_keep_chunks = False, rq_typ = t, rq_data = default_package,
      rq_fail_count = 0, rq_master_json = None, rq_parent_req_id = 0xFFFFFFFF, rq_size = 0, rq_file_path = [],
      rq_response_file_path = None, rq_content_type = [], rq_updated = 0, rq_enc = True, rq_aes_key = [], rq_aes_iv = [],
      rq_old_master_json = None, rq_curr = 0, rq_last = 0, rq_list = None, rq_get_range = (-1, -1), rq_cache = True,
      rq_units = [], rq_backup_units = [], rq_saved_units = [], rq_local = True, rq_winners_count = 0, rq_copy_uuid = 0,
      rq_data_version = v, rq_last_updated = lu, rq_expire_date = ed\<rparr>"

definition request_new :: "int \<Rightarrow> ID32 \<Rightarrow> uuid \<Rightarrow> req_state \<Rightarrow> command \<Rightarrow> req_type \<Rightarrow> request" where
  "request_new now i u st c t = request_dated i u st c t 1 (of_int now) 0"

definition request0 :: "int \<Rightarrow> request" where
  "request0 now = request_new now 0 0 Max_req_state cmd_max_command Max_req_type"

datatype unit_type = Master | Piece

record save_unit =
  su_main_request :: ID32
  su_start :: ID32
  su_size :: ID32
  su_bkp_count :: ID32
  su_type :: unit_type
  su_uuid :: uuid
  su_content :: package
  su_cmd :: command
  su_fail_count :: ID32
  su_winners_count :: ID16
  su_backup :: bool

definition save_unit_new :: "ID32 \<Rightarrow> ID32 \<Rightarrow> ID32 \<Rightarrow> ID32 \<Rightarrow> unit_type \<Rightarrow> uuid \<Rightarrow> package \<Rightarrow> command \<Rightarrow> bool \<Rightarrow> save_unit" where
  "save_unit_new r st sz bc t u cnt c b =
     \<lparr>su_main_request = r, su_start = st, su_size = sz, su_bkp_count = bc, su_type = t, su_uuid = u, su_content = cnt,
      su_cmd = c, su_fail_count = 0, su_winners_count = 0, su_backup = b\<rparr>"

record recording_info =
  ri_uuid :: uuid
  ri_master :: "jobj option"
  ri_playlist :: "jobj option"
  ri_start_time :: int

definition recording_info_new :: "int \<Rightarrow> uuid \<Rightarrow> jobj option \<Rightarrow> recording_info" where
  "recording_info_new now u m = \<lparr>ri_uuid = u, ri_master = m, ri_playlist = None, ri_start_time = now\<rparr>"

record livestream_info =
  li_request_id :: ID32
  li_listeners :: "ID32 list"
  li_recordings :: "recording_info list"
  li_rec_chunk :: "byte list"
  li_rec_chunk_size :: ID32

definition livestream_info_new :: "ID32 \<Rightarrow> livestream_info" where
  "livestream_info_new i = \<lparr>li_request_id = i, li_listeners = [], li_recordings = [], li_rec_chunk = [], li_rec_chunk_size = 0\<rparr>"

text \<open>Threads the kernel starts: calls of the storage task.\<close>

datatype router_job =
    Get_job ID32 uuid bool
  | Save_job ID32 uuid package
  | Update_job ID32 uuid package
  | Delete_job ID32 uuid bool

section \<open>The kernel\<close>

text \<open>
  The last group of fields is the environment: the clock, the random UUIDs and the names of temporary files still to come,
  what \<^verbatim>\<open>look_up_data_in_db\<close> of the storage answers, the files, the store of chunk lists and the threads started.
\<close>

record kernel =
  k_key_manager_rx :: "kernel_key_manager_package fifo"
  k_storage_rx :: "kernel_storage_package fifo"
  k_storage_writer_rx :: "kernel_storage_package fifo"
  k_cache_rx :: "kernel_storage_package fifo"
  k_wallet_rx :: "package fifo"
  k_ims_rx :: "ims_kernel_package fifo"
  k_router_rx :: "kernel_router_package fifo"
  k_config_rx :: "kernel_cfg_package fifo"
  k_backup_rx :: "kernel_backup_package fifo"
  k_user_manager_rx :: "kernel_user_manager_package fifo"
  k_key_manager_tx :: "kernel_key_manager_package fifo"
  k_storage_tx :: "kernel_storage_package fifo"
  k_storage_writer_tx :: "kernel_storage_package fifo"
  k_cache_tx :: "kernel_storage_package fifo"
  k_wallet_tx :: "package fifo"
  k_ims_tx :: "ims_kernel_package fifo"
  k_router_tx :: "kernel_router_package fifo"
  k_config_tx :: "kernel_cfg_package fifo"
  k_backup_tx :: "kernel_backup_package fifo"
  k_user_manager_tx :: "kernel_user_manager_package fifo"
  k_request_counter :: ID32
  k_pending_ims_get_requests :: "uuid \<rightharpoonup> ID32 list"
  k_pending_router_get_reqs :: "ID32 list"
  k_requests :: "ID32 \<rightharpoonup> request"
  k_ims_req_ids :: "(ID32 \<times> ID32) list"
  k_stream_req_ids :: "ID32 \<rightharpoonup> ID32"
  k_hosted_livestreams :: "uuid \<rightharpoonup> livestream_info"
  k_save_units :: "ID32 \<rightharpoonup> save_unit"
  k_pending_save_requests :: "ID32 list"
  k_pending_router_save_reqs :: "ID32 list"
  k_storage_input_cnt :: ID32
  k_router_save_input_size :: ID32
  k_router_get_input_size :: ID32
  k_update_listeners :: jobj
  k_user_json :: "jobj option"
  k_user_json_uuid :: uuid
  k_storage_class :: ID32
  k_sync_class :: ID32
  k_enable_livstream_hosting :: bool
  k_should_block_get_request :: bool
  k_valid_keys :: bool
  k_user_json_wait_counter :: ID16
  k_data_copy_count :: ID16
  k_max_router_save_input_size :: ID32
  k_max_router_get_input_size :: ID32
  k_lib :: klib
  k_clock :: int
  k_uuids :: "nat \<Rightarrow> uuid"
  k_uuid_count :: nat
  k_tmp_names :: "nat \<Rightarrow> string"
  k_tmp_count :: nat
  k_in_storage :: "uuid \<Rightarrow> bool"
  k_files :: "string \<rightharpoonup> byte list"
  k_lists :: "nat \<rightharpoonup> chunk list"
  k_list_count :: nat
  k_jobs :: "router_job list"

type_synonym action = "kernel \<Rightarrow> kernel run"

end
