(* ===== verification/Kernel_Post.thy ===== *)
theory Kernel_Post
  imports Kernel_State
begin

text \<open>
  Access to the tables of the kernel, its channels, its documents, and the functions of
  \<^verbatim>\<open>metax/kernel.cpp\<close> that post one package.
\<close>

section \<open>Tables\<close>

definition with_req :: "ID32 \<Rightarrow> (request \<Rightarrow> action) \<Rightarrow> action" where
  "with_req r k s = (case k_requests s r of None \<Rightarrow> Crashes | Some q \<Rightarrow> k q s)"

definition upd_req :: "ID32 \<Rightarrow> (request \<Rightarrow> request) \<Rightarrow> action" where
  "upd_req r f s = (case k_requests s r of None \<Rightarrow> Crashes | Some q \<Rightarrow> Returns (s\<lparr>k_requests := (k_requests s)(r \<mapsto> f q)\<rparr>))"

definition put_req :: "ID32 \<Rightarrow> request \<Rightarrow> action" where
  "put_req r q s = Returns (s\<lparr>k_requests := (k_requests s)(r \<mapsto> q)\<rparr>)"

definition erase_req :: "ID32 \<Rightarrow> action" where
  "erase_req r s = Returns (s\<lparr>k_requests := (k_requests s)(r := None)\<rparr>)"

text \<open>\<^verbatim>\<open>m_requests.find(r)\<close>, with \<open>skip\<close> for a request that is gone, and with an assertion that it is there.\<close>

definition if_req :: "ID32 \<Rightarrow> (request \<Rightarrow> action) \<Rightarrow> action" where
  "if_req r k s = (case k_requests s r of None \<Rightarrow> Returns s | Some q \<Rightarrow> k q s)"

definition assert_req :: "ID32 \<Rightarrow> (request \<Rightarrow> action) \<Rightarrow> action" where
  "assert_req r k s = (case k_requests s r of None \<Rightarrow> Raises Assertion_violation s | Some q \<Rightarrow> k q s)"

definition has_req :: "ID32 \<Rightarrow> kernel \<Rightarrow> bool" where
  "has_req r s = (case k_requests s r of None \<Rightarrow> False | Some _ \<Rightarrow> True)"

text \<open>\<^verbatim>\<open>m_requests[r]\<close>, which inserts a request when there is none.\<close>

definition touch_req :: "ID32 \<Rightarrow> (request \<Rightarrow> action) \<Rightarrow> action" where
  "touch_req r k s = (case k_requests s r of Some q \<Rightarrow> k q s
     | None \<Rightarrow> k (request0 (k_clock s)) (s\<lparr>k_requests := (k_requests s)(r \<mapsto> request0 (k_clock s))\<rparr>))"

definition with_unit :: "ID32 \<Rightarrow> (save_unit \<Rightarrow> action) \<Rightarrow> action" where
  "with_unit u k s = (case k_save_units s u of None \<Rightarrow> Crashes | Some x \<Rightarrow> k x s)"

definition upd_unit :: "ID32 \<Rightarrow> (save_unit \<Rightarrow> save_unit) \<Rightarrow> action" where
  "upd_unit u f s = (case k_save_units s u of None \<Rightarrow> Crashes | Some x \<Rightarrow> Returns (s\<lparr>k_save_units := (k_save_units s)(u \<mapsto> f x)\<rparr>))"

definition erase_unit :: "ID32 \<Rightarrow> action" where
  "erase_unit u s = Returns (s\<lparr>k_save_units := (k_save_units s)(u := None)\<rparr>)"

definition ims_id :: "ID32 \<Rightarrow> kernel \<Rightarrow> ID32 option" where
  "ims_id r s = map_of (k_ims_req_ids s) r"

definition set_ims :: "ID32 \<Rightarrow> ID32 \<Rightarrow> action" where
  "set_ims r i s = Returns (s\<lparr>k_ims_req_ids := tab_set r i (k_ims_req_ids s)\<rparr>)"

definition erase_ims :: "ID32 \<Rightarrow> action" where
  "erase_ims r s = Returns (s\<lparr>k_ims_req_ids := tab_erase r (k_ims_req_ids s)\<rparr>)"

text \<open>\<^verbatim>\<open>poco_assert(m_ims_req_ids.end() != m_ims_req_ids.find(r))\<close> and then \<^verbatim>\<open>m_ims_req_ids[r]\<close>.\<close>

definition with_ims :: "ID32 \<Rightarrow> (ID32 \<Rightarrow> action) \<Rightarrow> action" where
  "with_ims r k s = (case ims_id r s of None \<Rightarrow> Raises Assertion_violation s | Some i \<Rightarrow> k i s)"

definition no_ims :: "ID32 \<Rightarrow> action" where
  "no_ims r = check (\<lambda>s. ims_id r s = None)"

definition no_req :: "ID32 \<Rightarrow> action" where
  "no_req r = check (\<lambda>s. \<not> has_req r s)"

definition kernel_get_request_id :: "(ID32 \<Rightarrow> action) \<Rightarrow> action" where
  "kernel_get_request_id k s =
     (let i = k_request_counter s;
          s = s\<lparr>k_request_counter := ((i + 1) AND 0x0FFFFFFF) OR 0\<rparr> in
      if has_req i s then Raises Assertion_violation s else k i s)"

text \<open>\<^verbatim>\<open>UUIDGenerator::createRandom\<close>, a new temporary file, the clock.\<close>

definition create_random :: "(uuid \<Rightarrow> action) \<Rightarrow> action" where
  "create_random k s = k (k_uuids s (k_uuid_count s)) (s\<lparr>k_uuid_count := Suc (k_uuid_count s)\<rparr>)"

definition temporary_file :: "(string \<Rightarrow> action) \<Rightarrow> action" where
  "temporary_file k s = k (k_tmp_names s (k_tmp_count s)) (s\<lparr>k_tmp_count := Suc (k_tmp_count s)\<rparr>)"

definition write_file :: "string \<Rightarrow> byte list \<Rightarrow> action" where
  "write_file f bs s = Returns (s\<lparr>k_files := (k_files s)(f \<mapsto> bs)\<rparr>)"

definition uuid_text :: "uuid \<Rightarrow> kernel \<Rightarrow> string" where
  "uuid_text u s = uuid_to_string (kl_poco (k_lib s)) u"

text \<open>\<^verbatim>\<open>UUID(text)\<close> and \<^verbatim>\<open>UUID::parse\<close> throw on a malformed text.\<close>

definition parse_uuid :: "string \<Rightarrow> (uuid \<Rightarrow> action) \<Rightarrow> action" where
  "parse_uuid t k = look (\<lambda>s. uuid_try_parse (kl_poco (k_lib s)) t) (\<lambda>x. need Poco_error x k)"

definition new_request :: "ID32 \<Rightarrow> uuid \<Rightarrow> req_state \<Rightarrow> command \<Rightarrow> req_type \<Rightarrow> action" where
  "new_request i u st c t = look k_clock (\<lambda>now. put_req i (request_new now i u st c t))"

section \<open>Documents in packages\<close>

definition json_package :: "jobj \<Rightarrow> (package \<Rightarrow> action) \<Rightarrow> action" where
  "json_package j k = look (\<lambda>s. kl_print (k_lib s) j) (\<lambda>t. text_package t k)"

section \<open>Channels\<close>

definition ims_slot :: "(ims_kernel_package \<Rightarrow> ims_kernel_package) \<Rightarrow> action" where
  "ims_slot f s = Returns (s\<lparr>k_ims_tx := set_slot f (k_ims_tx s)\<rparr>)"

definition ims_commit :: action where
  "ims_commit s = Returns (s\<lparr>k_ims_tx := commit ims_kernel_package0 (k_ims_tx s)\<rparr>)"

definition ims_text :: "string \<Rightarrow> action" where
  "ims_text t s = (case set_payload_string (bytes_of t) (slot (k_ims_tx s)) of
     Done out \<Rightarrow> ims_slot (\<lambda>_. out) s | _ \<Rightarrow> Raises Assertion_violation s)"

definition post_ims :: "(ims_kernel_package \<Rightarrow> ims_kernel_package) \<Rightarrow> action" where
  "post_ims f = run_all [ims_slot f, ims_commit]"

definition router_slot :: "(kernel_router_package \<Rightarrow> kernel_router_package) \<Rightarrow> action" where
  "router_slot f s = Returns (s\<lparr>k_router_tx := set_slot f (k_router_tx s)\<rparr>)"

definition router_commit :: action where
  "router_commit s = Returns (s\<lparr>k_router_tx := commit kernel_router_package0 (k_router_tx s)\<rparr>)"

definition router_text :: "string \<Rightarrow> action" where
  "router_text t s = (case set_payload_string (bytes_of t) (slot (k_router_tx s)) of
     Done out \<Rightarrow> router_slot (\<lambda>_. out) s | _ \<Rightarrow> Raises Assertion_violation s)"

definition post_router :: "(kernel_router_package \<Rightarrow> kernel_router_package) \<Rightarrow> action" where
  "post_router f = run_all [router_slot f, router_commit]"

definition post_storage :: "(kernel_storage_package \<Rightarrow> kernel_storage_package) \<Rightarrow> action" where
  "post_storage f s = Returns (s\<lparr>k_storage_tx := commit kernel_storage_package0 (set_slot f (k_storage_tx s))\<rparr>)"

definition writer_slot :: "(kernel_storage_package \<Rightarrow> kernel_storage_package) \<Rightarrow> action" where
  "writer_slot f s = Returns (s\<lparr>k_storage_writer_tx := set_slot f (k_storage_writer_tx s)\<rparr>)"

definition post_writer :: "(kernel_storage_package \<Rightarrow> kernel_storage_package) \<Rightarrow> action" where
  "post_writer f s = Returns (s\<lparr>k_storage_writer_tx := commit kernel_storage_package0 (set_slot f (k_storage_writer_tx s))\<rparr>)"

definition post_cache :: "(kernel_storage_package \<Rightarrow> kernel_storage_package) \<Rightarrow> action" where
  "post_cache f s = Returns (s\<lparr>k_cache_tx := commit kernel_storage_package0 (set_slot f (k_cache_tx s))\<rparr>)"

definition post_config :: "(kernel_cfg_package \<Rightarrow> kernel_cfg_package) \<Rightarrow> action" where
  "post_config f s = Returns (s\<lparr>k_config_tx := commit kernel_cfg_package0 (set_slot f (k_config_tx s))\<rparr>)"

definition key_manager_text :: "string \<Rightarrow> action" where
  "key_manager_text t s = (case set_payload_string (bytes_of t) (slot (k_key_manager_tx s)) of
     Done out \<Rightarrow> Returns (s\<lparr>k_key_manager_tx := set_slot (\<lambda>_. out) (k_key_manager_tx s)\<rparr>) | _ \<Rightarrow> Raises Assertion_violation s)"

definition post_key_manager :: "(kernel_key_manager_package \<Rightarrow> kernel_key_manager_package) \<Rightarrow> action" where
  "post_key_manager f s = Returns (s\<lparr>k_key_manager_tx := commit kernel_key_manager_package0 (set_slot f (k_key_manager_tx s))\<rparr>)"

definition post_backup :: "(kernel_backup_package \<Rightarrow> kernel_backup_package) \<Rightarrow> action" where
  "post_backup f s = Returns (s\<lparr>k_backup_tx := commit (kernel_backup_package0 (k_clock s)) (set_slot f (k_backup_tx s))\<rparr>)"

definition post_user_manager :: "(kernel_user_manager_package \<Rightarrow> kernel_user_manager_package) \<Rightarrow> action" where
  "post_user_manager f s = Returns (s\<lparr>k_user_manager_tx := commit kernel_user_manager_package0 (set_slot f (k_user_manager_tx s))\<rparr>)"

section \<open>The user's document\<close>

definition with_owned :: "(jobj \<Rightarrow> action) \<Rightarrow> action" where
  "with_owned k = look k_user_json (\<lambda>j. need Assertion_violation j (\<lambda>j. need Assertion_violation (get_object ''owned_data'' j) k))"

definition set_owned :: "jobj \<Rightarrow> action" where
  "set_owned own s = Returns (s\<lparr>k_user_json := map_option (obj_set ''owned_data'' (J_obj own)) (k_user_json s)\<rparr>)"

definition get_master_info_from_user_json :: "string \<Rightarrow> (jobj option \<Rightarrow> action) \<Rightarrow> action" where
  "get_master_info_from_user_json t k = with_owned (\<lambda>own. k (get_object t own))"

definition get_keys_from_master_info :: "ID32 \<Rightarrow> jobj \<Rightarrow> action" where
  "get_keys_from_master_info r u =
     (case (map_of u ''aes_key'', map_of u ''aes_iv'') of
        (Some (J_str key), Some (J_str iv)) \<Rightarrow> upd_req r (\<lambda>q. q\<lparr>rq_aes_key := key, rq_aes_iv := iv\<rparr>)
      | _ \<Rightarrow> raise_error Assertion_violation)"

definition is_valid_user_json :: "kernel \<Rightarrow> bool" where
  "is_valid_user_json s = (case k_user_json s of None \<Rightarrow> False | Some j \<Rightarrow> obj_has ''protocol_version'' j \<and> obj_has ''owned_data'' j)"

definition send_update_to_user_manager :: "command \<Rightarrow> uuid \<Rightarrow> string \<Rightarrow> string \<Rightarrow> ID32 \<Rightarrow> action" where
  "send_update_to_user_manager c u iv key copies =
     post_user_manager (\<lambda>out. out\<lparr>ku_cmd := c, ku_uuid := u, ku_iv := iv, ku_key := key, ku_copy_count := scast copies\<rparr>)"

definition add_new_uuid_in_device_json :: "request \<Rightarrow> uuid \<Rightarrow> ID32 \<Rightarrow> action" where
  "add_new_uuid_in_device_json q u version =
     post_backup (\<lambda>out. out\<lparr>kb_cmd := cmd_save, kb_is_deleted := False, kb_data_version := version,
       kb_last_updated := rq_last_updated q, kb_expire_date := rq_expire_date q, kb_uuid := u\<rparr>)"

definition add_new_uuid_in_device_json_of_router :: "kernel_router_package \<Rightarrow> action" where
  "add_new_uuid_in_device_json_of_router inp =
     post_backup (\<lambda>out. out\<lparr>kb_cmd := cmd_save, kb_is_deleted := False, kb_data_version := kr_data_version inp,
       kb_last_updated := kr_last_updated inp, kb_expire_date := kr_expire_date inp, kb_uuid := kr_uuid inp\<rparr>)"

definition mark_uuid_as_deleted_in_device_json :: "uuid \<Rightarrow> ID32 \<Rightarrow> u64 \<Rightarrow> action" where
  "mark_uuid_as_deleted_in_device_json u version lu =
     post_backup (\<lambda>out. out\<lparr>kb_cmd := cmd_del, kb_is_deleted := True, kb_data_version := version,
       kb_last_updated := lu, kb_uuid := u\<rparr>)"

definition add_shared_info_in_user_json :: "ID32 \<Rightarrow> string \<Rightarrow> string \<Rightarrow> ID32 \<Rightarrow> action" where
  "add_shared_info_in_user_json r key iv copies = with_req r (\<lambda>q.
     let u = (if rq_cmd q = cmd_copy then rq_copy_uuid q else rq_uuid q) in
     with_owned (\<lambda>own. look (uuid_text u) (\<lambda>n. run_all [
       set_owned (obj_set n (J_obj [(''aes_iv'', J_str iv), (''aes_key'', J_str key), (''copy_count'', J_num (uint copies))]) own),
       send_update_to_user_manager cmd_save u iv key copies,
       only_if (rq_local q) (add_new_uuid_in_device_json q u (rq_data_version q))])))"

definition update_owned_uuid_in_user_json :: "ID32 \<Rightarrow> action" where
  "update_owned_uuid_in_user_json r = with_req r (\<lambda>q. run_all [
     check (\<lambda>_. rq_cmd q = cmd_update), check (\<lambda>_. rq_typ q = T_ims),
     with_owned (\<lambda>own. look (uuid_text (rq_uuid q)) (\<lambda>n.
       case get_object n own of
         None \<Rightarrow> add_shared_info_in_user_json r (rq_aes_key q) (rq_aes_iv q) 1
       | Some u \<Rightarrow>
           let u = obj_set ''aes_iv'' (J_str (rq_aes_iv q)) (obj_set ''aes_key'' (J_str (rq_aes_key q)) u) in
           run_all [
             set_owned (obj_set n (J_obj u) own),
             look (\<lambda>s. get_int (k_lib s) 32 ''copy_count'' u) (\<lambda>c. need Poco_error c (\<lambda>c.
               send_update_to_user_manager cmd_save (rq_uuid q) (rq_aes_iv q) (rq_aes_key q) (of_int c)))])),
     only_if (rq_local q) (add_new_uuid_in_device_json q (rq_uuid q) (rq_data_version q))])"

definition update_copy_count_of_owned_uuid_in_user_json :: "uuid \<Rightarrow> ID32 \<Rightarrow> action" where
  "update_copy_count_of_owned_uuid_in_user_json u copies =
     with_owned (\<lambda>own. look (uuid_text u) (\<lambda>n. on_some (get_object n own) (\<lambda>e. look k_lib (\<lambda>L.
       let e = obj_set ''copy_count'' (J_num (sint copies)) e in
       run_all [set_owned (obj_set n (J_obj e) own),
         send_update_to_user_manager cmd_save u (opt_text L ''aes_iv'' e) (opt_text L ''aes_key'' e) copies]))))"

definition remove_owned_uuid_in_user_json :: "ID32 \<Rightarrow> action" where
  "remove_owned_uuid_in_user_json r = with_req r (\<lambda>q. run_all [
     check (\<lambda>_. rq_cmd q = cmd_del), check (\<lambda>_. rq_typ q = T_kernel \<or> rq_typ q = T_ims),
     with_owned (\<lambda>own. look (uuid_text (rq_uuid q)) (\<lambda>n. run_all [
       set_owned (obj_remove n own),
       send_update_to_user_manager cmd_del (rq_uuid q) [] [] 1,
       mark_uuid_as_deleted_in_device_json (rq_uuid q) (rq_data_version q) (rq_last_updated q)]))])"

definition add_new_piece_of_copy_req_in_user_json :: "ID32 \<Rightarrow> action" where
  "add_new_piece_of_copy_req_in_user_json r = with_req r (\<lambda>q. run_all [
     check (\<lambda>_. rq_cmd q = cmd_copy),
     only_if (rq_local q) (add_new_uuid_in_device_json q (rq_copy_uuid q) (rq_data_version q))])"

definition add_new_owned_uuid_to_user_json :: "ID32 \<Rightarrow> save_unit \<Rightarrow> action" where
  "add_new_owned_uuid_to_user_json r u = with_req r (\<lambda>q. run_all [
     check (\<lambda>_. rq_cmd q = cmd_save \<or> rq_cmd q = cmd_update),
     with_owned (\<lambda>own. look (uuid_text (su_uuid u)) (\<lambda>n.
       only_if (su_type u = Master) (run_all [
         set_owned (obj_set n (J_obj [(''aes_iv'', J_str (rq_aes_iv q)), (''aes_key'', J_str (rq_aes_key q)),
           (''copy_count'', J_num (uint (su_bkp_count u)))]) own),
         send_update_to_user_manager cmd_save (su_uuid u) (rq_aes_iv q) (rq_aes_key q) (su_bkp_count u)]))),
     only_if (rq_local q) (add_new_uuid_in_device_json q (su_uuid u) (if su_type u = Master then rq_data_version q else 1))])"


section \<open>Posts to the storage\<close>

definition post_storage_get_request :: "ID32 \<Rightarrow> action" where
  "post_storage_get_request r = run_all [
     upd_req r (\<lambda>q. q\<lparr>rq_st := Sending\<rparr>),
     with_req r (\<lambda>q. post_storage (\<lambda>out. out\<lparr>ks_uuid := rq_uuid q, ks_cmd := cmd_get, ks_request_id := rq_request_id q\<rparr>))]"

definition post_storage_look_up_request :: "ID32 \<Rightarrow> bool \<Rightarrow> action" where
  "post_storage_look_up_request r in_cache = with_req r (\<lambda>q.
     post_storage (\<lambda>out. out\<lparr>ks_request_id := rq_request_id q, ks_uuid := rq_uuid q, ks_check_cache := in_cache, ks_cmd := cmd_look_up\<rparr>))"

definition post_storage_copy_request :: "ID32 \<Rightarrow> 'a package_scheme \<Rightarrow> action" where
  "post_storage_copy_request r pkg = with_req r (\<lambda>q.
     post_storage (\<lambda>out. set_payload pkg (out\<lparr>ks_request_id := rq_request_id q, ks_uuid := rq_uuid q, ks_cmd := rq_cmd q\<rparr>)))"

definition post_storage_delete_request :: "ID32 \<Rightarrow> action" where
  "post_storage_delete_request r = with_req r (\<lambda>q.
     post_storage (\<lambda>out. out\<lparr>ks_request_id := rq_request_id q, ks_cmd := cmd_del, ks_uuid := rq_uuid q\<rparr>))"

definition post_storage_save_data_request_at :: "ID32 \<Rightarrow> uuid \<Rightarrow> action" where
  "post_storage_save_data_request_at r u = with_req r (\<lambda>q.
     post_writer (\<lambda>out. set_payload (rq_data q) (out\<lparr>ks_request_id := rq_request_id q, ks_cmd := cmd_save_data, ks_uuid := u\<rparr>)))"

definition post_storage_save_data_request :: "ID32 \<Rightarrow> action" where
  "post_storage_save_data_request r = with_req r (\<lambda>q.
     post_writer (\<lambda>out. set_payload (rq_data q) (out\<lparr>ks_request_id := rq_request_id q, ks_cmd := cmd_save_data, ks_uuid := rq_uuid q\<rparr>)))"

definition post_storage_save_request :: "ID32 \<Rightarrow> 'a package_scheme \<Rightarrow> uuid \<Rightarrow> action" where
  "post_storage_save_request i pkg u =
     post_writer (\<lambda>out. (set_payload pkg (out\<lparr>ks_request_id := i, ks_cmd := cmd_save_data, ks_uuid := u\<rparr>))\<lparr>ks_should_send_response := True\<rparr>)"

definition post_storage_save_silently :: "'a package_scheme \<Rightarrow> uuid \<Rightarrow> action" where
  "post_storage_save_silently pkg u =
     post_writer (\<lambda>out. (set_payload pkg (out\<lparr>ks_cmd := cmd_save_data, ks_uuid := u\<rparr>))\<lparr>ks_should_send_response := False\<rparr>)"

text \<open>The overload for a textual UUID: the slot keeps the command when the UUID does not parse.\<close>

definition post_storage_save_at_name :: "'a package_scheme \<Rightarrow> string \<Rightarrow> action" where
  "post_storage_save_at_name pkg t = run_all [
     writer_slot (\<lambda>out. out\<lparr>ks_cmd := cmd_save_data\<rparr>),
     parse_uuid t (\<lambda>u. post_writer (\<lambda>out. (set_payload pkg (out\<lparr>ks_uuid := u\<rparr>))\<lparr>ks_should_send_response := False\<rparr>))]"

definition post_storage_add_cache_request :: "kernel_router_package \<Rightarrow> ID32 \<Rightarrow> action" where
  "post_storage_add_cache_request inp r = with_req r (\<lambda>q. run_all [
     check (\<lambda>_. kr_cmd inp = cmd_get_data),
     check (\<lambda>_. rq_cmd q = cmd_get \<or> rq_cmd q = cmd_update \<or> rq_cmd q = cmd_copy),
     only_if (rq_cmd q = cmd_get \<and> rq_cache q)
       (post_cache (\<lambda>out. set_payload inp (out\<lparr>ks_cmd := cmd_add_in_cache, ks_uuid := rq_uuid q\<rparr>)))])"

definition kernel_post_storage_remove_from_cache_request :: "uuid \<Rightarrow> action" where
  "kernel_post_storage_remove_from_cache_request u = post_cache (\<lambda>out. out\<lparr>ks_cmd := cmd_delete_from_cache, ks_uuid := u\<rparr>)"

section \<open>Posts to the router\<close>

definition backup_data :: "ID32 \<Rightarrow> uuid \<Rightarrow> command \<Rightarrow> 8 word \<Rightarrow> 'a package_scheme \<Rightarrow> ID32 \<Rightarrow> request \<Rightarrow> action" where
  "backup_data i u c copies pkg version q =
     post_router (\<lambda>out. (set_payload pkg (out\<lparr>kr_request_id := i, kr_cmd := c, kr_uuid := u\<rparr>))
       \<lparr>kr_data_version := version, kr_last_updated := rq_last_updated q, kr_expire_date := rq_expire_date q,
        kr_max_response_cnt := ucast copies\<rparr>)"

definition send_livestream_content_to_router :: "ID32 \<Rightarrow> 'a package_scheme \<Rightarrow> ID32 \<Rightarrow> action" where
  "send_livestream_content_to_router r pkg orig_size = with_req r (\<lambda>q.
     post_router (\<lambda>out. (set_payload pkg (out\<lparr>kr_cmd := cmd_livestream_content, kr_request_id := rq_request_id q\<rparr>))
       \<lparr>kr_data_version := orig_size\<rparr>))"

definition send_get_livestream_content_to_router :: "ID32 \<Rightarrow> 'a package_scheme \<Rightarrow> action" where
  "send_get_livestream_content_to_router r pkg = with_req r (\<lambda>q. run_all [
     check (\<lambda>_. rq_typ q = T_router),
     post_router (\<lambda>out. set_payload pkg (out\<lparr>kr_cmd := cmd_get_livestream_content, kr_request_id := rq_request_id q, kr_uuid := rq_uuid q\<rparr>))])"

definition post_router_peer_found :: "ID32 \<Rightarrow> action" where
  "post_router_peer_found r = with_req r (\<lambda>q. post_router (\<lambda>out. out\<lparr>kr_request_id := rq_request_id q, kr_cmd := cmd_peer_found\<rparr>))"

definition post_router_copy_request :: "ID32 \<Rightarrow> action" where
  "post_router_copy_request r = with_req r (\<lambda>q. run_all [
     check (\<lambda>_. rq_cmd q = cmd_copy), check (\<lambda>_. rq_typ q = T_kernel),
     router_slot (\<lambda>out. out\<lparr>kr_request_id := rq_request_id q, kr_uuid := rq_uuid q, kr_cmd := rq_cmd q,
       kr_data_version := rq_data_version q, kr_last_updated := rq_last_updated q, kr_expire_date := rq_expire_date q\<rparr>),
     look (uuid_text (rq_copy_uuid q)) router_text, router_commit])"

definition post_router_save_offer_request :: "ID32 \<Rightarrow> action" where
  "post_router_save_offer_request i = run_all [
     touch_req i (\<lambda>_. upd_req i (\<lambda>q. q\<lparr>rq_st := Save_accept\<rparr>)),
     with_req i (\<lambda>q. post_router (\<lambda>out. out\<lparr>kr_uuid := rq_uuid q, kr_request_id := i, kr_cmd := cmd_save_offer\<rparr>))]"

definition post_router_get_request :: "ID32 \<Rightarrow> action" where
  "post_router_get_request r = with_req r (\<lambda>q. run_all [
     check (\<lambda>_. rq_st q = Lookup_in_db), upd_req r (\<lambda>q. q\<lparr>rq_st := Requested\<rparr>),
     post_router (\<lambda>out. out\<lparr>kr_request_id := rq_request_id q, kr_cmd := cmd_get, kr_uuid := rq_uuid q\<rparr>)])"

definition post_router_refuse :: "ID32 \<Rightarrow> action" where
  "post_router_refuse r = with_req r (\<lambda>q. run_all [
     only_if (rq_st q = Lookup_in_db)
       (post_router (\<lambda>out. set_payload (rq_data q) (out\<lparr>kr_request_id := rq_request_id q, kr_cmd := cmd_refuse, kr_uuid := rq_uuid q\<rparr>))),
     erase_req (rq_request_id q)])"

definition post_router_clear_request :: "ID32 \<Rightarrow> action" where
  "post_router_clear_request i = post_router (\<lambda>out. out\<lparr>kr_request_id := i, kr_cmd := cmd_clear_request\<rparr>)"

definition post_router_authentication_request :: "kernel_storage_package \<Rightarrow> ID32 \<Rightarrow> action" where
  "post_router_authentication_request inp r = with_req r (\<lambda>q. run_all [
     only_if (rq_st q \<noteq> Lookup_in_db) (run_all [
       upd_req r (\<lambda>q. q\<lparr>rq_st := Authentication, rq_data := sliced inp\<rparr>),
       post_router (\<lambda>out. out\<lparr>kr_uuid := rq_uuid q, kr_request_id := rq_request_id q, kr_cmd := cmd_auth\<rparr>)]),
     erase_req (rq_request_id q)])"

definition post_router_sync_finished :: "ID32 \<Rightarrow> action" where
  "post_router_sync_finished i = post_router (\<lambda>out. out\<lparr>kr_request_id := i, kr_cmd := cmd_sync_finished\<rparr>)"

text \<open>\<^verbatim>\<open>getNames\<close> and \<^verbatim>\<open>Poco::cat\<close> with a comma. The flag is set before the text.\<close>

definition post_router_send_uuids_request :: "ID32 \<Rightarrow> action" where
  "post_router_send_uuids_request r = with_req r (\<lambda>q. need Assertion_violation (rq_master_json q) (\<lambda>m.
     if m = [] then post_router_sync_finished (rq_request_id q)
     else run_all [
       upd (\<lambda>s. s\<lparr>k_should_block_get_request := True\<rparr>),
       router_slot (\<lambda>out. out\<lparr>kr_request_id := rq_request_id q, kr_cmd := cmd_send_uuids\<rparr>),
       router_text (join CHR '','' (map fst m)), router_commit]))"

definition post_router_on_update_register_response :: "ID32 \<Rightarrow> action" where
  "post_router_on_update_register_response r = with_req r (\<lambda>q. run_all [
     post_router (\<lambda>out. out\<lparr>kr_cmd := cmd_on_update_registered, kr_uuid := rq_uuid q, kr_request_id := rq_request_id q\<rparr>),
     post_router_clear_request (rq_request_id q), erase_req (rq_request_id q)])"

definition post_router_delete_request :: "ID32 \<Rightarrow> action" where
  "post_router_delete_request r = with_req r (\<lambda>q. look k_data_copy_count (\<lambda>n.
     post_router (\<lambda>out. out\<lparr>kr_cmd := cmd_del, kr_uuid := rq_uuid q, kr_data_version := rq_data_version q,
       kr_last_updated := rq_last_updated q, kr_max_response_cnt := n - 1, kr_request_id := rq_request_id q\<rparr>)))"

definition post_router_stream_auth_request :: "ID32 \<Rightarrow> action" where
  "post_router_stream_auth_request r = with_req r (\<lambda>q.
     post_router (\<lambda>out. out\<lparr>kr_request_id := rq_request_id q, kr_uuid := rq_uuid q, kr_cmd := cmd_stream_auth\<rparr>))"

definition post_router_save_stream_offer :: "ID32 \<Rightarrow> action" where
  "post_router_save_stream_offer r = with_req r (\<lambda>q. run_all [
     check (\<lambda>_. rq_cmd q = cmd_save_stream), check (\<lambda>_. rq_typ q = T_router),
     post_router (\<lambda>out. out\<lparr>kr_request_id := rq_request_id q, kr_cmd := cmd_save_stream_offer, kr_uuid := rq_uuid q\<rparr>)])"

definition post_router_on_update_register_request :: "ID32 \<Rightarrow> action" where
  "post_router_on_update_register_request r = with_req r (\<lambda>q.
     post_router (\<lambda>out. (set_payload (rq_data q) (out\<lparr>kr_request_id := rq_request_id q, kr_uuid := rq_uuid q\<rparr>))\<lparr>kr_cmd := cmd_on_update_register\<rparr>))"

definition post_router_on_update_unregister_request :: "ID32 \<Rightarrow> action" where
  "post_router_on_update_unregister_request r = with_req r (\<lambda>q.
     post_router (\<lambda>out. (set_payload (rq_data q) (out\<lparr>kr_request_id := rq_request_id q, kr_uuid := rq_uuid q\<rparr>))\<lparr>kr_cmd := cmd_on_update_unregister\<rparr>))"

definition post_router_recording_start :: "ID32 \<Rightarrow> action" where
  "post_router_recording_start r = with_req r (\<lambda>q.
     post_router (\<lambda>out. out\<lparr>kr_request_id := rq_request_id q, kr_uuid := rq_uuid q, kr_cmd := rq_cmd q\<rparr>))"

definition post_find_peer_request :: "ID32 \<Rightarrow> 'a package_scheme \<Rightarrow> action" where
  "post_find_peer_request i p = run_all [
     check (has_req i), post_router (\<lambda>out. set_payload p (out\<lparr>kr_request_id := i, kr_cmd := cmd_find_peer\<rparr>))]"

definition post_send_to_peer_confirm :: "ID32 \<Rightarrow> action" where
  "post_send_to_peer_confirm i = post_router (\<lambda>out. out\<lparr>kr_cmd := cmd_send_to_peer_confirm, kr_request_id := i\<rparr>)"

definition send_notification_to_router :: "ID32 \<Rightarrow> string \<Rightarrow> command \<Rightarrow> ID32 \<Rightarrow> action" where
  "send_notification_to_router r t c v = with_req r (\<lambda>q. text_package t (\<lambda>p.
     post_router (\<lambda>out. (set_payload p (out\<lparr>kr_request_id := rq_request_id q, kr_cmd := c\<rparr>))\<lparr>kr_uuid := rq_uuid q, kr_data_version := v\<rparr>)))"

section \<open>Posts to the key manager and the configuration\<close>

definition post_key_manager_encrypt_request :: "ID32 \<Rightarrow> 'a package_scheme \<Rightarrow> string \<Rightarrow> string \<Rightarrow> action" where
  "post_key_manager_encrypt_request r pkg key iv = with_req r (\<lambda>q. run_all [
     check (\<lambda>_. rq_typ q = T_ims \<or> rq_typ q = T_kernel),
     post_key_manager (\<lambda>out. (set_payload pkg (out\<lparr>km_request_id := rq_request_id q, km_cmd := cmd_encrypt\<rparr>))\<lparr>km_aes_key := key, km_aes_iv := iv\<rparr>)])"

definition post_key_manager_decrypt_request :: "ID32 \<Rightarrow> 'a package_scheme \<Rightarrow> string \<Rightarrow> string \<Rightarrow> action" where
  "post_key_manager_decrypt_request r pkg key iv = with_req r (\<lambda>q. run_all [
     check (\<lambda>_. key \<noteq> [] \<and> iv \<noteq> []),
     post_key_manager (\<lambda>out. (set_payload pkg out)\<lparr>km_request_id := rq_request_id q,
       km_cmd := (if rq_content_type q = ''video/mp2t'' then cmd_decrypt_with_portions else cmd_decrypt), km_aes_key := key, km_aes_iv := iv\<rparr>)])"

definition post_key_manager_stream_encrypt_request :: "ID32 \<Rightarrow> action" where
  "post_key_manager_stream_encrypt_request r = with_req r (\<lambda>q. run_all [
     check (\<lambda>_. rq_typ q = T_ims \<or> rq_typ q = T_kernel), check (\<lambda>_. rq_cmd q = cmd_save_stream),
     post_key_manager (\<lambda>out. set_payload (rq_data q) (out\<lparr>km_request_id := rq_request_id q, km_cmd := cmd_stream_encrypt, km_uuid := rq_uuid q\<rparr>))])"

definition post_key_manager_stream_decrypt_request :: "ID32 \<Rightarrow> 'a package_scheme \<Rightarrow> action" where
  "post_key_manager_stream_decrypt_request r pkg = with_req r (\<lambda>q. run_all [
     check (\<lambda>_. rq_cmd q = cmd_save_stream \<or> rq_cmd q = cmd_get_livestream_content),
     post_key_manager (\<lambda>out. set_payload pkg (out\<lparr>km_request_id := rq_request_id q, km_cmd := cmd_stream_decrypt, km_uuid := rq_uuid q\<rparr>))])"

definition post_key_manager_gen_key_for_stream :: "ID32 \<Rightarrow> action" where
  "post_key_manager_gen_key_for_stream r = with_req r (\<lambda>q. run_all [
     check (\<lambda>_. rq_typ q = T_ims \<or> rq_typ q = T_kernel),
     post_key_manager (\<lambda>out. out\<lparr>km_request_id := rq_request_id q, km_uuid := rq_uuid q, km_cmd := cmd_gen_key_for_stream, km_aes_key := [], km_aes_iv := []\<rparr>)])"

definition post_key_manager_prepare_cipher_for_stream :: "ID32 \<Rightarrow> action" where
  "post_key_manager_prepare_cipher_for_stream r = with_req r (\<lambda>q.
     post_key_manager (\<lambda>out. out\<lparr>km_request_id := rq_request_id q, km_uuid := rq_uuid q, km_cmd := cmd_prepare_cipher_for_stream,
       km_aes_key := rq_aes_key q, km_aes_iv := rq_aes_iv q\<rparr>))"

definition post_config_get_public_key_request :: "ID32 \<Rightarrow> action" where
  "post_config_get_public_key_request r = with_req r (\<lambda>q.
     post_config (\<lambda>out. out\<lparr>kc_request_id := rq_request_id q, kc_cmd := cmd_get_public_key\<rparr>))"

definition send_dump_user_json_request :: "ID32 \<Rightarrow> string \<Rightarrow> string \<Rightarrow> action" where
  "send_dump_user_json_request i key iv = post_user_manager (\<lambda>out. out\<lparr>ku_request_id := i, ku_key := key, ku_iv := iv, ku_cmd := cmd_dump_user_info\<rparr>)"

definition send_dump_device_json_request :: "ID32 \<Rightarrow> string \<Rightarrow> string \<Rightarrow> action" where
  "send_dump_device_json_request i key iv = post_backup (\<lambda>out. out\<lparr>kb_request_id := i, kb_key := key, kb_iv := iv, kb_cmd := cmd_dump_user_info\<rparr>)"

section \<open>Notifications\<close>

definition send_notification_to_ims :: "ID32 \<Rightarrow> 'a package_scheme \<Rightarrow> action" where
  "send_notification_to_ims i m = post_ims (\<lambda>out. set_payload m (out\<lparr>im_request_id := i, im_cmd := cmd_send_to_peer\<rparr>))"

definition send_notification_to_user_manager :: action where
  "send_notification_to_user_manager = post_user_manager (\<lambda>out. out\<lparr>ku_cmd := cmd_connected\<rparr>)"

definition notification_text :: "string \<Rightarrow> string \<Rightarrow> string" where
  "notification_text ev u = ''{\"event\":\"'' @ ev @ ''\",\"uuid\":\"'' @ u @ ''\"}''"

text \<open>The new request is the one whose key the continuation gets.\<close>

definition create_request_for_update_notification :: "uuid \<Rightarrow> command \<Rightarrow> (ID32 \<Rightarrow> action) \<Rightarrow> action" where
  "create_request_for_update_notification u c k = run_all [
     check (\<lambda>_. c = cmd_update \<or> c = cmd_del),
     kernel_get_request_id (\<lambda>i. run_all [
       new_request i u Requested cmd_send_to_peer T_kernel,
       look (uuid_text u) (\<lambda>n. text_package (notification_text (if c = cmd_update then ''updated'' else ''deleted'') n)
         (\<lambda>p. upd_req i (\<lambda>q. q\<lparr>rq_data := p\<rparr>))),
       k i])]"

definition notify_listener :: "uuid \<Rightarrow> command \<Rightarrow> ID32 \<Rightarrow> json \<Rightarrow> action" where
  "notify_listener u c v l = look (\<lambda>s. to_text (k_lib s) l) (\<lambda>t. need Poco_error t (\<lambda>t.
     create_request_for_update_notification u c (\<lambda>i.
       if t = [] then with_req i (\<lambda>q. send_notification_to_ims (rq_request_id q) (rq_data q))
       else send_notification_to_router i t (if c = cmd_update then cmd_notify_update else cmd_notify_delete) v)))"

definition notify_update :: "uuid \<Rightarrow> command \<Rightarrow> ID32 \<Rightarrow> action" where
  "notify_update u c v = run_all [
     check (\<lambda>_. c = cmd_update \<or> c = cmd_del),
     look (uuid_text u) (\<lambda>n. look k_update_listeners (\<lambda>m.
       only_if (obj_has n m) (need Poco_error (get_array n m) (\<lambda>ls. run_all [
         each ls (notify_listener u c v),
         only_if (c = cmd_del) (upd (\<lambda>s. s\<lparr>k_update_listeners := obj_remove n (k_update_listeners s)\<rparr>))]))))]"

text \<open>\<^verbatim>\<open>find_if\<close> extracts texts until one is the peer; an element that is no text throws.\<close>

primrec find_listener :: "string \<Rightarrow> json list \<Rightarrow> nat option option" where
  "find_listener p [] = Some None"
| "find_listener p (j # js) = (case j of J_str t \<Rightarrow> if t = p then Some (Some 0)
     else (case find_listener p js of None \<Rightarrow> None | Some x \<Rightarrow> Some (map_option Suc x)) | _ \<Rightarrow> None)"

definition add_update_listener :: "ID32 \<Rightarrow> string \<Rightarrow> action" where
  "add_update_listener r p = with_req r (\<lambda>q. run_all [
     check (\<lambda>_. rq_cmd q = cmd_on_update_register),
     look (uuid_text (rq_uuid q)) (\<lambda>n. run_all [
       look k_update_listeners (\<lambda>m. only_if (get_array n m = None)
         (upd (\<lambda>s. s\<lparr>k_update_listeners := obj_set n (J_arr []) m\<rparr>))),
       look k_update_listeners (\<lambda>m. must (get_array n m) (\<lambda>ls. need Poco_error (find_listener p ls) (\<lambda>x.
         only_if (x = None) (upd (\<lambda>s. s\<lparr>k_update_listeners := obj_set n (J_arr (ls @ [J_str p])) m\<rparr>)))))])])"

text \<open>\<open>k\<close> gets whether the listener was there.\<close>

definition remove_update_listener :: "string \<Rightarrow> string \<Rightarrow> (bool \<Rightarrow> action) \<Rightarrow> action" where
  "remove_update_listener u p k = look k_update_listeners (\<lambda>m.
     case get_array u m of None \<Rightarrow> k False
     | Some ls \<Rightarrow> need Poco_error (find_listener p ls) (\<lambda>x.
         case x of None \<Rightarrow> k False
         | Some i \<Rightarrow>
             let ls = take i ls @ drop (Suc i) ls in
             run_all [
               upd (\<lambda>s. s\<lparr>k_update_listeners := (if ls = [] then obj_remove u m else obj_set u (J_arr ls) m)\<rparr>),
               k True]))"

end
