(* ===== verification/Kernel_Respond.thy ===== *)
theory Kernel_Respond
  imports Kernel_Post
begin

text \<open>
  Answers to the web interface (\<^verbatim>\<open>ims\<close>) and the deletion of pieces that some of them start.
\<close>

section \<open>Answers to get requests\<close>

definition is_streaming_media :: "request \<Rightarrow> bool" where
  "is_streaming_media q \<longleftrightarrow> rq_content_type q \<noteq> [] \<and> (take 5 (rq_content_type q) = ''video'' \<or> take 5 (rq_content_type q) = ''audio'')"

text \<open>Every request that waits for the uuid is answered, its id and the request itself are forgotten.\<close>

definition answer_pending :: "ims_kernel_package \<Rightarrow> ID32 \<Rightarrow> action" where
  "answer_pending pkg b = look (ims_id b) (\<lambda>i. on_some i (\<lambda>i. run_all [
     post_ims (\<lambda>_. pkg\<lparr>im_request_id := i\<rparr>), erase_ims b, erase_req b]))"

definition send_ims_response :: "ims_kernel_package \<Rightarrow> action" where
  "send_ims_response pkg = look (\<lambda>s. k_pending_ims_get_requests s (im_uuid pkg)) (\<lambda>p.
     need Assertion_violation p (\<lambda>bs. run_all [
       each bs (answer_pending pkg),
       upd (\<lambda>s. s\<lparr>k_pending_ims_get_requests := (k_pending_ims_get_requests s)(im_uuid pkg := None)\<rparr>)]))"

definition send_ims_requested_data :: "ID32 \<Rightarrow> action" where
  "send_ims_requested_data r = with_req r (\<lambda>q. run_all [
     check (\<lambda>_. rq_cmd q = cmd_get),
     send_ims_response (ims_kernel_package0\<lparr>im_uuid := rq_uuid q, im_file_path := rq_file_path q,
       im_response_file_path := rq_response_file_path q, im_content_type := rq_content_type q, im_cmd := cmd_get_data\<rparr>)])"

definition fail_package :: "command \<Rightarrow> uuid \<Rightarrow> string \<Rightarrow> (ims_kernel_package \<Rightarrow> action) \<Rightarrow> action" where
  "fail_package c u t k =
     (case set_payload_string (bytes_of t) (ims_kernel_package0\<lparr>im_cmd := c, im_uuid := u\<rparr>) of
        Done p \<Rightarrow> k p | _ \<Rightarrow> raise_error Assertion_violation)"

definition post_ims_no_permissions :: "ID32 \<Rightarrow> action" where
  "post_ims_no_permissions r = with_req r (\<lambda>q. run_all [
     check (\<lambda>_. rq_st q = Authentication),
     send_ims_response (ims_kernel_package0\<lparr>im_uuid := rq_uuid q, im_cmd := cmd_no_permissions\<rparr>)])"

definition send_ims_stream_prepare :: "ID32 \<Rightarrow> ID32 \<Rightarrow> action" where
  "send_ims_stream_prepare r i = with_req r (\<lambda>q. need Assertion_violation (rq_master_json q) (\<lambda>m. run_all [
     ims_slot (\<lambda>out. out\<lparr>im_cmd := cmd_prepare_streaming, im_uuid := rq_uuid q, im_content_type := rq_content_type q,
       im_request_id := i, im_chunk_count := rq_last q - rq_curr q\<rparr>),
     look (\<lambda>s. get_unsigned (k_lib s) 64 ''size'' m) (\<lambda>l. need Poco_error l (\<lambda>l.
       post_ims (\<lambda>out. out\<lparr>im_content_length := of_nat l,
         im_get_range := (if fst (rq_get_range q) = 0 \<and> of_nat l - 1 = snd (rq_get_range q) then (-1, -1) else rq_get_range q)\<rparr>)))]))"

definition process_stream_prepare :: "ID32 \<Rightarrow> action" where
  "process_stream_prepare r = with_req r (\<lambda>q. look (ims_id (rq_request_id q)) (\<lambda>i. on_some i (send_ims_stream_prepare r)))"

definition send_livestream_content_to_ims :: "uuid \<Rightarrow> 'a package_scheme \<Rightarrow> action" where
  "send_livestream_content_to_ims u pkg = look (\<lambda>s. k_pending_ims_get_requests s u) (\<lambda>p. on_some p (\<lambda>bs.
     each bs (\<lambda>b. look (ims_id b) (\<lambda>i. on_some i (\<lambda>i.
       post_ims (\<lambda>out. (set_payload pkg out)\<lparr>im_request_id := i, im_cmd := cmd_livestream_content\<rparr>))))))"

definition send_get_livestream_fail_to_ims :: "uuid \<Rightarrow> 'a package_scheme \<Rightarrow> action" where
  "send_get_livestream_fail_to_ims u pkg = look (\<lambda>s. k_pending_ims_get_requests s u) (\<lambda>p. on_some p (\<lambda>bs. run_all [
     each bs (\<lambda>b. with_ims b (\<lambda>i. run_all [
       post_ims (\<lambda>out. set_payload pkg (out\<lparr>im_request_id := i, im_cmd := cmd_get_livestream_fail\<rparr>)),
       erase_ims b, erase_req b])),
     upd (\<lambda>s. s\<lparr>k_pending_ims_get_requests := (k_pending_ims_get_requests s)(u := None)\<rparr>)]))"

section \<open>Other answers\<close>

text \<open>An answer under the id of the request; both are forgotten.\<close>

definition finish_request :: "request \<Rightarrow> action" where
  "finish_request q = run_all [erase_ims (rq_request_id q), erase_req (rq_request_id q)]"

definition send_ims_share_confirm :: "ID32 \<Rightarrow> action" where
  "send_ims_share_confirm r = with_req r (\<lambda>q. run_all [
     check (\<lambda>_. rq_cmd q = cmd_share),
     with_ims (rq_request_id q) (\<lambda>i. post_ims (\<lambda>out. out\<lparr>im_request_id := i, im_cmd := cmd_share_confirm, im_uuid := rq_uuid q,
       im_aes_key := rq_aes_key q, im_aes_iv := rq_aes_iv q\<rparr>)),
     finish_request q])"

definition send_ims_on_update_register_response :: "ID32 \<Rightarrow> action" where
  "send_ims_on_update_register_response r = with_req r (\<lambda>q. run_all [
     ims_slot (\<lambda>out. out\<lparr>im_cmd := cmd_on_update_registered, im_uuid := rq_uuid q\<rparr>),
     with_ims (rq_request_id q) (\<lambda>i. post_ims (\<lambda>out. out\<lparr>im_request_id := i\<rparr>)),
     finish_request q])"

definition send_ims_on_update_unregister_response :: "ID32 \<Rightarrow> action" where
  "send_ims_on_update_unregister_response r = with_req r (\<lambda>q. run_all [
     ims_slot (\<lambda>out. out\<lparr>im_cmd := cmd_on_update_unregistered, im_uuid := rq_uuid q\<rparr>),
     with_ims (rq_request_id q) (\<lambda>i. post_ims (\<lambda>out. out\<lparr>im_request_id := i\<rparr>)),
     erase_ims (rq_request_id q)])"

definition send_ims_copy_succeeded_response :: "ID32 \<Rightarrow> action" where
  "send_ims_copy_succeeded_response r = with_req r (\<lambda>q. with_ims (rq_request_id q) (\<lambda>i. run_all [
     ims_slot (\<lambda>out. out\<lparr>im_request_id := i, im_cmd := cmd_copy_succeeded, im_uuid := rq_uuid q\<rparr>),
     look (uuid_text (rq_copy_uuid q)) ims_text, ims_commit, erase_ims (rq_request_id q)]))"

definition send_ims_recording_started_response :: "ID32 \<Rightarrow> uuid \<Rightarrow> action" where
  "send_ims_recording_started_response r u = with_req r (\<lambda>q. run_all [
     with_ims (rq_request_id q) (\<lambda>i. post_ims (\<lambda>out. out\<lparr>im_request_id := i, im_cmd := cmd_recording_started, im_uuid := u\<rparr>)),
     finish_request q])"

definition post_save_stream_offer_to_ims :: "ID32 \<Rightarrow> action" where
  "post_save_stream_offer_to_ims r = with_req r (\<lambda>q. with_ims (rq_request_id q) (\<lambda>i.
     post_ims (\<lambda>out. out\<lparr>im_request_id := i, im_cmd := cmd_save_stream_offer, im_uuid := rq_uuid q\<rparr>)))"

text \<open>The answer to \<^verbatim>\<open>get_public_key\<close> reads \<^verbatim>\<open>m_ims_req_ids[r]\<close> without a check: 0 for a missing id.\<close>

definition send_ims_get_public_key_response :: "ID32 \<Rightarrow> action" where
  "send_ims_get_public_key_response r = with_req r (\<lambda>q. look (ims_id (rq_request_id q)) (\<lambda>i. run_all [
     post_ims (\<lambda>out. (set_payload (rq_data q) out)\<lparr>im_cmd := cmd_get_public_key_response, im_request_id := (case i of None \<Rightarrow> 0 | Some i \<Rightarrow> i)\<rparr>),
     finish_request q]))"

definition send_dump_user_info_succeeded_response_to_ims :: "ID32 \<Rightarrow> action" where
  "send_dump_user_info_succeeded_response_to_ims r = with_req r (\<lambda>q. look (ims_id (rq_request_id q)) (\<lambda>i. on_some i (\<lambda>i. run_all [
     post_ims (\<lambda>out. out\<lparr>im_request_id := i, im_cmd := (if rq_cmd q = cmd_regenerate_user_keys
       then cmd_regenerate_user_keys_succeeded else cmd_dump_user_info_succeeded)\<rparr>),
     finish_request q])))"

definition send_update_notification_to_ims :: "ID32 \<Rightarrow> string \<Rightarrow> action" where
  "send_update_notification_to_ims r e = with_req r (\<lambda>q. look k_user_json_uuid (\<lambda>u.
     if rq_uuid q = u then run_all [
       post_user_manager (\<lambda>out. set_data_version (rq_data_version q) (out\<lparr>ku_cmd := cmd_update\<rparr>)),
       erase_req (rq_request_id q)]
     else look (uuid_text (rq_uuid q)) (\<lambda>n. text_package (notification_text e n) (send_notification_to_ims (rq_request_id q)))))"

section \<open>Failures\<close>

definition send_ims_update_fail_response :: "ID32 \<Rightarrow> string \<Rightarrow> action" where
  "send_ims_update_fail_response r err = with_req r (\<lambda>q. run_all [
     check (\<lambda>_. rq_cmd q = cmd_update),
     with_ims (rq_request_id q) (\<lambda>i. run_all [
       look (uuid_text (rq_uuid q)) (\<lambda>n. ims_text (''Failed updating uuid='' @ n @ ''.'' @ (if err = [] then [] else CHR '' '' # err))),
       post_ims (\<lambda>out. out\<lparr>im_cmd := cmd_update_fail, im_uuid := rq_uuid q, im_request_id := i\<rparr>)]),
     erase_ims (rq_request_id q)])"

definition send_ims_save_fail_response :: "ID32 \<Rightarrow> string \<Rightarrow> action" where
  "send_ims_save_fail_response r err = with_req r (\<lambda>q. with_ims (rq_request_id q) (\<lambda>i. run_all [
     ims_slot (\<lambda>out. out\<lparr>im_request_id := i, im_uuid := rq_uuid q, im_cmd := cmd_save_fail\<rparr>),
     ims_text err, ims_commit, erase_ims (rq_request_id q)]))"

definition send_ims_delete_failed_response :: "ID32 \<Rightarrow> action" where
  "send_ims_delete_failed_response r = with_req r (\<lambda>q. run_all [
     check (\<lambda>_. rq_cmd q = cmd_del), check (\<lambda>_. rq_typ q = T_ims),
     look (ims_id (rq_request_id q)) (\<lambda>i. on_some i (\<lambda>i. run_all [
       ims_slot (\<lambda>out. out\<lparr>im_request_id := i, im_cmd := cmd_delete_fail, im_uuid := rq_uuid q\<rparr>),
       look (uuid_text (rq_uuid q)) (\<lambda>n. ims_text (''Failed to delete '' @ n @ '' uuid.'')), ims_commit,
       erase_ims (rq_request_id q)]))])"

text \<open>The deletion of a piece: \<open>k\<close> gets the id of the new request.\<close>

definition handle_piece_delete :: "uuid \<Rightarrow> ID32 \<Rightarrow> (ID32 \<Rightarrow> action) \<Rightarrow> action" where
  "handle_piece_delete u parent k = kernel_get_request_id (\<lambda>i. run_all [
     new_request i u Requested cmd_del T_kernel,
     upd_req i (\<lambda>q. q\<lparr>rq_parent_req_id := parent, rq_data_version := rq_data_version q + 1\<rparr>),
     post_storage_delete_request i, k i])"

definition send_ims_copy_failed_response :: "ID32 \<Rightarrow> string \<Rightarrow> action" where
  "send_ims_copy_failed_response r err = with_req r (\<lambda>q. run_all [
     check (\<lambda>_. rq_typ q = T_ims),
     look (ims_id (rq_request_id q)) (\<lambda>i. on_some i (\<lambda>i. run_all [
       ims_slot (\<lambda>out. out\<lparr>im_request_id := i, im_cmd := cmd_copy_failed, im_uuid := rq_uuid q\<rparr>),
       ims_text err, ims_commit, erase_ims (rq_request_id q)])),
     each (rq_saved_units q) (\<lambda>u. handle_piece_delete u (rq_request_id q) (\<lambda>_. skip))])"

definition handle_failed_share_request :: "ID32 \<Rightarrow> action" where
  "handle_failed_share_request r = with_req r (\<lambda>q. run_all [
     check (\<lambda>_. rq_typ q = T_ims),
     with_ims (rq_request_id q) (\<lambda>i. run_all [
       look (uuid_text (rq_uuid q)) (\<lambda>n. ims_text (''Fail to share uuid='' @ n)),
       post_ims (\<lambda>out. out\<lparr>im_cmd := cmd_share_fail, im_uuid := rq_uuid q, im_request_id := i\<rparr>)]),
     finish_request q])"

definition handle_failed_send_to_peer_request :: "ID32 \<Rightarrow> action" where
  "handle_failed_send_to_peer_request i = if_req i (\<lambda>q. only_if (rq_typ q = T_ims) (run_all [
     ims_slot (\<lambda>out. out\<lparr>im_cmd := cmd_send_to_fail\<rparr>), ims_text ''Failed to deliver data to peer'',
     with_ims i (\<lambda>j. post_ims (\<lambda>out. out\<lparr>im_request_id := j\<rparr>)),
     erase_ims i, erase_req i]))"

definition handle_failed_on_update_register_request :: "ID32 \<Rightarrow> string \<Rightarrow> action" where
  "handle_failed_on_update_register_request r err = with_req r (\<lambda>q. run_all [
     ims_slot (\<lambda>out. out\<lparr>im_cmd := cmd_on_update_register_fail\<rparr>), ims_text err,
     with_ims (rq_request_id q) (\<lambda>i. post_ims (\<lambda>out. out\<lparr>im_request_id := i\<rparr>)),
     finish_request q])"

definition handle_failed_on_update_unregister_request :: "ID32 \<Rightarrow> string \<Rightarrow> action" where
  "handle_failed_on_update_unregister_request r err = with_req r (\<lambda>q. run_all [
     ims_slot (\<lambda>out. out\<lparr>im_cmd := cmd_on_update_unregister_fail\<rparr>), ims_text err,
     with_ims (rq_request_id q) (\<lambda>i. post_ims (\<lambda>out. out\<lparr>im_request_id := i, im_uuid := rq_uuid q\<rparr>)),
     finish_request q])"

definition handle_recording_fail :: "ID32 \<Rightarrow> 'a package_scheme \<Rightarrow> action" where
  "handle_recording_fail r m = with_req r (\<lambda>q. run_all [
     check (\<lambda>_. rq_typ q = T_ims),
     with_ims (rq_request_id q) (\<lambda>i. run_all [
       post_ims (\<lambda>out. set_payload m (out\<lparr>im_request_id := i, im_cmd := cmd_recording_fail\<rparr>)),
       erase_ims (rq_request_id q),
       upd (\<lambda>s. s\<lparr>k_stream_req_ids := (k_stream_req_ids s)(i := None)\<rparr>),
       erase_req (rq_request_id q)])])"

end
