(* ===== verification/Kernel_Save.thy ===== *)
theory Kernel_Save
  imports Kernel_Respond
begin

text \<open>
  Saving: the units of a save request (pieces and master object), their way to the storage and to the router
  under the limits of both, confirmations and failures.
\<close>

section \<open>Reading the data of a request\<close>

definition get_data_size_from_request_object :: "request \<Rightarrow> (nat \<Rightarrow> action) \<Rightarrow> action" where
  "get_data_size_from_request_object q k =
     (if rq_file_path q \<noteq> [] then look (\<lambda>s. k_files s (rq_file_path q)) (\<lambda>f. need Poco_error f (\<lambda>f. k (length f)))
      else k (unat (p_size (rq_data q))))"

text \<open>The memory of a piece read from a file has no terminating zero. Reading past the end leaves memory uninitialised.\<close>

definition get_piece_data_for_save :: "request \<Rightarrow> nat \<Rightarrow> nat \<Rightarrow> (package \<Rightarrow> action) \<Rightarrow> action" where
  "get_piece_data_for_save q start n k =
     (if rq_file_path q = [] then
        (case p_message (rq_data q) of
           None \<Rightarrow> if n = 0 then bytes_package [] k else raise_error Std_error
         | Some bs \<Rightarrow> must (mem_read (Some bs) (start mod 2 ^ 32) n) (\<lambda>p. bytes_package p k))
      else look (\<lambda>s. k_files s (rq_file_path q)) (\<lambda>f. must (case f of None \<Rightarrow> None | Some c \<Rightarrow> read_piece c start n)
        (\<lambda>d. k (default_package\<lparr>p_size := of_nat n, p_message := Some d\<rparr>))))"

definition create_master_json_template :: "request \<Rightarrow> nat \<Rightarrow> string \<Rightarrow> jobj" where
  "create_master_json_template q n ct =
     [(''content_type'', J_str ct), (''expiration_date'', J_num (uint (rq_expire_date q))),
      (''last_updated'', J_num (uint (rq_last_updated q))), (''pieces'', J_obj []), (''protocol_version'', J_num 1),
      (''size'', J_num (int n)), (''version'', J_num (uint (rq_data_version q)))]"

section \<open>Units\<close>

definition prepare_unit_for_save :: "ID32 \<Rightarrow> ID32 \<Rightarrow> ID32 \<Rightarrow> unit_type \<Rightarrow> uuid \<Rightarrow> package \<Rightarrow> bool \<Rightarrow> (ID32 \<Rightarrow> action) \<Rightarrow> action" where
  "prepare_unit_for_save r b n t u c backup k = with_req r (\<lambda>q.
     let x = save_unit_new r b n 0 t u c (if t = Piece then cmd_save else rq_cmd q) backup in
     kernel_get_request_id (\<lambda>i. run_all [
       upd (\<lambda>s. s\<lparr>k_save_units := map_insert i x (k_save_units s)\<rparr>),
       upd_req r (\<lambda>q. q\<lparr>rq_units := insort_insert i (rq_units q)\<rparr>),
       only_if (t = Piece) (run_all [
         upd_req r (\<lambda>q. q\<lparr>rq_backup_units := insort_insert i (rq_backup_units q)\<rparr>),
         upd (\<lambda>s. if rq_local q then s\<lparr>k_pending_save_requests := i # k_pending_save_requests s\<rparr>
                  else s\<lparr>k_pending_router_save_reqs := i # k_pending_router_save_reqs s\<rparr>)]),
       k i]))"

definition save_master_object :: "ID32 \<Rightarrow> 'a package_scheme \<Rightarrow> action" where
  "save_master_object r pkg = with_req r (\<lambda>q.
     prepare_unit_for_save r 0 (p_size pkg) Master (rq_uuid q) (sliced pkg) (\<not> rq_local q) (\<lambda>i.
       if rq_local q then run_all [
         upd (\<lambda>s. s\<lparr>k_storage_input_cnt := k_storage_input_cnt s + 1\<rparr>),
         post_storage_save_request i pkg (rq_uuid q)]
       else look k_data_copy_count (\<lambda>n. run_all [
         backup_data i (rq_uuid q) (rq_cmd q) (ucast n) pkg (rq_data_version q) q,
         upd (\<lambda>s. s\<lparr>k_router_save_input_size := k_router_save_input_size s + p_size pkg\<rparr>)])))"

definition start_master_object_save :: "ID32 \<Rightarrow> action" where
  "start_master_object_save r = with_req r (\<lambda>q.
     get_data_size_from_request_object q (\<lambda>n.
       let m = create_master_json_template q n (rq_content_type q);
           finish = (\<lambda>m. need Assertion_violation (rq_master_json q) (\<lambda>pj.
             json_package (obj_set ''pieces'' (J_obj pj) m) (\<lambda>pkg.
               if rq_enc q then post_key_manager_encrypt_request r pkg (rq_aes_key q) (rq_aes_iv q)
               else save_master_object r pkg))) in
       if n \<le> max_chunk_size then
         get_piece_data_for_save q 0 n (\<lambda>p. need Assertion_violation (p_message p) (\<lambda>bs.
           must (mem_read (Some bs) 0 (unat (p_size p))) (\<lambda>d. look (\<lambda>s. kl_b64_encode (k_lib s) d) (\<lambda>t.
             finish (obj_set ''content'' (J_str t) m)))))
       else finish m))"

definition prepare_piece :: "ID32 \<Rightarrow> string \<times> json \<Rightarrow> action" where
  "prepare_piece r e = parse_uuid (fst e) (\<lambda>u.
     case snd e of
       J_obj p \<Rightarrow> run_all [
         check (\<lambda>_. obj_has ''from'' p \<and> obj_has ''size'' p),
         look k_lib (\<lambda>L. need Poco_error (get_unsigned L 32 ''from'' p) (\<lambda>b.
           need Poco_error (get_unsigned L 32 ''size'' p) (\<lambda>n.
             prepare_unit_for_save r (of_nat b) (of_nat n) Piece u default_package False (\<lambda>_. skip))))]
     | _ \<Rightarrow> raise_error Poco_error)"

definition prepare_pieces_for_save :: "ID32 \<Rightarrow> action" where
  "prepare_pieces_for_save r = with_req r (\<lambda>q. need Assertion_violation (rq_master_json q) (\<lambda>m. each m (prepare_piece r)))"

section \<open>Pending units\<close>

definition max_storage_input_cnt :: nat where
  "max_storage_input_cnt = 150"

definition create_request_for_unit_encrypt :: "ID32 \<Rightarrow> package \<Rightarrow> uuid \<Rightarrow> request \<Rightarrow> action" where
  "create_request_for_unit_encrypt i pkg u p = run_all [
     new_request i u Requested cmd_save T_kernel,
     upd_req i (\<lambda>m. m\<lparr>rq_data := pkg, rq_parent_req_id := rq_request_id p\<rparr>)]"

definition handle_piece_save :: "ID32 \<Rightarrow> package \<Rightarrow> uuid \<Rightarrow> request \<Rightarrow> action" where
  "handle_piece_save i pkg u p =
     (if rq_enc p then run_all [
        check (\<lambda>_. rq_aes_key p \<noteq> [] \<and> rq_aes_iv p \<noteq> []),
        create_request_for_unit_encrypt i pkg u p,
        post_key_manager_encrypt_request i pkg [] []]
      else post_storage_save_request i pkg u)"

text \<open>\<^verbatim>\<open>get_piece_data_for_save(u)\<close>: the content is stored in the unit.\<close>

definition load_unit :: "ID32 \<Rightarrow> action" where
  "load_unit i = with_unit i (\<lambda>u. with_req (su_main_request u) (\<lambda>p.
     get_piece_data_for_save p (unat (su_start u)) (unat (su_size u)) (\<lambda>c. upd_unit i (\<lambda>u. u\<lparr>su_content := c\<rparr>))))"

definition handle_piece_for_backup :: "ID32 \<Rightarrow> action" where
  "handle_piece_for_backup i = with_unit i (\<lambda>u. with_req (su_main_request u) (\<lambda>p. look k_data_copy_count (\<lambda>n.
     let v = (if su_type u = Master then rq_data_version p else 1) in
     if rq_local p then backup_data i (su_uuid u) (su_cmd u) (ucast n - 1) (su_content u) v p
     else run_all [
       load_unit i,
       with_unit i (\<lambda>u.
         if rq_enc p then run_all [
           check (\<lambda>_. rq_aes_key p \<noteq> [] \<and> rq_aes_iv p \<noteq> []),
           create_request_for_unit_encrypt i (su_content u) (su_uuid u) p,
           post_key_manager_encrypt_request i (su_content u) [] []]
         else backup_data i (su_uuid u) (su_cmd u) (ucast n - 1) (su_content u) v p)])))"

text \<open>
  The two loops, over the list of pending units; \<open>kept\<close> are the units the second loop has passed over.
\<close>

primrec storage_pending_loop :: "ID32 list \<Rightarrow> action" where
  "storage_pending_loop [] = skip"
| "storage_pending_loop (i # is) = look (\<lambda>s. length (k_pending_router_save_reqs s) < max_storage_input_cnt
       \<and> unat (k_storage_input_cnt s) < max_storage_input_cnt) (\<lambda>room. only_if room (run_all [
     look (\<lambda>s. k_save_units s i) (\<lambda>x. on_some x (\<lambda>u. with_req (su_main_request u) (\<lambda>p. run_all [
       load_unit i,
       check (\<lambda>_. su_type u = Piece), check (\<lambda>_. rq_local p),
       upd (\<lambda>s. s\<lparr>k_storage_input_cnt := k_storage_input_cnt s + 1\<rparr>),
       with_unit i (\<lambda>u. handle_piece_save i (su_content u) (su_uuid u) p)]))),
     upd (\<lambda>s. s\<lparr>k_pending_save_requests := is\<rparr>),
     storage_pending_loop is]))"

definition process_storage_pending_save_requests :: action where
  "process_storage_pending_save_requests = look k_pending_save_requests storage_pending_loop"

primrec router_pending_loop :: "ID32 list \<Rightarrow> ID32 list \<Rightarrow> action" where
  "router_pending_loop kept [] = skip"
| "router_pending_loop kept (i # is) = look (\<lambda>s. k_save_units s i) (\<lambda>x. case x of
     None \<Rightarrow> run_all [upd (\<lambda>s. s\<lparr>k_pending_router_save_reqs := kept @ is\<rparr>), router_pending_loop kept is]
   | Some u \<Rightarrow> look (\<lambda>s. k_router_save_input_size s + su_size u \<le> k_max_router_save_input_size s) (\<lambda>room.
       if room then run_all [
         upd (\<lambda>s. s\<lparr>k_router_save_input_size := k_router_save_input_size s + su_size u\<rparr>),
         upd_unit i (\<lambda>u. u\<lparr>su_backup := True\<rparr>),
         handle_piece_for_backup i,
         upd (\<lambda>s. s\<lparr>k_pending_router_save_reqs := kept @ is\<rparr>),
         router_pending_loop kept is]
       else router_pending_loop (kept @ [i]) is))"

definition process_router_pending_save_requests :: action where
  "process_router_pending_save_requests = look k_pending_router_save_reqs (router_pending_loop [])"

definition process_pending_save_requests :: action where
  "process_pending_save_requests = run_all [process_storage_pending_save_requests, process_router_pending_save_requests]"

section \<open>A save request from the web interface\<close>

definition should_save_in_local :: "save_option \<Rightarrow> kernel \<Rightarrow> bool" where
  "should_save_in_local l s = (case l of Save_default \<Rightarrow> 1 \<le> k_storage_class s | No_local \<Rightarrow> False | Local \<Rightarrow> True)"

definition save_or_prepare :: "ID32 \<Rightarrow> action" where
  "save_or_prepare r = with_req r (\<lambda>q. need Assertion_violation (rq_master_json q) (\<lambda>m.
     if m = [] then start_master_object_save r
     else run_all [prepare_pieces_for_save r, process_pending_save_requests]))"

definition handle_save_of_unencrypted_data :: "ID32 \<Rightarrow> action" where
  "handle_save_of_unencrypted_data r = run_all [
     upd_req r (\<lambda>q. if rq_cmd q = cmd_update \<and> \<not> rq_enc q then q\<lparr>rq_aes_key := [], rq_aes_iv := []\<rparr> else q),
     save_or_prepare r]"

definition should_generate_new_key :: "request \<Rightarrow> bool" where
  "should_generate_new_key q \<longleftrightarrow>
     (if rq_cmd q = cmd_save then rq_enc q
      else if rq_cmd q = cmd_update then rq_enc q \<and> rq_aes_key q = [] \<and> rq_aes_iv q = []
      else False)"

definition process_ims_save_request :: "ID32 \<Rightarrow> action" where
  "process_ims_save_request r = with_req r (\<lambda>q. run_all [
     check (\<lambda>_. rq_cmd q = cmd_update \<or> rq_cmd q = cmd_save),
     get_data_size_from_request_object q (\<lambda>n. look (\<lambda>s. generate_pieces_json (kl_poco (k_lib s)) (k_uuids s) (k_uuid_count s) n) (\<lambda>(c, ps). run_all [
       upd (\<lambda>s. s\<lparr>k_uuid_count := c\<rparr>),
       upd_req r (\<lambda>q. q\<lparr>rq_master_json := Some (pieces_json ps), rq_backup_units := insort_insert (rq_request_id q) (rq_backup_units q)\<rparr>),
       if should_generate_new_key q then post_key_manager (\<lambda>out. out\<lparr>km_request_id := rq_request_id q, km_cmd := cmd_gen_aes_key\<rparr>)
       else handle_save_of_unencrypted_data r]))])"

definition process_save_request_after_key_generation :: "kernel_key_manager_package \<Rightarrow> ID32 \<Rightarrow> action" where
  "process_save_request_after_key_generation inp r = with_req r (\<lambda>q. run_all [
     check (\<lambda>_. rq_cmd q = cmd_save \<or> rq_cmd q = cmd_update), check (\<lambda>_. km_cmd inp = cmd_get_aes_key),
     check (\<lambda>_. rq_typ q = T_ims), check (\<lambda>_. km_aes_key inp \<noteq> [] \<and> km_aes_iv inp \<noteq> []),
     upd_req r (\<lambda>q. q\<lparr>rq_aes_key := km_aes_key inp, rq_aes_iv := km_aes_iv inp\<rparr>),
     need Poco_error (rq_master_json q) (\<lambda>_. save_or_prepare r)])"

definition handle_save_after_piece_encrypt :: "kernel_key_manager_package \<Rightarrow> ID32 \<Rightarrow> action" where
  "handle_save_after_piece_encrypt inp r = with_req r (\<lambda>q. look (\<lambda>s. k_save_units s (rq_request_id q)) (\<lambda>x. on_some x (\<lambda>u.
     with_req (su_main_request u) (\<lambda>p. run_all [
       check (\<lambda>_. rq_enc p \<and> su_type u = Piece),
       upd_unit (rq_request_id q) (\<lambda>u. u\<lparr>su_content := sliced inp\<rparr>),
       need Poco_error (rq_master_json p) (\<lambda>m. look (uuid_text (su_uuid u)) (\<lambda>n. need Poco_error (get_object n m) (\<lambda>pjo.
         upd_req (su_main_request u) (\<lambda>p. p\<lparr>rq_master_json := Some (obj_set n (J_obj
           (obj_set ''aes_key'' (J_str (km_aes_key inp)) (obj_set ''aes_iv'' (J_str (km_aes_iv inp)) pjo))) m)\<rparr>)))),
       if rq_local p then post_storage_save_request (rq_request_id q) inp (su_uuid u)
       else look k_data_copy_count (\<lambda>n.
         backup_data (rq_request_id q) (su_uuid u) (su_cmd u) (ucast n) (sliced inp) (rq_data_version q) q),
       erase_req (rq_request_id q)]))))"

definition handle_save_request_after_encrypt :: "kernel_key_manager_package \<Rightarrow> ID32 \<Rightarrow> action" where
  "handle_save_request_after_encrypt inp r = with_req r (\<lambda>q. run_all [
     check (\<lambda>_. rq_cmd q = cmd_save),
     if rq_typ q = T_ims then save_master_object r inp else handle_save_after_piece_encrypt inp r])"

definition handle_ims_save_request :: "ims_kernel_package \<Rightarrow> action" where
  "handle_ims_save_request inp = run_all [
     check (\<lambda>_. im_cmd inp = cmd_save),
     create_random (\<lambda>u. kernel_get_request_id (\<lambda>i. run_all [
       no_ims i, set_ims i (im_request_id inp),
       new_request i u Requested cmd_save T_ims,
       look (should_save_in_local (im_local inp)) (\<lambda>l. upd_req i (\<lambda>q. q\<lparr>rq_data := sliced inp, rq_file_path := im_file_path inp, rq_enc := im_enc inp,
         rq_local := l, rq_content_type := im_content_type inp, rq_expire_date := im_expire_date inp\<rparr>)),
       process_ims_save_request i]))]"

section \<open>Confirmations\<close>

definition reduce_storage_input_size :: action where
  "reduce_storage_input_size = upd (\<lambda>s. if k_storage_input_cnt s = 0 then s else s\<lparr>k_storage_input_cnt := k_storage_input_cnt s - 1\<rparr>)"

definition reduce_router_save_input_size :: "ID32 \<Rightarrow> action" where
  "reduce_router_save_input_size n = upd (\<lambda>s. s\<lparr>k_router_save_input_size :=
     (if n > k_router_save_input_size s then 0 else k_router_save_input_size s - n)\<rparr>)"

definition reduce_router_get_input_size :: "ID32 \<Rightarrow> action" where
  "reduce_router_get_input_size n = upd (\<lambda>s. s\<lparr>k_router_get_input_size :=
     (if n > k_router_get_input_size s then 0 else k_router_get_input_size s - n)\<rparr>)"

definition remove_from_backup_units :: "ID32 \<Rightarrow> ID32 \<Rightarrow> action" where
  "remove_from_backup_units r i = run_all [
     upd_req r (\<lambda>q. q\<lparr>rq_backup_units := remove1 i (rq_backup_units q)\<rparr>),
     with_req r (\<lambda>q. only_if (rq_backup_units q = []) (erase_req (rq_request_id q)))]"

definition increase_version :: "jobj \<Rightarrow> (ID32 \<Rightarrow> action) \<Rightarrow> action" where
  "increase_version m k =
     (if obj_has ''version'' m
      then look (\<lambda>s. get_unsigned (k_lib s) 32 ''version'' m) (\<lambda>v. need Poco_error v (\<lambda>v. k (of_nat v + 1)))
      else k 1)"

definition remove_unnecessary_uuids :: "ID32 \<Rightarrow> action" where
  "remove_unnecessary_uuids r = with_req r (\<lambda>q. run_all [
     check (\<lambda>_. rq_cmd q = cmd_update \<or> rq_cmd q = cmd_del),
     need Assertion_violation (rq_old_master_json q) (\<lambda>m. increase_version m (\<lambda>v. run_all [
       upd_req r (\<lambda>q. q\<lparr>rq_data_version := v\<rparr>),
       on_some (get_object ''pieces'' m) (\<lambda>p. run_all [
         each (map fst p) (\<lambda>n. parse_uuid n (\<lambda>u. handle_piece_delete u (rq_request_id q) (\<lambda>i.
           upd_req r (\<lambda>q. q\<lparr>rq_units := insort_insert i (rq_units q)\<rparr>)))),
         upd_req r (\<lambda>q. q\<lparr>rq_units := insort_insert (rq_request_id q) (rq_units q)\<rparr>)])]))])"

definition send_ims_save_confirm :: "ID32 \<Rightarrow> action" where
  "send_ims_save_confirm r = with_req r (\<lambda>q. with_ims (rq_request_id q) (\<lambda>i. run_all [
     check (\<lambda>_. rq_cmd q = cmd_save \<or> rq_cmd q = cmd_update),
     post_ims (\<lambda>out. out\<lparr>im_request_id := i, im_cmd := (if rq_cmd q = cmd_save then cmd_save_confirm else cmd_updated), im_uuid := rq_uuid q\<rparr>),
     only_if (rq_cmd q = cmd_update) (run_all [
       update_owned_uuid_in_user_json r,
       kernel_post_storage_remove_from_cache_request (rq_uuid q),
       remove_unnecessary_uuids r]),
     erase_ims (rq_request_id q)]))"

definition process_save_confirm_for_master_object :: "save_unit \<Rightarrow> action" where
  "process_save_confirm_for_master_object u = run_all [
     check (\<lambda>_. su_bkp_count u = 1),
     with_req (su_main_request u) (\<lambda>q. run_all [
       check (\<lambda>_. su_type u = Master),
       if rq_cmd q = cmd_update then run_all [
         update_copy_count_of_owned_uuid_in_user_json (su_uuid u) (su_bkp_count u),
         notify_update (su_uuid u) cmd_update (rq_data_version q),
         kernel_post_storage_remove_from_cache_request (su_uuid u)]
       else add_new_owned_uuid_to_user_json (su_main_request u) u,
       send_ims_save_confirm (su_main_request u)])]"

definition process_save_confirm_for_piece :: "save_unit \<Rightarrow> ID32 \<Rightarrow> action" where
  "process_save_confirm_for_piece u i = run_all [
     check (\<lambda>_. su_bkp_count u = 1), check (\<lambda>_. su_type u = Piece),
     add_new_owned_uuid_to_user_json (su_main_request u) u,
     upd_req (su_main_request u) (\<lambda>q. q\<lparr>rq_units := remove1 i (rq_units q), rq_saved_units := insort_insert (su_uuid u) (rq_saved_units q)\<rparr>),
     with_req (su_main_request u) (\<lambda>q. only_if (rq_units q = []) (start_master_object_save (su_main_request u)))]"

definition clean_up_save_request :: "ID32 \<Rightarrow> action" where
  "clean_up_save_request i = with_unit i (\<lambda>u. with_req (su_main_request u) (\<lambda>q. run_all [
     if rq_local q then run_all [reduce_storage_input_size, only_if (su_type u = Master) (erase_req (rq_request_id q))]
     else run_all [reduce_router_save_input_size (su_size u), remove_from_backup_units (su_main_request u) i, post_router_clear_request i],
     erase_unit i]))"

definition handle_first_backup_of_save_unit :: "ID32 \<Rightarrow> action" where
  "handle_first_backup_of_save_unit i = with_unit i (\<lambda>u. run_all [
     check (\<lambda>_. su_bkp_count u = 1),
     if su_type u = Master then process_save_confirm_for_master_object u else process_save_confirm_for_piece u i,
     look k_data_copy_count (\<lambda>n. if n = 1 then clean_up_save_request i
       else with_req (su_main_request u) (\<lambda>q. only_if (rq_local q) (run_all [
         reduce_storage_input_size,
         upd_unit i (\<lambda>u. u\<lparr>su_winners_count := su_winners_count u + 1\<rparr>),
         upd (\<lambda>s. s\<lparr>k_pending_router_save_reqs := i # k_pending_router_save_reqs s\<rparr>)])))])"

definition handle_save_confirm_for_local_save_unit :: "ID32 \<Rightarrow> action" where
  "handle_save_confirm_for_local_save_unit i = run_all [
     upd_unit i (\<lambda>u. u\<lparr>su_bkp_count := su_bkp_count u + 1\<rparr>),
     with_unit i (\<lambda>u.
       if su_bkp_count u = 1 then handle_first_backup_of_save_unit i
       else run_all [
         update_copy_count_of_owned_uuid_in_user_json (su_uuid u) (su_bkp_count u),
         look k_data_copy_count (\<lambda>n. only_if (su_bkp_count u = ucast n) (run_all [
           reduce_router_save_input_size (su_size u),
           remove_from_backup_units (su_main_request u) i,
           erase_unit i,
           post_router_clear_request i]))]),
     process_pending_save_requests]"

definition handle_no_space_for_local_save_unit :: "ID32 \<Rightarrow> action" where
  "handle_no_space_for_local_save_unit i = with_unit i (\<lambda>u. run_all [
     check (\<lambda>_. su_bkp_count u = 0),
     upd_req (su_main_request u) (\<lambda>q. q\<lparr>rq_local := False\<rparr>),
     reduce_storage_input_size,
     upd (\<lambda>s. s\<lparr>k_pending_router_save_reqs := i # k_pending_router_save_reqs s\<rparr>),
     process_pending_save_requests])"

section \<open>Failures\<close>

definition max_save_fail_count :: ID32 where
  "max_save_fail_count = 1"

definition drop_unit :: "ID32 \<Rightarrow> action" where
  "drop_unit i = look (\<lambda>s. k_save_units s i) (\<lambda>x. need Assertion_violation x (\<lambda>u. run_all [
     only_if (su_backup u) (reduce_router_save_input_size (su_size u)), erase_unit i]))"

definition process_not_backed_up_save_unit :: "ID32 \<Rightarrow> string \<Rightarrow> action" where
  "process_not_backed_up_save_unit r err = with_req r (\<lambda>q. run_all [
     each (rq_units q) drop_unit,
     each (rq_saved_units q) (\<lambda>u. handle_piece_delete u (rq_request_id q) (\<lambda>_. skip)),
     if rq_cmd q = cmd_update then send_ims_update_fail_response r ''Could not find uuid for update''
     else send_ims_save_fail_response r err])"

definition handle_failed_save_unit :: "ID32 \<Rightarrow> string \<Rightarrow> action" where
  "handle_failed_save_unit i err = with_unit i (\<lambda>u. with_req (su_main_request u) (\<lambda>q. run_all [
     check (\<lambda>_. rq_cmd q = cmd_save \<or> rq_cmd q = cmd_update),
     if su_bkp_count u = 0 then process_not_backed_up_save_unit (su_main_request u) err
     else run_all [
       update_copy_count_of_owned_uuid_in_user_json (su_uuid u) (su_bkp_count u),
       remove_from_backup_units (su_main_request u) (if su_type u = Master then rq_request_id q else i),
       reduce_router_save_input_size (su_size u),
       erase_unit i],
     process_pending_save_requests]))"

definition handle_canceled_save_unit :: "ID32 \<Rightarrow> string \<Rightarrow> action" where
  "handle_canceled_save_unit i err = run_all [
     upd_unit i (\<lambda>u. u\<lparr>su_fail_count := su_fail_count u + 1\<rparr>),
     with_unit i (\<lambda>u.
       if su_fail_count u = max_save_fail_count then handle_failed_save_unit i err
       else post_router (\<lambda>out. out\<lparr>kr_cmd := su_cmd u, kr_request_id := i, kr_uuid := su_uuid u\<rparr>))]"

end
