(* ===== verification/Kernel_Copy.thy ===== *)
theory Kernel_Copy
  imports Kernel_Save
begin

text \<open>
  Copies and deletions. A reference that is used after its request was erased is a read of freed memory:
  \<open>with_req\<close> crashes there.
\<close>

section \<open>Starting a copy\<close>

definition handle_copy_of_each_piece :: "ID32 \<Rightarrow> string \<Rightarrow> string \<Rightarrow> action" where
  "handle_copy_of_each_piece r old new1 = kernel_get_request_id (\<lambda>i. parse_uuid old (\<lambda>u. with_req r (\<lambda>q. run_all [
     put_req i (request_dated i u Requested cmd_copy T_kernel (rq_data_version q) (rq_last_updated q) (rq_expire_date q)),
     upd_req i (\<lambda>c. c\<lparr>rq_parent_req_id := rq_request_id q\<rparr>),
     parse_uuid new1 (\<lambda>v. upd_req i (\<lambda>c. c\<lparr>rq_copy_uuid := v\<rparr>)),
     text_package new1 (\<lambda>p. upd_req i (\<lambda>c. c\<lparr>rq_data := p\<rparr>)),
     upd_req r (\<lambda>q. q\<lparr>rq_units := insort_insert i (rq_units q), rq_backup_units := insort_insert i (rq_backup_units q)\<rparr>),
     with_req i (\<lambda>c. post_storage_copy_request i (rq_data c))])))"

definition handle_copy_of_master_object :: "ID32 \<Rightarrow> action" where
  "handle_copy_of_master_object r = with_req r (\<lambda>q. run_all [
     check (\<lambda>_. rq_cmd q = cmd_copy),
     need Assertion_violation (rq_master_json q) (\<lambda>m. json_package m (\<lambda>pkg.
       if rq_aes_key q = [] \<and> rq_aes_iv q = [] then run_all [
         upd_req r (\<lambda>q. q\<lparr>rq_data := pkg\<rparr>),
         if rq_local q then post_storage_save_request (rq_request_id q) pkg (rq_copy_uuid q)
         else look k_data_copy_count (\<lambda>n. backup_data (rq_request_id q) (rq_copy_uuid q) cmd_save (ucast n) pkg (rq_data_version q) q)]
       else post_key_manager_encrypt_request r pkg (rq_aes_key q) (rq_aes_iv q)))])"

definition handle_copy_of_encrypted_master_object :: "kernel_key_manager_package \<Rightarrow> ID32 \<Rightarrow> action" where
  "handle_copy_of_encrypted_master_object inp r = with_req r (\<lambda>q. run_all [
     check (\<lambda>_. rq_cmd q = cmd_copy), upd_req r (\<lambda>q. q\<lparr>rq_data := sliced inp\<rparr>),
     if rq_local q then post_storage_save_request (rq_request_id q) inp (rq_copy_uuid q)
     else look k_data_copy_count (\<lambda>n. backup_data (rq_request_id q) (rq_copy_uuid q) cmd_save (ucast n) (sliced inp) (rq_data_version q) q)])"

text \<open>The copied pieces are entered in the new master object one by one, under new names.\<close>

definition enter_piece :: "string \<Rightarrow> json \<Rightarrow> jobj \<Rightarrow> jobj" where
  "enter_piece n v m = (case get_object ''pieces'' m of None \<Rightarrow> m | Some p \<Rightarrow> obj_set ''pieces'' (J_obj (obj_set n v p)) m)"

definition copy_piece :: "ID32 \<Rightarrow> jobj \<Rightarrow> string \<Rightarrow> action" where
  "copy_piece r p n = create_random (\<lambda>u. look (uuid_text u) (\<lambda>nu. run_all [
     handle_copy_of_each_piece r n nu,
     upd_req r (\<lambda>q. q\<lparr>rq_master_json := map_option (enter_piece nu (case get_object n p of None \<Rightarrow> J_null | Some o1 \<Rightarrow> J_obj o1)) (rq_master_json q)\<rparr>)]))"

definition generate_copy_request_for_pieces :: "ID32 \<Rightarrow> action" where
  "generate_copy_request_for_pieces r = with_req r (\<lambda>q. run_all [
     check (\<lambda>_. rq_cmd q = cmd_copy),
     need Assertion_violation (rq_master_json q) (\<lambda>m. need Assertion_violation (rq_old_master_json q) (\<lambda>old.
       need Assertion_violation (get_object ''pieces'' m) (\<lambda>nm. need Assertion_violation (get_object ''pieces'' old) (\<lambda>p.
         if p = [] then handle_copy_of_master_object r
         else each (map fst p) (copy_piece r p)))))])"

definition process_copy_request :: "ID32 \<Rightarrow> action" where
  "process_copy_request r = with_req r (\<lambda>q. run_all [
     check (\<lambda>_. rq_cmd q = cmd_copy),
     need Assertion_violation (rq_old_master_json q) (\<lambda>old. look k_lib (\<lambda>L.
       need Poco_error (get_unsigned L 64 ''size'' old) (\<lambda>n. need Poco_error (get_text L ''content_type'' old) (\<lambda>ct. run_all [
         upd_req r (\<lambda>q. q\<lparr>rq_master_json := Some (create_master_json_template q n ct)\<rparr>),
         only_if (obj_has ''content'' old) (need Poco_error (get_text L ''content'' old) (\<lambda>c.
           upd_req r (\<lambda>q. q\<lparr>rq_master_json := map_option (obj_set ''content'' (J_str c)) (rq_master_json q)\<rparr>))),
         upd_req r (\<lambda>q. q\<lparr>rq_backup_units := insort_insert (rq_request_id q) (rq_backup_units q)\<rparr>),
         generate_copy_request_for_pieces r]))))])"

section \<open>Confirmations of a copy\<close>

definition remove_id_from_parent_units :: "ID32 \<Rightarrow> ID32 \<Rightarrow> action" where
  "remove_id_from_parent_units p i = run_all [
     upd_req p (\<lambda>q. q\<lparr>rq_units := remove1 i (rq_units q)\<rparr>),
     with_req p (\<lambda>q. only_if (rq_units q = []) (handle_copy_of_master_object p))]"

definition handle_first_copy_success_for_master_object :: "ID32 \<Rightarrow> action" where
  "handle_first_copy_success_for_master_object r = with_req r (\<lambda>q. run_all [
     check (\<lambda>_. rq_updated q = 1),
     send_ims_copy_succeeded_response r,
     add_shared_info_in_user_json r (rq_aes_key q) (rq_aes_iv q) 1,
     look k_data_copy_count (\<lambda>n.
       if n = 1 then run_all [only_if (\<not> rq_local q) (post_router_clear_request (rq_request_id q)), erase_req (rq_request_id q)]
       else only_if (rq_local q) (backup_data (rq_request_id q) (rq_copy_uuid q) cmd_save (ucast n - 1) (rq_data q) (rq_data_version q) q))])"

text \<open>The last line reads the request after \<open>remove_from_backup_units\<close>, which may have erased it.\<close>

definition handle_copy_success_for_master_object :: "ID32 \<Rightarrow> action" where
  "handle_copy_success_for_master_object r = run_all [
     with_req r (\<lambda>q. run_all [check (\<lambda>_. rq_typ q = T_ims), check (\<lambda>_. rq_cmd q = cmd_copy)]),
     upd_req r (\<lambda>q. q\<lparr>rq_updated := rq_updated q + 1\<rparr>),
     with_req r (\<lambda>q.
       if rq_updated q = 1 then handle_first_copy_success_for_master_object r
       else run_all [
         update_copy_count_of_owned_uuid_in_user_json (rq_copy_uuid q) (ucast (rq_updated q)),
         look k_data_copy_count (\<lambda>n. only_if (n = rq_updated q) (run_all [
           remove_from_backup_units r (rq_request_id q),
           with_req r (\<lambda>q. post_router_clear_request (rq_request_id q))]))])]"

definition handle_first_copy_success_for_piece :: "ID32 \<Rightarrow> ID32 \<Rightarrow> action" where
  "handle_first_copy_success_for_piece r p = with_req r (\<lambda>q. run_all [
     check (\<lambda>_. rq_updated q = 1),
     upd_req p (\<lambda>p. p\<lparr>rq_saved_units := insort_insert (rq_copy_uuid q) (rq_saved_units p)\<rparr>),
     add_new_piece_of_copy_req_in_user_json r,
     remove_id_from_parent_units p (rq_request_id q),
     look k_data_copy_count (\<lambda>n.
       if n = 1 then erase_req (rq_request_id q)
       else only_if (rq_local q) (post_router_copy_request r))])"

definition handle_copy_success_for_piece :: "ID32 \<Rightarrow> action" where
  "handle_copy_success_for_piece r = run_all [
     with_req r (\<lambda>q. run_all [check (\<lambda>_. rq_typ q = T_kernel), check (\<lambda>_. rq_cmd q = cmd_copy)]),
     upd_req r (\<lambda>q. q\<lparr>rq_updated := rq_updated q + 1\<rparr>),
     with_req r (\<lambda>q. run_all [
       check (has_req (rq_parent_req_id q)),
       if rq_updated q = 1 then handle_first_copy_success_for_piece r (rq_parent_req_id q)
       else run_all [
         update_copy_count_of_owned_uuid_in_user_json (rq_copy_uuid q) (ucast (rq_updated q)),
         look k_data_copy_count (\<lambda>n. only_if (n = rq_updated q) (run_all [
           remove_from_backup_units (rq_parent_req_id q) (rq_request_id q),
           post_router_clear_request (rq_request_id q),
           erase_req (rq_request_id q)]))]])]"

definition handle_copy_success_for_remote_request :: "ID32 \<Rightarrow> action" where
  "handle_copy_success_for_remote_request r = with_req r (\<lambda>q. run_all [
     check (\<lambda>_. rq_typ q = T_router), check (\<lambda>_. rq_cmd q = cmd_copy), check (\<lambda>_. has_message (rq_data q)),
     post_router (\<lambda>out. out\<lparr>kr_uuid := rq_uuid q, kr_request_id := rq_request_id q, kr_cmd := cmd_copy_succeeded\<rparr>),
     c_message (rq_data q) (\<lambda>t. parse_uuid t (\<lambda>u. add_new_uuid_in_device_json q u (rq_data_version q))),
     erase_req (rq_request_id q)])"

definition handle_router_copy_succeeded :: "ID32 \<Rightarrow> action" where
  "handle_router_copy_succeeded i = if_req i (\<lambda>q. run_all [
     check (\<lambda>_. rq_cmd q = cmd_copy), check (\<lambda>_. rq_typ q = T_kernel), handle_copy_success_for_piece i])"

definition handle_storage_copy_succeeded :: "ID32 \<Rightarrow> action" where
  "handle_storage_copy_succeeded i = if_req i (\<lambda>q. run_all [
     check (\<lambda>_. rq_cmd q = cmd_copy),
     if rq_typ q = T_kernel then run_all [check (\<lambda>_. rq_updated q = 0), handle_copy_success_for_piece i]
     else run_all [check (\<lambda>_. rq_typ q = T_router), handle_copy_success_for_remote_request i]])"

definition handle_storage_no_space_copy :: "kernel_storage_package \<Rightarrow> action" where
  "handle_storage_no_space_copy inp = run_all [
     check (\<lambda>_. ks_cmd inp = cmd_no_space),
     if_req (ks_request_id inp) (\<lambda>_. run_all [
       upd_req (ks_request_id inp) (\<lambda>q. q\<lparr>rq_local := False\<rparr>),
       post_router_copy_request (ks_request_id inp)])]"

definition handle_ims_copy_request :: "ims_kernel_package \<Rightarrow> action" where
  "handle_ims_copy_request inp = run_all [
     check (\<lambda>_. im_cmd inp = cmd_copy),
     kernel_get_request_id (\<lambda>i. run_all [
       no_ims i, set_ims i (im_request_id inp), no_req i,
       new_request i (im_uuid inp) Lookup_in_db cmd_copy T_ims,
       create_random (\<lambda>u. look (should_save_in_local Save_default) (\<lambda>l.
         upd_req i (\<lambda>q. q\<lparr>rq_copy_uuid := u, rq_expire_date := im_expire_date inp, rq_local := l\<rparr>))),
       post_storage_look_up_request i True])]"

section \<open>Deletion\<close>

definition process_delete_request :: "ID32 \<Rightarrow> action" where
  "process_delete_request r = run_all [
     remove_unnecessary_uuids r,
     with_req r (\<lambda>q. if rq_local q then post_storage_delete_request r else post_router_delete_request r)]"

text \<open>The answer \<^verbatim>\<open>deleted\<close> once no unit is left.\<close>

definition answer_deleted :: "ID32 \<Rightarrow> action" where
  "answer_deleted p = with_req p (\<lambda>q. only_if (rq_units q = []) (look (ims_id (rq_request_id q)) (\<lambda>i. on_some i (\<lambda>i. run_all [
     post_ims (\<lambda>out. out\<lparr>im_request_id := i, im_cmd := cmd_deleted, im_uuid := rq_uuid q\<rparr>),
     erase_ims (rq_request_id q)]))))"

definition handle_deleted_response_for_kernel_request :: "ID32 \<Rightarrow> action" where
  "handle_deleted_response_for_kernel_request r = with_req r (\<lambda>q. run_all [
     check (\<lambda>_. rq_typ q = T_kernel),
     if_req (rq_parent_req_id q) (\<lambda>_. run_all [
       upd_req (rq_parent_req_id q) (\<lambda>p. p\<lparr>rq_units := remove1 (rq_request_id q) (rq_units p)\<rparr>),
       answer_deleted (rq_parent_req_id q)])])"

definition handle_deleted_response_for_ims_request :: "ID32 \<Rightarrow> action" where
  "handle_deleted_response_for_ims_request r = with_req r (\<lambda>q. run_all [
     check (\<lambda>_. rq_typ q = T_ims),
     upd_req r (\<lambda>q. q\<lparr>rq_units := remove1 (rq_request_id q) (rq_units q)\<rparr>),
     answer_deleted r])"

definition handle_storage_deleted_response_for_kernel_request :: "ID32 \<Rightarrow> action" where
  "handle_storage_deleted_response_for_kernel_request r = run_all [
     with_req r (\<lambda>q. check (\<lambda>_. rq_typ q = T_kernel)),
     upd_req r (\<lambda>q. q\<lparr>rq_updated := rq_updated q + 1\<rparr>),
     handle_deleted_response_for_kernel_request r,
     post_router_delete_request r]"

definition handle_storage_deleted_response_for_ims_request :: "ID32 \<Rightarrow> action" where
  "handle_storage_deleted_response_for_ims_request r = run_all [
     with_req r (\<lambda>q. check (\<lambda>_. rq_typ q = T_ims)),
     upd_req r (\<lambda>q. q\<lparr>rq_updated := rq_updated q + 1\<rparr>),
     handle_deleted_response_for_ims_request r,
     with_req r (\<lambda>q. notify_update (rq_uuid q) cmd_del (rq_data_version q)),
     post_router_delete_request r]"

definition handle_storage_deleted_for_external_request :: "ID32 \<Rightarrow> action" where
  "handle_storage_deleted_for_external_request r = with_req r (\<lambda>q. run_all [
     check (\<lambda>_. rq_typ q = T_router), check (\<lambda>_. rq_cmd q = cmd_del),
     post_router (\<lambda>out. out\<lparr>kr_cmd := cmd_deleted, kr_uuid := rq_uuid q, kr_request_id := rq_request_id q\<rparr>),
     notify_update (rq_uuid q) cmd_del (rq_data_version q),
     erase_req (rq_request_id q)])"

definition handle_storage_deleted :: "kernel_storage_package \<Rightarrow> action" where
  "handle_storage_deleted inp = run_all [
     check (\<lambda>_. ks_cmd inp = cmd_deleted),
     if_req (ks_request_id inp) (\<lambda>q. run_all [
       check (\<lambda>_. rq_cmd q = cmd_del),
       mark_uuid_as_deleted_in_device_json (rq_uuid q) (rq_data_version q) (rq_last_updated q),
       (case rq_typ q of
          T_ims \<Rightarrow> handle_storage_deleted_response_for_ims_request (ks_request_id inp)
        | T_kernel \<Rightarrow> handle_storage_deleted_response_for_kernel_request (ks_request_id inp)
        | T_router \<Rightarrow> handle_storage_deleted_for_external_request (ks_request_id inp)
        | _ \<Rightarrow> skip)])]"

definition handle_router_deleted :: "kernel_router_package \<Rightarrow> action" where
  "handle_router_deleted inp = run_all [
     check (\<lambda>_. kr_cmd inp = cmd_deleted),
     if_req (kr_request_id inp) (\<lambda>q. run_all [
       check (\<lambda>_. rq_cmd q = cmd_del),
       if rq_typ q = T_ims then handle_deleted_response_for_ims_request (kr_request_id inp)
       else run_all [check (\<lambda>_. rq_typ q = T_kernel), handle_deleted_response_for_kernel_request (kr_request_id inp)],
       upd_req (kr_request_id inp) (\<lambda>q. q\<lparr>rq_updated := rq_updated q + 1\<rparr>)])]"

definition handle_router_delete_request :: "kernel_router_package \<Rightarrow> action" where
  "handle_router_delete_request inp = run_all [
     check (\<lambda>_. kr_cmd inp = cmd_del),
     look (\<lambda>s. k_in_storage s (kr_uuid inp)) (\<lambda>here. run_all [
       only_if here (run_all [
         mark_uuid_as_deleted_in_device_json (kr_uuid inp) (kr_data_version inp) (kr_last_updated inp),
         notify_update (kr_uuid inp) cmd_del (kr_data_version inp)]),
       upd (\<lambda>s. s\<lparr>k_jobs := k_jobs s @ [Delete_job (kr_request_id inp) (kr_uuid inp) here]\<rparr>)])]"

definition handle_ims_delete_request :: "ims_kernel_package \<Rightarrow> action" where
  "handle_ims_delete_request inp = run_all [
     check (\<lambda>_. im_cmd inp = cmd_del), check (\<lambda>_. im_uuid inp \<noteq> 0),
     kernel_get_request_id (\<lambda>i. run_all [
       no_ims i, set_ims i (im_request_id inp), no_req i,
       new_request i (im_uuid inp) Lookup_in_db cmd_del T_ims,
       upd_req i (\<lambda>q. q\<lparr>rq_keep_chunks := im_keep_chunks inp\<rparr>),
       post_storage_look_up_request i True])]"

end
