(* ===== verification/Kernel_Get.thy ===== *)
theory Kernel_Get
  imports Kernel_Copy
begin

text \<open>
  Getting a file: the look-up in the storage and on the network, the master object, the pieces and their
  order, media streams, and the failures of every kind of request.
\<close>

section \<open>Failed requests\<close>

text \<open>The loop takes the oldest pending request (the back of the list) while there is room.\<close>

primrec router_get_loop :: "ID32 list \<Rightarrow> action" where
  "router_get_loop [] = skip"
| "router_get_loop (i # is) = look (\<lambda>s. k_router_get_input_size s < k_max_router_get_input_size s) (\<lambda>room. only_if room (run_all [
     if_req i (\<lambda>q. run_all [
       upd (\<lambda>s. s\<lparr>k_router_get_input_size := k_router_get_input_size s + rq_size q\<rparr>),
       post_router_get_request i]),
     upd (\<lambda>s. s\<lparr>k_pending_router_get_reqs := rev is\<rparr>),
     router_get_loop is]))"

definition process_router_pending_get_requests :: action where
  "process_router_pending_get_requests = look k_pending_router_get_reqs (\<lambda>is. router_get_loop (rev is))"

definition handle_failed_kernel_get_request :: "ID32 \<Rightarrow> action" where
  "handle_failed_kernel_get_request r = with_req r (\<lambda>q. run_all [
     check (\<lambda>_. rq_typ q = T_kernel),
     if_req (rq_parent_req_id q) (\<lambda>p. look (uuid_text (rq_uuid p)) (\<lambda>n. look (uuid_text (rq_uuid q)) (\<lambda>c.
       fail_package cmd_get_fail (rq_uuid p) (''Getting file failed: uuid='' @ n
         @ ''. There is a missing chunk in the requested object: chunk_uuid = '' @ c) send_ims_response))),
     reduce_router_get_input_size (rq_size q),
     process_router_pending_get_requests])"

definition handle_failed_ims_get_request :: "ID32 \<Rightarrow> action" where
  "handle_failed_ims_get_request r = with_req r (\<lambda>q. run_all [
     check (\<lambda>_. rq_typ q = T_ims),
     if_req (rq_request_id q) (\<lambda>p. look (uuid_text (rq_uuid q)) (\<lambda>n.
       let answer = (\<lambda>m. fail_package cmd_get_fail (rq_uuid p) (''Getting file failed: uuid='' @ n @ ''.'' @ m) send_ims_response) in
       if has_message (rq_data q) then c_message (rq_data q) (\<lambda>m. answer (CHR '' '' # m)) else answer []))])"

definition handle_failed_get_request :: "ID32 \<Rightarrow> action" where
  "handle_failed_get_request r = with_req r (\<lambda>q.
     case rq_typ q of T_kernel \<Rightarrow> handle_failed_kernel_get_request r | T_ims \<Rightarrow> handle_failed_ims_get_request r
     | _ \<Rightarrow> raise_error Assertion_violation)"

definition handle_failed_kernel_copy_request :: "ID32 \<Rightarrow> action" where
  "handle_failed_kernel_copy_request r = with_req r (\<lambda>q. run_all [
     check (\<lambda>_. rq_typ q = T_kernel), check (has_req (rq_parent_req_id q)),
     only_if (rq_updated q = 0) (send_ims_copy_failed_response (rq_parent_req_id q) ''Failed to copy.''),
     remove_from_backup_units (rq_parent_req_id q) (rq_request_id q),
     erase_req (rq_request_id q)])"

definition handle_failed_ims_copy_request :: "ID32 \<Rightarrow> action" where
  "handle_failed_ims_copy_request r = with_req r (\<lambda>q.
     if rq_updated q = 0 then send_ims_copy_failed_response r ''Failed to copy.''
     else remove_from_backup_units r (rq_request_id q))"

definition handle_failed_copy_request :: "ID32 \<Rightarrow> action" where
  "handle_failed_copy_request r = with_req r (\<lambda>q. run_all [
     check (\<lambda>_. rq_cmd q = cmd_copy), check (\<lambda>_. rq_typ q = T_kernel \<or> rq_typ q = T_ims),
     if rq_typ q = T_kernel then handle_failed_kernel_copy_request r
     else if rq_st q = Requested then assert_req (rq_parent_req_id q) (\<lambda>p. run_all [
       erase_req (rq_request_id q),
       send_ims_copy_failed_response (rq_parent_req_id q) ''Failed to copy.'',
       remove_from_backup_units (rq_parent_req_id q) (rq_request_id p)])
     else handle_failed_ims_copy_request r])"

definition handle_failed_sync_request :: "ID32 \<Rightarrow> action" where
  "handle_failed_sync_request r = with_req r (\<lambda>q. run_all [check (\<lambda>_. rq_cmd q = cmd_get_journal_info), erase_req (rq_request_id q)])"

definition handle_failed_delete_request :: "ID32 \<Rightarrow> action" where
  "handle_failed_delete_request r = with_req r (\<lambda>q. run_all [
     check (\<lambda>_. rq_cmd q = cmd_del),
     only_if (rq_typ q = T_ims)
       (if rq_st q = Requested then assert_req (rq_parent_req_id q) (\<lambda>_. run_all [
          send_ims_delete_failed_response (rq_parent_req_id q), erase_req (rq_parent_req_id q)])
        else send_ims_delete_failed_response r),
     erase_req (rq_request_id q)])"

definition handle_failed_ims_update_request :: "ID32 \<Rightarrow> action" where
  "handle_failed_ims_update_request r = with_req r (\<lambda>q. run_all [
     check (\<lambda>_. rq_cmd q = cmd_update), check (\<lambda>_. rq_typ q = T_ims), check (\<lambda>_. rq_st q = Requested),
     assert_req (rq_parent_req_id q) (\<lambda>_. run_all [
       send_ims_update_fail_response (rq_parent_req_id q) ''UUID is not found.'',
       erase_req (rq_request_id q), erase_req (rq_parent_req_id q)])])"

definition handle_failed_request :: "ID32 \<Rightarrow> action" where
  "handle_failed_request r = run_all [
     with_req r (\<lambda>q. run_all [
       check (\<lambda>_. rq_typ q \<noteq> T_router),
       if rq_cmd q = cmd_get then handle_failed_get_request r
       else if rq_cmd q = cmd_send_to_peer then handle_failed_send_to_peer_request (rq_request_id q)
       else if rq_cmd q = cmd_on_update_register then handle_failed_on_update_register_request r []
       else if rq_cmd q = cmd_on_update_unregister then look (uuid_text (rq_uuid q)) (\<lambda>n.
         handle_failed_on_update_unregister_request r (''Listener not found for: '' @ n))
       else if rq_cmd q = cmd_copy then handle_failed_copy_request r
       else if rq_cmd q = cmd_del then handle_failed_delete_request r
       else if rq_cmd q = cmd_get_journal_info then handle_failed_sync_request r
       else if rq_cmd q = cmd_update then
         (if has_message (rq_data q) then c_message (rq_data q) (send_ims_update_fail_response r) else send_ims_update_fail_response r [])
       else skip]),
     process_pending_save_requests]"

definition handle_storage_failed :: "kernel_storage_package \<Rightarrow> action" where
  "handle_storage_failed inp = look (\<lambda>s. k_save_units s (ks_request_id inp)) (\<lambda>x. case x of
     Some _ \<Rightarrow> run_all [check (\<lambda>_. has_message inp), c_message inp (handle_canceled_save_unit (ks_request_id inp))]
   | None \<Rightarrow> if_req (ks_request_id inp) (\<lambda>_. handle_failed_request (ks_request_id inp)))"

section \<open>Pieces\<close>

definition max_get_count :: nat where
  "max_get_count = 2"

definition set_piece_key :: "ID32 \<Rightarrow> ID32 \<Rightarrow> action" where
  "set_piece_key r p = with_req p (\<lambda>p. with_req r (\<lambda>q. need Poco_error (rq_master_json p) (\<lambda>m.
     need Poco_error (get_object ''pieces'' m) (\<lambda>ps. look (uuid_text (rq_uuid q)) (\<lambda>n. need Poco_error (get_object n ps) (\<lambda>o1. look k_lib (\<lambda>L. run_all [
       if obj_has ''aes_iv'' o1 then need Poco_error (get_text L ''aes_iv'' o1) (\<lambda>t. upd_req r (\<lambda>q. q\<lparr>rq_aes_iv := t\<rparr>))
       else upd_req r (\<lambda>q. q\<lparr>rq_aes_iv := rq_aes_iv p\<rparr>),
       if obj_has ''aes_key'' o1 then need Poco_error (get_text L ''aes_key'' o1) (\<lambda>t. upd_req r (\<lambda>q. q\<lparr>rq_aes_key := t\<rparr>))
       else upd_req r (\<lambda>q. q\<lparr>rq_aes_key := rq_aes_key p\<rparr>)])))))))"

definition construct_get_request_for_piece :: "uuid \<Rightarrow> ID32 \<Rightarrow> ID32 \<Rightarrow> action" where
  "construct_get_request_for_piece u p n = kernel_get_request_id (\<lambda>i. with_req p (\<lambda>q. run_all [
     check (\<lambda>_. rq_cmd q = cmd_get),
     new_request i u Lookup_in_db (if rq_cmd q = cmd_update then cmd_save else rq_cmd q) T_kernel,
     upd_req i (\<lambda>r. r\<lparr>rq_parent_req_id := rq_request_id q, rq_cache := rq_cache q, rq_size := n\<rparr>),
     set_piece_key i p,
     upd_req p (\<lambda>q. q\<lparr>rq_units := insort_insert i (rq_units q)\<rparr>)]))"

definition post_look_up_request_for_piece :: "uuid \<Rightarrow> ID32 \<Rightarrow> u64 \<Rightarrow> action" where
  "post_look_up_request_for_piece u p n = kernel_get_request_id (\<lambda>i. with_req p (\<lambda>q. run_all [
     check (\<lambda>_. rq_cmd q = cmd_save \<or> rq_cmd q = cmd_get \<or> rq_cmd q = cmd_update),
     new_request i u Lookup_in_db (if rq_cmd q = cmd_update then cmd_save else rq_cmd q) T_kernel,
     set_piece_key i p,
     upd_req i (\<lambda>r. r\<lparr>rq_parent_req_id := rq_request_id q, rq_cache := rq_cache q, rq_size := ucast n,
       rq_content_type := rq_content_type q\<rparr>),
     post_storage_look_up_request i True]))"

definition prepare_file_write :: "jobj \<Rightarrow> string \<Rightarrow> action" where
  "prepare_file_write m f = run_all [
     write_file f [],
     look k_lib (\<lambda>L.
       if obj_has ''content'' m then need Poco_error (get_text L ''content'' m) (\<lambda>c. write_file f (kl_b64_decode L c))
       else need Poco_error (get_unsigned L 64 ''size'' m) (\<lambda>n. write_file f (prepare_file n)))]"

definition post_storage_next_piece_get_request :: "ID32 \<Rightarrow> action" where
  "post_storage_next_piece_get_request r = with_req r (\<lambda>q. case rq_units q of
     [] \<Rightarrow> skip
   | i # is \<Rightarrow> run_all [
       check (has_req i), post_storage_look_up_request i True,
       upd_req r (\<lambda>q. q\<lparr>rq_units := is\<rparr>)])"

definition start_getting_pieces :: "ID32 \<Rightarrow> action" where
  "start_getting_pieces r = with_req r (\<lambda>q. need Assertion_violation (rq_master_json q) (\<lambda>m. run_all [
     check (\<lambda>_. obj_has ''pieces'' m),
     temporary_file (\<lambda>f. run_all [
       upd_req r (\<lambda>q. q\<lparr>rq_response_file_path := Some f, rq_file_path := f\<rparr>),
       prepare_file_write m f,
       need Assertion_violation (get_object ''pieces'' m) (\<lambda>ps.
         if ps = [] then send_ims_requested_data r
         else run_all [
           each ps (\<lambda>e. case snd e of
             J_obj o1 \<Rightarrow> look k_lib (\<lambda>L. need Poco_error (get_unsigned L 32 ''size'' o1) (\<lambda>n.
               parse_uuid (fst e) (\<lambda>u. construct_get_request_for_piece u r (of_nat n))))
           | _ \<Rightarrow> raise_error Poco_error),
           each [0..<max_get_count] (\<lambda>_. post_storage_next_piece_get_request r)])])]))"

definition get_start_position :: "request \<Rightarrow> uuid \<Rightarrow> (nat \<Rightarrow> action) \<Rightarrow> action" where
  "get_start_position q u k = need Assertion_violation (rq_master_json q) (\<lambda>m. need Assertion_violation (get_object ''pieces'' m) (\<lambda>p.
     look (uuid_text u) (\<lambda>n. need Assertion_violation (get_object n p) (\<lambda>o1. run_all [
       check (\<lambda>_. obj_has ''from'' o1 \<and> obj_has ''size'' o1),
       look (\<lambda>s. get_unsigned (k_lib s) 64 ''from'' o1) (\<lambda>a. need Poco_error a k)]))))"

text \<open>The members of \<^verbatim>\<open>request\<close> that work on the pieces of the master object.\<close>

definition remove_uuid_from_master_json :: "uuid \<Rightarrow> ID32 \<Rightarrow> action" where
  "remove_uuid_from_master_json u r = with_req r (\<lambda>q. need Assertion_violation (rq_master_json q) (\<lambda>m.
     need Assertion_violation (get_object ''pieces'' m) (\<lambda>p. look (uuid_text u) (\<lambda>n. run_all [
       check (\<lambda>_. obj_has n p),
       upd_req r (\<lambda>q. q\<lparr>rq_master_json := Some (obj_set ''pieces'' (J_obj (obj_remove n p)) m)\<rparr>)]))))"

definition is_master_json_empty :: "ID32 \<Rightarrow> (bool \<Rightarrow> action) \<Rightarrow> action" where
  "is_master_json_empty r k = with_req r (\<lambda>q. need Assertion_violation (rq_master_json q) (\<lambda>m.
     need Assertion_violation (get_object ''pieces'' m) (\<lambda>p. k (p = []))))"

definition write_data_to_stream :: "'a package_scheme \<Rightarrow> ID32 \<Rightarrow> uuid \<Rightarrow> action" where
  "write_data_to_stream d r u = with_req r (\<lambda>q. get_start_position q u (\<lambda>a. run_all [
     check (\<lambda>_. rq_typ q = T_ims),
     look (\<lambda>s. k_files s (rq_file_path q)) (\<lambda>f. on_some f (\<lambda>f.
       must (payload_of d) (\<lambda>bs. only_if (a < 2 ^ 63) (write_file (rq_file_path q) (file_write_at a bs f))))),
     remove_uuid_from_master_json u r,
     is_master_json_empty r (\<lambda>e. only_if e (send_ims_requested_data r))]))"

section \<open>Streams\<close>

definition with_list :: "nat option \<Rightarrow> (chunk list \<Rightarrow> action) \<Rightarrow> action" where
  "with_list l k = need Assertion_violation l (\<lambda>a. look (\<lambda>s. k_lists s a) (\<lambda>v. must v k))"

definition upd_chunk :: "nat option \<Rightarrow> nat \<Rightarrow> (chunk \<Rightarrow> chunk) \<Rightarrow> action" where
  "upd_chunk l i f = with_list l (\<lambda>v. if i < length v then upd (\<lambda>s. s\<lparr>k_lists := (k_lists s)(the l \<mapsto> v[i := f (v ! i)])\<rparr>) else crash)"

definition new_list :: "chunk list \<Rightarrow> ID32 \<Rightarrow> action" where
  "new_list v r = look k_list_count (\<lambda>a. run_all [
     upd (\<lambda>s. s\<lparr>k_lists := (k_lists s)(a \<mapsto> v), k_list_count := Suc a\<rparr>),
     upd_req r (\<lambda>q. q\<lparr>rq_list := Some a\<rparr>)])"

definition calculate_stream_current_chunk_from_range :: "ID32 \<Rightarrow> action" where
  "calculate_stream_current_chunk_from_range r = with_req r (\<lambda>q. need Assertion_violation (rq_master_json q) (\<lambda>m.
     look (\<lambda>s. get_unsigned (k_lib s) 64 ''size'' m) (\<lambda>l. need Poco_error l (\<lambda>l. run_all [
       upd_req r (\<lambda>q. q\<lparr>rq_get_range := normalize_streaming_range (of_nat l) (rq_get_range q)\<rparr>),
       with_req r (\<lambda>q. with_list (rq_list q) (\<lambda>v.
         let (c, l) = calculate_chunks v (rq_get_range q) (rq_curr q, rq_last q) in
         upd_req r (\<lambda>q. q\<lparr>rq_curr := c, rq_last := l\<rparr>)))]))))"

text \<open>\<^verbatim>\<open>prepare_partial_chunk\<close> and one package of \<^verbatim>\<open>send_available_chunks_to_ims\<close>.\<close>

definition prepare_partial_chunk :: "request \<Rightarrow> chunk \<Rightarrow> (string \<Rightarrow> action) \<Rightarrow> action" where
  "prepare_partial_chunk q c k = look (\<lambda>s. k_files s (ch_file c)) (\<lambda>f. need Assertion_violation f (\<lambda>d.
     temporary_file (\<lambda>t. run_all [write_file t (partial_chunk (rq_get_range q) c d), k t])))"

definition send_chunk :: "request \<Rightarrow> uuid \<Rightarrow> chunk \<Rightarrow> action" where
  "send_chunk q u c =
     (let post = (\<lambda>f. look (ims_id (rq_request_id q)) (\<lambda>i.
        run_all [
          only_if (i = None) (set_ims (rq_request_id q) 0),
          post_ims (\<lambda>_. ims_kernel_package0\<lparr>im_uuid := u, im_response_file_path := Some f, im_content_type := rq_content_type q,
            im_cmd := cmd_get_data, im_request_id := (case i of None \<Rightarrow> 0 | Some i \<Rightarrow> i)\<rparr>)])) in
      if ch_start c < fst (rq_get_range q) \<or> ch_start c + ch_size c - 1 > snd (rq_get_range q)
      then prepare_partial_chunk q c post else post (ch_file c))"

primrec send_chunks_loop :: "nat \<Rightarrow> ID32 \<Rightarrow> uuid \<Rightarrow> action" where
  "send_chunks_loop 0 r u = skip"
| "send_chunks_loop (Suc n) r u = with_req r (\<lambda>q. only_if (rq_curr q < rq_last q) (with_list (rq_list q) (\<lambda>v.
     if unat (rq_curr q) < length v then only_if (ch_available (v ! unat (rq_curr q))) (run_all [
       send_chunk q u (v ! unat (rq_curr q)),
       upd_req r (\<lambda>q. q\<lparr>rq_curr := rq_curr q + 1\<rparr>),
       send_chunks_loop n r u])
     else crash)))"

primrec next_chunks_loop :: "nat \<Rightarrow> u64 \<Rightarrow> ID32 \<Rightarrow> action" where
  "next_chunks_loop 0 i r = skip"
| "next_chunks_loop (Suc n) i r = with_req r (\<lambda>q. only_if (i < rq_last q) (with_list (rq_list q) (\<lambda>v.
     if unat i < length v then run_all [
       only_if (\<not> ch_requested (v ! unat i)) (run_all [
         check (\<lambda>_. \<not> ch_available (v ! unat i)),
         post_look_up_request_for_piece (ch_uuid (v ! unat i)) r (ch_size (v ! unat i)),
         upd_chunk (rq_list q) (unat i) (\<lambda>c. c\<lparr>ch_requested := True\<rparr>)]),
       next_chunks_loop n (i + 1) r]
     else crash)))"

definition post_storage_next_streaming_chunk_get_request :: "ID32 \<Rightarrow> action" where
  "post_storage_next_streaming_chunk_get_request r = with_req r (\<lambda>q. with_list (rq_list q) (\<lambda>_. next_chunks_loop max_get_count (rq_curr q) r))"

definition send_available_chunks_to_ims :: "ID32 \<Rightarrow> uuid \<Rightarrow> action" where
  "send_available_chunks_to_ims r u = with_req r (\<lambda>q. with_list (rq_list q) (\<lambda>_. run_all [
     send_chunks_loop (unat (rq_last q) - unat (rq_curr q)) r u,
     post_storage_next_streaming_chunk_get_request r]))"

definition set_streaming_state :: "ID32 \<Rightarrow> ID32 \<Rightarrow> action" where
  "set_streaming_state orig r = with_req orig (\<lambda>o1. run_all [
     upd_req r (\<lambda>q. q\<lparr>rq_list := rq_list o1, rq_content_type := rq_content_type o1, rq_aes_iv := rq_aes_iv o1,
       rq_aes_key := rq_aes_key o1, rq_master_json := rq_master_json o1\<rparr>),
     calculate_stream_current_chunk_from_range r,
     process_stream_prepare r])"

definition with_pending :: "uuid \<Rightarrow> (ID32 list \<Rightarrow> action) \<Rightarrow> action" where
  "with_pending u k = look (\<lambda>s. k_pending_ims_get_requests s u) (\<lambda>p. need Assertion_violation p k)"

definition update_pending_stream_requests :: "ID32 \<Rightarrow> action" where
  "update_pending_stream_requests r = with_req r (\<lambda>q. with_pending (rq_uuid q) (\<lambda>ps. each ps (\<lambda>p.
     touch_req p (\<lambda>x. only_if (rq_list x = None) (set_streaming_state r p)))))"

definition process_pending_get_streaming_requests :: "ID32 \<Rightarrow> u64 \<Rightarrow> action" where
  "process_pending_get_streaming_requests r i = with_req r (\<lambda>q. with_pending (rq_uuid q) (\<lambda>ps. each ps (\<lambda>b.
     assert_req b (\<lambda>x. only_if (i = rq_curr x) (send_available_chunks_to_ims b (rq_uuid q))))))"

definition post_get_request_for_streaming_pieces :: "ID32 \<Rightarrow> action" where
  "post_get_request_for_streaming_pieces r = with_req r (\<lambda>q. with_pending (rq_uuid q) (\<lambda>ps. each ps (\<lambda>p.
     touch_req p (\<lambda>_. post_storage_next_streaming_chunk_get_request p))))"

text \<open>
  The vector is made with one temporary file per chunk, then filled; a malformed piece throws while the vector is
  already in place. \<open>fill_chunks\<close> gives what is filled before the exception, if there is one.
\<close>

definition empty_chunk :: "string \<Rightarrow> chunk" where
  "empty_chunk f = \<lparr>ch_requested = False, ch_available = False, ch_start = 0, ch_size = 0, ch_uuid = 0, ch_file = f\<rparr>"

definition fill_chunk :: "ID32 \<Rightarrow> nat \<times> string \<times> json \<Rightarrow> action" where
  "fill_chunk r = (\<lambda>(i, n, j). with_req r (\<lambda>q. parse_uuid n (\<lambda>u. run_all [
     upd_chunk (rq_list q) i (\<lambda>c. c\<lparr>ch_uuid := u\<rparr>),
     (case j of
        J_obj p \<Rightarrow> run_all [
          check (\<lambda>_. obj_has ''from'' p \<and> obj_has ''size'' p),
          look k_lib (\<lambda>L. need Poco_error (get_unsigned L 32 ''from'' p) (\<lambda>a. run_all [
            upd_chunk (rq_list q) i (\<lambda>c. c\<lparr>ch_start := of_nat a\<rparr>),
            need Poco_error (get_unsigned L 32 ''size'' p) (\<lambda>n. upd_chunk (rq_list q) i (\<lambda>c. c\<lparr>ch_size := of_nat n\<rparr>))]))]
      | _ \<Rightarrow> raise_error Poco_error)])))"

text \<open>\<^verbatim>\<open>std::sort\<close> by the start of the chunks; chunks with the same start may come out in any order, the model keeps theirs.\<close>

definition sort_streaming_chunks :: "ID32 \<Rightarrow> action" where
  "sort_streaming_chunks r = with_req r (\<lambda>q. with_list (rq_list q) (\<lambda>v.
     upd (\<lambda>s. s\<lparr>k_lists := (k_lists s)(the (rq_list q) \<mapsto> sort_key ch_start v)\<rparr>)))"

primrec temporary_files :: "nat \<Rightarrow> (string list \<Rightarrow> action) \<Rightarrow> action" where
  "temporary_files 0 k = k []"
| "temporary_files (Suc n) k = temporary_file (\<lambda>f. temporary_files n (\<lambda>fs. k (f # fs)))"

definition construct_streaming_state_from_pieces :: "ID32 \<Rightarrow> action" where
  "construct_streaming_state_from_pieces r = with_req r (\<lambda>q. need Poco_error (rq_master_json q) (\<lambda>m.
     need Assertion_violation (get_object ''pieces'' m) (\<lambda>ps. run_all [
       temporary_files (length ps) (\<lambda>fs. new_list (map empty_chunk fs) r),
       each (zip [0..<length ps] ps) (fill_chunk r),
       sort_streaming_chunks r,
       calculate_stream_current_chunk_from_range r,
       process_stream_prepare r,
       update_pending_stream_requests r])))"

definition construct_streaming_state_from_content :: "ID32 \<Rightarrow> action" where
  "construct_streaming_state_from_content r = with_req r (\<lambda>q. need Assertion_violation (rq_master_json q) (\<lambda>m. run_all [
     check (\<lambda>_. obj_has ''content'' m), check (\<lambda>_. obj_has ''size'' m),
     temporary_file (\<lambda>f. run_all [
       new_list [empty_chunk f] r,
       look k_lib (\<lambda>L. need Poco_error (get_unsigned L 32 ''size'' m) (\<lambda>n. run_all [
         with_req r (\<lambda>q. upd_chunk (rq_list q) 0 (\<lambda>c. c\<lparr>ch_size := of_nat n, ch_requested := True, ch_available := True\<rparr>)),
         write_file f [],
         need Poco_error (get_text L ''content'' m) (\<lambda>c. write_file f (kl_b64_decode L c))]))]),
     calculate_stream_current_chunk_from_range r,
     process_stream_prepare r,
     update_pending_stream_requests r]))"

definition construct_streaming_state :: "ID32 \<Rightarrow> action" where
  "construct_streaming_state r = with_req r (\<lambda>q. need Assertion_violation (rq_master_json q) (\<lambda>m.
     if obj_has ''content'' m then run_all [construct_streaming_state_from_content r, process_pending_get_streaming_requests r 0]
     else run_all [construct_streaming_state_from_pieces r, post_get_request_for_streaming_pieces r]))"

definition get_streaming_chunk_index :: "ID32 \<Rightarrow> uuid \<Rightarrow> (nat \<Rightarrow> action) \<Rightarrow> action" where
  "get_streaming_chunk_index r u k = with_req r (\<lambda>q. with_list (rq_list q) (\<lambda>v.
     let i = length (takeWhile (\<lambda>c. ch_uuid c \<noteq> u) v) in
     if i < length v then k i else raise_error Assertion_violation))"

definition handle_streaming_chunk :: "'a package_scheme \<Rightarrow> ID32 \<Rightarrow> uuid \<Rightarrow> action" where
  "handle_streaming_chunk d r u = with_req r (\<lambda>q. run_all [
     check (\<lambda>_. rq_typ q = T_ims),
     get_streaming_chunk_index r u (\<lambda>i. run_all [
       with_list (rq_list q) (\<lambda>v. must (payload_of d) (\<lambda>bs. write_file (ch_file (v ! i)) bs)),
       upd_chunk (rq_list q) i (\<lambda>c. c\<lparr>ch_available := True\<rparr>),
       process_pending_get_streaming_requests r (of_nat i)])])"

definition process_unencrypted_piece :: "'a package_scheme \<Rightarrow> ID32 \<Rightarrow> uuid \<Rightarrow> action" where
  "process_unencrypted_piece d r u = with_req r (\<lambda>q. run_all [
     check (\<lambda>_. rq_cmd q = cmd_get),
     if is_streaming_media q then handle_streaming_chunk d r u else write_data_to_stream d r u])"

section \<open>Master objects\<close>

definition is_valid_master_node :: "jobj \<Rightarrow> bool" where
  "is_valid_master_node m \<longleftrightarrow> obj_has ''pieces'' m \<and> obj_has ''content_type'' m \<and> obj_has ''size'' m"

definition set_encryption_keys_if_mls :: "ID32 \<Rightarrow> action" where
  "set_encryption_keys_if_mls r = with_req r (\<lambda>q. only_if (rq_content_type q = ''video/mls'') (run_all [
     upd_req r (\<lambda>q. q\<lparr>rq_content_type := ''video/mp2t''\<rparr>),
     need Poco_error (rq_master_json q) (\<lambda>m. run_all [
       check (\<lambda>_. obj_has ''livestream'' m),
       look (\<lambda>s. get_text (k_lib s) ''livestream'' m) (\<lambda>t. need Poco_error t (\<lambda>lu.
         get_master_info_from_user_json lu (\<lambda>p. on_some p (get_keys_from_master_info r))))])]))"

definition playlist_text :: "string \<Rightarrow> string \<Rightarrow> string" where
  "playlist_text d rec =
     (let nl = [CHR 0x0A] in
      ''#EXTM3U'' @ nl @ ''#EXT-X-VERSION:3'' @ nl @ ''#EXT-X-TARGETDURATION:'' @ d @ nl @ ''#EXT-X-MEDIA-SEQUENCE:0'' @ nl
      @ ''#EXTINF:'' @ d @ '', no desc'' @ nl @ ''/db/get?id='' @ rec @ nl @ ''#EXT-X-ENDLIST'' @ nl)"

definition send_ims_playlist_for_recording :: "ID32 \<Rightarrow> action" where
  "send_ims_playlist_for_recording r = temporary_file (\<lambda>f. run_all [
     upd_req r (\<lambda>q. q\<lparr>rq_response_file_path := Some f, rq_file_path := f\<rparr>),
     write_file f [],
     with_req r (\<lambda>q. need Poco_error (rq_master_json q) (\<lambda>m. look k_lib (\<lambda>L.
       need Poco_error (get_unsigned L 32 ''duration'' m) (\<lambda>d. need Poco_error (get_text L ''recording'' m) (\<lambda>t.
         write_file f (bytes_of (playlist_text (decimal d) t))))))),
     upd_req r (\<lambda>q. q\<lparr>rq_content_type := ''application/x-mpegurl''\<rparr>),
     send_ims_requested_data r])"

definition handle_decrypted_master_node_for_get :: "ID32 \<Rightarrow> action" where
  "handle_decrypted_master_node_for_get r = with_req r (\<lambda>q. need Assertion_violation (rq_master_json q) (\<lambda>m. run_all [
     check (\<lambda>_. is_valid_master_node m),
     if is_streaming_media q then
       if rq_content_type q = ''video/mpl'' then send_ims_playlist_for_recording r
       else run_all [set_encryption_keys_if_mls r, construct_streaming_state r]
     else start_getting_pieces r]))"

definition process_ims_update_request :: "ID32 \<Rightarrow> action" where
  "process_ims_update_request r = with_req r (\<lambda>q. need Assertion_violation (rq_old_master_json q) (\<lambda>m. increase_version m (\<lambda>v. run_all [
     upd_req r (\<lambda>q. q\<lparr>rq_data_version := v\<rparr>), process_ims_save_request r])))"

definition process_unencrypted_master_json :: "ID32 \<Rightarrow> action" where
  "process_unencrypted_master_json r = with_req r (\<lambda>q.
     if rq_cmd q = cmd_get then handle_decrypted_master_node_for_get r
     else if rq_cmd q = cmd_update then process_ims_update_request r
     else if rq_cmd q = cmd_del then process_delete_request r
     else if rq_cmd q = cmd_copy then process_copy_request r
     else skip)"

definition parse_master_object :: "'a package_scheme \<Rightarrow> ID32 \<Rightarrow> action" where
  "parse_master_object pkg r =
     (if \<not> has_message pkg then raise_error Poco_error
      else c_message pkg (\<lambda>t. look k_lib (\<lambda>L. need Poco_error (kl_parse L t) (\<lambda>m.
        if \<not> is_valid_master_node m then raise_error Poco_error
        else need Poco_error (get_text L ''content_type'' m) (\<lambda>c. with_req r (\<lambda>q.
          if rq_cmd q = cmd_get then upd_req r (\<lambda>q. q\<lparr>rq_content_type := c, rq_master_json := Some m\<rparr>)
          else run_all [
            check (\<lambda>_. rq_cmd q = cmd_update \<or> rq_cmd q = cmd_copy \<or> rq_cmd q = cmd_del),
            upd_req r (\<lambda>q. q\<lparr>rq_content_type := (if rq_content_type q = [] then c else rq_content_type q), rq_old_master_json := Some m\<rparr>)]))))))"

definition handle_unencrypted_master_object :: "'a package_scheme \<Rightarrow> ID32 \<Rightarrow> action" where
  "handle_unencrypted_master_object pkg r = with_req r (\<lambda>q. run_all [
     check (\<lambda>_. rq_typ q = T_ims),
     catching_poco (run_all [parse_master_object pkg r, process_unencrypted_master_json r])
       (run_all [
         text_package ''Master object is not valid or encrypted but key not found.'' (\<lambda>p.
           upd_req r (\<lambda>q. q\<lparr>rq_data := (rq_data q)\<lparr>p_size := p_size p, p_message := p_message p\<rparr>\<rparr>)),
         handle_failed_request r])])"

definition got_master_object :: "'a package_scheme \<Rightarrow> ID32 \<Rightarrow> action" where
  "got_master_object inp r = with_req r (\<lambda>q. run_all [
     check (\<lambda>_. rq_cmd q = cmd_get \<or> rq_cmd q = cmd_update \<or> rq_cmd q = cmd_del \<or> rq_cmd q = cmd_copy),
     check (\<lambda>_. rq_typ q = T_ims),
     look (uuid_text (rq_uuid q)) (\<lambda>n. get_master_info_from_user_json n (\<lambda>p. case p of
       None \<Rightarrow> only_if (rq_cmd q = cmd_update \<or> rq_cmd q = cmd_copy) (upd_req r (\<lambda>q. q\<lparr>rq_aes_key := [], rq_aes_iv := []\<rparr>))
     | Some u \<Rightarrow> get_keys_from_master_info r u)),
     with_req r (\<lambda>q.
       if rq_aes_key q = [] \<and> rq_aes_iv q = [] then handle_unencrypted_master_object inp r
       else post_key_manager_decrypt_request r inp (rq_aes_key q) (rq_aes_iv q))])"

definition handle_piece :: "'a package_scheme \<Rightarrow> ID32 \<Rightarrow> action" where
  "handle_piece inp r = with_req r (\<lambda>q. run_all [
     check (\<lambda>_. rq_typ q = T_kernel), check (\<lambda>_. rq_cmd q = cmd_get),
     look (has_req (rq_parent_req_id q)) (\<lambda>here.
       if \<not> here then erase_req (rq_request_id q)
       else run_all [
         post_storage_next_piece_get_request (rq_parent_req_id q),
         if rq_aes_key q = [] \<and> rq_aes_iv q = [] then run_all [
           process_unencrypted_piece inp (rq_parent_req_id q) (rq_uuid q), erase_req (rq_request_id q)]
         else post_key_manager_decrypt_request r inp (rq_aes_key q) (rq_aes_iv q)])])"

end
