(* ===== verification/Kernel_Live.thy ===== *)
theory Kernel_Live
  imports Kernel_Get
begin

text \<open>
  Livestreams: hosting, listeners, recordings and their playlists. A reference to a hosted livestream is its uuid,
  an iterator into its recordings is an index.
\<close>

definition recording_max_chunk_size :: nat where
  "recording_max_chunk_size = 1200000"

definition with_live :: "uuid \<Rightarrow> (livestream_info \<Rightarrow> action) \<Rightarrow> action" where
  "with_live u k = look (\<lambda>s. k_hosted_livestreams s u) (\<lambda>l. must l k)"

definition upd_live :: "uuid \<Rightarrow> (livestream_info \<Rightarrow> livestream_info) \<Rightarrow> action" where
  "upd_live u f = with_live u (\<lambda>l. upd (\<lambda>s. s\<lparr>k_hosted_livestreams := (k_hosted_livestreams s)(u \<mapsto> f l)\<rparr>))"

definition erase_live :: "uuid \<Rightarrow> action" where
  "erase_live u = upd (\<lambda>s. s\<lparr>k_hosted_livestreams := (k_hosted_livestreams s)(u := None)\<rparr>)"

definition with_recording :: "uuid \<Rightarrow> nat \<Rightarrow> (livestream_info \<Rightarrow> recording_info \<Rightarrow> action) \<Rightarrow> action" where
  "with_recording u j k = with_live u (\<lambda>l. if j < length (li_recordings l) then k l (li_recordings l ! j) else crash)"

definition upd_recording :: "uuid \<Rightarrow> nat \<Rightarrow> (recording_info \<Rightarrow> recording_info) \<Rightarrow> action" where
  "upd_recording u j f = with_recording u j (\<lambda>l x. upd_live u (\<lambda>l. l\<lparr>li_recordings := (li_recordings l)[j := f x]\<rparr>))"

definition find_recording :: "uuid \<Rightarrow> livestream_info \<Rightarrow> nat option" where
  "find_recording v l =
     (let i = length (takeWhile (\<lambda>x. ri_uuid x \<noteq> v) (li_recordings l)) in if i < length (li_recordings l) then Some i else None)"

section \<open>Recordings\<close>

definition add_livestream_chunk_to_recording :: "uuid \<Rightarrow> nat \<Rightarrow> uuid \<Rightarrow> action" where
  "add_livestream_chunk_to_recording u j v = look k_lib (\<lambda>L. with_recording u j (\<lambda>l x.
     need Poco_error (ri_master x) (\<lambda>m. need Poco_error (get_unsigned L 64 ''size'' m) (\<lambda>n.
       let m = obj_set ''size'' (J_num (uint (of_nat n + ucast (li_rec_chunk_size l) :: u64))) m;
           p = [(''from'', J_num (int n)), (''size'', J_num (uint (li_rec_chunk_size l)))] in run_all [
       upd_recording u j (\<lambda>x. x\<lparr>ri_master := Some m\<rparr>),
       need Poco_error (get_object ''pieces'' m) (\<lambda>ps. look (uuid_text v) (\<lambda>t.
         let m = obj_set ''pieces'' (J_obj (obj_set t (J_obj p) ps)) m in run_all [
         upd_recording u j (\<lambda>x. x\<lparr>ri_master := Some m\<rparr>),
         need Poco_error (ri_playlist x) (\<lambda>pl. need Poco_error (get_text L ''recording'' pl) (\<lambda>rec. run_all [
           json_package m (\<lambda>pkg. post_storage_save_at_name pkg rec),
           look k_clock (\<lambda>now.
             let pl = obj_set ''duration'' (J_num ((now - ri_start_time x) div 1000000)) pl in run_all [
             upd_recording u j (\<lambda>x. x\<lparr>ri_playlist := Some pl\<rparr>),
             json_package pl (\<lambda>pkg. post_storage_save_silently pkg (ri_uuid x))])]))]))]))))"

definition add_livestream_chunk_to_all_recordings :: "uuid \<Rightarrow> action" where
  "add_livestream_chunk_to_all_recordings u = with_live u (\<lambda>l. only_if (li_recordings l \<noteq> []) (create_random (\<lambda>v. run_all [
     bytes_package (li_rec_chunk l) (\<lambda>p. post_storage_save_silently p v),
     each [0..<length (li_recordings l)] (\<lambda>j. add_livestream_chunk_to_recording u j v)])))"

definition add_content_to_recording_chunk :: "uuid \<Rightarrow> 'a package_scheme \<Rightarrow> ID32 \<Rightarrow> action" where
  "add_content_to_recording_chunk u d orig_size = with_live u (\<lambda>l. only_if (li_recordings l \<noteq> []) (must (payload_of d) (\<lambda>bs. run_all [
     upd_live u (\<lambda>l. l\<lparr>li_rec_chunk := li_rec_chunk l @ bs, li_rec_chunk_size := li_rec_chunk_size l + orig_size\<rparr>),
     with_live u (\<lambda>l. only_if (recording_max_chunk_size \<le> length (li_rec_chunk l)) (run_all [
       add_livestream_chunk_to_all_recordings u,
       upd_live u (\<lambda>l. l\<lparr>li_rec_chunk := [], li_rec_chunk_size := 0\<rparr>)]))])))"

definition create_and_save_master_for_recording :: "ID32 \<Rightarrow> action" where
  "create_and_save_master_for_recording r = run_all [
     upd_req r (\<lambda>q. q\<lparr>rq_content_type := ''video/mls''\<rparr>),
     with_req r (\<lambda>q. look (uuid_text (rq_uuid q)) (\<lambda>lu.
       let m = obj_set ''livestream'' (J_str lu) (create_master_json_template q 0 (rq_content_type q)) in run_all [
       upd_req r (\<lambda>q. q\<lparr>rq_master_json := Some m\<rparr>),
       json_package m (\<lambda>p. upd_req r (\<lambda>q. q\<lparr>rq_data := (rq_data q)\<lparr>p_size := p_size p, p_message := p_message p\<rparr>\<rparr>)),
       create_random (\<lambda>u. post_storage_save_data_request_at r u)]))]"

definition create_and_save_playlist_for_recording :: "ID32 \<Rightarrow> uuid \<Rightarrow> nat \<Rightarrow> uuid \<Rightarrow> action" where
  "create_and_save_playlist_for_recording r u j rec_uuid = with_req r (\<lambda>q. look (uuid_text rec_uuid) (\<lambda>t.
     let pl = obj_set ''duration'' (J_num 0) (obj_set ''recording'' (J_str t) (create_master_json_template q 0 ''video/mpl'')) in run_all [
     upd_recording u j (\<lambda>x. x\<lparr>ri_playlist := Some pl\<rparr>),
     create_random (\<lambda>v. run_all [
       json_package pl (\<lambda>p. post_storage_save_silently p v),
       upd_recording u j (\<lambda>x. x\<lparr>ri_uuid := v\<rparr>)])]))"

text \<open>A new recording at the end of the list; \<open>k\<close> gets its index.\<close>

definition push_recording :: "ID32 \<Rightarrow> uuid \<Rightarrow> (uuid \<Rightarrow> nat \<Rightarrow> action) \<Rightarrow> action" where
  "push_recording r rec_uuid k = with_req r (\<lambda>q. look (\<lambda>s. k_hosted_livestreams s (rq_uuid q)) (\<lambda>l. need Assertion_violation l (\<lambda>l. look k_clock (\<lambda>now. run_all [
     upd_live (rq_uuid q) (\<lambda>l. l\<lparr>li_recordings := li_recordings l @ [recording_info_new now rec_uuid (rq_master_json q)]\<rparr>),
     create_and_save_playlist_for_recording r (rq_uuid q) (length (li_recordings l)) rec_uuid,
     k (rq_uuid q) (length (li_recordings l))]))))"

definition handle_save_confirm_for_remote_recording_start :: "kernel_storage_package \<Rightarrow> ID32 \<Rightarrow> action" where
  "handle_save_confirm_for_remote_recording_start inp r = push_recording r (ks_uuid inp) (\<lambda>u j. with_req r (\<lambda>q. run_all [
     with_recording u j (\<lambda>_ x. post_router (\<lambda>out. out\<lparr>kr_cmd := cmd_recording_started, kr_uuid := ri_uuid x, kr_request_id := rq_request_id q\<rparr>)),
     post_router_clear_request (rq_request_id q), erase_req (rq_request_id q)]))"

definition handle_save_confirm_for_local_recording_start :: "kernel_storage_package \<Rightarrow> ID32 \<Rightarrow> action" where
  "handle_save_confirm_for_local_recording_start inp r = push_recording r (ks_uuid inp) (\<lambda>u j.
     with_recording u j (\<lambda>_ x. send_ims_recording_started_response r (ri_uuid x)))"

text \<open>Stopping: what is left of the chunk is saved, and stays in \<open>rec_chunk\<close>.\<close>

definition stop_recording :: "uuid \<Rightarrow> nat \<Rightarrow> action" where
  "stop_recording u j = with_live u (\<lambda>l. create_random (\<lambda>v. run_all [
     bytes_package (li_rec_chunk l) (\<lambda>p. post_storage_save_silently p v),
     add_livestream_chunk_to_recording u j v,
     upd_live u (\<lambda>l. l\<lparr>li_recordings := take j (li_recordings l) @ drop (Suc j) (li_recordings l)\<rparr>)]))"

definition stop_recording_and_send_response_to_router :: "kernel_router_package \<Rightarrow> uuid \<Rightarrow> action" where
  "stop_recording_and_send_response_to_router inp u = sized_message inp (\<lambda>t. parse_uuid t (\<lambda>v. with_live u (\<lambda>l. run_all [
     router_slot (\<lambda>out. out\<lparr>kr_request_id := kr_request_id inp\<rparr>),
     (case find_recording v l of
        Some j \<Rightarrow> run_all [stop_recording u j, router_slot (\<lambda>out. out\<lparr>kr_cmd := cmd_recording_stopped\<rparr>)]
      | None \<Rightarrow> look (uuid_text v) (\<lambda>a. look (uuid_text (kr_uuid inp)) (\<lambda>b. run_all [
          router_slot (\<lambda>out. out\<lparr>kr_cmd := cmd_recording_fail\<rparr>),
          router_text (''no recording '' @ a @ '' found for livestream '' @ b)]))),
     router_commit])))"

definition stop_recording_and_send_response_to_ims :: "ims_kernel_package \<Rightarrow> uuid \<Rightarrow> action" where
  "stop_recording_and_send_response_to_ims inp u = with_live u (\<lambda>l. run_all [
     ims_slot (\<lambda>out. out\<lparr>im_request_id := im_request_id inp\<rparr>),
     (case find_recording (im_rec_uuid inp) l of
        Some j \<Rightarrow> run_all [stop_recording u j, ims_slot (\<lambda>out. out\<lparr>im_cmd := cmd_recording_stopped\<rparr>)]
      | None \<Rightarrow> look (uuid_text (im_rec_uuid inp)) (\<lambda>a. look (uuid_text (im_uuid inp)) (\<lambda>b. run_all [
          ims_slot (\<lambda>out. out\<lparr>im_cmd := cmd_recording_fail\<rparr>),
          ims_text (''no recording '' @ a @ '' found for livestream '' @ b)]))),
     ims_commit])"

definition handle_router_recording_start :: "kernel_router_package \<Rightarrow> action" where
  "handle_router_recording_start inp = run_all [
     check (\<lambda>_. kr_cmd inp = cmd_recording_start),
     look (\<lambda>s. k_hosted_livestreams s (kr_uuid inp)) (\<lambda>l. case l of
       None \<Rightarrow> post_router (\<lambda>out. out\<lparr>kr_cmd := cmd_refuse, kr_request_id := kr_request_id inp, kr_uuid := kr_uuid inp\<rparr>)
     | Some _ \<Rightarrow> run_all [
         no_req (kr_request_id inp),
         new_request (kr_request_id inp) (kr_uuid inp) Requested cmd_recording_start T_router,
         create_and_save_master_for_recording (kr_request_id inp)])]"

definition handle_router_recording_stop :: "kernel_router_package \<Rightarrow> action" where
  "handle_router_recording_stop inp = run_all [
     check (\<lambda>_. kr_cmd inp = cmd_recording_stop),
     look (\<lambda>s. k_hosted_livestreams s (kr_uuid inp)) (\<lambda>l. case l of
       None \<Rightarrow> post_router (\<lambda>out. set_payload inp (out\<lparr>kr_cmd := cmd_refuse, kr_request_id := kr_request_id inp, kr_uuid := kr_uuid inp\<rparr>))
     | Some _ \<Rightarrow> stop_recording_and_send_response_to_router inp (kr_uuid inp))]"

definition handle_ims_recording_start :: "ims_kernel_package \<Rightarrow> action" where
  "handle_ims_recording_start inp = run_all [
     check (\<lambda>_. im_cmd inp = cmd_recording_start),
     kernel_get_request_id (\<lambda>i. run_all [
       no_req i, new_request i (im_uuid inp) Requested cmd_recording_start T_ims,
       no_ims i, set_ims i (im_request_id inp),
       look (\<lambda>s. k_hosted_livestreams s (im_uuid inp)) (\<lambda>l. case l of
         None \<Rightarrow> post_router_recording_start i | Some _ \<Rightarrow> create_and_save_master_for_recording i)])]"

definition post_router_recording_stop :: "ims_kernel_package \<Rightarrow> action" where
  "post_router_recording_stop inp = kernel_get_request_id (\<lambda>i. run_all [
     new_request i (im_uuid inp) Requested cmd_recording_stop T_ims,
     look (uuid_text (im_rec_uuid inp)) (\<lambda>t. text_package t (\<lambda>p. upd_req i (\<lambda>q. q\<lparr>rq_data := p\<rparr>))),
     no_ims i, set_ims i (im_request_id inp),
     with_req i (\<lambda>q. post_router (\<lambda>out. (set_payload (rq_data q) (out\<lparr>kr_request_id := rq_request_id q, kr_uuid := rq_uuid q\<rparr>))\<lparr>kr_cmd := rq_cmd q\<rparr>))])"

definition handle_ims_recording_stop :: "ims_kernel_package \<Rightarrow> action" where
  "handle_ims_recording_stop inp = run_all [
     check (\<lambda>_. im_cmd inp = cmd_recording_stop),
     look (\<lambda>s. k_hosted_livestreams s (im_uuid inp)) (\<lambda>l. case l of
       None \<Rightarrow> post_router_recording_stop inp | Some _ \<Rightarrow> stop_recording_and_send_response_to_ims inp (im_uuid inp))]"

definition handle_router_recording_started :: "kernel_router_package \<Rightarrow> action" where
  "handle_router_recording_started inp = run_all [
     check (\<lambda>_. kr_cmd inp = cmd_recording_started),
     if_req (kr_request_id inp) (\<lambda>_. send_ims_recording_started_response (kr_request_id inp) (kr_uuid inp))]"

definition handle_router_recording_stopped :: "kernel_router_package \<Rightarrow> action" where
  "handle_router_recording_stopped inp = run_all [
     check (\<lambda>_. kr_cmd inp = cmd_recording_stopped),
     if_req (kr_request_id inp) (\<lambda>q. run_all [
       check (\<lambda>s. ims_id (kr_request_id inp) s \<noteq> None),
       look (ims_id (rq_request_id q)) (\<lambda>i. ims_slot (\<lambda>out. out\<lparr>im_request_id := (case i of None \<Rightarrow> 0 | Some i \<Rightarrow> i),
         im_cmd := cmd_recording_stopped, im_uuid := rq_uuid q\<rparr>)),
       sized_message (rq_data q) (\<lambda>t. parse_uuid t (\<lambda>v. post_ims (\<lambda>out. out\<lparr>im_rec_uuid := v\<rparr>))),
       finish_request q])]"

definition handle_router_recording_fail :: "kernel_router_package \<Rightarrow> action" where
  "handle_router_recording_fail inp = run_all [
     check (\<lambda>_. kr_cmd inp = cmd_recording_fail),
     if_req (kr_request_id inp) (\<lambda>_. handle_recording_fail (kr_request_id inp) inp)]"

section \<open>Hosted livestreams\<close>

definition process_router_save_stream_request :: "ID32 \<Rightarrow> action" where
  "process_router_save_stream_request r = with_req r (\<lambda>q. run_all [
     check (\<lambda>_. rq_cmd q = cmd_save_stream),
     look (\<lambda>s. k_hosted_livestreams s (rq_uuid q)) (\<lambda>l. case l of
       None \<Rightarrow> upd (\<lambda>s. s\<lparr>k_hosted_livestreams := (k_hosted_livestreams s)(rq_uuid q \<mapsto> livestream_info_new (rq_request_id q))\<rparr>)
     | Some l \<Rightarrow> run_all [
         post_router_clear_request (li_request_id l), erase_req (li_request_id l),
         with_req r (\<lambda>q. upd_live (rq_uuid q) (\<lambda>l. l\<lparr>li_request_id := rq_request_id q\<rparr>))])])"

definition handle_router_save_stream_request :: "kernel_router_package \<Rightarrow> action" where
  "handle_router_save_stream_request inp = run_all [
     check (\<lambda>_. kr_cmd inp = cmd_save_stream), no_req (kr_request_id inp),
     look k_enable_livstream_hosting (\<lambda>hosting.
       if \<not> hosting then post_router (\<lambda>out. set_payload inp (out\<lparr>kr_request_id := kr_request_id inp, kr_cmd := cmd_refuse, kr_uuid := kr_uuid inp\<rparr>))
       else run_all [
         new_request (kr_request_id inp) (kr_uuid inp) Save_accept cmd_save_stream T_router,
         post_router_save_stream_offer (kr_request_id inp),
         process_router_save_stream_request (kr_request_id inp)])]"

definition process_router_save_stream_offer_for_encrypted_stream :: "ID32 \<Rightarrow> action" where
  "process_router_save_stream_offer_for_encrypted_stream r = with_req r (\<lambda>q. run_all [
     check (\<lambda>_. rq_enc q),
     look (uuid_text (rq_uuid q)) (\<lambda>n. get_master_info_from_user_json n (\<lambda>p. case p of
       None \<Rightarrow> post_key_manager_gen_key_for_stream r
     | Some u \<Rightarrow> run_all [
         get_keys_from_master_info r u,
         with_req r (\<lambda>q. if rq_aes_key q = [] \<and> rq_aes_iv q = [] then post_key_manager_gen_key_for_stream r
           else post_key_manager_prepare_cipher_for_stream r)]))])"

definition handle_router_save_stream_offer :: "kernel_router_package \<Rightarrow> action" where
  "handle_router_save_stream_offer inp = run_all [
     check (\<lambda>_. kr_cmd inp = cmd_save_stream_offer),
     if_req (kr_request_id inp) (\<lambda>q. run_all [
       if rq_enc q then process_router_save_stream_offer_for_encrypted_stream (kr_request_id inp)
       else add_shared_info_in_user_json (kr_request_id inp) [] [] 1,
       post_save_stream_offer_to_ims (kr_request_id inp)])]"

definition handle_livestream_content_for_ims_requests :: "kernel_router_package \<Rightarrow> livestream_info \<Rightarrow> action" where
  "handle_livestream_content_for_ims_requests inp l = look (\<lambda>s. k_pending_ims_get_requests s (kr_uuid inp)) (\<lambda>p. on_some p (\<lambda>_.
     assert_req (li_request_id l) (\<lambda>q.
       if rq_aes_key q \<noteq> [] \<and> rq_aes_iv q \<noteq> [] then post_key_manager_stream_decrypt_request (li_request_id l) inp
       else send_livestream_content_to_ims (kr_uuid inp) inp)))"

definition handle_livestream_content_for_router_request :: "kernel_router_package \<Rightarrow> ID32 list \<Rightarrow> action" where
  "handle_livestream_content_for_router_request inp listeners =
     each listeners (\<lambda>i. if_req i (\<lambda>_. send_get_livestream_content_to_router i inp))"

definition handle_router_livestream_content :: "kernel_router_package \<Rightarrow> action" where
  "handle_router_livestream_content inp = look (\<lambda>s. k_hosted_livestreams s (kr_uuid inp)) (\<lambda>l. on_some l (\<lambda>l. run_all [
     handle_livestream_content_for_ims_requests inp l,
     handle_livestream_content_for_router_request inp (li_listeners l),
     add_content_to_recording_chunk (kr_uuid inp) inp (kr_data_version inp)]))"

definition clean_up_hosted_livestream_listeners :: "ID32 list \<Rightarrow> action" where
  "clean_up_hosted_livestream_listeners listeners = each listeners (\<lambda>i. if_req i (\<lambda>q. run_all [
     check (\<lambda>_. rq_typ q = T_router), post_router_clear_request i, erase_req i]))"

definition clean_up_hosted_livestream :: "ID32 \<Rightarrow> action" where
  "clean_up_hosted_livestream r = with_req r (\<lambda>q. run_all [
     check (\<lambda>_. rq_cmd q = cmd_save_stream),
     look (\<lambda>s. k_hosted_livestreams s (rq_uuid q)) (\<lambda>l. need Assertion_violation l (\<lambda>l. run_all [
       check (\<lambda>_. rq_request_id q = li_request_id l),
       text_package ''Livestream is finished'' (send_get_livestream_fail_to_ims (rq_uuid q)),
       clean_up_hosted_livestream_listeners (li_listeners l),
       add_livestream_chunk_to_all_recordings (rq_uuid q),
       erase_live (rq_uuid q),
       with_req r (\<lambda>q. erase_req (rq_request_id q))]))])"

definition clean_up_request_from_livestream_listeners :: "ID32 \<Rightarrow> action" where
  "clean_up_request_from_livestream_listeners r = with_req r (\<lambda>q. run_all [
     check (\<lambda>_. rq_cmd q = cmd_get),
     look (\<lambda>s. k_hosted_livestreams s (rq_uuid q)) (\<lambda>l. on_some l (\<lambda>l.
       only_if (rq_request_id q \<in> set (li_listeners l)) (run_all [
         check (\<lambda>_. rq_typ q = T_router),
         post_router_clear_request (rq_request_id q), erase_req (rq_request_id q),
         upd_live (rq_uuid q) (\<lambda>l. l\<lparr>li_listeners := remove1 (rq_request_id q) (li_listeners l)\<rparr>)])))])"

definition handle_router_cancel_livestream_get :: "kernel_router_package \<Rightarrow> action" where
  "handle_router_cancel_livestream_get inp = run_all [
     check (\<lambda>_. kr_cmd inp = cmd_cancel_livestream_get),
     if_req (kr_request_id inp) (\<lambda>_. clean_up_request_from_livestream_listeners (kr_request_id inp))]"

definition handle_router_stream_auth_request :: "kernel_router_package \<Rightarrow> action" where
  "handle_router_stream_auth_request inp = run_all [
     check (\<lambda>_. kr_cmd inp = cmd_stream_auth),
     if_req (kr_request_id inp) (\<lambda>q. only_if (rq_cmd q = cmd_get) (run_all [
       upd_req (kr_request_id inp) (\<lambda>q. q\<lparr>rq_cmd := cmd_get_livestream_content\<rparr>),
       look (uuid_text (rq_uuid q)) (\<lambda>n. get_master_info_from_user_json n (\<lambda>p. on_some p (get_keys_from_master_info (kr_request_id inp)))),
       with_req (kr_request_id inp) (\<lambda>q. only_if (rq_aes_key q \<noteq> [] \<and> rq_aes_iv q \<noteq> [])
         (post_key_manager_prepare_cipher_for_stream (kr_request_id inp)))]))]"

definition handle_router_get_livestream_content :: "kernel_router_package \<Rightarrow> action" where
  "handle_router_get_livestream_content inp = run_all [
     check (\<lambda>_. kr_cmd inp = cmd_get_livestream_content),
     if_req (kr_request_id inp) (\<lambda>q. run_all [
       check (\<lambda>_. rq_cmd q = cmd_get_livestream_content),
       if rq_aes_key q \<noteq> [] \<and> rq_aes_iv q \<noteq> [] then post_key_manager_stream_decrypt_request (kr_request_id inp) inp
       else send_livestream_content_to_ims (rq_uuid q) inp])]"

section \<open>Livestreams of the web interface\<close>

definition process_hosted_livestream_get_request :: "ID32 \<Rightarrow> livestream_info \<Rightarrow> action" where
  "process_hosted_livestream_get_request r l = assert_req (li_request_id l) (\<lambda>lsr. run_all [
     look (uuid_text (rq_uuid lsr)) (\<lambda>n. get_master_info_from_user_json n (\<lambda>p. on_some p (get_keys_from_master_info (li_request_id l)))),
     with_req (li_request_id l) (\<lambda>lsr. look (\<lambda>s. k_pending_ims_get_requests s (rq_uuid lsr)) (\<lambda>p.
       only_if (rq_aes_key lsr \<noteq> [] \<and> rq_aes_iv lsr \<noteq> [] \<and> p = None) (post_key_manager_prepare_cipher_for_stream (li_request_id l)))),
     with_req r (\<lambda>q. upd (\<lambda>s. s\<lparr>k_pending_ims_get_requests := (k_pending_ims_get_requests s)(rq_uuid q \<mapsto>
       (case k_pending_ims_get_requests s (rq_uuid q) of None \<Rightarrow> [] | Some l \<Rightarrow> l) @ [rq_request_id q])\<rparr>))])"

definition handle_ims_save_stream_request :: "ims_kernel_package \<Rightarrow> action" where
  "handle_ims_save_stream_request inp = run_all [
     check (\<lambda>_. im_cmd inp = cmd_save_stream),
     (let start = (\<lambda>u. kernel_get_request_id (\<lambda>i. run_all [
        no_ims i, set_ims i (im_request_id inp),
        upd (\<lambda>s. s\<lparr>k_stream_req_ids := (k_stream_req_ids s)(im_request_id inp \<mapsto> i)\<rparr>),
        new_request i u Requested cmd_save_stream T_ims,
        upd_req i (\<lambda>q. q\<lparr>rq_enc := im_enc inp, rq_content_type := im_content_type inp\<rparr>),
        with_req i (\<lambda>q. backup_data (rq_request_id q) (rq_uuid q) (rq_cmd q) 1 default_package (rq_data_version q) q)])) in
      if im_uuid inp = 0 then create_random start else start (im_uuid inp))]"

definition handle_ims_livestream_content :: "ims_kernel_package \<Rightarrow> action" where
  "handle_ims_livestream_content inp = run_all [
     check (\<lambda>_. im_cmd inp = cmd_livestream_content),
     look (\<lambda>s. k_stream_req_ids s (im_request_id inp)) (\<lambda>i. on_some i (\<lambda>i. assert_req i (\<lambda>q. run_all [
       check (\<lambda>_. rq_cmd q = cmd_save_stream),
       if rq_enc q then run_all [upd_req i (\<lambda>q. q\<lparr>rq_data := sliced inp\<rparr>), post_key_manager_stream_encrypt_request i]
       else send_livestream_content_to_router i inp (p_size inp)])))]"

definition handle_encrypted_save_stream :: "kernel_key_manager_package \<Rightarrow> ID32 \<Rightarrow> action" where
  "handle_encrypted_save_stream inp r =
     (if km_aes_key inp \<noteq> [] \<and> km_aes_iv inp \<noteq> [] then run_all [
        upd_req r (\<lambda>q. q\<lparr>rq_aes_key := km_aes_key inp, rq_aes_iv := km_aes_iv inp\<rparr>),
        add_shared_info_in_user_json r (km_aes_key inp) (km_aes_iv inp) 1]
      else send_livestream_content_to_router r inp (km_orig_size inp))"

definition handle_key_manager_stream_decrypt_fail :: "kernel_key_manager_package \<Rightarrow> action" where
  "handle_key_manager_stream_decrypt_fail inp = run_all [
     check (\<lambda>_. km_cmd inp = cmd_stream_decrypt_fail),
     send_get_livestream_fail_to_ims (km_uuid inp) inp,
     post_router (\<lambda>out. out\<lparr>kr_request_id := km_request_id inp, kr_cmd := cmd_cancel_livestream_get\<rparr>),
     post_router_clear_request (km_request_id inp)]"

definition handle_ims_livestream_cancel :: "ims_kernel_package \<Rightarrow> action" where
  "handle_ims_livestream_cancel inp = look (\<lambda>s. k_stream_req_ids s (im_request_id inp)) (\<lambda>i. on_some i (\<lambda>i. assert_req i (\<lambda>q. run_all [
     post_router_clear_request (rq_request_id q),
     erase_ims i,
     upd (\<lambda>s. s\<lparr>k_stream_req_ids := (k_stream_req_ids s)(im_request_id inp := None)\<rparr>)])))"

text \<open>
  \<open>k\<close> gets whether no request is left and the id that stays. When the first of several requests is cancelled, the
  last one takes its place.
\<close>

definition clean_livestream_get_request_from_pendings :: "uuid \<Rightarrow> ID32 \<Rightarrow> (bool \<Rightarrow> ID32 \<Rightarrow> action) \<Rightarrow> action" where
  "clean_livestream_get_request_from_pendings u rid k = with_pending u (\<lambda>v. run_all [
     check (\<lambda>_. rid \<in> set v),
     (let drop_entry = (\<lambda>v rid. run_all [
        upd (\<lambda>s. s\<lparr>k_pending_ims_get_requests := (k_pending_ims_get_requests s)(u := (if v = [] then None else Some v))\<rparr>),
        k (v = []) rid]) in
      if hd v = rid \<and> 1 < length v then
        with_ims rid (\<lambda>_. with_ims (last v) (\<lambda>j. run_all [
          set_ims rid j, erase_req (last v), erase_ims (last v), drop_entry (butlast v) rid]))
      else run_all [erase_req rid, erase_ims rid, drop_entry (remove1 rid v) (hd v)])])"

text \<open>\<^verbatim>\<open>lr.uuid\<close> is read after the request may have been erased.\<close>

definition handle_ims_cancel_livestream_get :: "ims_kernel_package \<Rightarrow> action" where
  "handle_ims_cancel_livestream_get inp = look (\<lambda>s. tab_find_value (im_request_id inp) (k_ims_req_ids s)) (\<lambda>i. on_some i (\<lambda>i.
     if_req i (\<lambda>q. clean_livestream_get_request_from_pendings (rq_uuid q) (rq_request_id q) (\<lambda>is_last rid.
       with_req i (\<lambda>q. look (\<lambda>s. k_hosted_livestreams s (rq_uuid q)) (\<lambda>l. only_if (l = None \<and> is_last) (run_all [
         post_router (\<lambda>out. out\<lparr>kr_request_id := rid, kr_cmd := cmd_cancel_livestream_get\<rparr>),
         post_router_clear_request rid])))))))"

end
