(* ===== verification/Kernel_Storage.thy ===== *)
theory Kernel_Storage
  imports Kernel_Live
begin

text \<open>
  What the storage answers: look-ups, contents, confirmations, lack of space. The last section is the
  synchronisation of two storages, in which the kernel is between the router, the backup and the storage.
\<close>

section \<open>Answers to a look-up\<close>

text \<open>\<^verbatim>\<open>is_authorized_request\<close> and \<^verbatim>\<open>is_external_request_authorized\<close> say yes to everything.\<close>

definition is_authorized_request :: "ID32 \<Rightarrow> bool" where
  "is_authorized_request i = True"

definition is_external_request_authorized :: "kernel_router_package \<Rightarrow> bool" where
  "is_external_request_authorized inp = True"

definition authenticate_request :: "kernel_storage_package \<Rightarrow> ID32 \<Rightarrow> action" where
  "authenticate_request inp r = run_all [
     check (\<lambda>_. has_message inp),
     with_req r (\<lambda>q. check (\<lambda>_. rq_cmd q \<in> {cmd_get, cmd_save, cmd_del, cmd_update, cmd_share, cmd_copy})),
     upd_req r (\<lambda>q. q\<lparr>rq_st := Authentication, rq_data := (if rq_cmd q = cmd_get then sliced inp else rq_data q)\<rparr>),
     with_req r (\<lambda>q. if is_authorized_request (rq_request_id q) then post_storage_get_request r else post_ims_no_permissions r)]"

definition add_update_listener_for_local_request :: "ID32 \<Rightarrow> action" where
  "add_update_listener_for_local_request r = run_all [add_update_listener r [], send_ims_on_update_register_response r]"

definition add_update_listener_for_remote_request :: "ID32 \<Rightarrow> action" where
  "add_update_listener_for_remote_request r = run_all [
     with_req r (\<lambda>q. sized_message (rq_data q) (add_update_listener r)),
     post_router_on_update_register_response r]"

definition handle_storage_positive_response_for_local_request :: "kernel_storage_package \<Rightarrow> ID32 \<Rightarrow> action" where
  "handle_storage_positive_response_for_local_request inp r = with_req r (\<lambda>q.
     if rq_cmd q \<in> {cmd_get, cmd_save, cmd_update, cmd_copy, cmd_share} then authenticate_request inp r
     else if rq_cmd q = cmd_on_update_register then add_update_listener_for_local_request r
     else if rq_cmd q = cmd_del then (if rq_keep_chunks q then post_storage_delete_request r else authenticate_request inp r)
     else skip)"

definition handle_storage_positive_response_for_remote_request :: "ID32 \<Rightarrow> action" where
  "handle_storage_positive_response_for_remote_request r = with_req r (\<lambda>q.
     if rq_cmd q = cmd_get then post_storage_get_request r
     else if rq_cmd q = cmd_update then post_storage_save_data_request r
     else if rq_cmd q = cmd_del then post_storage_delete_request r
     else if rq_cmd q = cmd_copy then post_storage_copy_request r (rq_data q)
     else if rq_cmd q = cmd_on_update_register then add_update_listener_for_remote_request r
     else skip)"

definition handle_storage_positive_response :: "kernel_storage_package \<Rightarrow> action" where
  "handle_storage_positive_response inp = if_req (ks_request_id inp) (\<lambda>q. run_all [
     check (\<lambda>_. ks_cmd inp = cmd_ack),
     if rq_typ q = T_ims \<or> rq_typ q = T_kernel then handle_storage_positive_response_for_local_request inp (ks_request_id inp)
     else if rq_typ q = T_router then handle_storage_positive_response_for_remote_request (ks_request_id inp)
     else skip])"

definition handle_storage_negative_response_for_get_req :: "ID32 \<Rightarrow> action" where
  "handle_storage_negative_response_for_get_req r = with_req r (\<lambda>q. run_all [
     check (\<lambda>_. rq_cmd q = cmd_get),
     if rq_typ q = T_ims then post_router_get_request r
     else run_all [
       check (\<lambda>_. rq_typ q = T_kernel),
       upd (\<lambda>s. s\<lparr>k_pending_router_get_reqs := rq_request_id q # k_pending_router_get_reqs s\<rparr>),
       process_router_pending_get_requests]])"

text \<open>A new request asks the network for the master object; the one that waits for it is its parent.\<close>

definition ask_for_master_object :: "ID32 \<Rightarrow> command \<Rightarrow> (request \<Rightarrow> request) \<Rightarrow> action" where
  "ask_for_master_object r c f = kernel_get_request_id (\<lambda>i. with_req r (\<lambda>q. run_all [
     new_request i (rq_uuid q) Lookup_in_db c T_ims,
     upd_req i (\<lambda>t. f (t\<lparr>rq_parent_req_id := rq_request_id q\<rparr>)),
     post_router_get_request i]))"

definition handle_storage_negative_response_for_copy_req :: "ID32 \<Rightarrow> action" where
  "handle_storage_negative_response_for_copy_req r = with_req r (\<lambda>q. run_all [
     check (\<lambda>_. rq_cmd q = cmd_copy),
     upd_req r (\<lambda>q. q\<lparr>rq_local := False\<rparr>),
     if rq_typ q = T_ims then ask_for_master_object r cmd_copy (\<lambda>t. t)
     else run_all [check (\<lambda>_. rq_typ q = T_kernel), post_router_copy_request r]])"

definition handle_storage_negative_response_for_update_req :: "ID32 \<Rightarrow> action" where
  "handle_storage_negative_response_for_update_req r = with_req r (\<lambda>q. run_all [
     check (\<lambda>_. rq_cmd q = cmd_update), check (\<lambda>_. rq_typ q = T_ims),
     upd_req r (\<lambda>q. q\<lparr>rq_local := False\<rparr>),
     ask_for_master_object r cmd_update (\<lambda>t. t)])"

definition handle_storage_nack_for_on_update_register_req :: "ID32 \<Rightarrow> action" where
  "handle_storage_nack_for_on_update_register_req r = post_config_get_public_key_request r"

definition handle_storage_negative_response_for_delete_req :: "ID32 \<Rightarrow> action" where
  "handle_storage_negative_response_for_delete_req r = with_req r (\<lambda>q. run_all [
     check (\<lambda>_. rq_cmd q = cmd_del),
     if rq_typ q = T_ims \<and> rq_old_master_json q = None then ask_for_master_object r cmd_del (\<lambda>t. t\<lparr>rq_local := False\<rparr>)
     else only_if (rq_typ q \<noteq> T_router) (post_router_delete_request r)])"

definition handle_storage_negative_response_for_ims_request :: "ID32 \<Rightarrow> action" where
  "handle_storage_negative_response_for_ims_request r = with_req r (\<lambda>q. run_all [
     check (\<lambda>_. rq_typ q = T_ims \<or> rq_typ q = T_kernel),
     if rq_cmd q = cmd_get then handle_storage_negative_response_for_get_req r
     else if rq_cmd q = cmd_copy then handle_storage_negative_response_for_copy_req r
     else if rq_cmd q = cmd_update then handle_storage_negative_response_for_update_req r
     else if rq_cmd q = cmd_on_update_register then handle_storage_nack_for_on_update_register_req r
     else if rq_cmd q = cmd_del then handle_storage_negative_response_for_delete_req r
     else raise_error Assertion_violation])"

definition handle_storage_negative_response :: "kernel_storage_package \<Rightarrow> action" where
  "handle_storage_negative_response inp = if_req (ks_request_id inp) (\<lambda>q. run_all [
     check (\<lambda>_. ks_cmd inp = cmd_nack),
     only_if (rq_typ q = T_ims \<or> rq_typ q = T_kernel) (handle_storage_negative_response_for_ims_request (ks_request_id inp)),
     only_if (rq_typ q = T_router)
       (if rq_cmd q = cmd_on_update_register then post_router_refuse (ks_request_id inp)
        else only_if (rq_cmd q = cmd_save) (post_router_save_offer_request (ks_request_id inp)))])"

section \<open>Contents\<close>

definition send_router_requested_data :: "kernel_storage_package \<Rightarrow> ID32 \<Rightarrow> action" where
  "send_router_requested_data inp r = with_req r (\<lambda>q. run_all [
     check (\<lambda>_. rq_st q = Sending),
     post_router (\<lambda>out. set_payload inp (out\<lparr>kr_uuid := ks_uuid inp, kr_request_id := rq_request_id q, kr_cmd := cmd_get_data\<rparr>)),
     post_router_clear_request (rq_request_id q),
     erase_req (rq_request_id q)])"

definition handle_storage_get_response :: "kernel_storage_package \<Rightarrow> action" where
  "handle_storage_get_response inp = if_req (ks_request_id inp) (\<lambda>q.
     case rq_typ q of
       T_ims \<Rightarrow> got_master_object inp (ks_request_id inp)
     | T_kernel \<Rightarrow> handle_piece inp (ks_request_id inp)
     | T_router \<Rightarrow> send_router_requested_data inp (ks_request_id inp)
     | _ \<Rightarrow> skip)"

section \<open>Confirmations\<close>

text \<open>The last line reads the request it has just erased.\<close>

definition post_router_save_confirmed_response :: "ID32 \<Rightarrow> action" where
  "post_router_save_confirmed_response r = run_all [
     with_req r (\<lambda>q. run_all [
       check (\<lambda>_. rq_cmd q = cmd_save \<or> rq_cmd q = cmd_update),
       if rq_cmd q = cmd_update then run_all [
         notify_update (rq_uuid q) cmd_update (rq_data_version q), router_slot (\<lambda>out. out\<lparr>kr_cmd := cmd_updated\<rparr>)]
       else router_slot (\<lambda>out. out\<lparr>kr_cmd := cmd_save_confirm\<rparr>),
       add_new_uuid_in_device_json q (rq_uuid q) (rq_data_version q),
       post_router (\<lambda>out. out\<lparr>kr_uuid := rq_uuid q, kr_request_id := rq_request_id q\<rparr>),
       erase_req (rq_request_id q)]),
     with_req r (\<lambda>q. post_router_clear_request (rq_request_id q))]"

definition handle_save_confirm_for_copy_or_remote_request :: "kernel_storage_package \<Rightarrow> ID32 \<Rightarrow> action" where
  "handle_save_confirm_for_copy_or_remote_request inp r = with_req r (\<lambda>q.
     if rq_typ q = T_router then
       (if rq_cmd q = cmd_recording_start then handle_save_confirm_for_remote_recording_start inp r
        else post_router_save_confirmed_response r)
     else if rq_typ q = T_ims then
       (if rq_cmd q = cmd_copy then handle_copy_success_for_master_object r
        else only_if (rq_cmd q = cmd_recording_start) (handle_save_confirm_for_local_recording_start inp r))
     else erase_req (rq_request_id q))"

definition handle_storage_save_confirm :: "kernel_storage_package \<Rightarrow> action" where
  "handle_storage_save_confirm inp = run_all [
     check (\<lambda>_. ks_cmd inp = cmd_save_confirm),
     look (\<lambda>s. k_save_units s (ks_request_id inp)) (\<lambda>u. case u of
       Some _ \<Rightarrow> handle_save_confirm_for_local_save_unit (ks_request_id inp)
     | None \<Rightarrow> if_req (ks_request_id inp) (\<lambda>_. handle_save_confirm_for_copy_or_remote_request inp (ks_request_id inp)))]"

definition handle_no_space_for_copy_or_remote_request :: "kernel_storage_package \<Rightarrow> ID32 \<Rightarrow> action" where
  "handle_no_space_for_copy_or_remote_request inp r = with_req r (\<lambda>q.
     if rq_typ q = T_ims then
       (if rq_cmd q = cmd_copy then look k_data_copy_count (\<lambda>n.
          backup_data (rq_request_id q) (rq_copy_uuid q) cmd_save (ucast n) (rq_data q) (rq_data_version q) q)
        else only_if (rq_cmd q = cmd_recording_start) (handle_recording_fail r inp))
     else if rq_typ q = T_kernel then post_router_copy_request r
     else erase_req (rq_request_id q))"

definition handle_storage_no_space :: "kernel_storage_package \<Rightarrow> action" where
  "handle_storage_no_space inp = run_all [
     check (\<lambda>_. ks_cmd inp = cmd_no_space),
     look (\<lambda>s. k_save_units s (ks_request_id inp)) (\<lambda>u. case u of
       Some _ \<Rightarrow> handle_no_space_for_local_save_unit (ks_request_id inp)
     | None \<Rightarrow> if_req (ks_request_id inp) (\<lambda>_. handle_no_space_for_copy_or_remote_request inp (ks_request_id inp)))]"

definition handle_move_cache_to_storage_completed :: "kernel_storage_package \<Rightarrow> action" where
  "handle_move_cache_to_storage_completed inp = if_req (ks_request_id inp) (\<lambda>q. run_all [
     check (\<lambda>_. rq_typ q = T_ims),
     with_ims (ks_request_id inp) (\<lambda>i. post_ims (\<lambda>out. (set_payload inp (out\<lparr>im_cmd := cmd_move_cache_to_storage_completed\<rparr>))\<lparr>im_request_id := i\<rparr>)),
     erase_ims (ks_request_id inp), erase_req (ks_request_id inp)])"

section \<open>Synchronisation of storages\<close>

definition handle_router_start_storage_sync :: "kernel_router_package \<Rightarrow> action" where
  "handle_router_start_storage_sync inp = run_all [
     check (\<lambda>_. kr_cmd inp = cmd_start_storage_sync), no_req (kr_request_id inp),
     new_request (kr_request_id inp) 0 Max_req_state (kr_cmd inp) T_kernel,
     upd_req (kr_request_id inp) (\<lambda>q. q\<lparr>rq_last_updated := kr_last_updated inp\<rparr>),
     post_storage (\<lambda>out. out\<lparr>ks_request_id := kr_request_id inp, ks_cmd := cmd_start_storage_sync\<rparr>)]"

definition handle_storage_start_sync :: "kernel_storage_package \<Rightarrow> action" where
  "handle_storage_start_sync inp = run_all [
     check (\<lambda>_. ks_cmd inp = cmd_start_storage_sync),
     assert_req (ks_request_id inp) (\<lambda>q. run_all [
       check (\<lambda>_. has_message inp),
       c_message inp (\<lambda>t. look (\<lambda>s. kl_print (k_lib s) [(''uuids'', J_str t)]) (\<lambda>m. run_all [
         router_slot (\<lambda>out. out\<lparr>kr_request_id := ks_request_id inp, kr_cmd := cmd_send_journal_info\<rparr>),
         router_text m,
         post_router (\<lambda>out. out\<lparr>kr_last_updated := rq_last_updated q\<rparr>)])),
       erase_req (ks_request_id inp)])]"

definition handle_router_send_journal_info :: "kernel_router_package \<Rightarrow> action" where
  "handle_router_send_journal_info inp = run_all [
     check (\<lambda>_. kr_cmd inp = cmd_send_journal_info),
     post_backup (\<lambda>out. set_payload inp (out\<lparr>kb_cmd := cmd_send_journal_info, kb_request_id := kr_request_id inp,
       kb_time := sint (kr_last_updated inp)\<rparr>))]"

definition post_router_get_journal_info :: "kernel_backup_package \<Rightarrow> action" where
  "post_router_get_journal_info inp = run_all [
     check (\<lambda>_. kb_cmd inp = cmd_get_journal_info),
     post_router (\<lambda>out. set_payload inp (out\<lparr>kr_request_id := kb_request_id inp, kr_cmd := kb_cmd inp\<rparr>))]"

definition process_journal_info_for_sync :: "kernel_router_package \<Rightarrow> action" where
  "process_journal_info_for_sync inp = run_all [
     new_request (kr_request_id inp) 0 Max_req_state cmd_get_journal_info T_kernel,
     look k_sync_class (\<lambda>c. post_backup (\<lambda>out. set_payload inp (out\<lparr>kb_cmd := cmd_get_journal_info,
       kb_request_id := kr_request_id inp, kb_data_version := c\<rparr>)))]"

definition handle_router_get_journal_info :: "kernel_router_package \<Rightarrow> action" where
  "handle_router_get_journal_info inp =
     (if has_message inp then process_journal_info_for_sync inp else post_router_sync_finished (kr_request_id inp))"

text \<open>The values of the object are one-letter texts: what the journal says of the uuid.\<close>

definition handle_backup_send_uuids :: "kernel_backup_package \<Rightarrow> action" where
  "handle_backup_send_uuids inp = run_all [
     check (\<lambda>_. kb_cmd inp = cmd_send_uuids),
     need Assertion_violation (kb_sync_uuids inp) (\<lambda>m. if_req (kb_request_id inp) (\<lambda>_. run_all [
       upd_req (kb_request_id inp) (\<lambda>q. q\<lparr>rq_master_json := Some (map (\<lambda>(n, c). (n, J_str [c])) m)\<rparr>),
       post_router_send_uuids_request (kb_request_id inp)]))]"

definition handle_router_send_uuids_request :: "kernel_router_package \<Rightarrow> action" where
  "handle_router_send_uuids_request inp = run_all [
     check (\<lambda>_. kr_cmd inp = cmd_send_uuids), check (\<lambda>_. has_message inp),
     post_storage (\<lambda>out. set_payload inp (out\<lparr>ks_request_id := kr_request_id inp, ks_cmd := kr_cmd inp\<rparr>))]"

definition handle_backup_get_uuid :: "kernel_backup_package \<Rightarrow> action" where
  "handle_backup_get_uuid inp = run_all [
     check (\<lambda>_. kb_cmd inp = cmd_get_uuid),
     post_router (\<lambda>out. (set_payload inp (out\<lparr>kr_request_id := kb_request_id inp, kr_uuid := kb_uuid inp, kr_cmd := kb_cmd inp\<rparr>))
       \<lparr>kr_data_version := kb_data_version inp, kr_last_updated := kb_last_updated inp, kr_expire_date := kb_expire_date inp\<rparr>)]"

definition handle_router_get_data_for_user_manager_request :: "kernel_router_package \<Rightarrow> action" where
  "handle_router_get_data_for_user_manager_request inp = post_user_manager (\<lambda>out. set_payload inp (out\<lparr>ku_cmd := cmd_save_data\<rparr>))"

definition process_requested_uuid_for_sync :: "ID32 \<Rightarrow> kernel_router_package \<Rightarrow> action" where
  "process_requested_uuid_for_sync r inp = with_req r (\<lambda>q. need Assertion_violation (rq_master_json q) (\<lambda>m. run_all [
     add_new_uuid_in_device_json_of_router inp,
     look (uuid_text (kr_uuid inp)) (\<lambda>n. run_all [
       check (\<lambda>_. obj_has n m),
       upd_req r (\<lambda>q. q\<lparr>rq_master_json := Some (obj_remove n m)\<rparr>),
       only_if (obj_remove n m = []) (run_all [post_router_sync_finished (rq_request_id q), erase_req (rq_request_id q)])])]))"

definition handle_router_get_uuid :: "kernel_router_package \<Rightarrow> action" where
  "handle_router_get_uuid inp = run_all [
     check (\<lambda>_. kr_cmd inp = cmd_get_uuid),
     if_req (kr_request_id inp) (\<lambda>q. run_all [
       check (\<lambda>_. rq_cmd q = cmd_get_journal_info),
       post_storage_save_silently inp (kr_uuid inp),
       look k_user_json_uuid (\<lambda>u. only_if (rq_uuid q = u) (handle_router_get_data_for_user_manager_request inp)),
       notify_update (kr_uuid inp) cmd_update (kr_data_version inp),
       process_requested_uuid_for_sync (kr_request_id inp) inp])]"

definition handle_router_sync_finished_request :: action where
  "handle_router_sync_finished_request = run_all [
     upd (\<lambda>s. s\<lparr>k_should_block_get_request := False\<rparr>), post_ims (\<lambda>out. out\<lparr>im_cmd := cmd_sync_finished\<rparr>)]"

section \<open>Dispatch\<close>

definition kernel_process_storage_input :: "kernel_storage_package \<Rightarrow> action" where
  "kernel_process_storage_input inp =
     (let c = ks_cmd inp in
      if c = cmd_ack then handle_storage_positive_response inp
      else if c = cmd_nack then handle_storage_negative_response inp
      else if c = cmd_get_data then handle_storage_get_response inp
      else if c = cmd_deleted then handle_storage_deleted inp
      else if c = cmd_copy_succeeded then handle_storage_copy_succeeded (ks_request_id inp)
      else if c = cmd_failed then handle_storage_failed inp
      else if c = cmd_no_space then handle_storage_no_space_copy inp
      else if c = cmd_start_storage_sync then handle_storage_start_sync inp
      else skip)"

definition kernel_process_storage_writer_input :: "kernel_storage_package \<Rightarrow> action" where
  "kernel_process_storage_writer_input inp =
     (let c = ks_cmd inp in
      if c = cmd_save_confirm then handle_storage_save_confirm inp
      else if c = cmd_failed then handle_storage_failed inp
      else if c = cmd_no_space then handle_storage_no_space inp
      else skip)"

definition kernel_process_cache_input :: "kernel_storage_package \<Rightarrow> action" where
  "kernel_process_cache_input inp =
     (if ks_cmd inp = cmd_move_cache_to_storage_completed then handle_move_cache_to_storage_completed inp else skip)"

text \<open>The task's name is \<^verbatim>\<open>kernel\<close>; a channel that was deactivated stays so.\<close>

definition kernel_process_wallet_input :: "package \<Rightarrow> action" where
  "kernel_process_wallet_input inp = c_message inp (\<lambda>_. text_package ''kernel end of the connection '' (\<lambda>p.
     upd (\<lambda>s. s\<lparr>k_wallet_tx := deactivate (commit default_package (set_slot (\<lambda>out. out\<lparr>p_size := p_size p, p_message := p_message p\<rparr>) (k_wallet_tx s)))\<rparr>)))"

definition handle_user_info_dump_confirm :: "ID32 \<Rightarrow> action" where
  "handle_user_info_dump_confirm i = if_req i (\<lambda>q. run_all [
     check (\<lambda>_. rq_cmd q = cmd_dump_user_info \<or> rq_cmd q = cmd_regenerate_user_keys),
     upd_req i (\<lambda>q. q\<lparr>rq_updated := rq_updated q + 1\<rparr>),
     with_req i (\<lambda>q. only_if (rq_updated q = 2) (send_dump_user_info_succeeded_response_to_ims i))])"

definition kernel_process_backup_input :: "kernel_backup_package \<Rightarrow> action" where
  "kernel_process_backup_input inp =
     (let c = kb_cmd inp in
      if c = cmd_get_journal_info then post_router_get_journal_info inp
      else if c = cmd_send_uuids then handle_backup_send_uuids inp
      else if c = cmd_get_uuid then handle_backup_get_uuid inp
      else if c = cmd_notify_delete then notify_update (kb_uuid inp) cmd_del (kb_data_version inp)
      else if c = cmd_save_confirm then handle_user_info_dump_confirm (kb_request_id inp)
      else skip)"

end
