(* ===== verification/Kernel_Keys.thy ===== *)
theory Kernel_Keys
  imports Kernel_Storage
begin

text \<open>What the key manager answers.\<close>

definition encrypted_master_json_for_save :: "kernel_key_manager_package \<Rightarrow> bool" where
  "encrypted_master_json_for_save p \<longleftrightarrow> km_aes_key p \<noteq> [] \<and> km_aes_iv p \<noteq> []"

section \<open>Keys and encrypted data\<close>

definition handle_key_manager_reencrypted_key_request :: "kernel_key_manager_package \<Rightarrow> action" where
  "handle_key_manager_reencrypted_key_request inp = run_all [
     check (\<lambda>_. km_cmd inp = cmd_reencrypted_key), check (has_req (km_request_id inp)),
     check (\<lambda>_. km_aes_key inp \<noteq> [] \<and> km_aes_iv inp \<noteq> []),
     upd_req (km_request_id inp) (\<lambda>q. q\<lparr>rq_aes_key := km_aes_key inp, rq_aes_iv := km_aes_iv inp\<rparr>),
     send_ims_share_confirm (km_request_id inp)]"

definition handle_key_manager_encrypted_request :: "kernel_key_manager_package \<Rightarrow> action" where
  "handle_key_manager_encrypted_request inp = run_all [
     check (\<lambda>_. km_cmd inp = cmd_encrypted),
     assert_req (km_request_id inp) (\<lambda>q.
       if rq_cmd q = cmd_save then handle_save_request_after_encrypt inp (km_request_id inp)
       else if rq_cmd q = cmd_copy then handle_copy_of_encrypted_master_object inp (km_request_id inp)
       else if rq_cmd q = cmd_update then save_master_object (km_request_id inp) inp
       else if rq_cmd q = cmd_save_stream then handle_encrypted_save_stream inp (km_request_id inp)
       else raise_error Assertion_violation)]"

definition handle_key_manager_get_aes_key :: "kernel_key_manager_package \<Rightarrow> action" where
  "handle_key_manager_get_aes_key inp = run_all [
     check (\<lambda>_. km_cmd inp = cmd_get_aes_key),
     assert_req (km_request_id inp) (\<lambda>q.
       if rq_cmd q = cmd_update \<or> rq_cmd q = cmd_save then process_save_request_after_key_generation inp (km_request_id inp)
       else raise_error Assertion_violation)]"

definition handle_regenerate_user_keys_succeeded :: "kernel_key_manager_package \<Rightarrow> action" where
  "handle_regenerate_user_keys_succeeded inp = run_all [
     check (\<lambda>_. km_cmd inp = cmd_regenerate_user_keys_succeeded),
     assert_req (km_request_id inp) (\<lambda>q. run_all [
       check (\<lambda>_. rq_cmd q = cmd_regenerate_user_keys),
       send_dump_user_json_request (rq_request_id q) (km_aes_key inp) (km_aes_iv inp),
       send_dump_device_json_request (rq_request_id q) (km_aes_key inp) (km_aes_iv inp)])]"

definition handle_user_keys_regeneration_fail :: "kernel_key_manager_package \<Rightarrow> action" where
  "handle_user_keys_regeneration_fail inp = run_all [
     check (\<lambda>_. km_cmd inp = cmd_failed),
     assert_req (km_request_id inp) (\<lambda>q. run_all [
       check (\<lambda>_. rq_cmd q = cmd_regenerate_user_keys),
       with_ims (rq_request_id q) (\<lambda>i.
         let answer = (\<lambda>m. run_all [
           ims_slot (\<lambda>out. out\<lparr>im_request_id := i, im_cmd := cmd_regenerate_user_keys_fail\<rparr>),
           ims_text (''Failed to regenerate user keys.'' @ m), ims_commit]) in
         if has_message inp then c_message inp (\<lambda>m. answer (CHR '' '' # m)) else answer []),
       finish_request q])]"

text \<open>The id of the web interface is erased under the id of the answer.\<close>

definition handle_decrypted_key :: "kernel_key_manager_package \<Rightarrow> ID32 \<Rightarrow> action" where
  "handle_decrypted_key inp r = with_req r (\<lambda>q. run_all [
     check (\<lambda>_. km_cmd inp = cmd_decrypted \<and> rq_cmd q = cmd_accept_share),
     check (\<lambda>s. ims_id (rq_request_id q) s \<noteq> None),
     add_shared_info_in_user_json r (km_aes_key inp) (km_aes_iv inp) 1,
     with_ims (rq_request_id q) (\<lambda>i. post_ims (\<lambda>out. out\<lparr>im_cmd := cmd_share_accepted, im_request_id := i\<rparr>)),
     erase_ims (km_request_id inp), erase_req (rq_request_id q)])"

definition handle_get_request_after_decrypt :: "kernel_key_manager_package \<Rightarrow> ID32 \<Rightarrow> action" where
  "handle_get_request_after_decrypt inp r = with_req r (\<lambda>q. run_all [
     check (\<lambda>_. km_cmd inp = cmd_decrypted \<and> rq_cmd q = cmd_get),
     upd_req r (\<lambda>q. q\<lparr>rq_data := sliced inp\<rparr>),
     if rq_typ q = T_ims then handle_unencrypted_master_object inp r
     else run_all [
       check (\<lambda>_. rq_typ q = T_kernel),
       if_req (rq_parent_req_id q) (\<lambda>_. process_unencrypted_piece inp (rq_parent_req_id q) (rq_uuid q)),
       with_req r (\<lambda>q. erase_req (rq_request_id q))]])"

definition handle_key_manager_decrypted_request :: "kernel_key_manager_package \<Rightarrow> action" where
  "handle_key_manager_decrypted_request inp = assert_req (km_request_id inp) (\<lambda>q.
     if rq_cmd q = cmd_get then handle_get_request_after_decrypt inp (km_request_id inp)
     else if rq_cmd q \<in> {cmd_del, cmd_copy, cmd_update} then handle_unencrypted_master_object inp (km_request_id inp)
     else if rq_cmd q = cmd_accept_share then handle_decrypted_key inp (km_request_id inp)
     else skip)"

section \<open>Failures\<close>

definition handle_key_decryption_fail :: "ID32 \<Rightarrow> action" where
  "handle_key_decryption_fail r = with_req r (\<lambda>q. with_ims (rq_request_id q) (\<lambda>i. run_all [
     check (\<lambda>_. rq_typ q = T_ims \<and> rq_cmd q = cmd_accept_share),
     ims_slot (\<lambda>out. out\<lparr>im_cmd := cmd_accept_share_fail, im_request_id := i\<rparr>),
     c_message (rq_data q) (\<lambda>m. ims_text (''Could not decrypt key: '' @ m)), ims_commit,
     finish_request q]))"

definition handle_decryption_fail_for_delete_request :: "ID32 \<Rightarrow> action" where
  "handle_decryption_fail_for_delete_request r = with_req r (\<lambda>q. run_all [
     check (\<lambda>_. rq_typ q = T_ims),
     with_ims (rq_request_id q) (\<lambda>i. run_all [
       ims_slot (\<lambda>out. out\<lparr>im_uuid := rq_uuid q\<rparr>),
       look (uuid_text (rq_uuid q)) (\<lambda>n. ims_text (''Failed to delete. Could not decrypt '' @ n @ '' uuid.'')),
       post_ims (\<lambda>out. out\<lparr>im_cmd := cmd_delete_fail, im_request_id := i\<rparr>)]),
     finish_request q])"

text \<open>The request of a piece is erased first and its message is read afterwards.\<close>

definition handle_key_manager_failed_get_request :: "ID32 \<Rightarrow> action" where
  "handle_key_manager_failed_get_request r = with_req r (\<lambda>q. run_all [
     check (has_req (rq_request_id q)),
     check (\<lambda>_. rq_typ q = T_kernel \<or> rq_typ q = T_ims),
     only_if (rq_typ q = T_kernel) (erase_req (rq_request_id q)),
     if_req (if rq_typ q = T_kernel then rq_parent_req_id q else rq_request_id q) (\<lambda>p. look (uuid_text (rq_uuid p)) (\<lambda>n.
       with_req r (\<lambda>q. c_message (rq_data q) (\<lambda>m.
         fail_package cmd_get_fail (rq_uuid p) (''Getting file failed: uuid='' @ n @ ''. '' @ m) send_ims_response))))])"

definition handle_key_manager_decryption_fail_request :: "kernel_key_manager_package \<Rightarrow> action" where
  "handle_key_manager_decryption_fail_request inp = run_all [
     check (\<lambda>_. km_cmd inp = cmd_decryption_fail), check (has_req (km_request_id inp)),
     upd_req (km_request_id inp) (\<lambda>q. q\<lparr>rq_data := sliced inp\<rparr>),
     with_req (km_request_id inp) (\<lambda>q.
       if rq_cmd q = cmd_accept_share then handle_key_decryption_fail (km_request_id inp)
       else if rq_cmd q = cmd_update then c_message inp (send_ims_update_fail_response (km_request_id inp))
       else if rq_cmd q = cmd_copy then c_message inp (send_ims_copy_failed_response (km_request_id inp))
       else if rq_cmd q = cmd_get then handle_key_manager_failed_get_request (km_request_id inp)
       else if rq_cmd q = cmd_del then handle_decryption_fail_for_delete_request (km_request_id inp)
       else skip)]"

definition handle_key_manager_failed_share_request :: "kernel_key_manager_package \<Rightarrow> action" where
  "handle_key_manager_failed_share_request inp = assert_req (km_request_id inp) (\<lambda>q. run_all [
     check (\<lambda>_. rq_typ q = T_ims),
     look (ims_id (rq_request_id q)) (\<lambda>i. on_some i (\<lambda>i. if_req (rq_request_id q) (\<lambda>_. run_all [
       post_ims (\<lambda>out. (set_payload inp out)\<lparr>im_cmd := cmd_share_fail, im_uuid := rq_uuid q, im_request_id := i\<rparr>),
       finish_request q])))])"

section \<open>Messages addressed to a user\<close>

definition handle_key_manager_id_found_request :: "kernel_key_manager_package \<Rightarrow> action" where
  "handle_key_manager_id_found_request inp = assert_req (km_request_id inp) (\<lambda>q.
     if rq_cmd q = cmd_find_peer then post_router_peer_found (km_request_id inp)
     else if rq_cmd q = cmd_notify_update then send_update_notification_to_ims (km_request_id inp) ''updated''
     else if rq_cmd q = cmd_notify_delete then send_update_notification_to_ims (km_request_id inp) ''deleted''
     else skip)"

definition handle_key_manager_id_not_found_request :: "kernel_key_manager_package \<Rightarrow> action" where
  "handle_key_manager_id_not_found_request inp = assert_req (km_request_id inp) (\<lambda>q. run_all [
     only_if (rq_cmd q \<noteq> cmd_notify_update \<and> rq_cmd q \<noteq> cmd_notify_delete)
       (post_router (\<lambda>out. (set_payload (rq_data q) out)\<lparr>kr_request_id := km_request_id inp, kr_uuid := rq_uuid q, kr_cmd := cmd_refuse\<rparr>)),
     erase_req (km_request_id inp)])"

section \<open>Keys of the user\<close>

text \<open>An answer of another task that goes to the web interface under the id that waits for it.\<close>

definition reply_to_ims :: "ID32 \<Rightarrow> (ims_kernel_package \<Rightarrow> ims_kernel_package) \<Rightarrow> action" where
  "reply_to_ims i f = run_all [with_ims i (\<lambda>j. post_ims (\<lambda>out. f (out\<lparr>im_request_id := j\<rparr>))), erase_ims i]"

definition handle_key_manager_get_user_keys_response :: "kernel_key_manager_package \<Rightarrow> action" where
  "handle_key_manager_get_user_keys_response inp = run_all [
     check (\<lambda>_. km_cmd inp = cmd_get_user_keys_response \<or> km_cmd inp = cmd_get_user_keys_failed),
     reply_to_ims (km_request_id inp) (\<lambda>out. set_payload inp (out\<lparr>im_cmd := km_cmd inp\<rparr>))]"

definition handle_key_manager_request_keys_response :: "kernel_key_manager_package \<Rightarrow> action" where
  "handle_key_manager_request_keys_response inp = run_all [
     check (\<lambda>_. km_cmd inp = cmd_request_keys_response),
     reply_to_ims (km_request_id inp) (\<lambda>out. (set_payload inp out)\<lparr>im_cmd := km_cmd inp\<rparr>),
     send_dump_device_json_request (km_request_id inp) (km_aes_key inp) (km_aes_iv inp)]"

definition handle_request_keys_fail :: "ID32 \<Rightarrow> 'a package_scheme \<Rightarrow> action" where
  "handle_request_keys_fail i inp = reply_to_ims i (\<lambda>out. (set_payload inp out)\<lparr>im_cmd := cmd_request_keys_fail\<rparr>)"

definition handle_key_init_fail :: action where
  "handle_key_init_fail = run_all [
     kernel_get_request_id (\<lambda>i. text_package ''{\"event\":\"key initialization in Metax failed\"}'' (send_notification_to_ims i)),
     upd (\<lambda>s. s\<lparr>k_valid_keys := False\<rparr>)]"

section \<open>Dispatch\<close>

definition needs_no_request :: "command \<Rightarrow> bool" where
  "needs_no_request c \<longleftrightarrow> c \<in> {cmd_request_keys_response, cmd_key_init_fail, cmd_request_keys_fail, cmd_get_user_keys_response, cmd_get_user_keys_failed}"

definition process_key_manager_input :: "kernel_key_manager_package \<Rightarrow> action" where
  "process_key_manager_input inp = look (has_req (km_request_id inp)) (\<lambda>here.
     let c = km_cmd inp in
      if \<not> here \<and> \<not> needs_no_request c then skip
      else if c = cmd_encrypted then handle_key_manager_encrypted_request inp
      else if c = cmd_decrypted then handle_key_manager_decrypted_request inp
      else if c = cmd_reencrypted_key then handle_key_manager_reencrypted_key_request inp
      else if c = cmd_decryption_fail then handle_key_manager_decryption_fail_request inp
      else if c = cmd_reencryption_fail then handle_key_manager_failed_share_request inp
      else if c = cmd_id_found then handle_key_manager_id_found_request inp
      else if c = cmd_id_not_found then handle_key_manager_id_not_found_request inp
      else if c = cmd_livestream_decrypted then send_livestream_content_to_ims (km_uuid inp) inp
      else if c = cmd_stream_decrypt_fail then handle_key_manager_stream_decrypt_fail inp
      else if c = cmd_get_aes_key then handle_key_manager_get_aes_key inp
      else if c = cmd_regenerate_user_keys_succeeded then handle_regenerate_user_keys_succeeded inp
      else if c = cmd_failed then handle_user_keys_regeneration_fail inp
      else if c = cmd_request_keys_response then handle_key_manager_request_keys_response inp
      else if c = cmd_request_keys_fail then handle_request_keys_fail (km_request_id inp) inp
      else if c = cmd_key_init_fail then handle_key_init_fail
      else if c = cmd_get_user_keys_failed \<or> c = cmd_get_user_keys_response then handle_key_manager_get_user_keys_response inp
      else raise_error Assertion_violation)"

end
