(* ===== verification/Kernel_Router.thy ===== *)
theory Kernel_Router
  imports Kernel_Keys
begin

text \<open>What the router brings: requests of other peers, answers of peers, cancelled tenders.\<close>

section \<open>Requests of peers\<close>

definition handle_router_copy_request :: "kernel_router_package \<Rightarrow> action" where
  "handle_router_copy_request inp = run_all [
     put_req (kr_request_id inp) ((request_dated (kr_request_id inp) (kr_uuid inp) Lookup_in_db (kr_cmd inp) T_router
       (kr_data_version inp) (kr_last_updated inp) (kr_expire_date inp))\<lparr>rq_data := sliced inp\<rparr>),
     post_storage_look_up_request (kr_request_id inp) True]"

definition handle_router_get_request :: "kernel_router_package \<Rightarrow> action" where
  "handle_router_get_request inp = look (\<lambda>s. k_hosted_livestreams s (kr_uuid inp)) (\<lambda>l. case l of
     Some _ \<Rightarrow> run_all [
       new_request (kr_request_id inp) (kr_uuid inp) Lookup_in_db (kr_cmd inp) T_router,
       post_router_stream_auth_request (kr_request_id inp),
       upd_live (kr_uuid inp) (\<lambda>l. l\<lparr>li_listeners := li_listeners l @ [kr_request_id inp]\<rparr>)]
   | None \<Rightarrow> upd (\<lambda>s. s\<lparr>k_jobs := k_jobs s @ [Get_job (kr_request_id inp) (kr_uuid inp) True]\<rparr>))"

definition handle_router_find_peer :: "kernel_router_package \<Rightarrow> action" where
  "handle_router_find_peer inp = run_all [
     new_request (kr_request_id inp) (kr_uuid inp) Lookup_in_db (kr_cmd inp) T_router,
     upd_req (kr_request_id inp) (\<lambda>q. q\<lparr>rq_data := sliced inp, rq_data_version := kr_data_version inp\<rparr>),
     post_key_manager (\<lambda>out. (set_payload inp out)\<lparr>km_request_id := kr_request_id inp, km_cmd := cmd_check_id\<rparr>)]"

definition handle_router_save_request :: "kernel_router_package \<Rightarrow> action" where
  "handle_router_save_request inp = run_all [
     check (\<lambda>_. kr_cmd inp = cmd_save),
     look k_storage_class (\<lambda>c. only_if (2 \<le> c) (run_all [
       (let q = request_dated (kr_request_id inp) (kr_uuid inp) Save_accept (kr_cmd inp) T_router
                  (kr_data_version inp) (kr_last_updated inp) (kr_expire_date inp) in
        add_new_uuid_in_device_json q (rq_uuid q) (rq_data_version q)),
       upd (\<lambda>s. s\<lparr>k_jobs := k_jobs s @ [Save_job (kr_request_id inp) (kr_uuid inp) (sliced inp)]\<rparr>)]))]"

definition handle_router_update_request :: "kernel_router_package \<Rightarrow> action" where
  "handle_router_update_request inp = run_all [
     check (\<lambda>_. kr_cmd inp = cmd_update),
     (let q = request_dated (kr_request_id inp) (kr_uuid inp) Lookup_in_db (kr_cmd inp) T_router
                (kr_data_version inp) (kr_last_updated inp) (kr_expire_date inp) in run_all [
      kernel_post_storage_remove_from_cache_request (rq_uuid q),
      look (\<lambda>s. k_in_storage s (rq_uuid q)) (\<lambda>here. only_if here (run_all [
        add_new_uuid_in_device_json q (rq_uuid q) (rq_data_version q),
        notify_update (rq_uuid q) cmd_update (rq_data_version q),
        upd (\<lambda>s. s\<lparr>k_jobs := k_jobs s @ [Update_job (kr_request_id inp) (kr_uuid inp) (sliced inp)]\<rparr>)]))])]"

definition handle_router_save_data :: "kernel_router_package \<Rightarrow> action" where
  "handle_router_save_data inp = run_all [
     check (\<lambda>_. kr_cmd inp = cmd_save_data),
     if_req (kr_request_id inp) (\<lambda>q. run_all [
       check (\<lambda>_. rq_st q = Save_accept), check (\<lambda>_. kr_uuid inp = rq_uuid q),
       upd_req (kr_request_id inp) (\<lambda>q. q\<lparr>rq_data := set_payload inp (rq_data q)\<rparr>),
       post_storage_save_data_request (kr_request_id inp)])]"

section \<open>Data from a peer\<close>

definition process_received_master_object_from_router :: "kernel_router_package \<Rightarrow> ID32 \<Rightarrow> action" where
  "process_received_master_object_from_router inp r = with_req r (\<lambda>q.
     if rq_cmd q = cmd_get then got_master_object inp r
     else if_req (rq_parent_req_id q) (\<lambda>_. run_all [erase_req (rq_request_id q), got_master_object inp (rq_parent_req_id q)]))"

definition handle_router_get_data :: "kernel_router_package \<Rightarrow> action" where
  "handle_router_get_data inp = run_all [
     check (\<lambda>_. kr_cmd inp = cmd_get_data),
     if_req (kr_request_id inp) (\<lambda>q. run_all [
       only_if (rq_cmd q \<noteq> cmd_del \<and> rq_typ q \<noteq> T_user_manager) (post_storage_add_cache_request inp (kr_request_id inp)),
       post_router_clear_request (kr_request_id inp),
       (case rq_typ q of
          T_ims \<Rightarrow> process_received_master_object_from_router inp (kr_request_id inp)
        | T_kernel \<Rightarrow> run_all [
            reduce_router_get_input_size (rq_size q), process_router_pending_get_requests, handle_piece inp (kr_request_id inp)]
        | T_user_manager \<Rightarrow> run_all [handle_router_get_data_for_user_manager_request inp, erase_req (kr_request_id inp)]
        | _ \<Rightarrow> skip)])]"

section \<open>Offers, confirmations, authentication\<close>

definition handle_master_object_save_offer_for_copy_request :: "ID32 \<Rightarrow> action" where
  "handle_master_object_save_offer_for_copy_request r = with_req r (\<lambda>q. run_all [
     check (\<lambda>_. rq_cmd q = cmd_copy),
     post_router (\<lambda>out. (set_payload (rq_data q) (out\<lparr>kr_uuid := rq_uuid q\<rparr>))\<lparr>kr_request_id := rq_request_id q, kr_cmd := cmd_save_data\<rparr>)])"

definition handle_router_save_offer :: "kernel_router_package \<Rightarrow> action" where
  "handle_router_save_offer inp = run_all [
     check (\<lambda>_. kr_cmd inp = cmd_save_offer),
     look (\<lambda>s. k_save_units s (kr_request_id inp)) (\<lambda>u. case u of
       Some u \<Rightarrow> run_all [
         upd_unit (kr_request_id inp) (\<lambda>u. u\<lparr>su_winners_count := su_winners_count u + kr_winners_count inp\<rparr>),
         post_router (\<lambda>out. (set_payload (su_content u) (out\<lparr>kr_uuid := su_uuid u\<rparr>))\<lparr>kr_request_id := kr_request_id inp, kr_cmd := cmd_save_data\<rparr>)]
     | None \<Rightarrow> if_req (kr_request_id inp) (\<lambda>q. run_all [
         check (\<lambda>_. rq_cmd q = cmd_copy), handle_master_object_save_offer_for_copy_request (kr_request_id inp)]))]"

definition handle_user_manager_on_update_register :: "uuid \<Rightarrow> action" where
  "handle_user_manager_on_update_register u = kernel_get_request_id (\<lambda>i. run_all [
     no_req i, new_request i u Requested cmd_on_update_register T_user_manager, post_config_get_public_key_request i])"

definition handle_user_json_updated_response :: "ID32 \<Rightarrow> action" where
  "handle_user_json_updated_response r = run_all [
     with_req r (\<lambda>q. check (\<lambda>s. rq_uuid q = k_user_json_uuid s)),
     upd_req r (\<lambda>q. q\<lparr>rq_updated := rq_updated q + 1\<rparr>),
     with_req r (\<lambda>q. look k_data_copy_count (\<lambda>n. only_if (int (unat n) - 1 = int (unat (rq_updated q))) (erase_req (rq_request_id q))))]"

definition handle_save_confirm_for_user_json :: "ID32 \<Rightarrow> action" where
  "handle_save_confirm_for_user_json r = run_all [
     with_req r (\<lambda>q. check (\<lambda>s. rq_uuid q = k_user_json_uuid s)),
     upd_req r (\<lambda>q. q\<lparr>rq_updated := rq_updated q + 1\<rparr>),
     with_req r (\<lambda>q. run_all [
       only_if (rq_updated q = 1) (run_all [
         post_user_manager (\<lambda>out. out\<lparr>ku_cmd := cmd_save_confirm\<rparr>),
         text_package ''{\"event\":\"user json backed up\"}'' (send_notification_to_ims (rq_request_id q))]),
       look k_data_copy_count (\<lambda>n. only_if (int (unat n) - 1 = int (unat (rq_updated q))) (run_all [
         add_shared_info_in_user_json r [] [] (ucast n),
         erase_req (rq_request_id q),
         look k_user_json_uuid handle_user_manager_on_update_register]))])]"

definition handle_router_save_confirm_for_request_object :: "ID32 \<Rightarrow> action" where
  "handle_router_save_confirm_for_request_object r = with_req r (\<lambda>q.
     if rq_cmd q = cmd_copy then handle_copy_success_for_master_object r
     else if rq_cmd q = cmd_save then run_all [check (\<lambda>_. rq_typ q = T_user_manager), handle_save_confirm_for_user_json r]
     else only_if (rq_cmd q = cmd_update) (run_all [check (\<lambda>_. rq_typ q = T_user_manager), handle_user_json_updated_response r]))"

definition handle_router_save_confirm :: "kernel_router_package \<Rightarrow> action" where
  "handle_router_save_confirm inp = run_all [
     check (\<lambda>_. kr_cmd inp = cmd_save_confirm \<or> kr_cmd inp = cmd_updated),
     look (\<lambda>s. k_save_units s (kr_request_id inp)) (\<lambda>u. look (has_req (kr_request_id inp)) (\<lambda>here.
       if u \<noteq> None then handle_save_confirm_for_local_save_unit (kr_request_id inp)
       else if here then handle_router_save_confirm_for_request_object (kr_request_id inp)
       else post_router_clear_request (kr_request_id inp)))]"

definition handle_update_auth_request :: "kernel_router_package \<Rightarrow> ID32 \<Rightarrow> action" where
  "handle_update_auth_request inp i = run_all [
     upd_unit i (\<lambda>u. u\<lparr>su_winners_count := su_winners_count u + kr_winners_count inp\<rparr>),
     with_unit i (\<lambda>u. post_router (\<lambda>out. (set_payload (su_content u) out)\<lparr>kr_request_id := kr_request_id inp, kr_cmd := cmd_auth_data, kr_uuid := su_uuid u\<rparr>))]"

definition handle_router_no_permissions :: "kernel_router_package \<Rightarrow> action" where
  "handle_router_no_permissions inp = run_all [
     check (\<lambda>_. kr_cmd inp = cmd_no_permissions), if_req (kr_request_id inp) (\<lambda>_. post_ims_no_permissions (kr_request_id inp))]"

definition handle_router_auth_request :: "kernel_router_package \<Rightarrow> action" where
  "handle_router_auth_request inp = run_all [
     check (\<lambda>_. kr_cmd inp = cmd_auth),
     look (\<lambda>s. k_save_units s (kr_request_id inp)) (\<lambda>u. case u of
       Some _ \<Rightarrow> handle_update_auth_request inp (kr_request_id inp)
     | None \<Rightarrow> if_req (kr_request_id inp) (\<lambda>q. run_all [
         upd_req (kr_request_id inp) (\<lambda>q. q\<lparr>rq_winners_count := rq_winners_count q + kr_winners_count inp\<rparr>),
         check (\<lambda>_. (rq_st q = Requested \<and> rq_cmd q = cmd_get) \<or> rq_cmd q \<in> {cmd_update, cmd_share, cmd_del, cmd_copy}),
         upd_req (kr_request_id inp) (\<lambda>q. q\<lparr>rq_st := Authentication\<rparr>),
         post_router (\<lambda>out. (if rq_cmd q = cmd_update \<or> rq_cmd q = cmd_copy then set_payload (rq_data q) out else out)
           \<lparr>kr_request_id := kr_request_id inp, kr_cmd := cmd_auth_data, kr_uuid := rq_uuid q\<rparr>),
         upd_req (kr_request_id inp) (\<lambda>q. q\<lparr>rq_st := Receiving\<rparr>)]))]"

definition post_router_no_permission :: "kernel_router_package \<Rightarrow> action" where
  "post_router_no_permission inp = run_all [
     post_router (\<lambda>out. out\<lparr>kr_request_id := kr_request_id inp, kr_cmd := cmd_no_permissions, kr_uuid := kr_uuid inp\<rparr>),
     erase_req (kr_request_id inp)]"

definition handle_authorized_get_request :: "ID32 \<Rightarrow> action" where
  "handle_authorized_get_request r = with_req r (\<lambda>q. run_all [
     check (\<lambda>_. rq_cmd q = cmd_get),
     look (\<lambda>s. k_hosted_livestreams s (rq_uuid q)) (\<lambda>l. case l of
       Some _ \<Rightarrow> upd_live (rq_uuid q) (\<lambda>l. l\<lparr>li_listeners := li_listeners l @ [rq_request_id q]\<rparr>)
     | None \<Rightarrow> post_storage_get_request r)])"

definition handle_router_authorized_request :: "kernel_router_package \<Rightarrow> action" where
  "handle_router_authorized_request inp = run_all [
     check (\<lambda>_. kr_cmd inp = cmd_auth_data), check (\<lambda>_. is_external_request_authorized inp),
     assert_req (kr_request_id inp) (\<lambda>q. run_all [
       check (\<lambda>_. rq_cmd q \<noteq> cmd_max_command),
       if rq_cmd q = cmd_update then run_all [
         upd_req (kr_request_id inp) (\<lambda>q. q\<lparr>rq_data := sliced inp\<rparr>), post_storage_save_data_request (kr_request_id inp)]
       else if rq_cmd q = cmd_get then handle_authorized_get_request (kr_request_id inp)
       else if rq_cmd q = cmd_del then post_storage_delete_request (kr_request_id inp)
       else if rq_cmd q = cmd_copy then post_storage_copy_request (kr_request_id inp) inp
       else skip])]"

definition handle_router_auth_data :: "kernel_router_package \<Rightarrow> action" where
  "handle_router_auth_data inp = run_all [
     check (\<lambda>_. kr_cmd inp = cmd_auth_data),
     if is_external_request_authorized inp then handle_router_authorized_request inp else post_router_no_permission inp]"

section \<open>Messages between users\<close>

definition handle_router_peer_found :: "ID32 \<Rightarrow> action" where
  "handle_router_peer_found i = assert_req i (\<lambda>q.
     post_router (\<lambda>out. set_payload (rq_data q) (out\<lparr>kr_request_id := i, kr_cmd := cmd_send_to_peer\<rparr>)))"

definition handle_router_send_to_peer :: "kernel_router_package \<Rightarrow> ID32 \<Rightarrow> action" where
  "handle_router_send_to_peer inp i = if_req i (\<lambda>q. run_all [
     check (\<lambda>_. kr_cmd inp = cmd_send_to_peer), check (\<lambda>_. rq_cmd q = cmd_find_peer), send_notification_to_ims i inp])"

text \<open>\<^verbatim>\<open>m_ims_req_ids[id]\<close> enters 0 for an id that is not there; the entry is erased below.\<close>

definition handle_router_failed :: "kernel_router_package \<Rightarrow> action" where
  "handle_router_failed inp = if_req (kr_request_id inp) (\<lambda>q. run_all [
     only_if (rq_cmd q = cmd_send_to_peer) (look (ims_id (kr_request_id inp)) (\<lambda>i.
       post_ims (\<lambda>out. set_payload inp (out\<lparr>im_request_id := (case i of None \<Rightarrow> 0 | Some i \<Rightarrow> i), im_cmd := cmd_deliver_fail\<rparr>)))),
     erase_ims (kr_request_id inp), post_router_clear_request (kr_request_id inp), erase_req (kr_request_id inp)])"

definition handle_router_send_to_peer_confirm :: "ID32 \<Rightarrow> action" where
  "handle_router_send_to_peer_confirm r = if_req r (\<lambda>q. look (ims_id r) (\<lambda>i. on_some i (\<lambda>i. run_all [
     check (\<lambda>_. rq_cmd q = cmd_send_to_peer),
     post_ims (\<lambda>out. out\<lparr>im_request_id := i, im_cmd := cmd_send_to_peer_confirm\<rparr>),
     erase_ims r, post_router_clear_request r, erase_req r])))"

section \<open>Update listeners of other peers\<close>

text \<open>A registration without a key.\<close>

definition refuse_key :: "command \<Rightarrow> kernel_router_package \<Rightarrow> action" where
  "refuse_key c inp = run_all [
     router_slot (\<lambda>out. out\<lparr>kr_request_id := kr_request_id inp, kr_uuid := kr_uuid inp\<rparr>),
     router_text '' Invalid key.'', post_router (\<lambda>out. out\<lparr>kr_cmd := c\<rparr>),
     post_router_clear_request (kr_request_id inp)]"

definition handle_router_on_update_register :: "kernel_router_package \<Rightarrow> action" where
  "handle_router_on_update_register inp =
     (if p_size inp = 0 then refuse_key cmd_on_update_register_fail inp
      else run_all [
        new_request (kr_request_id inp) (kr_uuid inp) Lookup_in_db (kr_cmd inp) T_router,
        upd_req (kr_request_id inp) (\<lambda>q. q\<lparr>rq_data := sliced inp\<rparr>),
        post_storage_look_up_request (kr_request_id inp) False])"

definition handle_router_on_update_register_fail :: "kernel_router_package \<Rightarrow> action" where
  "handle_router_on_update_register_fail inp = run_all [
     check (\<lambda>_. kr_cmd inp = cmd_on_update_register_fail),
     if_req (kr_request_id inp) (\<lambda>q. look k_user_json_uuid (\<lambda>u.
       if u = rq_uuid q then erase_req (kr_request_id inp)
       else if p_size inp = 0 then handle_failed_on_update_register_request (kr_request_id inp) []
       else run_all [
         check (\<lambda>_. has_message inp), c_message inp (handle_failed_on_update_register_request (kr_request_id inp))]))]"

definition process_router_on_update_unregister :: "kernel_router_package \<Rightarrow> action" where
  "process_router_on_update_unregister inp = run_all [
     check (\<lambda>_. has_message inp),
     look (uuid_text (kr_uuid inp)) (\<lambda>n. sized_message inp (\<lambda>p. remove_update_listener n p (\<lambda>b.
       post_router (\<lambda>out. (if b then out\<lparr>kr_cmd := cmd_on_update_unregistered\<rparr> else set_payload inp (out\<lparr>kr_cmd := cmd_refuse\<rparr>))
         \<lparr>kr_request_id := kr_request_id inp, kr_uuid := kr_uuid inp\<rparr>))))]"

definition handle_router_on_update_unregister :: "kernel_router_package \<Rightarrow> action" where
  "handle_router_on_update_unregister inp =
     (if p_size inp = 0 then refuse_key cmd_on_update_unregister_fail inp else process_router_on_update_unregister inp)"

definition handle_router_on_update_unregistered :: "kernel_router_package \<Rightarrow> action" where
  "handle_router_on_update_unregistered inp = run_all [
     check (\<lambda>_. kr_cmd inp = cmd_on_update_unregistered),
     if_req (kr_request_id inp) (\<lambda>_. look (ims_id (kr_request_id inp)) (\<lambda>i. on_some i (\<lambda>_. run_all [
       send_ims_on_update_unregister_response (kr_request_id inp),
       with_req (kr_request_id inp) (\<lambda>q. run_all [post_router_clear_request (rq_request_id q), erase_req (rq_request_id q)])])))]"

definition handle_router_on_update_unregister_fail :: "kernel_router_package \<Rightarrow> action" where
  "handle_router_on_update_unregister_fail inp = run_all [
     check (\<lambda>_. kr_cmd inp = cmd_on_update_unregister_fail),
     if_req (kr_request_id inp) (\<lambda>q. run_all [
       post_router_clear_request (rq_request_id q),
       check (\<lambda>_. has_message inp),
       look (uuid_text (rq_uuid q)) (\<lambda>n. c_message inp (\<lambda>m.
         handle_failed_on_update_unregister_request (kr_request_id inp) (''Failed to unregister on update of '' @ n @ ''.'' @ m)))])]"

definition handle_router_on_update_registered :: "kernel_router_package \<Rightarrow> action" where
  "handle_router_on_update_registered inp = run_all [
     check (\<lambda>_. kr_cmd inp = cmd_on_update_registered),
     if_req (kr_request_id inp) (\<lambda>q. look (ims_id (kr_request_id inp)) (\<lambda>i. on_some i (\<lambda>_. run_all [
       post_router_clear_request (rq_request_id q),
       look k_user_json_uuid (\<lambda>u. if u = rq_uuid q then erase_req (rq_request_id q)
         else send_ims_on_update_register_response (kr_request_id inp))])))]"

section \<open>Cancelled tenders\<close>

definition max_get_fail_count :: ID16 where
  "max_get_fail_count = 1"

definition handle_canceled_ims_save_stream_request :: "ID32 \<Rightarrow> action" where
  "handle_canceled_ims_save_stream_request r = with_req r (\<lambda>q. run_all [
     check (\<lambda>_. rq_typ q = T_ims), check (\<lambda>_. rq_cmd q = cmd_save_stream),
     with_ims (rq_request_id q) (\<lambda>i. run_all [
       ims_slot (\<lambda>out. out\<lparr>im_request_id := i, im_cmd := cmd_save_stream_fail\<rparr>), ims_text ''Failed to save stream'', ims_commit,
       erase_ims (rq_request_id q),
       upd (\<lambda>s. s\<lparr>k_stream_req_ids := (k_stream_req_ids s)(i := None)\<rparr>),
       erase_req (rq_request_id q)]),
     process_pending_save_requests])"

definition fail_recording :: "ID32 \<Rightarrow> command \<Rightarrow> action" where
  "fail_recording r c = with_req r (\<lambda>q. run_all [
     check (\<lambda>_. rq_cmd q = c),
     look (uuid_text (rq_uuid q)) (\<lambda>n. text_package (''livestream not found: '' @ n) (handle_recording_fail r))])"

definition handle_canceled_ims_recording_start :: "ID32 \<Rightarrow> action" where
  "handle_canceled_ims_recording_start r = fail_recording r cmd_recording_start"

definition handle_canceled_ims_recording_stop :: "ID32 \<Rightarrow> action" where
  "handle_canceled_ims_recording_stop r = fail_recording r cmd_recording_stop"

definition handle_canceled_ims_get_request :: "ID32 \<Rightarrow> action" where
  "handle_canceled_ims_get_request r = run_all [
     with_req r (\<lambda>q. run_all [
       check (\<lambda>_. rq_typ q = T_ims \<or> rq_typ q = T_kernel), check (\<lambda>_. rq_fail_count q < max_get_fail_count)]),
     upd_req r (\<lambda>q. q\<lparr>rq_st := Lookup_in_db\<rparr>),
     post_router_get_request r]"

definition handle_canceled_ims_request :: "ID32 \<Rightarrow> action" where
  "handle_canceled_ims_request r = with_req r (\<lambda>q.
     let c = rq_cmd q in
     if c \<in> {cmd_send_to_peer, cmd_copy, cmd_on_update_register, cmd_on_update_unregister, cmd_del}
        \<or> (c = cmd_get \<and> max_get_fail_count \<le> rq_fail_count q) then handle_failed_request r
     else if c = cmd_get then handle_canceled_ims_get_request r
     else if c = cmd_update then handle_failed_ims_update_request r
     else if c = cmd_save_stream then handle_canceled_ims_save_stream_request r
     else if c = cmd_livestream_content \<or> c = cmd_get_livestream_content then
       text_package ''Livestream is finished'' (send_get_livestream_fail_to_ims (rq_uuid q))
     else if c = cmd_recording_start then handle_canceled_ims_recording_start r
     else if c = cmd_recording_stop then handle_canceled_ims_recording_stop r
     else skip)"

definition handle_canceled_kernel_request :: "ID32 \<Rightarrow> action" where
  "handle_canceled_kernel_request r = with_req r (\<lambda>q. run_all [
     check (\<lambda>_. rq_typ q = T_kernel),
     look (has_req (rq_parent_req_id q)) (\<lambda>parent.
       if (\<not> parent \<and> rq_cmd q \<noteq> cmd_del) \<or> rq_cmd q = cmd_get_journal_info then handle_failed_request r
       else handle_canceled_ims_request r)])"

definition handle_canceled_router_request :: "ID32 \<Rightarrow> action" where
  "handle_canceled_router_request r = with_req r (\<lambda>q. run_all [
     check (\<lambda>_. rq_typ q = T_router),
     if rq_cmd q = cmd_save_stream then clean_up_hosted_livestream r
     else if rq_cmd q = cmd_livestream_content then clean_up_request_from_livestream_listeners r
     else erase_req (rq_request_id q)])"

definition handle_user_json_save_fail :: "ID32 \<Rightarrow> action" where
  "handle_user_json_save_fail r = with_req r (\<lambda>q. run_all [
     only_if (rq_updated q = 0) (post_user_manager (\<lambda>out. out\<lparr>ku_cmd := cmd_save_fail\<rparr>)),
     add_shared_info_in_user_json r [] [] (ucast (rq_updated q) + 1)])"

definition handle_user_json_get_fail :: action where
  "handle_user_json_get_fail = post_user_manager (\<lambda>out. out\<lparr>ku_cmd := cmd_failed\<rparr>)"

definition handle_canceled_user_manager_request :: "ID32 \<Rightarrow> action" where
  "handle_canceled_user_manager_request r = with_req r (\<lambda>q. run_all [
     check (\<lambda>_. rq_typ q = T_user_manager),
     if rq_cmd q = cmd_save then handle_user_json_save_fail r
     else only_if (rq_cmd q = cmd_get) handle_user_json_get_fail,
     erase_req (rq_request_id q)])"

definition handle_router_cancel :: "kernel_router_package \<Rightarrow> action" where
  "handle_router_cancel inp = look (\<lambda>s. k_save_units s (kr_request_id inp)) (\<lambda>u. case u of
     Some _ \<Rightarrow> handle_canceled_save_unit (kr_request_id inp) ''Failed to save.''
   | None \<Rightarrow> if_req (kr_request_id inp) (\<lambda>q. run_all [
       upd_req (kr_request_id inp) (\<lambda>q. q\<lparr>rq_fail_count := rq_fail_count q + 1\<rparr>),
       (case rq_typ q of
          T_ims \<Rightarrow> handle_canceled_ims_request (kr_request_id inp)
        | T_kernel \<Rightarrow> handle_canceled_kernel_request (kr_request_id inp)
        | T_router \<Rightarrow> handle_canceled_router_request (kr_request_id inp)
        | T_user_manager \<Rightarrow> handle_canceled_user_manager_request (kr_request_id inp)
        | _ \<Rightarrow> skip)]))"

section \<open>Dispatch\<close>

definition process_router_input :: "kernel_router_package \<Rightarrow> action" where
  "process_router_input inp =
     (let c = kr_cmd inp; i = kr_request_id inp in
      if c = cmd_get then handle_router_get_request inp
      else if c = cmd_get_data then handle_router_get_data inp
      else if c = cmd_notify_update \<or> c = cmd_notify_delete \<or> c = cmd_find_peer then handle_router_find_peer inp
      else if c = cmd_update then handle_router_update_request inp
      else if c = cmd_save then handle_router_save_request inp
      else if c = cmd_save_stream then handle_router_save_stream_request inp
      else if c = cmd_recording_start then handle_router_recording_start inp
      else if c = cmd_recording_stop then handle_router_recording_stop inp
      else if c = cmd_save_data then handle_router_save_data inp
      else if c = cmd_auth then handle_router_auth_request inp
      else if c = cmd_auth_data then handle_router_auth_data inp
      else if c = cmd_del then handle_router_delete_request inp
      else if c = cmd_no_permissions then handle_router_no_permissions inp
      else if c = cmd_cancel then handle_router_cancel inp
      else if c = cmd_save_offer then handle_router_save_offer inp
      else if c = cmd_save_stream_offer then handle_router_save_stream_offer inp
      else if c = cmd_livestream_content then handle_router_livestream_content inp
      else if c = cmd_updated \<or> c = cmd_save_confirm then handle_router_save_confirm inp
      else if c = cmd_peer_found then handle_router_peer_found i
      else if c = cmd_send_to_peer then handle_router_send_to_peer inp i
      else if c = cmd_send_to_peer_confirm then handle_router_send_to_peer_confirm i
      else if c = cmd_deliver_fail then handle_router_failed inp
      else if c = cmd_deleted then handle_router_deleted inp
      else if c = cmd_on_update_register then handle_router_on_update_register inp
      else if c = cmd_on_update_register_fail then handle_router_on_update_register_fail inp
      else if c = cmd_on_update_registered then handle_router_on_update_registered inp
      else if c = cmd_on_update_unregister then handle_router_on_update_unregister inp
      else if c = cmd_on_update_unregistered then handle_router_on_update_unregistered inp
      else if c = cmd_on_update_unregister_fail then handle_router_on_update_unregister_fail inp
      else if c = cmd_stream_auth then handle_router_stream_auth_request inp
      else if c = cmd_get_livestream_content then handle_router_get_livestream_content inp
      else if c = cmd_cancel_livestream_get then handle_router_cancel_livestream_get inp
      else if c = cmd_recording_started then handle_router_recording_started inp
      else if c = cmd_recording_stopped then handle_router_recording_stopped inp
      else if c = cmd_recording_fail then handle_router_recording_fail inp
      else if c = cmd_copy then handle_router_copy_request inp
      else if c = cmd_copy_succeeded then handle_router_copy_succeeded i
      else if c = cmd_send_journal_info then handle_router_send_journal_info inp
      else if c = cmd_get_journal_info then handle_router_get_journal_info inp
      else if c = cmd_send_uuids then handle_router_send_uuids_request inp
      else if c = cmd_get_uuid then handle_router_get_uuid inp
      else if c = cmd_start_storage_sync then handle_router_start_storage_sync inp
      else if c = cmd_sync_finished then handle_router_sync_finished_request
      else if c = cmd_connected then run_all [
        send_notification_to_user_manager, kernel_get_request_id (\<lambda>i. send_notification_to_ims i inp)]
      else if c = cmd_disconnected then kernel_get_request_id (\<lambda>i. send_notification_to_ims i inp)
      else skip)"

end
