(* ===== verification/Kernel_Ims.thy ===== *)
theory Kernel_Ims
  imports Kernel_Router
begin

text \<open>
  The configuration, the user manager and the web interface. The last section is a turn of the task: every input
  channel in its order, and the state the task starts in.
\<close>

section \<open>The configuration\<close>

definition handle_kernel_cfg :: "kernel_cfg_package \<Rightarrow> action" where
  "handle_kernel_cfg inp = run_all [
     check (\<lambda>_. kc_cmd inp = cmd_kernel_cfg),
     upd (\<lambda>s. s\<lparr>k_storage_class := kc_storage_class inp, k_sync_class := kc_sync_class inp,
       k_enable_livstream_hosting := kc_enable_livestream_hosting inp, k_data_copy_count := kc_data_copy_count inp,
       k_max_router_save_input_size := kc_router_save_queue_size inp, k_max_router_get_input_size := kc_router_get_queue_size inp\<rparr>)]"

definition handle_config_send_to_peer :: "kernel_cfg_package \<Rightarrow> action" where
  "handle_config_send_to_peer inp = run_all [
     check (\<lambda>_. kc_cmd inp = cmd_send_to_peer), kernel_get_request_id (\<lambda>i. send_notification_to_ims i inp)]"

text \<open>The answers about a friend leave the id of the web interface behind.\<close>

definition handle_config_get_friend_found :: "kernel_cfg_package \<Rightarrow> action" where
  "handle_config_get_friend_found inp = run_all [
     check (\<lambda>_. kc_cmd inp = cmd_get_friend_found),
     with_ims (kc_request_id inp) (\<lambda>i. assert_req (kc_request_id inp) (\<lambda>q. run_all [
       post_ims (\<lambda>out. set_payload inp (out\<lparr>im_request_id := i, im_cmd := kc_cmd inp\<rparr>)), erase_req (rq_request_id q)]))]"

definition handle_config_get_friend_not_found :: "kernel_cfg_package \<Rightarrow> action" where
  "handle_config_get_friend_not_found inp = run_all [
     check (\<lambda>_. kc_cmd inp = cmd_get_friend_not_found),
     with_ims (kc_request_id inp) (\<lambda>i. assert_req (kc_request_id inp) (\<lambda>_. run_all [
       post_ims (\<lambda>out. out\<lparr>im_request_id := i, im_cmd := kc_cmd inp\<rparr>), erase_req (kc_request_id inp)]))]"

definition forward_config_reply :: "command list \<Rightarrow> kernel_cfg_package \<Rightarrow> action" where
  "forward_config_reply cs inp = run_all [
     check (\<lambda>_. kc_cmd inp \<in> set cs),
     reply_to_ims (kc_request_id inp) (\<lambda>out. set_payload inp (out\<lparr>im_cmd := kc_cmd inp\<rparr>))]"

definition handle_config_add_trusted_peer_response :: "kernel_cfg_package \<Rightarrow> action" where
  "handle_config_add_trusted_peer_response = forward_config_reply [cmd_add_peer_confirm, cmd_add_peer_failed]"

definition handle_config_remove_trusted_peer_response :: "kernel_cfg_package \<Rightarrow> action" where
  "handle_config_remove_trusted_peer_response = forward_config_reply [cmd_remove_peer_confirm, cmd_remove_peer_failed]"

definition handle_config_add_friend_response :: "kernel_cfg_package \<Rightarrow> action" where
  "handle_config_add_friend_response = forward_config_reply [cmd_add_friend_confirm, cmd_add_friend_failed]"

definition handle_config_get_trusted_peer_list_response :: "kernel_cfg_package \<Rightarrow> action" where
  "handle_config_get_trusted_peer_list_response = forward_config_reply [cmd_get_peer_list_response]"

definition handle_config_get_friend_list_response :: "kernel_cfg_package \<Rightarrow> action" where
  "handle_config_get_friend_list_response = forward_config_reply [cmd_get_friend_list_response]"

definition handle_config_get_online_peers_response :: "kernel_cfg_package \<Rightarrow> action" where
  "handle_config_get_online_peers_response = forward_config_reply [cmd_get_online_peers_response]"

definition handle_config_get_pairing_peers_response :: "kernel_cfg_package \<Rightarrow> action" where
  "handle_config_get_pairing_peers_response = forward_config_reply [cmd_get_pairing_peers_response]"

definition handle_config_get_generated_code :: "kernel_cfg_package \<Rightarrow> action" where
  "handle_config_get_generated_code = forward_config_reply [cmd_get_generated_code, cmd_start_pairing_fail]"

definition handle_config_get_metax_info_response :: "kernel_cfg_package \<Rightarrow> action" where
  "handle_config_get_metax_info_response = forward_config_reply [cmd_get_metax_info_response]"

definition handle_config_set_metax_info_fail :: "kernel_cfg_package \<Rightarrow> action" where
  "handle_config_set_metax_info_fail = forward_config_reply [cmd_set_metax_info_fail]"

definition handle_config_set_metax_info_ok :: "kernel_cfg_package \<Rightarrow> action" where
  "handle_config_set_metax_info_ok inp = run_all [
     check (\<lambda>_. kc_cmd inp = cmd_set_metax_info_ok),
     reply_to_ims (kc_request_id inp) (\<lambda>out. out\<lparr>im_cmd := kc_cmd inp\<rparr>)]"

definition handle_config_get_public_key_response :: "kernel_cfg_package \<Rightarrow> action" where
  "handle_config_get_public_key_response inp = run_all [
     check (\<lambda>_. kc_cmd inp = cmd_get_public_key_response), check (has_req (kc_request_id inp)),
     upd_req (kc_request_id inp) (\<lambda>q. q\<lparr>rq_data := sliced inp\<rparr>),
     with_req (kc_request_id inp) (\<lambda>q.
       if rq_cmd q = cmd_get_public_key then send_ims_get_public_key_response (kc_request_id inp)
       else if rq_cmd q = cmd_on_update_register then post_router_on_update_register_request (kc_request_id inp)
       else if rq_cmd q = cmd_on_update_unregister then post_router_on_update_unregister_request (kc_request_id inp)
       else skip)]"

definition kernel_process_config_input :: "kernel_cfg_package \<Rightarrow> action" where
  "kernel_process_config_input inp =
     (let c = kc_cmd inp in
      if c = cmd_kernel_cfg then handle_kernel_cfg inp
      else if c = cmd_send_to_peer then handle_config_send_to_peer inp
      else if c = cmd_get_peer_list_response then handle_config_get_trusted_peer_list_response inp
      else if c = cmd_add_peer_failed \<or> c = cmd_add_peer_confirm then handle_config_add_trusted_peer_response inp
      else if c = cmd_remove_peer_failed \<or> c = cmd_remove_peer_confirm then handle_config_remove_trusted_peer_response inp
      else if c = cmd_add_friend_failed \<or> c = cmd_add_friend_confirm then handle_config_add_friend_response inp
      else if c = cmd_get_friend_list_response then handle_config_get_friend_list_response inp
      else if c = cmd_get_friend_found then handle_config_get_friend_found inp
      else if c = cmd_get_friend_not_found then handle_config_get_friend_not_found inp
      else if c = cmd_get_public_key_response then handle_config_get_public_key_response inp
      else if c = cmd_get_online_peers_response then handle_config_get_online_peers_response inp
      else if c = cmd_get_pairing_peers_response then handle_config_get_pairing_peers_response inp
      else if c = cmd_start_pairing_fail \<or> c = cmd_get_generated_code then handle_config_get_generated_code inp
      else if c = cmd_request_keys_fail then handle_request_keys_fail (kc_request_id inp) inp
      else if c = cmd_get_metax_info_response then handle_config_get_metax_info_response inp
      else if c = cmd_set_metax_info_ok then handle_config_set_metax_info_ok inp
      else if c = cmd_set_metax_info_fail then handle_config_set_metax_info_fail inp
      else skip)"

section \<open>The user manager\<close>

definition initialize_user_json :: "kernel_user_manager_package \<Rightarrow> action" where
  "initialize_user_json inp = run_all [
     check (\<lambda>_. has_message inp),
     sized_message inp (\<lambda>t. run_all [
       look (\<lambda>s. k_user_json s = None) (\<lambda>first. only_if first (run_all [
         kernel_get_request_id (\<lambda>i. run_all [
           ims_slot (\<lambda>out. out\<lparr>im_request_id := i, im_cmd := cmd_send_to_peer\<rparr>),
           ims_text ''{\"event\":\"keys are generated\"}'', ims_commit]),
         upd (\<lambda>s. s\<lparr>k_user_json_wait_counter := 0\<rparr>)])),
       look (\<lambda>s. kl_parse (k_lib s) t) (\<lambda>j. need Poco_error j (\<lambda>j. upd (\<lambda>s. s\<lparr>k_user_json := Some j\<rparr>))),
       check is_valid_user_json,
       upd (\<lambda>s. s\<lparr>k_user_json_uuid := ku_uuid inp\<rparr>)])]"

definition kernel_backup_user_json :: "kernel_user_manager_package \<Rightarrow> action" where
  "kernel_backup_user_json inp = kernel_get_request_id (\<lambda>i. run_all [
     no_req i,
     put_req i ((request_dated i (ku_uuid inp) Requested (ku_cmd inp) T_user_manager (ku_data_version inp) (ku_last_updated inp) 0)\<lparr>rq_local := False\<rparr>),
     upd (\<lambda>s. s\<lparr>k_user_json_uuid := ku_uuid inp\<rparr>),
     with_req i (\<lambda>q. look k_data_copy_count (\<lambda>n. backup_data i (rq_uuid q) (rq_cmd q) (ucast n - 1) (sliced inp) (rq_data_version q) q))])"

definition get_user_json_from_peer :: "kernel_user_manager_package \<Rightarrow> action" where
  "get_user_json_from_peer inp = kernel_get_request_id (\<lambda>i. run_all [
     no_req i, new_request i (ku_uuid inp) Lookup_in_db cmd_get T_user_manager,
     upd (\<lambda>s. s\<lparr>k_user_json_uuid := ku_uuid inp\<rparr>),
     post_router_get_request i])"

definition process_user_manager_input :: "kernel_user_manager_package \<Rightarrow> action" where
  "process_user_manager_input inp =
     (let c = ku_cmd inp in
      if c = cmd_user_json then initialize_user_json inp
      else if c = cmd_save_confirm then handle_user_info_dump_confirm (ku_request_id inp)
      else if c = cmd_save \<or> c = cmd_update then kernel_backup_user_json inp
      else if c = cmd_get then get_user_json_from_peer inp
      else if c = cmd_on_update_register then handle_user_manager_on_update_register (ku_uuid inp)
      else if c = cmd_key_init_fail then handle_key_init_fail
      else skip)"

section \<open>Files\<close>

definition send_ims_get_fail_request :: "ims_kernel_package \<Rightarrow> action" where
  "send_ims_get_fail_request inp = run_all [
     ims_slot (\<lambda>out. out\<lparr>im_request_id := im_request_id inp, im_uuid := im_uuid inp\<rparr>),
     ims_text ''Getting file failed. Please retry later.'',
     post_ims (\<lambda>out. out\<lparr>im_cmd := cmd_get_fail\<rparr>)]"

definition process_ims_get_request :: "ID32 \<Rightarrow> action" where
  "process_ims_get_request r = with_req r (\<lambda>q. look (\<lambda>s. k_pending_ims_get_requests s (rq_uuid q)) (\<lambda>c. run_all [
     upd (\<lambda>s. s\<lparr>k_pending_ims_get_requests := (k_pending_ims_get_requests s)(rq_uuid q \<mapsto>
       (case c of None \<Rightarrow> [] | Some l \<Rightarrow> l) @ [rq_request_id q])\<rparr>),
     (case c of
        None \<Rightarrow> post_storage_look_up_request r True
      | Some l \<Rightarrow> touch_req (hd (l @ [rq_request_id q])) (\<lambda>e. only_if (rq_list e \<noteq> None) (run_all [
          set_streaming_state (hd (l @ [rq_request_id q])) r,
          send_available_chunks_to_ims r (rq_uuid q)])))]))"

definition handle_ims_get_request :: "ims_kernel_package \<Rightarrow> action" where
  "handle_ims_get_request inp = run_all [
     check (\<lambda>_. im_cmd inp = cmd_get),
     look k_should_block_get_request (\<lambda>blocked.
       if blocked then send_ims_get_fail_request inp
       else kernel_get_request_id (\<lambda>i. run_all [
         no_ims i, set_ims i (im_request_id inp), no_req i,
         new_request i (im_uuid inp) Lookup_in_db cmd_get T_ims,
         upd_req i (\<lambda>q. q\<lparr>rq_get_range := im_get_range inp, rq_cache := im_cache inp\<rparr>),
         look (\<lambda>s. k_hosted_livestreams s (im_uuid inp)) (\<lambda>l. case l of
           Some l \<Rightarrow> process_hosted_livestream_get_request i l
         | None \<Rightarrow> process_ims_get_request i)]))]"

definition handle_create_request :: action where
  "handle_create_request = skip"

definition handle_ims_update_request :: "ims_kernel_package \<Rightarrow> action" where
  "handle_ims_update_request inp = run_all [
     check (\<lambda>_. im_cmd inp = cmd_update), check (\<lambda>_. im_uuid inp \<noteq> 0),
     kernel_get_request_id (\<lambda>i. run_all [
       new_request i (im_uuid inp) Lookup_in_db cmd_update T_ims,
       no_ims i, set_ims i (im_request_id inp),
       upd_req i (\<lambda>q. q\<lparr>rq_file_path := im_file_path inp, rq_data := set_payload inp (rq_data q), rq_local := True, rq_enc := im_enc inp,
         rq_content_type := im_content_type inp, rq_expire_date := im_expire_date inp\<rparr>),
       post_storage_look_up_request i True])]"

definition handle_ims_move_cache_to_storage :: "ims_kernel_package \<Rightarrow> action" where
  "handle_ims_move_cache_to_storage inp = run_all [
     check (\<lambda>_. im_cmd inp = cmd_move_cache_to_storage),
     kernel_get_request_id (\<lambda>i. run_all [
       no_ims i, no_req i, set_ims i (im_request_id inp),
       new_request i 0 Max_req_state (im_cmd inp) T_ims,
       post_cache (\<lambda>out. out\<lparr>ks_cmd := cmd_move_cache_to_storage, ks_request_id := i\<rparr>)])]"

text \<open>The request is forgotten, its id of the web interface stays.\<close>

definition handle_ims_clean_stream_request :: "ims_kernel_package \<Rightarrow> action" where
  "handle_ims_clean_stream_request inp = look (\<lambda>s. tab_find_value (im_request_id inp) (k_ims_req_ids s)) (\<lambda>i. on_some i (\<lambda>i.
     assert_req i (\<lambda>q. with_pending (rq_uuid q) (\<lambda>v. run_all [
       check (\<lambda>_. i \<in> set v),
       upd (\<lambda>s. s\<lparr>k_pending_ims_get_requests := (k_pending_ims_get_requests s)(rq_uuid q :=
         (if remove1 i v = [] then None else Some (remove1 i v)))\<rparr>),
       erase_req i]))))"

section \<open>Sharing\<close>

definition process_share_request :: "ims_kernel_package \<Rightarrow> ID32 \<Rightarrow> action" where
  "process_share_request inp r = with_req r (\<lambda>q. run_all [
     check (\<lambda>_. rq_cmd q = cmd_share),
     if rq_aes_key q = [] \<and> rq_aes_iv q = [] then send_ims_share_confirm r
     else post_key_manager (\<lambda>out. (set_payload inp out)\<lparr>km_request_id := rq_request_id q, km_cmd := cmd_reencrypt_key,
       km_aes_key := rq_aes_key q, km_aes_iv := rq_aes_iv q\<rparr>)])"

definition handle_ims_share_request :: "ims_kernel_package \<Rightarrow> action" where
  "handle_ims_share_request inp = run_all [
     check (\<lambda>_. im_cmd inp = cmd_share),
     kernel_get_request_id (\<lambda>i. run_all [
       no_ims i, no_req i, set_ims i (im_request_id inp),
       new_request i (im_uuid inp) Requested cmd_share T_ims,
       look (uuid_text (im_uuid inp)) (\<lambda>n. get_master_info_from_user_json n (\<lambda>p. case p of
         None \<Rightarrow> handle_failed_share_request i
       | Some u \<Rightarrow> run_all [get_keys_from_master_info i u, process_share_request inp i]))])]"

definition handle_share_accept_for_public_data :: "ID32 \<Rightarrow> ID32 \<Rightarrow> action" where
  "handle_share_accept_for_public_data r i = run_all [
     add_shared_info_in_user_json r [] [] 1,
     post_ims (\<lambda>out. out\<lparr>im_cmd := cmd_share_accepted, im_request_id := i\<rparr>),
     with_req r (\<lambda>q. erase_req (rq_request_id q))]"

definition process_ims_accept_share_request :: "ims_kernel_package \<Rightarrow> action" where
  "process_ims_accept_share_request inp = run_all [
     check (\<lambda>_. im_cmd inp = cmd_accept_share), check (\<lambda>_. im_uuid inp \<noteq> 0),
     kernel_get_request_id (\<lambda>i. run_all [
       no_req i, new_request i (im_uuid inp) Requested cmd_accept_share T_ims,
       if im_aes_key inp = [] \<and> im_aes_iv inp = [] then handle_share_accept_for_public_data i (im_request_id inp)
       else run_all [
         no_ims i, set_ims i (im_request_id inp),
         post_key_manager (\<lambda>out. out\<lparr>km_cmd := cmd_decrypt_key, km_request_id := i, km_aes_key := im_aes_key inp, km_aes_iv := im_aes_iv inp\<rparr>)]])]"

text \<open>
  \<^verbatim>\<open>set_payload("Invalid uuid")\<close> is the overload for a character pointer: it copies as many bytes as the slot's size
  says, which must not be 0.
\<close>

definition ims_chars :: "string \<Rightarrow> action" where
  "ims_chars t s = (case set_payload_chars (bytes_of t @ [0]) (slot (k_ims_tx s)) of
     Done out \<Rightarrow> ims_slot (\<lambda>_. out) s | Undef \<Rightarrow> Crashes | _ \<Rightarrow> Raises Assertion_violation s)"

definition handle_ims_accept_share_request :: "ims_kernel_package \<Rightarrow> action" where
  "handle_ims_accept_share_request inp = run_all [
     check (\<lambda>_. im_cmd inp = cmd_accept_share),
     if im_uuid inp = 0 then run_all [
       ims_slot (\<lambda>out. out\<lparr>im_cmd := cmd_accept_share_fail, im_request_id := im_request_id inp\<rparr>),
       ims_chars ''Invalid uuid'', ims_commit]
     else process_ims_accept_share_request inp]"

section \<open>Messages, listeners, keys\<close>

definition handle_ims_send_to_peer_request :: "ims_kernel_package \<Rightarrow> action" where
  "handle_ims_send_to_peer_request inp = run_all [
     check (\<lambda>_. im_cmd inp = cmd_send_to_peer),
     kernel_get_request_id (\<lambda>i. run_all [
       no_ims i, no_req i, new_request i (im_uuid inp) Requested cmd_send_to_peer T_ims,
       set_ims i (im_request_id inp),
       upd_req i (\<lambda>q. q\<lparr>rq_data := set_payload inp (rq_data q), rq_cmd := cmd_send_to_peer\<rparr>),
       post_find_peer_request i (im_user_id inp)])]"

text \<open>\<^verbatim>\<open>} if (r.uuid == m_user_json_uuid)\<close>: the second test is made after the first branch, too.\<close>

definition handle_ims_failed :: "ims_kernel_package \<Rightarrow> action" where
  "handle_ims_failed inp = run_all [
     check (\<lambda>_. im_cmd inp = cmd_deliver_fail),
     if_req (im_request_id inp) (\<lambda>q. run_all [
       only_if (rq_cmd q = cmd_find_peer)
         (post_router (\<lambda>out. set_payload inp (out\<lparr>kr_cmd := cmd_deliver_fail, kr_request_id := im_request_id inp\<rparr>))),
       look k_user_json_uuid (\<lambda>u. only_if (rq_uuid q \<noteq> u) (run_all [
         erase_req (im_request_id inp), post_router_clear_request (im_request_id inp)]))])]"

definition handle_ims_send_to_peer_confirmed :: "ims_kernel_package \<Rightarrow> action" where
  "handle_ims_send_to_peer_confirmed inp = run_all [
     check (\<lambda>_. im_cmd inp = cmd_send_to_peer_confirm),
     if_req (im_request_id inp) (\<lambda>q. look k_user_json_uuid (\<lambda>u. only_if (rq_uuid q \<noteq> u) (run_all [
       check (\<lambda>_. rq_cmd q \<in> {cmd_find_peer, cmd_send_to_peer, cmd_notify_update, cmd_notify_delete}),
       post_send_to_peer_confirm (im_request_id inp),
       erase_req (im_request_id inp),
       post_router_clear_request (im_request_id inp)])))]"

definition handle_ims_register_on_update_request :: "ims_kernel_package \<Rightarrow> action" where
  "handle_ims_register_on_update_request inp = run_all [
     check (\<lambda>_. im_cmd inp = cmd_on_update_register),
     kernel_get_request_id (\<lambda>i. run_all [
       no_req i, set_ims i (im_request_id inp),
       new_request i (im_uuid inp) Max_req_state (im_cmd inp) T_ims,
       post_storage_look_up_request i False])]"

definition handle_ims_unregister_on_update_request :: "ims_kernel_package \<Rightarrow> action" where
  "handle_ims_unregister_on_update_request inp = run_all [
     check (\<lambda>_. im_cmd inp = cmd_on_update_unregister),
     look (uuid_text (im_uuid inp)) (\<lambda>n. remove_update_listener n [] (\<lambda>b.
       if b then post_ims (\<lambda>out. out\<lparr>im_cmd := cmd_on_update_unregistered, im_uuid := im_uuid inp, im_request_id := im_request_id inp\<rparr>)
       else kernel_get_request_id (\<lambda>i. run_all [
         no_req i, set_ims i (im_request_id inp),
         new_request i (im_uuid inp) Max_req_state (im_cmd inp) T_ims,
         post_config_get_public_key_request i])))]"

text \<open>A request that the configuration answers: its id waits in \<open>m_ims_req_ids\<close>, there is no request object.\<close>

definition ask_config :: "command \<Rightarrow> (ims_kernel_package \<Rightarrow> kernel_cfg_package \<Rightarrow> kernel_cfg_package) \<Rightarrow> ims_kernel_package \<Rightarrow> action" where
  "ask_config c f inp = run_all [
     check (\<lambda>_. im_cmd inp = c),
     kernel_get_request_id (\<lambda>i. run_all [
       no_ims i, set_ims i (im_request_id inp),
       post_config (\<lambda>out. f inp (out\<lparr>kc_request_id := i, kc_cmd := im_cmd inp\<rparr>))])]"

definition handle_ims_add_trusted_peer :: "ims_kernel_package \<Rightarrow> action" where
  "handle_ims_add_trusted_peer = ask_config cmd_add_peer set_payload"

definition handle_ims_remove_trusted_peer :: "ims_kernel_package \<Rightarrow> action" where
  "handle_ims_remove_trusted_peer = ask_config cmd_remove_peer set_payload"

definition handle_ims_add_friend :: "ims_kernel_package \<Rightarrow> action" where
  "handle_ims_add_friend = ask_config cmd_add_friend (\<lambda>inp out. (set_payload inp out)\<lparr>kc_user_id := im_user_id inp\<rparr>)"

definition handle_ims_get_friend_list :: "ims_kernel_package \<Rightarrow> action" where
  "handle_ims_get_friend_list = ask_config cmd_get_friend_list (\<lambda>inp out. out)"

definition handle_ims_get_online_peers :: "ims_kernel_package \<Rightarrow> action" where
  "handle_ims_get_online_peers = ask_config cmd_get_online_peers (\<lambda>inp out. out)"

definition handle_ims_get_metax_info :: "ims_kernel_package \<Rightarrow> action" where
  "handle_ims_get_metax_info = ask_config cmd_get_metax_info (\<lambda>inp out. out)"

definition handle_ims_set_metax_info :: "ims_kernel_package \<Rightarrow> action" where
  "handle_ims_set_metax_info = ask_config cmd_set_metax_info set_payload"

definition handle_ims_get_trusted_peer_list :: "ims_kernel_package \<Rightarrow> action" where
  "handle_ims_get_trusted_peer_list = ask_config cmd_get_peer_list (\<lambda>inp out. out)"

definition handle_ims_start_pairing :: "ims_kernel_package \<Rightarrow> action" where
  "handle_ims_start_pairing = ask_config cmd_start_pairing set_payload"

definition handle_ims_cancel_pairing :: "ims_kernel_package \<Rightarrow> action" where
  "handle_ims_cancel_pairing = ask_config cmd_cancel_pairing (\<lambda>inp out. out)"

definition handle_ims_get_pairing_peers :: "ims_kernel_package \<Rightarrow> action" where
  "handle_ims_get_pairing_peers = ask_config cmd_get_pairing_peers (\<lambda>inp out. out)"

definition handle_ims_request_keys :: "ims_kernel_package \<Rightarrow> action" where
  "handle_ims_request_keys = ask_config cmd_request_keys set_payload"

definition handle_ims_reconnect_to_peers :: "ims_kernel_package \<Rightarrow> action" where
  "handle_ims_reconnect_to_peers inp = run_all [
     check (\<lambda>_. im_cmd inp = cmd_reconnect_to_peers), post_config (\<lambda>out. out\<lparr>kc_cmd := im_cmd inp\<rparr>)]"

definition handle_ims_get_friend :: "ims_kernel_package \<Rightarrow> action" where
  "handle_ims_get_friend inp = run_all [
     check (\<lambda>_. im_cmd inp = cmd_get_friend),
     kernel_get_request_id (\<lambda>i. run_all [
       no_ims i, no_req i, set_ims i (im_request_id inp),
       new_request i (im_uuid inp) Lookup_in_db (im_cmd inp) T_ims,
       post_config (\<lambda>out. set_payload inp (out\<lparr>kc_request_id := i, kc_cmd := im_cmd inp\<rparr>))])]"

definition handle_ims_get_user_public_key :: "ims_kernel_package \<Rightarrow> action" where
  "handle_ims_get_user_public_key inp = run_all [
     check (\<lambda>_. im_cmd inp = cmd_get_public_key),
     kernel_get_request_id (\<lambda>i. run_all [
       no_ims i, set_ims i (im_request_id inp),
       new_request i 0 Max_req_state (im_cmd inp) T_ims,
       post_config_get_public_key_request i])]"

definition handle_ims_get_user_keys :: "ims_kernel_package \<Rightarrow> action" where
  "handle_ims_get_user_keys inp = run_all [
     check (\<lambda>_. im_cmd inp = cmd_get_user_keys),
     kernel_get_request_id (\<lambda>i. run_all [
       no_ims i, set_ims i (im_request_id inp),
       post_key_manager (\<lambda>out. out\<lparr>km_request_id := i, km_cmd := cmd_get_user_keys\<rparr>)])]"

text \<open>Both assert that the id of the web interface, not the new one, is unused as an id of the kernel.\<close>

definition handle_ims_dump_user_info :: "ims_kernel_package \<Rightarrow> action" where
  "handle_ims_dump_user_info inp = run_all [
     check (\<lambda>_. im_cmd inp = cmd_dump_user_info), no_ims (im_request_id inp),
     kernel_get_request_id (\<lambda>i. run_all [
       no_req i, set_ims i (im_request_id inp),
       new_request i 0 Requested cmd_dump_user_info T_ims,
       send_dump_user_json_request i [] [], send_dump_device_json_request i [] []])]"

definition handle_ims_regenerate_user_keys :: "ims_kernel_package \<Rightarrow> action" where
  "handle_ims_regenerate_user_keys inp = run_all [
     check (\<lambda>_. im_cmd inp = cmd_regenerate_user_keys), no_ims (im_request_id inp),
     kernel_get_request_id (\<lambda>i. run_all [
       no_req i, set_ims i (im_request_id inp),
       new_request i 0 Requested cmd_regenerate_user_keys T_ims,
       look (\<lambda>s. uuid_text (k_user_json_uuid s) s) key_manager_text,
       post_key_manager (\<lambda>out. out\<lparr>km_request_id := i, km_cmd := im_cmd inp\<rparr>)])]"

section \<open>Dispatch\<close>

definition send_response_to_ims_unhandled_command :: "ims_kernel_package \<Rightarrow> action" where
  "send_response_to_ims_unhandled_command inp = post_ims (\<lambda>out. out\<lparr>im_cmd := cmd_failed, im_request_id := im_request_id inp\<rparr>)"

definition process_ims_input :: "ims_kernel_package \<Rightarrow> action" where
  "process_ims_input inp =
     (let c = im_cmd inp in
      if c = cmd_get then handle_ims_get_request inp
      else if c = cmd_create then handle_create_request
      else if c = cmd_save then handle_ims_save_request inp
      else if c = cmd_copy then handle_ims_copy_request inp
      else if c = cmd_save_stream then handle_ims_save_stream_request inp
      else if c = cmd_livestream_content then handle_ims_livestream_content inp
      else if c = cmd_del then handle_ims_delete_request inp
      else if c = cmd_update then handle_ims_update_request inp
      else if c = cmd_share then handle_ims_share_request inp
      else if c = cmd_send_to_peer then handle_ims_send_to_peer_request inp
      else if c = cmd_deliver_fail then handle_ims_failed inp
      else if c = cmd_send_to_peer_confirm then handle_ims_send_to_peer_confirmed inp
      else if c = cmd_get_friend then handle_ims_get_friend inp
      else if c = cmd_add_peer then handle_ims_add_trusted_peer inp
      else if c = cmd_remove_peer then handle_ims_remove_trusted_peer inp
      else if c = cmd_get_friend_list then handle_ims_get_friend_list inp
      else if c = cmd_add_friend then handle_ims_add_friend inp
      else if c = cmd_get_public_key then handle_ims_get_user_public_key inp
      else if c = cmd_get_user_keys then handle_ims_get_user_keys inp
      else if c = cmd_get_online_peers then handle_ims_get_online_peers inp
      else if c = cmd_get_metax_info then handle_ims_get_metax_info inp
      else if c = cmd_set_metax_info then handle_ims_set_metax_info inp
      else if c = cmd_get_peer_list then handle_ims_get_trusted_peer_list inp
      else if c = cmd_move_cache_to_storage then handle_ims_move_cache_to_storage inp
      else if c = cmd_clean_stream_request then handle_ims_clean_stream_request inp
      else if c = cmd_on_update_register then handle_ims_register_on_update_request inp
      else if c = cmd_on_update_unregister then handle_ims_unregister_on_update_request inp
      else if c = cmd_livestream_cancel then handle_ims_livestream_cancel inp
      else if c = cmd_cancel_livestream_get then handle_ims_cancel_livestream_get inp
      else if c = cmd_accept_share then handle_ims_accept_share_request inp
      else if c = cmd_reconnect_to_peers then handle_ims_reconnect_to_peers inp
      else if c = cmd_start_pairing then handle_ims_start_pairing inp
      else if c = cmd_cancel_pairing then handle_ims_cancel_pairing inp
      else if c = cmd_get_pairing_peers then handle_ims_get_pairing_peers inp
      else if c = cmd_request_keys then handle_ims_request_keys inp
      else if c = cmd_recording_start then handle_ims_recording_start inp
      else if c = cmd_recording_stop then handle_ims_recording_stop inp
      else if c = cmd_dump_user_info then handle_ims_dump_user_info inp
      else if c = cmd_regenerate_user_keys then handle_ims_regenerate_user_keys inp
      else send_response_to_ims_unhandled_command inp)"

definition should_wait_for_user_json :: "command \<Rightarrow> kernel \<Rightarrow> bool" where
  "should_wait_for_user_json c s \<longleftrightarrow> k_user_json s = None \<and>
     c \<in> {cmd_get, cmd_save, cmd_update, cmd_del, cmd_share, cmd_copy, cmd_dump_user_info, cmd_get_public_key, cmd_get_user_keys, cmd_accept_share}"

section \<open>Input channels\<close>

text \<open>The front of a channel, if there is one, is processed and consumed.\<close>

definition take_input :: "(kernel \<Rightarrow> 'a fifo) \<Rightarrow> ('a fifo \<Rightarrow> kernel \<Rightarrow> kernel) \<Rightarrow> ('a \<Rightarrow> action) \<Rightarrow> action" where
  "take_input rx set_rx process s = (case fifo_front (rx s) of
     None \<Rightarrow> Returns s
   | Some inp \<Rightarrow> and_run (guarded (process inp) s) (\<lambda>s.
       case fifo_pop (rx s) of Done f \<Rightarrow> Returns (set_rx f s) | _ \<Rightarrow> Raises Assertion_violation s))"

definition kernel_handle_config_input :: action where
  "kernel_handle_config_input = take_input k_config_rx (\<lambda>f s. s\<lparr>k_config_rx := f\<rparr>) kernel_process_config_input"

definition handle_key_manager_input :: action where
  "handle_key_manager_input = take_input k_key_manager_rx (\<lambda>f s. s\<lparr>k_key_manager_rx := f\<rparr>) process_key_manager_input"

definition kernel_handle_storage_input :: action where
  "kernel_handle_storage_input = take_input k_storage_rx (\<lambda>f s. s\<lparr>k_storage_rx := f\<rparr>) kernel_process_storage_input"

definition kernel_handle_storage_writer_input :: action where
  "kernel_handle_storage_writer_input = take_input k_storage_writer_rx (\<lambda>f s. s\<lparr>k_storage_writer_rx := f\<rparr>) kernel_process_storage_writer_input"

definition kernel_handle_cache_input :: action where
  "kernel_handle_cache_input = take_input k_cache_rx (\<lambda>f s. s\<lparr>k_cache_rx := f\<rparr>) kernel_process_cache_input"

definition kernel_handle_wallet_input :: action where
  "kernel_handle_wallet_input = take_input k_wallet_rx (\<lambda>f s. s\<lparr>k_wallet_rx := f\<rparr>) kernel_process_wallet_input"

definition handle_router_input :: action where
  "handle_router_input = take_input k_router_rx (\<lambda>f s. s\<lparr>k_router_rx := f\<rparr>) process_router_input"

definition kernel_handle_backup_input :: action where
  "kernel_handle_backup_input = take_input k_backup_rx (\<lambda>f s. s\<lparr>k_backup_rx := f\<rparr>) kernel_process_backup_input"

definition handle_user_manager_input :: action where
  "handle_user_manager_input = take_input k_user_manager_rx (\<lambda>f s. s\<lparr>k_user_manager_rx := f\<rparr>) process_user_manager_input"

definition consume_ims :: action where
  "consume_ims s = (case fifo_pop (k_ims_rx s) of Done f \<Rightarrow> Returns (s\<lparr>k_ims_rx := f\<rparr>) | _ \<Rightarrow> Raises Assertion_violation s)"

text \<open>The first two cases are outside the \<^verbatim>\<open>try\<close> block; the second one leaves the package where it is.\<close>

definition handle_ims_input :: action where
  "handle_ims_input = look (\<lambda>s. fifo_front (k_ims_rx s)) (\<lambda>x. on_some x (\<lambda>inp.
     look k_valid_keys (\<lambda>valid. look (should_wait_for_user_json (im_cmd inp)) (\<lambda>wait.
       if \<not> valid \<and> im_cmd inp \<noteq> cmd_deliver_fail \<and> im_cmd inp \<noteq> cmd_send_to_peer_confirm then run_all [
         send_response_to_ims_unhandled_command inp, consume_ims]
       else if wait then run_all [
         upd (\<lambda>s. s\<lparr>k_user_json_wait_counter := k_user_json_wait_counter s + 1\<rparr>),
         look k_user_json_wait_counter (\<lambda>n. only_if (600 < n) handle_key_init_fail)]
       else take_input k_ims_rx (\<lambda>f s. s\<lparr>k_ims_rx := f\<rparr>) process_ims_input))))"

text \<open>
  One turn of the loop of \<^verbatim>\<open>wait_for_input_channels\<close>, after \<^verbatim>\<open>wait\<close> has returned true. What escapes a turn ends
  the process, see \<^verbatim>\<open>runTask\<close>.
\<close>

definition kernel_turn :: action where
  "kernel_turn = run_all [kernel_handle_config_input, handle_key_manager_input, kernel_handle_storage_input, kernel_handle_storage_writer_input,
     kernel_handle_cache_input, kernel_handle_wallet_input, handle_ims_input, handle_router_input, kernel_handle_backup_input, handle_user_manager_input]"

section \<open>The initial state\<close>

text \<open>
  The constructor leaves \<^verbatim>\<open>m_storage_class\<close>, \<^verbatim>\<open>m_sync_class\<close> and \<^verbatim>\<open>m_enable_livstream_hosting\<close> unset; the first message of
  the configuration sets them.
\<close>

definition kernel_new :: "klib \<Rightarrow> (nat \<Rightarrow> uuid) \<Rightarrow> (nat \<Rightarrow> string) \<Rightarrow> kernel" where
  "kernel_new L uuids names = \<lparr>
     k_key_manager_rx = fifo_new kernel_key_manager_package0, k_storage_rx = fifo_new kernel_storage_package0,
     k_storage_writer_rx = fifo_new kernel_storage_package0, k_cache_rx = fifo_new kernel_storage_package0,
     k_wallet_rx = fifo_new default_package, k_ims_rx = fifo_new ims_kernel_package0,
     k_router_rx = fifo_new kernel_router_package0, k_config_rx = fifo_new kernel_cfg_package0,
     k_backup_rx = fifo_new (kernel_backup_package0 0), k_user_manager_rx = fifo_new kernel_user_manager_package0,
     k_key_manager_tx = fifo_new kernel_key_manager_package0, k_storage_tx = fifo_new kernel_storage_package0,
     k_storage_writer_tx = fifo_new kernel_storage_package0, k_cache_tx = fifo_new kernel_storage_package0,
     k_wallet_tx = fifo_new default_package, k_ims_tx = fifo_new ims_kernel_package0,
     k_router_tx = fifo_new kernel_router_package0, k_config_tx = fifo_new kernel_cfg_package0,
     k_backup_tx = fifo_new (kernel_backup_package0 0), k_user_manager_tx = fifo_new kernel_user_manager_package0,
     k_request_counter = 0, k_pending_ims_get_requests = Map.empty, k_pending_router_get_reqs = [], k_requests = Map.empty,
     k_ims_req_ids = [], k_stream_req_ids = Map.empty, k_hosted_livestreams = Map.empty, k_save_units = Map.empty,
     k_pending_save_requests = [], k_pending_router_save_reqs = [], k_storage_input_cnt = 0, k_router_save_input_size = 0,
     k_router_get_input_size = 0, k_update_listeners = [], k_user_json = None, k_user_json_uuid = 0, k_storage_class = 0,
     k_sync_class = 0, k_enable_livstream_hosting = False, k_should_block_get_request = False, k_valid_keys = True,
     k_user_json_wait_counter = 0, k_data_copy_count = 4, k_max_router_save_input_size = 21000000,
     k_max_router_get_input_size = 21000000, k_lib = L, k_clock = 0, k_uuids = uuids, k_uuid_count = 0, k_tmp_names = names,
     k_tmp_count = 0, k_in_storage = (\<lambda>_. False), k_files = Map.empty, k_lists = Map.empty, k_list_count = 0, k_jobs = []\<rparr>"

section \<open>Functions nothing calls\<close>

definition lookup_master_node :: "uuid \<Rightarrow> ID32 \<Rightarrow> action" where
  "lookup_master_node u r = kernel_get_request_id (\<lambda>i. with_req r (\<lambda>q. run_all [
     new_request i u Lookup_in_db (rq_cmd q) T_kernel,
     upd_req i (\<lambda>m. m\<lparr>rq_parent_req_id := rq_request_id q\<rparr>),
     post_storage_look_up_request i True]))"

definition mark_deleted_from_text :: "string \<Rightarrow> string \<Rightarrow> string \<Rightarrow> action" where
  "mark_deleted_from_text u last_updated version = parse_uuid u (\<lambda>u.
     mark_uuid_as_deleted_in_device_json u (of_nat (from_string 32 version)) (of_nat (from_string 64 last_updated)))"

definition is_valid_shared_object :: "jobj \<Rightarrow> bool" where
  "is_valid_shared_object m \<longleftrightarrow> obj_has ''aes_key'' m \<and> obj_has ''aes_iv'' m \<and> obj_has ''master_uuid'' m"

text \<open>At least three pieces, of at most \<^verbatim>\<open>max_chunk_size\<close>.\<close>

definition get_piece_size :: "nat \<Rightarrow> nat" where
  "get_piece_size n =
     (if n < 3 * max_chunk_size then let q = n div 3 in if n mod 3 < 2 \<and> q \<noteq> 0 then q else q + 1 else max_chunk_size)"

end
