(* ===== verification/Kernel_Tables.thy ===== *)
theory Kernel_Tables
  imports Kernel_Ims
begin

text \<open>
  The types of the kernel's tables: what holds of them between any two statements of any handler, also when an
  exception is on its way. \<open>safe\<close> is the rule calculus: an action is safe when it takes well-formed tables to
  well-formed tables, and there is a rule for every statement a handler is made of.
\<close>

named_theorems safe_intros \<open>actions that keep the tables well-formed\<close>

section \<open>Well-formed tables\<close>

text \<open>
  A request is filed under its own id, unless it is the blank one that \<^verbatim>\<open>m_requests[i]\<close> enters; its sets are sorted
  without repetition, its list of chunks exists.
\<close>

definition is_set :: "'a::linorder list \<Rightarrow> bool" where
  "is_set xs \<longleftrightarrow> sorted xs \<and> distinct xs"

definition request_ok :: "ID32 \<Rightarrow> nat \<Rightarrow> request \<Rightarrow> bool" where
  "request_ok i n q \<longleftrightarrow> (rq_request_id q = i \<or> (rq_request_id q = 0 \<and> rq_typ q = Max_req_type))
     \<and> is_set (rq_units q) \<and> is_set (rq_backup_units q) \<and> is_set (rq_saved_units q)
     \<and> (case rq_list q of None \<Rightarrow> True | Some a \<Rightarrow> a < n)"

definition channels_ok :: "kernel \<Rightarrow> bool" where
  "channels_ok s \<longleftrightarrow> fifo_ok (k_key_manager_tx s) \<and> fifo_ok (k_storage_tx s) \<and> fifo_ok (k_storage_writer_tx s)
     \<and> fifo_ok (k_cache_tx s) \<and> fifo_ok (k_wallet_tx s) \<and> fifo_ok (k_ims_tx s) \<and> fifo_ok (k_router_tx s)
     \<and> fifo_ok (k_config_tx s) \<and> fifo_ok (k_backup_tx s) \<and> fifo_ok (k_user_manager_tx s)"

definition tables_ok :: "kernel \<Rightarrow> bool" where
  "tables_ok s \<longleftrightarrow> (\<forall>i q. k_requests s i = Some q \<longrightarrow> request_ok i (k_list_count s) q)
     \<and> k_request_counter s \<le> 0x0FFFFFFF
     \<and> is_set (map fst (k_ims_req_ids s))
     \<and> (\<forall>u. k_pending_ims_get_requests s u \<noteq> Some [])
     \<and> dom (k_lists s) = {..<k_list_count s}
     \<and> channels_ok s"

definition run_ok :: "kernel run \<Rightarrow> bool" where
  "run_ok r \<longleftrightarrow> (case r of Returns s \<Rightarrow> tables_ok s | Raises e s \<Rightarrow> tables_ok s | Crashes \<Rightarrow> True)"

definition safe :: "action \<Rightarrow> bool" where
  "safe a \<longleftrightarrow> (\<forall>s. tables_ok s \<longrightarrow> run_ok (a s))"

lemma run_ok_simps [simp]: "run_ok (Returns s) = tables_ok s" "run_ok (Raises e s) = tables_ok s" "run_ok Crashes"
  by (simp_all add: run_ok_def)

lemma safeI: "(\<And>s. tables_ok s \<Longrightarrow> run_ok (a s)) \<Longrightarrow> safe a"
  by (simp add: safe_def)

lemma safeD: "safe a \<Longrightarrow> tables_ok s \<Longrightarrow> run_ok (a s)"
  by (simp add: safe_def)

lemma run_ok_and_run: "run_ok m \<Longrightarrow> (\<And>s. tables_ok s \<Longrightarrow> run_ok (f s)) \<Longrightarrow> run_ok (and_run m f)"
  by (cases m) simp_all

lemma is_set_ops [simp]:
  "is_set []" "is_set xs \<Longrightarrow> is_set (insort_insert x xs)" "is_set xs \<Longrightarrow> is_set (remove1 x xs)" "is_set (y # ys) \<Longrightarrow> is_set ys"
  by (simp_all add: is_set_def sorted_insort_insert distinct_insort_insert sorted_remove1)

lemma keys_tab_set: "set (map fst (tab_set k v m)) = insert k (set (map fst m))"
  by (induction k v m rule: tab_set.induct) auto

lemma is_set_Cons: "is_set (x # xs) \<longleftrightarrow> is_set xs \<and> (\<forall>y \<in> set xs. x < y)"
  by (auto simp: is_set_def order.strict_iff_order)

lemma is_set_tab_set [simp]: "is_set (map fst m) \<Longrightarrow> is_set (map fst (tab_set k v m))"
proof (induction k v m rule: tab_set.induct)
  case (2 k v k' v' m)
  have "set (map fst (tab_set k v m)) = insert k (set (map fst m))" by (rule keys_tab_set)
  then show ?case
    using 2 by (cases "k < k'"; cases "k = k'") (auto simp: is_set_Cons dest: order.strict_trans)
qed (simp add: is_set_def)

lemma is_set_tab_erase [simp]: "is_set (map fst m) \<Longrightarrow> is_set (map fst (tab_erase k m))"
proof (induction m)
  case (Cons e m)
  then show ?case by (cases e) (auto simp: tab_erase_def is_set_Cons)
qed (simp add: tab_erase_def)

section \<open>Statements\<close>

lemma safe_statements [safe_intros]:
  "safe skip" "safe (raise_error e)" "safe crash" "safe (check P)" "safe (run_all [])"
  "safe a \<Longrightarrow> safe (run_all as) \<Longrightarrow> safe (run_all (a # as))"
  "(b \<Longrightarrow> safe a) \<Longrightarrow> safe (only_if b a)"
  "(\<And>y. x = Some y \<Longrightarrow> safe (k y)) \<Longrightarrow> safe (on_some x k)"
  "(\<And>y. x = Some y \<Longrightarrow> safe (k y)) \<Longrightarrow> safe (need e x k)"
  "(\<And>y. x = Some y \<Longrightarrow> safe (k y)) \<Longrightarrow> safe (must x k)"
  by (auto simp: safe_def action_defs intro: run_ok_and_run split: option.splits)

lemma safe_look [safe_intros]: "(\<And>x. safe (k x)) \<Longrightarrow> safe (look f k)"
  by (auto simp: safe_def look_def)

lemma safe_each [safe_intros]: "(\<And>x. x \<in> set xs \<Longrightarrow> safe (f x)) \<Longrightarrow> safe (each xs f)"
  by (induction xs) (auto simp: safe_def intro!: run_ok_and_run)

lemma safe_cases [safe_intros]:
  "(b \<Longrightarrow> safe a) \<Longrightarrow> (\<not> b \<Longrightarrow> safe c) \<Longrightarrow> safe (if b then a else c)"
  "safe (g v) \<Longrightarrow> safe (Let v g)"
  "(x = None \<Longrightarrow> safe a) \<Longrightarrow> (\<And>y. x = Some y \<Longrightarrow> safe (f y)) \<Longrightarrow> safe (case x of None \<Rightarrow> a | Some y \<Rightarrow> f y)"
  "(\<And>y z. p = (y, z) \<Longrightarrow> safe (h y z)) \<Longrightarrow> safe (case p of (y, z) \<Rightarrow> h y z)"
  by (simp_all add: Let_def split: option.splits prod.splits)

lemma safe_case_type [safe_intros]:
  "safe a \<Longrightarrow> safe b \<Longrightarrow> safe c \<Longrightarrow> safe d \<Longrightarrow> safe e \<Longrightarrow> safe f \<Longrightarrow>
   safe (case t of T_ims \<Rightarrow> a | T_router \<Rightarrow> b | T_kernel \<Rightarrow> c | T_backup \<Rightarrow> d | T_user_manager \<Rightarrow> e | Max_req_type \<Rightarrow> f)"
  by (cases t) simp_all

lemma safe_case_json [safe_intros]:
  "(\<And>x. safe (a x)) \<Longrightarrow> (\<And>x. safe (b x)) \<Longrightarrow> (\<And>x. safe (c x)) \<Longrightarrow> (\<And>x. safe (d x)) \<Longrightarrow> (\<And>x. safe (e x)) \<Longrightarrow> (\<And>x. safe (f x)) \<Longrightarrow> safe g \<Longrightarrow>
   safe (case j of J_obj x \<Rightarrow> a x | J_arr x \<Rightarrow> b x | J_str x \<Rightarrow> c x | J_num x \<Rightarrow> d x | J_bool x \<Rightarrow> e x | J_real x \<Rightarrow> f x | J_null \<Rightarrow> g)"
  by (cases j) simp_all

lemma safe_case_list [safe_intros]:
  "safe a \<Longrightarrow> (\<And>y ys. xs = y # ys \<Longrightarrow> safe (f y ys)) \<Longrightarrow> safe (case xs of [] \<Rightarrow> a | y # ys \<Rightarrow> f y ys)"
  by (cases xs) simp_all

lemma safe_case_outcome [safe_intros]:
  "(\<And>p. safe (a p)) \<Longrightarrow> (\<And>p. safe (b p)) \<Longrightarrow> safe c \<Longrightarrow> safe d \<Longrightarrow>
   safe (case x of Done p \<Rightarrow> a p | Thrown p \<Rightarrow> b p | Aborted \<Rightarrow> c | Undef \<Rightarrow> d)"
  by (cases x) simp_all

text \<open>A change of the state is safe when it keeps the well-formed tables.\<close>

lemma safe_upd [safe_intros]: "(\<And>s. tables_ok s \<Longrightarrow> tables_ok (f s)) \<Longrightarrow> safe (upd f)"
  by (simp add: safe_def upd_def)

lemma safe_catching [safe_intros]: "safe a \<Longrightarrow> safe h \<Longrightarrow> safe (catching_poco a h)"
proof (rule safeI)
  fix s assume a: "safe a" and h: "safe h" and ok: "tables_ok s"
  show "run_ok (catching_poco a h s)"
    using safeD [OF a ok] safeD [OF h]
    by (cases "a s") (auto simp: catching_poco_def split: exn.splits)
qed

lemma safe_guarded [safe_intros]: "safe a \<Longrightarrow> safe (guarded a)"
proof (rule safeI)
  fix s assume a: "safe a" and ok: "tables_ok s"
  show "run_ok (guarded a s)"
    using safeD [OF a ok] by (cases "a s") (auto simp: guarded_def split: exn.splits)
qed

section \<open>Tables\<close>

lemma request_ok_new [simp]:
  "request_ok i n (request_dated i u st c t v lu ed)" "request_ok i n (request_new now i u st c t)"
  by (simp_all add: request_ok_def request_new_def request_dated_def)

lemma request_ok_blank [simp]: "request_ok i n (request0 now)"
  by (simp add: request_ok_def request0_def request_new_def request_dated_def)

lemma safe_readers [safe_intros]:
  "(\<And>n q. request_ok r n q \<Longrightarrow> safe (k q)) \<Longrightarrow> safe (with_req r k)" "(\<And>q. safe (k q)) \<Longrightarrow> safe (if_req r k)"
  "(\<And>q. safe (k q)) \<Longrightarrow> safe (assert_req r k)" "(\<And>u. safe (l u)) \<Longrightarrow> safe (with_unit i l)"
  "(\<And>i. safe (h i)) \<Longrightarrow> safe (with_ims r h)" "safe (no_ims r)" "safe (no_req r)"
  by (auto simp: safe_def with_req_def if_req_def assert_req_def with_unit_def with_ims_def no_ims_def no_req_def check_def
      tables_ok_def split: option.splits)

lemma safe_touch [safe_intros]: "(\<And>q. safe (k q)) \<Longrightarrow> safe (touch_req r k)"
  by (auto simp: safe_def touch_req_def tables_ok_def channels_ok_def split: option.splits)

lemma safe_upd_req [safe_intros]:
  "(\<And>i n q. request_ok i n q \<Longrightarrow> request_ok i n (f q)) \<Longrightarrow> safe (upd_req r f)"
  by (auto simp: safe_def upd_req_def tables_ok_def channels_ok_def split: option.splits)

lemma safe_tables [safe_intros]:
  "(\<And>n. request_ok i n q) \<Longrightarrow> safe (put_req i q)" "safe (new_request i u st c t)" "safe (erase_req i)" "safe (upd_unit i g)" "safe (erase_unit i)"
  "safe (set_ims i j)" "safe (erase_ims i)" "safe (write_file f bs)"
  by (auto simp: safe_def put_req_def new_request_def look_def erase_req_def upd_unit_def erase_unit_def set_ims_def erase_ims_def
      write_file_def tables_ok_def channels_ok_def split: option.splits)

lemma counter_bound: "(x :: ID32) AND 0x0FFFFFFF \<le> 0x0FFFFFFF"
  by (rule word_and_le1)

lemma safe_sources [safe_intros]:
  "(\<And>i. safe (k i)) \<Longrightarrow> safe (kernel_get_request_id k)"
  "(\<And>u. safe (h u)) \<Longrightarrow> safe (create_random h)" "(\<And>f. safe (l f)) \<Longrightarrow> safe (temporary_file l)"
  "(\<And>u. safe (h u)) \<Longrightarrow> safe (parse_uuid t h)"
  by (auto simp: safe_def kernel_get_request_id_def create_random_def temporary_file_def parse_uuid_def look_def need_def raise_error_def
      Let_def has_req_def tables_ok_def channels_ok_def word_and_le1 split: option.splits)

text \<open>Fields on which the well-formedness does not depend.\<close>

lemma tables_ok_inputs [simp]:
  "tables_ok (s\<lparr>k_key_manager_rx := x0\<rparr>) = tables_ok s" "tables_ok (s\<lparr>k_storage_rx := x1\<rparr>) = tables_ok s"
  "tables_ok (s\<lparr>k_storage_writer_rx := x2\<rparr>) = tables_ok s" "tables_ok (s\<lparr>k_cache_rx := x3\<rparr>) = tables_ok s"
  "tables_ok (s\<lparr>k_wallet_rx := x4\<rparr>) = tables_ok s" "tables_ok (s\<lparr>k_ims_rx := x5\<rparr>) = tables_ok s"
  "tables_ok (s\<lparr>k_router_rx := x6\<rparr>) = tables_ok s" "tables_ok (s\<lparr>k_config_rx := x7\<rparr>) = tables_ok s"
  "tables_ok (s\<lparr>k_backup_rx := x8\<rparr>) = tables_ok s" "tables_ok (s\<lparr>k_user_manager_rx := x9\<rparr>) = tables_ok s"
  by (simp_all add: tables_ok_def channels_ok_def)

lemma tables_ok_wallet [simp]: "tables_ok s \<Longrightarrow> fifo_ok f \<Longrightarrow> tables_ok (s\<lparr>k_wallet_tx := f\<rparr>)"
  by (simp add: tables_ok_def channels_ok_def)

lemma tables_ok_fields [simp]:
  "tables_ok (s\<lparr>k_stream_req_ids := x0\<rparr>) = tables_ok s" "tables_ok (s\<lparr>k_hosted_livestreams := x1\<rparr>) = tables_ok s"
  "tables_ok (s\<lparr>k_save_units := x2\<rparr>) = tables_ok s" "tables_ok (s\<lparr>k_pending_router_get_reqs := x3\<rparr>) = tables_ok s"
  "tables_ok (s\<lparr>k_pending_save_requests := x4\<rparr>) = tables_ok s" "tables_ok (s\<lparr>k_pending_router_save_reqs := x5\<rparr>) = tables_ok s"
  "tables_ok (s\<lparr>k_storage_input_cnt := x6\<rparr>) = tables_ok s" "tables_ok (s\<lparr>k_router_save_input_size := x7\<rparr>) = tables_ok s"
  "tables_ok (s\<lparr>k_router_get_input_size := x8\<rparr>) = tables_ok s" "tables_ok (s\<lparr>k_update_listeners := x9\<rparr>) = tables_ok s"
  "tables_ok (s\<lparr>k_user_json := x10\<rparr>) = tables_ok s" "tables_ok (s\<lparr>k_user_json_uuid := x11\<rparr>) = tables_ok s"
  "tables_ok (s\<lparr>k_storage_class := x12\<rparr>) = tables_ok s" "tables_ok (s\<lparr>k_sync_class := x13\<rparr>) = tables_ok s"
  "tables_ok (s\<lparr>k_enable_livstream_hosting := x14\<rparr>) = tables_ok s" "tables_ok (s\<lparr>k_should_block_get_request := x15\<rparr>) = tables_ok s"
  "tables_ok (s\<lparr>k_valid_keys := x16\<rparr>) = tables_ok s" "tables_ok (s\<lparr>k_user_json_wait_counter := x17\<rparr>) = tables_ok s"
  "tables_ok (s\<lparr>k_data_copy_count := x18\<rparr>) = tables_ok s" "tables_ok (s\<lparr>k_max_router_save_input_size := x19\<rparr>) = tables_ok s"
  "tables_ok (s\<lparr>k_max_router_get_input_size := x20\<rparr>) = tables_ok s" "tables_ok (s\<lparr>k_uuid_count := x21\<rparr>) = tables_ok s"
  "tables_ok (s\<lparr>k_files := x22\<rparr>) = tables_ok s" "tables_ok (s\<lparr>k_jobs := x23\<rparr>) = tables_ok s"
  "tables_ok (s\<lparr>k_clock := x24\<rparr>) = tables_ok s" "tables_ok (s\<lparr>k_in_storage := x25\<rparr>) = tables_ok s"
  by (simp_all add: tables_ok_def channels_ok_def)

lemma request_ok_fields [simp]:
  "request_ok i n (q\<lparr>rq_uuid := x0\<rparr>) = request_ok i n q" "request_ok i n (q\<lparr>rq_st := x1\<rparr>) = request_ok i n q"
  "request_ok i n (q\<lparr>rq_cmd := x2\<rparr>) = request_ok i n q" "request_ok i n (q\<lparr>rq_keep_chunks := x3\<rparr>) = request_ok i n q"
  "request_ok i n (q\<lparr>rq_data := x4\<rparr>) = request_ok i n q" "request_ok i n (q\<lparr>rq_fail_count := x5\<rparr>) = request_ok i n q"
  "request_ok i n (q\<lparr>rq_master_json := x6\<rparr>) = request_ok i n q" "request_ok i n (q\<lparr>rq_parent_req_id := x7\<rparr>) = request_ok i n q"
  "request_ok i n (q\<lparr>rq_size := x8\<rparr>) = request_ok i n q" "request_ok i n (q\<lparr>rq_file_path := x9\<rparr>) = request_ok i n q"
  "request_ok i n (q\<lparr>rq_response_file_path := x10\<rparr>) = request_ok i n q" "request_ok i n (q\<lparr>rq_content_type := x11\<rparr>) = request_ok i n q"
  "request_ok i n (q\<lparr>rq_updated := x12\<rparr>) = request_ok i n q" "request_ok i n (q\<lparr>rq_enc := x13\<rparr>) = request_ok i n q"
  "request_ok i n (q\<lparr>rq_aes_key := x14\<rparr>) = request_ok i n q" "request_ok i n (q\<lparr>rq_aes_iv := x15\<rparr>) = request_ok i n q"
  "request_ok i n (q\<lparr>rq_old_master_json := x16\<rparr>) = request_ok i n q" "request_ok i n (q\<lparr>rq_curr := x17\<rparr>) = request_ok i n q"
  "request_ok i n (q\<lparr>rq_last := x18\<rparr>) = request_ok i n q" "request_ok i n (q\<lparr>rq_get_range := x19\<rparr>) = request_ok i n q"
  "request_ok i n (q\<lparr>rq_cache := x20\<rparr>) = request_ok i n q" "request_ok i n (q\<lparr>rq_local := x21\<rparr>) = request_ok i n q"
  "request_ok i n (q\<lparr>rq_winners_count := x22\<rparr>) = request_ok i n q" "request_ok i n (q\<lparr>rq_copy_uuid := x23\<rparr>) = request_ok i n q"
  "request_ok i n (q\<lparr>rq_data_version := x24\<rparr>) = request_ok i n q" "request_ok i n (q\<lparr>rq_last_updated := x25\<rparr>) = request_ok i n q"
  "request_ok i n (q\<lparr>rq_expire_date := x26\<rparr>) = request_ok i n q"
  by (simp_all add: request_ok_def)

lemma request_ok_sets [simp]:
  "request_ok i n q \<Longrightarrow> is_set xs \<Longrightarrow> request_ok i n (q\<lparr>rq_units := xs\<rparr>)"
  "request_ok i n q \<Longrightarrow> is_set xs \<Longrightarrow> request_ok i n (q\<lparr>rq_backup_units := xs\<rparr>)"
  "request_ok i n q \<Longrightarrow> is_set us \<Longrightarrow> request_ok i n (q\<lparr>rq_saved_units := us\<rparr>)"
  "request_ok i n q \<Longrightarrow> is_set (rq_units q)" "request_ok i n q \<Longrightarrow> is_set (rq_backup_units q)"
  "request_ok i n q \<Longrightarrow> is_set (rq_saved_units q)"
  by (simp_all add: request_ok_def)

lemma tables_ok_pending [simp]:
  "tables_ok s \<Longrightarrow> x \<noteq> Some [] \<Longrightarrow> tables_ok (s\<lparr>k_pending_ims_get_requests := (k_pending_ims_get_requests s)(u := x)\<rparr>)"
  by (simp add: tables_ok_def channels_ok_def)

section \<open>Messages and channels\<close>

lemma safe_messages [safe_intros]:
  "(\<And>t. safe (k t)) \<Longrightarrow> safe (c_message p k)" "(\<And>t. safe (k t)) \<Longrightarrow> safe (sized_message p k)"
  "(\<And>q. safe (h q)) \<Longrightarrow> safe (text_package t h)" "(\<And>q. safe (h q)) \<Longrightarrow> safe (bytes_package b h)"
  "(\<And>q. safe (h q)) \<Longrightarrow> safe (json_package j h)"
  unfolding c_message_def sized_message_def text_package_def bytes_package_def json_package_def
  by (intro safe_intros; simp)+

lemma safe_channels [safe_intros]:
  "safe (ims_slot f1)" "safe ims_commit" "safe (ims_text t)" "safe (ims_chars t)" "safe (post_ims f1)"
  "safe (router_slot f2)" "safe router_commit" "safe (router_text t)" "safe (post_router f2)" "safe (post_storage f3)"
  "safe (writer_slot f3)" "safe (post_writer f3)" "safe (post_cache f3)" "safe (post_config f4)" "safe (key_manager_text t)"
  "safe (post_key_manager f5)" "safe (post_backup f6)" "safe (post_user_manager f7)"
  by (auto simp: safe_def ims_slot_def ims_commit_def ims_text_def ims_chars_def post_ims_def router_slot_def router_commit_def
      router_text_def post_router_def post_storage_def writer_slot_def post_writer_def post_cache_def post_config_def
      key_manager_text_def post_key_manager_def post_backup_def post_user_manager_def tables_ok_def channels_ok_def
      split: outcome.splits)

lemma safe_set_owned [safe_intros]: "safe (set_owned own)"
  by (simp add: safe_def set_owned_def)

section \<open>Lists of chunks\<close>

lemma tables_ok_list: "tables_ok s \<Longrightarrow> k_lists s a = Some v \<Longrightarrow> tables_ok (s\<lparr>k_lists := (k_lists s)(a \<mapsto> w)\<rparr>)"
  by (auto simp: tables_ok_def channels_ok_def)

lemma request_ok_Suc: "request_ok i n q \<Longrightarrow> request_ok i (Suc n) q"
  by (auto simp: request_ok_def simp del: request_ok_sets split: option.splits)

lemma tables_ok_new_list:
  assumes "tables_ok s"
  shows "tables_ok (s\<lparr>k_lists := (k_lists s)(k_list_count s \<mapsto> v), k_list_count := Suc (k_list_count s)\<rparr>)"
proof -
  have "dom (k_lists s) = {..<k_list_count s}" using assms by (simp add: tables_ok_def)
  then have "dom ((k_lists s)(k_list_count s \<mapsto> v)) = {..<Suc (k_list_count s)}" by (simp add: lessThan_Suc)
  then show ?thesis using assms by (simp add: tables_ok_def channels_ok_def request_ok_Suc)
qed

lemma tables_ok_request: "tables_ok s \<Longrightarrow> request_ok r (k_list_count s) q \<Longrightarrow> tables_ok (s\<lparr>k_requests := (k_requests s)(r \<mapsto> q)\<rparr>)"
  by (simp add: tables_ok_def channels_ok_def)

lemma tables_okD: "tables_ok s \<Longrightarrow> k_requests s r = Some q \<Longrightarrow> request_ok r (k_list_count s) q"
  by (simp add: tables_ok_def)

lemma safe_with_list [safe_intros]: "(\<And>v. safe (k v)) \<Longrightarrow> safe (with_list l k)"
  unfolding with_list_def by (intro safe_intros) simp

lemma safe_replace_list:
  "safe (with_list l (\<lambda>v. if b v then upd (\<lambda>s. s\<lparr>k_lists := (k_lists s)(the l \<mapsto> g v)\<rparr>) else crash))"
proof (rule safeI)
  fix s assume ok: "tables_ok s"
  show "run_ok (with_list l (\<lambda>v. if b v then upd (\<lambda>s. s\<lparr>k_lists := (k_lists s)(the l \<mapsto> g v)\<rparr>) else crash) s)"
    using ok tables_ok_list [OF ok]
    by (cases l; cases "k_lists s (the l)") (simp_all add: with_list_def action_defs)
qed

lemma safe_upd_chunk [safe_intros]: "safe (upd_chunk l i f)"
  unfolding upd_chunk_def by (rule safe_replace_list)

lemma safe_sort_streaming_chunks [safe_intros]: "safe (sort_streaming_chunks r)"
  unfolding sort_streaming_chunks_def
  by (rule safe_readers(1)) (rule safe_replace_list [where b = "\<lambda>_. True", simplified])

lemma safe_new_list [safe_intros]: "safe (new_list v r)"
proof (rule safeI)
  fix s assume ok: "tables_ok s"
  let ?s = "s\<lparr>k_lists := (k_lists s)(k_list_count s \<mapsto> v), k_list_count := Suc (k_list_count s)\<rparr>"
  have "tables_ok ?s" using ok by (rule tables_ok_new_list)
  moreover have "request_ok r (k_list_count ?s) (q\<lparr>rq_list := Some (k_list_count s)\<rparr>)" if "k_requests s r = Some q" for q
    using request_ok_Suc [OF tables_okD [OF ok that]] by (simp add: request_ok_def del: request_ok_sets)
  ultimately show "run_ok (new_list v r s)"
    using tables_ok_request [of ?s r] by (cases "k_requests s r") (simp_all add: new_list_def look_def upd_def upd_req_def)
qed

text \<open>A request takes over the list of another one that is in the table.\<close>

lemma run_ok_take_list:
  assumes ok: "tables_ok s" and o1: "k_requests s orig = Some o1"
  shows "run_ok (upd_req r (\<lambda>q. q\<lparr>rq_list := rq_list o1, rq_content_type := c, rq_aes_iv := iv, rq_aes_key := key, rq_master_json := m\<rparr>) s)"
proof (cases "k_requests s r")
  case (Some q)
  have "request_ok r (k_list_count s) (q\<lparr>rq_list := rq_list o1\<rparr>)"
    using tables_okD [OF ok o1] tables_okD [OF ok Some] by (simp add: request_ok_def del: request_ok_sets)
  then show ?thesis using tables_ok_request [OF ok] by (simp add: upd_req_def Some)
qed (simp add: upd_req_def)

lemma safe_set_streaming_state:
  assumes "safe (calculate_stream_current_chunk_from_range r)" "safe (process_stream_prepare r)"
  shows "safe (set_streaming_state orig r)"
proof (rule safeI)
  fix s assume ok: "tables_ok s"
  show "run_ok (set_streaming_state orig r s)"
  proof (cases "k_requests s orig")
    case (Some o1)
    have "safe (run_all [calculate_stream_current_chunk_from_range r, process_stream_prepare r])"
      by (intro safe_intros assms)
    then show ?thesis
      unfolding set_streaming_state_def with_req_def Some option.case run_all.simps(2) [of "upd_req _ _"]
      by (intro run_ok_and_run run_ok_take_list [OF ok Some] safeD)
  qed (simp add: set_streaming_state_def with_req_def)
qed

lemma safe_temporary_files [safe_intros]: "(\<And>fs. safe (k fs)) \<Longrightarrow> safe (temporary_files n k)"
proof (induction n arbitrary: k)
  case (Suc n)
  show ?case unfolding temporary_files.simps by (intro safe_intros Suc)
qed simp

lemma safe_post_storage_next_piece_get_request:
  assumes "\<And>i. safe (post_storage_look_up_request i True)"
  shows "safe (post_storage_next_piece_get_request r)"
proof -
  have "is_set xs" if "request_ok r n q" "rq_units q = x # xs" for n q x xs
    using that request_ok_sets(4) [OF that(1)] by (simp add: is_set_Cons)
  then show ?thesis
    unfolding post_storage_next_piece_get_request_def
    by (intro safe_intros assms request_ok_sets(1)) assumption+
qed

lemma safe_take_input [safe_intros]:
  assumes process: "\<And>x. safe (process x)" and rx: "\<And>f s. tables_ok s \<Longrightarrow> tables_ok (set_rx f s)"
  shows "safe (take_input rx set_rx process)"
proof (rule safeI)
  fix s assume ok: "tables_ok s"
  show "run_ok (take_input rx set_rx process s)"
    using ok by (auto simp: take_input_def intro!: run_ok_and_run safeD [OF safe_guarded] process rx split: option.splits outcome.splits)
qed

end
