(* ===== verification/Kernel_Safe.thy ===== *)
theory Kernel_Safe
  imports Kernel_Tables
begin

text \<open>
  Every handler of the kernel keeps the tables well-formed, by the rules of \<open>Kernel_Tables\<close>. The lemmas follow the call
  graph: what a handler calls comes in an earlier lemma. The last section is the task among the other tasks.
\<close>

section \<open>Handlers\<close>

lemma safe_handlers_0a [safe_intros]:
  "(\<And>y0. safe (kj y0)) \<Longrightarrow> safe (with_owned kj)" "safe (get_keys_from_master_info r m)"
  "safe (send_update_to_user_manager c u t t' r)" "safe (add_new_uuid_in_device_json q u r)" "safe (add_new_uuid_in_device_json_of_router kr)"
  "safe (mark_uuid_as_deleted_in_device_json u r l)" "safe (post_storage_get_request r)" "safe (post_storage_look_up_request r b)"
  "safe (post_storage_copy_request r d)" "safe (post_storage_delete_request r)" "safe (post_storage_save_data_request_at r u)"
  "safe (post_storage_save_data_request r)" "safe (post_storage_save_request r d u)" "safe (post_storage_save_silently d u)"
  "safe (post_storage_save_at_name d t)" "safe (post_storage_add_cache_request kr r)" "safe (kernel_post_storage_remove_from_cache_request u)"
  "safe (backup_data r u c copies d r' q)" "safe (send_livestream_content_to_router r d r')" "safe (send_get_livestream_content_to_router r d)"
  "safe (post_router_peer_found r)" "safe (post_router_copy_request r)" "safe (post_router_save_offer_request r)" "safe (post_router_get_request r)"
  "safe (post_router_refuse r)"
  unfolding with_owned_def get_keys_from_master_info_def send_update_to_user_manager_def add_new_uuid_in_device_json_def
    add_new_uuid_in_device_json_of_router_def mark_uuid_as_deleted_in_device_json_def post_storage_get_request_def post_storage_look_up_request_def
    post_storage_copy_request_def post_storage_delete_request_def post_storage_save_data_request_at_def post_storage_save_data_request_def
    post_storage_save_request_def post_storage_save_silently_def post_storage_save_at_name_def post_storage_add_cache_request_def
    kernel_post_storage_remove_from_cache_request_def backup_data_def send_livestream_content_to_router_def send_get_livestream_content_to_router_def
    post_router_peer_found_def post_router_copy_request_def post_router_save_offer_request_def post_router_get_request_def post_router_refuse_def
  by (intro safe_intros; simp split: if_splits)+

lemma safe_handlers_0b [safe_intros]:
  "safe (post_router_clear_request r)" "safe (post_router_authentication_request ks r)" "safe (post_router_sync_finished r)"
  "safe (post_router_delete_request r)" "safe (post_router_stream_auth_request r)" "safe (post_router_save_stream_offer r)"
  "safe (post_router_on_update_register_request r)" "safe (post_router_on_update_unregister_request r)" "safe (post_router_recording_start r)"
  "safe (post_find_peer_request r d)" "safe (post_send_to_peer_confirm r)" "safe (send_notification_to_router r t c r')"
  "safe (post_key_manager_encrypt_request r d t t')" "safe (post_key_manager_decrypt_request r d t t')"
  "safe (post_key_manager_stream_encrypt_request r)" "safe (post_key_manager_stream_decrypt_request r d)"
  "safe (post_key_manager_gen_key_for_stream r)" "safe (post_key_manager_prepare_cipher_for_stream r)" "safe (post_config_get_public_key_request r)"
  "safe (send_dump_user_json_request r t t')" "safe (send_dump_device_json_request r t t')" "safe (send_notification_to_ims r d)"
  "safe send_notification_to_user_manager" "(\<And>y0. safe (k y0)) \<Longrightarrow> safe (create_request_for_update_notification u c k)"
  "safe (add_update_listener r t)"
  unfolding post_router_clear_request_def post_router_authentication_request_def post_router_sync_finished_def post_router_delete_request_def
    post_router_stream_auth_request_def post_router_save_stream_offer_def post_router_on_update_register_request_def
    post_router_on_update_unregister_request_def post_router_recording_start_def post_find_peer_request_def post_send_to_peer_confirm_def
    send_notification_to_router_def post_key_manager_encrypt_request_def post_key_manager_decrypt_request_def post_key_manager_stream_encrypt_request_def
    post_key_manager_stream_decrypt_request_def post_key_manager_gen_key_for_stream_def post_key_manager_prepare_cipher_for_stream_def
    post_config_get_public_key_request_def send_dump_user_json_request_def send_dump_device_json_request_def send_notification_to_ims_def
    send_notification_to_user_manager_def create_request_for_update_notification_def add_update_listener_def
  by (intro safe_intros; simp split: if_splits)+

lemma safe_handlers_0c [safe_intros]:
  "(\<And>y0. safe (kbo y0)) \<Longrightarrow> safe (remove_update_listener t t' kbo)" "safe (answer_pending im r)"
  "(\<And>y0. safe (kim y0)) \<Longrightarrow> safe (fail_package c u t kim)" "safe (send_ims_stream_prepare r r')"
  "safe (send_livestream_content_to_ims u d)" "safe (send_get_livestream_fail_to_ims u d)" "safe (finish_request q)"
  "safe (send_ims_on_update_unregister_response r)" "safe (send_ims_copy_succeeded_response r)" "safe (post_save_stream_offer_to_ims r)"
  "safe (send_ims_update_fail_response r t)" "safe (send_ims_save_fail_response r t)" "safe (send_ims_delete_failed_response r)"
  "safe (handle_failed_send_to_peer_request r)" "safe (handle_recording_fail r d)"
  "(\<And>y0. safe (kn y0)) \<Longrightarrow> safe (get_data_size_from_request_object q kn)"
  "(\<And>y0. safe (kp y0)) \<Longrightarrow> safe (get_piece_data_for_save q n n' kp)"
  "(\<And>y0. safe (k y0)) \<Longrightarrow> safe (prepare_unit_for_save r r' r'' ut u p b k)" "safe (create_request_for_unit_encrypt r p u q)"
  "safe reduce_storage_input_size" "safe (reduce_router_save_input_size r)" "safe (reduce_router_get_input_size r)"
  "safe (remove_from_backup_units r r')" "(\<And>y0. safe (k y0)) \<Longrightarrow> safe (increase_version m k)" "safe (answer_deleted r)"
  unfolding remove_update_listener_def answer_pending_def fail_package_def send_ims_stream_prepare_def send_livestream_content_to_ims_def
    send_get_livestream_fail_to_ims_def finish_request_def send_ims_on_update_unregister_response_def send_ims_copy_succeeded_response_def
    post_save_stream_offer_to_ims_def send_ims_update_fail_response_def send_ims_save_fail_response_def send_ims_delete_failed_response_def
    handle_failed_send_to_peer_request_def handle_recording_fail_def get_data_size_from_request_object_def get_piece_data_for_save_def
    prepare_unit_for_save_def create_request_for_unit_encrypt_def reduce_storage_input_size_def reduce_router_save_input_size_def
    reduce_router_get_input_size_def remove_from_backup_units_def increase_version_def answer_deleted_def
  by (intro safe_intros; simp split: if_splits)+

lemma safe_handlers_0d [safe_intros]:
  "safe (handle_failed_sync_request r)" "safe (set_piece_key r r')" "safe (prepare_file_write m t)"
  "(\<And>y0. safe (kn y0)) \<Longrightarrow> safe (get_start_position q u kn)" "safe (remove_uuid_from_master_json u r)"
  "(\<And>y0. safe (kbo y0)) \<Longrightarrow> safe (is_master_json_empty r kbo)"
  "(\<And>y0. safe (kt y0)) \<Longrightarrow> safe (prepare_partial_chunk q ch kt)"
  "(\<And>y0. safe (kis y0)) \<Longrightarrow> safe (with_pending u kis)" "safe (parse_master_object d r)"
  "(\<And>y0. safe (kli y0)) \<Longrightarrow> safe (with_live u kli)" "safe (erase_live u)" "safe (post_router_recording_stop im)"
  "safe (handle_move_cache_to_storage_completed ks)" "safe (handle_router_start_storage_sync kr)" "safe (handle_storage_start_sync ks)"
  "safe (handle_router_send_journal_info kr)" "safe (post_router_get_journal_info kb)" "safe (process_journal_info_for_sync kr)"
  "safe (handle_router_send_uuids_request kr)" "safe (handle_backup_get_uuid kb)" "safe (handle_router_get_data_for_user_manager_request kr)"
  "safe handle_router_sync_finished_request" "safe (kernel_process_wallet_input p)" "safe (handle_key_manager_id_not_found_request km)"
  "safe (reply_to_ims r fi)"
  unfolding handle_failed_sync_request_def set_piece_key_def prepare_file_write_def get_start_position_def remove_uuid_from_master_json_def
    is_master_json_empty_def prepare_partial_chunk_def with_pending_def parse_master_object_def with_live_def erase_live_def post_router_recording_stop_def
    handle_move_cache_to_storage_completed_def handle_router_start_storage_sync_def handle_storage_start_sync_def handle_router_send_journal_info_def
    post_router_get_journal_info_def process_journal_info_for_sync_def handle_router_send_uuids_request_def handle_backup_get_uuid_def
    handle_router_get_data_for_user_manager_request_def handle_router_sync_finished_request_def kernel_process_wallet_input_def
    handle_key_manager_id_not_found_request_def reply_to_ims_def
  by (intro safe_intros; simp split: if_splits)+

lemma safe_handlers_0e [safe_intros]:
  "safe (handle_router_find_peer kr)" "safe (handle_master_object_save_offer_for_copy_request r)" "safe (handle_user_json_updated_response r)"
  "safe (handle_update_auth_request kr r)" "safe (post_router_no_permission kr)" "safe (handle_router_peer_found r)" "safe handle_user_json_get_fail"
  "safe (handle_kernel_cfg kc)" "safe (handle_config_get_friend_found kc)" "safe (handle_config_get_friend_not_found kc)"
  "safe (initialize_user_json ku)" "safe (send_ims_get_fail_request im)" "safe handle_create_request" "safe (handle_ims_move_cache_to_storage im)"
  "safe (ask_config c g im)" "safe (handle_ims_reconnect_to_peers im)" "safe (handle_ims_get_friend im)" "safe (handle_ims_get_user_keys im)"
  "safe (handle_ims_regenerate_user_keys im)" "safe (send_response_to_ims_unhandled_command im)"
  unfolding handle_router_find_peer_def handle_master_object_save_offer_for_copy_request_def handle_user_json_updated_response_def
    handle_update_auth_request_def post_router_no_permission_def handle_router_peer_found_def handle_user_json_get_fail_def handle_kernel_cfg_def
    handle_config_get_friend_found_def handle_config_get_friend_not_found_def initialize_user_json_def send_ims_get_fail_request_def
    handle_create_request_def handle_ims_move_cache_to_storage_def ask_config_def handle_ims_reconnect_to_peers_def handle_ims_get_friend_def
    handle_ims_get_user_keys_def handle_ims_regenerate_user_keys_def send_response_to_ims_unhandled_command_def
  by (intro safe_intros; simp split: if_splits)+

lemma safe_router_get_loop [safe_intros]: "safe (router_get_loop ids)"
  by (induction ids) (simp_all only: router_get_loop.simps, (intro safe_intros; simp split: if_splits)+)

lemma safe_handlers_1a [safe_intros]:
  "(\<And>y0. safe (kjo y0)) \<Longrightarrow> safe (get_master_info_from_user_json t kjo)" "safe (add_shared_info_in_user_json r t t' r')"
  "safe (update_copy_count_of_owned_uuid_in_user_json u r)" "safe (remove_owned_uuid_in_user_json r)"
  "safe (add_new_piece_of_copy_req_in_user_json r)" "safe (add_new_owned_uuid_to_user_json r w)" "safe (post_router_send_uuids_request r)"
  "safe (post_router_on_update_register_response r)" "safe (notify_listener u c r j)" "safe (send_ims_response im)" "safe (process_stream_prepare r)"
  "safe (send_ims_share_confirm r)" "safe (send_ims_on_update_register_response r)" "safe (send_ims_recording_started_response r u)"
  "safe (send_ims_get_public_key_response r)" "safe (send_dump_user_info_succeeded_response_to_ims r)" "safe (send_update_notification_to_ims r t)"
  "(\<And>y0. safe (k y0)) \<Longrightarrow> safe (handle_piece_delete u r k)" "safe (handle_failed_share_request r)"
  "safe (handle_failed_on_update_register_request r t)" "safe (handle_failed_on_update_unregister_request r t)" "safe (save_master_object r d)"
  "safe (prepare_piece r e)" "safe (handle_piece_save r p u q)" "safe (load_unit r)"
  unfolding get_master_info_from_user_json_def add_shared_info_in_user_json_def update_copy_count_of_owned_uuid_in_user_json_def
    remove_owned_uuid_in_user_json_def add_new_piece_of_copy_req_in_user_json_def add_new_owned_uuid_to_user_json_def post_router_send_uuids_request_def
    post_router_on_update_register_response_def notify_listener_def send_ims_response_def process_stream_prepare_def send_ims_share_confirm_def
    send_ims_on_update_register_response_def send_ims_recording_started_response_def send_ims_get_public_key_response_def
    send_dump_user_info_succeeded_response_to_ims_def send_update_notification_to_ims_def handle_piece_delete_def handle_failed_share_request_def
    handle_failed_on_update_register_request_def handle_failed_on_update_unregister_request_def save_master_object_def prepare_piece_def
    handle_piece_save_def load_unit_def
  by (intro safe_intros; simp split: if_splits)+

lemma safe_handlers_1b [safe_intros]:
  "safe (handle_save_after_piece_encrypt km r)" "safe (clean_up_save_request r)" "safe (drop_unit r)" "safe (handle_copy_of_each_piece r t t')"
  "safe (handle_copy_of_master_object r)" "safe (handle_copy_of_encrypted_master_object km r)" "safe (handle_copy_success_for_remote_request r)"
  "safe (handle_storage_no_space_copy ks)" "safe (handle_ims_copy_request im)" "safe (handle_deleted_response_for_kernel_request r)"
  "safe (handle_deleted_response_for_ims_request r)" "safe (handle_ims_delete_request im)" "safe (handle_failed_delete_request r)"
  "safe (handle_failed_ims_update_request r)" "safe (construct_get_request_for_piece u r r')" "safe (post_look_up_request_for_piece u r l)"
  "safe (calculate_stream_current_chunk_from_range r)" "safe (send_chunk q u ch)"
  "(\<And>y0. safe (kn y0)) \<Longrightarrow> safe (get_streaming_chunk_index r u kn)" "safe (upd_live u fl)"
  "(\<And>y0 y1. safe (klr y0 y1)) \<Longrightarrow> safe (with_recording u n klr)" "safe (create_and_save_master_for_recording r)"
  "safe (handle_router_recording_stopped kr)" "safe (handle_router_recording_fail kr)" "safe (handle_livestream_content_for_ims_requests kr li)"
  unfolding handle_save_after_piece_encrypt_def clean_up_save_request_def drop_unit_def handle_copy_of_each_piece_def handle_copy_of_master_object_def
    handle_copy_of_encrypted_master_object_def handle_copy_success_for_remote_request_def handle_storage_no_space_copy_def handle_ims_copy_request_def
    handle_deleted_response_for_kernel_request_def handle_deleted_response_for_ims_request_def handle_ims_delete_request_def
    handle_failed_delete_request_def handle_failed_ims_update_request_def construct_get_request_for_piece_def post_look_up_request_for_piece_def
    calculate_stream_current_chunk_from_range_def send_chunk_def get_streaming_chunk_index_def upd_live_def with_recording_def
    create_and_save_master_for_recording_def handle_router_recording_stopped_def handle_router_recording_fail_def
    handle_livestream_content_for_ims_requests_def
  by (intro safe_intros; simp split: if_splits)+

lemma safe_handlers_1c [safe_intros]:
  "safe (handle_livestream_content_for_router_request kr ids)" "safe (clean_up_hosted_livestream_listeners ids)"
  "safe (handle_router_get_livestream_content kr)" "safe (handle_ims_save_stream_request im)" "safe (handle_ims_livestream_content im)"
  "safe (handle_key_manager_stream_decrypt_fail km)" "safe (handle_ims_livestream_cancel im)"
  "(\<And>y0 y1. safe (kbi y0 y1)) \<Longrightarrow> safe (clean_livestream_get_request_from_pendings u r kbi)"
  "(\<And>i n q. request_ok i n q \<Longrightarrow> request_ok i n (f q)) \<Longrightarrow> safe (ask_for_master_object r c f)"
  "safe (handle_storage_nack_for_on_update_register_req r)" "safe (send_router_requested_data ks r)"
  "safe (handle_no_space_for_copy_or_remote_request ks r)" "safe (handle_router_get_journal_info kr)" "safe (process_requested_uuid_for_sync r kr)"
  "safe (kernel_process_cache_input ks)" "safe (handle_regenerate_user_keys_succeeded km)" "safe (handle_user_keys_regeneration_fail km)"
  "safe (handle_key_decryption_fail r)" "safe (handle_decryption_fail_for_delete_request r)" "safe (handle_key_manager_failed_share_request km)"
  "safe (handle_key_manager_get_user_keys_response km)" "safe (handle_key_manager_request_keys_response km)" "safe (handle_request_keys_fail r d)"
  "safe handle_key_init_fail" "safe (handle_router_copy_request kr)"
  unfolding handle_livestream_content_for_router_request_def clean_up_hosted_livestream_listeners_def handle_router_get_livestream_content_def
    handle_ims_save_stream_request_def handle_ims_livestream_content_def handle_key_manager_stream_decrypt_fail_def handle_ims_livestream_cancel_def
    clean_livestream_get_request_from_pendings_def ask_for_master_object_def handle_storage_nack_for_on_update_register_req_def
    send_router_requested_data_def handle_no_space_for_copy_or_remote_request_def handle_router_get_journal_info_def process_requested_uuid_for_sync_def
    kernel_process_cache_input_def handle_regenerate_user_keys_succeeded_def handle_user_keys_regeneration_fail_def handle_key_decryption_fail_def
    handle_decryption_fail_for_delete_request_def handle_key_manager_failed_share_request_def handle_key_manager_get_user_keys_response_def
    handle_key_manager_request_keys_response_def handle_request_keys_fail_def handle_key_init_fail_def handle_router_copy_request_def
  by (intro safe_intros; simp split: if_splits)+

lemma safe_handlers_1d [safe_intros]:
  "safe (handle_router_save_request kr)" "safe (handle_router_save_data kr)" "safe (handle_router_save_offer kr)"
  "safe (handle_user_manager_on_update_register u)" "safe (handle_router_auth_request kr)" "safe (handle_router_send_to_peer kr r)"
  "safe (handle_router_failed kr)" "safe (handle_router_send_to_peer_confirm r)" "safe (refuse_key c kr)"
  "safe (process_router_on_update_unregister kr)" "safe (handle_router_on_update_unregistered kr)" "safe (fail_recording r c)"
  "safe (handle_canceled_ims_get_request r)" "safe (handle_config_send_to_peer kc)" "safe (forward_config_reply cl kc)"
  "safe (handle_config_set_metax_info_ok kc)" "safe (kernel_backup_user_json ku)" "safe (get_user_json_from_peer ku)"
  "safe (handle_ims_update_request im)" "safe (handle_ims_clean_stream_request im)" "safe (handle_ims_send_to_peer_request im)"
  "safe (handle_ims_failed im)" "safe (handle_ims_send_to_peer_confirmed im)" "safe (handle_ims_register_on_update_request im)"
  "safe (handle_ims_unregister_on_update_request im)"
  unfolding handle_router_save_request_def handle_router_save_data_def handle_router_save_offer_def handle_user_manager_on_update_register_def
    handle_router_auth_request_def handle_router_send_to_peer_def handle_router_failed_def handle_router_send_to_peer_confirm_def refuse_key_def
    process_router_on_update_unregister_def handle_router_on_update_unregistered_def fail_recording_def handle_canceled_ims_get_request_def
    handle_config_send_to_peer_def forward_config_reply_def handle_config_set_metax_info_ok_def kernel_backup_user_json_def get_user_json_from_peer_def
    handle_ims_update_request_def handle_ims_clean_stream_request_def handle_ims_send_to_peer_request_def handle_ims_failed_def
    handle_ims_send_to_peer_confirmed_def handle_ims_register_on_update_request_def handle_ims_unregister_on_update_request_def
  by (intro safe_intros; simp split: if_splits)+

lemma safe_handlers_1e [safe_intros]:
  "safe (handle_ims_add_trusted_peer im)" "safe (handle_ims_remove_trusted_peer im)" "safe (handle_ims_add_friend im)"
  "safe (handle_ims_get_friend_list im)" "safe (handle_ims_get_online_peers im)" "safe (handle_ims_get_metax_info im)"
  "safe (handle_ims_set_metax_info im)" "safe (handle_ims_get_trusted_peer_list im)" "safe (handle_ims_start_pairing im)"
  "safe (handle_ims_cancel_pairing im)" "safe (handle_ims_get_pairing_peers im)" "safe (handle_ims_request_keys im)"
  "safe (handle_ims_get_user_public_key im)" "safe (handle_ims_dump_user_info im)" "safe kernel_handle_wallet_input" "safe (lookup_master_node u r)"
  "safe (mark_deleted_from_text t t' t'')"
  unfolding handle_ims_add_trusted_peer_def handle_ims_remove_trusted_peer_def handle_ims_add_friend_def handle_ims_get_friend_list_def
    handle_ims_get_online_peers_def handle_ims_get_metax_info_def handle_ims_set_metax_info_def handle_ims_get_trusted_peer_list_def
    handle_ims_start_pairing_def handle_ims_cancel_pairing_def handle_ims_get_pairing_peers_def handle_ims_request_keys_def
    handle_ims_get_user_public_key_def handle_ims_dump_user_info_def kernel_handle_wallet_input_def lookup_master_node_def mark_deleted_from_text_def
  by (intro safe_intros; simp split: if_splits)+

lemma safe_next_piece [safe_intros]: "safe (post_storage_next_piece_get_request r)"
  by (rule safe_post_storage_next_piece_get_request) (intro safe_intros)


lemma safe_storage_pending_loop [safe_intros]: "safe (storage_pending_loop ids)"
  by (induction ids) (simp_all only: storage_pending_loop.simps, (intro safe_intros; simp split: if_splits)+)

lemma safe_send_chunks_loop [safe_intros]: "safe (send_chunks_loop n r u)"
  by (induction n) (simp_all only: send_chunks_loop.simps, (intro safe_intros; simp split: if_splits)+)

lemma safe_next_chunks_loop [safe_intros]: "safe (next_chunks_loop n l r)"
  by (induction n arbitrary: l) (simp_all only: next_chunks_loop.simps, (intro safe_intros; simp split: if_splits)+)

lemma safe_handlers_2a [safe_intros]:
  "safe (update_owned_uuid_in_user_json r)" "safe (notify_update u c r)" "safe (send_ims_requested_data r)" "safe (post_ims_no_permissions r)"
  "safe (send_ims_copy_failed_response r t)" "safe (start_master_object_save r)" "safe (prepare_pieces_for_save r)" "safe (handle_piece_for_backup r)"
  "safe (handle_save_request_after_encrypt km r)" "safe (remove_unnecessary_uuids r)" "safe (process_not_backed_up_save_unit r t)"
  "safe (copy_piece r m t)" "safe (remove_id_from_parent_units r r')" "safe (handle_first_copy_success_for_master_object r)"
  "safe (handle_storage_deleted_response_for_kernel_request r)" "safe (handle_router_deleted kr)" "safe process_router_pending_get_requests"
  "safe (handle_failed_ims_get_request r)" "safe (fill_chunk r e3)" "safe (set_encryption_keys_if_mls r)" "safe (upd_recording u n fr)"
  "safe (handle_router_recording_start kr)" "safe (handle_ims_recording_start im)" "safe (handle_router_recording_started kr)"
  "safe (process_router_save_stream_request r)"
  unfolding update_owned_uuid_in_user_json_def notify_update_def send_ims_requested_data_def post_ims_no_permissions_def send_ims_copy_failed_response_def
    start_master_object_save_def prepare_pieces_for_save_def handle_piece_for_backup_def handle_save_request_after_encrypt_def remove_unnecessary_uuids_def
    process_not_backed_up_save_unit_def copy_piece_def remove_id_from_parent_units_def handle_first_copy_success_for_master_object_def
    handle_storage_deleted_response_for_kernel_request_def handle_router_deleted_def process_router_pending_get_requests_def
    handle_failed_ims_get_request_def fill_chunk_def set_encryption_keys_if_mls_def upd_recording_def handle_router_recording_start_def
    handle_ims_recording_start_def handle_router_recording_started_def process_router_save_stream_request_def
  by (intro safe_intros; simp split: if_splits)+

lemma safe_handlers_2b [safe_intros]:
  "safe (process_router_save_stream_offer_for_encrypted_stream r)" "safe (clean_up_request_from_livestream_listeners r)"
  "safe (handle_router_stream_auth_request kr)" "safe (process_hosted_livestream_get_request r li)" "safe (handle_encrypted_save_stream km r)"
  "safe (handle_ims_cancel_livestream_get im)" "safe (add_update_listener_for_local_request r)" "safe (add_update_listener_for_remote_request r)"
  "safe (handle_storage_negative_response_for_copy_req r)" "safe (handle_storage_negative_response_for_update_req r)"
  "safe (handle_storage_negative_response_for_delete_req r)" "safe (handle_backup_send_uuids kb)" "safe (handle_user_info_dump_confirm r)"
  "safe (handle_key_manager_reencrypted_key_request km)" "safe (handle_decrypted_key km r)" "safe (handle_key_manager_failed_get_request r)"
  "safe (handle_key_manager_id_found_request km)" "safe (handle_router_get_request kr)" "safe (handle_save_confirm_for_user_json r)"
  "safe (handle_authorized_get_request r)" "safe (handle_router_on_update_register kr)" "safe (handle_router_on_update_register_fail kr)"
  "safe (handle_router_on_update_unregister kr)" "safe (handle_router_on_update_unregister_fail kr)" "safe (handle_router_on_update_registered kr)"
  unfolding process_router_save_stream_offer_for_encrypted_stream_def clean_up_request_from_livestream_listeners_def handle_router_stream_auth_request_def
    process_hosted_livestream_get_request_def handle_encrypted_save_stream_def handle_ims_cancel_livestream_get_def
    add_update_listener_for_local_request_def add_update_listener_for_remote_request_def handle_storage_negative_response_for_copy_req_def
    handle_storage_negative_response_for_update_req_def handle_storage_negative_response_for_delete_req_def handle_backup_send_uuids_def
    handle_user_info_dump_confirm_def handle_key_manager_reencrypted_key_request_def handle_decrypted_key_def handle_key_manager_failed_get_request_def
    handle_key_manager_id_found_request_def handle_router_get_request_def handle_save_confirm_for_user_json_def handle_authorized_get_request_def
    handle_router_on_update_register_def handle_router_on_update_register_fail_def handle_router_on_update_unregister_def
    handle_router_on_update_unregister_fail_def handle_router_on_update_registered_def
  by (intro safe_intros; simp split: if_splits)+

lemma safe_handlers_2c [safe_intros]:
  "safe (handle_canceled_ims_recording_start r)" "safe (handle_canceled_ims_recording_stop r)" "safe (handle_user_json_save_fail r)"
  "safe (handle_config_add_trusted_peer_response kc)" "safe (handle_config_remove_trusted_peer_response kc)"
  "safe (handle_config_add_friend_response kc)" "safe (handle_config_get_trusted_peer_list_response kc)"
  "safe (handle_config_get_friend_list_response kc)" "safe (handle_config_get_online_peers_response kc)"
  "safe (handle_config_get_pairing_peers_response kc)" "safe (handle_config_get_generated_code kc)" "safe (handle_config_get_metax_info_response kc)"
  "safe (handle_config_set_metax_info_fail kc)" "safe (handle_config_get_public_key_response kc)" "safe (process_share_request im r)"
  "safe (handle_share_accept_for_public_data r r')" "safe kernel_handle_cache_input"
  unfolding handle_canceled_ims_recording_start_def handle_canceled_ims_recording_stop_def handle_user_json_save_fail_def
    handle_config_add_trusted_peer_response_def handle_config_remove_trusted_peer_response_def handle_config_add_friend_response_def
    handle_config_get_trusted_peer_list_response_def handle_config_get_friend_list_response_def handle_config_get_online_peers_response_def
    handle_config_get_pairing_peers_response_def handle_config_get_generated_code_def handle_config_get_metax_info_response_def
    handle_config_set_metax_info_fail_def handle_config_get_public_key_response_def process_share_request_def handle_share_accept_for_public_data_def
    kernel_handle_cache_input_def
  by (intro safe_intros; simp split: if_splits)+

lemma safe_streaming_state [safe_intros]: "safe (set_streaming_state r r')"
  by (rule safe_set_streaming_state) (intro safe_intros)+


lemma safe_router_pending_loop [safe_intros]: "safe (router_pending_loop ids ids')"
  by (induction ids' arbitrary: ids) (simp_all only: router_pending_loop.simps, (intro safe_intros; simp split: if_splits)+)

lemma safe_handlers_3a [safe_intros]:
  "safe process_storage_pending_save_requests" "safe (send_ims_save_confirm r)" "safe (process_save_confirm_for_piece w r)"
  "safe (generate_copy_request_for_pieces r)" "safe (handle_copy_success_for_master_object r)" "safe (handle_first_copy_success_for_piece r r')"
  "safe (process_delete_request r)" "safe (handle_storage_deleted_response_for_ims_request r)" "safe (handle_storage_deleted_for_external_request r)"
  "safe (handle_router_delete_request kr)" "safe (handle_failed_kernel_get_request r)" "safe (handle_failed_kernel_copy_request r)"
  "safe (handle_failed_ims_copy_request r)" "safe (start_getting_pieces r)" "safe (write_data_to_stream d r u)"
  "safe (post_storage_next_streaming_chunk_get_request r)" "safe (update_pending_stream_requests r)" "safe (send_ims_playlist_for_recording r)"
  "safe (add_livestream_chunk_to_recording u n u')" "safe (create_and_save_playlist_for_recording r u n u')"
  "safe (handle_router_save_stream_request kr)" "safe (handle_router_save_stream_offer kr)" "safe (handle_router_cancel_livestream_get kr)"
  "safe (authenticate_request ks r)" "safe (handle_storage_positive_response_for_remote_request r)"
  unfolding process_storage_pending_save_requests_def send_ims_save_confirm_def process_save_confirm_for_piece_def generate_copy_request_for_pieces_def
    handle_copy_success_for_master_object_def handle_first_copy_success_for_piece_def process_delete_request_def
    handle_storage_deleted_response_for_ims_request_def handle_storage_deleted_for_external_request_def handle_router_delete_request_def
    handle_failed_kernel_get_request_def handle_failed_kernel_copy_request_def handle_failed_ims_copy_request_def start_getting_pieces_def
    write_data_to_stream_def post_storage_next_streaming_chunk_get_request_def update_pending_stream_requests_def send_ims_playlist_for_recording_def
    add_livestream_chunk_to_recording_def create_and_save_playlist_for_recording_def handle_router_save_stream_request_def
    handle_router_save_stream_offer_def handle_router_cancel_livestream_get_def authenticate_request_def
    handle_storage_positive_response_for_remote_request_def
  by (intro safe_intros; simp split: if_splits)+

lemma safe_handlers_3b [safe_intros]:
  "safe (handle_storage_negative_response_for_get_req r)" "safe (post_router_save_confirmed_response r)" "safe (handle_router_get_uuid kr)"
  "safe (kernel_process_backup_input kb)" "safe (handle_key_manager_encrypted_request km)" "safe (handle_key_manager_decryption_fail_request km)"
  "safe (handle_router_update_request kr)" "safe (handle_router_no_permissions kr)" "safe (handle_router_authorized_request kr)"
  "safe (handle_canceled_user_manager_request r)" "safe (kernel_process_config_input kc)" "safe (process_user_manager_input ku)"
  "safe (handle_ims_share_request im)" "safe (process_ims_accept_share_request im)"
  unfolding handle_storage_negative_response_for_get_req_def post_router_save_confirmed_response_def handle_router_get_uuid_def
    kernel_process_backup_input_def handle_key_manager_encrypted_request_def handle_key_manager_decryption_fail_request_def
    handle_router_update_request_def handle_router_no_permissions_def handle_router_authorized_request_def handle_canceled_user_manager_request_def
    kernel_process_config_input_def process_user_manager_input_def handle_ims_share_request_def process_ims_accept_share_request_def
  by (intro safe_intros; simp split: if_splits)+

lemma safe_handlers_4a [safe_intros]:
  "safe process_router_pending_save_requests" "safe (process_save_confirm_for_master_object w)" "safe (process_copy_request r)"
  "safe (handle_copy_success_for_piece r)" "safe (handle_storage_deleted ks)" "safe (handle_failed_get_request r)"
  "safe (handle_failed_copy_request r)" "safe (send_available_chunks_to_ims r u)" "safe (post_get_request_for_streaming_pieces r)"
  "safe (construct_streaming_state_from_pieces r)" "safe (construct_streaming_state_from_content r)" "safe (add_livestream_chunk_to_all_recordings u)"
  "(\<And>y0 y1. safe (kun y0 y1)) \<Longrightarrow> safe (push_recording r u kun)" "safe (stop_recording u n)"
  "safe (handle_storage_positive_response_for_local_request ks r)" "safe (handle_storage_negative_response_for_ims_request r)"
  "safe (handle_router_save_confirm_for_request_object r)" "safe (handle_router_auth_data kr)" "safe (handle_ims_accept_share_request im)"
  "safe kernel_handle_config_input" "safe kernel_handle_backup_input" "safe handle_user_manager_input"
  unfolding process_router_pending_save_requests_def process_save_confirm_for_master_object_def process_copy_request_def handle_copy_success_for_piece_def
    handle_storage_deleted_def handle_failed_get_request_def handle_failed_copy_request_def send_available_chunks_to_ims_def
    post_get_request_for_streaming_pieces_def construct_streaming_state_from_pieces_def construct_streaming_state_from_content_def
    add_livestream_chunk_to_all_recordings_def push_recording_def stop_recording_def handle_storage_positive_response_for_local_request_def
    handle_storage_negative_response_for_ims_request_def handle_router_save_confirm_for_request_object_def handle_router_auth_data_def
    handle_ims_accept_share_request_def kernel_handle_config_input_def kernel_handle_backup_input_def handle_user_manager_input_def
  by (intro safe_intros; simp split: if_splits)+

lemma safe_handlers_5a [safe_intros]:
  "safe process_pending_save_requests" "safe (handle_first_backup_of_save_unit r)" "safe (handle_router_copy_succeeded r)"
  "safe (handle_storage_copy_succeeded r)" "safe (process_pending_get_streaming_requests r l)" "safe (add_content_to_recording_chunk u d r)"
  "safe (handle_save_confirm_for_remote_recording_start ks r)" "safe (handle_save_confirm_for_local_recording_start ks r)"
  "safe (stop_recording_and_send_response_to_router kr u)" "safe (stop_recording_and_send_response_to_ims im u)" "safe (clean_up_hosted_livestream r)"
  "safe (handle_storage_positive_response ks)" "safe (handle_storage_negative_response ks)" "safe (process_ims_get_request r)"
  unfolding process_pending_save_requests_def handle_first_backup_of_save_unit_def handle_router_copy_succeeded_def handle_storage_copy_succeeded_def
    process_pending_get_streaming_requests_def add_content_to_recording_chunk_def handle_save_confirm_for_remote_recording_start_def
    handle_save_confirm_for_local_recording_start_def stop_recording_and_send_response_to_router_def stop_recording_and_send_response_to_ims_def
    clean_up_hosted_livestream_def handle_storage_positive_response_def handle_storage_negative_response_def process_ims_get_request_def
  by (intro safe_intros; simp split: if_splits)+

lemma safe_handlers_6a [safe_intros]:
  "safe (save_or_prepare r)" "safe (handle_save_confirm_for_local_save_unit r)" "safe (handle_no_space_for_local_save_unit r)"
  "safe (handle_failed_save_unit r t)" "safe (handle_failed_request r)" "safe (construct_streaming_state r)" "safe (handle_streaming_chunk d r u)"
  "safe (handle_router_recording_stop kr)" "safe (handle_ims_recording_stop im)" "safe (handle_router_livestream_content kr)"
  "safe (handle_save_confirm_for_copy_or_remote_request ks r)" "safe (handle_canceled_ims_save_stream_request r)"
  "safe (handle_canceled_router_request r)" "safe (handle_ims_get_request im)"
  unfolding save_or_prepare_def handle_save_confirm_for_local_save_unit_def handle_no_space_for_local_save_unit_def handle_failed_save_unit_def
    handle_failed_request_def construct_streaming_state_def handle_streaming_chunk_def handle_router_recording_stop_def handle_ims_recording_stop_def
    handle_router_livestream_content_def handle_save_confirm_for_copy_or_remote_request_def handle_canceled_ims_save_stream_request_def
    handle_canceled_router_request_def handle_ims_get_request_def
  by (intro safe_intros; simp split: if_splits)+

lemma safe_handlers_7a [safe_intros]:
  "safe (handle_save_of_unencrypted_data r)" "safe (process_save_request_after_key_generation km r)" "safe (handle_canceled_save_unit r t)"
  "safe (process_unencrypted_piece d r u)" "safe (handle_decrypted_master_node_for_get r)" "safe (handle_storage_save_confirm ks)"
  "safe (handle_storage_no_space ks)" "safe (handle_router_save_confirm kr)" "safe (handle_canceled_ims_request r)"
  unfolding handle_save_of_unencrypted_data_def process_save_request_after_key_generation_def handle_canceled_save_unit_def process_unencrypted_piece_def
    handle_decrypted_master_node_for_get_def handle_storage_save_confirm_def handle_storage_no_space_def handle_router_save_confirm_def
    handle_canceled_ims_request_def
  by (intro safe_intros; simp split: if_splits)+

lemma safe_handlers_8a [safe_intros]:
  "safe (process_ims_save_request r)" "safe (handle_storage_failed ks)" "safe (handle_piece d r)" "safe (handle_key_manager_get_aes_key km)"
  "safe (handle_canceled_kernel_request r)"
  unfolding process_ims_save_request_def handle_storage_failed_def handle_piece_def handle_key_manager_get_aes_key_def handle_canceled_kernel_request_def
  by (intro safe_intros; simp split: if_splits)+

lemma safe_handlers_9a [safe_intros]:
  "safe (handle_ims_save_request im)" "safe (process_ims_update_request r)" "safe (kernel_process_storage_writer_input ks)"
  "safe (handle_router_cancel kr)"
  unfolding handle_ims_save_request_def process_ims_update_request_def kernel_process_storage_writer_input_def handle_router_cancel_def
  by (intro safe_intros; simp split: if_splits)+

lemma safe_handlers_10a [safe_intros]:
  "safe (process_unencrypted_master_json r)" "safe (process_ims_input im)" "safe kernel_handle_storage_writer_input"
  unfolding process_unencrypted_master_json_def process_ims_input_def kernel_handle_storage_writer_input_def
  by (intro safe_intros; simp split: if_splits)+

lemma safe_handlers_11a [safe_intros]:
  "safe (handle_unencrypted_master_object d r)"
  unfolding handle_unencrypted_master_object_def
  by (intro safe_intros; simp split: if_splits)+

lemma safe_handlers_12a [safe_intros]:
  "safe (got_master_object d r)" "safe (handle_get_request_after_decrypt km r)"
  unfolding got_master_object_def handle_get_request_after_decrypt_def
  by (intro safe_intros; simp split: if_splits)+

lemma safe_handlers_13a [safe_intros]:
  "safe (handle_storage_get_response ks)" "safe (handle_key_manager_decrypted_request km)" "safe (process_received_master_object_from_router kr r)"
  unfolding handle_storage_get_response_def handle_key_manager_decrypted_request_def process_received_master_object_from_router_def
  by (intro safe_intros; simp split: if_splits)+

lemma safe_handlers_14a [safe_intros]:
  "safe (kernel_process_storage_input ks)" "safe (process_key_manager_input km)" "safe (handle_router_get_data kr)"
  unfolding kernel_process_storage_input_def process_key_manager_input_def handle_router_get_data_def
  by (intro safe_intros; simp split: if_splits)+

lemma safe_handlers_15a [safe_intros]:
  "safe (process_router_input kr)" "safe handle_key_manager_input" "safe kernel_handle_storage_input"
  unfolding process_router_input_def handle_key_manager_input_def kernel_handle_storage_input_def
  by (intro safe_intros; simp split: if_splits)+

lemma safe_handlers_16a [safe_intros]:
  "safe handle_router_input"
  unfolding handle_router_input_def
  by (intro safe_intros; simp split: if_splits)+

section \<open>A turn and the reachable states\<close>

lemma safe_ims_input [safe_intros]: "safe handle_ims_input"
proof -
  have "safe consume_ims"
    by (auto simp: safe_def consume_ims_def split: outcome.splits)
  then show ?thesis
    unfolding handle_ims_input_def by (intro safe_intros; simp)+
qed

lemma safe_kernel_turn: "safe kernel_turn"
  unfolding kernel_turn_def by (intro safe_intros)

text \<open>
  What other tasks do between two turns: they put packages in the input channels, take packages from the output channels
  (the slot stays), files come and go, time passes. The tables of the kernel are its own.
\<close>

definition same_tables :: "kernel \<Rightarrow> kernel \<Rightarrow> bool" where
  "same_tables s s' \<longleftrightarrow> k_requests s' = k_requests s \<and> k_request_counter s' = k_request_counter s \<and> k_ims_req_ids s' = k_ims_req_ids s
     \<and> k_pending_ims_get_requests s' = k_pending_ims_get_requests s \<and> k_lists s' = k_lists s \<and> k_list_count s' = k_list_count s
     \<and> (channels_ok s \<longrightarrow> channels_ok s')"

inductive kernel_reachable :: "klib \<Rightarrow> (nat \<Rightarrow> uuid) \<Rightarrow> (nat \<Rightarrow> string) \<Rightarrow> kernel \<Rightarrow> bool" for L uuids names where
  kernel_start: "kernel_reachable L uuids names (kernel_new L uuids names)"
| kernel_others: "kernel_reachable L uuids names s \<Longrightarrow> same_tables s s' \<Longrightarrow> kernel_reachable L uuids names s'"
| kernel_step: "kernel_reachable L uuids names s \<Longrightarrow> kernel_turn s = Returns s' \<Longrightarrow> kernel_reachable L uuids names s'"

lemma tables_ok_new: "tables_ok (kernel_new L uuids names)"
  by (simp add: tables_ok_def kernel_new_def channels_ok_def is_set_def)

lemma tables_ok_same: "tables_ok s \<Longrightarrow> same_tables s s' \<Longrightarrow> tables_ok s'"
  by (simp add: tables_ok_def same_tables_def)

lemma reachable_tables_ok: "kernel_reachable L uuids names s \<Longrightarrow> tables_ok s"
proof (induction rule: kernel_reachable.induct)
  case (kernel_step s s')
  then show ?case using safeD [OF safe_kernel_turn] by force
qed (auto intro: tables_ok_new tables_ok_same)

end
