(* ===== verification/Kernel_Props.thy ===== *)
theory Kernel_Props
  imports Kernel_Safe
begin

text \<open>
  Properties of the kernel's handlers: the tables of every reachable state, who gets an answer, what the limits of
  the queues guarantee, what happens while the kernel cannot serve, and the inputs it does not survive.
\<close>

section \<open>Running actions\<close>

text \<open>One package on a channel; \<open>sends\<close> is what a reader of the channel sees of it.\<close>

lemma pending_send [simp]: "fifo_ok c \<Longrightarrow> pending (commit x (set_slot f c)) = pending c @ [f (slot c)]"
  by simp

lemma post_run:
  "post_ims f s = Returns (s\<lparr>k_ims_tx := commit ims_kernel_package0 (set_slot f (k_ims_tx s))\<rparr>)"
  "post_router g s = Returns (s\<lparr>k_router_tx := commit kernel_router_package0 (set_slot g (k_router_tx s))\<rparr>)"
  by (simp_all add: post_ims_def ims_slot_def ims_commit_def post_router_def router_slot_def router_commit_def)

lemma run_all_single: "run_all [a] = a"
  by (rule ext, case_tac "a x") simp_all

lemma each_append: "each (xs @ ys) f = (\<lambda>s. and_run (each xs f s) (each ys f))"
  by (induction xs) (auto simp: and_run_assoc)

section \<open>The tables\<close>

text \<open>
  C2: In every state the kernel can reach, whatever the other tasks put in its channels, its tables are well-formed:
  a request is filed under its own id, unless it is the blank one that \<^verbatim>\<open>m_requests[i]\<close> enters; its sets of units
  have no repetition and the list of chunks it points to exists; ids stay below 2 to the 28; an id of the web
  interface is kept at most once per request; no list of waiting gets is empty; every channel has its slot.
\<close>

theorem kernel_tables_wellformed:
  assumes "kernel_reachable L uuids names s"
  shows "(\<forall>i q. k_requests s i = Some q \<longrightarrow>
       (rq_request_id q = i \<or> rq_request_id q = 0 \<and> rq_typ q = Max_req_type)
       \<and> distinct (rq_units q) \<and> distinct (rq_backup_units q) \<and> distinct (rq_saved_units q)
       \<and> (\<forall>a. rq_list q = Some a \<longrightarrow> k_lists s a \<noteq> None))
    \<and> uint (k_request_counter s) < 2 ^ 28 \<and> distinct (map fst (k_ims_req_ids s))
    \<and> (\<forall>u. k_pending_ims_get_requests s u \<noteq> Some []) \<and> channels_ok s"
proof -
  have ok: "tables_ok s" by (rule reachable_tables_ok [OF assms])
  have "k_lists s a \<noteq> None" if "a < k_list_count s" for a
    using ok that by (auto simp: tables_ok_def)
  moreover have "uint (k_request_counter s) \<le> 0x0FFFFFFF"
    using ok by (simp add: tables_ok_def word_le_def)
  ultimately show ?thesis
    using ok by (auto simp: tables_ok_def request_ok_def is_set_def simp del: request_ok_sets split: option.splits)
qed

section \<open>Answers to waiting gets\<close>

lemma answer_pending_Some:
  "ims_id b s = Some i \<Longrightarrow> answer_pending pkg b s = Returns (s\<lparr>
     k_ims_tx := commit ims_kernel_package0 (set_slot (\<lambda>_. pkg\<lparr>im_request_id := i\<rparr>) (k_ims_tx s)),
     k_ims_req_ids := tab_erase b (k_ims_req_ids s), k_requests := (k_requests s)(b := None)\<rparr>)"
  by (simp add: answer_pending_def action_defs post_run erase_ims_def erase_req_def)

lemma answer_pending_None: "ims_id b s = None \<Longrightarrow> answer_pending pkg b s = Returns s"
  by (simp add: answer_pending_def action_defs)

text \<open>Those of \<open>bs\<close> that have an id of the web interface.\<close>

definition waiting_ids :: "kernel \<Rightarrow> ID32 list \<Rightarrow> ID32 list" where
  "waiting_ids s bs = List.map_filter (\<lambda>b. ims_id b s) bs"

text \<open>Only the channel to the web interface, the ids and the requests change.\<close>

definition answers_only :: "kernel \<Rightarrow> kernel \<Rightarrow> bool" where
  "answers_only s s' \<longleftrightarrow> s' = s\<lparr>k_ims_tx := k_ims_tx s', k_ims_req_ids := k_ims_req_ids s', k_requests := k_requests s'\<rparr>"

lemma answers_only_refl [simp]: "answers_only s s"
  by (simp add: answers_only_def)

lemma answers_only_fields:
  "answers_only s t \<Longrightarrow> k_pending_ims_get_requests t = k_pending_ims_get_requests s" "answers_only s t \<Longrightarrow> k_files t = k_files s"
  unfolding answers_only_def by (cases s; cases t; simp)+

lemma answers_only_trans: "answers_only s t \<Longrightarrow> answers_only t u \<Longrightarrow> answers_only s u"
  unfolding answers_only_def by (cases s; cases t; cases u) simp

lemma answer_each:
  assumes "distinct bs" "fifo_ok (k_ims_tx s)"
  shows "\<exists>s'. each bs (answer_pending pkg) s = Returns s' \<and> fifo_ok (k_ims_tx s')
    \<and> pending (k_ims_tx s') = pending (k_ims_tx s) @ map (\<lambda>i. pkg\<lparr>im_request_id := i\<rparr>) (waiting_ids s bs)
    \<and> (\<forall>b. ims_id b s' = (if b \<in> set bs then None else ims_id b s))
    \<and> (\<forall>b. k_requests s' b = (if b \<in> set bs \<and> ims_id b s \<noteq> None then None else k_requests s b))
    \<and> answers_only s s'"
  using assms
proof (induction bs arbitrary: s)
  case Nil
  then show ?case by (simp add: waiting_ids_def List.map_filter_def)
next
  case (Cons b bs)
  let ?a = "\<lambda>i. s\<lparr>k_ims_tx := commit ims_kernel_package0 (set_slot (\<lambda>_. pkg\<lparr>im_request_id := i\<rparr>) (k_ims_tx s)),
     k_ims_req_ids := tab_erase b (k_ims_req_ids s), k_requests := (k_requests s)(b := None)\<rparr>"
  define t where "t = (case ims_id b s of None \<Rightarrow> s | Some i \<Rightarrow> ?a i)"
  have run: "answer_pending pkg b s = Returns t"
    by (simp add: t_def answer_pending_Some answer_pending_None split: option.splits)
  have t: "fifo_ok (k_ims_tx t)" "\<forall>c. ims_id c t = (if c = b then None else ims_id c s)"
    "\<forall>c. k_requests t c = (if c = b \<and> ims_id b s \<noteq> None then None else k_requests s c)"
    "answers_only s t"
    "pending (k_ims_tx t) = pending (k_ims_tx s) @ (case ims_id b s of None \<Rightarrow> [] | Some i \<Rightarrow> [pkg\<lparr>im_request_id := i\<rparr>])"
    using Cons.prems by (auto simp: t_def ims_id_def answers_only_def split: option.splits)
  have ids: "waiting_ids s (b # bs) = (case ims_id b s of None \<Rightarrow> [] | Some i \<Rightarrow> [i]) @ waiting_ids t bs"
    using t(2) Cons.prems(1)
    by (auto simp: waiting_ids_def List.map_filter_def comp_def split: option.splits intro!: map_cong filter_cong)
  from Cons.IH [of t] obtain s' where s': "each bs (answer_pending pkg) t = Returns s'" "fifo_ok (k_ims_tx s')"
    "pending (k_ims_tx s') = pending (k_ims_tx t) @ map (\<lambda>i. pkg\<lparr>im_request_id := i\<rparr>) (waiting_ids t bs)"
    "\<forall>c. ims_id c s' = (if c \<in> set bs then None else ims_id c t)"
    "\<forall>c. k_requests s' c = (if c \<in> set bs \<and> ims_id c t \<noteq> None then None else k_requests t c)"
    "answers_only t s'"
    using Cons.prems(1) t(1) by auto
  have "answers_only s s'"
    by (rule answers_only_trans [OF t(4) s'(6)])
  then show ?case
    using run s' t Cons.prems(1) by (intro exI [of _ s']) (auto simp: ids split: option.splits)
qed

lemma send_ims_response_run:
  assumes "k_pending_ims_get_requests s (im_uuid pkg) = Some bs" "distinct bs" "fifo_ok (k_ims_tx s)"
  shows "\<exists>s'. send_ims_response pkg s = Returns s' \<and> fifo_ok (k_ims_tx s')
    \<and> pending (k_ims_tx s') = pending (k_ims_tx s) @ map (\<lambda>i. pkg\<lparr>im_request_id := i\<rparr>) (waiting_ids s bs)
    \<and> (\<forall>b. ims_id b s' = (if b \<in> set bs then None else ims_id b s))
    \<and> (\<forall>b. k_requests s' b = (if b \<in> set bs \<and> ims_id b s \<noteq> None then None else k_requests s b))
    \<and> k_pending_ims_get_requests s' = (k_pending_ims_get_requests s)(im_uuid pkg := None) \<and> k_files s' = k_files s"
proof -
  from answer_each [OF assms(2,3), of pkg] obtain t where t: "each bs (answer_pending pkg) s = Returns t" "fifo_ok (k_ims_tx t)"
    "pending (k_ims_tx t) = pending (k_ims_tx s) @ map (\<lambda>i. pkg\<lparr>im_request_id := i\<rparr>) (waiting_ids s bs)"
    "\<forall>b. ims_id b t = (if b \<in> set bs then None else ims_id b s)"
    "\<forall>b. k_requests t b = (if b \<in> set bs \<and> ims_id b s \<noteq> None then None else k_requests s b)" "answers_only s t" by blast
  let ?s = "t\<lparr>k_pending_ims_get_requests := (k_pending_ims_get_requests t)(im_uuid pkg := None)\<rparr>"
  have "k_pending_ims_get_requests t = k_pending_ims_get_requests s" "k_files t = k_files s"
    using answers_only_fields [OF t(6)] by simp_all
  moreover have "send_ims_response pkg s = Returns ?s"
    using assms(1) t(1) by (simp add: send_ims_response_def action_defs)
  ultimately show ?thesis
    using t(2-5) by (intro exI [of _ ?s]) (simp add: ims_id_def)
qed

text \<open>
  C11: When a file is ready (or lost), every request that waits for its uuid and has an id of the web interface gets
  the same answer under its own id, in the order in which they were asked; the ids and the requests are then
  forgotten, and a second answer for the uuid would fail the assertion.
\<close>

theorem waiting_gets_answered_once:
  assumes "k_pending_ims_get_requests s (im_uuid pkg) = Some bs" "distinct bs" "fifo_ok (k_ims_tx s)"
  shows "\<exists>s'. send_ims_response pkg s = Returns s'
    \<and> pending (k_ims_tx s') = pending (k_ims_tx s) @ map (\<lambda>i. pkg\<lparr>im_request_id := i\<rparr>) (waiting_ids s bs)
    \<and> (\<forall>b. ims_id b s' = (if b \<in> set bs then None else ims_id b s))
    \<and> (\<forall>b. k_requests s' b = (if b \<in> set bs \<and> ims_id b s \<noteq> None then None else k_requests s b))
    \<and> send_ims_response pkg s' = Raises Assertion_violation s'"
proof -
  from send_ims_response_run [OF assms] obtain t where "send_ims_response pkg s = Returns t"
    "pending (k_ims_tx t) = pending (k_ims_tx s) @ map (\<lambda>i. pkg\<lparr>im_request_id := i\<rparr>) (waiting_ids s bs)"
    "\<forall>b. ims_id b t = (if b \<in> set bs then None else ims_id b s)"
    "\<forall>b. k_requests t b = (if b \<in> set bs \<and> ims_id b s \<noteq> None then None else k_requests s b)"
    "k_pending_ims_get_requests t = (k_pending_ims_get_requests s)(im_uuid pkg := None)" by blast
  moreover from this(5) have "send_ims_response pkg t = Raises Assertion_violation t"
    by (simp add: send_ims_response_def action_defs)
  ultimately show ?thesis by blast
qed

section \<open>Synchronisation\<close>

text \<open>The state after one uuid of a synchronisation; \<open>m\<close> is what is left of the request's list.\<close>

definition got_uuid :: "kernel_router_package \<Rightarrow> request \<Rightarrow> jobj \<Rightarrow> kernel \<Rightarrow> kernel" where
  "got_uuid inp q m s = s\<lparr>
     k_storage_writer_tx := commit kernel_storage_package0 (set_slot (\<lambda>out. (set_payload inp (out\<lparr>ks_cmd := cmd_save_data, ks_uuid := kr_uuid inp\<rparr>))
       \<lparr>ks_should_send_response := False\<rparr>) (k_storage_writer_tx s)),
     k_backup_tx := commit (kernel_backup_package0 (k_clock s)) (set_slot (\<lambda>out. out\<lparr>kb_cmd := cmd_save, kb_is_deleted := False,
       kb_data_version := kr_data_version inp, kb_last_updated := kr_last_updated inp, kb_expire_date := kr_expire_date inp,
       kb_uuid := kr_uuid inp\<rparr>) (k_backup_tx s)),
     k_router_tx := (if m = [] then commit kernel_router_package0 (set_slot (\<lambda>out. out\<lparr>kr_request_id := kr_request_id inp,
       kr_cmd := cmd_sync_finished\<rparr>) (k_router_tx s)) else k_router_tx s),
     k_requests := (k_requests s)(kr_request_id inp := (if m = [] then None else Some (q\<lparr>rq_master_json := Some m\<rparr>)))\<rparr>"

definition expects :: "ID32 \<Rightarrow> request \<Rightarrow> jobj \<Rightarrow> kernel \<Rightarrow> bool" where
  "expects r q m s \<longleftrightarrow> k_requests s r = Some q \<and> rq_request_id q = r \<and> rq_cmd q = cmd_get_journal_info
     \<and> rq_master_json q = Some m \<and> rq_uuid q \<noteq> k_user_json_uuid s"

lemma handle_router_get_uuid_run:
  assumes "expects (kr_request_id inp) q m s" "kr_cmd inp = cmd_get_uuid" "obj_has (uuid_text (kr_uuid inp) s) m"
    and "\<not> obj_has (uuid_text (kr_uuid inp) s) (k_update_listeners s)"
  shows "handle_router_get_uuid inp s = Returns (got_uuid inp q (obj_remove (uuid_text (kr_uuid inp) s) m) s)"
  using assms
  by (simp add: handle_router_get_uuid_def expects_def action_defs if_req_def post_storage_save_silently_def post_writer_def notify_update_def
      process_requested_uuid_for_sync_def with_req_def add_new_uuid_in_device_json_of_router_def post_backup_def uuid_text_def
      upd_req_def post_router_sync_finished_def post_run erase_req_def got_uuid_def)

text \<open>What the storage, the router and the user manager see of the packages \<open>inps\<close>.\<close>

definition uuids_left :: "kernel_router_package list \<Rightarrow> jobj \<Rightarrow> kernel \<Rightarrow> jobj" where
  "uuids_left inps m s = filter (\<lambda>e. \<forall>inp \<in> set inps. fst e \<noteq> uuid_text (kr_uuid inp) s) m"

lemma obj_has_remove [simp]: "obj_has k (obj_remove n m) \<longleftrightarrow> k \<noteq> n \<and> obj_has k m"
  by (simp add: obj_has_def)

lemma uuids_left_Nil [simp]: "uuids_left [] m s = m"
  by (simp add: uuids_left_def)

definition saves_seen :: "kernel \<Rightarrow> (command \<times> uuid \<times> byte list option \<times> bool) list" where
  "saves_seen s = map (\<lambda>p. (ks_cmd p, ks_uuid p, payload_of p, ks_should_send_response p)) (pending (k_storage_writer_tx s))"

definition router_seen :: "kernel \<Rightarrow> (command \<times> ID32) list" where
  "router_seen s = map (\<lambda>p. (kr_cmd p, kr_request_id p)) (pending (k_router_tx s))"

lemma got_uuid_seen:
  assumes "fifo_ok (k_storage_writer_tx s)" "fifo_ok (k_router_tx s)"
  shows "saves_seen (got_uuid inp q m s) = saves_seen s @ [(cmd_save_data, kr_uuid inp, payload_of inp, False)]"
    "router_seen (got_uuid inp q m s) = router_seen s @ (if m = [] then [(cmd_sync_finished, kr_request_id inp)] else [])"
    "k_requests (got_uuid inp q m s) (kr_request_id inp) = (if m = [] then None else Some (q\<lparr>rq_master_json := Some m\<rparr>))"
    "k_user_manager_tx (got_uuid inp q m s) = k_user_manager_tx s" "k_update_listeners (got_uuid inp q m s) = k_update_listeners s"
    "fifo_ok (k_storage_writer_tx (got_uuid inp q m s))" "fifo_ok (k_router_tx (got_uuid inp q m s))"
    "uuid_text u (got_uuid inp q m s) = uuid_text u s" "k_user_json_uuid (got_uuid inp q m s) = k_user_json_uuid s"
  using assms by (simp_all add: got_uuid_def saves_seen_def router_seen_def set_payload_def payload_of_def uuid_text_def)

lemma sync_each:
  assumes "expects r q m s" "m \<noteq> []" "fifo_ok (k_storage_writer_tx s)" "fifo_ok (k_router_tx s)"
    and "\<forall>inp \<in> set inps. kr_request_id inp = r \<and> kr_cmd inp = cmd_get_uuid \<and> obj_has (uuid_text (kr_uuid inp) s) m
      \<and> \<not> obj_has (uuid_text (kr_uuid inp) s) (k_update_listeners s)"
    and "distinct (map (\<lambda>inp. uuid_text (kr_uuid inp) s) inps)"
  shows "\<exists>s'. each inps handle_router_get_uuid s = Returns s'
    \<and> saves_seen s' = saves_seen s @ map (\<lambda>inp. (cmd_save_data, kr_uuid inp, payload_of inp, False)) inps
    \<and> router_seen s' = router_seen s @ (if uuids_left inps m s = [] then [(cmd_sync_finished, r)] else [])
    \<and> k_requests s' r = (if uuids_left inps m s = [] then None else Some (q\<lparr>rq_master_json := Some (uuids_left inps m s)\<rparr>))
    \<and> k_user_manager_tx s' = k_user_manager_tx s"
  using assms
proof (induction inps arbitrary: q m s)
  case Nil
  then show ?case by (cases q) (simp add: expects_def)
next
  case (Cons inp inps)
  define n where "n = uuid_text (kr_uuid inp) s"
  define t where "t = got_uuid inp q (obj_remove n m) s"
  have run: "handle_router_get_uuid inp s = Returns t"
    unfolding t_def n_def by (rule handle_router_get_uuid_run) (use Cons.prems in auto)
  note t = got_uuid_seen [OF Cons.prems(3,4), where inp = inp and q = q and m = "obj_remove n m", folded t_def]
  have left: "uuids_left (inp # inps) m s = uuids_left inps (obj_remove n m) t"
    by (auto simp: uuids_left_def obj_remove_def n_def t(8) intro!: filter_cong)
  have kept: "obj_has (uuid_text (kr_uuid j) s) (obj_remove n m)" if "j \<in> set inps" for j
  proof -
    have "n \<noteq> uuid_text (kr_uuid j) s"
      using Cons.prems(6) imageI [OF that, of "\<lambda>inp. uuid_text (kr_uuid inp) s"] by (auto simp: n_def)
    then show ?thesis
      using Cons.prems(5) that by simp
  qed
  have inp: "kr_request_id inp = r" using Cons.prems(5) by simp
  show ?case
  proof (cases "obj_remove n m = []")
    case True
    then have "inps = []" using kept by (cases inps) (auto simp: obj_has_def)
    with True run t left inp show ?thesis by simp
  next
    case False
    have "expects r (q\<lparr>rq_master_json := Some (obj_remove n m)\<rparr>) (obj_remove n m) t"
      using Cons.prems(1) t(3,9) False inp by (simp add: expects_def)
    from Cons.IH [OF this False t(6,7)] Cons.prems(5,6) kept
    obtain s' where "each inps handle_router_get_uuid t = Returns s'"
      "saves_seen s' = saves_seen t @ map (\<lambda>inp. (cmd_save_data, kr_uuid inp, payload_of inp, False)) inps"
      "router_seen s' = router_seen t @ (if uuids_left (inp # inps) m s = [] then [(cmd_sync_finished, r)] else [])"
      "k_requests s' r = (if uuids_left (inp # inps) m s = [] then None else Some (q\<lparr>rq_master_json := Some (uuids_left (inp # inps) m s)\<rparr>))"
      "k_user_manager_tx s' = k_user_manager_tx t"
      by (auto simp: t(5,8) left)
    with run t False inp show ?thesis
      by (intro exI [of _ s']) simp
  qed
qed

text \<open>
  C13: A synchronisation ends exactly when the last of the uuids it asked for has come, in whatever order they come:
  each content goes to the storage, to be saved without an answer, and until then the request remembers exactly the
  uuids that are missing; then the router gets \<^verbatim>\<open>sync_finished\<close> once and the request is forgotten. The user manager
  is told nothing, not even when one of the uuids is the user's document, because the handler compares the uuid of
  the request, which is null, instead of the one that came.
\<close>

theorem sync_finishes_with_the_last_uuid:
  assumes "k_requests s r = Some q" "rq_request_id q = r" "rq_cmd q = cmd_get_journal_info" "rq_master_json q = Some m" "m \<noteq> []"
    and "rq_uuid q = 0" "k_user_json_uuid s \<noteq> 0" "fifo_ok (k_storage_writer_tx s)" "fifo_ok (k_router_tx s)"
    and "\<forall>inp \<in> set inps. kr_request_id inp = r \<and> kr_cmd inp = cmd_get_uuid \<and> obj_has (uuid_text (kr_uuid inp) s) m
      \<and> \<not> obj_has (uuid_text (kr_uuid inp) s) (k_update_listeners s)"
    and "distinct (map (\<lambda>inp. uuid_text (kr_uuid inp) s) inps)"
  shows "\<exists>s'. each inps process_router_input s = Returns s'
    \<and> saves_seen s' = saves_seen s @ map (\<lambda>inp. (cmd_save_data, kr_uuid inp, payload_of inp, False)) inps
    \<and> k_user_manager_tx s' = k_user_manager_tx s
    \<and> (if \<forall>n \<in> fst ` set m. \<exists>inp \<in> set inps. n = uuid_text (kr_uuid inp) s
        then router_seen s' = router_seen s @ [(cmd_sync_finished, r)] \<and> k_requests s' r = None
        else router_seen s' = router_seen s \<and> k_requests s' r = Some (q\<lparr>rq_master_json := Some (uuids_left inps m s)\<rparr>))"
proof -
  have "expects r q m s"
    using assms by (simp add: expects_def)
  from sync_each [OF this assms(5,8,9,10,11)] obtain s' where s': "each inps handle_router_get_uuid s = Returns s'"
    "saves_seen s' = saves_seen s @ map (\<lambda>inp. (cmd_save_data, kr_uuid inp, payload_of inp, False)) inps"
    "router_seen s' = router_seen s @ (if uuids_left inps m s = [] then [(cmd_sync_finished, r)] else [])"
    "k_requests s' r = (if uuids_left inps m s = [] then None else Some (q\<lparr>rq_master_json := Some (uuids_left inps m s)\<rparr>))"
    "k_user_manager_tx s' = k_user_manager_tx s" by blast
  have "each xs process_router_input = each xs handle_router_get_uuid" if "\<forall>inp \<in> set xs. kr_cmd inp = cmd_get_uuid" for xs
    using that by (induction xs) (auto simp: process_router_input_def Let_def)
  then have "each inps process_router_input s = Returns s'"
    using assms(10) s'(1) by simp
  moreover have "uuids_left inps m s = [] \<longleftrightarrow> (\<forall>n \<in> fst ` set m. \<exists>inp \<in> set inps. n = uuid_text (kr_uuid inp) s)"
    by (simp add: uuids_left_def filter_empty_conv)
  ultimately show ?thesis
    using s'(2-5) by auto
qed

text \<open>
  A peer that sends a uuid of a synchronisation twice, or one that was not asked for, ends the process: the
  assertion on the list of missing uuids fails, and no clause of the turn catches it.
\<close>

theorem unrequested_uuid_aborts:
  assumes "fifo_front (k_router_rx s) = Some inp" "kr_cmd inp = cmd_get_uuid"
    and "k_requests s (kr_request_id inp) = Some q" "rq_cmd q = cmd_get_journal_info" "rq_master_json q = Some m"
    and "rq_uuid q \<noteq> k_user_json_uuid s" "\<not> obj_has (uuid_text (kr_uuid inp) s) (k_update_listeners s)"
    and "\<not> obj_has (uuid_text (kr_uuid inp) s) m"
  shows "\<exists>s'. handle_router_input s = Raises Assertion_violation s' \<and> k_requests s' = k_requests s"
  using assms
  by (simp add: handle_router_input_def take_input_def guarded_def process_router_input_def handle_router_get_uuid_def action_defs if_req_def
      post_storage_save_silently_def post_writer_def notify_update_def process_requested_uuid_for_sync_def with_req_def
      add_new_uuid_in_device_json_of_router_def post_backup_def uuid_text_def)

section \<open>Commands before the user's document\<close>

primrec turns :: "nat \<Rightarrow> action \<Rightarrow> action" where
  "turns 0 a s = Returns s"
| "turns (Suc n) a s = and_run (a s) (turns n a)"

lemma turns_add: "turns (m + n) a = (\<lambda>s. and_run (turns m a s) (turns n a))"
  by (induction m) (auto simp: and_run_assoc)

lemma waiting_turn:
  assumes "fifo_front (k_ims_rx s) = Some inp" "should_wait_for_user_json (im_cmd inp) s" "k_valid_keys s"
  shows "handle_ims_input s = (let t = s\<lparr>k_user_json_wait_counter := k_user_json_wait_counter s + 1\<rparr> in
    if 600 < k_user_json_wait_counter t then handle_key_init_fail t else Returns t)"
  using assms by (cases "handle_key_init_fail (s\<lparr>k_user_json_wait_counter := k_user_json_wait_counter s + 1\<rparr>)")
    (simp_all add: handle_ims_input_def action_defs)

lemma waiting_turns:
  assumes "fifo_front (k_ims_rx s) = Some inp" "should_wait_for_user_json (im_cmd inp) s" "k_valid_keys s" "k_user_json_wait_counter s = 0"
  shows "n \<le> 600 \<Longrightarrow> turns n handle_ims_input s = Returns (s\<lparr>k_user_json_wait_counter := of_nat n\<rparr>)"
proof (induction n)
  case (Suc n)
  let ?s = "s\<lparr>k_user_json_wait_counter := of_nat n\<rparr>"
  have c: "(of_nat n :: ID16) + 1 = of_nat (Suc n)" by simp
  have small: "\<not> 600 < (of_nat (Suc n) :: ID16)"
    using Suc.prems by (simp add: word_less_nat_alt unat_of_nat take_bit_nat_eq_self del: of_nat_Suc)
  have "handle_ims_input ?s = Returns (s\<lparr>k_user_json_wait_counter := of_nat (Suc n)\<rparr>)"
    using waiting_turn [of ?s inp] assms small by (simp add: should_wait_for_user_json_def Let_def c del: of_nat_Suc)
  then show ?case
    using turns_add [of n 1 handle_ims_input] Suc by (simp del: of_nat_Suc)
qed (use assms in simp)

definition ims_seen :: "kernel \<Rightarrow> (ID32 \<times> command) list" where
  "ims_seen s = map (\<lambda>p. (im_request_id p, im_cmd p)) (pending (k_ims_tx s))"

lemma handle_key_init_fail_run:
  assumes "k_requests s (k_request_counter s) = None" "fifo_ok (k_ims_tx s)"
  shows "\<exists>t. handle_key_init_fail s = Returns t \<and> ims_seen t = ims_seen s @ [(k_request_counter s, cmd_send_to_peer)]
    \<and> \<not> k_valid_keys t \<and> k_ims_rx t = k_ims_rx s \<and> fifo_ok (k_ims_tx t)"
  using assms
  by (simp add: handle_key_init_fail_def kernel_get_request_id_def has_req_def text_package_def set_payload_string_def resize_def
      bytes_of_def Let_def action_defs send_notification_to_ims_def post_run ims_seen_def set_payload_def)

text \<open>
  A command that needs the user's document waits in its channel while the document has not come, for 600 turns in
  which nothing else happens; then the web interface is told that the keys failed, and the command, like every one
  after it, is answered \<^verbatim>\<open>failed\<close> and taken from the channel. No such command waits for ever.
\<close>

theorem waiting_command_is_refused:
  assumes "fifo_front (k_ims_rx s) = Some inp" "should_wait_for_user_json (im_cmd inp) s" "k_valid_keys s"
    and "k_user_json_wait_counter s = 0" "k_requests s (k_request_counter s) = None" "fifo_ok (k_ims_tx s)"
  shows "(\<forall>n \<le> 600. turns n handle_ims_input s = Returns (s\<lparr>k_user_json_wait_counter := of_nat n\<rparr>))
    \<and> (\<exists>s'. turns 602 handle_ims_input s = Returns s' \<and> \<not> k_valid_keys s' \<and> pending (k_ims_rx s') = tl (pending (k_ims_rx s))
        \<and> ims_seen s' = ims_seen s @ [(k_request_counter s, cmd_send_to_peer), (im_request_id inp, cmd_failed)])"
proof -
  note wait = waiting_turns [OF assms(1-4)]
  let ?s = "s\<lparr>k_user_json_wait_counter := 601\<rparr>"
  from handle_key_init_fail_run [of ?s] assms(5,6) obtain t where t: "handle_key_init_fail ?s = Returns t"
    "ims_seen t = ims_seen s @ [(k_request_counter s, cmd_send_to_peer)]" "\<not> k_valid_keys t" "k_ims_rx t = k_ims_rx s" "fifo_ok (k_ims_tx t)"
    by (auto simp: ims_seen_def)
  have "turns 600 handle_ims_input s = Returns (s\<lparr>k_user_json_wait_counter := 600\<rparr>)"
    using wait [of 600] by simp
  moreover have "handle_ims_input (s\<lparr>k_user_json_wait_counter := 600\<rparr>) = Returns t"
    using waiting_turn [of "s\<lparr>k_user_json_wait_counter := 600\<rparr>" inp] assms(1-3) t(1)
    by (simp add: should_wait_for_user_json_def Let_def)
  ultimately have "turns 602 handle_ims_input s = handle_ims_input t"
    using turns_add [of 600 2 handle_ims_input] by (cases "handle_ims_input t") (simp_all add: numeral_2_eq_2)
  moreover have "pending (k_ims_rx s) \<noteq> []"
    using assms(1) by (auto simp: fifo_front_pending split: list.splits)
  ultimately have "\<exists>s'. turns 602 handle_ims_input s = Returns s' \<and> \<not> k_valid_keys s' \<and> pending (k_ims_rx s') = tl (pending (k_ims_rx s))
        \<and> ims_seen s' = ims_seen t @ [(im_request_id inp, cmd_failed)]"
    using assms(1,2) t(3-5)
    by (auto simp: handle_ims_input_def action_defs send_response_to_ims_unhandled_command_def post_run consume_ims_def fifo_pop_def
        has_data_pending pending_tl ims_seen_def should_wait_for_user_json_def)
  then show ?thesis
    using wait t(2) by auto
qed

section \<open>Inputs the kernel does not survive\<close>

text \<open>
  The confirmation of the last copy of a copied file makes the kernel read the request it has just erased: the
  master object is the only unit left, so removing it from the units erases the request, and its id is read again.
\<close>

theorem last_copy_confirmation_crashes:
  assumes "fifo_front (k_router_rx s) = Some inp" "kr_cmd inp = cmd_save_confirm" "k_save_units s (kr_request_id inp) = None"
    and "k_requests s (kr_request_id inp) = Some q" "rq_request_id q = kr_request_id inp" "rq_typ q = T_ims" "rq_cmd q = cmd_copy"
    and "rq_backup_units q = [rq_request_id q]" "k_data_copy_count s = rq_updated q + 1" "rq_updated q \<noteq> 0"
    and "k_user_json s = Some j" "get_object ''owned_data'' j = Some own"
  shows "handle_router_input s = Crashes"
proof -
  have "rq_updated q + 1 \<noteq> 1" using assms(10) by simp
  then show ?thesis
    using assms
    by (simp add: handle_router_input_def take_input_def guarded_def process_router_input_def handle_router_save_confirm_def action_defs
        has_req_def handle_router_save_confirm_for_request_object_def handle_copy_success_for_master_object_def with_req_def upd_req_def
        update_copy_count_of_owned_uuid_in_user_json_def with_owned_def set_owned_def send_update_to_user_manager_def post_user_manager_def
        remove_from_backup_units_def erase_req_def Let_def uuid_text_def split: option.splits)
qed

text \<open>
  The web interface can end the process with one command: a share accepted for the null uuid is answered through
  the overload of \<^verbatim>\<open>set_payload\<close> that copies as many bytes as the slot's size says, which is none.
\<close>

theorem accepting_null_uuid_aborts:
  assumes "fifo_front (k_ims_rx s) = Some inp" "im_cmd inp = cmd_accept_share" "im_uuid inp = 0"
    and "k_valid_keys s" "k_user_json s = Some j" "p_size (slot (k_ims_tx s)) = 0"
  shows "\<exists>s'. handle_ims_input s = Raises Assertion_violation s' \<and> pending (k_ims_tx s') = pending (k_ims_tx s)"
  using assms
  by (simp add: handle_ims_input_def action_defs should_wait_for_user_json_def take_input_def guarded_def process_ims_input_def
      handle_ims_accept_share_request_def ims_slot_def ims_chars_def set_payload_chars_def)

section \<open>Saves that are not forgotten\<close>

text \<open>
  When the last copy of the master object of a local save is confirmed, the unit is erased and the network told to
  forget the tender, but the request stays in the table: what is removed from its units to back up is the id of the
  unit, while a master object is entered there under the id of the request. Nothing is left that could erase it.
\<close>

theorem backed_up_save_stays:
  assumes "kr_cmd inp = cmd_save_confirm" "k_save_units s (kr_request_id inp) = Some u" "su_type u = Master"
    and "k_requests s (su_main_request u) = Some q" "rq_request_id q = su_main_request u" "rq_backup_units q = [rq_request_id q]"
    and "kr_request_id inp \<noteq> rq_request_id q" "su_bkp_count u + 1 = ucast (k_data_copy_count s)" "su_bkp_count u \<noteq> 0"
    and "k_pending_save_requests s = []" "k_pending_router_save_reqs s = []"
    and "k_user_json s = Some j" "get_object ''owned_data'' j = Some own" "fifo_ok (k_router_tx s)"
  shows "\<exists>s'. process_router_input inp s = Returns s' \<and> k_save_units s' = (k_save_units s)(kr_request_id inp := None)
    \<and> k_requests s' = k_requests s \<and> router_seen s' = router_seen s @ [(cmd_clear_request, kr_request_id inp)]"
proof -
  have first: "su_bkp_count u + 1 \<noteq> 1" using assms(9) by simp
  have q: "q\<lparr>rq_backup_units := [su_main_request u]\<rparr> = q" "(k_requests s)(su_main_request u \<mapsto> q) = k_requests s"
    using assms(4,5,6) by (cases q; auto)+
  show ?thesis
    using assms first
    by (simp add: process_router_input_def handle_router_save_confirm_def action_defs handle_save_confirm_for_local_save_unit_def
        upd_unit_def with_unit_def update_copy_count_of_owned_uuid_in_user_json_def with_owned_def set_owned_def uuid_text_def
        send_update_to_user_manager_def post_user_manager_def reduce_router_save_input_size_def remove_from_backup_units_def upd_req_def
        with_req_def erase_unit_def post_router_clear_request_def post_run process_pending_save_requests_def
        process_storage_pending_save_requests_def process_router_pending_save_requests_def router_seen_def Let_def q
        split: option.splits)
qed

section \<open>The limits of the queues\<close>

text \<open>
  A local save that the storage refuses keeps its place among the saves on their way: the counter that was raised
  for the piece is not lowered. Once as many saves have failed as the limit allows, no piece is sent to the storage
  any more, whatever waits.
\<close>

theorem failed_local_save_keeps_its_place:
  assumes "ks_cmd inp = cmd_failed" "p_message inp = Some bs" "c_str bs = Some t" "length t < 2 ^ 32"
    and "k_save_units s (ks_request_id inp) = Some u" "su_fail_count u = 0" "su_bkp_count u = 0" "\<not> su_backup u"
    and "k_requests s (su_main_request u) = Some q" "rq_request_id q = su_main_request u" "rq_cmd q = cmd_save"
    and "rq_units q = [ks_request_id inp]" "rq_saved_units q = []" "ims_id (rq_request_id q) s = Some i" "rq_local q"
    and "k_pending_router_save_reqs s = []" "unat (k_storage_input_cnt s) \<ge> 150" "fifo_ok (k_ims_tx s)"
  shows "\<exists>s'. kernel_process_storage_writer_input inp s = Returns s' \<and> ims_seen s' = ims_seen s @ [(i, cmd_save_fail)]
    \<and> k_save_units s' = (k_save_units s)(ks_request_id inp := None) \<and> k_storage_input_cnt s' = k_storage_input_cnt s
    \<and> k_pending_save_requests s' = k_pending_save_requests s \<and> k_storage_writer_tx s' = k_storage_writer_tx s"
proof -
  have full: "process_storage_pending_save_requests x = Returns x" if "150 \<le> unat (k_storage_input_cnt x)" for x
    using that by (cases "k_pending_save_requests x")
      (simp_all add: process_storage_pending_save_requests_def look_def skip_def only_if_def max_storage_input_cnt_def)
  show ?thesis
    using assms
    by (simp add: kernel_process_storage_writer_input_def handle_storage_failed_def action_defs has_message_def c_message_def
        handle_canceled_save_unit_def upd_unit_def with_unit_def max_save_fail_count_def handle_failed_save_unit_def with_req_def
        process_not_backed_up_save_unit_def drop_unit_def erase_unit_def send_ims_save_fail_response_def with_ims_def ims_slot_def
        ims_text_def set_payload_string_def resize_def Let_def unat_of_nat take_bit_nat_eq_self ims_commit_def erase_ims_def ims_id_def
        process_pending_save_requests_def full process_router_pending_save_requests_def ims_seen_def)
qed

section \<open>Update listeners\<close>

definition event_text :: "command \<Rightarrow> string \<Rightarrow> string" where
  "event_text c n = notification_text (if c = cmd_update then ''updated'' else ''deleted'') n"

lemma text_package_run: "length t < 2 ^ 32 \<Longrightarrow> (text_package t k :: action) = k (text_pkg t)"
  by (rule text_package_pkg)

text \<open>The ids that \<open>get_request_id\<close> gives next.\<close>

definition next_id :: "ID32 \<Rightarrow> ID32" where
  "next_id i = (i + 1) AND 0x0FFFFFFF"

primrec next_ids :: "ID32 \<Rightarrow> nat \<Rightarrow> ID32 list" where
  "next_ids i 0 = []"
| "next_ids i (Suc n) = i # next_ids (next_id i) n"

definition router_notes :: "kernel \<Rightarrow> (ID32 \<times> command \<times> uuid \<times> ID32 \<times> byte list option) list" where
  "router_notes s = map (\<lambda>p. (kr_request_id p, kr_cmd p, kr_uuid p, kr_data_version p, payload_of p)) (pending (k_router_tx s))"

definition ims_notes :: "kernel \<Rightarrow> (ID32 \<times> command \<times> byte list option) list" where
  "ims_notes s = map (\<lambda>p. (im_request_id p, im_cmd p, payload_of p)) (pending (k_ims_tx s))"

declare and_run_done [simp]

lemma uuid_text_upd [simp]:
  "uuid_text u (s\<lparr>k_request_counter := x\<rparr>) = uuid_text u s" "uuid_text u (s\<lparr>k_requests := y\<rparr>) = uuid_text u s"
  by (simp_all add: uuid_text_def)

definition noted :: "uuid \<Rightarrow> command \<Rightarrow> kernel \<Rightarrow> request" where
  "noted u c s = (request_new (k_clock s) (k_request_counter s) u Requested cmd_send_to_peer T_kernel)
     \<lparr>rq_data := text_pkg (event_text c (uuid_text u s))\<rparr>"

lemma create_request_run:
  assumes "k_requests s (k_request_counter s) = None" "c = cmd_update \<or> c = cmd_del" "length (event_text c (uuid_text u s)) < 2 ^ 32"
  shows "create_request_for_update_notification u c k s = k (k_request_counter s) (s\<lparr>k_request_counter := next_id (k_request_counter s),
     k_requests := (k_requests s)(k_request_counter s \<mapsto> noted u c s)\<rparr>)"
  using assms(1,2) text_package_run [OF assms(3), unfolded event_text_def]
  by (simp add: create_request_for_update_notification_def action_defs kernel_get_request_id_def Let_def has_req_def new_request_def
      put_req_def upd_req_def next_id_def noted_def event_text_def)

lemma notify_listener_run:
  assumes "to_text (k_lib s) l = Some t" "k_requests s (k_request_counter s) = None" "c = cmd_update \<or> c = cmd_del"
    and "length (event_text c (uuid_text u s)) < 2 ^ 32" "length t < 2 ^ 32" "fifo_ok (k_ims_tx s)" "fifo_ok (k_router_tx s)"
  shows "\<exists>s'. notify_listener u c v l s = Returns s' \<and> k_request_counter s' = next_id (k_request_counter s)
    \<and> (\<forall>i. i \<noteq> k_request_counter s \<longrightarrow> k_requests s' i = k_requests s i) \<and> has_req (k_request_counter s) s'
    \<and> k_lib s' = k_lib s \<and> k_update_listeners s' = k_update_listeners s \<and> fifo_ok (k_ims_tx s') \<and> fifo_ok (k_router_tx s')
    \<and> ims_notes s' = ims_notes s @ (if t = [] then [(k_request_counter s, cmd_send_to_peer, Some (bytes_of (event_text c (uuid_text u s))))] else [])
    \<and> router_notes s' = router_notes s @ (if t = [] then [] else
        [(k_request_counter s, if c = cmd_update then cmd_notify_update else cmd_notify_delete, u, v, Some (bytes_of t))])"
proof -
  have q: "rq_request_id (noted u c s) = k_request_counter s" "rq_uuid (noted u c s) = u"
    "rq_data (noted u c s) = text_pkg (event_text c (uuid_text u s))"
    by (simp_all add: noted_def request_new_def request_dated_def)
  have p: "payload_of (p\<lparr>im_request_id := a, im_cmd := b\<rparr>) = payload_of p" "payload_of (r\<lparr>kr_uuid := x, kr_data_version := y\<rparr>) = payload_of r"
    for p :: ims_kernel_package and r :: kernel_router_package and a b x y
    by (simp_all add: payload_of_def)
  have f: "im_request_id (set_payload w p) = im_request_id p" "im_cmd (set_payload w p) = im_cmd p"
    "kr_request_id (set_payload w r) = kr_request_id r" "kr_cmd (set_payload w r) = kr_cmd r" for w :: package and p r
    by (simp_all add: set_payload_def)
  show ?thesis
    using assms
    by (simp add: notify_listener_def look_def need_def create_request_run with_req_def q send_notification_to_ims_def
        send_notification_to_router_def post_run text_package_run has_req_def ims_notes_def router_notes_def p f)
qed

definition web_notes :: "command \<Rightarrow> string \<Rightarrow> (ID32 \<times> string) list \<Rightarrow> (ID32 \<times> command \<times> byte list option) list" where
  "web_notes c n its = map (\<lambda>(i, t). (i, cmd_send_to_peer, Some (bytes_of (event_text c n)))) (filter (\<lambda>(i, t). t = []) its)"

definition peer_notes :: "uuid \<Rightarrow> command \<Rightarrow> ID32 \<Rightarrow> (ID32 \<times> string) list \<Rightarrow> (ID32 \<times> command \<times> uuid \<times> ID32 \<times> byte list option) list" where
  "peer_notes u c v its = map (\<lambda>(i, t). (i, if c = cmd_update then cmd_notify_update else cmd_notify_delete, u, v, Some (bytes_of t)))
     (filter (\<lambda>(i, t). t \<noteq> []) its)"

lemma notify_each:
  assumes "map (to_text (k_lib s)) ls = map Some ts" "c = cmd_update \<or> c = cmd_del" "distinct (next_ids (k_request_counter s) (length ts))"
    and "\<forall>i \<in> set (next_ids (k_request_counter s) (length ts)). k_requests s i = None"
    and "length (event_text c (uuid_text u s)) < 2 ^ 32" "\<forall>t \<in> set ts. length t < 2 ^ 32" "fifo_ok (k_ims_tx s)" "fifo_ok (k_router_tx s)"
  shows "\<exists>s'. each ls (notify_listener u c v) s = Returns s' \<and> k_update_listeners s' = k_update_listeners s
    \<and> ims_notes s' = ims_notes s @ web_notes c (uuid_text u s) (zip (next_ids (k_request_counter s) (length ts)) ts)
    \<and> router_notes s' = router_notes s @ peer_notes u c v (zip (next_ids (k_request_counter s) (length ts)) ts)
    \<and> (\<forall>i \<in> set (next_ids (k_request_counter s) (length ts)). has_req i s')
    \<and> (\<forall>i. i \<notin> set (next_ids (k_request_counter s) (length ts)) \<longrightarrow> k_requests s' i = k_requests s i)"
  using assms
proof (induction ls arbitrary: ts s)
  case Nil
  then show ?case by (simp add: web_notes_def peer_notes_def)
next
  case (Cons l ls)
  then obtain t us where ts: "ts = t # us" "to_text (k_lib s) l = Some t" "map (to_text (k_lib s)) ls = map Some us"
    by (cases ts) auto
  let ?i = "k_request_counter s"
  from notify_listener_run [of s l t c u v] Cons.prems(2-8) ts obtain a where a: "notify_listener u c v l s = Returns a"
    "k_request_counter a = next_id ?i" "\<forall>i. i \<noteq> ?i \<longrightarrow> k_requests a i = k_requests s i" "has_req ?i a" "k_lib a = k_lib s"
    "k_update_listeners a = k_update_listeners s" "fifo_ok (k_ims_tx a)" "fifo_ok (k_router_tx a)"
    "ims_notes a = ims_notes s @ (if t = [] then [(?i, cmd_send_to_peer, Some (bytes_of (event_text c (uuid_text u s))))] else [])"
    "router_notes a = router_notes s @ (if t = [] then [] else
      [(?i, if c = cmd_update then cmd_notify_update else cmd_notify_delete, u, v, Some (bytes_of t))])"
    by auto
  have fresh: "?i \<notin> set (next_ids (next_id ?i) (length us))" using Cons.prems(3) ts(1) by simp
  have u: "uuid_text u a = uuid_text u s" using a(5) by (simp add: uuid_text_def)
  have "k_requests a i = None" if "i \<in> set (next_ids (next_id ?i) (length us))" for i
    using a(3) [rule_format, of i] fresh Cons.prems(4) ts(1) that by (cases "i = ?i") auto
  with Cons.IH [of a us] Cons.prems(2,3,5,6) ts a(2,5,7,8) u obtain s' where s': "each ls (notify_listener u c v) a = Returns s'"
    "k_update_listeners s' = k_update_listeners a"
    "ims_notes s' = ims_notes a @ web_notes c (uuid_text u s) (zip (next_ids (next_id ?i) (length us)) us)"
    "router_notes s' = router_notes a @ peer_notes u c v (zip (next_ids (next_id ?i) (length us)) us)"
    "\<forall>i \<in> set (next_ids (next_id ?i) (length us)). has_req i s'"
    "\<forall>i. i \<notin> set (next_ids (next_id ?i) (length us)) \<longrightarrow> k_requests s' i = k_requests a i"
    by auto
  have "has_req ?i s'" using s'(6) fresh a(4) by (simp add: has_req_def)
  then show ?case
    using a s' by (auto simp: ts(1) web_notes_def peer_notes_def)
qed

text \<open>
  C19: When a file changes, every listener registered for it is notified once, under an id of its own and in the order
  of registration: one without a key through the web interface with the event, one of a peer through the router with
  the peer's key, the uuid and the version. Each notification has its request in the table until it is confirmed. A
  deletion also removes the listeners, an update keeps them.
\<close>

theorem update_reaches_every_listener:
  assumes "get_array (uuid_text u s) (k_update_listeners s) = Some ls" "map (to_text (k_lib s)) ls = map Some ts"
    and "c = cmd_update \<or> c = cmd_del" "ids = next_ids (k_request_counter s) (length ts)" "distinct ids"
    and "\<forall>i \<in> set ids. k_requests s i = None" "length (event_text c (uuid_text u s)) < 2 ^ 32" "\<forall>t \<in> set ts. length t < 2 ^ 32"
    and "fifo_ok (k_ims_tx s)" "fifo_ok (k_router_tx s)"
  shows "\<exists>s'. notify_update u c v s = Returns s'
    \<and> ims_notes s' = ims_notes s @ web_notes c (uuid_text u s) (zip ids ts)
    \<and> router_notes s' = router_notes s @ peer_notes u c v (zip ids ts)
    \<and> (\<forall>i. has_req i s' \<longleftrightarrow> i \<in> set ids \<or> has_req i s)
    \<and> k_update_listeners s' = (if c = cmd_del then obj_remove (uuid_text u s) (k_update_listeners s) else k_update_listeners s)"
proof -
  from notify_each [OF assms(2,3) _ _ assms(7-10), of v] assms(4-6) obtain t where t: "each ls (notify_listener u c v) s = Returns t"
    "k_update_listeners t = k_update_listeners s"
    "ims_notes t = ims_notes s @ web_notes c (uuid_text u s) (zip ids ts)" "router_notes t = router_notes s @ peer_notes u c v (zip ids ts)"
    "\<forall>i \<in> set ids. has_req i t" "\<forall>i. i \<notin> set ids \<longrightarrow> k_requests t i = k_requests s i"
    by auto
  have has: "obj_has (uuid_text u s) (k_update_listeners s)"
    using assms(1) by (auto simp: get_array_def obj_has_def split: option.splits)
  have "has_req i t \<longleftrightarrow> i \<in> set ids \<or> has_req i s" for i
    using t(5,6) by (cases "i \<in> set ids") (auto simp: has_req_def)
  then show ?thesis
    using assms(1,3) t(1-4) has
    by (auto simp: notify_update_def action_defs ims_notes_def router_notes_def has_req_def)
qed

section \<open>Concrete runs\<close>

text \<open>A kernel with a user's document in which nothing is owned; its library prints and parses one object only.\<close>

definition ex_lib :: klib where
  "ex_lib = \<lparr>kl_poco = poco_ref, kl_parse = (\<lambda>_. Some []), kl_print = (\<lambda>_. ''{}''), kl_to_int = (\<lambda>_. None), kl_to_text = (\<lambda>_. None),
     kl_b64_encode = chars, kl_b64_decode = bytes_of\<rparr>"

definition ex_kernel :: kernel where
  "ex_kernel = (kernel_new ex_lib of_nat (\<lambda>_. ''t''))\<lparr>k_user_json := Some [(''owned_data'', J_obj [])]\<rparr>"

lemma ex_lib_simps [simp]: "kl_poco ex_lib = poco_ref" "kl_b64_encode ex_lib = chars" "kl_b64_decode ex_lib = bytes_of"
  "kl_parse ex_lib t = Some []" "kl_print ex_lib m = ''{}''"
  by (simp_all add: ex_lib_def)

lemma poco_ref_inj [simp]: "uuid_to_string poco_ref u = uuid_to_string poco_ref v \<longleftrightarrow> u = v"
  by (rule uuid_to_string_inj [OF poco_ref_ok])

lemma channels_new: "channels_ok (kernel_new L us ns)"
  by (simp add: channels_ok_def kernel_new_def)

text \<open>The web interface asks for a file; one turn later there is a request.\<close>

definition ex_asked :: kernel where
  "ex_asked = ex_kernel\<lparr>k_ims_rx := fifo_write ims_kernel_package0
     (ims_kernel_package0\<lparr>im_cmd := cmd_get, im_uuid := 5, im_request_id := 71\<rparr>) (k_ims_rx ex_kernel)\<rparr>"

lemma ex_asked_reachable: "kernel_reachable ex_lib of_nat (\<lambda>_. ''t'') ex_asked"
proof (rule kernel_others [OF kernel_start])
  show "same_tables (kernel_new ex_lib of_nat (\<lambda>_. ''t'')) ex_asked"
    using channels_new [of ex_lib of_nat "\<lambda>_. ''t''"]
    by (simp add: same_tables_def ex_asked_def ex_kernel_def channels_ok_def)
qed

lemma ex_asked_turn:
  "\<exists>s'. kernel_turn ex_asked = Returns s' \<and> k_requests s' 0 = Some ((request_new 0 0 5 Lookup_in_db cmd_get T_ims)\<lparr>rq_get_range := (-1, -1), rq_cache := True\<rparr>)"
  by (simp add: kernel_turn_def kernel_handle_config_input_def handle_key_manager_input_def kernel_handle_storage_input_def
      kernel_handle_storage_writer_input_def kernel_handle_cache_input_def kernel_handle_wallet_input_def handle_ims_input_def handle_router_input_def
      kernel_handle_backup_input_def handle_user_manager_input_def take_input_def ex_asked_def ex_kernel_def kernel_new_def fifo_new_def
      fifo_front_def has_data_def fifo_write_def set_slot_def commit_def slot_def action_defs should_wait_for_user_json_def guarded_def
      process_ims_input_def handle_ims_get_request_def kernel_get_request_id_def has_req_def Let_def no_ims_def ims_id_def set_ims_def no_req_def
      new_request_def put_req_def upd_req_def process_ims_get_request_def with_req_def post_storage_look_up_request_def post_storage_def
      fifo_pop_def ims_kernel_package0_def default_package_def package.defs request_new_def request_dated_def)

theorem kernel_tables_wellformed_witness:
  "\<exists>s' q. kernel_turn ex_asked = Returns s' \<and> k_requests s' 0 = Some q \<and> (rq_request_id q = 0 \<or> rq_request_id q = 0 \<and> rq_typ q = Max_req_type)
    \<and> uint (k_request_counter s') < 2 ^ 28 \<and> (\<forall>u. k_pending_ims_get_requests s' u \<noteq> Some [])"
proof -
  from ex_asked_turn obtain s' q where s': "kernel_turn ex_asked = Returns s'" "k_requests s' 0 = Some q" by blast
  from kernel_tables_wellformed [OF kernel_step [OF ex_asked_reachable s'(1)]] s' show ?thesis
    by (intro exI [of _ s'] exI [of _ q]) auto
qed

text \<open>Two requests wait for file 5.\<close>

definition ex_waiting :: kernel where
  "ex_waiting = ex_kernel\<lparr>k_pending_ims_get_requests := [5 \<mapsto> [1, 2]], k_ims_req_ids := [(1, 71), (2, 72)]\<rparr>"

lemma ex_fifo_ok [simp]: "fifo_ok (k_ims_tx ex_kernel)" "fifo_ok (k_router_tx ex_kernel)" "fifo_ok (k_storage_writer_tx ex_kernel)"
  by (simp_all add: ex_kernel_def kernel_new_def)

theorem waiting_gets_answered_once_witness:
  "\<exists>s'. send_ims_response (ims_kernel_package0\<lparr>im_uuid := 5, im_cmd := cmd_get_data\<rparr>) ex_waiting = Returns s'
    \<and> map im_request_id (pending (k_ims_tx s')) = [71, 72] \<and> ims_id 1 s' = None
    \<and> send_ims_response (ims_kernel_package0\<lparr>im_uuid := 5, im_cmd := cmd_get_data\<rparr>) s' = Raises Assertion_violation s'"
proof -
  have "pending (k_ims_tx ex_waiting) = []" "waiting_ids ex_waiting [1, 2] = [71, 72]"
    by (simp_all add: ex_waiting_def ex_kernel_def kernel_new_def waiting_ids_def List.map_filter_def ims_id_def)
  then show ?thesis
    using waiting_gets_answered_once [of ex_waiting "ims_kernel_package0\<lparr>im_uuid := 5, im_cmd := cmd_get_data\<rparr>" "[1, 2]"]
    by (auto simp: ex_waiting_def)
qed

text \<open>A synchronisation that asked for two uuids, and a peer that sends the second one, then the first.\<close>

definition ex_sync_request :: request where
  "ex_sync_request = (request_new 0 9 0 Max_req_state cmd_get_journal_info T_kernel)\<lparr>rq_master_json :=
     Some [(uuid_to_string poco_ref 1, J_str ''s''), (uuid_to_string poco_ref 2, J_str ''s'')]\<rparr>"

definition ex_sync :: kernel where
  "ex_sync = ex_kernel\<lparr>k_requests := [9 \<mapsto> ex_sync_request], k_user_json_uuid := 4\<rparr>"

definition ex_uuid :: "uuid \<Rightarrow> kernel_router_package" where
  "ex_uuid u = kernel_router_package0\<lparr>kr_request_id := 9, kr_cmd := cmd_get_uuid, kr_uuid := u, p_size := 1, p_message := Some [7, 0]\<rparr>"

lemma ex_sync_simps [simp]:
  "k_requests ex_sync 9 = Some ex_sync_request" "uuid_text u ex_sync = uuid_to_string poco_ref u" "k_user_json_uuid ex_sync = 4"
  "k_update_listeners ex_sync = []" "fifo_ok (k_storage_writer_tx ex_sync)" "fifo_ok (k_router_tx ex_sync)"
  "rq_request_id ex_sync_request = 9" "rq_cmd ex_sync_request = cmd_get_journal_info" "rq_uuid ex_sync_request = 0"
  "rq_master_json ex_sync_request = Some [(uuid_to_string poco_ref 1, J_str ''s''), (uuid_to_string poco_ref 2, J_str ''s'')]"
  by (simp_all add: ex_sync_def ex_sync_request_def ex_kernel_def kernel_new_def uuid_text_def request_new_def request_dated_def)

lemma ex_uuid_simps [simp]: "kr_request_id (ex_uuid u) = 9" "kr_cmd (ex_uuid u) = cmd_get_uuid" "kr_uuid (ex_uuid u) = u" "payload_of (ex_uuid u) = Some [7]"
  by (simp_all add: ex_uuid_def payload_of_def mem_read_def)

theorem sync_finishes_with_the_last_uuid_witness:
  "\<exists>s'. each [ex_uuid 2, ex_uuid 1] process_router_input ex_sync = Returns s'
    \<and> router_seen s' = [(cmd_sync_finished, 9)] \<and> k_requests s' 9 = None
    \<and> saves_seen s' = [(cmd_save_data, 2, Some [7], False), (cmd_save_data, 1, Some [7], False)]"
proof -
  have "router_seen ex_sync = []" "saves_seen ex_sync = []"
    by (simp_all add: router_seen_def saves_seen_def ex_sync_def ex_kernel_def kernel_new_def)
  then show ?thesis
    using sync_finishes_with_the_last_uuid [of ex_sync 9 ex_sync_request "[(uuid_to_string poco_ref 1, J_str ''s''), (uuid_to_string poco_ref 2, J_str ''s'')]"
        "[ex_uuid 2, ex_uuid 1]"] by (auto simp: obj_has_def)
qed

theorem unrequested_uuid_aborts_witness:
  "\<exists>s'. handle_router_input (ex_sync\<lparr>k_router_rx := fifo_write kernel_router_package0 (ex_uuid 3) (k_router_rx ex_sync)\<rparr>) = Raises Assertion_violation s'"
  using unrequested_uuid_aborts [of "ex_sync\<lparr>k_router_rx := fifo_write kernel_router_package0 (ex_uuid 3) (k_router_rx ex_sync)\<rparr>" "ex_uuid 3" ex_sync_request]
  by (auto simp: obj_has_def uuid_text_def fifo_front_pending fifo_write_def ex_sync_def ex_kernel_def kernel_new_def)

text \<open>A save that comes before the user's document.\<close>

definition ex_early :: kernel where
  "ex_early = (kernel_new ex_lib of_nat (\<lambda>_. ''t''))\<lparr>k_ims_rx := fifo_write ims_kernel_package0
     (ims_kernel_package0\<lparr>im_cmd := cmd_save, im_request_id := 71\<rparr>) (fifo_new ims_kernel_package0)\<rparr>"

theorem waiting_command_is_refused_witness:
  "turns 600 handle_ims_input ex_early = Returns (ex_early\<lparr>k_user_json_wait_counter := 600\<rparr>)
    \<and> (\<exists>s'. turns 602 handle_ims_input ex_early = Returns s' \<and> \<not> k_valid_keys s'
        \<and> ims_seen s' = [(0, cmd_send_to_peer), (71, cmd_failed)])"
proof -
  have "ims_seen ex_early = []" "pending (k_ims_rx ex_early) = [ims_kernel_package0\<lparr>im_cmd := cmd_save, im_request_id := 71\<rparr>]"
    by (simp_all add: ims_seen_def ex_early_def kernel_new_def fifo_write_def)
  moreover have "should_wait_for_user_json cmd_save ex_early" "k_valid_keys ex_early" "k_user_json_wait_counter ex_early = 0"
    "k_requests ex_early (k_request_counter ex_early) = None" "fifo_ok (k_ims_tx ex_early)" "k_request_counter ex_early = 0"
    by (simp_all add: should_wait_for_user_json_def ex_early_def kernel_new_def)
  ultimately show ?thesis
    using waiting_command_is_refused [of ex_early "ims_kernel_package0\<lparr>im_cmd := cmd_save, im_request_id := 71\<rparr>"]
    by (auto simp: fifo_front_pending)
qed

text \<open>A copy of which all but one of four copies are confirmed.\<close>

definition ex_copy_request :: request where
  "ex_copy_request = (request_new 0 9 5 Receiving cmd_copy T_ims)\<lparr>rq_copy_uuid := 6, rq_backup_units := [9], rq_updated := 3\<rparr>"

definition ex_confirm :: "ID32 \<Rightarrow> kernel_router_package" where
  "ex_confirm i = kernel_router_package0\<lparr>kr_request_id := i, kr_cmd := cmd_save_confirm\<rparr>"

definition ex_copied :: kernel where
  "ex_copied = ex_kernel\<lparr>k_requests := [9 \<mapsto> ex_copy_request],
     k_router_rx := fifo_write kernel_router_package0 (ex_confirm 9) (fifo_new kernel_router_package0)\<rparr>"

theorem last_copy_confirmation_crashes_witness: "handle_router_input ex_copied = Crashes"
  by (rule last_copy_confirmation_crashes [where inp = "ex_confirm 9" and q = ex_copy_request and j = "[(''owned_data'', J_obj [])]" and own = "[]"])
    (simp_all add: ex_copied_def ex_kernel_def kernel_new_def ex_copy_request_def request_new_def request_dated_def ex_confirm_def
      fifo_front_pending fifo_write_def get_object_def)

definition ex_null :: kernel where
  "ex_null = ex_kernel\<lparr>k_ims_rx := fifo_write ims_kernel_package0 (ims_kernel_package0\<lparr>im_cmd := cmd_accept_share\<rparr>) (k_ims_rx ex_kernel)\<rparr>"

theorem accepting_null_uuid_aborts_witness: "\<exists>s'. handle_ims_input ex_null = Raises Assertion_violation s'"
proof -
  have "im_uuid (ims_kernel_package0\<lparr>im_cmd := cmd_accept_share\<rparr>) = 0" "k_valid_keys ex_null" "k_user_json ex_null = Some [(''owned_data'', J_obj [])]"
    "fifo_front (k_ims_rx ex_null) = Some (ims_kernel_package0\<lparr>im_cmd := cmd_accept_share\<rparr>)" "p_size (slot (k_ims_tx ex_null)) = 0"
    by (simp_all add: ex_null_def ex_kernel_def kernel_new_def fifo_front_pending fifo_write_def)
      (simp_all add: ims_kernel_package0_def package.defs default_package_def)
  then show ?thesis
    using accepting_null_uuid_aborts [of ex_null "ims_kernel_package0\<lparr>im_cmd := cmd_accept_share\<rparr>"] by auto
qed

text \<open>A local save of one master object with three of four copies, and one whose only piece the storage refuses.\<close>

definition ex_save_request :: request where
  "ex_save_request = (request_new 0 9 5 Receiving cmd_save T_ims)\<lparr>rq_backup_units := [9], rq_units := [3]\<rparr>"

definition ex_unit :: "unit_type \<Rightarrow> ID32 \<Rightarrow> save_unit" where
  "ex_unit t n = (save_unit_new 9 0 1 n t 5 default_package cmd_save False)"

definition ex_saving :: "unit_type \<Rightarrow> ID32 \<Rightarrow> kernel" where
  "ex_saving t n = ex_kernel\<lparr>k_requests := [9 \<mapsto> ex_save_request], k_save_units := [3 \<mapsto> ex_unit t n], k_ims_req_ids := [(9, 71)],
     k_storage_input_cnt := 150\<rparr>"

lemma ex_saving_simps [simp]:
  "k_requests (ex_saving t n) = [9 \<mapsto> ex_save_request]" "k_save_units (ex_saving t n) = [3 \<mapsto> ex_unit t n]" "k_data_copy_count (ex_saving t n) = 4"
  "k_pending_save_requests (ex_saving t n) = []" "k_pending_router_save_reqs (ex_saving t n) = []" "fifo_ok (k_router_tx (ex_saving t n))"
  "fifo_ok (k_ims_tx (ex_saving t n))" "k_user_json (ex_saving t n) = Some [(''owned_data'', J_obj [])]" "ims_id 9 (ex_saving t n) = Some 71"
  "k_storage_input_cnt (ex_saving t n) = 150" "router_seen (ex_saving t n) = []" "ims_seen (ex_saving t n) = []"
  "su_type (ex_unit t n) = t" "su_main_request (ex_unit t n) = 9" "su_bkp_count (ex_unit t n) = n" "su_fail_count (ex_unit t n) = 0"
  "\<not> su_backup (ex_unit t n)" "rq_request_id ex_save_request = 9" "rq_cmd ex_save_request = cmd_save" "rq_backup_units ex_save_request = [9]"
  "rq_units ex_save_request = [3]" "rq_saved_units ex_save_request = []" "rq_local ex_save_request"
  by (simp_all add: ex_saving_def ex_kernel_def kernel_new_def ex_unit_def save_unit_new_def ex_save_request_def request_new_def
      request_dated_def ims_id_def router_seen_def ims_seen_def)

theorem backed_up_save_stays_witness:
  "\<exists>s'. process_router_input (ex_confirm 3) (ex_saving Master 3) = Returns s' \<and> k_save_units s' 3 = None
    \<and> k_requests s' 9 = Some ex_save_request \<and> router_seen s' = [(cmd_clear_request, 3)]"
  using backed_up_save_stays [of "ex_confirm 3" "ex_saving Master 3" "ex_unit Master 3" ex_save_request "[(''owned_data'', J_obj [])]" "[]"]
  by (auto simp: ex_confirm_def get_object_def)

definition ex_refusal :: kernel_storage_package where
  "ex_refusal = kernel_storage_package0\<lparr>ks_request_id := 3, ks_cmd := cmd_failed, p_size := 1, p_message := Some [33, 0]\<rparr>"

theorem failed_local_save_keeps_its_place_witness:
  "\<exists>s'. kernel_process_storage_writer_input ex_refusal (ex_saving Piece 0) = Returns s' \<and> ims_seen s' = [(71, cmd_save_fail)]
    \<and> k_save_units s' 3 = None \<and> k_storage_input_cnt s' = 150"
  using failed_local_save_keeps_its_place [of ex_refusal "[33, 0]" "chars [33]" "ex_saving Piece 0" "ex_unit Piece 0" ex_save_request 71]
  by (auto simp: ex_refusal_def c_str_def chars_def)

text \<open>File 5 changes; the web interface and a peer listen.\<close>

definition ex_listened :: kernel where
  "ex_listened = ex_kernel\<lparr>k_update_listeners := [(uuid_to_string poco_ref 5, J_arr [J_str [], J_str ''key''])]\<rparr>"

theorem update_reaches_every_listener_witness:
  "\<exists>s'. notify_update 5 cmd_update 2 ex_listened = Returns s'
    \<and> ims_notes s' = [(0, cmd_send_to_peer, Some (bytes_of (event_text cmd_update (uuid_to_string poco_ref 5))))]
    \<and> router_notes s' = [(1, cmd_notify_update, 5, 2, Some (bytes_of ''key''))]"
proof -
  have s: "uuid_text 5 ex_listened = uuid_to_string poco_ref 5" "k_lib ex_listened = ex_lib" "k_request_counter ex_listened = 0"
    "k_requests ex_listened = Map.empty" "fifo_ok (k_ims_tx ex_listened)" "fifo_ok (k_router_tx ex_listened)" "ims_notes ex_listened = []"
    "router_notes ex_listened = []" "k_update_listeners ex_listened = [(uuid_to_string poco_ref 5, J_arr [J_str [], J_str ''key''])]"
    by (simp_all add: ex_listened_def ex_kernel_def kernel_new_def uuid_text_def ims_notes_def router_notes_def)
  have l: "length (uuid_to_string poco_ref 5) = 36"
    by (simp add: poco_ref_def ref_to_string_def Let_def length_hex be128_def)
  have "length (event_text cmd_update (uuid_to_string poco_ref 5)) < 2 ^ 32"
    by (simp add: event_text_def notification_text_def l)
  moreover have "next_ids 0 (length [[], ''key'']) = [0, 1]" by (simp add: next_id_def)
  moreover have "length ([] :: string) < 2 ^ 32 \<and> length ''key'' < 2 ^ 32" by simp
  ultimately show ?thesis
    using update_reaches_every_listener [of 5 ex_listened "[J_str [], J_str ''key'']" "[[], ''key'']" cmd_update "[0, 1]" 2]
    by (auto simp: s get_array_def to_text_def web_notes_def peer_notes_def simp del: next_ids.simps list.size)
qed

end
