(* ===== verification/Kernel_Pieces_Props.thy ===== *)
theory Kernel_Pieces_Props
  imports Kernel_Pieces Storage_Props
begin

text \<open>
  What the pieces and the ranges of \<open>Kernel_Pieces\<close> promise: pieces can be put back in any order, unless the file
  is larger than 4 GiB, and a request for a range of bytes gets this range, unless its end is the first
  byte of a chunk.
\<close>

section \<open>Pieces\<close>

lemma set_obj_set: "k \<notin> fst ` set m \<Longrightarrow> set (obj_set k v m) = insert (k, v) (set m)"
  by (induction k v m rule: obj_set.induct) auto

definition piece_at :: "nat \<Rightarrow> nat \<Rightarrow> piece \<Rightarrow> bool" where
  "piece_at a n p \<longleftrightarrow> pc_from p = Some (int a) \<and> pc_size p = Some (int n)"

definition covered :: "pieces \<Rightarrow> nat \<Rightarrow> bool" where
  "covered ps x \<longleftrightarrow> (\<exists>(u, p) \<in> set ps. \<exists>a n. piece_at a n p \<and> a \<le> x \<and> x < a + n)"

definition pieces_within :: "nat \<Rightarrow> pieces \<Rightarrow> bool" where
  "pieces_within m ps \<longleftrightarrow> (\<forall>(u, p) \<in> set ps. \<exists>a n. piece_at a n p \<and> 0 < n \<and> n \<le> max_chunk_size \<and> a + n \<le> m)"

lemma covered_cong: "set ps = set qs \<Longrightarrow> covered ps x = covered qs x" "set ps = set qs \<Longrightarrow> pieces_within m ps = pieces_within m qs"
  by (simp_all add: covered_def pieces_within_def)

lemma piece_at_create:
  assumes "n < 2 ^ 32"
  shows "piece_at (unat b) n (create_piece_json (ucast (b :: ID32)) (of_nat n))"
proof -
  have "uint b < 2 ^ 64"
    using uint_lt2p [of b] by simp
  then show ?thesis
    using assms by (simp add: piece_at_def create_piece_json_def unsigned_ucast_eq unsigned_of_nat take_bit_nat_eq_self
        take_bit_int_eq_self)
qed

lemma covered_insert:
  assumes "k \<notin> fst ` set m" and "piece_at a n p"
  shows "covered (obj_set k p m) x \<longleftrightarrow> covered m x \<or> a \<le> x \<and> x < a + n"
proof -
  have "piece_at a' n' p \<longleftrightarrow> a' = a \<and> n' = n" for a' n'
    using assms(2) by (auto simp: piece_at_def)
  then show ?thesis
    using assms(1) by (auto simp: covered_def set_obj_set)
qed

lemma pieces_within_insert:
  assumes "k \<notin> fst ` set m" and "pieces_within w m" and "piece_at a n p" "0 < n" "n \<le> max_chunk_size" "a + n \<le> w'" "w \<le> w'"
  shows "pieces_within w' (obj_set k p m)"
proof -
  have "\<exists>a n. piece_at a n q \<and> 0 < n \<and> n \<le> max_chunk_size \<and> a + n \<le> w'" if "(u, q) \<in> set m" for u q
    using assms(2,7) that by (fastforce simp: pieces_within_def)
  then show ?thesis
    using assms(1,3-6) by (auto simp: pieces_within_def set_obj_set)
qed

definition fresh_names :: "poco \<Rightarrow> (nat \<Rightarrow> uuid) \<Rightarrow> nat \<Rightarrow> nat \<Rightarrow> pieces \<Rightarrow> bool" where
  "fresh_names L src i k pj \<longleftrightarrow> (\<forall>n \<in> fst ` set pj. \<exists>j. i \<le> j \<and> j < k \<and> n = uuid_to_string L (src j))"

lemma fresh_name:
  "poco_ok L \<Longrightarrow> inj_on src {i..m} \<Longrightarrow> i \<le> k \<Longrightarrow> k \<le> m \<Longrightarrow> fresh_names L src i k pj \<Longrightarrow>
   uuid_to_string L (src k) \<notin> fst ` set pj"
  by (force simp: fresh_names_def uuid_to_string_inj inj_on_def)

lemma fresh_names_set:
  "i \<le> k \<Longrightarrow> fresh_names L src i k pj \<Longrightarrow> fresh_names L src i (Suc k) (obj_set (uuid_to_string L (src k)) p pj)"
  by (auto simp: fresh_names_def less_Suc_eq)

lemma pieces_loop_tiles:
  assumes "poco_ok L" "inj_on src {i..m}" and "i \<le> k" "k + s \<le> m" and "fresh_names L src i k pj" and "unat b + s \<le> 2 ^ 32" "pieces_within (unat b) pj"
    and "\<forall>x < unat b. covered pj x"
  shows "pieces_within (unat b + s) (snd (pieces_loop L src k b s pj))
    \<and> (\<forall>x < unat b + s. covered (snd (pieces_loop L src k b s pj)) x)"
  using assms
proof (induction L src k b s pj rule: pieces_loop.induct)
  case (1 L src k b s pj)
  have new: "uuid_to_string L (src k) \<notin> fst ` set pj"
    by (rule fresh_name [OF 1(2,3,4) _ 1(6)]) (use 1(5) in simp)
  show ?case
  proof (cases "max_chunk_size < s")
    case True
    let ?pj = "obj_set (uuid_to_string L (src k)) (create_piece_json (ucast b) (of_nat max_chunk_size)) pj"
    have b': "unat (b + of_nat max_chunk_size) = unat b + max_chunk_size"
      using 1(7) True by (simp add: unat_word_ariths unat_of_nat take_bit_nat_eq_self max_chunk_size_def)
    have p: "piece_at (unat b) max_chunk_size (create_piece_json (ucast b) (of_nat max_chunk_size))"
      by (rule piece_at_create) (simp add: max_chunk_size_def)
    have "pieces_within (unat b + max_chunk_size) ?pj"
      by (rule pieces_within_insert [OF new 1(8) p]) (simp_all add: max_chunk_size_def)
    moreover have "\<forall>x < unat b + max_chunk_size. covered ?pj x"
      using 1(9) by (auto simp: covered_insert [OF new p])
    ultimately have "pieces_within (unat b + s) (snd (pieces_loop L src (Suc k) (b + of_nat max_chunk_size) (s - max_chunk_size) ?pj))
        \<and> (\<forall>x < unat b + s. covered (snd (pieces_loop L src (Suc k) (b + of_nat max_chunk_size) (s - max_chunk_size) ?pj)) x)"
      using 1(1) [OF True 1(2,3) _ _ fresh_names_set [OF 1(4,6)]] True 1(4,5,7) b' by (simp add: max_chunk_size_def)
    then show ?thesis
      using True by (subst (1 2) pieces_loop.simps) simp
  next
    case False
    show ?thesis 
    proof (cases "0 < s")
      case True
      have p: "piece_at (unat b) s (create_piece_json (ucast b) (of_nat s))"
        by (rule piece_at_create) (use False in \<open>simp add: max_chunk_size_def\<close>)
      have "pieces_within (unat b + s) (obj_set (uuid_to_string L (src k)) (create_piece_json (ucast b) (of_nat s)) pj)"
        by (rule pieces_within_insert [OF new 1(8) p]) (use True False in simp_all)
      then show ?thesis
        using False True 1(9) by (subst (1 2) pieces_loop.simps) (auto simp: covered_insert [OF new p])
    qed (use 1(8,9) in \<open>subst (1 2) pieces_loop.simps, simp\<close>)
  qed
qed


lemma pieces_loop_ordered: "ordered pj \<Longrightarrow> ordered (snd (pieces_loop L src k b s pj))"
proof (induction L src k b s pj rule: pieces_loop.induct)
  case (1 L src k b s pj)
  then show ?case
    by (subst pieces_loop.simps) (simp add: ordered_obj_set)
qed

lemma pieces_names_distinct: "distinct (map fst (snd (generate_pieces_json L src k n)))"
  using pieces_loop_ordered [of "[]" L src k 0 n] by (auto simp: generate_pieces_json_def ordered_def intro: ordered_distinct)

lemma transfer_piece_own:
  assumes "piece_at a n p" "0 < n" "a + n \<le> length c" "length f = length c"
  shows "length (transfer_piece c p f) = length c"
    and "x < length c \<Longrightarrow> transfer_piece c p f ! x = (if a \<le> x \<and> x < a + n then c ! x else f ! x)"
proof -
  have t: "transfer_piece c p f = take a f @ take n (drop a c) @ drop (a + n) f"
    using assms by (auto simp: transfer_piece_def piece_at_def read_piece_def file_write_at_def)
  show "length (transfer_piece c p f) = length c"
    using assms by (simp add: t)
  show "transfer_piece c p f ! x = (if a \<le> x \<and> x < a + n then c ! x else f ! x)" if "x < length c"
    using assms that by (auto simp: t nth_append)
qed

lemma transfer_pieces:
  assumes "pieces_within (length c) xs" and "length f = length c"
  shows "length (fold (transfer_piece c) (map snd xs) f) = length c
    \<and> (\<forall>x < length c. fold (transfer_piece c) (map snd xs) f ! x = (if covered xs x then c ! x else f ! x))"
  using assms
proof (induction xs arbitrary: f)
  case (Cons q xs)
  obtain u p where q: "q = (u, p)"
    by (cases q)
  then obtain a n where p: "piece_at a n p" "0 < n" "a + n \<le> length c"
    using Cons.prems(1) by (auto simp: pieces_within_def)
  have w: "pieces_within (length c) xs"
    using Cons.prems(1) by (simp add: pieces_within_def)
  have cov: "covered (q # xs) x \<longleftrightarrow> covered xs x \<or> a \<le> x \<and> x < a + n" for x
    using p(1) by (auto simp: covered_def q piece_at_def)
  show ?case
    using Cons.IH [OF w transfer_piece_own(1) [OF p Cons.prems(2)]] transfer_piece_own(2) [OF p Cons.prems(2)]
    by (simp add: q cov [unfolded q])
qed (simp add: covered_def)

lemma length_prepare_file: "0 < n \<Longrightarrow> n \<le> 2 ^ 63 \<Longrightarrow> length (prepare_file n) = n"
  by (simp add: prepare_file_def file_write_at_def)

lemma pieces_tile:
  assumes "poco_ok L" "inj_on src {k..k + n}" "max_chunk_size < n" "n \<le> 2 ^ 32" "ps = snd (generate_pieces_json L src k n)"
  shows "pieces_within n ps" "\<forall>x < n. covered ps x"
proof -
  have "pieces_within (unat (0 :: ID32) + n) (snd (pieces_loop L src k 0 n []))
      \<and> (\<forall>x < unat (0 :: ID32) + n. covered (snd (pieces_loop L src k 0 n [])) x)"
    by (rule pieces_loop_tiles [OF assms(1,2)]) (use assms(3,4) in \<open>simp_all add: fresh_names_def pieces_within_def\<close>)
  then show "pieces_within n ps" "\<forall>x < n. covered ps x"
    using assms(3) by (simp_all add: assms(5) generate_pieces_json_def)
qed

text \<open>
  A file of up to 4 GiB that is cut into pieces can be put back together: whatever the order in which
  the pieces arrive, and however often, the file they are written to ends up equal to the original, and no
  piece is larger than a chunk.
\<close>

theorem pieces_reassemble:
  assumes "poco_ok L" "inj_on src {k..k + length c}" and size: "max_chunk_size < length c" "length c \<le> 2 ^ 32"
    and ps: "ps = snd (generate_pieces_json L src k (length c))" and xs: "set xs = set ps"
  shows "fold (transfer_piece c) (map snd xs) (prepare_file (length c)) = c
    \<and> (\<forall>(u, p) \<in> set ps. \<exists>n. pc_size p = Some n \<and> 0 < n \<and> n \<le> int max_chunk_size)"
proof -
  note tiles = pieces_tile [OF assms(1,2) size ps]
  have "length c \<le> 2 ^ 63"
    using size(2) by simp
  moreover have "0 < length c"
    using size(1) by linarith
  ultimately have pf: "length (prepare_file (length c)) = length c"
    by (intro length_prepare_file)
  have "pieces_within (length c) xs"
    using tiles(1) covered_cong(2) [OF xs] by simp
  from transfer_pieces [OF this pf] tiles(2) covered_cong(1) [OF xs]
  have "fold (transfer_piece c) (map snd xs) (prepare_file (length c)) = c"
    by (intro nth_equalityI) simp_all
  moreover have "\<exists>n. pc_size p = Some n \<and> 0 < n \<and> n \<le> int max_chunk_size" if "(u, p) \<in> set ps" for u p
    using tiles(1) that by (force simp: pieces_within_def piece_at_def)
  ultimately show ?thesis
    by auto
qed

lemma pieces_loop_low:
  assumes "poco_ok L" "inj_on src {i..m}" and "i \<le> k" "k + s \<le> m" and "fresh_names L src i k pj" and "pieces_within (2 ^ 32 + max_chunk_size) pj"
  shows "pieces_within (2 ^ 32 + max_chunk_size) (snd (pieces_loop L src k b s pj))"
  using assms
proof (induction L src k b s pj rule: pieces_loop.induct)
  case (1 L src k b s pj)
  have new: "uuid_to_string L (src k) \<notin> fst ` set pj"
    by (rule fresh_name [OF 1(2,3,4) _ 1(6)]) (use 1(5) in simp)
  have b: "unat b < 2 ^ 32"
    using unsigned_less [of b] by simp
  have piece: "pieces_within (2 ^ 32 + max_chunk_size) (obj_set (uuid_to_string L (src k)) (create_piece_json (ucast b) (of_nat n)) pj)"
    if "0 < n" "n \<le> max_chunk_size" for n
    by (rule pieces_within_insert [OF new 1(7) piece_at_create]) (use that b in \<open>simp_all add: max_chunk_size_def\<close>)
  show ?case
  proof (cases "max_chunk_size < s")
    case True
    have "pieces_within (2 ^ 32 + max_chunk_size)
        (obj_set (uuid_to_string L (src k)) (create_piece_json (ucast b) (of_nat max_chunk_size)) pj)"
      by (rule piece) (simp_all add: max_chunk_size_def)
    from 1(1) [OF True 1(2,3) _ _ fresh_names_set [OF 1(4,6)] this] show ?thesis
      using True 1(4,5) by (subst pieces_loop.simps) (simp add: max_chunk_size_def)
  next
    case False
    then show ?thesis
      using 1(7) piece [of s] by (subst pieces_loop.simps) simp
  qed
qed

text \<open>
  C32: A file that exceeds 4 GiB by more than a chunk is lost: the offset of a piece is a 32-bit number, so
  no piece reaches the end of the file, and putting all pieces back gives zeros there.
\<close>

theorem big_files_are_lost:
  assumes "poco_ok L" "inj_on src {k..k + length c}" and size: "2 ^ 32 + max_chunk_size + 1 < length c" "length c \<le> 2 ^ 63"
    and ps: "ps = snd (generate_pieces_json L src k (length c))" and xs: "set xs = set ps"
    and x: "2 ^ 32 + max_chunk_size \<le> x" "x < length c - 1"
  shows "fold (transfer_piece c) (map snd xs) (prepare_file (length c)) ! x = 0"
proof -
  have "pieces_within (2 ^ 32 + max_chunk_size) ps"
    using pieces_loop_low [OF assms(1,2), of k "length c" "[]" 0] size
    by (simp add: ps generate_pieces_json_def fresh_names_def pieces_within_def)
  then have low: "pieces_within (2 ^ 32 + max_chunk_size) xs"
    using covered_cong(2) [OF xs] by simp
  have within: "pieces_within (length c) xs"
    using low size(1) by (fastforce simp: pieces_within_def)
  have "\<not> covered xs x"
    using low x(1) by (fastforce simp: pieces_within_def covered_def piece_at_def)
  moreover have pos: "0 < length c"
    using size(1) by linarith
  then have "length (prepare_file (length c)) = length c"
    using size(2) by (rule length_prepare_file)
  ultimately have "fold (transfer_piece c) (map snd xs) (prepare_file (length c)) ! x = prepare_file (length c) ! x"
    using transfer_pieces [OF within] x(2) by simp
  also have "\<dots> = 0"
    using x size pos by (auto simp: prepare_file_def file_write_at_def nth_append)
  finally show ?thesis .
qed

section \<open>Ranges\<close>

fun tiled :: "nat \<Rightarrow> nat \<Rightarrow> chunk list \<Rightarrow> bool" where
  "tiled a l [] \<longleftrightarrow> a = l"
| "tiled a l (c # v) \<longleftrightarrow> unat (ch_start c) = a \<and> 0 < unat (ch_size c) \<and> a + unat (ch_size c) \<le> l
     \<and> tiled (a + unat (ch_size c)) l v"

definition slice :: "'a list \<Rightarrow> nat \<Rightarrow> nat \<Rightarrow> 'a list" where
  "slice c i j = take (j - i) (drop i c)"

lemma slice_append: "i \<le> j \<Longrightarrow> j \<le> k \<Longrightarrow> slice c i j @ slice c j k = slice c i k"
proof -
  assume "i \<le> j" "j \<le> k"
  then have "take (k - i) (drop i c) = take (j - i) (drop i c) @ take (k - j) (drop (j - i) (drop i c))"
    by (metis (no_types, lifting) Nat.add_diff_assoc add.commute le_add_diff_inverse take_add)
  with \<open>i \<le> j\<close> show ?thesis
    by (simp add: slice_def)
qed

lemma slice_empty: "j \<le> i \<Longrightarrow> slice c i j = []"
  by (simp add: slice_def)

definition holds_slice :: "byte list \<Rightarrow> chunk \<Rightarrow> byte list \<Rightarrow> bool" where
  "holds_slice c ch d \<longleftrightarrow> d = slice c (unat (ch_start ch)) (unat (ch_start ch) + unat (ch_size ch))"

lemma chunk_response_slice:
  assumes "0 < unat (ch_size ch)" "unat (ch_start ch) + unat (ch_size ch) \<le> length c" "length c < 2 ^ 63"
    and "unat (ch_start ch) \<le> unat b" "unat b < length c" and "holds_slice c ch d"
  shows "chunk_response (a, b) ch d =
    slice c (max (unat a) (unat (ch_start ch))) (min (unat (ch_start ch) + unat (ch_size ch)) (unat b + 1))"
proof -
  let ?s = "unat (ch_start ch)" and ?n = "unat (ch_size ch)"
  have e: "unat (ch_start ch + ch_size ch) = ?s + ?n"
    using assms(2,3) by (simp add: unat_word_ariths)
  have "1 \<le> ch_start ch + ch_size ch"
    using e assms(1) by (simp add: word_le_nat_alt)
  then have e1: "unat (ch_start ch + ch_size ch - 1) = ?s + ?n - 1"
    using e by (simp add: unat_sub)
  have b: "unat (b - ch_start ch + 1) = unat b - ?s + 1"
  proof -
    have "unat (b - ch_start ch) = unat b - ?s"
      using assms(4) by (simp add: unat_sub word_le_nat_alt)
    then show ?thesis
      using assms(3,5) by (simp add: unat_word_ariths)
  qed
  have a: "ch_start ch < a \<Longrightarrow> unat (a - ch_start ch) = unat a - ?s"
    by (rule unat_sub) simp
  have part: "take k (drop m (slice c ?s (?s + ?n))) = slice c (?s + m) (min (?s + m + k) (?s + ?n))" for k m
    by (auto simp: slice_def drop_take min_def add.commute)
  define bb where "bb = (if ch_start ch < a then a - ch_start ch else 0)"
  define e where "e = (if ch_start ch + ch_size ch - 1 > b then b - ch_start ch + 1 else ch_size ch)"
  have bb: "unat bb = unat a - ?s"
    using a by (simp add: bb_def word_less_nat_alt)
  have ee: "unat e = min ?n (unat b - ?s + 1)"
    using b e1 assms(1,4) by (auto simp: e_def word_less_nat_alt min_def)
  show ?thesis
  proof (cases "ch_start ch < a \<or> ch_start ch + ch_size ch - 1 > b")
    case True
    have "chunk_response (a, b) ch d = take (unat e - unat bb) (drop (unat bb) d)"
      using True by (simp add: chunk_response_def partial_chunk_def Let_def bb_def e_def)
    also have "\<dots> = slice c (?s + unat bb) (min (?s + unat bb + (unat e - unat bb)) (?s + ?n))"
      using assms(6) part by (simp add: holds_slice_def)
    also have "\<dots> = slice c (max (unat a) ?s) (min (?s + ?n) (unat b + 1))"
    proof (cases "unat bb \<le> unat e")
      case True
      then have "?s + unat bb = max (unat a) ?s" "min (?s + unat bb + (unat e - unat bb)) (?s + ?n) = min (?s + ?n) (unat b + 1)"
        unfolding ee bb using assms(4) by linarith+
      then show ?thesis
        by simp
    next
      case False
      then show ?thesis
        unfolding ee bb using assms(4) by (subst (1 2) slice_empty) (linarith | simp)+
    qed
    finally show ?thesis .
  next
    case False
    then have "chunk_response (a, b) ch d = d" "unat a \<le> ?s" "?s + ?n \<le> unat b + 1"
      using e1 assms(1) by (auto simp: chunk_response_def word_less_nat_alt not_less)
    then show ?thesis
      using assms(6) by (simp add: holds_slice_def max_def min_def)
  qed
qed


text \<open>All chunks up to the one that holds the last byte.\<close>

lemma responses_up_to:
  assumes "tiled s (length c) v" "length c < 2 ^ 63" and "unat a \<le> unat b" "s \<le> unat b" "unat b < length c"
    and "\<forall>ch \<in> set v. holds_slice c ch (files (ch_file ch))"
  shows "\<exists>k < length v. unat (ch_start (v ! k)) \<le> unat b \<and> unat b < unat (ch_start (v ! k)) + unat (ch_size (v ! k))
    \<and> concat (map (\<lambda>ch. chunk_response (a, b) ch (files (ch_file ch))) (take (Suc k) v)) = slice c (max (unat a) s) (unat b + 1)"
  using assms
proof (induction s "length c" v rule: tiled.induct)
  case (2 s ch v)
  have ch: "unat (ch_start ch) = s" "0 < unat (ch_size ch)" "s + unat (ch_size ch) \<le> length c"
    "tiled (s + unat (ch_size ch)) (length c) v"
    using 2(2) by simp_all
  have r: "chunk_response (a, b) ch (files (ch_file ch)) =
      slice c (max (unat a) s) (min (s + unat (ch_size ch)) (unat b + 1))"
    using chunk_response_slice [of ch c b "files (ch_file ch)" a] 2(3,5,6,7) ch by simp
  show ?case
  proof (cases "unat b < s + unat (ch_size ch)")
    case True
    then show ?thesis
      using ch 2(5) r by (intro exI [of _ 0]) simp
  next
    case False
    obtain k where k: "k < length v" "unat (ch_start (v ! k)) \<le> unat b"
        "unat b < unat (ch_start (v ! k)) + unat (ch_size (v ! k))"
        "concat (map (\<lambda>ch. chunk_response (a, b) ch (files (ch_file ch))) (take (Suc k) v))
          = slice c (max (unat a) (s + unat (ch_size ch))) (unat b + 1)"
      using 2(1) [OF ch(4) 2(3,4) _ 2(6)] False 2(7) by auto
    have "slice c (max (unat a) s) (s + unat (ch_size ch)) @ slice c (max (unat a) (s + unat (ch_size ch))) (unat b + 1)
        = slice c (max (unat a) s) (unat b + 1)"
    proof (cases "unat a < s + unat (ch_size ch)")
      case True
      then show ?thesis
        using False slice_append [of "max (unat a) s" "s + unat (ch_size ch)" "unat b + 1" c] by (simp add: max_def)
    next
      case False
      then show ?thesis
        using ch(2) by (auto simp: slice_empty max_def)
    qed
    moreover have "min (s + unat (ch_size ch)) (unat b + 1) = s + unat (ch_size ch)"
      using False by simp
    ultimately show ?thesis
      using k r by (intro exI [of _ "Suc k"]) simp
  qed
qed simp

lemma response_before:
  assumes "tiled s (length c) v" "length c < 2 ^ 63" and "unat b < length c" "unat a \<le> unat b"
    and "\<forall>ch \<in> set v. holds_slice c ch (files (ch_file ch))"
    and "i < length v" "unat (ch_start (v ! i)) + unat (ch_size (v ! i)) \<le> unat a"
  shows "chunk_response (a, b) (v ! i) (files (ch_file (v ! i))) = []"
  using assms
proof (induction s "length c" v arbitrary: i rule: tiled.induct)
  case (2 s ch v)
  show ?case
  proof (cases i)
    case 0
    then show ?thesis
      using 2 chunk_response_slice [of ch c b "files (ch_file ch)" a] by (simp add: slice_empty)
  next
    case (Suc j)
    then show ?thesis
      using 2 by simp
  qed
qed simp

lemma tiled_ends:
  assumes "tiled s l v" "i < length v"
  shows "s \<le> unat (ch_start (v ! i))" "unat (ch_start (v ! i)) + unat (ch_size (v ! i)) \<le> l" "0 < unat (ch_size (v ! i))"
    "j < i \<Longrightarrow> unat (ch_start (v ! j)) + unat (ch_size (v ! j)) \<le> unat (ch_start (v ! i))"
proof -
  have "s \<le> unat (ch_start (v ! i)) \<and> unat (ch_start (v ! i)) + unat (ch_size (v ! i)) \<le> l \<and> 0 < unat (ch_size (v ! i))
    \<and> (\<forall>j < i. unat (ch_start (v ! j)) + unat (ch_size (v ! j)) \<le> unat (ch_start (v ! i)))"
    using assms
  proof (induction s l v arbitrary: i rule: tiled.induct)
    case (2 s l ch v)
    show ?case
    proof (cases i)
      case (Suc i')
      have IH: "s + unat (ch_size ch) \<le> unat (ch_start (v ! i'))" "unat (ch_start (v ! i')) + unat (ch_size (v ! i')) \<le> l"
        "0 < unat (ch_size (v ! i'))" "\<forall>j < i'. unat (ch_start (v ! j)) + unat (ch_size (v ! j)) \<le> unat (ch_start (v ! i'))"
        using 2 Suc by simp_all
      have "unat (ch_start ((ch # v) ! j)) + unat (ch_size ((ch # v) ! j)) \<le> unat (ch_start (v ! i'))" if "j < i" for j
        using IH(1,4) 2(2) Suc that by (cases j) simp_all
      then show ?thesis
        using IH Suc by simp
    qed (use 2 in auto)
  qed simp
  then show "s \<le> unat (ch_start (v ! i))" "unat (ch_start (v ! i)) + unat (ch_size (v ! i)) \<le> l" "0 < unat (ch_size (v ! i))"
    "j < i \<Longrightarrow> unat (ch_start (v ! j)) + unat (ch_size (v ! j)) \<le> unat (ch_start (v ! i))"
    by simp_all
qed


lemma unat_eq_iff: "unat x = unat y \<longleftrightarrow> x = (y :: 'a :: len word)"
  using unsigned_word_eqI [of x y] by auto

lemma tiled_length: "tiled s l v \<Longrightarrow> s + length v \<le> l"
  by (induction s l v rule: tiled.induct) auto

definition pick :: "(chunk \<Rightarrow> bool) \<Rightarrow> (nat \<Rightarrow> u64) \<Rightarrow> nat \<times> chunk \<Rightarrow> u64 \<Rightarrow> u64" where
  "pick P f = (\<lambda>(i, c) x. if P c then f i else x)"

lemma pick_apply [simp]: "pick P f (i, c) x = (if P c then f i else x)"
  by (simp add: pick_def)

lemma zip_upt_Cons: "zip [m..<m + length (c # v)] (c # v) = (m, c) # zip [Suc m..<Suc m + length v] v"
proof -
  have "[m..<m + length (c # v)] = m # [Suc m..<Suc m + length v]"
    using upt_conv_Cons [of m "m + length (c # v)"] by simp
  then show ?thesis
    by simp
qed

lemma fold_pick_none:
  "(\<forall>c \<in> set v. \<not> P c) \<Longrightarrow> fold (pick P f) (zip [m..<m + length v] v) x = x"
proof (induction v arbitrary: m x)
  case (Cons c v)
  then have "fold (pick P f) (zip [Suc m..<Suc m + length v] v) x = x"
    by (intro Cons.IH) simp
  with Cons.prems show ?case
    unfolding zip_upt_Cons by simp
qed simp

lemma fold_pick_last:
  "k < length v \<Longrightarrow> P (v ! k) \<Longrightarrow> (\<forall>j < length v. k < j \<longrightarrow> \<not> P (v ! j)) \<Longrightarrow>
   fold (pick P f) (zip [m..<m + length v] v) x = f (m + k)"
proof (induction v arbitrary: m x k)
  case (Cons c v)
  show ?case
  proof (cases k)
    case 0
    then have "\<forall>d \<in> set v. \<not> P d"
      using Cons.prems(3) by (fastforce simp: in_set_conv_nth)
    from fold_pick_none [OF this, of f "Suc m"] show ?thesis
      using Cons.prems(2) 0 unfolding zip_upt_Cons by simp
  next
    case (Suc k')
    have "k' < length v" "P (v ! k')" "\<forall>j < length v. k' < j \<longrightarrow> \<not> P (v ! j)"
      using Cons.prems Suc by auto
    from Cons.IH [OF this, of "Suc m"] show ?thesis
      using Suc unfolding zip_upt_Cons by simp
  qed
qed simp

definition inside :: "u64 \<Rightarrow> chunk \<Rightarrow> bool" where
  "inside x c \<longleftrightarrow> ch_start c < x \<and> x < ch_start c + ch_size c"

lemma calculate_chunks_pick:
  "calculate_chunks v (a, b) (0, 0) =
     (fold (pick (inside a) of_nat) (zip [0..<length v] v) 0, fold (pick (inside b) (\<lambda>i. of_nat i + 1)) (zip [0..<length v] v) 0)"
proof -
  have "fold (range_step (a, b)) xs (x, y) = (fold (pick (inside a) of_nat) xs x, fold (pick (inside b) (\<lambda>i. of_nat i + 1)) xs y)" for xs x y
    by (induction xs arbitrary: x y) (auto simp: range_step_def pick_def inside_def)
  then show ?thesis
    by (simp add: calculate_chunks_def)
qed

lemma inside_nat:
  assumes "tiled s l v" "l < 2 ^ 63" "ch \<in> set v"
  shows "inside x ch \<longleftrightarrow> unat (ch_start ch) < unat x \<and> unat x < unat (ch_start ch) + unat (ch_size ch)"
proof -
  obtain i where "i < length v" "v ! i = ch"
    using assms(3) by (auto simp: in_set_conv_nth)
  then have "unat (ch_start ch) + unat (ch_size ch) \<le> l"
    using tiled_ends(2) [OF assms(1)] by blast
  then show ?thesis
    using assms(2) by (simp add: inside_def word_less_nat_alt unat_word_ariths)
qed

lemma inside_unique:
  assumes "tiled s l v" "l < 2 ^ 63" "k < length v"
    and "unat (ch_start (v ! k)) \<le> unat x" "unat x < unat (ch_start (v ! k)) + unat (ch_size (v ! k))"
  shows "j < length v \<Longrightarrow> inside x (v ! j) \<Longrightarrow> j = k" and "inside x (v ! k) \<longleftrightarrow> unat (ch_start (v ! k)) \<noteq> unat x"
proof -
  show "inside x (v ! k) \<longleftrightarrow> unat (ch_start (v ! k)) \<noteq> unat x"
    unfolding inside_nat [OF assms(1,2) nth_mem [OF assms(3)]] using assms(4,5) by linarith
  assume j: "j < length v" "inside x (v ! j)"
  then have x: "unat (ch_start (v ! j)) < unat x" "unat x < unat (ch_start (v ! j)) + unat (ch_size (v ! j))"
    unfolding inside_nat [OF assms(1,2) nth_mem [OF j(1)]] by simp_all
  have "\<not> j < k"
    using tiled_ends(4) [OF assms(1,3), of j] x assms(4) by linarith
  moreover have "\<not> k < j"
    using tiled_ends(4) [OF assms(1) j(1), of k] x assms(5) by linarith
  ultimately show "j = k"
    by simp
qed

text \<open>The index a fold over the chunks finds for the position \<open>x\<close>, and the value it keeps at a boundary.\<close>

lemma fold_pick_inside:
  assumes "tiled s l v" "l < 2 ^ 63" "k < length v"
    and "unat (ch_start (v ! k)) \<le> unat x" "unat x < unat (ch_start (v ! k)) + unat (ch_size (v ! k))"
  shows "fold (pick (inside x) f) (zip [0..<length v] v) y = (if unat (ch_start (v ! k)) = unat x then y else f k)"
proof (cases "unat (ch_start (v ! k)) = unat x")
  case True
  then have "\<forall>c \<in> set v. \<not> inside x c"
    using inside_unique [OF assms] by (metis in_set_conv_nth)
  from fold_pick_none [OF this, of f 0] True show ?thesis
    by simp
next
  case False
  then have "inside x (v ! k)"
    using inside_unique(2) [OF assms] by simp
  moreover have "\<forall>j < length v. k < j \<longrightarrow> \<not> inside x (v ! j)"
    using inside_unique(1) [OF assms] by blast
  ultimately show ?thesis
    using fold_pick_last [OF assms(3), of "inside x" f 0 y] False by simp
qed

lemma available_chunks_all:
  "\<forall>ch \<in> set v. ch_available ch \<Longrightarrow> unat lst \<le> length v \<Longrightarrow>
   available_chunks r v files cur lst =
     (map (\<lambda>ch. chunk_response r ch (files (ch_file ch))) (take (unat lst - unat cur) (drop (unat cur) v)), max cur lst)"
proof (induction r v files cur lst rule: available_chunks.induct)
  case (1 r v files cur lst)
  show ?case
  proof (cases "cur < lst")
    case True
    then have less: "unat cur < unat lst"
      by (simp add: word_less_nat_alt)
    moreover have "unat lst < 2 ^ 64"
      using unsigned_less [of lst] by simp
    ultimately have inc: "unat (cur + 1) = Suc (unat cur)"
      by (simp add: unat_word_ariths)
    have av: "ch_available (v ! unat cur)"
      using 1(2,3) less by simp
    have "take (unat lst - unat cur) (drop (unat cur) v) = v ! unat cur # take (unat lst - Suc (unat cur)) (drop (Suc (unat cur)) v)"
    proof -
      have "drop (unat cur) v = v ! unat cur # drop (Suc (unat cur)) v"
        using less 1(3) by (intro Cons_nth_drop_Suc [symmetric]) simp
      moreover have "unat lst - unat cur = Suc (unat lst - Suc (unat cur))"
        using less by simp
      ultimately show ?thesis
        by simp
    qed
    moreover have "max (cur + 1) lst = max cur lst"
      using True inc less by (simp add: max_def word_le_nat_alt not_le word_less_nat_alt)
    moreover have "available_chunks r v files (cur + 1) lst =
        (map (\<lambda>ch. chunk_response r ch (files (ch_file ch))) (take (unat lst - unat (cur + 1)) (drop (unat (cur + 1)) v)), max (cur + 1) lst)"
      by (rule 1(1) [OF _ 1(2,3)]) (simp add: True av)
    ultimately show ?thesis
      using True av inc by (subst available_chunks.simps) simp
  next
    case False
    then show ?thesis
      by (subst available_chunks.simps) (auto simp: max_def word_less_nat_alt not_less word_le_nat_alt unat_eq_iff)
  qed
qed


text \<open>The chunk that holds a position of the file.\<close>

lemma chunk_of_position:
  assumes "tiled 0 (length c) v" "length c < 2 ^ 63" "unat x < length c" "\<forall>ch \<in> set v. holds_slice c ch (files (ch_file ch))"
    and "unat a \<le> unat x"
  obtains k where "k < length v" "unat (ch_start (v ! k)) \<le> unat x" "unat x < unat (ch_start (v ! k)) + unat (ch_size (v ! k))"
    "concat (map (\<lambda>ch. chunk_response (a, x) ch (files (ch_file ch))) (take (Suc k) v)) = slice c (unat a) (unat x + 1)"
  using responses_up_to [OF assms(1,2,5) _ assms(3,4)] by auto

lemma starts_a_chunk:
  assumes v: "tiled 0 l v" and k: "k < length v" "unat (ch_start (v ! k)) \<le> unat b" "unat b < unat (ch_start (v ! k)) + unat (ch_size (v ! k))"
  shows "(\<exists>ch \<in> set v. ch_start ch = b) \<longleftrightarrow> ch_start (v ! k) = b"
proof
  assume "\<exists>ch \<in> set v. ch_start ch = b"
  then obtain j where j: "j < length v" "ch_start (v ! j) = b"
    by (auto simp: in_set_conv_nth)
  then have jb: "unat (ch_start (v ! j)) = unat b"
    by simp
  have "\<not> j < k"
    using tiled_ends(4) [OF v k(1), of j] tiled_ends(3) [OF v j(1)] jb k(2) by linarith
  moreover have "\<not> k < j"
    using tiled_ends(4) [OF v j(1), of k] jb k(3) by linarith
  ultimately show "ch_start (v ! k) = b"
    using j(2) by (cases j k rule: linorder_cases) auto
qed (use k(1) in auto)

text \<open>Chunks before the one that holds \<open>a\<close> contribute nothing.\<close>

lemma responses_before:
  assumes v: "tiled 0 (length c) v" "length c < 2 ^ 63" "\<forall>ch \<in> set v. holds_slice c ch (files (ch_file ch))"
    and ab: "unat a \<le> unat b" "unat b < length c" and k: "k < length v" "unat (ch_start (v ! k)) \<le> unat a" and m: "m \<le> k"
  shows "concat (map (\<lambda>ch. chunk_response (a, b) ch (files (ch_file ch))) (take m v)) = []"
proof -
  have "chunk_response (a, b) (v ! i) (files (ch_file (v ! i))) = []" if "i < m" for i
  proof -
    have i: "i < k"
      using m that by simp
    then show ?thesis
      using response_before [OF v(1,2) ab(2,1) v(3), of i] tiled_ends(4) [OF v(1) k(1) i] k by simp
  qed
  then show ?thesis
    using m k(1) by (auto simp: in_set_conv_nth)
qed

text \<open>
  C33: A request for the bytes from \<open>a\<close> to \<open>b\<close> of a media file whose chunks are all there is answered with
  exactly these bytes, unless the last byte asked for is the first byte of a chunk: then nothing is sent.
\<close>

theorem stream_sends_range:
  assumes v: "tiled 0 (length c) v" "length c < 2 ^ 63" "\<forall>ch \<in> set v. ch_available ch \<and> holds_slice c ch (files (ch_file ch))"
    and ab: "unat a \<le> unat b" "unat b < length c"
    and run: "available_chunks (a, b) v files (fst (calculate_chunks v (a, b) (0, 0))) (snd (calculate_chunks v (a, b) (0, 0))) = (ds, cur)"
  shows "if \<exists>ch \<in> set v. ch_start ch = b then ds = []
    else concat ds = take (unat b - unat a + 1) (drop (unat a) c)"
proof -
  let ?resp = "\<lambda>xs. concat (map (\<lambda>ch. chunk_response (a, b) ch (files (ch_file ch))) xs)"
  have slices: "\<forall>ch \<in> set v. holds_slice c ch (files (ch_file ch))" and a: "unat a < length c"
    using v(3) ab by auto
  obtain kb where kb: "kb < length v" "unat (ch_start (v ! kb)) \<le> unat b" "unat b < unat (ch_start (v ! kb)) + unat (ch_size (v ! kb))"
    and all: "?resp (take (Suc kb) v) = slice c (unat a) (unat b + 1)"
    by (rule chunk_of_position [OF v(1,2) ab(2) slices ab(1)])
  obtain ka where ka: "ka < length v" "unat (ch_start (v ! ka)) \<le> unat a" "unat a < unat (ch_start (v ! ka)) + unat (ch_size (v ! ka))"
    by (rule chunk_of_position [OF v(1,2) a slices order_refl])
  have lst: "snd (calculate_chunks v (a, b) (0, 0)) = (if ch_start (v ! kb) = b then 0 else of_nat kb + 1)"
    and cur: "fst (calculate_chunks v (a, b) (0, 0)) = (if ch_start (v ! ka) = a then 0 else of_nat ka)"
    using fold_pick_inside [OF v(1,2) kb] fold_pick_inside [OF v(1,2) ka] by (simp_all add: calculate_chunks_pick unat_eq_iff)
  note start = starts_a_chunk [OF v(1) kb]
  show ?thesis
  proof (cases "ch_start (v ! kb) = b")
    case True
    then show ?thesis
      using run start lst by (subst (asm) available_chunks.simps) auto
  next
    case False
    define m where "m = unat (fst (calculate_chunks v (a, b) (0, 0)))"
    have small: "length v < 2 ^ 63"
      using tiled_length [OF v(1)] v(2) by simp
    then have l: "unat (snd (calculate_chunks v (a, b) (0, 0))) = Suc kb" and m: "m \<le> ka"
      using False kb(1) ka(1) by (auto simp: lst m_def cur unat_word_ariths unat_of_nat take_bit_nat_eq_self)
    moreover have "ka \<le> kb"
      using tiled_ends(4) [OF v(1) ka(1), of kb] ka(2) kb(3) ab(1) by (cases "kb < ka") auto
    ultimately have tk: "take (Suc kb) v = take m v @ take (Suc kb - m) (drop m v)"
      by (metis le_SucI le_trans le_add_diff_inverse take_add)
    have "ds = map (\<lambda>ch. chunk_response (a, b) ch (files (ch_file ch))) (take (Suc kb - m) (drop m v))"
      using available_chunks_all [of v "snd (calculate_chunks v (a, b) (0, 0))" "(a, b)" files] v(3) l kb(1) run
      by (simp add: m_def)
    then have "concat ds = slice c (unat a) (unat b + 1)"
      using all responses_before [OF v(1,2) slices ab ka(1,2) m] unfolding tk map_append concat_append by simp
    then show ?thesis
      using False start ab(1) by (simp add: slice_def Suc_diff_le)
  qed
qed

text \<open>A file of two pieces, given back in the wrong order.\<close>

theorem pieces_reassemble_witness:
  "fold (transfer_piece (replicate 7000001 5))
      (map snd (rev (snd (generate_pieces_json poco_ref of_nat 0 7000001)))) (prepare_file 7000001) = replicate 7000001 5"
  using pieces_reassemble [of poco_ref of_nat 0 "replicate 7000001 5" "snd (generate_pieces_json poco_ref of_nat 0 7000001)"
      "rev (snd (generate_pieces_json poco_ref of_nat 0 7000001))"] poco_ref_ok
  by (simp add: max_chunk_size_def inj_on_def unat_eq_iff [symmetric] unat_of_nat take_bit_nat_eq_self del: unat_eq_iff)

theorem big_files_are_lost_witness:
  "fold (transfer_piece (replicate (2 ^ 32 + 14000000) 1))
      (map snd (snd (generate_pieces_json poco_ref of_nat 0 (2 ^ 32 + 14000000)))) (prepare_file (2 ^ 32 + 14000000))
     ! (2 ^ 32 + 7000000) = 0"
proof -
  have "inj_on (of_nat :: nat \<Rightarrow> uuid) {0..0 + length (replicate (2 ^ 32 + 14000000) (1 :: byte))}"
    by (rule inj_onI) (simp add: unat_eq_iff [symmetric] unat_of_nat take_bit_nat_eq_self)
  from big_files_are_lost [OF poco_ref_ok this _ _ refl refl, of "2 ^ 32 + 7000000"] show ?thesis
    unfolding length_replicate by (simp add: max_chunk_size_def)
qed

text \<open>Two chunks of three bytes: the bytes 1 to 4 are sent, and nothing for 1 to 3.\<close>

definition ex_chunk :: "u64 \<Rightarrow> string \<Rightarrow> chunk" where
  "ex_chunk start f = \<lparr>ch_requested = True, ch_available = True, ch_start = start, ch_size = 3, ch_uuid = 0, ch_file = f\<rparr>"

definition ex_files :: "string \<Rightarrow> byte list" where
  "ex_files f = (if f = ''a'' then [10, 11, 12] else [13, 14, 15])"

theorem stream_sends_range_witness:
  "concat (fst (available_chunks (1, 4) [ex_chunk 0 ''a'', ex_chunk 3 ''b''] ex_files 0 2)) = [11, 12, 13, 14]
   \<and> fst (available_chunks (1, 3) [ex_chunk 0 ''a'', ex_chunk 3 ''b''] ex_files 0 0) = []"
proof -
  let ?v = "[ex_chunk 0 ''a'', ex_chunk 3 ''b'']" and ?c = "[10, 11, 12, 13, 14, 15] :: byte list"
  have v: "tiled 0 (length ?c) ?v" "length ?c < 2 ^ 63" "\<forall>ch \<in> set ?v. ch_available ch \<and> holds_slice ?c ch (ex_files (ch_file ch))"
    by (simp_all add: ex_chunk_def holds_slice_def slice_def ex_files_def)
  have r14: "available_chunks (1, 4) ?v ex_files (fst (calculate_chunks ?v (1, 4) (0, 0))) (snd (calculate_chunks ?v (1, 4) (0, 0)))
      = (fst (available_chunks (1, 4) ?v ex_files 0 2), snd (available_chunks (1, 4) ?v ex_files 0 2))"
    and r13: "available_chunks (1, 3) ?v ex_files (fst (calculate_chunks ?v (1, 3) (0, 0))) (snd (calculate_chunks ?v (1, 3) (0, 0)))
      = (fst (available_chunks (1, 3) ?v ex_files 0 0), snd (available_chunks (1, 3) ?v ex_files 0 0))"
    by (simp_all add: calculate_chunks_def range_step_def ex_chunk_def)
  have starts: "\<not> (\<exists>ch \<in> set ?v. ch_start ch = 4)" "\<exists>ch \<in> set ?v. ch_start ch = 3"
    by (simp_all add: ex_chunk_def)
  show ?thesis
    using stream_sends_range [OF v _ _ r14] stream_sends_range [OF v _ _ r13]
    unfolding if_not_P [OF starts(1)] if_P [OF starts(2)] by simp
qed

end
