(* ===== verification/Kernel_Files_Props.thy ===== *)
theory Kernel_Files_Props
  imports Kernel_Props Kernel_Pieces_Props
begin

text \<open>
  Properties of saving and getting a file: what the kernel sends to the storage for it, and what it writes and answers
  when the object or its pieces come back.
\<close>

section \<open>The master object of a small file\<close>

text \<open>The data of a save request: its file, or its payload.\<close>

definition content_of :: "request \<Rightarrow> kernel \<Rightarrow> byte list option" where
  "content_of q s = (if rq_file_path q \<noteq> [] then k_files s (rq_file_path q) else mem_read (p_message (rq_data q)) 0 (unat (p_size (rq_data q))))"

definition small_object :: "klib \<Rightarrow> request \<Rightarrow> byte list \<Rightarrow> jobj" where
  "small_object L q c = obj_set ''pieces'' (J_obj []) (obj_set ''content'' (J_str (kl_b64_encode L c))
     (create_master_json_template q (length c) (rq_content_type q)))"

lemma content_run:
  assumes "content_of q s = Some c" "length c \<le> max_chunk_size"
  shows "get_data_size_from_request_object q k s = k (length c) s"
    "\<exists>p. (\<forall>h. get_piece_data_for_save q 0 (length c) h s = h p s) \<and> p_message p \<noteq> None \<and> mem_read (p_message p) 0 (unat (p_size p)) = Some c"
proof -
  have n: "unat (of_nat (length c) :: ID32) = length c" "length c < 2 ^ 32"
    using assms(2) by (simp_all add: max_chunk_size_def unat_of_nat take_bit_nat_eq_self)
  show "get_data_size_from_request_object q k s = k (length c) s"
    using assms(1) by (auto simp: content_of_def get_data_size_from_request_object_def action_defs mem_read_def split: if_splits option.splits)
  have "\<exists>p. (\<forall>h. get_piece_data_for_save q 0 (length c) h s = h p s) \<and> p_message p \<noteq> None \<and> mem_read (p_message p) 0 (unat (p_size p)) = Some c"
  proof (cases "rq_file_path q = []")
    case True
    then obtain bs where bs: "p_message (rq_data q) = Some bs" "mem_read (Some bs) 0 (length c) = Some c"
      using assms(1) by (auto simp: content_of_def mem_read_def split: if_splits option.splits)
    let ?p = "default_package\<lparr>p_size := of_nat (length c), p_message := Some (c @ [0])\<rparr>"
    have "get_piece_data_for_save q 0 (length c) h s = h ?p s" for h
      using True bs n by (simp add: get_piece_data_for_save_def action_defs bytes_package_def set_payload_string_def resize_def Let_def)
    moreover have "mem_read (p_message ?p) 0 (unat (p_size ?p)) = Some c"
      using n by (simp add: mem_read_def)
    ultimately show ?thesis by (intro exI [of _ ?p]) simp
  next
    case False
    let ?p = "default_package\<lparr>p_size := of_nat (length c), p_message := Some c\<rparr>"
    have "get_piece_data_for_save q 0 (length c) h s = h ?p s" for h
      using False assms(1) by (simp add: get_piece_data_for_save_def action_defs content_of_def read_piece_def)
    moreover have "mem_read (p_message ?p) 0 (unat (p_size ?p)) = Some c"
      using n by (simp add: mem_read_def)
    ultimately show ?thesis by (intro exI [of _ ?p]) simp
  qed
  then show "\<exists>p. (\<forall>h. get_piece_data_for_save q 0 (length c) h s = h p s) \<and> p_message p \<noteq> None \<and> mem_read (p_message p) 0 (unat (p_size p)) = Some c" .
qed

text \<open>What the writing storage gets for the text \<open>t\<close> of an object.\<close>

definition object_package :: "kernel \<Rightarrow> uuid \<Rightarrow> string \<Rightarrow> kernel_storage_package" where
  "object_package s u t = (set_payload (text_pkg t) ((slot (k_storage_writer_tx s))\<lparr>ks_request_id := k_request_counter s, ks_cmd := cmd_save_data,
     ks_uuid := u\<rparr>))\<lparr>ks_should_send_response := True\<rparr>"

lemma object_package_fields [simp]:
  "ks_cmd (object_package s u t) = cmd_save_data" "ks_uuid (object_package s u t) = u" "ks_should_send_response (object_package s u t)"
  "p_size (object_package s u t) = of_nat (length t)" "p_message (object_package s u t) = Some (bytes_of t @ [0])"
  by (simp_all add: object_package_def set_payload_def text_pkg_def)

lemma small_save_run:
  assumes "k_requests s i = Some q" "rq_request_id q = i" "rq_master_json q = Some []" "\<not> rq_enc q" "rq_local q"
    and "content_of q s = Some c" "length c \<le> max_chunk_size" "t = kl_print (k_lib s) (small_object (k_lib s) q c)" "length t < 2 ^ 32"
    and "k_requests s (k_request_counter s) = None" "fifo_ok (k_storage_writer_tx s)"
  shows "\<exists>s1. start_master_object_save i s = Returns s1
    \<and> pending (k_storage_writer_tx s1) = pending (k_storage_writer_tx s) @ [object_package s (rq_uuid q) t]"
proof -
  let ?m = "obj_set ''content'' (J_str (kl_b64_encode (k_lib s) c)) (create_master_json_template q (length c) (rq_content_type q))"
  obtain p bs where p: "get_piece_data_for_save q 0 (length c) h s = h p s" "p_message p = Some bs" "mem_read (Some bs) 0 (unat (p_size p)) = Some c" for h
    using content_run(2) [OF assms(6,7)] by fastforce
  have "start_master_object_save i s = json_package (obj_set ''pieces'' (J_obj []) ?m) (save_master_object i) s"
    using assms(1,3,4,7)
    by (simp add: start_master_object_save_def with_req_def content_run(1) [OF assms(6,7)] p(1) p(2,3) Let_def need_def must_def look_def)
  also have "\<dots> = save_master_object i (text_pkg t) s"
    using assms(8,9) by (simp add: json_package_def look_def text_package_run small_object_def)
  finally show ?thesis
    using assms
    by (simp add: save_master_object_def with_req_def prepare_unit_for_save_def kernel_get_request_id_def Let_def has_req_def upd_def only_if_def
        upd_req_def skip_def post_storage_save_request_def post_writer_def object_package_def sliced_def)
qed

section \<open>The answer to a get\<close>

definition file_answer :: "request \<Rightarrow> ID32 \<Rightarrow> ims_kernel_package" where
  "file_answer q i = ims_kernel_package0\<lparr>im_uuid := rq_uuid q, im_file_path := rq_file_path q, im_response_file_path := rq_response_file_path q,
     im_content_type := rq_content_type q, im_cmd := cmd_get_data, im_request_id := i\<rparr>"

lemma waiting_ids_cong: "k_ims_req_ids s = k_ims_req_ids t \<Longrightarrow> waiting_ids s bs = waiting_ids t bs"
  by (simp add: waiting_ids_def ims_id_def)

lemma requested_data_run:
  assumes "k_requests s r = Some q" "rq_cmd q = cmd_get" "k_pending_ims_get_requests s (rq_uuid q) = Some bs" "distinct bs" "fifo_ok (k_ims_tx s)"
  shows "\<exists>s'. send_ims_requested_data r s = Returns s' \<and> fifo_ok (k_ims_tx s') \<and> k_files s' = k_files s
    \<and> pending (k_ims_tx s') = pending (k_ims_tx s) @ map (file_answer q) (waiting_ids s bs)
    \<and> (\<forall>b. k_requests s' b = (if b \<in> set bs \<and> ims_id b s \<noteq> None then None else k_requests s b))
    \<and> k_pending_ims_get_requests s' = (k_pending_ims_get_requests s)(rq_uuid q := None)"
  using send_ims_response_run [of s "ims_kernel_package0\<lparr>im_uuid := rq_uuid q, im_file_path := rq_file_path q,
       im_response_file_path := rq_response_file_path q, im_content_type := rq_content_type q, im_cmd := cmd_get_data\<rparr>" bs] assms
  by (fastforce simp: send_ims_requested_data_def with_req_def check_def file_answer_def [abs_def])

text \<open>A request that waits for a public object: no entry of the user's document names it.\<close>

definition asks_for :: "kernel \<Rightarrow> ID32 \<Rightarrow> request \<Rightarrow> ID32 list \<Rightarrow> bool" where
  "asks_for s r q bs \<longleftrightarrow> k_requests s r = Some q \<and> rq_request_id q = r \<and> rq_typ q = T_ims \<and> rq_cmd q = cmd_get
     \<and> rq_aes_key q = [] \<and> rq_aes_iv q = [] \<and> k_pending_ims_get_requests s (rq_uuid q) = Some bs \<and> distinct bs \<and> fifo_ok (k_ims_tx s)
     \<and> (\<exists>j own. k_user_json s = Some j \<and> get_object ''owned_data'' j = Some own \<and> get_object (uuid_text (rq_uuid q) s) own = None)"

text \<open>The object \<open>m\<close> holds the content of a file that is no media stream.\<close>

definition inline_object :: "klib \<Rightarrow> jobj \<Rightarrow> string \<Rightarrow> byte list \<Rightarrow> bool" where
  "inline_object L m ct c \<longleftrightarrow> is_valid_master_node m \<and> get_text L ''content_type'' m = Some ct \<and> take 5 ct \<notin> {''video'', ''audio''}
     \<and> get_object ''pieces'' m = Some [] \<and> obj_has ''content'' m \<and> map_option (kl_b64_decode L) (get_text L ''content'' m) = Some c"

lemma small_get_run:
  assumes asks: "asks_for s r q bs" and m: "inline_object (k_lib s) m ct c" "kl_parse (k_lib s) t = Some m"
    and msg: "p_message d = Some (bytes_of t @ [0])" "CHR 0x00 \<notin> set t"
    and f: "f = k_tmp_names s (k_tmp_count s)"
  shows "\<exists>s'. got_master_object d r s = Returns s' \<and> k_files s' = (k_files s)(f \<mapsto> c)
    \<and> pending (k_ims_tx s') = pending (k_ims_tx s) @ map (file_answer (q\<lparr>rq_file_path := f, rq_response_file_path := Some f, rq_content_type := ct\<rparr>)) (waiting_ids s bs)
    \<and> k_pending_ims_get_requests s' = (k_pending_ims_get_requests s)(rq_uuid q := None)"
proof -
  define q' where "q' = q\<lparr>rq_content_type := ct, rq_master_json := Some m, rq_response_file_path := Some f, rq_file_path := f\<rparr>"
  define u where "u = s\<lparr>k_tmp_count := Suc (k_tmp_count s), k_requests := (k_requests s)(r \<mapsto> q'), k_files := (k_files s)(f \<mapsto> c)\<rparr>"
  obtain b where b: "get_text (k_lib s) ''content'' m = Some b" "kl_b64_decode (k_lib s) b = c"
    using m(1) by (auto simp: inline_object_def)
  have u: "k_requests u r = Some q'" "rq_cmd q' = cmd_get" "k_pending_ims_get_requests u (rq_uuid q') = Some bs" "distinct bs" "fifo_ok (k_ims_tx u)"
    using asks by (simp_all add: u_def q'_def asks_for_def)
  from requested_data_run [OF u] obtain s' where s': "send_ims_requested_data r u = Returns s'" "k_files s' = k_files u"
    "pending (k_ims_tx s') = pending (k_ims_tx u) @ map (file_answer q') (waiting_ids u bs)"
    "k_pending_ims_get_requests s' = (k_pending_ims_get_requests u)(rq_uuid q' := None)"
    by blast
  have "start_getting_pieces r (s\<lparr>k_requests := (k_requests s)(r \<mapsto> q\<lparr>rq_content_type := ct, rq_master_json := Some m\<rparr>)\<rparr>) = Returns s'"
    using m(1) b s'(1) by (simp add: start_getting_pieces_def with_req_def action_defs inline_object_def is_valid_master_node_def temporary_file_def
        upd_req_def prepare_file_write_def write_file_def f u_def q'_def)
  then have "got_master_object d r s = Returns s'"
    using asks m msg
    by (auto simp: got_master_object_def with_req_def action_defs asks_for_def get_master_info_from_user_json_def with_owned_def
        handle_unencrypted_master_object_def catching_poco_def parse_master_object_def has_message_def c_message_def c_str_bytes_of
        inline_object_def upd_req_def process_unencrypted_master_json_def handle_decrypted_master_node_for_get_def is_streaming_media_def)
  moreover have "waiting_ids u bs = waiting_ids s bs"
    by (rule waiting_ids_cong) (simp add: u_def)
  moreover have "file_answer q' = file_answer (q\<lparr>rq_file_path := f, rq_response_file_path := Some f, rq_content_type := ct\<rparr>)"
    by (simp add: file_answer_def [abs_def] q'_def)
  ultimately show ?thesis
    using s'(2-4) by (intro exI [of _ s']) (simp add: u_def q'_def)
qed

lemma small_object_inline:
  assumes "kl_b64_decode L (kl_b64_encode L c) = c" "take 5 (rq_content_type q) \<notin> {''video'', ''audio''}"
  shows "inline_object L (small_object L q c) (rq_content_type q) c"
  using assms by (simp add: inline_object_def small_object_def is_valid_master_node_def obj_has_def get_text_def get_object_def
      create_master_json_template_def to_text_def)

end
