(* ===== verification/Kernel_Get_Props.thy ===== *)
theory Kernel_Get_Props
  imports Kernel_Files_Props
begin

text \<open>
  Getting a big file: the pieces come in some order, two of them on their way at any time, each is written to its
  place, and the answer goes out with the last one.
\<close>

section \<open>One piece\<close>

definition pieces_of :: "jobj \<Rightarrow> jobj" where
  "pieces_of m = (case get_object ''pieces'' m of None \<Rightarrow> [] | Some ps \<Rightarrow> ps)"

definition without_piece :: "string \<Rightarrow> jobj \<Rightarrow> jobj" where
  "without_piece n m = obj_set ''pieces'' (J_obj (obj_remove n (pieces_of m))) m"

definition piece_start :: "klib \<Rightarrow> jobj \<Rightarrow> string \<Rightarrow> nat option" where
  "piece_start L m n = (case get_object n (pieces_of m) of None \<Rightarrow> None
     | Some o1 \<Rightarrow> if obj_has ''from'' o1 \<and> obj_has ''size'' o1 then get_unsigned L 64 ''from'' o1 else None)"

lemma pieces_of_without [simp]: "pieces_of (without_piece n m) = obj_remove n (pieces_of m)"
  by (simp add: pieces_of_def without_piece_def get_object_def)

lemma piece_start_without [simp]: "piece_start L (without_piece n m) k = (if k = n then None else piece_start L m k)"
  by (simp add: piece_start_def get_object_def)

text \<open>The state when the piece of request \<open>i\<close> is written, before the answer.\<close>

definition ask_next :: "ID32 list \<Rightarrow> kernel \<Rightarrow> kernel" where
  "ask_next us s = (case us of [] \<Rightarrow> s
     | x # _ \<Rightarrow> s\<lparr>k_storage_tx := commit kernel_storage_package0 (set_slot (\<lambda>out. out\<lparr>ks_request_id := x,
         ks_uuid := (case k_requests s x of None \<Rightarrow> 0 | Some y \<Rightarrow> rq_uuid y), ks_check_cache := True, ks_cmd := cmd_look_up\<rparr>) (k_storage_tx s))\<rparr>)"

definition piece_written :: "ID32 \<Rightarrow> request \<Rightarrow> jobj \<Rightarrow> string \<Rightarrow> nat \<Rightarrow> byte list \<Rightarrow> byte list \<Rightarrow> kernel \<Rightarrow> kernel" where
  "piece_written r q m n a bs F s = (ask_next (rq_units q) s)\<lparr>
     k_files := (k_files s)(rq_file_path q \<mapsto> file_write_at a bs F),
     k_requests := (k_requests s)(r \<mapsto> q\<lparr>rq_units := tl (rq_units q), rq_master_json := Some (without_piece n m)\<rparr>)\<rparr>"

text \<open>Request \<open>i\<close> is for a piece of what \<open>r\<close> gets; \<open>r\<close> is in the middle of writing its file \<open>F\<close>.\<close>

definition gets_piece :: "kernel \<Rightarrow> ID32 \<Rightarrow> ID32 \<Rightarrow> uuid \<Rightarrow> bool" where
  "gets_piece s r i u \<longleftrightarrow> (\<exists>p. k_requests s i = Some p \<and> rq_typ p = T_kernel \<and> rq_cmd p = cmd_get \<and> rq_parent_req_id p = r
     \<and> rq_request_id p = i \<and> rq_aes_key p = [] \<and> rq_aes_iv p = [] \<and> rq_uuid p = u)"

definition gets_file :: "kernel \<Rightarrow> ID32 \<Rightarrow> request \<Rightarrow> jobj \<Rightarrow> byte list \<Rightarrow> bool" where
  "gets_file s r q m F \<longleftrightarrow> k_requests s r = Some q \<and> rq_typ q = T_ims \<and> rq_cmd q = cmd_get \<and> \<not> is_streaming_media q
     \<and> rq_master_json q = Some m \<and> get_object ''pieces'' m = Some (pieces_of m) \<and> k_files s (rq_file_path q) = Some F"

lemma ask_next_fields [simp]:
  "k_requests (ask_next us s) = k_requests s" "k_files (ask_next us s) = k_files s" "k_lib (ask_next us s) = k_lib s"
  "k_ims_tx (ask_next us s) = k_ims_tx s" "k_ims_req_ids (ask_next us s) = k_ims_req_ids s"
  "k_pending_ims_get_requests (ask_next us s) = k_pending_ims_get_requests s" "uuid_text u (ask_next us s) = uuid_text u s"
  by (simp_all add: ask_next_def uuid_text_def split: list.splits)

lemma next_piece_run:
  assumes "k_requests s r = Some q" "\<forall>x \<in> set (rq_units q). \<exists>u. gets_piece s r x u"
  shows "post_storage_next_piece_get_request r s = Returns ((ask_next (rq_units q) s)\<lparr>k_requests := (k_requests s)(r \<mapsto> q\<lparr>rq_units := tl (rq_units q)\<rparr>)\<rparr>)"
proof (cases "rq_units q")
  case Nil
  moreover have "q\<lparr>rq_units := []\<rparr> = q" using Nil by (cases q) simp
  ultimately show ?thesis
    using assms(1) by (simp add: post_storage_next_piece_get_request_def with_req_def skip_def ask_next_def fun_upd_idem)
next
  case (Cons x xs)
  then obtain p where "k_requests s x = Some p" "rq_request_id p = x"
    using assms(2) by (auto simp: gets_piece_def)
  then show ?thesis
    using assms(1) Cons by (simp add: post_storage_next_piece_get_request_def with_req_def check_def has_req_def post_storage_look_up_request_def
        post_storage_def upd_req_def ask_next_def)
qed

lemma write_piece_run:
  assumes "gets_file s r q m F" "piece_start (k_lib s) m (uuid_text u s) = Some a" "a < 2 ^ 63" "payload_of d = Some bs"
    and n: "n = uuid_text u s"
    and t: "t = s\<lparr>k_files := (k_files s)(rq_file_path q \<mapsto> file_write_at a bs F),
      k_requests := (k_requests s)(r \<mapsto> q\<lparr>rq_master_json := Some (without_piece n m)\<rparr>)\<rparr>"
  shows "process_unencrypted_piece d r u s = (if obj_remove n (pieces_of m) = [] then send_ims_requested_data r t else Returns t)"
  using assms(1-4)
  by (auto simp: process_unencrypted_piece_def gets_file_def with_req_def action_defs write_data_to_stream_def get_start_position_def
      piece_start_def write_file_def remove_uuid_from_master_json_def upd_req_def is_master_json_empty_def get_object_def obj_has_def
      uuid_text_def n t without_piece_def split: option.splits if_splits json.splits)

lemma handle_piece_run:
  assumes "gets_piece s r i u" "gets_file s r q m F" "\<forall>x \<in> set (rq_units q). \<exists>u. gets_piece s r x u"
    and "piece_start (k_lib s) m (uuid_text u s) = Some a" "a < 2 ^ 63" "payload_of d = Some bs"
  shows "handle_piece d i s = and_run
    (let t = piece_written r q m (uuid_text u s) a bs F s in if obj_remove (uuid_text u s) (pieces_of m) = [] then send_ims_requested_data r t else Returns t)
    (erase_req i)"
proof -
  let ?q = "q\<lparr>rq_units := tl (rq_units q)\<rparr>"
  let ?s = "(ask_next (rq_units q) s)\<lparr>k_requests := (k_requests s)(r \<mapsto> ?q)\<rparr>"
  have r: "k_requests s r = Some q" using assms(2) by (simp add: gets_file_def)
  have f: "gets_file ?s r ?q m F"
    using assms(2) by (simp add: gets_file_def is_streaming_media_def)
  have n: "uuid_text u ?s = uuid_text u s" by (simp add: uuid_text_def)
  have "process_unencrypted_piece d r u ?s = (let t = piece_written r q m (uuid_text u s) a bs F s in
      if obj_remove (uuid_text u s) (pieces_of m) = [] then send_ims_requested_data r t else Returns t)"
    using write_piece_run [OF f _ assms(5,6) n [symmetric] refl] assms(4) by (simp add: n Let_def piece_written_def)
  then show ?thesis
    using assms(1) r next_piece_run [OF r assms(3)]
    by (auto simp: handle_piece_def with_req_def gets_piece_def check_def look_def has_req_def run_all_single)
qed

section \<open>All pieces\<close>

text \<open>
  What is needed of the pieces \<open>ids\<close>: \<open>U i\<close> is the uuid of piece \<open>i\<close>, \<open>A i\<close> its place in the file, \<open>D i\<close> the package
  with its bytes \<open>B i\<close>. A piece can only come after it was asked for: the one that comes as number \<open>j\<close> is not among
  those that are still to be asked for then.
\<close>

definition pieces_come :: "kernel \<Rightarrow> ID32 \<Rightarrow> request \<Rightarrow> jobj \<Rightarrow> (ID32 \<Rightarrow> uuid) \<Rightarrow> (ID32 \<Rightarrow> nat) \<Rightarrow> (ID32 \<Rightarrow> 'a package_scheme) \<Rightarrow> (ID32 \<Rightarrow> byte list)
    \<Rightarrow> ID32 list \<Rightarrow> bool" where
  "pieces_come s r q m U A D B ids \<longleftrightarrow> distinct ids \<and> distinct (map (\<lambda>i. uuid_text (U i) s) ids) \<and> r \<notin> set ids
     \<and> (\<forall>i \<in> set ids. gets_piece s r i (U i) \<and> piece_start (k_lib s) m (uuid_text (U i) s) = Some (A i) \<and> A i < 2 ^ 63 \<and> payload_of (D i) = Some (B i))
     \<and> (\<forall>x \<in> set (rq_units q). \<exists>u. gets_piece s r x u)
     \<and> (\<forall>j < length ids. ids ! j \<notin> set (drop (Suc j) (rq_units q)))"

lemma piece_written_fields [simp]:
  "k_lib (piece_written r q m n a bs F s) = k_lib s" "k_ims_tx (piece_written r q m n a bs F s) = k_ims_tx s"
  "k_ims_req_ids (piece_written r q m n a bs F s) = k_ims_req_ids s"
  "k_pending_ims_get_requests (piece_written r q m n a bs F s) = k_pending_ims_get_requests s"
  "uuid_text u (piece_written r q m n a bs F s) = uuid_text u s"
  by (simp_all add: piece_written_def uuid_text_def)

lemma gets_piece_cong: "k_requests t i = k_requests s i \<Longrightarrow> gets_piece t r i u = gets_piece s r i u"
  by (simp add: gets_piece_def)

text \<open>One piece that is not the last.\<close>

lemma piece_step:
  assumes getting: "gets_file s r q m F" and come: "pieces_come s r q m U A D B (i # ids)"
    and more: "obj_remove (uuid_text (U i) s) (pieces_of m) \<noteq> []"
    and t: "t = (piece_written r q m (uuid_text (U i) s) (A i) (B i) F s)\<lparr>k_requests := (k_requests s)
      (r \<mapsto> q\<lparr>rq_units := tl (rq_units q), rq_master_json := Some (without_piece (uuid_text (U i) s) m)\<rparr>, i := None)\<rparr>"
    and q': "q' = q\<lparr>rq_units := tl (rq_units q), rq_master_json := Some (without_piece (uuid_text (U i) s) m)\<rparr>"
  shows "handle_piece (D i) i s = Returns t" "gets_file t r q' (without_piece (uuid_text (U i) s) m) (file_write_at (A i) (B i) F)"
    "pieces_come t r q' (without_piece (uuid_text (U i) s) m) U A D B ids"
proof -
  have i: "gets_piece s r i (U i)" "piece_start (k_lib s) m (uuid_text (U i) s) = Some (A i)" "A i < 2 ^ 63" "payload_of (D i) = Some (B i)"
    and units: "\<forall>x \<in> set (rq_units q). \<exists>u. gets_piece s r x u" and ri: "r \<noteq> i"
    using come by (auto simp: pieces_come_def)
  show "handle_piece (D i) i s = Returns t"
    using handle_piece_run [OF i(1) getting units i(2-4)] more by (simp add: erase_req_def t) (simp add: piece_written_def)
  show "gets_file t r q' (without_piece (uuid_text (U i) s) m) (file_write_at (A i) (B i) F)"
    using getting ri by (simp add: gets_file_def t q' is_streaming_media_def piece_written_def without_piece_def get_object_def pieces_of_def)
  have same: "gets_piece t r x u = gets_piece s r x u" if "x \<noteq> r" "x \<noteq> i" for x u
    by (rule gets_piece_cong) (simp add: t that)
  have not_r: "x \<noteq> r" if "gets_piece s r x u" for x u
    using that getting by (auto simp: gets_piece_def gets_file_def)
  have "i \<notin> set (tl (rq_units q))"
    using come [unfolded pieces_come_def] by (auto simp: drop_Suc)
  then have rest: "\<exists>u. gets_piece t r x u" if "x \<in> set (tl (rq_units q))" for x
  proof -
    have "x \<in> set (rq_units q)" using that by (cases "rq_units q") auto
    then obtain u where u: "gets_piece s r x u" using units by blast
    moreover have "x \<noteq> i" using \<open>i \<notin> set (tl (rq_units q))\<close> that by blast
    ultimately show ?thesis using same not_r by blast
  qed
  have order: "ids ! j \<notin> set (drop (Suc j) (rq_units q'))" if "j < length ids" for j
  proof -
    have "\<forall>j < length (i # ids). (i # ids) ! j \<notin> set (drop (Suc j) (rq_units q))"
      using come unfolding pieces_come_def by (elim conjE)
    from this [rule_format, of "Suc j"] that show ?thesis by (simp add: q' drop_Suc)
  qed
  have tu: "uuid_text x t = uuid_text x s" "k_lib t = k_lib s" for x
    by (simp_all add: t uuid_text_def)
  have "gets_piece t r x (U x) \<and> uuid_text (U x) s \<noteq> uuid_text (U i) s" if "x \<in> set ids" for x
  proof -
    have "x \<noteq> i" "x \<noteq> r" "gets_piece s r x (U x)"
      using come that by (auto simp: pieces_come_def)
    moreover have "uuid_text (U x) s \<noteq> uuid_text (U i) s"
      using come imageI [OF that, of "\<lambda>i. uuid_text (U i) s"] by (auto simp: pieces_come_def)
    ultimately show ?thesis using same by simp
  qed
  then show "pieces_come t r q' (without_piece (uuid_text (U i) s) m) U A D B ids"
    using come rest order by (simp add: pieces_come_def q' tu)
qed

definition names_of :: "kernel \<Rightarrow> (ID32 \<Rightarrow> uuid) \<Rightarrow> ID32 list \<Rightarrow> string set" where
  "names_of s U ids = (\<lambda>i. uuid_text (U i) s) ` set ids"

lemma piece_named: "piece_start L m n = Some a \<Longrightarrow> n \<in> fst ` set (pieces_of m)"
  by (force simp: piece_start_def get_object_def split: option.splits json.splits dest: map_of_SomeD)

text \<open>As long as a piece is missing nothing is answered; the file has the pieces that came.\<close>

lemma pieces_so_far:
  assumes "gets_file s r q m F" "pieces_come s r q m U A D B (ids @ rest)" "\<not> fst ` set (pieces_of m) \<subseteq> names_of s U ids"
  shows "\<exists>t q' m'. each ids (\<lambda>i. handle_piece (D i) i) s = Returns t
    \<and> gets_file t r q' m' (fold (\<lambda>i. file_write_at (A i) (B i)) ids F) \<and> pieces_come t r q' m' U A D B rest
    \<and> k_ims_tx t = k_ims_tx s \<and> k_ims_req_ids t = k_ims_req_ids s \<and> k_pending_ims_get_requests t = k_pending_ims_get_requests s
    \<and> k_lib t = k_lib s \<and> (\<forall>k. file_answer q' k = file_answer q k) \<and> rq_uuid q' = rq_uuid q \<and> rq_file_path q' = rq_file_path q
    \<and> fst ` set (pieces_of m') = fst ` set (pieces_of m) - names_of s U ids"
  using assms
proof (induction ids arbitrary: s q m F)
  case Nil
  then show ?case by (auto simp: names_of_def)
next
  case (Cons i ids)
  let ?n = "uuid_text (U i) s"
  have some: "obj_remove ?n (pieces_of m) \<noteq> []"
  proof
    assume "obj_remove ?n (pieces_of m) = []"
    then have "fst ` set (pieces_of m) \<subseteq> {?n}" by (auto simp: obj_remove_def filter_empty_conv)
    with Cons.prems(3) show False by (auto simp: names_of_def)
  qed
  define q1 where "q1 = q\<lparr>rq_units := tl (rq_units q), rq_master_json := Some (without_piece ?n m)\<rparr>"
  define u where "u = (piece_written r q m ?n (A i) (B i) F s)\<lparr>k_requests := (k_requests s)(r \<mapsto> q1, i := None)\<rparr>"
  note step = piece_step [OF Cons.prems(1) Cons.prems(2) [unfolded append_Cons] some u_def [unfolded q1_def] q1_def]
  have u: "uuid_text x u = uuid_text x s" "k_lib u = k_lib s" "k_ims_tx u = k_ims_tx s" "k_ims_req_ids u = k_ims_req_ids s"
    "k_pending_ims_get_requests u = k_pending_ims_get_requests s" "k_requests u = (k_requests s)(r \<mapsto> q1, i := None)" for x
    by (simp_all add: u_def uuid_text_def)
  have names: "names_of u U ids = names_of s U ids" "names_of s U (i # ids) = insert ?n (names_of s U ids)"
    by (simp_all add: names_of_def u)
  have left: "fst ` set (pieces_of (without_piece ?n m)) = fst ` set (pieces_of m) - {?n}"
    by (auto simp: obj_remove_def)
  have "\<not> fst ` set (pieces_of (without_piece ?n m)) \<subseteq> names_of u U ids"
    using Cons.prems(3) unfolding left names by blast
  from Cons.IH [OF step(2,3) this] obtain t q' m' where t: "each ids (\<lambda>i. handle_piece (D i) i) u = Returns t"
    "gets_file t r q' m' (fold (\<lambda>i. file_write_at (A i) (B i)) ids (file_write_at (A i) (B i) F))" "pieces_come t r q' m' U A D B rest"
    "k_ims_tx t = k_ims_tx u" "k_ims_req_ids t = k_ims_req_ids u" "k_pending_ims_get_requests t = k_pending_ims_get_requests u"
    "k_lib t = k_lib u" "\<forall>k. file_answer q' k = file_answer q1 k" "rq_uuid q' = rq_uuid q1" "rq_file_path q' = rq_file_path q1"
    "fst ` set (pieces_of m') = fst ` set (pieces_of (without_piece ?n m)) - names_of u U ids" by blast
  have "fst ` set (pieces_of m') = fst ` set (pieces_of m) - names_of s U (i # ids)"
    unfolding t(11) left names by blast
  moreover have "\<forall>k. file_answer q1 k = file_answer q k" by (simp add: q1_def file_answer_def)
  ultimately show ?case
    using step(1) t by (intro exI [of _ t] exI [of _ q'] exI [of _ m']) (simp add: u names q1_def drop_Suc)
qed

text \<open>The last piece, and with it the answer.\<close>

lemma last_piece:
  assumes "gets_file s r q m F" "pieces_come s r q m U A D B [i]" "fst ` set (pieces_of m) \<subseteq> names_of s U [i]"
    and "k_pending_ims_get_requests s (rq_uuid q) = Some bs" "distinct bs" "fifo_ok (k_ims_tx s)"
  shows "\<exists>t. handle_piece (D i) i s = Returns t \<and> k_files t (rq_file_path q) = Some (file_write_at (A i) (B i) F)
    \<and> pending (k_ims_tx t) = pending (k_ims_tx s) @ map (file_answer q) (waiting_ids s bs) \<and> k_pending_ims_get_requests t (rq_uuid q) = None"
proof -
  let ?n = "uuid_text (U i) s"
  let ?t = "piece_written r q m ?n (A i) (B i) F s"
  let ?q = "q\<lparr>rq_units := tl (rq_units q), rq_master_json := Some (without_piece ?n m)\<rparr>"
  have i: "gets_piece s r i (U i)" "piece_start (k_lib s) m ?n = Some (A i)" "A i < 2 ^ 63" "payload_of (D i) = Some (B i)"
    and units: "\<forall>x \<in> set (rq_units q). \<exists>u. gets_piece s r x u"
    using assms(2) by (simp_all add: pieces_come_def)
  have none: "obj_remove ?n (pieces_of m) = []"
    using assms(3) by (auto simp: names_of_def obj_remove_def filter_empty_conv)
  have t: "k_requests ?t r = Some ?q" "k_files ?t (rq_file_path q) = Some (file_write_at (A i) (B i) F)"
    by (simp_all add: piece_written_def)
  have "rq_cmd ?q = cmd_get" using assms(1) by (simp add: gets_file_def)
  from requested_data_run [OF t(1) this, of bs] assms(4-6) obtain u where "send_ims_requested_data r ?t = Returns u" "k_files u = k_files ?t"
    "pending (k_ims_tx u) = pending (k_ims_tx s) @ map (file_answer ?q) (waiting_ids ?t bs)" "k_pending_ims_get_requests u (rq_uuid q) = None"
    by auto
  moreover have "waiting_ids ?t bs = waiting_ids s bs" "file_answer ?q = file_answer q"
    by (rule waiting_ids_cong) (simp_all add: file_answer_def [abs_def])
  ultimately show ?thesis
    using handle_piece_run [OF i(1) assms(1) units i(2-4)] none t(2) by (simp add: erase_req_def)
qed

text \<open>All of them: silence until the last one, then the file and the answer.\<close>

lemma all_pieces:
  assumes q: "gets_file s r q m F" "pieces_come s r q m U A D B ids" "fst ` set (pieces_of m) = names_of s U ids" "ids \<noteq> []"
    and waiting: "k_pending_ims_get_requests s (rq_uuid q) = Some bs" "distinct bs" "fifo_ok (k_ims_tx s)"
  shows "(\<forall>j < length ids. \<exists>t. each (take j ids) (\<lambda>i. handle_piece (D i) i) s = Returns t \<and> k_ims_tx t = k_ims_tx s)
    \<and> (\<exists>t. each ids (\<lambda>i. handle_piece (D i) i) s = Returns t
        \<and> k_files t (rq_file_path q) = Some (fold (\<lambda>i. file_write_at (A i) (B i)) ids F)
        \<and> pending (k_ims_tx t) = pending (k_ims_tx s) @ map (file_answer q) (waiting_ids s bs)
        \<and> k_pending_ims_get_requests t (rq_uuid q) = None)"
proof -
  have missing: "\<not> fst ` set (pieces_of m) \<subseteq> names_of s U xs" if "xs @ y # ys = ids" for xs y ys
    using q(2) unfolding q(3) by (auto simp: pieces_come_def names_of_def that [symmetric])
  have "\<exists>t. each (take j ids) (\<lambda>i. handle_piece (D i) i) s = Returns t \<and> k_ims_tx t = k_ims_tx s" if "j < length ids" for j
    using pieces_so_far [OF q(1), of U A D B "take j ids" "drop j ids"] q(2) missing [of "take j ids" "ids ! j" "drop (Suc j) ids"] that
    by (simp add: id_take_nth_drop [symmetric]) blast
  moreover obtain ys y where ys: "ids = ys @ [y]" using q(4) by (metis rev_exhaust)
  from pieces_so_far [OF q(1,2) [unfolded ys] missing [of ys y "[]"]] ys obtain t q' m' where t: "each ys (\<lambda>i. handle_piece (D i) i) s = Returns t"
    "gets_file t r q' m' (fold (\<lambda>i. file_write_at (A i) (B i)) ys F)" "pieces_come t r q' m' U A D B [y]"
    "k_ims_tx t = k_ims_tx s" "k_ims_req_ids t = k_ims_req_ids s" "k_pending_ims_get_requests t = k_pending_ims_get_requests s" "k_lib t = k_lib s"
    "\<forall>k. file_answer q' k = file_answer q k" "rq_uuid q' = rq_uuid q" "rq_file_path q' = rq_file_path q"
    "fst ` set (pieces_of m') = fst ` set (pieces_of m) - names_of s U ys" by auto
  have "fst ` set (pieces_of m') \<subseteq> names_of t U [y]"
    using t(7) by (auto simp: t(11) q(3) ys names_of_def uuid_text_def)
  from last_piece [OF t(2,3) this, of bs] waiting t(4,6,9) obtain u where u: "handle_piece (D y) y t = Returns u"
    "k_files u (rq_file_path q') = Some (file_write_at (A y) (B y) (fold (\<lambda>i. file_write_at (A i) (B i)) ys F))"
    "pending (k_ims_tx u) = pending (k_ims_tx t) @ map (file_answer q') (waiting_ids t bs)" "k_pending_ims_get_requests u (rq_uuid q') = None" by auto
  have "each ids (\<lambda>i. handle_piece (D i) i) s = Returns u"
    using t(1) u(1) by (simp add: ys each_append)
  moreover have "k_files u (rq_file_path q) = Some (fold (\<lambda>i. file_write_at (A i) (B i)) ids F)"
    using u(2) t(10) by (simp add: ys)
  moreover have "pending (k_ims_tx u) = pending (k_ims_tx s) @ map (file_answer q) (waiting_ids s bs)"
    using u(3) t(4,8) waiting_ids_cong [OF t(5)] by simp
  ultimately show ?thesis
    using u(4) t(9) by auto
qed

section \<open>A file cut by the other side\<close>

lemma map_of_pieces_json: "map_of (pieces_json ps) n = map_option piece_json (map_of ps n)"
  by (induction ps) (auto simp: pieces_json_def)

lemma piece_start_json:
  assumes "get_object ''pieces'' m = Some (pieces_json ps)" "map_of ps n = Some p" "piece_at a k p" "a < 2 ^ 64"
  shows "piece_start L m n = Some a"
proof -
  have "pieces_of m = pieces_json ps" using assms(1) by (simp add: pieces_of_def)
  then show ?thesis
    using assms(2-4) by (auto simp: piece_start_def get_object_def map_of_pieces_json piece_json_def piece_at_def obj_has_def
        get_unsigned_def to_unsigned_def to_int_def split: option.splits)
qed

lemma names_pieces_json: "fst ` set (pieces_json ps) = fst ` set ps"
  by (force simp: pieces_json_def image_iff)

lemma piece_data:
  assumes "pieces_within (length c) ps" "length c \<le> 2 ^ 32" "get_object ''pieces'' m = Some (pieces_json ps)" "map_of ps n = Some p"
    and "payload_of d = read_piece c (nat (the (pc_from p))) (nat (the (pc_size p)))"
  shows "piece_start L m n = Some (nat (the (pc_from p)))" "nat (the (pc_from p)) < 2 ^ 63"
    "payload_of d = Some (the (payload_of d))" "transfer_piece c p = file_write_at (nat (the (pc_from p))) (the (payload_of d))"
proof -
  obtain a k where at: "piece_at a k p" "a + k \<le> length c"
    using assms(1) map_of_SomeD [OF assms(4)] by (fastforce simp: pieces_within_def)
  then have a: "nat (the (pc_from p)) = a" "nat (the (pc_size p)) = k" "pc_from p = Some (int a)" "pc_size p = Some (int k)"
    by (simp_all add: piece_at_def)
  show "piece_start L m n = Some (nat (the (pc_from p)))" "nat (the (pc_from p)) < 2 ^ 63"
    using piece_start_json [OF assms(3,4) at(1)] at(2) assms(2) a(1) by simp_all
  have "read_piece c a k = Some (take k (drop a c))" using at(2) by (simp add: read_piece_def)
  then show "payload_of d = Some (the (payload_of d))" "transfer_piece c p = file_write_at (nat (the (pc_from p))) (the (payload_of d))"
    using assms(5) a by (simp_all add: transfer_piece_def fun_eq_iff)
qed

lemma same_pieces:
  assumes "distinct (map fst ps)" "names_of s U ids = fst ` set ps" "\<forall>i \<in> set ids. map_of ps (uuid_text (U i) s) = Some (P i)"
  shows "set (map (\<lambda>i. (uuid_text (U i) s, P i)) ids) = set ps"
proof -
  have "(n, p) \<in> set (map (\<lambda>i. (uuid_text (U i) s, P i)) ids) \<longleftrightarrow> n \<in> names_of s U ids \<and> map_of ps n = Some p" for n p
    using assms(3) by (auto simp: names_of_def)
  moreover have "(n, p) \<in> set ps \<longleftrightarrow> n \<in> fst ` set ps \<and> map_of ps n = Some p" for n p
    using assms(1) by (force simp: map_of_eq_Some_iff)
  ultimately show ?thesis using assms(2) by (auto simp: set_eq_iff)
qed

text \<open>
  C3: A file of more than one chunk and at most 4 GiB that another kernel cut into pieces comes back whole. The
  pieces may come in any order in which they can have been asked for: each one that comes makes the kernel ask for one
  more, and is written at its place. Until the last one nothing is answered; then the file on disk is the saved one,
  and every request that waits for the uuid is answered once.
\<close>

theorem big_file_comes_back:
  assumes "poco_ok (kl_poco (k_lib s))" "inj_on src {k..k + length c}" "max_chunk_size < length c" "length c \<le> 2 ^ 32"
    and ps: "ps = snd (generate_pieces_json (kl_poco (k_lib s)) src k (length c))"
    and q: "gets_file s r q m (prepare_file (length c))" "get_object ''pieces'' m = Some (pieces_json ps)"
    and ids: "distinct ids" "distinct (map (\<lambda>i. uuid_text (U i) s) ids)" "r \<notin> set ids" "names_of s U ids = fst ` set ps"
    and pieces: "\<forall>i \<in> set ids. gets_piece s r i (U i) \<and> (\<exists>p. map_of ps (uuid_text (U i) s) = Some p
      \<and> payload_of (D i) = read_piece c (nat (the (pc_from p))) (nat (the (pc_size p))))"
    and units: "\<forall>x \<in> set (rq_units q). \<exists>u. gets_piece s r x u" "\<forall>j < length ids. ids ! j \<notin> set (drop (Suc j) (rq_units q))"
    and waiting: "k_pending_ims_get_requests s (rq_uuid q) = Some bs" "distinct bs" "fifo_ok (k_ims_tx s)"
  shows "(\<forall>j < length ids. \<exists>t. each (take j ids) (\<lambda>i. handle_piece (D i) i) s = Returns t \<and> k_ims_tx t = k_ims_tx s)
    \<and> (\<exists>t. each ids (\<lambda>i. handle_piece (D i) i) s = Returns t \<and> k_files t (rq_file_path q) = Some c
        \<and> pending (k_ims_tx t) = pending (k_ims_tx s) @ map (file_answer q) (waiting_ids s bs)
        \<and> k_pending_ims_get_requests t (rq_uuid q) = None)"
proof -
  define P where "P = (\<lambda>i. the (map_of ps (uuid_text (U i) s)))"
  define A where "A = (\<lambda>i. nat (the (pc_from (P i))))"
  define B where "B = (\<lambda>i. the (payload_of (D i)))"
  have d: "distinct (map fst ps)" unfolding ps by (rule pieces_names_distinct)
  have P: "\<forall>i \<in> set ids. map_of ps (uuid_text (U i) s) = Some (P i)"
    using pieces by (auto simp: P_def)
  have "payload_of (D i) = read_piece c (A i) (nat (the (pc_size (P i))))" if "i \<in> set ids" for i
    using pieces that by (auto simp: P_def A_def)
  note data = piece_data [OF pieces_tile(1) [OF assms(1-4) ps] assms(4) q(2) P [rule_format] this [unfolded A_def], folded A_def B_def]
  have come: "pieces_come s r q m U A D B ids"
    using ids(1-3) data pieces units by (simp add: pieces_come_def A_def B_def)
  have "fold (transfer_piece c) (map snd (map (\<lambda>i. (uuid_text (U i) s, P i)) ids)) F = fold (\<lambda>i. file_write_at (A i) (B i)) ids F" for F
    unfolding fold_map list.map_comp comp_def snd_conv by (rule fold_cong) (simp_all add: data(4) A_def B_def)
  then have whole: "fold (\<lambda>i. file_write_at (A i) (B i)) ids (prepare_file (length c)) = c"
    using pieces_reassemble [OF assms(1-4) ps same_pieces [OF d ids(4) P]] by metis
  have all: "fst ` set (pieces_of m) = names_of s U ids"
    using q(2) by (simp add: pieces_of_def names_pieces_json ids(4))
  have "ids \<noteq> []"
    using pieces_tile(2) [OF assms(1-4) ps] assms(3) ids(4) by (force simp: covered_def names_of_def)
  with all_pieces [OF q(1) come all _ waiting] show ?thesis
    unfolding whole by blast
qed

section \<open>Two pieces that come in the wrong order\<close>

definition ex_big :: "byte list" where
  "ex_big = replicate 7000001 5"

definition ex_cut :: pieces where
  "ex_cut = snd (generate_pieces_json poco_ref of_nat 0 7000001)"

lemma ex_cut_pieces: "map_of ex_cut = [uuid_to_string poco_ref 0 \<mapsto> create_piece_json 0 7000000, uuid_to_string poco_ref 1 \<mapsto> create_piece_json 7000000 1]"
  by (auto simp: ex_cut_def generate_pieces_json_def pieces_loop.simps [of poco_ref of_nat 0] pieces_loop.simps [of poco_ref of_nat "Suc 0"]
      max_chunk_size_def fun_eq_iff simp del: ex_name_fold)

lemma ex_cut_names: "fst ` set ex_cut = {uuid_to_string poco_ref 0, uuid_to_string poco_ref 1}"
  using arg_cong [OF ex_cut_pieces, of dom] by (simp add: dom_map_of_conv_image_fst insert_commute del: ex_name_fold)

definition ex_big_request :: request where
  "ex_big_request = (request_new 0 9 5 Receiving cmd_get T_ims)\<lparr>rq_file_path := ''t'', rq_master_json := Some [(''pieces'', J_obj (pieces_json ex_cut))]\<rparr>"

definition ex_piece_request :: "ID32 \<Rightarrow> request" where
  "ex_piece_request i = (request_new 0 i (ucast i) Receiving cmd_get T_kernel)\<lparr>rq_parent_req_id := 9\<rparr>"

definition ex_getting :: kernel where
  "ex_getting = ex_kernel\<lparr>k_requests := [9 \<mapsto> ex_big_request, 0 \<mapsto> ex_piece_request 0, 1 \<mapsto> ex_piece_request 1],
     k_files := [''t'' \<mapsto> prepare_file 7000001], k_pending_ims_get_requests := [5 \<mapsto> [9]], k_ims_req_ids := [(9, 71)]\<rparr>"

definition ex_piece_data :: "ID32 \<Rightarrow> package" where
  "ex_piece_data i = default_package\<lparr>p_size := (if i = 0 then 7000000 else 1), p_message := Some ex_big\<rparr>"

theorem big_file_comes_back_witness:
  "\<exists>t. each [1, 0] (\<lambda>i. handle_piece (ex_piece_data i) i) ex_getting = Returns t \<and> k_files t ''t'' = Some ex_big
    \<and> map im_request_id (pending (k_ims_tx t)) = [71]"
proof -
  have s: "kl_poco (k_lib ex_getting) = poco_ref" "\<And>u. uuid_text u ex_getting = uuid_to_string poco_ref u" "fifo_ok (k_ims_tx ex_getting)"
    "pending (k_ims_tx ex_getting) = []" "waiting_ids ex_getting [9] = [71]" "k_pending_ims_get_requests ex_getting = [5 \<mapsto> [9]]"
    by (simp_all add: ex_getting_def ex_kernel_def kernel_new_def uuid_text_def waiting_ids_def List.map_filter_def ims_id_def)
  have q: "rq_units ex_big_request = []" "rq_uuid ex_big_request = 5" "rq_file_path ex_big_request = ''t''"
    by (simp_all add: ex_big_request_def request_new_def request_dated_def)
  have l: "length ex_big = 7000001" unfolding ex_big_def by (rule length_replicate)
  have ps: "ex_cut = snd (generate_pieces_json (kl_poco (k_lib ex_getting)) of_nat 0 (length ex_big))"
    by (simp only: s(1) l ex_cut_def)
  have inj: "inj_on (of_nat :: nat \<Rightarrow> uuid) {0..0 + length ex_big}"
    by (rule inj_onI) (simp add: l unat_eq_iff [symmetric] unat_of_nat take_bit_nat_eq_self)
  have gets: "gets_file ex_getting 9 ex_big_request [(''pieces'', J_obj (pieces_json ex_cut))] (prepare_file (length ex_big))"
    "get_object ''pieces'' [(''pieces'', J_obj (pieces_json ex_cut))] = Some (pieces_json ex_cut)"
    by (simp_all add: gets_file_def ex_getting_def ex_big_request_def request_new_def request_dated_def is_streaming_media_def pieces_of_def
        get_object_def l)
  have read: "payload_of (ex_piece_data 0) = read_piece ex_big 0 7000000" "payload_of (ex_piece_data 1) = read_piece ex_big 7000000 1"
    by (simp_all add: payload_of_def ex_piece_data_def mem_read_def read_piece_def l) (simp add: ex_big_def)
  have "gets_piece ex_getting 9 i (ucast i)" if "i \<in> set [1, 0]" for i
    using that by (auto simp: gets_piece_def ex_getting_def ex_piece_request_def request_new_def request_dated_def)
  then have piece: "gets_piece ex_getting 9 i (ucast i) \<and> (\<exists>p. map_of ex_cut (uuid_text (ucast i) ex_getting) = Some p
      \<and> payload_of (ex_piece_data i) = read_piece ex_big (nat (the (pc_from p))) (nat (the (pc_size p))))" if "i \<in> set [1, 0]" for i
    using that by (auto simp: s ex_cut_pieces read create_piece_json_def simp del: ex_name_fold)
  have "names_of ex_getting ucast [1, 0] = fst ` set ex_cut"
    by (auto simp: names_of_def s ex_cut_names)
  from big_file_comes_back [OF _ inj _ _ ps gets _ _ _ this, where D = ex_piece_data and bs = "[9]"] piece [of 0] piece [of 1] show ?thesis
    by (auto simp: s q l max_chunk_size_def poco_ref_ok file_answer_def)
qed

end
