(* ===== verification/Kernel_Save_Props.thy ===== *)
theory Kernel_Save_Props
  imports Kernel_Files_Props
begin

text \<open>
  Properties of the queues of units to be saved: what goes to the storage and to the network, and how much of it.
\<close>

section \<open>Pieces on their way to the storage\<close>

text \<open>Unit \<open>i\<close> is a piece of the unencrypted file \<open>c\<close>, to be saved in the local storage.\<close>

definition local_piece :: "kernel \<Rightarrow> byte list \<Rightarrow> ID32 \<Rightarrow> save_unit \<Rightarrow> bool" where
  "local_piece s c i u \<longleftrightarrow> k_save_units s i = Some u \<and> su_type u = Piece
     \<and> (\<exists>q. k_requests s (su_main_request u) = Some q \<and> rq_local q \<and> \<not> rq_enc q \<and> rq_file_path q \<noteq> [] \<and> k_files s (rq_file_path q) = Some c)
     \<and> unat (su_start u) + unat (su_size u) \<le> length c"

definition piece_bytes :: "byte list \<Rightarrow> save_unit \<Rightarrow> byte list" where
  "piece_bytes c u = take (unat (su_size u)) (drop (unat (su_start u)) c)"

definition unit_sent :: "byte list \<Rightarrow> ID32 \<Rightarrow> save_unit \<Rightarrow> ID32 list \<Rightarrow> kernel \<Rightarrow> kernel" where
  "unit_sent c i u rest s = (let d = default_package\<lparr>p_size := su_size u, p_message := Some (piece_bytes c u)\<rparr> in s\<lparr>
     k_save_units := (k_save_units s)(i \<mapsto> u\<lparr>su_content := d\<rparr>), k_storage_input_cnt := k_storage_input_cnt s + 1,
     k_storage_writer_tx := commit kernel_storage_package0 (set_slot (\<lambda>out. (set_payload d (out\<lparr>ks_request_id := i, ks_cmd := cmd_save_data,
       ks_uuid := su_uuid u\<rparr>))\<lparr>ks_should_send_response := True\<rparr>) (k_storage_writer_tx s)),
     k_pending_save_requests := rest\<rparr>)"

lemma storage_loop_step:
  assumes "local_piece s c i u" "length (k_pending_router_save_reqs s) < 150" "unat (k_storage_input_cnt s) < 150"
  shows "storage_pending_loop (i # rest) s = storage_pending_loop rest (unit_sent c i u rest s)"
proof -
  have "read_piece c (unat (su_start u)) (unat (su_size u)) = Some (piece_bytes c u)"
    using assms(1) by (simp add: local_piece_def read_piece_def piece_bytes_def)
  then show ?thesis
    using assms by (auto simp: local_piece_def max_storage_input_cnt_def look_def only_if_def on_some_def with_req_def load_unit_def with_unit_def
        get_piece_data_for_save_def must_def upd_unit_def check_def upd_def handle_piece_save_def post_storage_save_request_def post_writer_def
        unit_sent_def Let_def)
qed

lemma unit_sent_fields:
  assumes "fifo_ok (k_storage_writer_tx s)"
  shows "k_pending_router_save_reqs (unit_sent c i u rest s) = k_pending_router_save_reqs s" "k_pending_save_requests (unit_sent c i u rest s) = rest"
    "k_storage_input_cnt (unit_sent c i u rest s) = k_storage_input_cnt s + 1" "fifo_ok (k_storage_writer_tx (unit_sent c i u rest s))"
    "j \<noteq> i \<Longrightarrow> local_piece (unit_sent c i u rest s) c j v = local_piece s c j v"
  using assms by (simp_all add: unit_sent_def Let_def local_piece_def)

lemma unit_sent_seen:
  assumes "fifo_ok (k_storage_writer_tx s)" "local_piece s c i u"
  shows "saves_seen (unit_sent c i u rest s) = saves_seen s @ [(cmd_save_data, su_uuid u, Some (piece_bytes c u), True)]"
proof -
  have "length (piece_bytes c u) = unat (su_size u)"
    using assms(2) by (auto simp: local_piece_def piece_bytes_def min_def)
  then show ?thesis
    using assms(1) by (auto simp: unit_sent_def Let_def saves_seen_def payload_of_def set_payload_def mem_read_def)
qed

lemma storage_loop_run:
  assumes "distinct xs" "\<forall>i \<in> set xs. local_piece s c i (U i)" "length (k_pending_router_save_reqs s) < 150"
    and "k_pending_save_requests s = xs" "fifo_ok (k_storage_writer_tx s)" "n = min (length xs) (150 - unat (k_storage_input_cnt s))"
  shows "\<exists>s'. storage_pending_loop xs s = Returns s' \<and> k_pending_save_requests s' = drop n xs
    \<and> unat (k_storage_input_cnt s') = unat (k_storage_input_cnt s) + n
    \<and> saves_seen s' = saves_seen s @ map (\<lambda>i. (cmd_save_data, su_uuid (U i), Some (piece_bytes c (U i)), True)) (take n xs)"
  using assms
proof (induction xs arbitrary: s n)
  case Nil
  then show ?case by (simp add: skip_def)
next
  case (Cons i xs)
  show ?case
  proof (cases "unat (k_storage_input_cnt s) < 150")
    case False
    then show ?thesis
      using Cons.prems by (simp add: look_def only_if_def skip_def max_storage_input_cnt_def)
  next
    case True
    let ?t = "unit_sent c i (U i) xs s"
    have i: "local_piece s c i (U i)" using Cons.prems(2) by simp
    note f = unit_sent_fields [OF Cons.prems(5), where c = c and i = i and u = "U i" and rest = xs]
    have cnt: "unat (k_storage_input_cnt ?t) = Suc (unat (k_storage_input_cnt s))"
      using True unsigned_less [of "k_storage_input_cnt s"] by (simp add: f(3) unat_word_ariths)
    have n: "n = Suc (min (length xs) (150 - unat (k_storage_input_cnt ?t)))"
      using Cons.prems(6) True by (simp add: cnt)
    have "local_piece ?t c j (U j)" if "j \<in> set xs" for j
      using Cons.prems(1,2) f(5) [of j "U j"] that by (cases "j = i") auto
    then have ready: "\<forall>j \<in> set xs. local_piece ?t c j (U j)" by blast
    from Cons.IH [of ?t, OF _ ready _ f(2,4) refl] Cons.prems(1,3) obtain s' where "storage_pending_loop xs ?t = Returns s'"
      "k_pending_save_requests s' = drop (n - 1) xs" "unat (k_storage_input_cnt s') = unat (k_storage_input_cnt ?t) + (n - 1)"
      "saves_seen s' = saves_seen ?t @ map (\<lambda>i. (cmd_save_data, su_uuid (U i), Some (piece_bytes c (U i)), True)) (take (n - 1) xs)"
      unfolding n by (auto simp: f(1))
    then show ?thesis
      using storage_loop_step [OF i Cons.prems(3) True] unit_sent_seen [OF Cons.prems(5) i] cnt n by (intro exI [of _ s']) simp
  qed
qed

text \<open>
  C18: The pieces of a local, unencrypted file that wait to be saved go to the storage in the order of the list, each with exactly its
  bytes of the file, as long as fewer than 150 saves are on their way; the rest keeps waiting.
\<close>

theorem pieces_go_to_storage:
  assumes "distinct (k_pending_save_requests s)" "\<forall>i \<in> set (k_pending_save_requests s). local_piece s c i (U i)"
    and "length (k_pending_router_save_reqs s) < 150" "fifo_ok (k_storage_writer_tx s)"
    and "n = min (length (k_pending_save_requests s)) (150 - unat (k_storage_input_cnt s))"
  shows "\<exists>s'. process_storage_pending_save_requests s = Returns s'
    \<and> saves_seen s' = saves_seen s @ map (\<lambda>i. (cmd_save_data, su_uuid (U i),
        read_piece c (unat (su_start (U i))) (unat (su_size (U i))), True)) (take n (k_pending_save_requests s))
    \<and> k_pending_save_requests s' = drop n (k_pending_save_requests s)
    \<and> unat (k_storage_input_cnt s') = unat (k_storage_input_cnt s) + n"
proof -
  have "\<forall>i \<in> set (take n (k_pending_save_requests s)). Some (piece_bytes c (U i)) = read_piece c (unat (su_start (U i))) (unat (su_size (U i)))"
    using assms(2) by (auto dest!: in_set_takeD simp: local_piece_def read_piece_def piece_bytes_def)
  then have "map (\<lambda>i. (cmd_save_data, su_uuid (U i), Some (piece_bytes c (U i)), True)) (take n (k_pending_save_requests s))
      = map (\<lambda>i. (cmd_save_data, su_uuid (U i), read_piece c (unat (su_start (U i))) (unat (su_size (U i))), True)) (take n (k_pending_save_requests s))"
    by simp
  with storage_loop_run [OF assms(1,2,3) refl assms(4,5)] show ?thesis
    by (auto simp: process_storage_pending_save_requests_def look_def)
qed

section \<open>Units on their way to the network\<close>

text \<open>The reference: take what fits, in order, and keep the rest.\<close>

fun first_fit :: "nat \<Rightarrow> nat \<Rightarrow> ('a \<times> nat) list \<Rightarrow> 'a list \<times> 'a list \<times> nat" where
  "first_fit m z [] = ([], [], z)"
| "first_fit m z ((x, n) # xs) =
     (if z + n \<le> m then let (a, b, w) = first_fit m (z + n) xs in (x # a, b, w)
      else let (a, b, w) = first_fit m z xs in (a, x # b, w))"

lemma first_fit_full:
  "first_fit m z xs = (a, b, w) \<Longrightarrow> z \<le> w \<and> (z \<le> m \<longrightarrow> w \<le> m) \<and> (\<forall>x \<in> set b. \<exists>n. (x, n) \<in> set xs \<and> m < w + n)"
proof (induction m z xs arbitrary: a b w rule: first_fit.induct)
  case (2 m z x n xs)
  show ?case
  proof (cases "z + n \<le> m")
    case True
    obtain a' b' w' where r: "first_fit m (z + n) xs = (a', b', w')" by (cases "first_fit m (z + n) xs")
    with 2(1) [OF True r] 2(3) True show ?thesis by fastforce
  next
    case False
    obtain a' b' w' where r: "first_fit m z xs = (a', b', w')" by (cases "first_fit m z xs")
    with 2(2) [OF False r] 2(3) False show ?thesis by fastforce
  qed
qed simp

text \<open>Unit \<open>i\<close> was saved in the local storage and waits for its copies.\<close>

definition waits_for_copies :: "kernel \<Rightarrow> ID32 \<Rightarrow> save_unit \<Rightarrow> bool" where
  "waits_for_copies s i u \<longleftrightarrow> k_save_units s i = Some u \<and> (\<exists>q. k_requests s (su_main_request u) = Some q \<and> rq_local q)
     \<and> unat (k_max_router_save_input_size s) + unat (su_size u) < 2 ^ 32"

definition backups_seen :: "kernel \<Rightarrow> (command \<times> ID32 \<times> uuid \<times> byte list option) list" where
  "backups_seen s = map (\<lambda>p. (kr_cmd p, kr_request_id p, kr_uuid p, payload_of p)) (pending (k_router_tx s))"

definition backup_of :: "ID32 \<Rightarrow> save_unit \<Rightarrow> command \<times> ID32 \<times> uuid \<times> byte list option" where
  "backup_of i u = (su_cmd u, i, su_uuid u, payload_of (su_content u))"

lemma router_loop_step:
  assumes "waits_for_copies s i u" "fifo_ok (k_router_tx s)" "unat (k_router_save_input_size s) \<le> unat (k_max_router_save_input_size s)"
  shows "if unat (k_router_save_input_size s) + unat (su_size u) \<le> unat (k_max_router_save_input_size s)
    then \<exists>t. router_pending_loop kept (i # rest) s = router_pending_loop kept rest t \<and> k_pending_router_save_reqs t = kept @ rest
      \<and> fifo_ok (k_router_tx t) \<and> unat (k_router_save_input_size t) = unat (k_router_save_input_size s) + unat (su_size u)
      \<and> k_max_router_save_input_size t = k_max_router_save_input_size s \<and> backups_seen t = backups_seen s @ [backup_of i u]
      \<and> (\<forall>j v. j \<noteq> i \<longrightarrow> waits_for_copies t j v = waits_for_copies s j v)
    else router_pending_loop kept (i # rest) s = router_pending_loop (kept @ [i]) rest s"
proof -
  obtain q where q: "k_save_units s i = Some u" "k_requests s (su_main_request u) = Some q" "rq_local q"
    "unat (k_max_router_save_input_size s) + unat (su_size u) < 2 ^ 32"
    using assms(1) by (auto simp: waits_for_copies_def)
  have add: "unat (k_router_save_input_size s + su_size u) = unat (k_router_save_input_size s) + unat (su_size u)"
    using q(4) assms(3) by (simp add: unat_word_ariths)
  have fits: "k_router_save_input_size s + su_size u \<le> k_max_router_save_input_size s
      \<longleftrightarrow> unat (k_router_save_input_size s) + unat (su_size u) \<le> unat (k_max_router_save_input_size s)"
    by (simp add: word_le_nat_alt add)
  show ?thesis
    using q(1-3) assms(2) add fits
    by (auto simp: look_def upd_def upd_unit_def handle_piece_for_backup_def with_unit_def with_req_def Let_def backup_data_def post_run
        backups_seen_def backup_of_def set_payload_def payload_of_def waits_for_copies_def)
qed

lemma router_loop_run:
  assumes "distinct xs" "\<forall>i \<in> set xs. waits_for_copies s i (U i)" "fifo_ok (k_router_tx s)"
    and "unat (k_router_save_input_size s) \<le> unat (k_max_router_save_input_size s)" "k_pending_router_save_reqs s = kept @ xs"
    and "first_fit (unat (k_max_router_save_input_size s)) (unat (k_router_save_input_size s)) (map (\<lambda>i. (i, unat (su_size (U i)))) xs) = (a, b, w)"
  shows "\<exists>s'. router_pending_loop kept xs s = Returns s' \<and> k_pending_router_save_reqs s' = kept @ b
    \<and> unat (k_router_save_input_size s') = w \<and> k_max_router_save_input_size s' = k_max_router_save_input_size s
    \<and> backups_seen s' = backups_seen s @ map (\<lambda>i. backup_of i (U i)) a"
  using assms
proof (induction xs arbitrary: s kept a b)
  case Nil
  then show ?case by (simp add: skip_def)
next
  case (Cons i xs)
  let ?m = "unat (k_max_router_save_input_size s)" and ?z = "unat (k_router_save_input_size s)"
  let ?ns = "map (\<lambda>i. (i, unat (su_size (U i)))) xs"
  have i: "waits_for_copies s i (U i)" using Cons.prems(2) by simp
  note step = router_loop_step [OF i Cons.prems(3,4), of kept xs]
  show ?case
  proof (cases "?z + unat (su_size (U i)) \<le> ?m")
    case True
    then obtain t where t: "router_pending_loop kept (i # xs) s = router_pending_loop kept xs t" "k_pending_router_save_reqs t = kept @ xs"
      "fifo_ok (k_router_tx t)" "unat (k_router_save_input_size t) = ?z + unat (su_size (U i))"
      "k_max_router_save_input_size t = k_max_router_save_input_size s" "backups_seen t = backups_seen s @ [backup_of i (U i)]"
      "\<forall>j v. j \<noteq> i \<longrightarrow> waits_for_copies t j v = waits_for_copies s j v"
      using step by auto
    obtain a' where a': "first_fit ?m (?z + unat (su_size (U i))) ?ns = (a', b, w)" "a = i # a'"
      using Cons.prems(6) True by (auto split: prod.splits)
    have "waits_for_copies t j (U j)" if "j \<in> set xs" for j
      using Cons.prems(1,2) t(7) that by (cases "j = i") auto
    from Cons.IH [of t kept a' b] this Cons.prems(1) t(2-5) a'(1) True show ?thesis
      by (auto simp: t(1,6) a'(2) simp del: router_pending_loop.simps)
  next
    case False
    obtain b' where b': "first_fit ?m ?z ?ns = (a, b', w)" "b = i # b'"
      using Cons.prems(6) False by (auto split: prod.splits)
    show ?thesis
      using Cons.IH [of s "kept @ [i]" a b'] Cons.prems(1-5) b' False step by (auto simp del: router_pending_loop.simps)
  qed
qed

text \<open>
  C9: The queue of copies for the network is served first fit: of the units that wait, the kernel sends, in the order
  of the list, those that fit in what is left of the limit, each with its content, and keeps the others in their
  order. The sizes on their way never exceed the limit, and no unit that stays would have fitted.
\<close>

theorem router_queue_is_first_fit:
  assumes "distinct (k_pending_router_save_reqs s)" "\<forall>i \<in> set (k_pending_router_save_reqs s). waits_for_copies s i (U i)" "fifo_ok (k_router_tx s)"
    and "unat (k_router_save_input_size s) \<le> unat (k_max_router_save_input_size s)"
    and "first_fit (unat (k_max_router_save_input_size s)) (unat (k_router_save_input_size s))
      (map (\<lambda>i. (i, unat (su_size (U i)))) (k_pending_router_save_reqs s)) = (sent, kept, n)"
  shows "(\<exists>s'. process_router_pending_save_requests s = Returns s' \<and> k_pending_router_save_reqs s' = kept
      \<and> unat (k_router_save_input_size s') = n \<and> backups_seen s' = backups_seen s @ map (\<lambda>i. backup_of i (U i)) sent)
    \<and> n \<le> unat (k_max_router_save_input_size s)
    \<and> (\<forall>i \<in> set kept. unat (k_max_router_save_input_size s) < n + unat (su_size (U i)))"
proof -
  have "n \<le> unat (k_max_router_save_input_size s) \<and> (\<forall>i \<in> set kept. unat (k_max_router_save_input_size s) < n + unat (su_size (U i)))"
    using first_fit_full [OF assms(5)] assms(4) by auto
  moreover have "k_pending_router_save_reqs s = [] @ k_pending_router_save_reqs s" by simp
  from router_loop_run [OF assms(1-4) this assms(5)] have "\<exists>s'. process_router_pending_save_requests s = Returns s'
      \<and> k_pending_router_save_reqs s' = kept \<and> unat (k_router_save_input_size s') = n
      \<and> backups_seen s' = backups_seen s @ map (\<lambda>i. backup_of i (U i)) sent"
    by (auto simp: process_router_pending_save_requests_def look_def)
  ultimately show ?thesis by blast
qed

section \<open>Concrete runs\<close>

text \<open>A file of four bytes in two pieces, with room for one more save.\<close>

definition ex_file_request :: request where
  "ex_file_request = (request_new 0 9 5 Receiving cmd_save T_ims)\<lparr>rq_file_path := ''f'', rq_enc := False\<rparr>"

definition ex_piece_unit :: "ID32 \<Rightarrow> save_unit" where
  "ex_piece_unit i = save_unit_new 9 (if i = 3 then 0 else 2) 2 0 Piece (if i = 3 then 6 else 7) default_package cmd_save False"

definition ex_pieces :: kernel where
  "ex_pieces = ex_kernel\<lparr>k_requests := [9 \<mapsto> ex_file_request], k_files := [''f'' \<mapsto> [1, 2, 3, 4]],
     k_save_units := [3 \<mapsto> ex_piece_unit 3, 4 \<mapsto> ex_piece_unit 4], k_pending_save_requests := [4, 3], k_storage_input_cnt := 149\<rparr>"

lemma ex_piece_unit_simps [simp]:
  "su_type (ex_piece_unit i) = Piece" "su_main_request (ex_piece_unit i) = 9" "su_start (ex_piece_unit i) = (if i = 3 then 0 else 2)"
  "su_size (ex_piece_unit i) = 2" "su_uuid (ex_piece_unit i) = (if i = 3 then 6 else 7)" "su_cmd (ex_piece_unit i) = cmd_save"
  "payload_of (su_content (ex_piece_unit i)) = payload_of default_package"
  by (simp_all add: ex_piece_unit_def save_unit_new_def)

theorem pieces_go_to_storage_witness:
  "\<exists>s'. process_storage_pending_save_requests ex_pieces = Returns s' \<and> k_pending_save_requests s' = [3]
    \<and> saves_seen s' = [(cmd_save_data, 7, Some [3, 4], True)] \<and> unat (k_storage_input_cnt s') = 150"
proof -
  have s: "k_pending_save_requests ex_pieces = [4, 3]" "k_pending_router_save_reqs ex_pieces = []" "k_storage_input_cnt ex_pieces = 149"
    "fifo_ok (k_storage_writer_tx ex_pieces)" "saves_seen ex_pieces = []"
    by (simp_all add: ex_pieces_def saves_seen_def ex_kernel_def kernel_new_def)
  have "local_piece ex_pieces [1, 2, 3, 4] i (ex_piece_unit i)" if "i \<in> {3, 4}" for i
    using that by (auto simp: local_piece_def ex_pieces_def ex_file_request_def request_new_def request_dated_def)
  then show ?thesis
    using pieces_go_to_storage [of ex_pieces "[1, 2, 3, 4]" ex_piece_unit 1] by (auto simp: s read_piece_def)
qed

text \<open>Copies of two bytes each, with room for three: the first of two goes out.\<close>

definition ex_queued :: kernel where
  "ex_queued = ex_pieces\<lparr>k_pending_router_save_reqs := [4, 3], k_max_router_save_input_size := 3, k_router_save_input_size := 0\<rparr>"

theorem router_queue_is_first_fit_witness:
  "(\<exists>s'. process_router_pending_save_requests ex_queued = Returns s' \<and> k_pending_router_save_reqs s' = [3]
      \<and> unat (k_router_save_input_size s') = 2 \<and> backups_seen s' = [(cmd_save, 4, 7, Some [])])"
proof -
  have s: "k_pending_router_save_reqs ex_queued = [4, 3]" "k_max_router_save_input_size ex_queued = 3" "k_router_save_input_size ex_queued = 0"
    "fifo_ok (k_router_tx ex_queued)" "backups_seen ex_queued = []"
    by (simp_all add: ex_queued_def ex_pieces_def backups_seen_def ex_kernel_def kernel_new_def)
  have "waits_for_copies ex_queued i (ex_piece_unit i)" if "i \<in> {3, 4}" for i
    using that by (auto simp: waits_for_copies_def ex_queued_def ex_pieces_def ex_file_request_def request_new_def request_dated_def)
  moreover have "payload_of default_package = Some []"
    by (simp add: payload_of_def default_package_def)
  ultimately show ?thesis
    using router_queue_is_first_fit [of ex_queued ex_piece_unit "[4]" "[3]" 2] by (auto simp: s backup_of_def)
qed

end
