(* ===== verification/Node_Props.thy ===== *)
theory Node_Props
  imports Kernel_Files_Props Storage_Props
begin

text \<open>
  Properties of tasks together: a file on its way through the kernel and the storage.
\<close>

section \<open>Saving and getting a small file\<close>

lemma get_data_message:
  assumes "s_db s = Some db" "ks_cmd inp = cmd_get" "db_get (uuid_to_string L (ks_uuid inp)) db = Inr d"
  shows "\<exists>s' r. storage_process_kernel_input L inp s = Done s' \<and> replies s s' r \<and> ks_cmd r = cmd_get_data \<and> ks_uuid r = ks_uuid inp
    \<and> ks_request_id r = ks_request_id inp \<and> p_message r = p_message d"
proof -
  define g where "g = (\<lambda>out :: kernel_storage_package. set_payload d (out\<lparr>ks_request_id := ks_request_id inp, ks_cmd := cmd_get_data,
    ks_uuid := ks_uuid inp\<rparr>))"
  define s' where "s' = commit_to_kernel (to_kernel g s)"
  have "storage_process_kernel_input L inp s = Done s'"
    using assms by (simp add: storage_process_kernel_input_def get_data_from_db_def s'_def g_def to_kernel_def commit_to_kernel_def)
  moreover have "replies s s' (g (slot (sg_kernel_tx s)))"
    by (rule replies_commit) (simp add: s'_def commit_to_kernel_def to_kernel_def)
  ultimately show ?thesis by (auto simp: g_def set_payload_def)
qed

lemma read_package_message:
  assumes "read_package bs = Inr d" "bs \<noteq> []" "length bs < 2 ^ 31 - 1"
  shows "p_message d = Some (bs @ [0])"
proof -
  have u: "unat (of_nat (length bs) :: ID32) = length bs"
    using assms(3) by (simp add: unat_of_nat take_bit_nat_eq_self)
  then have "(of_nat (length bs) :: ID32) \<noteq> 0"
    using assms(2) by (metis length_0_conv unsigned_0)
  then show ?thesis
    using assms(1) u by (auto simp: read_package_def Let_def set_payload_owned_def resize_def assert_that_def split: if_splits)
qed

lemma saved_message:
  assumes "s_db s = Some db" "ks_cmd inp = cmd_save_data" "fst (overwrite (uuid_to_string L (ks_uuid inp)) inp db) = None"
    and "cached (uuid_to_string L (ks_uuid inp)) db = None" "uuid_to_string L (ks_uuid inp) \<notin> set (read_fails db)"
    and "payload_of inp = Some bs" "bs \<noteq> []" "length bs < 2 ^ 31 - 1"
    and "\<forall>m \<in> set ms. \<not> touches L (uuid_to_string L (ks_uuid inp)) m" "serve L (inp # ms) s = Done s'"
  shows "\<exists>db' d. s_db s' = Some db' \<and> db_get (uuid_to_string L (ks_uuid inp)) db' = Inr d \<and> p_message d = Some (bs @ [0])"
proof -
  let ?n = "uuid_to_string L (ks_uuid inp)" and ?db' = "fold (kernel_effect L) (inp # ms) db"
  obtain db1 where ow: "overwrite ?n inp db = (None, db1)"
    using assms(3) by (cases "overwrite ?n inp db") auto
  have content: "content_bytes inp = Some bs"
    using overwrite_content [OF ow] content_payload assms(6) by fastforce
  have e: "kernel_effect L inp db = db1"
    by (simp add: kernel_effect_def assms(2) Let_def ow)
  have h: "held ?n ?db' = held ?n db1" and rf: "read_fails ?db' = read_fails db1"
    using untouched_run [OF assms(9), of db1] by (simp_all add: e)
  have "stored ?n ?db' = Some bs" and "cached ?n ?db' = None"
    using held_stored [OF h] stored_overwrite [OF ow, of ?n] assms(4) content cached_overwrite [of ?n ?n inp db]
    by (simp_all add: ow)
  moreover have "?n \<notin> set (read_fails ?db')"
    unfolding rf using assms(5) read_fails_ops(1) [of ?n inp db] by (simp add: ow)
  moreover obtain d where "read_package bs = Inr d"
    using read_package_payload [OF assms(8)] by blast
  ultimately have "db_get ?n ?db' = Inr d" "p_message d = Some (bs @ [0])"
    using read_package_message assms(7,8) by (auto simp: stored_def cached_def db_get_def look_up_def look_up_in_cache_def file_exists_def)
  then show ?thesis
    using serve_effect [OF assms(10,1)] by blast
qed

text \<open>The library gives back what was printed and encoded.\<close>

definition gives_back :: "klib \<Rightarrow> jobj \<Rightarrow> byte list \<Rightarrow> bool" where
  "gives_back L m c \<longleftrightarrow> kl_parse L (kl_print L m) = Some m \<and> kl_print L m \<noteq> [] \<and> CHR 0x00 \<notin> set (kl_print L m)
     \<and> kl_b64_decode L (kl_b64_encode L c) = c"

text \<open>The storage \<open>sg\<close> saved the package \<open>w\<close> and then served \<open>ms\<close>, none of which concerns the uuid.\<close>

definition saved_by :: "klib \<Rightarrow> kernel_storage_package \<Rightarrow> kernel_storage_package list \<Rightarrow> storage \<Rightarrow> storage \<Rightarrow> bool" where
  "saved_by L w ms sg sg' \<longleftrightarrow> (let n = uuid_to_string (kl_poco L) (ks_uuid w) in
     (\<exists>db. s_db sg = Some db \<and> fst (overwrite n w db) = None \<and> cached n db = None \<and> n \<notin> set (read_fails db))
     \<and> (\<forall>m \<in> set ms. \<not> touches (kl_poco L) n m) \<and> serve (kl_poco L) (w # ms) sg = Done sg')"

text \<open>
  C1: A file of up to one chunk that is saved without encryption comes back byte by byte. The kernel of the node that
  saves it puts its content in the master object and sends that to the storage; if the storage saves it, then whatever
  it serves later about other uuids, a get of any kernel with this storage is answered: the content is written to a
  new temporary file, and every request that waits for the uuid gets the name of the file and the type of the content.
  The library is the one that prints, parses, encodes and decodes this object faithfully.
\<close>

theorem small_file_round_trip:
  assumes "k_requests s i = Some q" "rq_request_id q = i" "rq_master_json q = Some []" "\<not> rq_enc q" "rq_local q"
    and "content_of q s = Some c" "length c \<le> max_chunk_size" "take 5 (rq_content_type q) \<notin> {''video'', ''audio''}"
    and "k_requests s (k_request_counter s) = None" "fifo_ok (k_storage_writer_tx s)"
    and L: "k_lib s = L" "k_lib k = L" "gives_back L (small_object L q c) c"
    and t: "t = kl_print L (small_object L q c)" "length t < 2 ^ 31 - 1"
    and storage: "saved_by L (object_package s (rq_uuid q) t) ms sg sg'"
    and get: "asks_for k r p bs" "ks_cmd g = cmd_get" "ks_uuid g = rq_uuid q" "ks_request_id g = r"
  shows "(\<exists>s1. start_master_object_save i s = Returns s1
      \<and> pending (k_storage_writer_tx s1) = pending (k_storage_writer_tx s) @ [object_package s (rq_uuid q) t])
    \<and> (\<exists>sg'' d k'. storage_process_kernel_input (kl_poco L) g sg' = Done sg'' \<and> replies sg' sg'' d
      \<and> kernel_process_storage_input d k = Returns k'
      \<and> k_files k' = (k_files k)(k_tmp_names k (k_tmp_count k) \<mapsto> c)
      \<and> map (\<lambda>a. (im_request_id a, im_cmd a, im_uuid a, im_file_path a, im_content_type a)) (pending (k_ims_tx k'))
        = map (\<lambda>a. (im_request_id a, im_cmd a, im_uuid a, im_file_path a, im_content_type a)) (pending (k_ims_tx k))
          @ map (\<lambda>j. (j, cmd_get_data, rq_uuid p, k_tmp_names k (k_tmp_count k), rq_content_type q)) (waiting_ids k bs))"
    (is "?saved \<and> ?got")
proof
  let ?w = "object_package s (rq_uuid q) t" and ?f = "k_tmp_names k (k_tmp_count k)"
  show ?saved
    using small_save_run [OF assms(1-7), of t] assms(9,10) L(1) t by simp
  have lib: "kl_parse L t = Some (small_object L q c)" "t \<noteq> []" "CHR 0x00 \<notin> set t" "kl_b64_decode L (kl_b64_encode L c) = c"
    using L(3) by (simp_all add: gives_back_def t(1))
  have u: "unat (of_nat (length t) :: ID32) = length t"
    using t(2) by (simp add: unat_of_nat take_bit_nat_eq_self)
  then have pl: "payload_of ?w = Some (bytes_of t)" "bytes_of t \<noteq> []" "length (bytes_of t) < 2 ^ 31 - 1"
    using lib(2) t(2) by (auto simp: payload_of_def mem_read_def bytes_of_def)
  from storage obtain db where "s_db sg = Some db" "fst (overwrite (uuid_to_string (kl_poco L) (ks_uuid ?w)) ?w db) = None"
    "cached (uuid_to_string (kl_poco L) (ks_uuid ?w)) db = None" "uuid_to_string (kl_poco L) (ks_uuid ?w) \<notin> set (read_fails db)"
    "\<forall>m \<in> set ms. \<not> touches (kl_poco L) (uuid_to_string (kl_poco L) (ks_uuid ?w)) m" "serve (kl_poco L) (?w # ms) sg = Done sg'"
    by (auto simp: saved_by_def Let_def)
  from saved_message [OF this(1) _ this(2,3,4) pl this(5,6)] obtain db' e where e: "s_db sg' = Some db'"
    "db_get (uuid_to_string (kl_poco L) (rq_uuid q)) db' = Inr e" "p_message e = Some (bytes_of t @ [0])" by auto
  from get_data_message [OF e(1) get(2), of "kl_poco L" e] e(2,3) get(3,4) obtain sg'' d where d: "storage_process_kernel_input (kl_poco L) g sg' = Done sg''"
    "replies sg' sg'' d" "ks_cmd d = cmd_get_data" "ks_request_id d = r" "p_message d = Some (bytes_of t @ [0])" by auto
  have m: "inline_object (k_lib k) (small_object L q c) (rq_content_type q) c" "kl_parse (k_lib k) t = Some (small_object L q c)"
    using small_object_inline [OF lib(4) assms(8)] lib(1) L(2) by simp_all
  from small_get_run [OF get(1) m d(5) lib(3) refl] obtain k' where k': "got_master_object d r k = Returns k'" "k_files k' = (k_files k)(?f \<mapsto> c)"
    "pending (k_ims_tx k') = pending (k_ims_tx k)
      @ map (file_answer (p\<lparr>rq_file_path := ?f, rq_response_file_path := Some ?f, rq_content_type := rq_content_type q\<rparr>)) (waiting_ids k bs)"
    by blast
  have "kernel_process_storage_input d k = Returns k'"
    using get(1) d(3,4) k'(1) by (simp add: kernel_process_storage_input_def Let_def handle_storage_get_response_def if_req_def asks_for_def)
  with d(1,2) k' show ?got
    by (fastforce simp: file_answer_def)
qed

section \<open>A concrete node\<close>

text \<open>A file of three bytes to be saved as uuid 4; the library prints its object as a text of its own.\<close>

definition ex_small :: request where
  "ex_small = (request_new 0 9 4 Receiving cmd_save T_ims)\<lparr>rq_file_path := ''f'', rq_enc := False, rq_master_json := Some [],
     rq_content_type := ''text''\<rparr>"

definition ex_node_lib :: klib where
  "ex_node_lib = ex_lib\<lparr>kl_parse := (\<lambda>_. Some (small_object ex_lib ex_small [7, 8, 9]))\<rparr>"

definition ex_saver :: kernel where
  "ex_saver = (kernel_new ex_node_lib of_nat (\<lambda>_. ''t''))\<lparr>k_requests := [9 \<mapsto> ex_small], k_files := [''f'' \<mapsto> [7, 8, 9]]\<rparr>"

definition ex_getter :: kernel where
  "ex_getter = (kernel_new ex_node_lib of_nat (\<lambda>_. ''t''))\<lparr>k_requests := [1 \<mapsto> request_new 0 1 4 Lookup_in_db cmd_get T_ims],
     k_pending_ims_get_requests := [4 \<mapsto> [1]], k_ims_req_ids := [(1, 71)], k_user_json := Some [(''owned_data'', J_obj [])]\<rparr>"

lemma ex_node_lib_simps [simp]: "kl_poco ex_node_lib = poco_ref" "kl_print ex_node_lib m = ''{}''" "kl_b64_encode ex_node_lib = chars"
  "kl_b64_decode ex_node_lib = bytes_of" "kl_parse ex_node_lib t = Some (small_object ex_lib ex_small [7, 8, 9])"
  by (simp_all add: ex_node_lib_def ex_lib_def)

lemma ex_saved:
  assumes w: "w = object_package ex_saver 4 ''{}''"
  shows "fst (overwrite (ex_name 4) w ex_db) = None" "\<exists>sg'. serve poco_ref [w] ex_storage = Done sg'"
proof -
  have content: "content_bytes w = Some (bytes_of ''{}'')"
    by (simp add: w content_bytes_def payload_of_def mem_read_def word_sless_alt)
  show ow: "fst (overwrite (ex_name 4) w ex_db) = None"
    using content by (simp add: overwrite_def reduce_uuid_size_def create_def w)
  then obtain db1 where "overwrite (ex_name 4) w ex_db = (None, db1)"
    by (cases "overwrite (ex_name 4) w ex_db") auto
  then show "\<exists>sg'. serve poco_ref [w] ex_storage = Done sg'"
    using save_data_ok [of ex_storage ex_db w poco_ref db1] by (auto simp: w serve_def)
qed

theorem small_file_round_trip_witness:
  "\<exists>s1 sg' sg'' d k'. start_master_object_save 9 ex_saver = Returns s1
    \<and> serve poco_ref (pending (k_storage_writer_tx s1)) ex_storage = Done sg'
    \<and> storage_process_kernel_input poco_ref (kernel_storage_package0\<lparr>ks_cmd := cmd_get, ks_uuid := 4, ks_request_id := 1\<rparr>) sg' = Done sg''
    \<and> replies sg' sg'' d \<and> kernel_process_storage_input d ex_getter = Returns k' \<and> k_files k' ''t'' = Some [7, 8, 9]
    \<and> map (\<lambda>a. (im_request_id a, im_cmd a, im_file_path a, im_content_type a)) (pending (k_ims_tx k')) = [(71, cmd_get_data, ''t'', ''text'')]"
proof -
  let ?g = "kernel_storage_package0\<lparr>ks_cmd := cmd_get, ks_uuid := 4, ks_request_id := 1\<rparr>"
  define w where "w = object_package ex_saver 4 ''{}''"
  obtain sg' where run: "serve poco_ref [w] ex_storage = Done sg'"
    using ex_saved [OF w_def] by blast
  have lib: "k_lib ex_saver = ex_node_lib" "k_lib ex_getter = ex_node_lib" "gives_back ex_node_lib (small_object ex_node_lib ex_small [7, 8, 9]) [7, 8, 9]"
    by (simp_all add: ex_saver_def ex_getter_def kernel_new_def gives_back_def small_object_def chars_def bytes_of_def)
  have s: "k_requests ex_saver 9 = Some ex_small" "rq_request_id ex_small = 9" "rq_master_json ex_small = Some []" "\<not> rq_enc ex_small" "rq_local ex_small"
    "content_of ex_small ex_saver = Some [7, 8, 9]" "length [7, 8, 9 :: byte] \<le> max_chunk_size" "take 5 (rq_content_type ex_small) \<notin> {''video'', ''audio''}"
    "k_requests ex_saver (k_request_counter ex_saver) = None" "fifo_ok (k_storage_writer_tx ex_saver)"
    by (simp_all add: ex_saver_def ex_small_def request_new_def request_dated_def kernel_new_def content_of_def max_chunk_size_def)
  have u: "rq_uuid ex_small = 4" "rq_content_type ex_small = ''text''"
    by (simp_all add: ex_small_def request_new_def request_dated_def)
  have saved: "saved_by ex_node_lib (object_package ex_saver (rq_uuid ex_small) ''{}'') [] ex_storage sg'"
    using ex_saved [OF w_def] run by (simp add: saved_by_def u w_def [symmetric] cached_def) (simp add: w_def cached_def)
  have get: "asks_for ex_getter 1 (request_new 0 1 4 Lookup_in_db cmd_get T_ims) [1]" "ks_cmd ?g = cmd_get" "ks_uuid ?g = rq_uuid ex_small" "ks_request_id ?g = 1"
    by (simp_all add: asks_for_def ex_getter_def kernel_new_def request_new_def request_dated_def get_object_def u)
  have k: "k_tmp_names ex_getter (k_tmp_count ex_getter) = ''t''" "pending (k_ims_tx ex_getter) = []" "waiting_ids ex_getter [1] = [71]"
    "pending (k_storage_writer_tx ex_saver) = []"
    by (simp_all add: ex_getter_def ex_saver_def kernel_new_def waiting_ids_def List.map_filter_def ims_id_def)
  have "''{}'' = kl_print ex_node_lib (small_object ex_node_lib ex_small [7, 8, 9])" "length ''{}'' < 2 ^ 31 - 1"
    by simp_all
  from small_file_round_trip [OF s(1-10) lib this saved get] show ?thesis
    using run by (fastforce simp: k u w_def)
qed

end
