(* ===== verification/Link_Peer.thy ===== *)
theory Link_Peer
  imports Actions Protocols Csp_Fifo
begin

text \<open>
  \<^verbatim>\<open>metax/link_peer.cpp\<close>: the task at the end of a connection. Messages of the link are framed on the socket with
  a word that holds the size in its lower three bytes and the flags in the upper one; the reading thread takes frames off
  the socket and posts them to the link. A socket delivers its bytes in segments of any size.
\<close>

section \<open>Packages\<close>

record link_peer_package = package +
  lpp_request_id :: ID32
  lpp_cmd :: command

definition link_peer_package0 :: link_peer_package where
  "link_peer_package0 = package.extend default_package \<lparr>lpp_request_id = 0, lpp_cmd = cmd_max_command\<rparr>"

definition PING :: "8 word" where
  "PING = 1"

definition PONG :: "8 word" where
  "PONG = 2"

definition LINK_MSG :: "8 word" where
  "LINK_MSG = 3"

definition link_data0 :: link_data where
  "link_data0 = package.extend default_package \<lparr>ld_cmd = cmd_max_command, ld_public_key = [], ld_load_info = 0\<rparr>"

text \<open>The loops that consume everything that is pending.\<close>

definition consume :: "'a fifo \<Rightarrow> 'a fifo" where
  "consume f = f\<lparr>m_internal := tl (m_internal f)\<rparr>"

definition consume_all :: "'a fifo \<Rightarrow> 'a fifo" where
  "consume_all f = f\<lparr>m_internal := drop (data_count f) (m_internal f)\<rparr>"

section \<open>Reading from a socket\<close>

text \<open>\<^verbatim>\<open>receiveBytes\<close> gives at most what the next segment holds; nothing at the end of the stream.\<close>

fun receive_bytes :: "nat \<Rightarrow> byte list list \<Rightarrow> byte list \<times> byte list list" where
  "receive_bytes n [] = ([], [])"
| "receive_bytes n (seg # segs) = (if length seg \<le> n then (seg, segs) else (take n seg, drop n seg # segs))"

lemma receive_bytes_length: "receive_bytes n segs = (bs, rest) \<Longrightarrow> length bs \<le> n"
  by (induction n segs rule: receive_bytes.induct) (auto split: if_splits)

lemma receive_bytes_concat: "receive_bytes n segs = (bs, rest) \<Longrightarrow> concat segs = bs @ concat rest"
  by (induction n segs rule: receive_bytes.induct) (auto split: if_splits)

function read_nbytes :: "nat \<Rightarrow> byte list list \<Rightarrow> (byte list \<times> byte list list) option" where
  "read_nbytes n segs =
     (if n = 0 then Some ([], segs)
      else case receive_bytes n segs of (bs, rest) \<Rightarrow>
        if bs = [] then None
        else (case read_nbytes (n - length bs) rest of None \<Rightarrow> None | Some (cs, rest) \<Rightarrow> Some (bs @ cs, rest)))"
  by pat_completeness auto
termination
  by (relation "measure fst") auto

declare read_nbytes.simps [simp del]

definition read_message_size :: "byte list list \<Rightarrow> (ID32 \<times> byte list list) option" where
  "read_message_size segs = (case read_nbytes 4 segs of None \<Rightarrow> None | Some (bs, rest) \<Rightarrow> Some (un_be bs, rest))"

text \<open>\<open>None\<close>: an exception, also for more than a gigabyte, which three bytes cannot say.\<close>

definition read_message :: "byte list list \<Rightarrow> (package \<times> byte list list) option" where
  "read_message segs =
     (case read_message_size segs of None \<Rightarrow> None
      | Some (header, rest) \<Rightarrow>
          let message_size = header AND 0x00FFFFFF in
          if unat message_size > 1000000000 then None
          else (case read_nbytes (unat message_size) rest of None \<Rightarrow> None
                | Some (bs, rest) \<Rightarrow> Some (default_package\<lparr>p_flags := ucast (drop_bit 24 (header AND 0xFF000000)),
                    p_size := message_size, p_message := Some bs\<rparr>, rest)))"

section \<open>Framing\<close>

definition frame_header :: "'a package_scheme \<Rightarrow> ID32" where
  "frame_header p = p_size p OR push_bit 24 (ucast (p_flags p))"

text \<open>What \<open>send_by_socket\<close> writes: an assertion fails without a payload, the copy leaves the buffer when it is too short.\<close>

definition send_by_socket :: "'a package_scheme \<Rightarrow> (byte list \<Rightarrow> 's act) \<Rightarrow> 's act" where
  "send_by_socket p k =
     (if p_size p = 0 then raise_error Assertion_violation
      else must (mem_read (p_message p) 0 (unat (p_size p))) (\<lambda>bs. k (be32 (frame_header p) @ bs)))"

section \<open>The task\<close>

text \<open>\<open>q_error\<close> is the channel of the task to itself; \<open>q_sent\<close> what was written on the socket, \<open>q_socket_in\<close> what it will deliver.\<close>

record link_peer =
  q_link_rx :: "link_peer_package fifo"
  q_link_tx :: "link_peer_package fifo"
  q_error :: "bool fifo"
  q_ping_rx :: "link_peer_package fifo"
  q_socket_in :: "byte list list"
  q_sent :: "byte list"
  q_socket_broken :: bool

definition link_peer_new :: "byte list list \<Rightarrow> link_peer" where
  "link_peer_new segs = \<lparr>q_link_rx = fifo_new link_peer_package0, q_link_tx = fifo_new link_peer_package0, q_error = fifo_new False,
     q_ping_rx = fifo_new link_peer_package0, q_socket_in = segs, q_sent = [], q_socket_broken = False\<rparr>"

definition q_send :: "byte list \<Rightarrow> link_peer act" where
  "q_send bs q = (if q_socket_broken q then Raises Poco_error q else Returns (q\<lparr>q_sent := q_sent q @ bs\<rparr>))"

definition clear_inputs :: "link_peer act" where
  "clear_inputs = upd (\<lambda>q. q\<lparr>q_link_rx := consume_all (q_link_rx q), q_error := deactivate (consume_all (q_error q)),
     q_ping_rx := consume_all (q_ping_rx q)\<rparr>)"

definition q_post :: "(link_peer_package \<Rightarrow> link_peer_package) \<Rightarrow> link_peer act" where
  "q_post f = upd (\<lambda>q. q\<lparr>q_link_tx := commit link_peer_package0 (set_slot f (q_link_tx q))\<rparr>)"

definition disconnect_from_link :: "link_peer act" where
  "disconnect_from_link = run_all [clear_inputs,
     text_package ''Connection with peer is invalid'' (\<lambda>p. q_post (\<lambda>out.
       out\<lparr>lpp_cmd := cmd_disconnect, p_size := p_size p, p_message := p_message p\<rparr>))]"

definition handle_link_data_of_peer :: "link_peer act" where
  "handle_link_data_of_peer = run_all [
     check (\<lambda>q. has_data (q_link_rx q)),
     catching_all (look (\<lambda>q. fifo_front (q_link_rx q)) (\<lambda>f. must f (\<lambda>pkg. run_all [
       send_by_socket pkg q_send, upd (\<lambda>q. q\<lparr>q_link_rx := consume (q_link_rx q)\<rparr>)])))
       disconnect_from_link]"

definition handle_link_input_of_peer :: "link_peer act" where
  "handle_link_input_of_peer q = (case fifo_front (q_link_rx q) of None \<Rightarrow> Returns q
     | Some pkg \<Rightarrow> (if lpp_cmd pkg = cmd_data then handle_link_data_of_peer
         else if lpp_cmd pkg = cmd_shutdown then disconnect_from_link
         else raise_error Assertion_violation) q)"

definition handle_ping_input :: "link_peer act" where
  "handle_ping_input q = (case fifo_front (q_ping_rx q) of None \<Rightarrow> Returns q
     | Some pkg \<Rightarrow> catching_all (run_all [q_send (be32 (push_bit 24 (ucast (p_flags pkg)))),
         upd (\<lambda>q. q\<lparr>q_ping_rx := consume (q_ping_rx q)\<rparr>)]) disconnect_from_link q)"

definition handle_socket_error :: "link_peer act" where
  "handle_socket_error q = (if has_data (q_error q) then disconnect_from_link q else Returns q)"

text \<open>\<open>dev\<close>, \<open>key\<close> and \<open>n\<close> are the device id, the public key and the number of peers of the link.\<close>

definition send_device_id :: "byte list \<Rightarrow> string \<Rightarrow> nat \<Rightarrow> link_peer act" where
  "send_device_id dev key n =
     must (ld_serialize (link_data0\<lparr>ld_cmd := cmd_device_id, p_size := of_nat (length dev), p_message := Some dev,
       ld_public_key := bytes_of key, ld_load_info := of_nat n\<rparr>) (default_package\<lparr>p_flags := LINK_MSG\<rparr>))
     (\<lambda>pkg. catching_all (send_by_socket pkg q_send) disconnect_from_link)"

definition link_peer_turn :: "link_peer act" where
  "link_peer_turn = run_all [handle_ping_input, handle_link_input_of_peer, handle_socket_error]"

section \<open>The reading thread\<close>

definition handle_socket_data :: "link_peer act" where
  "handle_socket_data q = (case read_message (q_socket_in q) of None \<Rightarrow> Raises Poco_error (q\<lparr>q_socket_in := []\<rparr>)
     | Some (pkg, rest) \<Rightarrow> q_post (\<lambda>out. (set_payload pkg out)\<lparr>lpp_cmd := cmd_data\<rparr>) (q\<lparr>q_socket_in := rest\<rparr>))"

definition handle_socket_disconnection :: "link_peer act" where
  "handle_socket_disconnection = upd (\<lambda>q. q\<lparr>q_error := commit False (set_slot (\<lambda>_. True) (q_error q))\<rparr>)"

lemma read_nbytes_concat: "read_nbytes n segs = Some (bs, rest) \<Longrightarrow> length bs = n \<and> concat segs = bs @ concat rest"
proof (induction n segs arbitrary: bs rest rule: read_nbytes.induct)
  case (1 n segs)
  obtain cs mid where rc: "receive_bytes n segs = (cs, mid)"
    by (cases "receive_bytes n segs")
  show ?case
  proof (cases "n = 0")
    case True
    with "1.prems" show ?thesis
      by (simp add: read_nbytes.simps [of 0])
  next
    case False
    with "1.prems" rc obtain ds where ds: "cs \<noteq> []" "read_nbytes (n - length cs) mid = Some (ds, rest)" "bs = cs @ ds"
      by (subst (asm) read_nbytes.simps) (auto split: if_splits option.splits)
    then show ?thesis
      using "1.IH" [OF False rc [symmetric] ds(1,2)] receive_bytes_length [OF rc] receive_bytes_concat [OF rc] by auto
  qed
qed

lemma read_message_shorter: "read_message segs = Some (p, rest) \<Longrightarrow> length (concat rest) < length (concat segs)"
  by (auto simp: read_message_def read_message_size_def Let_def split: option.splits if_splits dest!: read_nbytes_concat)

text \<open>Every frame takes at least four bytes, so the thread ends with the stream.\<close>

function handle_socket_input :: "link_peer act" where
  "handle_socket_input q = (case handle_socket_data q of Returns q' \<Rightarrow> handle_socket_input q'
     | Raises e q' \<Rightarrow> handle_socket_disconnection q' | Crashes \<Rightarrow> Crashes)"
  by pat_completeness auto
termination
  by (relation "measure (\<lambda>q. length (concat (q_socket_in q)))")
    (auto simp: handle_socket_data_def q_post_def upd_def split: option.splits prod.splits dest: read_message_shorter)

declare handle_socket_input.simps [simp del]

end
