(* ===== verification/Key_Manager.thy ===== *)
theory Key_Manager
  imports Kernel_State
begin

text \<open>
  \<^verbatim>\<open>metax/key_manager.cpp\<close>: the task that holds the keys. It encrypts and decrypts for the kernel, shares keys, keeps a
  cipher per livestream, and makes and replaces the keys of the user. OpenSSL, as Poco wraps it, is the parameter
  \<open>crypto\<close>; \<open>crypto_ok\<close> is its documented behaviour. A cipher of a key pair is the pair of PEM texts it was made from. The
  disk is a map from paths to contents, with the paths that cannot be written, moved or made a directory.
\<close>

section \<open>The library\<close>

text \<open>
  Fresh keys (key and initial vector, public and private PEM) are functions of how many were made before. A call that
  may throw returns a sum. \<open>cr_wrap\<close> and \<open>cr_unwrap\<close> are \<^verbatim>\<open>encryptString\<close> and \<^verbatim>\<open>decryptString\<close> of a key pair with base64,
  \<open>cr_seal\<close> and \<open>cr_open\<close> its cipher streams; a failing input stream only ends early.
\<close>

record crypto =
  cr_new_aes :: "nat \<Rightarrow> byte list \<times> byte list"
  cr_cipher :: "byte list \<Rightarrow> byte list \<Rightarrow> exn + unit"
  cr_encrypt :: "byte list \<Rightarrow> byte list \<Rightarrow> byte list \<Rightarrow> exn + byte list"
  cr_decrypt :: "byte list \<Rightarrow> byte list \<Rightarrow> byte list \<Rightarrow> exn + byte list"
  cr_new_rsa :: "nat \<Rightarrow> byte list \<times> byte list"
  cr_load :: "byte list \<Rightarrow> byte list \<Rightarrow> exn + unit"
  cr_is_public :: "byte list \<Rightarrow> bool"
  cr_wrap :: "byte list \<Rightarrow> byte list \<Rightarrow> exn + string"
  cr_unwrap :: "byte list \<Rightarrow> string \<Rightarrow> exn + byte list"
  cr_seal :: "byte list \<Rightarrow> byte list \<Rightarrow> exn + byte list"
  cr_open :: "byte list \<Rightarrow> byte list \<Rightarrow> byte list"
  cr_certificate :: "byte list \<Rightarrow> byte list \<Rightarrow> exn + byte list"

text \<open>
  What was encrypted with a key is decrypted with it, and a generated pair can be loaded and is a pair. Nothing is
  encrypted to the empty text by a public key, and a pair can be certified. Of the empty text \<open>encryptString\<close> of a public
  key promises nothing; the code passes it keys and initial vectors only.
\<close>

definition good_key :: "crypto \<Rightarrow> byte list \<times> byte list \<Rightarrow> bool" where
  "good_key C ki \<longleftrightarrow> fst ki \<noteq> [] \<and> snd ki \<noteq> [] \<and> cr_cipher C (fst ki) (snd ki) = Inr ()
     \<and> (\<forall>x. \<exists>y. cr_encrypt C (fst ki) (snd ki) x = Inr y \<and> cr_decrypt C (fst ki) (snd ki) y = Inr x)"

definition is_pair :: "crypto \<Rightarrow> byte list \<times> byte list \<Rightarrow> bool" where
  "is_pair C p \<longleftrightarrow> cr_load C (fst p) (snd p) = Inr () \<and> cr_is_public C (fst p)
     \<and> (\<forall>x. x \<noteq> [] \<longrightarrow> (\<exists>y. cr_wrap C (fst p) x = Inr y \<and> y \<noteq> [] \<and> cr_unwrap C (snd p) y = Inr x))
     \<and> (\<forall>x. \<exists>y. cr_seal C (fst p) x = Inr y \<and> cr_open C (snd p) y = x)
     \<and> (\<exists>c. cr_certificate C (fst p) (snd p) = Inr c)"

definition crypto_ok :: "crypto \<Rightarrow> bool" where
  "crypto_ok C \<longleftrightarrow> (\<forall>n. good_key C (cr_new_aes C n)) \<and> (\<forall>n. is_pair C (cr_new_rsa C n))"

section \<open>Packages and state\<close>

record key_manager_cfg_package = package +
  kmc_path :: string
  kmc_cmd :: command
  kmc_user_json_info :: "jobj option"
  kmc_is_generated :: bool

definition key_manager_cfg_package0 :: key_manager_cfg_package where
  "key_manager_cfg_package0 = package.extend default_package
     \<lparr>kmc_path = [], kmc_cmd = cmd_max_command, kmc_user_json_info = None, kmc_is_generated = False\<rparr>"

record link_key_manager_package = key_transfer_package +
  lk_request_id :: ID32

definition link_key_manager_package0 :: link_key_manager_package where
  "link_key_manager_package0 = package.extend default_package
     \<lparr>kt_cmd = cmd_max_command, kt_code = [], kt_public_key = [], kt_private_key = [], kt_user_json_info = [], lk_request_id = 0\<rparr>"

text \<open>
  A cipher of a stream is its key and initial vector, a cipher of a key pair the two PEM texts. \<open>y_error_text\<close> is what
  the exception at hand would say.
\<close>

record key_manager =
  y_kernel_rx :: "kernel_key_manager_package fifo"
  y_config_rx :: "key_manager_cfg_package fifo"
  y_link_rx :: "link_key_manager_package fifo"
  y_kernel_tx :: "kernel_key_manager_package fifo"
  y_config_tx :: "key_manager_cfg_package fifo"
  y_user_key_path :: string
  y_user_json_key_path :: string
  y_device_cipher :: "(byte list \<times> byte list) option"
  y_user_cipher :: "(byte list \<times> byte list) option"
  y_stream_ciphers :: "uuid \<rightharpoonup> byte list \<times> byte list"
  y_lib :: klib
  y_crypto :: crypto
  y_disk :: "string \<rightharpoonup> byte list"
  y_locked :: "string list"
  y_stuck :: "string list"
  y_no_directory :: "string list"
  y_aes_count :: nat
  y_rsa_count :: nat
  y_uuids :: "nat \<Rightarrow> uuid"
  y_uuid_count :: nat
  y_error_text :: string

definition key_manager_new :: "klib \<Rightarrow> crypto \<Rightarrow> (nat \<Rightarrow> uuid) \<Rightarrow> (string \<rightharpoonup> byte list) \<Rightarrow> key_manager" where
  "key_manager_new L C uuids disk =
     \<lparr>y_kernel_rx = fifo_new kernel_key_manager_package0, y_config_rx = fifo_new key_manager_cfg_package0,
      y_link_rx = fifo_new link_key_manager_package0, y_kernel_tx = fifo_new kernel_key_manager_package0,
      y_config_tx = fifo_new key_manager_cfg_package0, y_user_key_path = [], y_user_json_key_path = [], y_device_cipher = None,
      y_user_cipher = None, y_stream_ciphers = Map.empty, y_lib = L, y_crypto = C, y_disk = disk, y_locked = [], y_stuck = [],
      y_no_directory = [], y_aes_count = 0, y_rsa_count = 0, y_uuids = uuids, y_uuid_count = 0, y_error_text = []\<rparr>"

section \<open>Channels and disk\<close>

definition y_slot :: "(kernel_key_manager_package \<Rightarrow> kernel_key_manager_package) \<Rightarrow> key_manager act" where
  "y_slot f s = Returns (s\<lparr>y_kernel_tx := set_slot f (y_kernel_tx s)\<rparr>)"

definition y_commit :: "key_manager act" where
  "y_commit s = Returns (s\<lparr>y_kernel_tx := commit kernel_key_manager_package0 (y_kernel_tx s)\<rparr>)"

text \<open>\<^verbatim>\<open>out.set_payload\<close> of a string.\<close>

definition y_payload :: "byte list \<Rightarrow> key_manager act" where
  "y_payload bs s = (case set_payload_string bs (slot (y_kernel_tx s)) of
     Done out \<Rightarrow> y_slot (\<lambda>_. out) s | _ \<Rightarrow> Raises Assertion_violation s)"

definition y_config_slot :: "(key_manager_cfg_package \<Rightarrow> key_manager_cfg_package) \<Rightarrow> key_manager act" where
  "y_config_slot f s = Returns (s\<lparr>y_config_tx := set_slot f (y_config_tx s)\<rparr>)"

definition y_exists :: "string \<Rightarrow> key_manager \<Rightarrow> bool" where
  "y_exists p s = (case y_disk s p of None \<Rightarrow> False | Some _ \<Rightarrow> True)"

text \<open>\<^verbatim>\<open>FileInputStream\<close>: a file that is not there throws. \<^verbatim>\<open>createDirectories\<close>. Writing a file, also by \<^verbatim>\<open>RSAKey::save\<close>. \<^verbatim>\<open>moveTo\<close>.\<close>

definition y_read :: "string \<Rightarrow> (byte list \<Rightarrow> key_manager act) \<Rightarrow> key_manager act" where
  "y_read p k = look (\<lambda>s. y_disk s p) (\<lambda>x. need Poco_error x k)"

definition y_directories :: "string \<Rightarrow> key_manager act" where
  "y_directories p s = (if p \<in> set (y_no_directory s) then Raises Poco_error s else Returns s)"

definition y_write :: "string \<Rightarrow> byte list \<Rightarrow> key_manager act" where
  "y_write p bs s = (if p \<in> set (y_locked s) then Raises Poco_error s else Returns (s\<lparr>y_disk := (y_disk s)(p \<mapsto> bs)\<rparr>))"

definition y_move :: "string \<Rightarrow> string \<Rightarrow> key_manager act" where
  "y_move p q s = (case y_disk s p of None \<Rightarrow> Raises Poco_error s
     | Some bs \<Rightarrow> if p \<in> set (y_stuck s) then Raises Poco_error s else Returns (s\<lparr>y_disk := (y_disk s)(p := None, q \<mapsto> bs)\<rparr>))"

definition y_remove :: "string \<Rightarrow> key_manager act" where
  "y_remove p s = Returns (s\<lparr>y_disk := (y_disk s)(p := None)\<rparr>)"

text \<open>\<^verbatim>\<open>utils::read_file_content\<close>, which trims unless told not to, and reads nothing from a missing file.\<close>

definition trim_text :: "string \<Rightarrow> string" where
  "trim_text t = rev (dropWhile is_space (rev (dropWhile is_space t)))"

definition read_content :: "(string \<rightharpoonup> byte list) \<Rightarrow> string \<Rightarrow> string" where
  "read_content d p = (case d p of None \<Rightarrow> [] | Some bs \<Rightarrow> trim_text (chars bs))"

text \<open>\<^verbatim>\<open>CipherKey(m_enc_type)\<close>, a new random key.\<close>

definition new_aes :: "(byte list \<times> byte list \<Rightarrow> key_manager act) \<Rightarrow> key_manager act" where
  "new_aes k s = k (cr_new_aes (y_crypto s) (y_aes_count s)) (s\<lparr>y_aes_count := Suc (y_aes_count s)\<rparr>)"

definition b64 :: "(string \<Rightarrow> key_manager act) \<Rightarrow> byte list \<Rightarrow> key_manager act" where
  "b64 k bs = look (\<lambda>s. kl_b64_encode (y_lib s) bs) k"

text \<open>The slot gets the key and the initial vector in base64.\<close>

definition tell_key :: "byte list \<times> byte list \<Rightarrow> key_manager act" where
  "tell_key ki = b64 (\<lambda>iv. b64 (\<lambda>key. y_slot (\<lambda>out. out\<lparr>km_aes_iv := iv, km_aes_key := key\<rparr>)) (fst ki)) (snd ki)"

section \<open>Ciphers\<close>

definition y_get_aes_key :: "string \<Rightarrow> string \<Rightarrow> (byte list \<times> byte list \<Rightarrow> key_manager act) \<Rightarrow> key_manager act" where
  "y_get_aes_key key iv k = look (\<lambda>s. (kl_b64_decode (y_lib s) key, kl_b64_decode (y_lib s) iv)) (\<lambda>ki. k ki)"

definition create_aes_cipher :: "byte list \<times> byte list \<Rightarrow> key_manager act \<Rightarrow> key_manager act" where
  "create_aes_cipher ki k = look (\<lambda>s. cr_cipher (y_crypto s) (fst ki) (snd ki)) (\<lambda>r. attempt r (\<lambda>_. k))"

definition encrypt_data :: "kernel_key_manager_package \<Rightarrow> byte list \<times> byte list \<Rightarrow> (byte list \<Rightarrow> key_manager act) \<Rightarrow> key_manager act" where
  "encrypt_data inp ki k = run_all [check (\<lambda>_. km_cmd inp = cmd_encrypt \<or> km_cmd inp = cmd_stream_encrypt),
     sized_message inp (\<lambda>t. look (\<lambda>s. cr_encrypt (y_crypto s) (fst ki) (snd ki) (bytes_of t)) (\<lambda>r. attempt r k))]"

definition decrypt_data :: "kernel_key_manager_package \<Rightarrow> byte list \<times> byte list \<Rightarrow> (byte list \<Rightarrow> key_manager act) \<Rightarrow> key_manager act" where
  "decrypt_data inp ki k = run_all [check (\<lambda>_. km_cmd inp = cmd_decrypt \<or> km_cmd inp = cmd_stream_decrypt),
     sized_message inp (\<lambda>t. look (\<lambda>s. cr_decrypt (y_crypto s) (fst ki) (snd ki) (bytes_of t)) (\<lambda>r. attempt r k))]"

text \<open>\<open>decrypt_portion_data\<close>: portions of \<^verbatim>\<open>psize\<close> bytes, decrypted one by one.\<close>

definition psize :: nat where
  "psize = 30016"

function decrypt_portions :: "crypto \<Rightarrow> byte list \<times> byte list \<Rightarrow> byte list \<Rightarrow> exn + byte list" where
  "decrypt_portions C ki data =
     (if data = [] then Inr []
      else case cr_decrypt C (fst ki) (snd ki) (take psize data) of Inl e \<Rightarrow> Inl e
      | Inr d \<Rightarrow> (case decrypt_portions C ki (drop psize data) of Inl e \<Rightarrow> Inl e | Inr ds \<Rightarrow> Inr (d @ ds)))"
  by pat_completeness auto
termination
  by (relation "measure (\<lambda>(C, ki, data). length data)") (auto simp: psize_def)

declare decrypt_portions.simps [simp del]

text \<open>The offset of a portion is an \<^verbatim>\<open>int\<close>; past two gigabytes it overflows.\<close>

definition decrypt_portion_data :: "kernel_key_manager_package \<Rightarrow> byte list \<times> byte list \<Rightarrow> (byte list \<Rightarrow> key_manager act) \<Rightarrow> key_manager act" where
  "decrypt_portion_data inp ki k = run_all [check (\<lambda>_. km_cmd inp = cmd_decrypt_with_portions),
     if unat (p_size inp) div psize * psize \<ge> 2 ^ 31 then crash
     else must (if p_size inp = 0 then Some [] else mem_read (p_message inp) 0 (unat (p_size inp)))
       (\<lambda>data. look (\<lambda>s. decrypt_portions (y_crypto s) ki data) (\<lambda>r. attempt r k))]"

section \<open>Encryption for the kernel\<close>

definition encrypt_data_with_new_aes_key :: "kernel_key_manager_package \<Rightarrow> key_manager act" where
  "encrypt_data_with_new_aes_key inp = run_all [
     check (\<lambda>_. km_cmd inp = cmd_encrypt), check (\<lambda>_. km_aes_key inp = [] \<and> km_aes_iv inp = []),
     new_aes (\<lambda>ki. create_aes_cipher ki (encrypt_data inp ki (\<lambda>enc. run_all [
       y_slot (\<lambda>out. out\<lparr>km_request_id := km_request_id inp\<rparr>), y_payload enc, tell_key ki,
       y_slot (\<lambda>out. out\<lparr>km_cmd := cmd_encrypted\<rparr>), y_commit])))]"

definition handle_kernel_encrypt_request :: "kernel_key_manager_package \<Rightarrow> key_manager act" where
  "handle_kernel_encrypt_request inp = run_all [
     check (\<lambda>_. km_cmd inp = cmd_encrypt),
     if km_aes_key inp = [] \<and> km_aes_iv inp = [] then encrypt_data_with_new_aes_key inp
     else y_get_aes_key (km_aes_key inp) (km_aes_iv inp) (\<lambda>ki. run_all [
       check (\<lambda>_. p_size inp \<noteq> 0),
       create_aes_cipher ki (encrypt_data inp ki (\<lambda>enc. run_all [
         y_slot (\<lambda>out. out\<lparr>km_request_id := km_request_id inp\<rparr>), y_payload enc,
         y_slot (\<lambda>out. out\<lparr>km_cmd := cmd_encrypted\<rparr>), y_commit]))])]"

definition handle_kernel_gen_key_for_stream :: "kernel_key_manager_package \<Rightarrow> key_manager act" where
  "handle_kernel_gen_key_for_stream inp = run_all [
     check (\<lambda>_. km_cmd inp = cmd_gen_key_for_stream), check (\<lambda>_. km_aes_key inp = [] \<and> km_aes_iv inp = []),
     new_aes (\<lambda>ki. create_aes_cipher ki (run_all [
       upd (\<lambda>s. s\<lparr>y_stream_ciphers := (y_stream_ciphers s)(km_uuid inp \<mapsto> ki)\<rparr>),
       y_slot (\<lambda>out. out\<lparr>km_request_id := km_request_id inp\<rparr>), tell_key ki,
       y_slot (\<lambda>out. out\<lparr>km_cmd := cmd_encrypted\<rparr>), y_commit]))]"

definition handle_kernel_generate_aes_key :: "kernel_key_manager_package \<Rightarrow> key_manager act" where
  "handle_kernel_generate_aes_key inp = run_all [
     check (\<lambda>_. km_cmd inp = cmd_gen_aes_key),
     new_aes (\<lambda>ki. run_all [
       y_slot (\<lambda>out. out\<lparr>km_request_id := km_request_id inp\<rparr>), tell_key ki,
       y_slot (\<lambda>out. out\<lparr>km_cmd := cmd_get_aes_key\<rparr>), y_commit])]"

definition handle_kernel_prepare_cipher_for_stream :: "kernel_key_manager_package \<Rightarrow> key_manager act" where
  "handle_kernel_prepare_cipher_for_stream inp = run_all [
     check (\<lambda>_. km_cmd inp = cmd_prepare_cipher_for_stream), check (\<lambda>_. km_aes_key inp \<noteq> [] \<and> km_aes_iv inp \<noteq> []),
     y_get_aes_key (km_aes_key inp) (km_aes_iv inp) (\<lambda>ki. create_aes_cipher ki
       (upd (\<lambda>s. s\<lparr>y_stream_ciphers := (y_stream_ciphers s)(km_uuid inp \<mapsto> ki)\<rparr>)))]"

definition handle_kernel_stream_encrypt :: "kernel_key_manager_package \<Rightarrow> key_manager act" where
  "handle_kernel_stream_encrypt inp = run_all [
     check (\<lambda>_. km_cmd inp = cmd_stream_encrypt), check (\<lambda>_. p_size inp \<noteq> 0),
     look (\<lambda>s. y_stream_ciphers s (km_uuid inp)) (\<lambda>c. need Assertion_violation c (\<lambda>ki. encrypt_data inp ki (\<lambda>enc. run_all [
       y_slot (\<lambda>out. out\<lparr>km_orig_size := p_size inp, km_request_id := km_request_id inp\<rparr>), y_payload enc,
       y_slot (\<lambda>out. out\<lparr>km_cmd := cmd_encrypted\<rparr>), y_commit])))]"

section \<open>Decryption for the kernel\<close>

definition send_stream_decrypt_fail_to_kernel :: "kernel_key_manager_package \<Rightarrow> string \<Rightarrow> key_manager act" where
  "send_stream_decrypt_fail_to_kernel inp err = run_all [
     y_slot (\<lambda>out. out\<lparr>km_cmd := cmd_stream_decrypt_fail\<rparr>), y_payload (bytes_of err),
     y_slot (\<lambda>out. out\<lparr>km_uuid := km_uuid inp, km_request_id := km_request_id inp\<rparr>), y_commit]"

definition send_key_init_fail_to_kernel :: "key_manager act" where
  "send_key_init_fail_to_kernel = run_all [y_slot (\<lambda>out. out\<lparr>km_cmd := cmd_key_init_fail\<rparr>), y_commit]"

definition decrypt_stream_data :: "kernel_key_manager_package \<Rightarrow> key_manager act" where
  "decrypt_stream_data inp = run_all [
     check (\<lambda>_. km_cmd inp = cmd_stream_decrypt),
     look (\<lambda>s. y_stream_ciphers s (km_uuid inp)) (\<lambda>c. need Poco_error c (\<lambda>ki. decrypt_data inp ki (\<lambda>dec. run_all [
       y_slot (\<lambda>out. out\<lparr>km_request_id := km_request_id inp\<rparr>), y_payload dec,
       y_slot (\<lambda>out. out\<lparr>km_cmd := cmd_livestream_decrypted, km_uuid := km_uuid inp\<rparr>), y_commit])))]"

definition handle_kernel_stream_decrypt :: "kernel_key_manager_package \<Rightarrow> key_manager act" where
  "handle_kernel_stream_decrypt inp = catching_all
     (catching_poco (decrypt_stream_data inp) (send_stream_decrypt_fail_to_kernel inp ''Failed to decrypt stream''))
     (send_stream_decrypt_fail_to_kernel inp ''Failed to decrypt data'')"

text \<open>The end of the three handlers that decrypt with the key of the request.\<close>

definition answer_decryption_fail :: "string \<Rightarrow> key_manager act" where
  "answer_decryption_fail t = run_all [y_slot (\<lambda>out. out\<lparr>km_cmd := cmd_decryption_fail\<rparr>), y_payload (bytes_of (t @ ''.''))]"

definition user_cipher :: "(byte list \<times> byte list \<Rightarrow> key_manager act) \<Rightarrow> key_manager act" where
  "user_cipher k = look y_user_cipher (\<lambda>c. need Poco_error c k)"

definition unwrap :: "string \<Rightarrow> (byte list \<Rightarrow> key_manager act) \<Rightarrow> key_manager act" where
  "unwrap t k = user_cipher (\<lambda>c. look (\<lambda>s. cr_unwrap (y_crypto s) (snd c) t) (\<lambda>r. attempt r k))"

definition handle_kernel_decrypt_key :: "kernel_key_manager_package \<Rightarrow> key_manager act" where
  "handle_kernel_decrypt_key inp = run_all [
     check (\<lambda>s. y_user_cipher s \<noteq> None), check (\<lambda>_. km_cmd inp = cmd_decrypt_key),
     y_slot (\<lambda>out. out\<lparr>km_request_id := km_request_id inp\<rparr>),
     catching_poco (run_all [
       check (\<lambda>_. km_aes_key inp \<noteq> [] \<and> km_aes_iv inp \<noteq> []),
       unwrap (km_aes_key inp) (\<lambda>key. unwrap (km_aes_iv inp) (\<lambda>iv. run_all [
         b64 (\<lambda>t. y_slot (\<lambda>out. out\<lparr>km_aes_key := t\<rparr>)) key,
         b64 (\<lambda>t. y_slot (\<lambda>out. out\<lparr>km_aes_iv := t\<rparr>)) iv,
         y_slot (\<lambda>out. out\<lparr>km_cmd := cmd_decrypted\<rparr>)]))])
       (answer_decryption_fail ''Failed to decrypt key''),
     y_commit]"

definition handle_kernel_decrypt_request :: "kernel_key_manager_package \<Rightarrow> key_manager act" where
  "handle_kernel_decrypt_request inp = run_all [
     check (\<lambda>s. y_user_cipher s \<noteq> None), check (\<lambda>_. km_cmd inp = cmd_decrypt),
     y_slot (\<lambda>out. out\<lparr>km_request_id := km_request_id inp\<rparr>),
     catching_poco (run_all [
       check (\<lambda>_. km_aes_key inp \<noteq> [] \<and> km_aes_iv inp \<noteq> []),
       y_get_aes_key (km_aes_key inp) (km_aes_iv inp) (\<lambda>ki. create_aes_cipher ki (decrypt_data inp ki y_payload)),
       y_slot (\<lambda>out. out\<lparr>km_cmd := cmd_decrypted\<rparr>)])
       (answer_decryption_fail ''Failed to decrypt data''),
     y_commit]"

definition handle_kernel_decrypt_with_portions_request :: "kernel_key_manager_package \<Rightarrow> key_manager act" where
  "handle_kernel_decrypt_with_portions_request inp = run_all [
     check (\<lambda>s. y_user_cipher s \<noteq> None), check (\<lambda>_. km_cmd inp = cmd_decrypt_with_portions),
     y_slot (\<lambda>out. out\<lparr>km_request_id := km_request_id inp\<rparr>),
     catching_poco (run_all [
       check (\<lambda>_. km_aes_key inp \<noteq> [] \<and> km_aes_iv inp \<noteq> []),
       y_get_aes_key (km_aes_key inp) (km_aes_iv inp) (\<lambda>ki. create_aes_cipher ki (decrypt_portion_data inp ki y_payload)),
       y_slot (\<lambda>out. out\<lparr>km_cmd := cmd_decrypted\<rparr>)])
       (answer_decryption_fail ''Failed to decrypt data''),
     y_commit]"

text \<open>Whether a public key is the user's own; the comparison reads the message as a C string.\<close>

definition handle_kernel_check_id_request :: "kernel_key_manager_package \<Rightarrow> key_manager act" where
  "handle_kernel_check_id_request inp = look (\<lambda>s. read_content (y_disk s) (y_user_key_path s @ ''/public.pem'')) (\<lambda>c. run_all [
     y_slot (\<lambda>_. inp), check (\<lambda>_. has_message inp),
     c_message inp (\<lambda>t. y_slot (\<lambda>out. out\<lparr>km_cmd := (if c = t then cmd_id_found else cmd_id_not_found)\<rparr>)), y_commit])"

text \<open>
  A key for another user. Loading the public key throws a \<^verbatim>\<open>FileException\<close>, the only one that is caught here; the slot
  keeps what was written into it before an exception.
\<close>

definition encrypt_with_public_key :: "byte list \<Rightarrow> byte list \<Rightarrow> (string \<Rightarrow> key_manager act) \<Rightarrow> key_manager act" where
  "encrypt_with_public_key pub data k = look (\<lambda>s. cr_wrap (y_crypto s) pub data) (\<lambda>r. attempt r k)"

definition reencrypted :: "kernel_key_manager_package \<Rightarrow> byte list \<Rightarrow> key_manager act" where
  "reencrypted inp pub = y_get_aes_key (km_aes_key inp) (km_aes_iv inp) (\<lambda>ki. run_all [
     encrypt_with_public_key pub (snd ki) (\<lambda>t. y_slot (\<lambda>out. out\<lparr>km_aes_iv := t\<rparr>)),
     encrypt_with_public_key pub (fst ki) (\<lambda>t. y_slot (\<lambda>out. out\<lparr>km_aes_key := t\<rparr>)),
     y_slot (\<lambda>out. out\<lparr>km_cmd := cmd_reencrypted_key\<rparr>)])"

definition handle_kernel_reencrypt_key_request :: "kernel_key_manager_package \<Rightarrow> key_manager act" where
  "handle_kernel_reencrypt_key_request inp = run_all [
     check (\<lambda>_. km_cmd inp = cmd_reencrypt_key), check (\<lambda>_. km_aes_key inp \<noteq> [] \<and> km_aes_iv inp \<noteq> []),
     c_message inp (\<lambda>t. look (\<lambda>s. cr_is_public (y_crypto s) (bytes_of t)) (\<lambda>ok.
       if ok then reencrypted inp (bytes_of t)
       else run_all [y_slot (\<lambda>out. out\<lparr>km_cmd := cmd_reencryption_fail\<rparr>), y_payload (bytes_of ''Reencryption failed'')])),
     y_slot (\<lambda>out. out\<lparr>km_request_id := km_request_id inp\<rparr>), y_commit]"

section \<open>The keys of the user\<close>

text \<open>\<^verbatim>\<open>factory.createCipher(RSAKey(pub, priv, passphrase))\<close>.\<close>

definition load_pair :: "string \<Rightarrow> string \<Rightarrow> (byte list \<times> byte list \<Rightarrow> key_manager act) \<Rightarrow> key_manager act" where
  "load_pair pub priv k = y_read pub (\<lambda>a. y_read priv (\<lambda>b. look (\<lambda>s. cr_load (y_crypto s) a b) (\<lambda>r. attempt r (\<lambda>_. k (a, b)))))"

definition save_new_pair :: "string \<Rightarrow> string \<Rightarrow> key_manager act" where
  "save_new_pair pub priv s = (let p = cr_new_rsa (y_crypto s) (y_rsa_count s) in
     run_all [y_write pub (fst p), y_write priv (snd p)] (s\<lparr>y_rsa_count := Suc (y_rsa_count s)\<rparr>))"

definition create_user_key :: "string \<Rightarrow> string \<Rightarrow> bool \<Rightarrow> key_manager act" where
  "create_user_key pub priv chk = look y_user_key_path (\<lambda>d. run_all [
     y_directories d,
     look (y_exists (d @ ''/'' @ priv)) (\<lambda>there. only_if (chk \<or> \<not> there) (save_new_pair (d @ ''/'' @ pub) (d @ ''/'' @ priv))),
     load_pair (d @ ''/'' @ pub) (d @ ''/'' @ priv) (\<lambda>p. upd (\<lambda>s. s\<lparr>y_user_cipher := Some p\<rparr>))])"

definition generate_certificate :: "string \<Rightarrow> key_manager act" where
  "generate_certificate d = load_pair (d @ ''/public.pem'') (d @ ''/private.pem'') (\<lambda>p.
     look (\<lambda>s. cr_certificate (y_crypto s) (fst p) (snd p)) (\<lambda>r. attempt r (y_write (d @ ''/cert.pem''))))"

definition create_device_key :: "string \<Rightarrow> key_manager act" where
  "create_device_key d = run_all [
     y_directories d,
     look (y_exists (d @ ''/private.pem'')) (\<lambda>there. only_if (\<not> there)
       (run_all [save_new_pair (d @ ''/public.pem'') (d @ ''/private.pem''), generate_certificate d])),
     look (y_exists (d @ ''/cert.pem'')) (\<lambda>there. only_if (\<not> there) (generate_certificate d)),
     load_pair (d @ ''/public.pem'') (d @ ''/private.pem'') (\<lambda>p. upd (\<lambda>s. s\<lparr>y_device_cipher := Some p\<rparr>))]"

definition generate_new_user_json_key :: "(jobj \<Rightarrow> key_manager act) \<Rightarrow> key_manager act" where
  "generate_new_user_json_key k = new_aes (\<lambda>ki. b64 (\<lambda>iv. b64 (\<lambda>key.
     k [(''aes_iv'', J_str iv), (''aes_key'', J_str key)]) (fst ki)) (snd ki))"

text \<open>\<^verbatim>\<open>Path(key_path).parent()\<close>: the path up to its last slash. The file is emptied before the encryption.\<close>

definition parent_path :: "string \<Rightarrow> string" where
  "parent_path p = rev (dropWhile (\<lambda>c. c \<noteq> CHR ''/'') (rev p))"

definition encrypt_user_json_info_with_user_key :: "jobj \<Rightarrow> string \<Rightarrow> key_manager act" where
  "encrypt_user_json_info_with_user_key obj p = run_all [
     only_if (parent_path p \<noteq> []) (y_directories (parent_path p)),
     y_write p [],
     user_cipher (\<lambda>c. look (\<lambda>s. cr_seal (y_crypto s) (fst c) (bytes_of (kl_print (y_lib s) obj))) (\<lambda>r. attempt r (y_write p)))]"

definition decrypt_user_json_info :: "(jobj \<Rightarrow> key_manager act) \<Rightarrow> key_manager act" where
  "decrypt_user_json_info k = run_all [
     check (\<lambda>s. y_user_cipher s \<noteq> None),
     look y_user_json_key_path (\<lambda>p. y_read p (\<lambda>bs. user_cipher (\<lambda>c.
       look (\<lambda>s. kl_parse (y_lib s) (chars (cr_open (y_crypto s) (snd c) bs))) (\<lambda>o1. need Poco_error o1 k))))]"

text \<open>A key file of an older version is plain text: it is read and encrypted; one that is no JSON is decrypted.\<close>

definition parse_user_info_as_json :: "(jobj \<Rightarrow> key_manager act) \<Rightarrow> key_manager act" where
  "parse_user_info_as_json k s = (let p = y_user_json_key_path s in
     case (case y_disk s p of None \<Rightarrow> None | Some bs \<Rightarrow> kl_parse (y_lib s) (chars bs)) of
       None \<Rightarrow> decrypt_user_json_info k s
     | Some obj \<Rightarrow> (case encrypt_user_json_info_with_user_key obj p s of
           Returns s' \<Rightarrow> k obj s' | Raises e s' \<Rightarrow> decrypt_user_json_info k s' | Crashes \<Rightarrow> Crashes))"

definition create_user_json_key :: "key_manager act" where
  "create_user_json_key = look y_user_json_key_path (\<lambda>p. look (y_exists p) (\<lambda>there.
     if there then parse_user_info_as_json (\<lambda>obj. y_config_slot (\<lambda>out. out\<lparr>kmc_user_json_info := Some obj\<rparr>))
     else generate_new_user_json_key (\<lambda>obj. look (\<lambda>s. uuid_to_string (kl_poco (y_lib s)) (y_uuids s (y_uuid_count s))) (\<lambda>u.
       let obj = obj_set ''uuid'' (J_str u) obj in run_all [
         upd (\<lambda>s. s\<lparr>y_uuid_count := Suc (y_uuid_count s)\<rparr>),
         y_config_slot (\<lambda>out. out\<lparr>kmc_is_generated := True\<rparr>),
         encrypt_user_json_info_with_user_key obj p,
         y_config_slot (\<lambda>out. out\<lparr>kmc_user_json_info := Some obj\<rparr>)]))))"

text \<open>\<^verbatim>\<open>istr >> word\<close>: the words of the message; a missing one leaves its variable alone.\<close>

definition next_word :: "string \<Rightarrow> string \<times> string" where
  "next_word t = (let t = dropWhile is_space t in (takeWhile (\<lambda>c. \<not> is_space c) t, dropWhile (\<lambda>c. \<not> is_space c) t))"

definition handle_config_key_path :: "key_manager_cfg_package \<Rightarrow> key_manager act" where
  "handle_config_key_path inp = run_all [
     check (\<lambda>_. kmc_cmd inp = cmd_key_path), check (\<lambda>_. has_message inp),
     c_message inp (\<lambda>t. let (device_key, t) = next_word t; (user_key, t) = next_word t; (info, _) = next_word t in run_all [
       upd (\<lambda>s. s\<lparr>y_user_key_path := user_key\<rparr>),
       only_if (info \<noteq> []) (upd (\<lambda>s. s\<lparr>y_user_json_key_path := info\<rparr>)),
       create_device_key device_key, create_user_key ''public.pem'' ''private.pem'' False, create_user_json_key,
       y_config_slot (\<lambda>out. out\<lparr>kmc_cmd := cmd_initialized_keys\<rparr>),
       upd (\<lambda>s. s\<lparr>y_config_tx := commit key_manager_cfg_package0 (y_config_tx s)\<rparr>)])]"

definition get_user_keys :: "(string \<Rightarrow> key_manager act) \<Rightarrow> key_manager act" where
  "get_user_keys k = look (\<lambda>s. (read_content (y_disk s) (y_user_key_path s @ ''/public.pem''),
       read_content (y_disk s) (y_user_key_path s @ ''/private.pem''))) (\<lambda>(pb, pr). decrypt_user_json_info (\<lambda>ujk.
     if pb = [] \<or> pr = [] then raise_error Poco_error
     else look (\<lambda>s. kl_print (y_lib s) [(''user_json_key'', J_obj ujk), (''user_private_key'', J_str pr), (''user_public_key'', J_str pb)]) k))"

definition handle_kernel_get_user_keys :: "kernel_key_manager_package \<Rightarrow> key_manager act" where
  "handle_kernel_get_user_keys inp = run_all [
     check (\<lambda>_. km_cmd inp = cmd_get_user_keys),
     y_slot (\<lambda>out. out\<lparr>km_request_id := km_request_id inp\<rparr>),
     catching_all (catching_poco (run_all [get_user_keys (\<lambda>t. y_payload (bytes_of t)), y_slot (\<lambda>out. out\<lparr>km_cmd := cmd_get_user_keys_response\<rparr>)])
       (run_all [look y_error_text (\<lambda>t. y_payload (bytes_of (''Failed to get user keys: '' @ t))),
         y_slot (\<lambda>out. out\<lparr>km_cmd := cmd_get_user_keys_failed\<rparr>)]))
       (run_all [y_payload (bytes_of ''Failed to get user keys''), y_slot (\<lambda>out. out\<lparr>km_cmd := cmd_get_user_keys_failed\<rparr>)]),
     y_commit]"

definition remove_tmp_files :: "key_manager act" where
  "remove_tmp_files = look y_user_key_path (\<lambda>d. look y_user_json_key_path (\<lambda>p.
     run_all [y_remove (d @ ''/public.tmp''), y_remove (d @ ''/private.tmp''), y_remove (p @ ''.tmp'')]))"

text \<open>New keys are made beside the old ones and moved over them; the cipher in use changes with the first step.\<close>

definition regenerate_keys :: "kernel_key_manager_package \<Rightarrow> key_manager act" where
  "regenerate_keys inp = look y_user_key_path (\<lambda>d. look y_user_json_key_path (\<lambda>p. run_all [
     create_user_key ''public.tmp'' ''private.tmp'' True,
     generate_new_user_json_key (\<lambda>obj. c_message inp (\<lambda>u. let obj = obj_set ''uuid'' (J_str u) obj in run_all [
       encrypt_user_json_info_with_user_key obj (p @ ''.tmp''),
       y_move (d @ ''/public.tmp'') (d @ ''/public.pem''), y_move (d @ ''/private.tmp'') (d @ ''/private.pem''), y_move (p @ ''.tmp'') p,
       look (\<lambda>s. (get_text (y_lib s) ''aes_key'' obj, get_text (y_lib s) ''aes_iv'' obj)) (\<lambda>(key, iv).
         need Poco_error key (\<lambda>key. need Poco_error iv (\<lambda>iv. y_slot (\<lambda>out. out\<lparr>km_aes_key := key, km_aes_iv := iv\<rparr>)))),
       y_slot (\<lambda>out. out\<lparr>km_cmd := cmd_regenerate_user_keys_succeeded\<rparr>)]))]))"

definition handle_kernel_regenerate_user_keys :: "kernel_key_manager_package \<Rightarrow> key_manager act" where
  "handle_kernel_regenerate_user_keys inp = run_all [
     check (\<lambda>_. km_cmd inp = cmd_regenerate_user_keys), check (\<lambda>_. has_message inp),
     y_slot (\<lambda>out. out\<lparr>km_request_id := km_request_id inp\<rparr>),
     catching_all (catching_poco (regenerate_keys inp)
       (run_all [remove_tmp_files, look y_error_text (\<lambda>t. y_payload (bytes_of t)), y_slot (\<lambda>out. out\<lparr>km_cmd := cmd_failed\<rparr>)]))
       (run_all [remove_tmp_files, y_slot (\<lambda>out. out\<lparr>km_cmd := cmd_failed\<rparr>)]),
     y_commit]"

section \<open>Keys received from another device\<close>

definition write_in_file :: "byte list \<Rightarrow> string \<Rightarrow> key_manager act" where
  "write_in_file bs f = run_all [y_write (f @ ''.tmp'') [], if bs = [] then raise_error Poco_error else skip, y_write (f @ ''.tmp'') bs,
     y_move (f @ ''.tmp'') f]"

definition overwrite_user_keys :: "link_key_manager_package \<Rightarrow> key_manager act" where
  "overwrite_user_keys inp = look y_user_key_path (\<lambda>d. look y_user_json_key_path (\<lambda>p. run_all [
     write_in_file (kt_public_key inp) (d @ ''/public.pem''), write_in_file (kt_private_key inp) (d @ ''/private.pem''),
     write_in_file (kt_user_json_info inp) p,
     load_pair (d @ ''/public.pem'') (d @ ''/private.pem'') (\<lambda>c. upd (\<lambda>s. s\<lparr>y_user_cipher := Some c\<rparr>))]))"

definition handle_link_request_keys_respons :: "link_key_manager_package \<Rightarrow> key_manager act" where
  "handle_link_request_keys_respons inp = catching_poco (run_all [
     check (\<lambda>_. kt_cmd inp = cmd_request_keys_response), overwrite_user_keys inp,
     decrypt_user_json_info (\<lambda>o1. run_all [
       y_slot (\<lambda>out. out\<lparr>km_cmd := cmd_request_keys_response\<rparr>),
       look (\<lambda>s. get_text (y_lib s) ''aes_key'' o1) (\<lambda>t. need Poco_error t (\<lambda>t. y_slot (\<lambda>out. out\<lparr>km_aes_key := t\<rparr>))),
       look (\<lambda>s. get_text (y_lib s) ''aes_iv'' o1) (\<lambda>t. need Poco_error t (\<lambda>t. y_slot (\<lambda>out. out\<lparr>km_aes_iv := t\<rparr>))),
       y_slot (\<lambda>out. out\<lparr>km_request_id := lk_request_id inp\<rparr>), y_commit])])
     (run_all [
       y_slot (\<lambda>out. out\<lparr>km_cmd := cmd_request_keys_fail, km_request_id := lk_request_id inp\<rparr>),
       look y_error_text (\<lambda>t. text_package t (\<lambda>p. y_slot (set_payload p))), y_commit])"

section \<open>The task\<close>

definition y_process_kernel_input :: "kernel_key_manager_package \<Rightarrow> key_manager act" where
  "y_process_kernel_input inp =
     (if km_cmd inp = cmd_encrypt then handle_kernel_encrypt_request inp
      else if km_cmd inp = cmd_decrypt then handle_kernel_decrypt_request inp
      else if km_cmd inp = cmd_decrypt_with_portions then handle_kernel_decrypt_with_portions_request inp
      else if km_cmd inp = cmd_check_id then handle_kernel_check_id_request inp
      else if km_cmd inp = cmd_reencrypt_key then handle_kernel_reencrypt_key_request inp
      else if km_cmd inp = cmd_gen_key_for_stream then handle_kernel_gen_key_for_stream inp
      else if km_cmd inp = cmd_prepare_cipher_for_stream then handle_kernel_prepare_cipher_for_stream inp
      else if km_cmd inp = cmd_stream_encrypt then handle_kernel_stream_encrypt inp
      else if km_cmd inp = cmd_stream_decrypt then handle_kernel_stream_decrypt inp
      else if km_cmd inp = cmd_decrypt_key then handle_kernel_decrypt_key inp
      else if km_cmd inp = cmd_gen_aes_key then handle_kernel_generate_aes_key inp
      else if km_cmd inp = cmd_regenerate_user_keys then handle_kernel_regenerate_user_keys inp
      else if km_cmd inp = cmd_get_user_keys then handle_kernel_get_user_keys inp
      else skip)"

definition y_process_config_input :: "key_manager_cfg_package \<Rightarrow> key_manager act" where
  "y_process_config_input inp = (if kmc_cmd inp = cmd_key_path then handle_config_key_path inp else skip)"

definition y_process_link_input :: "link_key_manager_package \<Rightarrow> key_manager act" where
  "y_process_link_input inp = (if kt_cmd inp = cmd_request_keys_response then handle_link_request_keys_respons inp else skip)"

text \<open>
  A failed assertion ends the process. Any other exception is logged when it came from a request of the kernel, told to
  the kernel when it came from the configuration, and ends the process as well when it came from the link.
\<close>

definition y_handle_kernel_input :: "key_manager act" where
  "y_handle_kernel_input s = (case fifo_front (y_kernel_rx s) of None \<Rightarrow> Returns s
     | Some inp \<Rightarrow> run_all [guarded (y_process_kernel_input inp), upd (\<lambda>s. s\<lparr>y_kernel_rx := (y_kernel_rx s)\<lparr>m_internal := tl (m_internal (y_kernel_rx s))\<rparr>\<rparr>)] s)"

definition y_handle_config_input :: "key_manager act" where
  "y_handle_config_input s = (case fifo_front (y_config_rx s) of None \<Rightarrow> Returns s
     | Some inp \<Rightarrow> run_all [
         (\<lambda>s. case y_process_config_input inp s of Raises Poco_error s' \<Rightarrow> send_key_init_fail_to_kernel s'
            | Raises Std_error s' \<Rightarrow> send_key_init_fail_to_kernel s' | r \<Rightarrow> r),
         upd (\<lambda>s. s\<lparr>y_config_rx := (y_config_rx s)\<lparr>m_internal := tl (m_internal (y_config_rx s))\<rparr>\<rparr>)] s)"

definition y_handle_link_input :: "key_manager act" where
  "y_handle_link_input s = (case fifo_front (y_link_rx s) of None \<Rightarrow> Returns s
     | Some inp \<Rightarrow> run_all [fatal (y_process_link_input inp),
         upd (\<lambda>s. s\<lparr>y_link_rx := (y_link_rx s)\<lparr>m_internal := tl (m_internal (y_link_rx s))\<rparr>\<rparr>)] s)"

definition key_manager_turn :: "key_manager act" where
  "key_manager_turn = run_all [y_handle_kernel_input, y_handle_config_input, y_handle_link_input]"

end
