(* ===== verification/Link.thy ===== *)
theory Link
  imports Link_Peer Key_Manager
begin

text \<open>
  \<^verbatim>\<open>metax/link.cpp\<close>: the task that keeps the connections to other devices. It announces peers to the router once they
  sent their device id, passes messages between the router and the peers, keeps one connection per group, watches the
  peers with pings and remembers when each was last seen. A peer here is the \<^verbatim>\<open>peer_io\<close> of the link with what the link
  reads of the \<^verbatim>\<open>link_peer\<close> task behind it; \<open>pe_out\<close> and \<open>pe_ping\<close> are read by that task, \<open>pe_in\<close> is written by it.
\<close>

section \<open>State\<close>

record link_cfg_package = package +
  lc_request_id :: ID32
  lc_cmd :: command
  lc_peer_id :: ID32
  lc_device_id :: package

definition link_cfg_package0 :: link_cfg_package where
  "link_cfg_package0 = package.extend default_package
     \<lparr>lc_request_id = 0, lc_cmd = cmd_max_command, lc_peer_id = 0, lc_device_id = default_package\<rparr>"

text \<open>\<open>pe_gid\<close> is an \<^verbatim>\<open>int\<close> that is compared with -1 and converted to the unsigned key of a table.\<close>

record peer =
  pe_in :: "link_peer_package fifo"
  pe_out :: "link_peer_package fifo"
  pe_ping :: "link_peer_package fifo"
  pe_address :: string
  pe_gid :: ID32
  pe_my_connection :: bool
  pe_is_sync_finished :: bool
  pe_last_received_time :: nat
  pe_ping_sent :: bool
  pe_device_id :: "byte list"
  pe_rating :: int
  pe_public_key :: string
  pe_load_info :: ID32

datatype verification_mode = Strict | Relaxed | No_verification

text \<open>
  \<open>l_peers\<close> is sorted by id, as the map the code iterates over. \<open>l_removable\<close> are connections whose task ended, \<open>l_dropped\<close> the
  ones to make again (address and group), \<open>l_started\<close> the ones that were begun. The last fields are the surroundings:
  library, disk, clock, whether the pairing port is taken, random numbers, the local networks and which addresses answer in
  them, what a server sends to one who connects, and the bytes written on the sockets of key transfers.
\<close>

record link =
  l_router_rx :: "router_link_package fifo"
  l_router_tx :: "router_link_package fifo"
  l_config_rx :: "link_cfg_package fifo"
  l_config_tx :: "link_cfg_package fifo"
  l_key_manager_tx :: "link_key_manager_package fifo"
  l_peers :: "(ID32 \<times> peer) list"
  l_device_id :: "byte list"
  l_public_key :: string
  l_use_ssl :: bool
  l_request_counter :: ID32
  l_dropped :: "(string \<times> ID32) list"
  l_removable :: "(string \<times> ID32 \<times> bool) list"
  l_started :: "(string \<times> ID32) list"
  l_keep_alive_timeout :: bool
  l_rating_path :: string
  l_ratings :: jobj
  l_default_rating :: ID16
  l_sync_class :: ID16
  l_mode :: verification_mode
  l_balance :: "ID32 \<rightharpoonup> ID32"
  l_user_key_path :: string
  l_user_json_info_path :: string
  l_device_key_path :: string
  l_pairing :: bool
  l_pairing_timeout :: ID16
  l_code :: string
  l_notification :: string
  l_lib :: klib
  l_parse_array :: "string \<Rightarrow> json list option"
  l_print_array :: "json list \<Rightarrow> string"
  l_md5 :: "string \<Rightarrow> byte list"
  l_disk :: "string \<rightharpoonup> byte list"
  l_locked :: "string list"
  l_now :: nat
  l_port_taken :: bool
  l_random :: "nat \<Rightarrow> nat"
  l_error_text :: string
  l_networks :: "(string \<times> string) list"
  l_answers :: "string \<Rightarrow> bool"
  l_net :: "string \<Rightarrow> exn + byte list list"
  l_wire :: "byte list"

definition LINK_REQUEST_LOWER_BOUND :: ID32 where
  "LINK_REQUEST_LOWER_BOUND = 0x20000000"

definition CONNECTION_GUARD_TIMEOUT :: nat where
  "CONNECTION_GUARD_TIMEOUT = 5000"

definition KEEP_ALIVE_TIMEOUT :: nat where
  "KEEP_ALIVE_TIMEOUT = 30000"

definition PONG_WAIT_TIME :: nat where
  "PONG_WAIT_TIME = (KEEP_ALIVE_TIMEOUT + 1) * 1000"

section \<open>Channels\<close>

definition l_router :: "(router_link_package \<Rightarrow> router_link_package) \<Rightarrow> link act" where
  "l_router f = upd (\<lambda>s. s\<lparr>l_router_tx := commit router_link_package0 (set_slot f (l_router_tx s))\<rparr>)"

definition l_config :: "(link_cfg_package \<Rightarrow> link_cfg_package) \<Rightarrow> link act" where
  "l_config f = upd (\<lambda>s. s\<lparr>l_config_tx := commit link_cfg_package0 (set_slot f (l_config_tx s))\<rparr>)"

definition peer_of :: "ID32 \<Rightarrow> link \<Rightarrow> peer option" where
  "peer_of i s = map_of (l_peers s) i"

text \<open>A change of the peer behind an id; the id is that of a peer wherever this is used.\<close>

definition upd_peer :: "ID32 \<Rightarrow> (peer \<Rightarrow> peer) \<Rightarrow> link act" where
  "upd_peer i f s = Returns (s\<lparr>l_peers := map (\<lambda>(j, p). if j = i then (j, f p) else (j, p)) (l_peers s)\<rparr>)"

definition with_peer :: "ID32 \<Rightarrow> (peer \<Rightarrow> link act) \<Rightarrow> link act" where
  "with_peer i k = look (peer_of i) (\<lambda>p. must p k)"

definition post_peer :: "ID32 \<Rightarrow> (link_peer_package \<Rightarrow> link_peer_package) \<Rightarrow> link act" where
  "post_peer i f = upd_peer i (\<lambda>p. p\<lparr>pe_out := commit link_peer_package0 (set_slot f (pe_out p))\<rparr>)"

definition ping_peer :: "ID32 \<Rightarrow> 8 word \<Rightarrow> link act" where
  "ping_peer i fl = upd_peer i (\<lambda>p. p\<lparr>pe_ping := commit link_peer_package0
     (set_slot (set_payload (default_package\<lparr>p_flags := fl\<rparr>)) (pe_ping p))\<rparr>)"

text \<open>The payload of a text in a package of any kind: \<^verbatim>\<open>set_payload(std::string)\<close>.\<close>

definition put_text :: "string \<Rightarrow> 'a package_scheme \<Rightarrow> 'a package_scheme" where
  "put_text t p = p\<lparr>p_size := of_nat (length t), p_message := Some (bytes_of t @ [0])\<rparr>"

definition text_fits :: "string \<Rightarrow> link act" where
  "text_fits t = check (\<lambda>_. length t < 2 ^ 32)"

definition hex_id :: "byte list \<Rightarrow> string" where
  "hex_id bs = concat (map hex_pair bs)"

section \<open>Closing a connection\<close>

definition send_shutdown_message_to_peer :: "ID32 \<Rightarrow> link act" where
  "send_shutdown_message_to_peer i = run_all [
     upd_peer i (\<lambda>p. p\<lparr>pe_device_id := []\<rparr>),
     post_peer i (\<lambda>out. put_text ''Shutdown peer'' (out\<lparr>lpp_cmd := cmd_shutdown\<rparr>))]"

section \<open>Announcing a peer\<close>

definition peer_json :: "peer \<Rightarrow> jobj" where
  "peer_json p = [(''address'', J_str (pe_address p)), (''device_id'', J_str (hex_id (pe_device_id p))),
     (''user_public_key'', J_str (pe_public_key p))]"

definition l_send_notification_to_router :: "peer \<Rightarrow> command \<Rightarrow> link act" where
  "l_send_notification_to_router p cmd = run_all [
     check (\<lambda>_. cmd = cmd_connected \<or> cmd = cmd_disconnected),
     only_if (pe_device_id p \<noteq> []) (look (\<lambda>s. kl_print (l_lib s)
       [(''event'', J_str (if cmd = cmd_connected then ''peer_is_connected'' else ''peer_is_disconnected'')), (''peer'', J_obj (peer_json p))])
       (\<lambda>t. run_all [text_fits t, l_router (\<lambda>out. put_text t (out\<lparr>rl_cmd := cmd\<rparr>))]))]"

text \<open>Three days back when the peer was never seen; times are microseconds.\<close>

definition get_peer_last_seen :: "jobj \<Rightarrow> (nat \<Rightarrow> link act) \<Rightarrow> link act" where
  "get_peer_last_seen info k = (if obj_has ''last_seen'' info
     then look (\<lambda>s. get_unsigned (l_lib s) 64 ''last_seen'' info) (\<lambda>t. need Poco_error t k)
     else look l_now (\<lambda>n. k (n - 3 * 24 * 3600 * 1000000)))"

definition post_send_journal_info_from_last_seen :: "ID32 \<Rightarrow> jobj \<Rightarrow> link act" where
  "post_send_journal_info_from_last_seen i info = get_peer_last_seen info (\<lambda>t.
     must (rd_serialize (router_data0\<lparr>rd_cmd := cmd_send_journal_info, rd_last_updated := of_nat t\<rparr>) default_package) (\<lambda>pkg.
       post_peer i (\<lambda>out. out\<lparr>p_size := p_size pkg, p_message := p_message pkg, lpp_cmd := cmd_data\<rparr>)))"

text \<open>The slot is addressed before the document of the peer is read: when that throws, the slot stays addressed.\<close>

definition post_kernel_start_storage_sync :: "ID32 \<Rightarrow> jobj \<Rightarrow> link act" where
  "post_kernel_start_storage_sync i info = run_all [
     upd (\<lambda>s. s\<lparr>l_router_tx := set_slot (\<lambda>out. out\<lparr>rl_cmd := cmd_received_data, rl_peers := insort_insert i (rl_peers out)\<rparr>) (l_router_tx s)\<rparr>),
     get_peer_last_seen info (\<lambda>t. must (rd_serialize (router_data0\<lparr>rd_cmd := cmd_start_storage_sync, rd_last_updated := of_nat t\<rparr>) default_package) (\<lambda>pkg.
       l_router (\<lambda>out. out\<lparr>p_size := p_size pkg, p_message := p_message pkg\<rparr>)))]"

definition configure_peer_by_device_id :: "ID32 \<Rightarrow> string \<Rightarrow> link act" where
  "configure_peer_by_device_id i d = run_all [
     look l_default_rating (\<lambda>r. upd_peer i (\<lambda>p. p\<lparr>pe_rating := uint r\<rparr>)),
     look l_ratings (\<lambda>m. (if obj_has d m then need Poco_error (get_object d m) (\<lambda>info. run_all [
           only_if (obj_has ''rating'' info) (look (\<lambda>s. get_int (l_lib s) 32 ''rating'' info) (\<lambda>r. need Poco_error r (\<lambda>r.
             upd_peer i (\<lambda>p. p\<lparr>pe_rating := r\<rparr>))))])
         else skip)),
     look l_ratings (\<lambda>m. let info = (case get_object d m of None \<Rightarrow> [] | Some info \<Rightarrow> info) in
       look l_sync_class (\<lambda>c. if c = 1 then post_send_journal_info_from_last_seen i info
         else run_all [check (\<lambda>_. c = 0), post_kernel_start_storage_sync i info]))]"

definition announce :: "ID32 \<Rightarrow> package \<Rightarrow> link act" where
  "announce i di = must (mem_read (p_message di) 0 (unat (p_size di))) (\<lambda>dev. run_all [
     upd_peer i (\<lambda>p. p\<lparr>pe_device_id := dev\<rparr>),
     configure_peer_by_device_id i (hex_id dev),
     with_peer i (\<lambda>p. l_send_notification_to_router p cmd_connected)])"

text \<open>One connection per group: of two, the one with the smaller load stays.\<close>

definition accept_connection_with_balancing :: "ID32 \<Rightarrow> package \<Rightarrow> link act" where
  "accept_connection_with_balancing i di = with_peer i (\<lambda>p. look (\<lambda>s. l_balance s (pe_gid p)) (\<lambda>b.
     if pe_gid p = - 1 then announce i di
     else case b of
       None \<Rightarrow> run_all [upd (\<lambda>s. s\<lparr>l_balance := (l_balance s)(pe_gid p \<mapsto> i)\<rparr>), announce i di]
     | Some j \<Rightarrow> look (peer_of j) (\<lambda>q. need exn.Assertion_violation q (\<lambda>q.
         if pe_load_info q \<le> pe_load_info p then send_shutdown_message_to_peer i
         else run_all [send_shutdown_message_to_peer j,
           upd (\<lambda>s. s\<lparr>l_balance := (l_balance s)(pe_gid p \<mapsto> i)\<rparr>), announce i di]))))"

section \<open>Input of a peer\<close>

definition handle_link_peer_device_id :: "ID32 \<Rightarrow> link_peer_package \<Rightarrow> link_data \<Rightarrow> nat \<Rightarrow> link act" where
  "handle_link_peer_device_id i inp ld off = run_all [
     check (\<lambda>_. p_flags inp = LINK_MSG),
     (case extract_payload inp off default_package of
        Done pkg \<Rightarrow> (case p_message pkg of
            None \<Rightarrow> send_shutdown_message_to_peer i
          | Some dev \<Rightarrow> run_all [
              upd_peer i (\<lambda>p. p\<lparr>pe_public_key := chars (ld_public_key ld), pe_load_info := ld_load_info ld\<rparr>),
              look l_mode (\<lambda>m. if m = Strict
                then run_all [text_fits (chars (ld_public_key ld)), l_config (\<lambda>out. put_text (chars (ld_public_key ld))
                    (out\<lparr>lc_cmd := cmd_verify_peer, lc_peer_id := i, lc_device_id := pkg\<rparr>))]
                else accept_connection_with_balancing i pkg)])
      | Thrown pkg \<Rightarrow> raise_error Poco_error
      | _ \<Rightarrow> crash)]"

definition handle_link_message :: "ID32 \<Rightarrow> link_peer_package \<Rightarrow> link act" where
  "handle_link_message i inp = run_all [
     check (\<lambda>_. has_message inp), check (\<lambda>_. p_flags inp = LINK_MSG),
     must (ld_extract_header inp link_data0) (\<lambda>(ld, off).
       if ld_cmd ld = cmd_device_id then handle_link_peer_device_id i inp ld (unat off)
       else send_shutdown_message_to_peer i)]"

definition post_received_data_to_router :: "ID32 \<Rightarrow> link_peer_package \<Rightarrow> link act" where
  "post_received_data_to_router i inp = run_all [
     check (\<lambda>_. has_message inp),
     l_router (\<lambda>out. (set_payload inp out)\<lparr>rl_cmd := cmd_received_data, rl_peers := insort_insert i (rl_peers out)\<rparr>)]"

definition handle_router_message_of_link_peer :: "ID32 \<Rightarrow> link_peer_package \<Rightarrow> link act" where
  "handle_router_message_of_link_peer i inp = with_peer i (\<lambda>p.
     if pe_device_id p = [] then send_shutdown_message_to_peer i else post_received_data_to_router i inp)"

definition handle_empty_data :: "ID32 \<Rightarrow> link_peer_package \<Rightarrow> link act" where
  "handle_empty_data i inp =
     (if p_flags inp = PING then ping_peer i PONG
      else if p_flags inp \<noteq> PONG then send_shutdown_message_to_peer i else skip)"

definition handle_link_peer_data :: "ID32 \<Rightarrow> link_peer_package \<Rightarrow> link act" where
  "handle_link_peer_data i inp = run_all [
     look l_now (\<lambda>t. upd_peer i (\<lambda>p. p\<lparr>pe_last_received_time := t, pe_ping_sent := False\<rparr>)),
     if p_size inp = 0 then handle_empty_data i inp
     else if p_flags inp = LINK_MSG then handle_link_message i inp
     else handle_router_message_of_link_peer i inp]"

definition process_peer_input :: "ID32 \<Rightarrow> link_peer_package \<Rightarrow> link act" where
  "process_peer_input i inp =
     (if lpp_cmd inp = cmd_data then handle_link_peer_data i inp
      else if lpp_cmd inp = cmd_disconnect then upd_peer i (\<lambda>p. p\<lparr>pe_out := deactivate (pe_out p), pe_ping := deactivate (pe_ping p)\<rparr>)
      else skip)"

definition handle_peer_input :: "ID32 \<Rightarrow> link act" where
  "handle_peer_input i = with_peer i (\<lambda>p. case fifo_front (pe_in p) of None \<Rightarrow> skip
     | Some inp \<Rightarrow> run_all [guarded (process_peer_input i inp), upd_peer i (\<lambda>p. p\<lparr>pe_in := consume (pe_in p)\<rparr>)])"

definition handle_inputs_from_peers :: "link act" where
  "handle_inputs_from_peers = look (\<lambda>s. map fst (l_peers s)) (\<lambda>ids. each ids handle_peer_input)"

end
