(* ===== verification/Link_Tasks.thy ===== *)
theory Link_Tasks
  imports Link Router_State
begin

text \<open>
  The rest of \<^verbatim>\<open>metax/link.cpp\<close>: messages of the router, the life of a connection, the watch over silent peers, the
  requests of the configuration manager, and the transfer of the user's keys to another device of the same user.
\<close>

section \<open>Messages of the router\<close>

definition post_nack_to_router :: "router_link_package \<Rightarrow> link act" where
  "post_nack_to_router inp = l_router (\<lambda>_. inp\<lparr>rl_cmd := cmd_nack\<rparr>)"

text \<open>The unsigned rating of the command makes the signed rating of the peer unsigned.\<close>

definition is_rating_enough :: "ID32 \<Rightarrow> peer \<Rightarrow> bool" where
  "is_rating_enough r p \<longleftrightarrow> r \<le> word_of_int (pe_rating p)"

definition pass_on :: "router_link_package \<Rightarrow> ID32 \<Rightarrow> link act" where
  "pass_on inp i = post_peer i (\<lambda>out. set_payload inp (out\<lparr>lpp_cmd := cmd_data\<rparr>))"

definition reached :: "router_link_package \<Rightarrow> peer \<Rightarrow> bool" where
  "reached inp p \<longleftrightarrow> pe_device_id p \<noteq> [] \<and> is_rating_enough (rl_cmd_rating inp) p
     \<and> (\<not> rl_should_block_by_sync inp \<or> pe_is_sync_finished p)"

definition broadcast :: "router_link_package \<Rightarrow> link act" where
  "broadcast inp = look l_peers (\<lambda>ps. run_all [
     each ps (\<lambda>(i, p). only_if (reached inp p) (pass_on inp i)),
     only_if (\<forall>(i, p) \<in> set ps. \<not> reached inp p) (post_nack_to_router inp)])"

definition broadcast_with_exclude :: "router_link_package \<Rightarrow> link act" where
  "broadcast_with_exclude inp = look l_peers (\<lambda>ps.
     if ps = [] then post_nack_to_router inp
     else each ps (\<lambda>(i, p). only_if (reached inp p \<and> i \<notin> set (rl_peers inp)) (pass_on inp i)))"

definition post_router_feedback :: "router_link_package \<Rightarrow> ID32 list \<Rightarrow> link act" where
  "post_router_feedback inp ids = only_if (ids \<noteq> []) (l_router (\<lambda>out. (set_payload inp (out\<lparr>rl_request_id := rl_request_id inp\<rparr>))
     \<lparr>rl_cmd := cmd_nack, rl_peers := foldr insort_insert ids (rl_peers out)\<rparr>))"

definition send_to_peers :: "router_link_package \<Rightarrow> link act" where
  "send_to_peers inp = look l_peers (\<lambda>ps. run_all [
     each (rl_peers inp) (\<lambda>i. on_some (map_of ps i) (\<lambda>p. only_if (pe_device_id p \<noteq> []) (pass_on inp i))),
     post_router_feedback inp (filter (\<lambda>i. map_of ps i = None) (rl_peers inp))])"

definition set_sync_finished :: "bool \<Rightarrow> router_link_package \<Rightarrow> link act" where
  "set_sync_finished b inp = each (rl_peers inp) (\<lambda>i. upd_peer i (\<lambda>p. p\<lparr>pe_is_sync_finished := b\<rparr>))"

definition l_process_router_input :: "router_link_package \<Rightarrow> link act" where
  "l_process_router_input inp =
     (if rl_cmd inp = cmd_send then send_to_peers inp
      else if rl_cmd inp = cmd_broadcast then broadcast inp
      else if rl_cmd inp = cmd_broadcast_except then broadcast_with_exclude inp
      else if rl_cmd inp = cmd_sync_finished then set_sync_finished True inp
      else if rl_cmd inp = cmd_sync_started then set_sync_finished False inp
      else skip)"

definition l_handle_router_input :: "link act" where
  "l_handle_router_input s = (case fifo_front (l_router_rx s) of None \<Rightarrow> Returns s
     | Some inp \<Rightarrow> run_all [guarded (l_process_router_input inp), upd (\<lambda>s. s\<lparr>l_router_rx := consume (l_router_rx s)\<rparr>)] s)"

section \<open>Silent peers\<close>

definition is_elapsed :: "peer \<Rightarrow> nat \<Rightarrow> bool" where
  "is_elapsed p t \<longleftrightarrow> t \<ge> pe_last_received_time p + PONG_WAIT_TIME"

definition keep_alive :: "nat \<Rightarrow> ID32 \<times> peer \<Rightarrow> link act" where
  "keep_alive t = (\<lambda>(i, p).
     if pe_ping_sent p then
       (if is_elapsed p t then send_shutdown_message_to_peer i else upd_peer i (\<lambda>p. p\<lparr>pe_ping_sent := False\<rparr>))
     else if is_elapsed p t then
       (if pe_device_id p = [] then send_shutdown_message_to_peer i
        else run_all [upd_peer i (\<lambda>p. p\<lparr>pe_ping_sent := True\<rparr>), ping_peer i PING])
     else skip)"

definition handle_keep_alive_messages :: "link act" where
  "handle_keep_alive_messages = look l_keep_alive_timeout (\<lambda>b. only_if b (look l_peers (\<lambda>ps. look l_now (\<lambda>t. run_all [
     each ps (keep_alive t), upd (\<lambda>s. s\<lparr>l_keep_alive_timeout := False\<rparr>)]))))"

definition on_keep_timer :: "link act" where
  "on_keep_timer = upd (\<lambda>s. s\<lparr>l_keep_alive_timeout := True\<rparr>)"

section \<open>The life of a connection\<close>

definition get_peer_id :: "(ID32 \<Rightarrow> link act) \<Rightarrow> link act" where
  "get_peer_id k = look l_request_counter (\<lambda>i. run_all [
     upd (\<lambda>s. s\<lparr>l_request_counter := (if LINK_REQUEST_UPPER_BOUND \<le> i + 1 then LINK_REQUEST_LOWER_BOUND else i + 1)\<rparr>), k i])"

definition new_peer :: "string \<Rightarrow> ID32 \<Rightarrow> bool \<Rightarrow> nat \<Rightarrow> peer" where
  "new_peer a g mine t = \<lparr>pe_in = fifo_new link_peer_package0, pe_out = fifo_new link_peer_package0, pe_ping = fifo_new link_peer_package0,
     pe_address = a, pe_gid = g, pe_my_connection = mine, pe_is_sync_finished = True, pe_last_received_time = t, pe_ping_sent = False,
     pe_device_id = [], pe_rating = 0, pe_public_key = [], pe_load_info = 0\<rparr>"

text \<open>\<open>add_peer\<close>, called by the task of a connection when it is made; \<open>start_connection\<close> is \<^verbatim>\<open>new link_peer\<close>.\<close>

definition create_new_peer_info :: "string \<Rightarrow> ID32 \<Rightarrow> bool \<Rightarrow> link act" where
  "create_new_peer_info a g mine = get_peer_id (\<lambda>i. look l_now (\<lambda>t.
     upd (\<lambda>s. s\<lparr>l_peers := tab_set i (new_peer a g mine t) (l_peers s)\<rparr>)))"

definition start_connection :: "string \<Rightarrow> ID32 \<Rightarrow> link act" where
  "start_connection a g = upd (\<lambda>s. s\<lparr>l_started := l_started s @ [(a, g)]\<rparr>)"

text \<open>The entry of the group is looked up and read although there may be none, which is undefined then.\<close>

definition remove_from_balance_info :: "ID32 \<Rightarrow> peer \<Rightarrow> link act" where
  "remove_from_balance_info i p = look (\<lambda>s. l_balance s (pe_gid p)) (\<lambda>b. must b (\<lambda>j.
     only_if (j = i) (upd (\<lambda>s. s\<lparr>l_balance := (l_balance s)(pe_gid p := None)\<rparr>))))"

text \<open>The file of the ratings is written when it can be.\<close>

definition save_peers_rating_in_file :: "link act" where
  "save_peers_rating_in_file s = (if l_rating_path s \<in> set (l_locked s) then Returns s
     else Returns (s\<lparr>l_disk := (l_disk s)(l_rating_path s \<mapsto> bytes_of (kl_print (l_lib s) (l_ratings s)))\<rparr>))"

definition update_peer_last_seen :: "peer \<Rightarrow> link act" where
  "update_peer_last_seen p = (let d = hex_id (pe_device_id p) in
     only_if (d \<noteq> [] \<and> pe_is_sync_finished p) (look l_ratings (\<lambda>m.
       (let m = (if obj_has d m then m else obj_set d (J_obj []) m) in
        need exn.Assertion_violation (get_object d m) (\<lambda>info. run_all [
          upd (\<lambda>s. s\<lparr>l_ratings := obj_set d (J_obj (obj_set ''last_seen'' (J_num (int (pe_last_received_time p))) info)) m\<rparr>),
          save_peers_rating_in_file])))))"

definition remove_peer :: "ID32 \<Rightarrow> link act" where
  "remove_peer i = look (peer_of i) (\<lambda>p. need exn.Assertion_violation p (\<lambda>p. run_all [
     remove_from_balance_info i p,
     upd (\<lambda>s. s\<lparr>l_removable := l_removable s @ [(pe_address p, pe_gid p, pe_my_connection p)]\<rparr>),
     update_peer_last_seen p, l_send_notification_to_router p cmd_disconnected,
     upd (\<lambda>s. s\<lparr>l_peers := tab_erase i (l_peers s)\<rparr>)]))"

text \<open>A connection that could not be made.\<close>

definition mark_as_disconnected :: "string \<Rightarrow> ID32 \<Rightarrow> bool \<Rightarrow> link act" where
  "mark_as_disconnected a g mine = upd (\<lambda>s. s\<lparr>l_removable := l_removable s @ [(a, g, mine)]\<rparr>)"

definition clean_peer_info :: "link act" where
  "clean_peer_info = upd (\<lambda>s. s\<lparr>l_dropped := l_dropped s @ map (\<lambda>(a, g, _). (a, g)) (filter (\<lambda>(_, _, mine). mine) (l_removable s)),
     l_removable := []\<rparr>)"

definition reconnect_my_dropped_connections :: "link act" where
  "reconnect_my_dropped_connections = look l_dropped (\<lambda>ds. look l_balance (\<lambda>b. run_all [
     each (filter (\<lambda>(_, g). b g = None) ds) (\<lambda>(a, g). start_connection a g),
     upd (\<lambda>s. s\<lparr>l_dropped := filter (\<lambda>(_, g). b g \<noteq> None) ds\<rparr>)]))"

definition handle_dropped_connections :: "link act" where
  "handle_dropped_connections = run_all [clean_peer_info, reconnect_my_dropped_connections]"

text \<open>The end of the task: every peer is stopped and its last sight kept.\<close>

definition cleanup_link_peers :: "link act" where
  "cleanup_link_peers = run_all [
     look l_peers (\<lambda>ps. each ps (\<lambda>(i, p). update_peer_last_seen p)),
     clean_peer_info, upd (\<lambda>s. s\<lparr>l_peers := [], l_dropped := []\<rparr>)]"

text \<open>
  The task of a connection: \<open>configure_socket\<close> with what connecting gave (\<open>None\<close> when it failed) adds the peer and sends the
  device id; when its channel from the link is closed, \<open>shutdown_link_peer\<close> removes the peer.
\<close>

definition configure_socket :: "string \<Rightarrow> ID32 \<Rightarrow> bool \<Rightarrow> link_peer option \<Rightarrow> link \<Rightarrow> (link \<times> link_peer option) run" where
  "configure_socket a g mine q s = (case q of
     None \<Rightarrow> (case mark_as_disconnected a g mine s of Returns s \<Rightarrow> Returns (s, None) | Raises e s \<Rightarrow> Raises e (s, None) | Crashes \<Rightarrow> Crashes)
   | Some q \<Rightarrow> (case create_new_peer_info a g mine s of Crashes \<Rightarrow> Crashes | Raises e s \<Rightarrow> Raises e (s, Some q)
     | Returns s \<Rightarrow> (case send_device_id (l_device_id s) (l_public_key s) (length (l_peers s)) q of
         Returns q \<Rightarrow> Returns (s, Some q) | Raises e q \<Rightarrow> Raises e (s, Some q) | Crashes \<Rightarrow> Crashes)))"

end
