(* ===== verification/Link_Config.thy ===== *)
theory Link_Config
  imports Link_Tasks
begin

text \<open>
  Requests of the configuration manager to \<^verbatim>\<open>metax/link.cpp\<close>, and the transfer of the user's keys: one device opens a
  pairing socket and shows a code; another one finds it, sends the code and gets the key files. The two ends of that
  conversation are functions of the bytes the other end sends.
\<close>

section \<open>Configuration\<close>

definition element :: "(klib \<Rightarrow> json \<Rightarrow> 'a option) \<Rightarrow> json list \<Rightarrow> nat \<Rightarrow> ('a \<Rightarrow> link act) \<Rightarrow> link act" where
  "element conv arr n k = look (\<lambda>s. conv (l_lib s) (arr ! n)) (\<lambda>x. need Poco_error x k)"

definition handle_device_id :: "string \<Rightarrow> link act" where
  "handle_device_id path = upd (\<lambda>s. s\<lparr>l_device_id := l_md5 s (read_content (l_disk s) path)\<rparr>)"

definition handle_user_public_key :: "string \<Rightarrow> link act" where
  "handle_user_public_key path = look (\<lambda>s. l_disk s path) (\<lambda>f. need Poco_error f (\<lambda>bs.
     upd (\<lambda>s. s\<lparr>l_public_key := trim_text (chars bs)\<rparr>)))"

definition is_integer :: "json \<Rightarrow> bool" where
  "is_integer j = (case j of J_num _ \<Rightarrow> True | J_bool _ \<Rightarrow> True | _ \<Rightarrow> False)"

definition integer_if_there :: "string \<Rightarrow> jobj \<Rightarrow> bool" where
  "integer_if_there n m = (case map_of m n of None \<Rightarrow> True | Some j \<Rightarrow> is_integer j)"

definition validate_peers_rating :: "jobj \<Rightarrow> bool" where
  "validate_peers_rating m = list_all (\<lambda>(n, j). is_integer j \<and> n = ''protocol_version''
     \<or> (case j of J_obj e \<Rightarrow> integer_if_there ''rating'' e \<and> integer_if_there ''last_seen'' e | _ \<Rightarrow> False)) m"

definition handle_peers_ratings :: "string \<Rightarrow> link act" where
  "handle_peers_ratings path = run_all [
     upd (\<lambda>s. s\<lparr>l_rating_path := path\<rparr>),
     look (\<lambda>s. case l_disk s path of None \<Rightarrow> None | Some bs \<Rightarrow> kl_parse (l_lib s) (chars bs)) (\<lambda>m. on_some m (\<lambda>m.
       only_if (validate_peers_rating m) (run_all [
         upd (\<lambda>s. s\<lparr>l_ratings := m\<rparr>),
         only_if (\<not> obj_has ''protocol_version'' m) (run_all [
           upd (\<lambda>s. s\<lparr>l_ratings := obj_set ''protocol_version'' (J_num 1) m\<rparr>), save_peers_rating_in_file])])))]"

definition handle_peer_verification_mode :: "string \<Rightarrow> link act" where
  "handle_peer_verification_mode mode =
     (if mode = ''strict'' then upd (\<lambda>s. s\<lparr>l_mode := Strict\<rparr>)
      else if mode = ''relaxed'' then upd (\<lambda>s. s\<lparr>l_mode := Relaxed\<rparr>)
      else run_all [check (\<lambda>_. mode = ''none''), upd (\<lambda>s. s\<lparr>l_mode := No_verification\<rparr>)])"

definition to_flag :: "klib \<Rightarrow> json \<Rightarrow> bool option" where
  "to_flag L j = map_option (\<lambda>i. i \<noteq> 0) (to_int L j)"

text \<open>The contexts of OpenSSL that are made at the end are left out.\<close>

definition handle_config_device_id_request :: "link_cfg_package \<Rightarrow> link act" where
  "handle_config_device_id_request inp = run_all [
     check (\<lambda>_. lc_cmd inp = cmd_device_id), check (\<lambda>_. has_message inp),
     c_message inp (\<lambda>t. look (\<lambda>s. l_parse_array s t) (\<lambda>arr. need Poco_error arr (\<lambda>arr. run_all [
       check (\<lambda>_. length arr = 9),
       element to_text arr 0 (\<lambda>d. run_all [upd (\<lambda>s. s\<lparr>l_device_key_path := d\<rparr>), handle_device_id (d @ ''/public.pem'')]),
       element to_text arr 1 handle_user_public_key,
       element to_text arr 2 handle_peers_ratings,
       element to_text arr 3 (\<lambda>r. element to_text arr 4 (\<lambda>c.
         upd (\<lambda>s. s\<lparr>l_default_rating := of_nat (from_string 16 r), l_sync_class := of_nat (from_string 16 c)\<rparr>))),
       element to_text arr 5 (\<lambda>p. upd (\<lambda>s. s\<lparr>l_user_key_path := p\<rparr>)),
       element to_text arr 6 (\<lambda>p. upd (\<lambda>s. s\<lparr>l_user_json_info_path := p\<rparr>)),
       element to_flag arr 7 (\<lambda>b. upd (\<lambda>s. s\<lparr>l_use_ssl := b\<rparr>)),
       element to_text arr 8 handle_peer_verification_mode])))]"

section \<open>Peers\<close>

definition get_online_peers_list :: "(ID32 \<times> peer) list \<Rightarrow> json list" where
  "get_online_peers_list ps = map (\<lambda>(_, p). J_obj (peer_json p)) (filter (\<lambda>(_, p). pe_device_id p \<noteq> []) ps)"

definition answer_array :: "command \<Rightarrow> ID32 \<Rightarrow> json list \<Rightarrow> link act" where
  "answer_array c i arr = look (\<lambda>s. l_print_array s arr) (\<lambda>t. run_all [text_fits t,
     l_config (\<lambda>out. put_text t (out\<lparr>lc_cmd := c, lc_request_id := i\<rparr>))])"

definition handle_config_get_online_peers_request :: "link_cfg_package \<Rightarrow> link act" where
  "handle_config_get_online_peers_request inp =
     look l_peers (\<lambda>ps. answer_array cmd_get_online_peers_response (lc_request_id inp) (get_online_peers_list ps))"

definition handle_connect_request :: "link_cfg_package \<Rightarrow> link act" where
  "handle_connect_request inp = run_all [check (\<lambda>_. has_message inp), c_message inp (\<lambda>a. start_connection a (lc_peer_id inp))]"

definition handle_config_peer_verified :: "link_cfg_package \<Rightarrow> link act" where
  "handle_config_peer_verified inp = look (peer_of (lc_peer_id inp)) (\<lambda>p. on_some p (\<lambda>_.
     accept_connection_with_balancing (lc_peer_id inp) (lc_device_id inp)))"

definition handle_config_peer_not_verified :: "link_cfg_package \<Rightarrow> link act" where
  "handle_config_peer_not_verified inp = look (peer_of (lc_peer_id inp)) (\<lambda>p. on_some p (\<lambda>_. send_shutdown_message_to_peer (lc_peer_id inp)))"

section \<open>Opening a device for pairing\<close>

definition alphanum :: string where
  "alphanum = ''0123456789ABCDEFGHIJKLMNOPQRSTUVWXYZabcdefghijklmnopqrstuvwxyz''"

definition generate_code :: "(nat \<Rightarrow> nat) \<Rightarrow> nat \<Rightarrow> string" where
  "generate_code rand l = map (\<lambda>i. alphanum ! (rand i mod 62)) [0..<l]"

definition send_fail_message :: "string \<Rightarrow> command \<Rightarrow> link_cfg_package \<Rightarrow> link act" where
  "send_fail_message m c inp = look (\<lambda>s. kl_print (l_lib s) [(if c = cmd_start_pairing_fail then ''error'' else ''warning'', J_str m)])
     (\<lambda>t. run_all [text_fits t, l_config (\<lambda>out. put_text t (out\<lparr>lc_cmd := c, lc_request_id := lc_request_id inp\<rparr>))])"

definition send_generated_code :: "link_cfg_package \<Rightarrow> link act" where
  "send_generated_code inp = run_all [
     check l_pairing, upd (\<lambda>s. s\<lparr>l_code := generate_code (l_random s) 7\<rparr>), check (\<lambda>s. l_code s \<noteq> []),
     look (\<lambda>s. kl_print (l_lib s) [(''generated_code'', J_str (l_code s))]) (\<lambda>t. run_all [text_fits t,
       l_config (\<lambda>out. put_text t (out\<lparr>lc_cmd := cmd_get_generated_code, lc_request_id := lc_request_id inp\<rparr>))])]"

definition create_pairing_tcp_server_socket :: "link act" where
  "create_pairing_tcp_server_socket = run_all [check (\<lambda>s. \<not> l_pairing s),
     look l_port_taken (\<lambda>b. if b then raise_error Poco_error else upd (\<lambda>s. s\<lparr>l_pairing := True\<rparr>))]"

definition handle_config_start_pairing :: "link_cfg_package \<Rightarrow> link act" where
  "handle_config_start_pairing inp = look l_pairing (\<lambda>open_already.
     if open_already then send_fail_message ''Server already started'' cmd_get_generated_code inp
     else catching_all (run_all [
         check (\<lambda>_. has_message inp),
         c_message inp (\<lambda>t. upd (\<lambda>s. s\<lparr>l_pairing_timeout := of_nat (from_string 16 t)\<rparr>)),
         create_pairing_tcp_server_socket, send_generated_code inp])
       (look l_error_text (\<lambda>t. send_fail_message (''Transfer keys: Fail to start server '' @ t) cmd_start_pairing_fail inp)))"

text \<open>\<open>cancel_pairing\<close>, and the timer when the time for pairing is over.\<close>

definition cancel_pairing :: "link act" where
  "cancel_pairing = look l_pairing (\<lambda>b. only_if b (upd (\<lambda>s. s\<lparr>l_pairing := False, l_code := []\<rparr>)))"

section \<open>Looking for devices\<close>

text \<open>\<^verbatim>\<open>s.find_first_of(c, i)\<close>. The parts are cut too long; the number ends at the dot anyway.\<close>

definition find_first_of :: "char \<Rightarrow> nat \<Rightarrow> string \<Rightarrow> nat option" where
  "find_first_of c i s = find (\<lambda>j. s ! j = c) [i..<length s]"

function address_loop :: "string \<Rightarrow> nat \<Rightarrow> ID32 \<Rightarrow> ID32" where
  "address_loop s index_begin n = (case find_first_of CHR ''.'' index_begin s of
     None \<Rightarrow> n OR of_nat (from_string 32 (drop index_begin s))
   | Some index_end \<Rightarrow> address_loop s (Suc index_end) (push_bit 8 (n OR of_nat (from_string 32 (take index_end (drop index_begin s))))))"
  by pat_completeness auto
termination
  by (relation "measure (\<lambda>(s, b, n). length s - b)")
    (auto simp: find_first_of_def find_Some_iff split: option.splits simp del: upt_Suc)

declare address_loop.simps [simp del]

definition address_to_int :: "string \<Rightarrow> ID32" where
  "address_to_int s = address_loop s 0 0"

fun address_parts :: "nat \<Rightarrow> ID32 \<Rightarrow> string \<Rightarrow> string" where
  "address_parts 0 n s = decimal (unat n) @ s"
| "address_parts (Suc i) n s = address_parts i (drop_bit 8 n) (CHR ''.'' # decimal (unat (n AND 0xFF)) @ s)"

definition int_to_address :: "ID32 \<Rightarrow> string" where
  "int_to_address n = address_parts 3 n []"

text \<open>\<open>None\<close>: the loop over 32-bit addresses never ends when it runs up to the largest one.\<close>

definition collect_available_ips_in_specified_network :: "(string \<Rightarrow> bool) \<Rightarrow> string \<Rightarrow> string \<Rightarrow> string list \<Rightarrow> string list option" where
  "collect_available_ips_in_specified_network answers ip netmask a =
     (if ip = [] \<or> netmask = [] \<or> take 7 netmask \<noteq> ''255.255'' then Some a
      else let int_ip = address_to_int ip; int_subnet = address_to_int netmask;
               start_ip = (int_ip AND int_subnet) + 1; end_ip = (int_ip OR NOT int_subnet) - 1 in
        if end_ip = - 1 then None
        else Some (fold insort_insert (filter answers (map (\<lambda>k. int_to_address (of_nat k)) [unat start_ip..<Suc (unat end_ip)])) a))"

text \<open>The index of the networks is a byte.\<close>

definition get_pairing_peers_list :: "(string \<Rightarrow> bool) \<Rightarrow> (string \<times> string) list \<Rightarrow> json list option" where
  "get_pairing_peers_list answers v =
     (if length v \<ge> 256 then None
      else case foldl (\<lambda>a (ip, netmask). case a of None \<Rightarrow> None | Some a \<Rightarrow> collect_available_ips_in_specified_network answers ip netmask a) (Some []) v of
        None \<Rightarrow> None
      | Some a \<Rightarrow> Some (map (\<lambda>(k, ip). J_obj [(decimal (Suc k), J_str ip)]) (zip [0..<length a] a)))"

definition handle_config_get_pairing_peers :: "link_cfg_package \<Rightarrow> link act" where
  "handle_config_get_pairing_peers inp = look (\<lambda>s. get_pairing_peers_list (l_answers s) (l_networks s)) (\<lambda>arr. must arr (\<lambda>arr.
     answer_array cmd_get_pairing_peers_response (lc_request_id inp) arr))"

section \<open>The transfer\<close>

definition key_transfer_package0 :: key_transfer_package where
  "key_transfer_package0 = package.extend default_package
     \<lparr>kt_cmd = cmd_max_command, kt_code = [], kt_public_key = [], kt_private_key = [], kt_user_json_info = []\<rparr>"

text \<open>A package is serialised and written on the socket.\<close>

definition say :: "byte list \<Rightarrow> link act" where
  "say bs = upd (\<lambda>s. s\<lparr>l_wire := l_wire s @ bs\<rparr>)"

definition transmit :: "key_transfer_package \<Rightarrow> link act" where
  "transmit p = must (kt_serialize p default_package) (\<lambda>pkg. send_by_socket pkg say)"

text \<open>
  \<open>save_user_keys\<close> and \<open>connect_server_and_save_keys\<close>, with the bytes the server sends.
\<close>

definition save_user_keys :: "byte list list \<Rightarrow> ID32 \<Rightarrow> link act" where
  "save_user_keys segs i = need Poco_error (read_message segs) (\<lambda>(pkg, _).
     look (\<lambda>s. kt_extract_header pkg (slot (l_key_manager_tx s))) (\<lambda>r. must r (\<lambda>(out, _).
       upd (\<lambda>s. s\<lparr>l_key_manager_tx := commit link_key_manager_package0 (set_slot (\<lambda>_. out\<lparr>lk_request_id := i,
         kt_cmd := cmd_request_keys_response\<rparr>) (l_key_manager_tx s))\<rparr>))))"

definition connect_server_and_save_keys :: "exn + byte list list \<Rightarrow> string \<Rightarrow> ID32 \<Rightarrow> link act" where
  "connect_server_and_save_keys conn code i = attempt conn (\<lambda>segs. need Poco_error (read_message segs) (\<lambda>(hp, rest).
     case extract_payload hp (unat (kt_header_size key_transfer_package0)) key_transfer_package0 of
       Thrown hm \<Rightarrow> raise_error Poco_error
     | Done hm \<Rightarrow> if p_size hm = 0 then raise_error Poco_error
         else sized_message hm (\<lambda>t. only_if (t = ''Connected'') (run_all [
           transmit (key_transfer_package0\<lparr>kt_code := bytes_of code\<rparr>), save_user_keys rest i]))
     | _ \<Rightarrow> crash))"

definition send_request_keys_fail_to_config :: "string \<Rightarrow> ID32 \<Rightarrow> link act" where
  "send_request_keys_fail_to_config err i = run_all [text_fits err,
     l_config (\<lambda>out. put_text err (out\<lparr>lc_request_id := i, lc_cmd := cmd_request_keys_fail\<rparr>))]"

text \<open>The payload is address and code with a comma between them.\<close>

definition handle_config_request_keys :: "link_cfg_package \<Rightarrow> link act" where
  "handle_config_request_keys inp = run_all [check (\<lambda>_. has_message inp),
     c_message inp (\<lambda>t. need exn.Assertion_violation (find_first_of CHR '','' 0 t) (\<lambda>k.
       catching_all (look (\<lambda>s. l_net s (take k t @ '':'' @ decimal 9001)) (\<lambda>conn.
           connect_server_and_save_keys conn (drop (Suc k) t) (lc_request_id inp)))
         (look l_error_text (\<lambda>e. send_request_keys_fail_to_config e (lc_request_id inp)))))]"

text \<open>The server's side: \<open>newConnection::run\<close>, with the bytes of the client; every exception is logged.\<close>

definition file_or_empty :: "string \<Rightarrow> link \<Rightarrow> byte list" where
  "file_or_empty p s = (case l_disk s p of None \<Rightarrow> [] | Some bs \<Rightarrow> bs)"

definition send_user_keys :: "link act" where
  "send_user_keys = look (\<lambda>s. (file_or_empty (l_user_key_path s @ ''/public.pem'') s, file_or_empty (l_user_key_path s @ ''/private.pem'') s,
       file_or_empty (l_user_json_info_path s) s)) (\<lambda>(pub, priv, info). run_all [
     check (\<lambda>s. l_user_key_path s \<noteq> []), check (\<lambda>_. pub \<noteq> []), check (\<lambda>_. priv \<noteq> []), check (\<lambda>_. info \<noteq> []),
     transmit (key_transfer_package0\<lparr>kt_public_key := pub, kt_private_key := priv, kt_user_json_info := info\<rparr>)])"

definition new_connection_run :: "string \<Rightarrow> byte list list \<Rightarrow> link act" where
  "new_connection_run who segs = catching_poco (run_all [
     transmit (put_text ''Connected'' key_transfer_package0),
     look l_code (\<lambda>c. only_if (c \<noteq> []) (need Poco_error (read_message segs) (\<lambda>(pkg, _).
       must (kt_extract_header pkg key_transfer_package0) (\<lambda>(ktp, _).
         only_if (kt_code ktp = bytes_of c) (run_all [send_user_keys,
           upd (\<lambda>s. s\<lparr>l_notification := ''Successfully sent keys to '' @ who\<rparr>)])))))])
     skip"

definition handle_key_transfer_notification :: "link act" where
  "handle_key_transfer_notification = look l_notification (\<lambda>m. only_if (m \<noteq> []) (run_all [
     look (\<lambda>s. kl_print (l_lib s) [(''KeyTransfer'', J_str m)]) (\<lambda>t. run_all [text_fits t,
       l_config (\<lambda>out. put_text t (out\<lparr>lc_cmd := cmd_send_to_peer\<rparr>))]),
     upd (\<lambda>s. s\<lparr>l_notification := []\<rparr>)]))"

section \<open>The task\<close>

text \<open>The listening socket of \<^verbatim>\<open>bind\<close> is not modelled.\<close>

definition process_config_input_of_link :: "link_cfg_package \<Rightarrow> link act" where
  "process_config_input_of_link inp =
     (if lc_cmd inp = cmd_device_id then handle_config_device_id_request inp
      else if lc_cmd inp = cmd_connect then handle_connect_request inp
      else if lc_cmd inp = cmd_get_online_peers then handle_config_get_online_peers_request inp
      else if lc_cmd inp = cmd_reconnect_to_peers then handle_dropped_connections
      else if lc_cmd inp = cmd_start_pairing then handle_config_start_pairing inp
      else if lc_cmd inp = cmd_cancel_pairing then cancel_pairing
      else if lc_cmd inp = cmd_get_pairing_peers then handle_config_get_pairing_peers inp
      else if lc_cmd inp = cmd_request_keys then handle_config_request_keys inp
      else if lc_cmd inp = cmd_peer_verified then handle_config_peer_verified inp
      else if lc_cmd inp = cmd_peer_not_verified then handle_config_peer_not_verified inp
      else skip)"

definition handle_config_input_of_link :: "link act" where
  "handle_config_input_of_link s = (case fifo_front (l_config_rx s) of None \<Rightarrow> Returns s
     | Some inp \<Rightarrow> run_all [guarded (process_config_input_of_link inp),
         upd (\<lambda>s. s\<lparr>l_config_rx := consume (l_config_rx s)\<rparr>)] s)"

definition link_turn :: "link act" where
  "link_turn = run_all [handle_inputs_from_peers, l_handle_router_input, handle_config_input_of_link,
     handle_keep_alive_messages, handle_key_transfer_notification]"

definition link_new :: "klib \<Rightarrow> link" where
  "link_new L = \<lparr>l_router_rx = fifo_new router_link_package0, l_router_tx = fifo_new router_link_package0,
     l_config_rx = fifo_new link_cfg_package0, l_config_tx = fifo_new link_cfg_package0, l_key_manager_tx = fifo_new link_key_manager_package0,
     l_peers = [], l_device_id = [], l_public_key = [], l_use_ssl = True, l_request_counter = LINK_REQUEST_LOWER_BOUND, l_dropped = [],
     l_removable = [], l_started = [], l_keep_alive_timeout = False, l_rating_path = [], l_ratings = [], l_default_rating = 0, l_sync_class = 0,
     l_mode = No_verification, l_balance = Map.empty, l_user_key_path = [], l_user_json_info_path = [], l_device_key_path = [],
     l_pairing = False, l_pairing_timeout = 0, l_code = [], l_notification = [], l_lib = L, l_parse_array = (\<lambda>_. None),
     l_print_array = (\<lambda>_. []), l_md5 = (\<lambda>_. []), l_disk = Map.empty, l_locked = [], l_now = 0, l_port_taken = False, l_random = (\<lambda>_. 0),
     l_error_text = [], l_networks = [], l_answers = (\<lambda>_. False), l_net = (\<lambda>_. Inl Poco_error), l_wire = []\<rparr>"

end
