(* ===== verification/Link_Inv.thy ===== *)
theory Link_Inv
  imports Link_Config
begin

text \<open>
  One connection per group, as an invariant of the link. \<open>relates R a\<close> says that the action relates the states before and
  after it by \<open>R\<close>, also when an exception is on its way; the locale \<open>preorder_of_states\<close> has a rule for every statement.
\<close>

section \<open>Actions and a relation of states\<close>

definition relates :: "('s \<Rightarrow> 's \<Rightarrow> bool) \<Rightarrow> 's act \<Rightarrow> bool" where
  "relates R a \<longleftrightarrow> (\<forall>s. case a s of Returns s' \<Rightarrow> R s s' | Raises e s' \<Rightarrow> R s s' | Crashes \<Rightarrow> True)"

lemma relatesD: "relates R a \<Longrightarrow> a s = Returns s' \<Longrightarrow> R s s'" "relates R a \<Longrightarrow> a s = Raises e s' \<Longrightarrow> R s s'"
  by (auto simp: relates_def split: run.splits)

lemma relatesI: "(\<And>s s'. a s = Returns s' \<Longrightarrow> R s s') \<Longrightarrow> (\<And>s e s'. a s = Raises e s' \<Longrightarrow> R s s') \<Longrightarrow> relates R a"
  by (auto simp: relates_def split: run.splits)

locale preorder_of_states =
  fixes R :: "'s \<Rightarrow> 's \<Rightarrow> bool"
  assumes refl: "R s s"
    and trans: "R s t \<Longrightarrow> R t u \<Longrightarrow> R s u"
begin

lemma simple: "relates R skip" "relates R (raise_error e)" "relates R crash" "relates R (check P)" "relates R (run_all [])"
  by (simp_all add: relates_def action_defs refl)

lemma relates_upd: "(\<And>s. R s (f s)) \<Longrightarrow> relates R (upd f)"
  by (simp add: relates_def upd_def)

lemma relates_and_run: "relates R a \<Longrightarrow> relates R b \<Longrightarrow> relates R (\<lambda>s. and_run (a s) b)"
proof (rule relatesI)
  fix s s'
  assume a: "relates R a" and b: "relates R b"
  { assume "and_run (a s) b = Returns s'"
    then show "R s s'"
      using relatesD [OF a, of s] relatesD [OF b] by (cases "a s") (auto intro: trans) }
  fix e
  assume "and_run (a s) b = Raises e s'"
  then show "R s s'"
    using relatesD [OF a, of s] relatesD [OF b] by (cases "a s") (auto intro: trans)
qed

lemma relates_run_all: "relates R a \<Longrightarrow> relates R (run_all as) \<Longrightarrow> relates R (run_all (a # as))"
proof -
  assume "relates R a" "relates R (run_all as)"
  moreover have "run_all (a # as) = (\<lambda>s. and_run (a s) (run_all as))"
    by (rule ext) simp
  ultimately show ?thesis
    using relates_and_run [of a "run_all as"] by simp
qed

lemma relates_each: "(\<And>x. x \<in> set xs \<Longrightarrow> relates R (f x)) \<Longrightarrow> relates R (each xs f)"
proof (induction xs)
  case Nil
  then show ?case
    by (simp add: relates_def refl)
next
  case (Cons x xs)
  have "each (x # xs) f = (\<lambda>s. and_run (f x s) (each xs f))"
    by (rule ext) simp
  with Cons show ?case
    using relates_and_run [of "f x" "each xs f"] by simp
qed

lemma relates_look: "(\<And>x. relates R (k x)) \<Longrightarrow> relates R (look f k)"
  by (auto simp: relates_def look_def)

lemma relates_optional:
  "(b \<Longrightarrow> relates R a) \<Longrightarrow> relates R (only_if b a)" "(\<And>y. x = Some y \<Longrightarrow> relates R (k y)) \<Longrightarrow> relates R (on_some x k)"
  "(\<And>y. x = Some y \<Longrightarrow> relates R (k y)) \<Longrightarrow> relates R (need e x k)" "(\<And>y. x = Some y \<Longrightarrow> relates R (k y)) \<Longrightarrow> relates R (must x k)"
  "(\<And>y. r = Inr y \<Longrightarrow> relates R (k y)) \<Longrightarrow> relates R (attempt r k)"
  by (auto simp: only_if_def on_some_def need_def must_def attempt_def simple split: option.splits sum.splits)

lemma relates_cases:
  "(b \<Longrightarrow> relates R a) \<Longrightarrow> (\<not> b \<Longrightarrow> relates R c) \<Longrightarrow> relates R (if b then a else c)"
  "relates R (g v) \<Longrightarrow> relates R (Let v g)"
  "(x = None \<Longrightarrow> relates R a) \<Longrightarrow> (\<And>y. x = Some y \<Longrightarrow> relates R (f y)) \<Longrightarrow> relates R (case x of None \<Rightarrow> a | Some y \<Rightarrow> f y)"
  "(\<And>y z. p = (y, z) \<Longrightarrow> relates R (h y z)) \<Longrightarrow> relates R (case p of (y, z) \<Rightarrow> h y z)"
  by (simp_all add: Let_def split: option.splits prod.splits)

lemma relates_outcome: "(\<And>x. relates R (f x)) \<Longrightarrow> (\<And>x. relates R (g x)) \<Longrightarrow> relates R a \<Longrightarrow> relates R b \<Longrightarrow>
  relates R (case o1 of Done x \<Rightarrow> f x | Thrown x \<Rightarrow> g x | Aborted \<Rightarrow> a | Undef \<Rightarrow> b)"
  by (cases o1) simp_all

lemma relates_caught:
  assumes "relates R a" "relates R h"
  shows "relates R (catching_all a h)" "relates R (catching_poco a h)"
proof -
  have R: "R s s'" if "a s = Returns s' \<or> a s = Raises e s'" for s s' e
    using that relatesD [OF assms(1)] by auto
  have H: "R s u" if "a s = Raises e s'" "h s' = Returns u \<or> h s' = Raises e' u" for s s' u e e'
    using that relatesD [OF assms(1)] relatesD [OF assms(2)] trans by blast
  show "relates R (catching_all a h)" "relates R (catching_poco a h)"
    unfolding relates_def catching_all_def catching_poco_def
    using R H by (auto split: run.splits exn.splits)
qed

lemma relates_guarded: "relates R a \<Longrightarrow> relates R (guarded a)"
  by (auto simp: relates_def guarded_def split: run.splits exn.splits)

lemma relates_read: "relates R a \<Longrightarrow> relates R b \<Longrightarrow> relates R (\<lambda>s. if P s then a s else b s)"
  "(relates R a) \<Longrightarrow> (\<And>y. relates R (f y)) \<Longrightarrow> relates R (\<lambda>s. case g s of None \<Rightarrow> a s | Some y \<Rightarrow> f y s)"
  unfolding relates_def by (auto split: option.split)

lemmas rules = simple relates_run_all relates_each relates_look relates_optional relates_cases relates_outcome relates_caught relates_guarded

end

lemma run_all_fun: "run_all [] = Returns" "run_all (a # as) = (\<lambda>s. and_run (a s) (run_all as))"
  by (rule ext, simp)+

lemma relates_mono: "relates R a \<Longrightarrow> (\<And>s s'. R s s' \<Longrightarrow> Q s s') \<Longrightarrow> relates Q a"
  by (auto simp: relates_def split: run.splits)

section \<open>Peers that are only closed\<close>

lemma map_of_upd: "map_of (map (\<lambda>(j, p). if j = i then (j, f p) else (j, p)) ps) k
    = (if k = i then map_option f (map_of ps k) else map_of ps k)"
  by (induction ps) auto

lemma fst_upd [simp]: "map fst (map (\<lambda>(j, p). if j = i then (j, f p) else (j, p)) ps) = map fst ps"
  by (induction ps) auto

text \<open>The connections and the entries of the groups stay; a peer may lose its device id.\<close>

definition closing :: "link \<Rightarrow> link \<Rightarrow> bool" where
  "closing s s' \<longleftrightarrow> l_balance s' = l_balance s \<and> map fst (l_peers s') = map fst (l_peers s)
     \<and> (\<forall>i p'. peer_of i s' = Some p' \<longrightarrow> (\<exists>p. peer_of i s = Some p \<and> pe_gid p' = pe_gid p
          \<and> (pe_device_id p' = pe_device_id p \<or> pe_device_id p' = [])))"

interpretation closing: preorder_of_states closing
proof
  show "closing s s" for s
    by (simp add: closing_def)
  fix s t u
  assume st: "closing s t" and tu: "closing t u"
  have "\<exists>p. peer_of i s = Some p \<and> pe_gid p'' = pe_gid p \<and> (pe_device_id p'' = pe_device_id p \<or> pe_device_id p'' = [])"
    if h: "peer_of i u = Some p''" for i p''
  proof -
    obtain p' where p': "peer_of i t = Some p'" "pe_gid p'' = pe_gid p'" "pe_device_id p'' = pe_device_id p' \<or> pe_device_id p'' = []"
      using tu h unfolding closing_def by blast
    then obtain p where "peer_of i s = Some p" "pe_gid p' = pe_gid p" "pe_device_id p' = pe_device_id p \<or> pe_device_id p' = []"
      using st unfolding closing_def by blast
    with p' show ?thesis
      by auto
  qed
  then show "closing s u"
    using st tu by (simp add: closing_def)
qed

lemma closing_upd_peer: "(\<And>p. pe_gid (f p) = pe_gid p \<and> (pe_device_id (f p) = pe_device_id p \<or> pe_device_id (f p) = [])) \<Longrightarrow> relates closing (upd_peer i f)"
  by (auto simp: relates_def upd_peer_def closing_def peer_of_def map_of_upd split: if_splits)

lemma closing_same: "(\<And>s. l_peers (f s) = l_peers s \<and> l_balance (f s) = l_balance s) \<Longrightarrow> relates closing (upd f)"
  by (rule closing.relates_upd) (simp add: closing_def peer_of_def)

lemma closing_posts: "relates closing (l_router f)" "relates closing (l_config g)" "relates closing (post_peer i h)" "relates closing (ping_peer i fl)"
  "relates closing (text_fits t)" "relates closing (send_shutdown_message_to_peer i)" "relates closing (say bs)"
  by (simp_all add: l_router_def l_config_def post_peer_def ping_peer_def text_fits_def send_shutdown_message_to_peer_def say_def
      closing_same closing_upd_peer closing.simple closing.relates_run_all)

lemma closing_notification: "relates closing (l_send_notification_to_router p c)"
  unfolding l_send_notification_to_router_def by (intro closing.rules closing_posts)

lemma closing_last_seen: "(\<And>t. relates closing (k t)) \<Longrightarrow> relates closing (get_peer_last_seen info k)"
  unfolding get_peer_last_seen_def by (intro closing.rules)

lemma closing_configure: "relates closing (configure_peer_by_device_id i d)"
  unfolding configure_peer_by_device_id_def post_send_journal_info_from_last_seen_def post_kernel_start_storage_sync_def
  by (intro closing.rules closing_posts closing_last_seen closing_upd_peer closing_same) simp_all

lemma closing_with_peer: "(\<And>p. relates closing (k p)) \<Longrightarrow> relates closing (with_peer i k)"
  unfolding with_peer_def by (intro closing.rules)

section \<open>Groups\<close>

definition group_ok :: "link \<Rightarrow> bool" where
  "group_ok s \<longleftrightarrow> distinct (map fst (l_peers s))
     \<and> (\<forall>g i. l_balance s g = Some i \<longrightarrow> g \<noteq> - 1 \<and> (\<exists>p. peer_of i s = Some p \<and> pe_gid p = g))
     \<and> (\<forall>i p. peer_of i s = Some p \<longrightarrow> pe_device_id p \<noteq> [] \<longrightarrow> pe_gid p \<noteq> - 1 \<longrightarrow> l_balance s (pe_gid p) = Some i)"

lemma group_okD:
  assumes "group_ok s"
  shows "distinct (map fst (l_peers s))" "l_balance s g = Some i \<Longrightarrow> g \<noteq> - 1" "l_balance s g = Some i \<Longrightarrow> \<exists>p. peer_of i s = Some p \<and> pe_gid p = g"
    "peer_of i s = Some p \<Longrightarrow> pe_device_id p \<noteq> [] \<Longrightarrow> pe_gid p \<noteq> - 1 \<Longrightarrow> l_balance s (pe_gid p) = Some i"
  using assms unfolding group_ok_def by blast+

lemma group_okI:
  assumes "distinct (map fst (l_peers s))" "\<And>g i. l_balance s g = Some i \<Longrightarrow> g \<noteq> - 1 \<and> (\<exists>p. peer_of i s = Some p \<and> pe_gid p = g)"
    "\<And>i p. peer_of i s = Some p \<Longrightarrow> pe_device_id p \<noteq> [] \<Longrightarrow> pe_gid p \<noteq> - 1 \<Longrightarrow> l_balance s (pe_gid p) = Some i"
  shows "group_ok s"
  using assms unfolding group_ok_def by blast

lemma closingD:
  assumes "closing s s'"
  shows "l_balance s' = l_balance s" "map fst (l_peers s') = map fst (l_peers s)"
    "peer_of i s' = Some p' \<Longrightarrow> \<exists>p. peer_of i s = Some p \<and> pe_gid p' = pe_gid p \<and> (pe_device_id p' = pe_device_id p \<or> pe_device_id p' = [])"
  using assms unfolding closing_def by blast+

definition keeps_groups :: "link \<Rightarrow> link \<Rightarrow> bool" where
  "keeps_groups s s' \<longleftrightarrow> (group_ok s \<longrightarrow> group_ok s')"

interpretation keeps_groups: preorder_of_states keeps_groups
  by unfold_locales (simp_all add: keeps_groups_def)

lemma same_ids: "map fst xs = map fst ys \<Longrightarrow> map_of xs i = None \<longleftrightarrow> map_of ys i = None"
  by (simp add: map_of_eq_None_iff) (metis set_map)

lemma closing_peer:
  assumes "closing s s'" "peer_of i s = Some p"
  obtains p' where "peer_of i s' = Some p'" "pe_gid p' = pe_gid p" "pe_device_id p' = pe_device_id p \<or> pe_device_id p' = []"
proof -
  obtain p' where p': "peer_of i s' = Some p'"
    using assms(2) same_ids [OF closingD(2) [OF assms(1)], of i] by (auto simp: peer_of_def)
  then show ?thesis
    using that closingD(3) [OF assms(1) p'] assms(2) by auto
qed

lemma closing_group_ok:
  assumes "closing s s'" "group_ok s"
  shows "group_ok s'"
proof (rule group_okI)
  show "distinct (map fst (l_peers s'))"
    using group_okD(1) [OF assms(2)] closingD(2) [OF assms(1)] by simp
  show "g \<noteq> - 1 \<and> (\<exists>p. peer_of i s' = Some p \<and> pe_gid p = g)" if b: "l_balance s' g = Some i" for g i
  proof -
    have b: "l_balance s g = Some i"
      using closingD(1) [OF assms(1)] b by simp
    then obtain p where p: "peer_of i s = Some p" "pe_gid p = g"
      using group_okD(3) [OF assms(2)] by blast
    obtain p' where "peer_of i s' = Some p'" "pe_gid p' = pe_gid p"
      by (rule closing_peer [OF assms(1) p(1)])
    with p(2) group_okD(2) [OF assms(2) b] show ?thesis
      by blast
  qed
  show "l_balance s' (pe_gid p') = Some i" if h: "peer_of i s' = Some p'" "pe_device_id p' \<noteq> []" "pe_gid p' \<noteq> - 1" for i p'
  proof -
    obtain p where "peer_of i s = Some p" "pe_gid p' = pe_gid p" "pe_device_id p' = pe_device_id p"
      using closingD(3) [OF assms(1) h(1)] h(2) by auto
    with h group_okD(4) [OF assms(2), of i p] closingD(1) [OF assms(1)] show ?thesis
      by simp
  qed
qed

lemma keeps_closing: "relates closing a \<Longrightarrow> relates keeps_groups a"
  by (rule relates_mono [where R = closing]) (auto simp: keeps_groups_def intro: closing_group_ok)

text \<open>A peer is announced where its group has no entry but its own.\<close>

definition grp_result :: "link run \<Rightarrow> bool" where
  "grp_result r \<longleftrightarrow> (case r of Returns s \<Rightarrow> group_ok s | Raises e s \<Rightarrow> group_ok s | Crashes \<Rightarrow> True)"

lemma grp_result_relates: "relates closing a \<Longrightarrow> group_ok s \<Longrightarrow> grp_result (a s)"
  by (auto simp: grp_result_def split: run.split dest: relatesD closing_group_ok)

lemma group_ok_device:
  assumes "group_ok s" "peer_of i s = Some p" "pe_gid p = - 1 \<or> l_balance s (pe_gid p) = Some i"
  shows "group_ok (s\<lparr>l_peers := map (\<lambda>(j, q). if j = i then (j, q\<lparr>pe_device_id := dev\<rparr>) else (j, q)) (l_peers s)\<rparr>)" (is "group_ok ?s")
proof (rule group_okI)
  have po: "peer_of k ?s = (if k = i then Some (p\<lparr>pe_device_id := dev\<rparr>) else peer_of k s)" for k
    using assms(2) by (simp add: peer_of_def map_of_upd)
  show "distinct (map fst (l_peers ?s))"
    using group_okD(1) [OF assms(1)] by (simp del: map_map)
  show "g \<noteq> - 1 \<and> (\<exists>q. peer_of k ?s = Some q \<and> pe_gid q = g)" if h: "l_balance ?s g = Some k" for g k
  proof -
    have h: "l_balance s g = Some k"
      using h by simp
    obtain q where q: "peer_of k s = Some q" "pe_gid q = g"
      using group_okD(3) [OF assms(1) h] by blast
    then show ?thesis
      using group_okD(2) [OF assms(1) h] assms(2) by (cases "k = i") (simp_all add: po)
  qed
  show "l_balance ?s (pe_gid q) = Some k" if h: "peer_of k ?s = Some q" "pe_device_id q \<noteq> []" "pe_gid q \<noteq> - 1" for k q
  proof (cases "k = i")
    case True
    then show ?thesis
      using h assms(3) by (auto simp: po)
  next
    case False
    then show ?thesis
      using h group_okD(4) [OF assms(1), of k q] by (simp add: po)
  qed
qed

lemma announce_groups:
  assumes "group_ok s" "peer_of i s = Some p" "pe_gid p = - 1 \<or> l_balance s (pe_gid p) = Some i"
  shows "grp_result (announce i di s)"
proof (cases "mem_read (p_message di) 0 (unat (p_size di))")
  case None
  then show ?thesis
    by (simp add: announce_def action_defs grp_result_def)
next
  case (Some dev)
  let ?s = "s\<lparr>l_peers := map (\<lambda>(j, q). if j = i then (j, q\<lparr>pe_device_id := dev\<rparr>) else (j, q)) (l_peers s)\<rparr>"
  let ?rest = "run_all [configure_peer_by_device_id i (hex_id dev), with_peer i (\<lambda>p. l_send_notification_to_router p cmd_connected)]"
  have "announce i di s = ?rest ?s"
    by (simp add: announce_def Some must_def upd_peer_def)
  moreover have "grp_result (?rest ?s)"
    by (rule grp_result_relates [OF _ group_ok_device [OF assms]])
      (intro closing.rules closing_configure closing_with_peer closing_notification)
  ultimately show ?thesis
    by (simp only:)
qed

text \<open>The entry of a group passes to a peer of it when no other one is announced.\<close>

lemma group_ok_entry:
  assumes "group_ok s" "peer_of i s = Some p" "pe_gid p = g" "g \<noteq> - 1"
    "\<And>k q. peer_of k s = Some q \<Longrightarrow> pe_gid q = g \<Longrightarrow> k \<noteq> i \<Longrightarrow> pe_device_id q = []"
  shows "group_ok (s\<lparr>l_balance := (l_balance s)(g \<mapsto> i)\<rparr>)" (is "group_ok ?s")
proof (rule group_okI)
  have po: "peer_of k ?s = peer_of k s" for k
    by (simp add: peer_of_def)
  show "distinct (map fst (l_peers ?s))"
    using group_okD(1) [OF assms(1)] by simp
  show "h \<noteq> - 1 \<and> (\<exists>q. peer_of k ?s = Some q \<and> pe_gid q = h)" if b: "l_balance ?s h = Some k" for h k
  proof (cases "h = g")
    case True
    then show ?thesis
      using b assms(2-4) by (simp add: peer_of_def)
  next
    case False
    then have b: "l_balance s h = Some k"
      using b by simp
    then show ?thesis
      using group_okD(2,3) [OF assms(1) b] by (simp add: po)
  qed
  show "l_balance ?s (pe_gid q) = Some k" if q: "peer_of k ?s = Some q" "pe_device_id q \<noteq> []" "pe_gid q \<noteq> - 1" for k q
  proof (cases "pe_gid q = g")
    case True
    then have "k = i"
      using assms(5) q po by metis
    with True show ?thesis
      by simp
  next
    case False
    then show ?thesis
      using group_okD(4) [OF assms(1), of k q] q by (simp add: po)
  qed
qed

lemma shutdown_returns: "\<exists>s'. send_shutdown_message_to_peer i s = Returns s'"
  by (simp add: send_shutdown_message_to_peer_def upd_peer_def post_peer_def)

lemma shutdown_peer:
  "send_shutdown_message_to_peer i s = Returns s' \<Longrightarrow> peer_of k s' = (if k = i then map_option (\<lambda>p. p\<lparr>pe_device_id := [],
     pe_out := commit link_peer_package0 (set_slot (\<lambda>out. put_text ''Shutdown peer'' (out\<lparr>lpp_cmd := cmd_shutdown\<rparr>)) (pe_out p))\<rparr>) (peer_of k s)
     else peer_of k s)"
  by (auto simp: send_shutdown_message_to_peer_def upd_peer_def post_peer_def peer_of_def map_of_upd option.map_comp comp_def
      simp del: map_map)

lemma relates_groups: "(\<And>s. group_ok s \<Longrightarrow> grp_result (a s)) \<Longrightarrow> relates keeps_groups a"
proof (rule relatesI)
  assume a: "\<And>s. group_ok s \<Longrightarrow> grp_result (a s)"
  show "keeps_groups s s'" if "a s = Returns s'" for s s'
    using a [of s] that by (simp add: keeps_groups_def grp_result_def)
  show "keeps_groups s s'" if "a s = Raises e s'" for s s' e
    using a [of s] that by (simp add: keeps_groups_def grp_result_def)
qed

lemma accept_groups: "relates keeps_groups (accept_connection_with_balancing i di)"
proof -
  have "grp_result (accept_connection_with_balancing i di s)" if ok: "group_ok s" for s
  proof (cases "peer_of i s")
    case None
    then show ?thesis
      by (simp add: accept_connection_with_balancing_def with_peer_def action_defs grp_result_def)
  next
    case (Some p)
    note p = Some
    let ?enter = "\<lambda>t. t\<lparr>l_balance := (l_balance t)(pe_gid p \<mapsto> i)\<rparr>"
    have entered: "grp_result (announce i di (?enter t))" if "group_ok (?enter t)" "peer_of i t = Some p'" "pe_gid p' = pe_gid p" for t p'
      using that by (intro announce_groups [of _ i p']) (auto simp: peer_of_def)
    show ?thesis
    proof (cases "l_balance s (pe_gid p)")
      case None
      have "pe_device_id q = []" if "peer_of k s = Some q" "pe_gid q = pe_gid p" "pe_gid p \<noteq> - 1" for k q
        using group_okD(4) [OF ok, of k q] that None by auto
      then have "pe_gid p \<noteq> - 1 \<Longrightarrow> grp_result (announce i di (?enter s))"
        using p by (intro entered [OF group_ok_entry [OF ok p]]) auto
      then show ?thesis
        using None p announce_groups [OF ok p]
        by (simp add: accept_connection_with_balancing_def with_peer_def action_defs and_run_done del: run_all.simps(1))
    next
      case (Some j)
      note j = Some
      have gid: "pe_gid p \<noteq> - 1"
        using group_okD(2) [OF ok j] .
      obtain q where q: "peer_of j s = Some q" "pe_gid q = pe_gid p"
        using group_okD(3) [OF ok j] by blast
      show ?thesis
      proof (cases "pe_load_info q \<le> pe_load_info p")
        case True
        have "grp_result (send_shutdown_message_to_peer i s)"
          by (rule grp_result_relates [OF closing_posts(6) ok])
        then show ?thesis
          using True p q j gid by (simp add: accept_connection_with_balancing_def with_peer_def action_defs)
      next
        case False
        obtain t where t: "send_shutdown_message_to_peer j s = Returns t"
          using shutdown_returns by blast
        have okt: "group_ok t"
          using closing_group_ok [OF relatesD(1) [OF closing_posts(6) t] ok] .
        have "pe_device_id r = []" if r: "peer_of k t = Some r" "pe_gid r = pe_gid p" for k r
        proof (cases "k = j")
          case True
          then show ?thesis
            using r q by (simp add: shutdown_peer [OF t]) auto
        next
          case False
          then show ?thesis
            using r group_okD(4) [OF ok, of k r] j gid by (auto simp: shutdown_peer [OF t])
        qed
        moreover obtain p' where p': "peer_of i t = Some p'" "pe_gid p' = pe_gid p"
          using p by (cases "i = j") (auto simp: shutdown_peer [OF t])
        ultimately have "grp_result (announce i di (?enter t))"
          using gid by (intro entered [OF group_ok_entry [OF okt p'(1,2)] p'(1,2)]) auto
        then show ?thesis
          using False p q j gid t
          by (simp add: accept_connection_with_balancing_def with_peer_def action_defs and_run_done del: run_all.simps(1))
      qed
    qed
  qed
  then show ?thesis
    by (rule relates_groups)
qed

section \<open>Every handler\<close>

lemmas keeps_intros = keeps_groups.rules accept_groups keeps_closing [OF closing_posts(1)] keeps_closing [OF closing_posts(2)]
  keeps_closing [OF closing_posts(3)] keeps_closing [OF closing_posts(4)] keeps_closing [OF closing_posts(5)] keeps_closing [OF closing_posts(6)]
  keeps_closing [OF closing_posts(7)] keeps_closing [OF closing_notification]

lemma keeps_upd_peer: "(\<And>p. pe_gid (f p) = pe_gid p \<and> (pe_device_id (f p) = pe_device_id p \<or> pe_device_id (f p) = [])) \<Longrightarrow> relates keeps_groups (upd_peer i f)"
  by (rule keeps_closing [OF closing_upd_peer])

lemma keeps_same: "(\<And>s. l_peers (f s) = l_peers s \<and> l_balance (f s) = l_balance s) \<Longrightarrow> relates keeps_groups (upd f)"
  by (rule keeps_closing [OF closing_same])

lemma keeps_with_peer: "(\<And>p. relates keeps_groups (k p)) \<Longrightarrow> relates keeps_groups (with_peer i k)"
  unfolding with_peer_def by (intro keeps_groups.rules)

lemma keeps_messages:
  "(\<And>t. relates keeps_groups (k t)) \<Longrightarrow> relates keeps_groups (c_message q k)"
  "(\<And>t. relates keeps_groups (k t)) \<Longrightarrow> relates keeps_groups (sized_message q k)"
  unfolding c_message_def sized_message_def by (intro keeps_groups.rules, simp)+

lemma keeps_send: "(\<And>t. relates keeps_groups (k t)) \<Longrightarrow> relates keeps_groups (send_by_socket q k)"
  unfolding send_by_socket_def by (intro keeps_groups.rules)

lemma keeps_handle_peer_input: "relates keeps_groups (handle_peer_input i)"
  unfolding handle_peer_input_def process_peer_input_def handle_link_peer_data_def handle_empty_data_def handle_link_message_def
    handle_link_peer_device_id_def handle_router_message_of_link_peer_def post_received_data_to_router_def
  by (intro keeps_with_peer keeps_intros keeps_upd_peer) simp_all

lemma keeps_handle_inputs: "relates keeps_groups handle_inputs_from_peers"
  unfolding handle_inputs_from_peers_def by (intro keeps_intros keeps_handle_peer_input)

lemma keeps_pass_on: "relates keeps_groups (pass_on inp i)"
  unfolding pass_on_def by (intro keeps_intros)

lemma keeps_router: "relates keeps_groups (l_process_router_input inp)"
  unfolding l_process_router_input_def send_to_peers_def broadcast_def broadcast_with_exclude_def set_sync_finished_def
    post_router_feedback_def post_nack_to_router_def
  by (intro keeps_intros keeps_pass_on keeps_upd_peer) simp_all

lemma relates_input: "(\<And>x. relates keeps_groups (f x)) \<Longrightarrow> relates keeps_groups (\<lambda>s. case g s of None \<Rightarrow> Returns s | Some x \<Rightarrow> f x s)"
  using keeps_groups.relates_read(2) [OF keeps_groups.simple(1), of f g] unfolding skip_def .

lemma keeps_handle_router_input: "relates keeps_groups l_handle_router_input"
  unfolding l_handle_router_input_def by (intro relates_input keeps_intros keeps_router keeps_same) simp_all

lemma keeps_keep_alive: "relates keeps_groups handle_keep_alive_messages"
  unfolding handle_keep_alive_messages_def keep_alive_def by (intro keeps_intros keeps_upd_peer keeps_same) simp_all

lemma closing_save_rating: "relates closing save_peers_rating_in_file"
  by (simp add: relates_def save_peers_rating_in_file_def closing_def peer_of_def)

lemma closing_update_last_seen: "relates closing (update_peer_last_seen p)"
  unfolding update_peer_last_seen_def by (intro closing.rules closing_save_rating closing_same) simp_all

lemmas keeps_save_rating = keeps_closing [OF closing_save_rating]

lemma keeps_dropped: "relates keeps_groups handle_dropped_connections"
  unfolding handle_dropped_connections_def clean_peer_info_def reconnect_my_dropped_connections_def start_connection_def
  by (intro keeps_intros keeps_same) simp_all

lemma keeps_transmit: "relates keeps_groups (transmit p)"
  unfolding transmit_def by (intro keeps_intros keeps_send)

lemma keeps_config: "relates keeps_groups (process_config_input_of_link inp)"
  unfolding process_config_input_of_link_def handle_config_device_id_request_def handle_connect_request_def handle_config_get_online_peers_request_def
    handle_config_start_pairing_def cancel_pairing_def handle_config_get_pairing_peers_def handle_config_request_keys_def
    handle_config_peer_verified_def handle_config_peer_not_verified_def element_def handle_device_id_def handle_user_public_key_def
    handle_peers_ratings_def handle_peer_verification_mode_def answer_array_def send_fail_message_def create_pairing_tcp_server_socket_def
    send_generated_code_def connect_server_and_save_keys_def save_user_keys_def send_request_keys_fail_to_config_def start_connection_def
  by (intro keeps_intros keeps_messages keeps_same keeps_save_rating keeps_transmit keeps_dropped) simp_all

lemma keeps_handle_config_input: "relates keeps_groups handle_config_input_of_link"
  unfolding handle_config_input_of_link_def by (intro relates_input keeps_intros keeps_config keeps_same) simp_all

lemma keeps_notification: "relates keeps_groups handle_key_transfer_notification"
  unfolding handle_key_transfer_notification_def by (intro keeps_intros keeps_same) simp_all

lemma keeps_connection: "relates keeps_groups (new_connection_run who segs)"
  unfolding new_connection_run_def send_user_keys_def by (intro keeps_intros keeps_messages keeps_transmit keeps_same) simp_all

lemma keeps_turn: "relates keeps_groups link_turn"
  unfolding link_turn_def
  by (intro keeps_intros keeps_handle_inputs keeps_handle_router_input keeps_handle_config_input keeps_keep_alive keeps_notification)

lemma keeps_cleanup_start: "relates keeps_groups (mark_as_disconnected a g mine)" "relates keeps_groups on_keep_timer"
  unfolding mark_as_disconnected_def on_keep_timer_def by (intro keeps_same, simp)+

section \<open>Peers that come and go\<close>

lemma map_of_tab_set_peer [simp]: "peer_of k (s\<lparr>l_peers := tab_set i p (l_peers s)\<rparr>) = (if k = i then Some p else peer_of k s)"
  by (simp add: peer_of_def)

lemma map_of_tab_erase_peer [simp]: "peer_of k (s\<lparr>l_peers := tab_erase i (l_peers s)\<rparr>) = (if k = i then None else peer_of k s)"
  by (simp add: peer_of_def)

lemma tab_keys: "fst ` set (tab_set k v m) = insert k (fst ` set m)"
  by (induction k v m rule: tab_set.induct) auto

lemma distinct_tab_set: "distinct (map fst m) \<Longrightarrow> k \<notin> fst ` set m \<Longrightarrow> distinct (map fst (tab_set k v m))"
  by (induction k v m rule: tab_set.induct) (auto simp: tab_keys)

lemma group_ok_joins:
  assumes "group_ok s" "peer_of i s = None" "pe_device_id p = []"
  shows "group_ok (s\<lparr>l_peers := tab_set i p (l_peers s)\<rparr>)" (is "group_ok ?s")
proof (rule group_okI)
  show "distinct (map fst (l_peers ?s))"
    using distinct_tab_set [OF group_okD(1) [OF assms(1)]] assms(2) by (simp add: peer_of_def map_of_eq_None_iff)
  show "g \<noteq> - 1 \<and> (\<exists>q. peer_of k ?s = Some q \<and> pe_gid q = g)" if "l_balance ?s g = Some k" for g k
  proof -
    have b: "l_balance s g = Some k"
      using that by simp
    show ?thesis
      using group_okD(2,3) [OF assms(1) b] assms(2) by auto
  qed
  show "l_balance ?s (pe_gid q) = Some k" if "peer_of k ?s = Some q" "pe_device_id q \<noteq> []" "pe_gid q \<noteq> - 1" for k q
    using that assms(3) group_okD(4) [OF assms(1), of k q] by (simp split: if_splits)
qed

lemma keeps_create:
  assumes "group_ok s" "peer_of (l_request_counter s) s = None" "create_new_peer_info a g mine s = Returns s'"
  shows "group_ok s'"
proof -
  let ?t = "s\<lparr>l_request_counter := (if LINK_REQUEST_UPPER_BOUND \<le> l_request_counter s + 1 then LINK_REQUEST_LOWER_BOUND else l_request_counter s + 1)\<rparr>"
  have "closing s ?t"
    by (simp add: closing_def peer_of_def)
  then have "group_ok ?t"
    using assms(1) by (rule closing_group_ok)
  moreover have "peer_of (l_request_counter s) ?t = None"
    using assms(2) by (simp add: peer_of_def)
  moreover have "s' = ?t\<lparr>l_peers := tab_set (l_request_counter s) (new_peer a g mine (l_now s)) (l_peers ?t)\<rparr>"
    using assms(3) by (simp add: create_new_peer_info_def get_peer_id_def action_defs)
  ultimately show ?thesis
    using group_ok_joins by (simp only: new_peer_def peer.simps)
qed

lemma group_ok_leaves:
  assumes "group_ok s" "peer_of i s = Some p" "closing s t"
  shows "group_ok (t\<lparr>l_balance := (if l_balance s (pe_gid p) = Some i then (l_balance s)(pe_gid p := None) else l_balance s),
     l_peers := tab_erase i (l_peers t)\<rparr>)" (is "group_ok ?s")
proof (rule group_okI)
  have po: "peer_of k ?s = (if k = i then None else peer_of k t)" for k
    by (simp add: peer_of_def)
  show "distinct (map fst (l_peers ?s))"
    using group_okD(1) [OF closing_group_ok [OF assms(3,1)]] by (simp add: tab_erase_def distinct_map_filter)
  show "g \<noteq> - 1 \<and> (\<exists>q. peer_of k ?s = Some q \<and> pe_gid q = g)" if b: "l_balance ?s g = Some k" for g k
  proof -
    have b': "l_balance s g = Some k"
      using b by (auto split: if_splits)
    then obtain q where q: "peer_of k s = Some q" "pe_gid q = g"
      using group_okD(3) [OF assms(1)] by blast
    have "k \<noteq> i"
      using b b' q assms(2) by (auto split: if_splits)
    moreover obtain q' where "peer_of k t = Some q'" "pe_gid q' = pe_gid q"
      by (rule closing_peer [OF assms(3) q(1)])
    ultimately show ?thesis
      using q(2) group_okD(2) [OF assms(1) b'] by (simp add: po)
  qed
  show "l_balance ?s (pe_gid q') = Some k" if h: "peer_of k ?s = Some q'" "pe_device_id q' \<noteq> []" "pe_gid q' \<noteq> - 1" for k q'
  proof -
    have k: "k \<noteq> i" "peer_of k t = Some q'"
      using h(1) by (simp_all add: po split: if_splits)
    obtain q where "peer_of k s = Some q" "pe_gid q' = pe_gid q" "pe_device_id q' = pe_device_id q"
      using closingD(3) [OF assms(3) k(2)] h(2) by auto
    then have "l_balance s (pe_gid q') = Some k"
      using group_okD(4) [OF assms(1), of k q] h by simp
    with k(1) show ?thesis
      by auto
  qed
qed

lemma keeps_remove:
  assumes "group_ok s" "remove_peer i s = Returns s'"
  shows "group_ok s'"
proof -
  obtain p where p: "peer_of i s = Some p"
    using assms(2) by (cases "peer_of i s") (simp_all add: remove_peer_def action_defs)
  obtain j where j: "l_balance s (pe_gid p) = Some j"
    using assms(2) p by (cases "l_balance s (pe_gid p)") (simp_all add: remove_peer_def remove_from_balance_info_def action_defs)
  define X where "X = (if l_balance s (pe_gid p) = Some i then (l_balance s)(pe_gid p := None) else l_balance s)"
  let ?rest = "run_all [upd (\<lambda>s. s\<lparr>l_removable := l_removable s @ [(pe_address p, pe_gid p, pe_my_connection p)]\<rparr>),
     update_peer_last_seen p, l_send_notification_to_router p cmd_disconnected]"
  have A: "remove_from_balance_info i p s = Returns (s\<lparr>l_balance := X\<rparr>)"
    using j by (simp add: remove_from_balance_info_def action_defs X_def)
  have run: "remove_peer i s = and_run (?rest (s\<lparr>l_balance := X\<rparr>)) (\<lambda>t. Returns (t\<lparr>l_peers := tab_erase i (l_peers t)\<rparr>))"
    using p A by (simp add: remove_peer_def look_def need_def upd_def and_run_assoc run_all_fun)
  then obtain t where t: "?rest (s\<lparr>l_balance := X\<rparr>) = Returns t" and s': "s' = t\<lparr>l_peers := tab_erase i (l_peers t)\<rparr>"
    using assms(2) [unfolded run and_run_Returns_iff] by blast
  have "relates closing ?rest"
    by (intro closing.rules closing_update_last_seen closing_notification closing_same) simp_all
  then have c: "closing (s\<lparr>l_balance := X\<rparr>) t"
    using t by (rule relatesD(1))
  then have "closing s (t\<lparr>l_balance := l_balance s\<rparr>)"
    by (simp add: closing_def peer_of_def)
  from group_ok_leaves [OF assms(1) p this] have "group_ok (t\<lparr>l_balance := X, l_peers := tab_erase i (l_peers t)\<rparr>)"
    by (simp add: X_def)
  moreover have "l_balance t = X"
    using closingD(1) [OF c] by simp
  then have "t\<lparr>l_balance := X, l_peers := tab_erase i (l_peers t)\<rparr> = s'"
    by (simp add: s')
  ultimately show ?thesis
    by simp
qed

section \<open>Steps\<close>

text \<open>
  What happens to a link: inputs and timers are handled, connections are made (under an id that is free, which ends when
  \<open>2 ^ 28\<close> ids were given), fail and end, another device asks for keys, and the other tasks write on the channels.
\<close>

inductive link_step :: "link \<Rightarrow> link \<Rightarrow> bool" where
  peer_speaks: "handle_peer_input i s = Returns s' \<Longrightarrow> link_step s s'"
| router_speaks: "l_handle_router_input s = Returns s' \<Longrightarrow> link_step s s'"
| config_speaks: "handle_config_input_of_link s = Returns s' \<Longrightarrow> link_step s s'"
| keep_alive_turn: "handle_keep_alive_messages s = Returns s' \<Longrightarrow> link_step s s'"
| notification_turn: "handle_key_transfer_notification s = Returns s' \<Longrightarrow> link_step s s'"
| keep_timer: "on_keep_timer s = Returns s' \<Longrightarrow> link_step s s'"
| guard_timer: "handle_dropped_connections s = Returns s' \<Longrightarrow> link_step s s'"
| joins: "peer_of (l_request_counter s) s = None \<Longrightarrow> create_new_peer_info a g mine s = Returns s' \<Longrightarrow> link_step s s'"
| fails: "mark_as_disconnected a g mine s = Returns s' \<Longrightarrow> link_step s s'"
| leaves: "remove_peer i s = Returns s' \<Longrightarrow> link_step s s'"
| asked_for_keys: "new_connection_run who segs s = Returns s' \<Longrightarrow> link_step s s'"
| others: "l_balance s' = l_balance s \<Longrightarrow> map (\<lambda>(i, p). (i, pe_gid p, pe_device_id p)) (l_peers s') = map (\<lambda>(i, p). (i, pe_gid p, pe_device_id p)) (l_peers s)
    \<Longrightarrow> link_step s s'"

lemma closing_others:
  assumes "map (\<lambda>(i, p). (i, pe_gid p, pe_device_id p)) ps' = map (\<lambda>(i, p). (i, pe_gid p, pe_device_id p)) ps"
  shows "map fst ps' = map fst ps \<and> (\<forall>i p'. map_of ps' i = Some p' \<longrightarrow> (\<exists>p. map_of ps i = Some p \<and> pe_gid p' = pe_gid p \<and> pe_device_id p' = pe_device_id p))"
  using assms
proof (induction ps arbitrary: ps')
  case (Cons e ps)
  then obtain e' qs where "ps' = e' # qs" "map (\<lambda>(i, p). (i, pe_gid p, pe_device_id p)) qs = map (\<lambda>(i, p). (i, pe_gid p, pe_device_id p)) ps"
    by (cases ps') auto
  with Cons show ?case
    by (cases e; cases e') auto
qed simp

lemma link_step_groups: "link_step s s' \<Longrightarrow> group_ok s \<Longrightarrow> group_ok s'"
proof (induction rule: link_step.induct)
  case (others s' s)
  have "closing s s'"
    using closing_others [OF others(2)] others(1) by (auto simp: closing_def peer_of_def)
  then show ?case
    using others(3) by (rule closing_group_ok)
next
  case (joins s a g mine s')
  then show ?case
    by (auto intro: keeps_create)
next
  case (leaves i s s')
  then show ?case
    by (auto intro: keeps_remove)
qed (auto simp: keeps_groups_def dest!: relatesD(1) [OF keeps_handle_peer_input] relatesD(1) [OF keeps_handle_router_input]
    relatesD(1) [OF keeps_handle_config_input] relatesD(1) [OF keeps_keep_alive] relatesD(1) [OF keeps_notification]
    relatesD(1) [OF keeps_cleanup_start(1)] relatesD(1) [OF keeps_cleanup_start(2)] relatesD(1) [OF keeps_dropped]
    relatesD(1) [OF keeps_connection])

lemma reachable_groups: "link_step\<^sup>*\<^sup>* s s' \<Longrightarrow> l_peers s = [] \<Longrightarrow> l_balance s = Map.empty \<Longrightarrow> group_ok s'"
proof (induction rule: rtranclp_induct)
  case base
  then show ?case
    by (simp add: group_ok_def peer_of_def)
next
  case (step t u)
  then show ?case
    using link_step_groups by blast
qed

end
