(* ===== verification/Link_Peer_Props.thy ===== *)
theory Link_Peer_Props
  imports Link_Peer
begin

text \<open>
  Framing: what one link hands to the task of a connection is what the link at the other end gets, whatever segments
  the network cuts the stream into.
\<close>

section \<open>Reading\<close>

lemma receive_bytes_nonempty:
  assumes "segs \<noteq> []" "\<forall>seg \<in> set segs. seg \<noteq> []" "0 < n" "receive_bytes n segs = (bs, rest)"
  shows "bs \<noteq> []" "\<forall>seg \<in> set rest. seg \<noteq> []"
  using assms by (cases segs; auto split: if_splits)+

text \<open>Reading depends on the bytes of the stream only.\<close>

lemma read_nbytes_stream:
  "\<lbrakk>\<forall>seg \<in> set segs. seg \<noteq> []; concat segs = xs @ ys; length xs = n\<rbrakk>
   \<Longrightarrow> \<exists>rest. read_nbytes n segs = Some (xs, rest) \<and> concat rest = ys \<and> (\<forall>seg \<in> set rest. seg \<noteq> [])"
proof (induction n segs arbitrary: xs rule: read_nbytes.induct)
  case (1 n segs)
  show ?case
  proof (cases "n = 0")
    case True
    then show ?thesis
      using "1.prems" by (simp add: read_nbytes.simps [of 0])
  next
    case False
    obtain bs mid where rc: "receive_bytes n segs = (bs, mid)"
      by (cases "receive_bytes n segs")
    have "segs \<noteq> []"
      using "1.prems"(2,3) False by auto
    then have ne: "bs \<noteq> []" "\<forall>seg \<in> set mid. seg \<noteq> []"
      using receive_bytes_nonempty [OF _ "1.prems"(1) _ rc] False by auto
    have le: "length bs \<le> n" and c: "bs @ concat mid = xs @ ys"
      using receive_bytes_length [OF rc] receive_bytes_concat [OF rc] "1.prems"(2) by simp_all
    then have tk: "take (length bs) xs = bs" and mid: "concat mid = drop (length bs) xs @ ys"
      using "1.prems"(3) by (auto simp: append_eq_append_conv_if)
    have xs: "xs = bs @ drop (length bs) xs" "concat mid = drop (length bs) xs @ ys"
      using append_take_drop_id [of "length bs" xs] tk mid by simp_all
    have "length (drop (length bs) xs) = n - length bs"
      using "1.prems"(3) by simp
    then obtain rest where "read_nbytes (n - length bs) mid = Some (drop (length bs) xs, rest)" "concat rest = ys"
      "\<forall>seg \<in> set rest. seg \<noteq> []"
      using "1.IH" [OF False rc [symmetric] ne(1,2) xs(2)] by blast
    then show ?thesis
      using False rc ne(1) xs(1) by (subst read_nbytes.simps) simp
  qed
qed

lemma read_nbytes_short: "length (concat segs) < n \<Longrightarrow> read_nbytes n segs = None"
  using read_nbytes_concat [of n segs] by (cases "read_nbytes n segs") auto

section \<open>A frame\<close>

definition frame :: "'a package_scheme \<Rightarrow> byte list" where
  "frame p = be32 (frame_header p) @ (case payload_of p of None \<Rightarrow> [] | Some bs \<Rightarrow> bs)"

text \<open>A package a frame can say: not empty, less than 16 MB, and the buffer is there.\<close>

definition framable :: "'a package_scheme \<Rightarrow> bool" where
  "framable p \<longleftrightarrow> p_size p \<noteq> 0 \<and> small_package p"

lemma send_by_socket_frame: "framable p \<Longrightarrow> send_by_socket p k = k (frame p)"
  by (auto simp: framable_def small_package_def send_by_socket_def frame_def payload_of_def must_def)

lemma frame_header_fields:
  assumes "unat (p_size p) < 2 ^ 24"
  shows "frame_header p AND 0x00FFFFFF = p_size p" "ucast (drop_bit 24 (frame_header p) AND 0x000000FF) = p_flags p"
proof -
  have m: "(0x00FFFFFF :: ID32) = mask 24" "(0x000000FF :: ID32) = mask 8"
    by (simp_all add: mask_eq_exp_minus_1)
  have b: "bit (p_size p) k \<Longrightarrow> k < 24" for k
    by (rule bit_less_of_unat_less [OF assms])
  show "frame_header p AND 0x00FFFFFF = p_size p"
    unfolding m frame_header_def by (rule bit_word_eqI) (use b in \<open>auto simp: bit_simps\<close>)
  show "ucast (drop_bit 24 (frame_header p) AND 0x000000FF) = p_flags p"
    unfolding m frame_header_def by (rule bit_word_eqI) (use b in \<open>auto simp: bit_simps\<close>)
qed

lemma read_frame:
  assumes "framable p" "\<forall>seg \<in> set segs. seg \<noteq> []" "concat segs = frame p @ ys"
  obtains pkg rest where "read_message segs = Some (pkg, rest)" "concat rest = ys" "\<forall>seg \<in> set rest. seg \<noteq> []"
    "payload_of pkg = payload_of p" "p_flags pkg = p_flags p" "p_size pkg = p_size p" "p_message pkg = payload_of p"
proof -
  obtain bs where bs: "payload_of p = Some bs" and small: "unat (p_size p) < 2 ^ 24"
    using assms(1) by (auto simp: framable_def small_package_def)
  have len: "length bs = unat (p_size p)"
    using bs by (rule payload_of_length)
  obtain mid where mid: "read_nbytes 4 segs = Some (be32 (frame_header p), mid)" "concat mid = bs @ ys" "\<forall>seg \<in> set mid. seg \<noteq> []"
    using read_nbytes_stream [OF assms(2), of "be32 (frame_header p)" "bs @ ys" 4] assms(3) bs by (auto simp: frame_def be32_def)
  obtain rest where rest: "read_nbytes (unat (p_size p)) mid = Some (bs, rest)" "concat rest = ys" "\<forall>seg \<in> set rest. seg \<noteq> []"
    using read_nbytes_stream [OF mid(3,2) len] by blast
  have un: "un_be (be32 (frame_header p)) = frame_header p"
    unfolding be32_def by (rule un_be_be_bytes) simp
  have "read_message segs = Some (default_package\<lparr>p_flags := p_flags p, p_size := p_size p, p_message := Some bs\<rparr>, rest)"
    using small by (simp add: read_message_def read_message_size_def mid(1) un Let_def frame_header_fields [OF small] rest(1))
  then show ?thesis
    by (rule that) (use rest bs len in \<open>auto simp: payload_of_def mem_read_def\<close>)
qed

section \<open>The stream of a connection\<close>

definition delivers :: "'a package_scheme \<Rightarrow> link_peer_package \<Rightarrow> bool" where
  "delivers p out \<longleftrightarrow> lpp_cmd out = cmd_data \<and> payload_of out = payload_of p \<and> p_flags out = p_flags p \<and> p_size out = p_size p
     \<and> p_message out = payload_of p"

lemma read_stream:
  "\<lbrakk>list_all framable ps; \<forall>seg \<in> set (q_socket_in q). seg \<noteq> []; concat (q_socket_in q) = concat (map frame ps); fifo_ok (q_link_tx q);
    fifo_ok (q_error q)\<rbrakk>
   \<Longrightarrow> \<exists>q' outs. handle_socket_input q = Returns q' \<and> pending (q_link_tx q') = pending (q_link_tx q) @ outs \<and> list_all2 delivers ps outs
     \<and> pending (q_error q') = pending (q_error q) @ [True]"
proof (induction ps arbitrary: q)
  case Nil
  then have "read_message (q_socket_in q) = None"
    by (simp add: read_message_def read_message_size_def read_nbytes_short)
  then show ?case
    using Nil.prems(5) by (subst handle_socket_input.simps)
      (simp add: handle_socket_data_def handle_socket_disconnection_def upd_def)
next
  case (Cons p ps)
  obtain pkg rest where r: "read_message (q_socket_in q) = Some (pkg, rest)" "concat rest = concat (map frame ps)" "\<forall>seg \<in> set rest. seg \<noteq> []"
    "payload_of pkg = payload_of p" "p_flags pkg = p_flags p" "p_size pkg = p_size p" "p_message pkg = payload_of p"
    by (rule read_frame [of p "q_socket_in q" "concat (map frame ps)"]) (use Cons.prems in auto)
  let ?out = "(set_payload pkg (slot (q_link_tx q)))\<lparr>lpp_cmd := cmd_data\<rparr>"
  let ?q = "q\<lparr>q_socket_in := rest, q_link_tx := commit link_peer_package0 (set_slot (\<lambda>out. (set_payload pkg out)\<lparr>lpp_cmd := cmd_data\<rparr>) (q_link_tx q))\<rparr>"
  have step: "handle_socket_input q = handle_socket_input ?q"
    by (subst handle_socket_input.simps) (simp add: handle_socket_data_def r(1) q_post_def upd_def)
  have "payload_of ?out = payload_of pkg"
    by (simp add: payload_of_def)
  then have "delivers p ?out"
    using r(4-7) by (simp add: delivers_def)
  moreover obtain q' outs where "handle_socket_input ?q = Returns q'" "pending (q_link_tx q') = pending (q_link_tx ?q) @ outs"
    "list_all2 delivers ps outs" "pending (q_error q') = pending (q_error q) @ [True]"
    using Cons.IH [of ?q] Cons.prems r(2,3) by auto
  ultimately show ?case
    using step Cons.prems(4) by (intro exI [of _ q'] exI [of _ "?out # outs"]) simp
qed

lemma send_stream:
  "\<lbrakk>list_all framable ps; list_all (\<lambda>p. lpp_cmd p = cmd_data) ps; pending (q_link_rx q) = ps; \<not> q_socket_broken q\<rbrakk>
   \<Longrightarrow> \<exists>q'. run_all (replicate (length ps) handle_link_input_of_peer) q = Returns q' \<and> q_sent q' = q_sent q @ concat (map frame ps)"
proof (induction ps arbitrary: q)
  case Nil
  then show ?case by simp
next
  case (Cons p ps)
  let ?q = "q\<lparr>q_sent := q_sent q @ frame p, q_link_rx := consume (q_link_rx q)\<rparr>"
  have "handle_link_input_of_peer q = Returns ?q"
    using Cons.prems
    by (simp add: handle_link_input_of_peer_def fifo_front_pending handle_link_data_of_peer_def catching_all_def action_defs
        send_by_socket_frame q_send_def has_data_pending)
  moreover have "pending (q_link_rx ?q) = ps"
    using Cons.prems(3) pending_tl [of "q_link_rx q"] by (simp add: consume_def)
  ultimately show ?case
    using Cons.IH [of ?q] Cons.prems by auto
qed

text \<open>
  C38: Messages cross a connection unchanged and in order. The task of a connection writes the packages its link left for
  it, none empty and none of 16 MB or more, on the socket; however the network cuts that stream into segments, the reading thread at the other end posts to
  its link exactly those packages, with their payloads and flags, and reports the end of the stream.
\<close>

theorem messages_cross_the_wire:
  assumes "list_all framable ps" "list_all (\<lambda>p. lpp_cmd p = cmd_data) ps" "pending (q_link_rx a) = ps" "\<not> q_socket_broken a" "q_sent a = []"
    "fifo_ok (q_link_tx b)" "fifo_ok (q_error b)"
  shows "\<exists>a'. run_all (replicate (length ps) handle_link_input_of_peer) a = Returns a'
     \<and> (\<forall>segs. concat segs = q_sent a' \<and> [] \<notin> set segs \<longrightarrow>
       (\<exists>b' outs. handle_socket_input (b\<lparr>q_socket_in := segs\<rparr>) = Returns b' \<and> pending (q_link_tx b') = pending (q_link_tx b) @ outs
          \<and> list_all2 delivers ps outs \<and> pending (q_error b') = pending (q_error b) @ [True]))"
proof -
  obtain a' where a': "run_all (replicate (length ps) handle_link_input_of_peer) a = Returns a'" "q_sent a' = concat (map frame ps)"
    using send_stream [OF assms(1-4)] assms(5) by auto
  have "\<exists>b' outs. handle_socket_input (b\<lparr>q_socket_in := segs\<rparr>) = Returns b' \<and> pending (q_link_tx b') = pending (q_link_tx b) @ outs
          \<and> list_all2 delivers ps outs \<and> pending (q_error b') = pending (q_error b) @ [True]"
    if "concat segs = q_sent a'" "[] \<notin> set segs" for segs
    using read_stream [OF assms(1), of "b\<lparr>q_socket_in := segs\<rparr>"] assms(6,7) a'(2) that by auto
  with a'(1) show ?thesis
    by blast
qed

definition ex_message :: "byte list \<Rightarrow> link_peer_package" where
  "ex_message bs = link_peer_package0\<lparr>lpp_cmd := cmd_data, p_size := of_nat (length bs), p_message := Some bs\<rparr>"

definition ex_sender :: link_peer where
  "ex_sender = (link_peer_new [])\<lparr>q_link_rx := fifo_write link_peer_package0 (ex_message [30])
     (fifo_write link_peer_package0 (ex_message [10, 20]) (fifo_new link_peer_package0))\<rparr>"

theorem messages_cross_the_wire_witness:
  "\<exists>a'. run_all (replicate 2 handle_link_input_of_peer) ex_sender = Returns a'
     \<and> (\<forall>segs. concat segs = q_sent a' \<and> [] \<notin> set segs \<longrightarrow>
       (\<exists>b'. handle_socket_input ((link_peer_new [])\<lparr>q_socket_in := segs\<rparr>) = Returns b'
          \<and> list_all2 delivers [ex_message [10, 20], ex_message [30]] (pending (q_link_tx b'))))"
proof -
  have ex: "list_all framable [ex_message [10, 20], ex_message [30]]" "list_all (\<lambda>p. lpp_cmd p = cmd_data) [ex_message [10, 20], ex_message [30]]"
    by (simp_all add: ex_message_def framable_def small_package_def payload_of_def mem_read_def)
  have q: "pending (q_link_rx ex_sender) = [ex_message [10, 20], ex_message [30]]" "\<not> q_socket_broken ex_sender" "q_sent ex_sender = []"
    by (simp_all add: ex_sender_def link_peer_new_def fifo_write_def)
  have b: "fifo_ok (q_link_tx (link_peer_new []))" "fifo_ok (q_error (link_peer_new []))" "pending (q_link_tx (link_peer_new [])) = []"
    by (simp_all add: link_peer_new_def)
  show ?thesis
    using messages_cross_the_wire [OF ex q b(1,2)] by (simp add: b(3) numeral_2_eq_2) blast
qed

end
