(* ===== verification/Key_Manager_Props.thy ===== *)
theory Key_Manager_Props
  imports Key_Manager
begin

text \<open>
  What the key manager promises the kernel. \<open>asks\<close> runs one request of the kernel and takes the one package that
  answers it; the lemmas on single requests are composed to the ways a key goes through the system.
\<close>

section \<open>Bytes and payloads\<close>

lemma bytes_of_chars [simp]: "bytes_of (chars bs) = bs"
proof -
  have "of_nat (of_char (char_of (unat b) :: char)) = b" for b :: byte
    using unat_byte [of b] by (simp add: of_char_of)
  then show ?thesis
    by (simp add: chars_def bytes_of_def comp_def)
qed

definition with_payload :: "byte list \<Rightarrow> 'a package_scheme \<Rightarrow> 'a package_scheme" where
  "with_payload bs p = p\<lparr>p_size := of_nat (length bs), p_message := Some (bs @ [0])\<rparr>"

lemma unat_length: "length bs < 2 ^ 32 \<Longrightarrow> unat (of_nat (length bs) :: ID32) = length bs"
  by (simp add: unat_of_nat take_bit_nat_eq_self)

lemma set_payload_string_with_payload: "length bs < 2 ^ 32 \<Longrightarrow> set_payload_string bs p = Done (with_payload bs p)"
  by (simp add: set_payload_string_def resize_def Let_def unat_length with_payload_def)

lemma payload_with_payload [simp]: "length bs < 2 ^ 32 \<Longrightarrow> payload_of (with_payload bs p) = Some bs"
  using set_payload_string_payload [OF set_payload_string_with_payload] by blast

lemma y_payload_fits: "length bs < 2 ^ 32 \<Longrightarrow> y_payload bs = y_slot (with_payload bs)"
  by (rule ext) (simp add: y_payload_def set_payload_string_with_payload y_slot_def set_slot_def)

lemma sized_message_with_payload: "length bs < 2 ^ 32 \<Longrightarrow> sized_message (with_payload bs p) k = k (chars bs)"
  by (simp add: sized_message_def with_payload_def mem_read_def must_def unat_length)

lemma with_payload_fields [simp]:
  "km_cmd (with_payload bs p) = km_cmd p" "km_request_id (with_payload bs p) = km_request_id p" "km_uuid (with_payload bs p) = km_uuid p"
  "km_aes_key (with_payload bs p) = km_aes_key p" "km_aes_iv (with_payload bs p) = km_aes_iv p"
  "p_size (with_payload bs p) = of_nat (length bs)" "has_message (with_payload bs p)"
  by (simp_all add: with_payload_def has_message_def)

lemma payload_of_km [simp]:
  "payload_of (p\<lparr>km_cmd := c\<rparr>) = payload_of p" "payload_of (p\<lparr>km_request_id := i\<rparr>) = payload_of p" "payload_of (p\<lparr>km_uuid := u\<rparr>) = payload_of p"
  "payload_of (p\<lparr>km_aes_key := t\<rparr>) = payload_of p" "payload_of (p\<lparr>km_aes_iv := t\<rparr>) = payload_of p" "payload_of (p\<lparr>km_orig_size := n\<rparr>) = payload_of p"
  by (simp_all add: payload_of_def)

lemma km_package0 [simp]: "km_aes_key kernel_key_manager_package0 = []" "km_aes_iv kernel_key_manager_package0 = []"
  by (simp_all add: kernel_key_manager_package0_def package.defs)

lemma c_message_with_payload: "0 \<notin> set bs \<Longrightarrow> c_message (with_payload bs p) k = k (chars bs)"
proof -
  assume "0 \<notin> set bs"
  then have "takeWhile (\<lambda>b. b \<noteq> 0) (bs @ [0]) = bs"
    by (subst takeWhile_append2) auto
  then show ?thesis
    by (simp add: c_message_def with_payload_def must_def c_str_def)
qed

section \<open>Requests and answers\<close>

text \<open>A request of the kernel, with the key and the vector of another package.\<close>

definition key_request :: "command \<Rightarrow> ID32 \<Rightarrow> kernel_key_manager_package \<Rightarrow> byte list \<Rightarrow> kernel_key_manager_package" where
  "key_request c i p bs = with_payload bs (kernel_key_manager_package0\<lparr>km_cmd := c, km_request_id := i, km_uuid := km_uuid p,
     km_aes_key := km_aes_key p, km_aes_iv := km_aes_iv p\<rparr>)"

definition asks :: "key_manager \<Rightarrow> kernel_key_manager_package \<Rightarrow> kernel_key_manager_package \<Rightarrow> key_manager \<Rightarrow> bool" where
  "asks s inp out s' \<longleftrightarrow> y_process_kernel_input inp s = Returns s' \<and> pending (y_kernel_tx s') = pending (y_kernel_tx s) @ [out]"

text \<open>Base64 is decoded to what was encoded, and a text of some bytes is not empty.\<close>

definition base64_ok :: "klib \<Rightarrow> bool" where
  "base64_ok L \<longleftrightarrow> (\<forall>x. kl_b64_decode L (kl_b64_encode L x) = x) \<and> (\<forall>x. x \<noteq> [] \<longrightarrow> kl_b64_encode L x \<noteq> [])"

lemma base64_okD: "base64_ok L \<Longrightarrow> kl_b64_decode L (kl_b64_encode L x) = x" "base64_ok L \<Longrightarrow> x \<noteq> [] \<Longrightarrow> kl_b64_encode L x \<noteq> []"
  by (auto simp: base64_ok_def)

text \<open>What stays of the task while it answers: its library, its cipher of the user and its files.\<close>

definition same_keys :: "key_manager \<Rightarrow> key_manager \<Rightarrow> bool" where
  "same_keys s s' \<longleftrightarrow> y_lib s' = y_lib s \<and> y_crypto s' = y_crypto s \<and> y_user_cipher s' = y_user_cipher s \<and> y_disk s' = y_disk s
     \<and> y_stream_ciphers s' = y_stream_ciphers s \<and> (fifo_ok (y_kernel_tx s) \<longrightarrow> fifo_ok (y_kernel_tx s'))"

lemmas answer_simps = asks_def same_keys_def key_request_def y_process_kernel_input_def y_slot_def y_commit_def tell_key_def b64_def
  y_get_aes_key_def create_aes_cipher_def attempt_def action_defs catching_poco_def

text \<open>The key of a package, as the sender encoded it.\<close>

definition carries_key :: "klib \<Rightarrow> byte list \<times> byte list \<Rightarrow> kernel_key_manager_package \<Rightarrow> bool" where
  "carries_key L ki p \<longleftrightarrow> km_aes_key p = kl_b64_encode L (fst ki) \<and> km_aes_iv p = kl_b64_encode L (snd ki)"

text \<open>Data whose ciphertext fits a package.\<close>

definition fits :: "crypto \<Rightarrow> byte list \<Rightarrow> bool" where
  "fits C bs \<longleftrightarrow> length bs < 2 ^ 32 \<and> (\<forall>k i y. cr_encrypt C k i bs = Inr y \<longrightarrow> length y < 2 ^ 32)"

lemma good_key_encrypts: "good_key C ki \<Longrightarrow> \<exists>y. cr_encrypt C (fst ki) (snd ki) x = Inr y \<and> cr_decrypt C (fst ki) (snd ki) y = Inr x"
  by (simp add: good_key_def)

section \<open>Single requests\<close>

lemma encrypt_with_new_key:
  assumes "good_key (y_crypto s) ki" "ki = cr_new_aes (y_crypto s) (y_aes_count s)" "fits (y_crypto s) data" "fifo_ok (y_kernel_tx s)"
  obtains out s' enc where "asks s (key_request cmd_encrypt i kernel_key_manager_package0 data) out s'" "same_keys s s'"
    "payload_of out = Some enc" "length enc < 2 ^ 32" "cr_decrypt (y_crypto s) (fst ki) (snd ki) enc = Inr data"
    "carries_key (y_lib s) ki out" "km_cmd out = cmd_encrypted" "km_request_id out = i"
proof -
  obtain enc where e: "cr_encrypt (y_crypto s) (fst ki) (snd ki) data = Inr enc" "cr_decrypt (y_crypto s) (fst ki) (snd ki) enc = Inr data"
    using good_key_encrypts [OF assms(1)] by blast
  have len: "length data < 2 ^ 32" "length enc < 2 ^ 32"
    using assms(3) e(1) by (auto simp: fits_def)
  let ?out = "(with_payload enc ((slot (y_kernel_tx s))\<lparr>km_request_id := i\<rparr>))\<lparr>km_aes_iv := kl_b64_encode (y_lib s) (snd ki),
    km_aes_key := kl_b64_encode (y_lib s) (fst ki), km_cmd := cmd_encrypted\<rparr>"
  have "\<exists>s'. asks s (key_request cmd_encrypt i kernel_key_manager_package0 data) ?out s' \<and> same_keys s s'"
    using assms(1,4) e len
    by (simp add: answer_simps handle_kernel_encrypt_request_def encrypt_data_with_new_aes_key_def new_aes_def assms(2) [symmetric] good_key_def
        encrypt_data_def sized_message_with_payload y_payload_fits)
  then show ?thesis
    using that e len by (auto simp: carries_key_def)
qed

lemma is_pair_wraps: "is_pair C (pub, priv) \<Longrightarrow> x \<noteq> [] \<Longrightarrow> \<exists>y. cr_wrap C pub x = Inr y \<and> y \<noteq> [] \<and> cr_unwrap C priv y = Inr x"
  by (simp add: is_pair_def)

lemma reencrypt_for:
  assumes "is_pair (y_crypto s) (pub, priv)" "carries_key (y_lib s) ki p" "base64_ok (y_lib s)" "fst ki \<noteq> []" "snd ki \<noteq> []"
    "0 \<notin> set pub" "fifo_ok (y_kernel_tx s)"
  obtains out s' where "asks s (key_request cmd_reencrypt_key i p pub) out s'" "same_keys s s'"
    "km_aes_key out \<noteq> []" "cr_unwrap (y_crypto s) priv (km_aes_key out) = Inr (fst ki)"
    "km_aes_iv out \<noteq> []" "cr_unwrap (y_crypto s) priv (km_aes_iv out) = Inr (snd ki)"
    "km_cmd out = cmd_reencrypted_key" "km_request_id out = i"
proof -
  obtain k v where w: "cr_wrap (y_crypto s) pub (fst ki) = Inr k" "k \<noteq> []" "cr_unwrap (y_crypto s) priv k = Inr (fst ki)"
    "cr_wrap (y_crypto s) pub (snd ki) = Inr v" "v \<noteq> []" "cr_unwrap (y_crypto s) priv v = Inr (snd ki)"
    using is_pair_wraps [OF assms(1)] assms(4,5) by meson
  have "\<exists>s'. asks s (key_request cmd_reencrypt_key i p pub) ((slot (y_kernel_tx s))\<lparr>km_aes_iv := v, km_aes_key := k,
      km_cmd := cmd_reencrypted_key, km_request_id := i\<rparr>) s' \<and> same_keys s s'"
    using assms w
    by (simp add: answer_simps handle_kernel_reencrypt_key_request_def carries_key_def base64_okD c_message_with_payload is_pair_def
        reencrypted_def encrypt_with_public_key_def)
  then show ?thesis
    using that w by auto
qed

lemma decrypt_the_key:
  assumes "y_user_cipher s = Some (pub, priv)" "fifo_ok (y_kernel_tx s)"
    "km_aes_key p \<noteq> []" "cr_unwrap (y_crypto s) priv (km_aes_key p) = Inr (fst ki)"
    "km_aes_iv p \<noteq> []" "cr_unwrap (y_crypto s) priv (km_aes_iv p) = Inr (snd ki)"
  obtains out s' where "asks s (key_request cmd_decrypt_key i p []) out s'" "same_keys s s'" "carries_key (y_lib s) ki out"
    "km_cmd out = cmd_decrypted" "km_request_id out = i"
proof -
  have "\<exists>s'. asks s (key_request cmd_decrypt_key i p []) ((slot (y_kernel_tx s))\<lparr>km_request_id := i, km_aes_key := kl_b64_encode (y_lib s) (fst ki),
      km_aes_iv := kl_b64_encode (y_lib s) (snd ki), km_cmd := cmd_decrypted\<rparr>) s' \<and> same_keys s s'"
    using assms by (simp add: answer_simps handle_kernel_decrypt_key_def unwrap_def user_cipher_def)
  then show ?thesis
    using that by (auto simp: carries_key_def)
qed

lemma decrypt_with_key:
  assumes "y_user_cipher s \<noteq> None" "fifo_ok (y_kernel_tx s)" "good_key (y_crypto s) ki" "carries_key (y_lib s) ki p" "base64_ok (y_lib s)"
    "cr_decrypt (y_crypto s) (fst ki) (snd ki) enc = Inr data" "length enc < 2 ^ 32" "length data < 2 ^ 32"
  obtains out s' where "asks s (key_request cmd_decrypt i p enc) out s'" "same_keys s s'" "payload_of out = Some data"
    "km_cmd out = cmd_decrypted" "km_request_id out = i"
proof -
  have "\<exists>s'. asks s (key_request cmd_decrypt i p enc) ((with_payload data ((slot (y_kernel_tx s))\<lparr>km_request_id := i\<rparr>))\<lparr>km_cmd := cmd_decrypted\<rparr>) s'
      \<and> same_keys s s'"
    using assms
    by (auto simp: answer_simps handle_kernel_decrypt_request_def carries_key_def base64_okD good_key_def decrypt_data_def
        sized_message_with_payload y_payload_fits)
  then show ?thesis
    using that assms by auto
qed

section \<open>A toy library\<close>

text \<open>Concrete instances for the witnesses: ciphers that prefix a byte, base64 that keeps the bytes, documents with their texts escaped.\<close>

definition ex_escape :: "string \<Rightarrow> string" where
  "ex_escape t = concat (map (\<lambda>c. [CHR ''x'', c]) t) @ ''.''"

fun ex_read :: "string \<Rightarrow> (string \<times> string) option" where
  "ex_read (CHR ''.'' # r) = Some ([], r)"
| "ex_read (CHR ''x'' # c # r) = map_option (\<lambda>(t, q). (c # t, q)) (ex_read r)"
| "ex_read r = None"

definition ex_print :: "jobj \<Rightarrow> string" where
  "ex_print m = concat (map (\<lambda>e. case snd e of J_str t \<Rightarrow> ex_escape t | _ \<Rightarrow> []) m)"

definition ex_parse :: "string \<Rightarrow> jobj option" where
  "ex_parse t = (case ex_read t of None \<Rightarrow> None | Some (iv, t) \<Rightarrow> (case ex_read t of None \<Rightarrow> None
     | Some (key, t) \<Rightarrow> (case ex_read t of None \<Rightarrow> None
     | Some (u, t) \<Rightarrow> Some [(''aes_iv'', J_str iv), (''aes_key'', J_str key), (''uuid'', J_str u)])))"

definition ex_key_lib :: klib where
  "ex_key_lib = \<lparr>kl_poco = poco_ref, kl_parse = ex_parse, kl_print = ex_print, kl_to_int = (\<lambda>_. None), kl_to_text = (\<lambda>_. None),
     kl_b64_encode = chars, kl_b64_decode = bytes_of\<rparr>"

definition ex_crypto :: crypto where
  "ex_crypto = \<lparr>cr_new_aes = (\<lambda>n. ([1, of_nat n], [2])), cr_cipher = (\<lambda>_ _. Inr ()), cr_encrypt = (\<lambda>_ _ x. Inr (7 # x)),
     cr_decrypt = (\<lambda>_ _ y. Inr (tl y)), cr_new_rsa = (\<lambda>n. ([3, of_nat n], [4])), cr_load = (\<lambda>_ _. Inr ()), cr_is_public = (\<lambda>_. True),
     cr_wrap = (\<lambda>_ x. Inr (CHR ''w'' # chars x)), cr_unwrap = (\<lambda>_ t. Inr (bytes_of (tl t))), cr_seal = (\<lambda>_ x. Inr (0 # x)),
     cr_open = (\<lambda>_ y. tl y), cr_certificate = (\<lambda>_ _. Inr [5])\<rparr>"

lemma ex_is_pair [simp]: "is_pair ex_crypto p"
  by (simp add: is_pair_def ex_crypto_def)

lemma ex_crypto_ok [simp]: "crypto_ok ex_crypto"
  by (simp add: crypto_ok_def good_key_def) (simp add: ex_crypto_def)

lemma ex_base64 [simp]: "base64_ok ex_key_lib"
  by (simp add: base64_ok_def ex_key_lib_def) (simp add: chars_def)

lemma ex_fits: "length bs < 2 ^ 31 \<Longrightarrow> fits ex_crypto bs"
  by (simp add: fits_def ex_crypto_def)

lemma ex_read_escape: "ex_read (ex_escape t @ r) = Some (t, r)"
  by (induction t) (simp_all add: ex_escape_def)

definition ex_keys :: key_manager where
  "ex_keys = (key_manager_new ex_key_lib ex_crypto of_nat Map.empty)\<lparr>y_user_cipher := Some ([3], [4])\<rparr>"

lemma ex_keys_simps [simp]: "y_lib ex_keys = ex_key_lib" "y_crypto ex_keys = ex_crypto" "y_user_cipher ex_keys = Some ([3], [4])"
  "y_kernel_tx ex_keys = fifo_new kernel_key_manager_package0"
  by (simp_all add: ex_keys_def key_manager_new_def)

section \<open>A file shared with another user\<close>

text \<open>
  C6: A file shared with another user can be read by that user. The key manager of the owner encrypts the data with a
  key it makes, and wraps that key for the public key of the other user; the key manager of the other user unwraps the
  key with the user's private key and decrypts the data with it. Every request is answered once, under its own id.
\<close>

theorem shared_file_is_readable:
  assumes "crypto_ok C" "base64_ok L" "y_crypto a = C" "y_crypto b = C" "y_lib a = L" "y_lib b = L"
    "is_pair C (pub, priv)" "y_user_cipher b = Some (pub, priv)" "0 \<notin> set pub" "fits C data"
    "fifo_ok (y_kernel_tx a)" "fifo_ok (y_kernel_tx b)"
  shows "\<exists>o1 a1 enc o2 a2 o3 b1 o4 b2.
     asks a (key_request cmd_encrypt i kernel_key_manager_package0 data) o1 a1 \<and> payload_of o1 = Some enc
     \<and> asks a1 (key_request cmd_reencrypt_key j o1 pub) o2 a2
     \<and> asks b (key_request cmd_decrypt_key k o2 []) o3 b1
     \<and> asks b1 (key_request cmd_decrypt l o3 enc) o4 b2
     \<and> [km_cmd o1, km_cmd o2, km_cmd o3, km_cmd o4] = [cmd_encrypted, cmd_reencrypted_key, cmd_decrypted, cmd_decrypted]
     \<and> [km_request_id o1, km_request_id o2, km_request_id o3, km_request_id o4] = [i, j, k, l]
     \<and> payload_of o4 = Some data"
proof -
  define ki where "ki = cr_new_aes (y_crypto a) (y_aes_count a)"
  have g: "good_key C ki"
    using assms(1) by (simp add: ki_def crypto_ok_def assms(3))
  then have ne: "fst ki \<noteq> []" "snd ki \<noteq> []"
    by (simp_all add: good_key_def)
  obtain o1 a1 enc where o1: "asks a (key_request cmd_encrypt i kernel_key_manager_package0 data) o1 a1" "same_keys a a1"
    "payload_of o1 = Some enc" "length enc < 2 ^ 32" "cr_decrypt C (fst ki) (snd ki) enc = Inr data" "carries_key L ki o1"
    "km_cmd o1 = cmd_encrypted" "km_request_id o1 = i"
    using encrypt_with_new_key [of a ki data i] g ki_def assms by auto
  obtain o2 a2 where o2: "asks a1 (key_request cmd_reencrypt_key j o1 pub) o2 a2" "km_aes_key o2 \<noteq> []"
    "cr_unwrap C priv (km_aes_key o2) = Inr (fst ki)" "km_aes_iv o2 \<noteq> []" "cr_unwrap C priv (km_aes_iv o2) = Inr (snd ki)"
    "km_cmd o2 = cmd_reencrypted_key" "km_request_id o2 = j"
    by (rule reencrypt_for [of a1 pub priv ki o1 j]) (use ne o1(2,6) assms in \<open>auto simp: same_keys_def\<close>)
  obtain o3 b1 where o3: "asks b (key_request cmd_decrypt_key k o2 []) o3 b1" "same_keys b b1" "carries_key L ki o3"
    "km_cmd o3 = cmd_decrypted" "km_request_id o3 = k"
    using decrypt_the_key [of b pub priv o2 ki k] o2 assms by auto
  obtain o4 b2 where "asks b1 (key_request cmd_decrypt l o3 enc) o4 b2" "payload_of o4 = Some data" "km_cmd o4 = cmd_decrypted"
    "km_request_id o4 = l"
    by (rule decrypt_with_key [of b1 ki o3 enc data l]) (use g o1(4,5) o3(2,3) assms in \<open>auto simp: same_keys_def fits_def\<close>)
  with o1 o2 o3 show ?thesis
    by fastforce
qed

theorem shared_file_is_readable_witness:
  "\<exists>b p enc out b'. asks b (key_request cmd_decrypt 9 p enc) out b' \<and> km_cmd out = cmd_decrypted \<and> payload_of out = Some [10, 20, 30]"
  using shared_file_is_readable [of ex_crypto ex_key_lib ex_keys ex_keys "[3]" "[4]" "[10, 20, 30]" 6 7 8 9] by (simp add: ex_fits) blast

section \<open>A livestream\<close>

definition answer :: "key_manager \<Rightarrow> kernel_key_manager_package \<Rightarrow> (kernel_key_manager_package \<times> key_manager) option" where
  "answer s inp = (case y_process_kernel_input inp s of
     Returns s' \<Rightarrow> (case drop (length (pending (y_kernel_tx s))) (pending (y_kernel_tx s')) of [out] \<Rightarrow> Some (out, s') | _ \<Rightarrow> None)
   | _ \<Rightarrow> None)"

lemma asks_answer: "asks s inp out s' \<Longrightarrow> answer s inp = Some (out, s')"
  by (simp add: asks_def answer_def)

text \<open>The chunks of a stream: each is encrypted by the key manager of the sender and decrypted by that of the viewer.\<close>

fun relay :: "kernel_key_manager_package \<Rightarrow> key_manager \<Rightarrow> key_manager \<Rightarrow> byte list list \<Rightarrow> byte list list option" where
  "relay p s r [] = Some []"
| "relay p s r (c # cs) = (case answer s (key_request cmd_stream_encrypt 1 p c) of None \<Rightarrow> None
     | Some (e, s') \<Rightarrow> (case payload_of e of None \<Rightarrow> None
     | Some enc \<Rightarrow> (case answer r (key_request cmd_stream_decrypt 2 p enc) of None \<Rightarrow> None
     | Some (d, r') \<Rightarrow> if km_cmd d \<noteq> cmd_livestream_decrypted \<or> km_uuid d \<noteq> km_uuid p then None
         else (case payload_of d of None \<Rightarrow> None | Some x \<Rightarrow> map_option ((#) x) (relay p s' r' cs)))))"

lemma stream_encrypt:
  assumes "y_stream_ciphers s (km_uuid p) = Some ki" "good_key (y_crypto s) ki" "fits (y_crypto s) c" "c \<noteq> []" "fifo_ok (y_kernel_tx s)"
  obtains out s' enc where "asks s (key_request cmd_stream_encrypt i p c) out s'" "same_keys s s'" "payload_of out = Some enc"
    "cr_decrypt (y_crypto s) (fst ki) (snd ki) enc = Inr c" "length enc < 2 ^ 32"
proof -
  obtain enc where e: "cr_encrypt (y_crypto s) (fst ki) (snd ki) c = Inr enc" "cr_decrypt (y_crypto s) (fst ki) (snd ki) enc = Inr c"
    using good_key_encrypts [OF assms(2)] by blast
  have len: "length c < 2 ^ 32" "length enc < 2 ^ 32" "(of_nat (length c) :: ID32) \<noteq> 0"
    using assms(3,4) e(1) unat_length [of c] by (auto simp: fits_def)
  have "\<exists>s'. asks s (key_request cmd_stream_encrypt i p c) ((with_payload enc ((slot (y_kernel_tx s))\<lparr>km_orig_size := of_nat (length c),
      km_request_id := i\<rparr>))\<lparr>km_cmd := cmd_encrypted\<rparr>) s' \<and> same_keys s s'"
    using assms(1,5) e len
    by (simp add: answer_simps handle_kernel_stream_encrypt_def encrypt_data_def sized_message_with_payload y_payload_fits)
  then show ?thesis
    using that e len by auto
qed

lemma stream_decrypt:
  assumes "y_stream_ciphers s (km_uuid p) = Some ki" "cr_decrypt (y_crypto s) (fst ki) (snd ki) enc = Inr c"
    "length enc < 2 ^ 32" "length c < 2 ^ 32" "fifo_ok (y_kernel_tx s)"
  obtains out s' where "asks s (key_request cmd_stream_decrypt i p enc) out s'" "same_keys s s'" "payload_of out = Some c"
    "km_cmd out = cmd_livestream_decrypted" "km_uuid out = km_uuid p"
proof -
  have "\<exists>s'. asks s (key_request cmd_stream_decrypt i p enc) ((with_payload c ((slot (y_kernel_tx s))\<lparr>km_request_id := i\<rparr>))
      \<lparr>km_cmd := cmd_livestream_decrypted, km_uuid := km_uuid p\<rparr>) s' \<and> same_keys s s'"
    using assms
    by (simp add: answer_simps handle_kernel_stream_decrypt_def catching_all_def decrypt_stream_data_def decrypt_data_def
        sized_message_with_payload y_payload_fits)
  then show ?thesis
    using that assms by auto
qed

lemma relay_all:
  "\<lbrakk>y_stream_ciphers s (km_uuid p) = Some ki; y_stream_ciphers r (km_uuid p) = Some ki; good_key C ki; y_crypto s = C; y_crypto r = C;
    fifo_ok (y_kernel_tx s); fifo_ok (y_kernel_tx r); \<forall>c \<in> set cs. c \<noteq> [] \<and> fits C c\<rbrakk> \<Longrightarrow> relay p s r cs = Some cs"
proof (induction cs arbitrary: s r)
  case Nil
  then show ?case by simp
next
  case (Cons c cs)
  obtain out s' enc where e: "asks s (key_request cmd_stream_encrypt 1 p c) out s'" "same_keys s s'" "payload_of out = Some enc"
    "cr_decrypt C (fst ki) (snd ki) enc = Inr c" "length enc < 2 ^ 32"
    using stream_encrypt [of s p ki c 1] Cons.prems by auto
  obtain d r' where d: "asks r (key_request cmd_stream_decrypt 2 p enc) d r'" "same_keys r r'" "payload_of d = Some c"
    "km_cmd d = cmd_livestream_decrypted" "km_uuid d = km_uuid p"
    using stream_decrypt [of r p ki enc c 2] e Cons.prems by (auto simp: fits_def)
  have "relay p s' r' cs = Some cs"
    using Cons.IH [of s' r'] Cons.prems e(2) d(2) by (simp add: same_keys_def)
  with e(3) d(3-5) show ?case
    by (simp add: asks_answer [OF e(1)] asks_answer [OF d(1)])
qed

text \<open>
  C34: Every chunk of a livestream reaches the viewer unchanged and in order. The sender's key manager makes the key of the
  stream, the viewer's one prepares its cipher from that key, and from then on each chunk that the one encrypts the
  other decrypts, for any number of chunks.
\<close>

theorem livestream_is_relayed:
  assumes "crypto_ok C" "base64_ok L" "y_crypto s = C" "y_crypto r = C" "y_lib s = L" "y_lib r = L"
    "fifo_ok (y_kernel_tx s)" "fifo_ok (y_kernel_tx r)" "\<forall>c \<in> set cs. c \<noteq> [] \<and> fits C c"
  shows "\<exists>out s' r'. asks s (key_request cmd_gen_key_for_stream i (kernel_key_manager_package0\<lparr>km_uuid := u\<rparr>) []) out s'
     \<and> y_process_kernel_input (key_request cmd_prepare_cipher_for_stream j (out\<lparr>km_uuid := u\<rparr>) []) r = Returns r'
     \<and> relay (kernel_key_manager_package0\<lparr>km_uuid := u\<rparr>) s' r' cs = Some cs"
proof -
  obtain ki where ki: "cr_new_aes C (y_aes_count s) = ki" and g: "good_key C ki"
    using assms(1) by (simp add: crypto_ok_def)
  let ?p = "kernel_key_manager_package0\<lparr>km_uuid := u\<rparr>"
  let ?out = "(slot (y_kernel_tx s))\<lparr>km_request_id := i, km_aes_iv := kl_b64_encode L (snd ki), km_aes_key := kl_b64_encode L (fst ki),
     km_cmd := cmd_encrypted\<rparr>"
  have "\<exists>s'. asks s (key_request cmd_gen_key_for_stream i ?p []) ?out s' \<and> y_stream_ciphers s' u = Some ki \<and> y_crypto s' = C
    \<and> fifo_ok (y_kernel_tx s')"
    using g assms by (simp add: answer_simps handle_kernel_gen_key_for_stream_def new_aes_def ki good_key_def)
  then obtain s' where s': "asks s (key_request cmd_gen_key_for_stream i ?p []) ?out s'" "y_stream_ciphers s' u = Some ki" "y_crypto s' = C"
    "fifo_ok (y_kernel_tx s')"
    by blast
  have "y_process_kernel_input (key_request cmd_prepare_cipher_for_stream j (?out\<lparr>km_uuid := u\<rparr>) []) r
      = Returns (r\<lparr>y_stream_ciphers := (y_stream_ciphers r)(u \<mapsto> ki)\<rparr>)"
    using g assms
    by (simp add: answer_simps handle_kernel_prepare_cipher_for_stream_def base64_okD good_key_def)
  moreover have "relay ?p s' (r\<lparr>y_stream_ciphers := (y_stream_ciphers r)(u \<mapsto> ki)\<rparr>) cs = Some cs"
    using relay_all [of s' ?p ki "r\<lparr>y_stream_ciphers := (y_stream_ciphers r)(u \<mapsto> ki)\<rparr>" C cs] s' g assms by simp
  ultimately show ?thesis
    using s'(1) by blast
qed

theorem livestream_is_relayed_witness: "\<exists>p s r. relay p s r [[1], [2, 3]] = Some [[1], [2, 3]]"
  using livestream_is_relayed [of ex_crypto ex_key_lib ex_keys ex_keys "[[1], [2, 3]]" 6 5 7] by (auto simp: ex_fits)

end
