(* ===== verification/Key_Files_Props.thy ===== *)
theory Key_Files_Props
  imports Key_Manager_Props
begin

text \<open>
  The key files over the life of a device: what the first start writes, what a later start loads, what the regeneration
  of the keys and the keys received from another device leave on the disk.
\<close>

section \<open>What is on the disk\<close>

type_synonym disk = "string \<rightharpoonup> byte list"

definition user_files :: "klib \<Rightarrow> crypto \<Rightarrow> disk \<Rightarrow> string \<Rightarrow> string \<Rightarrow> byte list \<times> byte list \<Rightarrow> jobj \<Rightarrow> bool" where
  "user_files L C disk d p pair obj \<longleftrightarrow> disk (d @ ''/public.pem'') = Some (fst pair) \<and> disk (d @ ''/private.pem'') = Some (snd pair)
     \<and> is_pair C pair \<and> (\<exists>bs. disk p = Some bs \<and> kl_parse L (chars bs) = None \<and> kl_parse L (chars (cr_open C (snd pair) bs)) = Some obj)"

definition device_files :: "crypto \<Rightarrow> disk \<Rightarrow> string \<Rightarrow> bool" where
  "device_files C disk d \<longleftrightarrow> (\<exists>pub priv c. disk (d @ ''/public.pem'') = Some pub \<and> disk (d @ ''/private.pem'') = Some priv
     \<and> disk (d @ ''/cert.pem'') = Some c \<and> cr_load C pub priv = Inr ())"

text \<open>Files that differ, and directories and files that can be written.\<close>

definition device_paths :: "string \<Rightarrow> string list" where
  "device_paths dev = [dev @ ''/public.pem'', dev @ ''/private.pem'', dev @ ''/cert.pem'']"

definition user_paths :: "string \<Rightarrow> string list" where
  "user_paths d = [d @ ''/public.pem'', d @ ''/private.pem'', d @ ''/public.tmp'', d @ ''/private.tmp'', d @ ''/public.pem.tmp'', d @ ''/private.pem.tmp'']"

definition info_paths :: "string \<Rightarrow> string list" where
  "info_paths p = [p, p @ ''.tmp'']"

definition apart :: "string \<Rightarrow> string \<Rightarrow> string \<Rightarrow> bool" where
  "apart dev d p \<longleftrightarrow> set (device_paths dev) \<inter> set (user_paths d) = {} \<and> set (device_paths dev) \<inter> set (info_paths p) = {}
     \<and> set (user_paths d) \<inter> set (info_paths p) = {}"

lemma apartD:
  assumes "apart dev d p"
  shows "x \<in> set (device_paths dev) \<Longrightarrow> y \<in> set (user_paths d) \<Longrightarrow> x \<noteq> y"
    "x \<in> set (device_paths dev) \<Longrightarrow> y \<in> set (info_paths p) \<Longrightarrow> x \<noteq> y"
    "x \<in> set (user_paths d) \<Longrightarrow> y \<in> set (info_paths p) \<Longrightarrow> x \<noteq> y"
  using assms by (auto simp: apart_def)

lemma apart_device:
  assumes "apart dev d p" "x \<in> {''/public.pem'', ''/private.pem'', ''/cert.pem''}"
  shows "dev @ x \<noteq> d @ ''/public.tmp''" "dev @ x \<noteq> d @ ''/private.tmp''" "dev @ x \<noteq> p @ ''.tmp''" "dev @ x \<noteq> p"
    "dev @ x \<noteq> d @ ''/public.pem''" "dev @ x \<noteq> d @ ''/private.pem''" "dev @ x \<noteq> d @ ''/public.pem.tmp''" "dev @ x \<noteq> d @ ''/private.pem.tmp''"
proof -
  have "dev @ x \<in> set (device_paths dev)"
    using assms(2) by (auto simp: device_paths_def)
  then show "dev @ x \<noteq> d @ ''/public.tmp''" "dev @ x \<noteq> d @ ''/private.tmp''" "dev @ x \<noteq> p @ ''.tmp''" "dev @ x \<noteq> p"
    "dev @ x \<noteq> d @ ''/public.pem''" "dev @ x \<noteq> d @ ''/private.pem''" "dev @ x \<noteq> d @ ''/public.pem.tmp''" "dev @ x \<noteq> d @ ''/private.pem.tmp''"
    by (rule apartD [OF assms(1)], simp add: user_paths_def info_paths_def)+
qed

lemmas apart_device_all = apart_device [OF _ insertI1] apart_device [OF _ insertI2 [OF insertI1]]
  apart_device [OF _ insertI2 [OF insertI2 [OF insertI1]]]

lemma apart_user:
  assumes "apart dev d p"
  shows "d @ ''/public.pem'' \<noteq> p" "d @ ''/private.pem'' \<noteq> p" "d @ ''/public.tmp'' \<noteq> p" "d @ ''/private.tmp'' \<noteq> p"
    "d @ ''/public.pem.tmp'' \<noteq> p" "d @ ''/private.pem.tmp'' \<noteq> p" "d @ ''/public.pem'' \<noteq> p @ ''.tmp''" "d @ ''/private.pem'' \<noteq> p @ ''.tmp''"
    "d @ ''/public.tmp'' \<noteq> p @ ''.tmp''" "d @ ''/private.tmp'' \<noteq> p @ ''.tmp''"
  by (rule apartD(3) [OF assms], simp add: user_paths_def, simp add: info_paths_def)+

definition writable :: "key_manager \<Rightarrow> bool" where
  "writable s \<longleftrightarrow> y_locked s = [] \<and> y_stuck s = [] \<and> y_no_directory s = []"

text \<open>A word of the configuration's message.\<close>

definition word :: "string \<Rightarrow> bool" where
  "word t \<longleftrightarrow> t \<noteq> [] \<and> CHR 0x00 \<notin> set t \<and> (\<forall>c \<in> set t. \<not> is_space c)"

definition start_message :: "string \<Rightarrow> string \<Rightarrow> string \<Rightarrow> key_manager_cfg_package" where
  "start_message dev d p = with_payload (bytes_of (dev @ '' '' @ d @ '' '' @ p)) (key_manager_cfg_package0\<lparr>kmc_cmd := cmd_key_path\<rparr>)"

lemma next_word_word:
  assumes "word t"
  shows "next_word (t @ CHR '' '' # r) = (t, CHR '' '' # r)" "next_word (CHR '' '' # t @ CHR '' '' # r) = (t, CHR '' '' # r)"
    "next_word (CHR '' '' # t) = (t, [])"
proof -
  have d: "dropWhile is_space (t @ r') = t @ r'" for r'
    using assms by (cases t) (auto simp: word_def)
  have sp: "is_space (CHR '' '')"
    by (simp add: is_space_def)
  have tw: "takeWhile (\<lambda>c. \<not> is_space c) (t @ CHR '' '' # r) = t" "dropWhile (\<lambda>c. \<not> is_space c) (t @ CHR '' '' # r) = CHR '' '' # r"
    "takeWhile (\<lambda>c. \<not> is_space c) t = t" "dropWhile (\<lambda>c. \<not> is_space c) t = []"
    using assms sp by (auto simp: word_def takeWhile_append2 dropWhile_append2)
  show "next_word (t @ CHR '' '' # r) = (t, CHR '' '' # r)" "next_word (CHR '' '' # t @ CHR '' '' # r) = (t, CHR '' '' # r)"
    "next_word (CHR '' '' # t) = (t, [])"
    using d [of "[]"] d [of "CHR '' '' # r"] tw sp by (simp_all add: next_word_def Let_def)
qed

lemma c_message_start:
  assumes "word dev" "word d" "word p"
  shows "c_message (start_message dev d p) k = k (dev @ '' '' @ d @ '' '' @ p)"
proof -
  have "CHR 0x00 \<notin> set (dev @ '' '' @ d @ '' '' @ p)"
    using assms by (auto simp: word_def)
  then show ?thesis
    using c_str_bytes_of [of "dev @ '' '' @ d @ '' '' @ p" "[]"]
    by (simp add: c_message_def start_message_def with_payload_def must_def)
qed

declare and_run_done [simp]

lemma run_all_one [simp]: "run_all [a] = a"
  by (rule ext) simp

text \<open>What the start of the task does, once its message is read.\<close>

lemma start_config:
  assumes "word dev" "word d" "word p"
  shows "y_process_config_input (start_message dev d p) s = run_all [create_device_key dev, create_user_key ''public.pem'' ''private.pem'' False,
      create_user_json_key, y_config_slot (\<lambda>out. out\<lparr>kmc_cmd := cmd_initialized_keys\<rparr>),
      upd (\<lambda>s. s\<lparr>y_config_tx := commit key_manager_cfg_package0 (y_config_tx s)\<rparr>)] (s\<lparr>y_user_key_path := d, y_user_json_key_path := p\<rparr>)"
proof -
  have "kmc_cmd (start_message dev d p) = cmd_key_path" "has_message (start_message dev d p)" "p \<noteq> []"
    using assms by (simp_all add: start_message_def with_payload_def has_message_def word_def)
  then show ?thesis
    using assms by (simp add: y_process_config_input_def handle_config_key_path_def c_message_start next_word_word action_defs
        del: append_Cons append_Nil) (simp add: next_word_word upd_def)
qed

lemma create_device_key_there:
  assumes "device_files (y_crypto s) (y_disk s) dev" "writable s"
  shows "create_device_key dev s = Returns (s\<lparr>y_device_cipher := Some (the (y_disk s (dev @ ''/public.pem'')), the (y_disk s (dev @ ''/private.pem'')))\<rparr>)"
  using assms by (auto simp: create_device_key_def device_files_def writable_def y_directories_def y_exists_def action_defs load_pair_def
      y_read_def attempt_def)

lemma create_user_key_there:
  assumes "y_disk s (y_user_key_path s @ ''/public.pem'') = Some pub" "y_disk s (y_user_key_path s @ ''/private.pem'') = Some priv"
    "is_pair (y_crypto s) (pub, priv)" "writable s"
  shows "create_user_key ''public.pem'' ''private.pem'' False s = Returns (s\<lparr>y_user_cipher := Some (pub, priv)\<rparr>)"
  using assms by (simp add: create_user_key_def is_pair_def writable_def y_directories_def y_exists_def action_defs load_pair_def
      y_read_def attempt_def)

lemma create_user_json_key_there:
  assumes "user_files (y_lib s) (y_crypto s) (y_disk s) d (y_user_json_key_path s) pair obj" "y_user_cipher s = Some pair"
  shows "create_user_json_key s = y_config_slot (\<lambda>out. out\<lparr>kmc_user_json_info := Some obj\<rparr>) s"
  using assms by (auto simp: create_user_json_key_def user_files_def y_exists_def action_defs parse_user_info_as_json_def Let_def
      decrypt_user_json_info_def y_read_def user_cipher_def)

text \<open>A start on a disk that has the files changes nothing on it and loads what they hold.\<close>

definition loaded :: "string \<Rightarrow> string \<Rightarrow> byte list \<times> byte list \<Rightarrow> key_manager \<Rightarrow> key_manager \<Rightarrow> bool" where
  "loaded d p pair s s' \<longleftrightarrow> y_disk s' = y_disk s \<and> y_user_cipher s' = Some pair \<and> y_user_key_path s' = d \<and> y_user_json_key_path s' = p
     \<and> y_kernel_tx s' = y_kernel_tx s \<and> y_lib s' = y_lib s \<and> y_crypto s' = y_crypto s \<and> (writable s' \<longleftrightarrow> writable s)"

lemma start_loads:
  assumes "word dev" "word d" "word p" "writable s" "device_files (y_crypto s) (y_disk s) dev" "fifo_ok (y_config_tx s)"
    "user_files (y_lib s) (y_crypto s) (y_disk s) d p pair obj"
  obtains s' where "y_process_config_input (start_message dev d p) s = Returns s'" "loaded d p pair s s'"
    "pending (y_config_tx s') = pending (y_config_tx s) @ [(slot (y_config_tx s))\<lparr>kmc_user_json_info := Some obj, kmc_cmd := cmd_initialized_keys\<rparr>]"
proof -
  let ?s1 = "s\<lparr>y_user_key_path := d, y_user_json_key_path := p\<rparr>"
  let ?s2 = "?s1\<lparr>y_device_cipher := Some (the (y_disk s (dev @ ''/public.pem'')), the (y_disk s (dev @ ''/private.pem'')))\<rparr>"
  let ?s3 = "?s2\<lparr>y_user_cipher := Some pair\<rparr>"
  have 1: "create_device_key dev ?s1 = Returns ?s2"
    using create_device_key_there [of ?s1 dev] assms by (simp add: writable_def)
  have 2: "create_user_key ''public.pem'' ''private.pem'' False ?s2 = Returns ?s3"
    using create_user_key_there [of ?s2 "fst pair" "snd pair"] assms by (simp add: writable_def user_files_def)
  have 3: "create_user_json_key ?s3 = y_config_slot (\<lambda>out. out\<lparr>kmc_user_json_info := Some obj\<rparr>) ?s3"
    using create_user_json_key_there [of ?s3 d pair obj] assms by simp
  let ?s4 = "?s3\<lparr>y_config_tx := commit key_manager_cfg_package0 (set_slot (\<lambda>x. x\<lparr>kmc_user_json_info := Some obj,
     kmc_cmd := cmd_initialized_keys\<rparr>) (y_config_tx s))\<rparr>"
  have 4: "y_process_config_input (start_message dev d p) s = Returns ?s4"
    by (simp add: start_config [OF assms(1-3)] 1 2 3 y_config_slot_def upd_def set_slot_def slot_def)
  show ?thesis
    by (rule that [OF 4]) (use assms(4,6) in \<open>simp_all add: loaded_def writable_def\<close>)
qed

section \<open>New keys\<close>

text \<open>
  The document of a user's key is printed and parsed, and encrypted for a public key it is no document. The second is what
  \<^verbatim>\<open>parse_user_info_as_json\<close> relies on to tell an encrypted file from one of an older version: that a ciphertext happens to
  be a JSON document is improbable, not impossible, and such a file the code does not read.
\<close>

definition key_info :: "string \<Rightarrow> string \<Rightarrow> string \<Rightarrow> jobj" where
  "key_info key iv u = [(''aes_iv'', J_str iv), (''aes_key'', J_str key), (''uuid'', J_str u)]"

definition documents_ok :: "klib \<Rightarrow> crypto \<Rightarrow> bool" where
  "documents_ok L C \<longleftrightarrow> (\<forall>key iv u. kl_parse L (kl_print L (key_info key iv u)) = Some (key_info key iv u))
     \<and> (\<forall>pub key iv u y. cr_seal C pub (bytes_of (kl_print L (key_info key iv u))) = Inr y \<longrightarrow> kl_parse L (chars y) = None)"

definition fresh_info :: "key_manager \<Rightarrow> string \<Rightarrow> jobj" where
  "fresh_info s u = (let ki = cr_new_aes (y_crypto s) (y_aes_count s) in
     key_info (kl_b64_encode (y_lib s) (fst ki)) (kl_b64_encode (y_lib s) (snd ki)) u)"

lemma obj_set_info: "obj_set ''uuid'' (J_str u) [(''aes_iv'', J_str iv), (''aes_key'', J_str key)] = key_info key iv u"
  by (simp add: key_info_def)

lemma get_text_info: "get_text L ''aes_key'' (key_info key iv u) = Some key" "get_text L ''aes_iv'' (key_info key iv u) = Some iv"
  "get_text L ''uuid'' (key_info key iv u) = Some u"
  by (simp_all add: key_info_def get_text_def to_text_def)

lemma y_write_free: "y_locked s = [] \<Longrightarrow> y_write p bs s = Returns (s\<lparr>y_disk := (y_disk s)(p \<mapsto> bs)\<rparr>)"
  by (simp add: y_write_def)

lemmas file_simps = y_write_free y_directories_def y_exists_def action_defs load_pair_def y_read_def attempt_def save_new_pair_def Let_def
  generate_certificate_def user_cipher_def

lemma create_device_key_new:
  assumes "y_disk s (dev @ ''/private.pem'') = None" "crypto_ok (y_crypto s)" "writable s"
  obtains dp c where "create_device_key dev s = Returns (s\<lparr>y_rsa_count := Suc (y_rsa_count s),
     y_disk := (y_disk s)(dev @ ''/public.pem'' \<mapsto> fst dp, dev @ ''/private.pem'' \<mapsto> snd dp, dev @ ''/cert.pem'' \<mapsto> c), y_device_cipher := Some dp\<rparr>)"
    "cr_load (y_crypto s) (fst dp) (snd dp) = Inr ()"
proof -
  obtain dp where dp: "cr_new_rsa (y_crypto s) (y_rsa_count s) = dp" "is_pair (y_crypto s) dp"
    using assms(2) by (simp add: crypto_ok_def)
  then obtain c where "cr_certificate (y_crypto s) (fst dp) (snd dp) = Inr c"
    by (auto simp: is_pair_def)
  with dp assms show ?thesis
    by (intro that [of dp c]) (auto simp: create_device_key_def writable_def is_pair_def file_simps)
qed

lemma create_user_key_new:
  assumes "y_disk s (y_user_key_path s @ ''/'' @ priv) = None \<or> chk" "crypto_ok (y_crypto s)" "writable s" "pub \<noteq> priv"
    "cr_new_rsa (y_crypto s) (y_rsa_count s) = up"
  shows "create_user_key pub priv chk s = Returns (s\<lparr>y_rsa_count := Suc (y_rsa_count s),
     y_disk := (y_disk s)(y_user_key_path s @ ''/'' @ pub \<mapsto> fst up, y_user_key_path s @ ''/'' @ priv \<mapsto> snd up), y_user_cipher := Some up\<rparr>)"
proof -
  have "is_pair (y_crypto s) up"
    using assms(2,5) by (auto simp: crypto_ok_def)
  with assms show ?thesis
    by (auto simp: create_user_key_def writable_def is_pair_def file_simps)
qed

text \<open>The encrypted document of the user's key, as it is written.\<close>

lemma encrypt_user_info:
  assumes "y_user_cipher s = Some up" "is_pair (y_crypto s) up" "writable s" "documents_ok (y_lib s) (y_crypto s)"
  obtains bs where "encrypt_user_json_info_with_user_key (key_info key iv u) q s = Returns (s\<lparr>y_disk := (y_disk s)(q \<mapsto> bs)\<rparr>)"
    "kl_parse (y_lib s) (chars bs) = None" "kl_parse (y_lib s) (chars (cr_open (y_crypto s) (snd up) bs)) = Some (key_info key iv u)"
proof -
  let ?m = "key_info key iv u"
  obtain bs where "cr_seal (y_crypto s) (fst up) (bytes_of (kl_print (y_lib s) ?m)) = Inr bs"
    "cr_open (y_crypto s) (snd up) bs = bytes_of (kl_print (y_lib s) ?m)"
    using assms(2) by (auto simp: is_pair_def)
  with assms show ?thesis
    by (intro that [of bs]) (auto simp: encrypt_user_json_info_with_user_key_def writable_def documents_ok_def file_simps)
qed

lemma new_json_key:
  "generate_new_user_json_key k s = k [(''aes_iv'', J_str (kl_b64_encode (y_lib s) (snd (cr_new_aes (y_crypto s) (y_aes_count s))))),
     (''aes_key'', J_str (kl_b64_encode (y_lib s) (fst (cr_new_aes (y_crypto s) (y_aes_count s)))))] (s\<lparr>y_aes_count := Suc (y_aes_count s)\<rparr>)"
  by (simp add: generate_new_user_json_key_def new_aes_def b64_def look_def)

definition fresh_uuid_text :: "key_manager \<Rightarrow> string" where
  "fresh_uuid_text s = uuid_to_string (kl_poco (y_lib s)) (y_uuids s (y_uuid_count s))"

lemma create_user_json_key_new:
  assumes "y_disk s (y_user_json_key_path s) = None" "y_user_cipher s = Some up" "is_pair (y_crypto s) up" "writable s"
    "documents_ok (y_lib s) (y_crypto s)"
  obtains bs where "create_user_json_key s = Returns (s\<lparr>y_aes_count := Suc (y_aes_count s), y_uuid_count := Suc (y_uuid_count s),
     y_config_tx := set_slot (\<lambda>out. out\<lparr>kmc_is_generated := True, kmc_user_json_info := Some (fresh_info s (fresh_uuid_text s))\<rparr>) (y_config_tx s),
     y_disk := (y_disk s)(y_user_json_key_path s \<mapsto> bs)\<rparr>)"
    "kl_parse (y_lib s) (chars bs) = None"
    "kl_parse (y_lib s) (chars (cr_open (y_crypto s) (snd up) bs)) = Some (fresh_info s (fresh_uuid_text s))"
proof -
  let ?s1 = "s\<lparr>y_aes_count := Suc (y_aes_count s), y_uuid_count := Suc (y_uuid_count s),
     y_config_tx := set_slot (\<lambda>out. out\<lparr>kmc_is_generated := True\<rparr>) (y_config_tx s)\<rparr>"
  obtain bs where bs: "encrypt_user_json_info_with_user_key (fresh_info s (fresh_uuid_text s)) (y_user_json_key_path s) ?s1
      = Returns (?s1\<lparr>y_disk := (y_disk s)(y_user_json_key_path s \<mapsto> bs)\<rparr>)"
    "kl_parse (y_lib s) (chars bs) = None"
    "kl_parse (y_lib s) (chars (cr_open (y_crypto s) (snd up) bs)) = Some (fresh_info s (fresh_uuid_text s))"
    by (rule encrypt_user_info [of ?s1 up]) (use assms in \<open>auto simp: writable_def fresh_info_def Let_def\<close>)
  have "create_user_json_key s = Returns (s\<lparr>y_aes_count := Suc (y_aes_count s), y_uuid_count := Suc (y_uuid_count s),
     y_config_tx := set_slot (\<lambda>out. out\<lparr>kmc_is_generated := True, kmc_user_json_info := Some (fresh_info s (fresh_uuid_text s))\<rparr>) (y_config_tx s),
     y_disk := (y_disk s)(y_user_json_key_path s \<mapsto> bs)\<rparr>)"
    using assms(1) bs(1)
    by (simp add: create_user_json_key_def look_def y_exists_def new_json_key obj_set_info Let_def fresh_info_def fresh_uuid_text_def
        upd_def y_config_slot_def set_slot_def slot_def del: obj_set.simps)
  with bs show ?thesis
    using that by blast
qed

text \<open>The first start: nothing is there but what the directories hold of others.\<close>

lemma start_creates:
  assumes "word dev" "word d" "word p" "apart dev d p" "writable s" "fifo_ok (y_config_tx s)"
    and ok: "crypto_ok (y_crypto s)" "documents_ok (y_lib s) (y_crypto s)"
    and none: "y_disk s (dev @ ''/private.pem'') = None" "y_disk s (d @ ''/private.pem'') = None" "y_disk s p = None"
  obtains s' up where "y_process_config_input (start_message dev d p) s = Returns s'" "y_user_cipher s' = Some up"
    "device_files (y_crypto s) (y_disk s') dev" "user_files (y_lib s) (y_crypto s) (y_disk s') d p up (fresh_info s (fresh_uuid_text s))"
    "pending (y_config_tx s') = pending (y_config_tx s) @ [(slot (y_config_tx s))\<lparr>kmc_is_generated := True,
       kmc_user_json_info := Some (fresh_info s (fresh_uuid_text s)), kmc_cmd := cmd_initialized_keys\<rparr>]"
proof -
  let ?s1 = "s\<lparr>y_user_key_path := d, y_user_json_key_path := p\<rparr>"
  note ne = apart_device_all [OF assms(4)] apart_user [OF assms(4)]
  have ne': "dev \<noteq> d"
    using ne(5) by auto
  obtain dp c where 1: "create_device_key dev ?s1 = Returns (?s1\<lparr>y_rsa_count := Suc (y_rsa_count s),
      y_disk := (y_disk s)(dev @ ''/public.pem'' \<mapsto> fst dp, dev @ ''/private.pem'' \<mapsto> snd dp, dev @ ''/cert.pem'' \<mapsto> c), y_device_cipher := Some dp\<rparr>)"
    "cr_load (y_crypto s) (fst dp) (snd dp) = Inr ()"
    using create_device_key_new [of ?s1 dev] none(1) ok(1) assms(5) by (auto simp: writable_def)
  let ?s2 = "?s1\<lparr>y_rsa_count := Suc (y_rsa_count s), y_disk := (y_disk s)(dev @ ''/public.pem'' \<mapsto> fst dp, dev @ ''/private.pem'' \<mapsto> snd dp,
     dev @ ''/cert.pem'' \<mapsto> c), y_device_cipher := Some dp\<rparr>"
  define up where "up = cr_new_rsa (y_crypto s) (Suc (y_rsa_count s))"
  have up: "is_pair (y_crypto s) up"
    using ok(1) by (simp add: crypto_ok_def up_def)
  let ?s3 = "?s2\<lparr>y_rsa_count := Suc (Suc (y_rsa_count s)), y_disk := (y_disk ?s2)(d @ ''/public.pem'' \<mapsto> fst up, d @ ''/private.pem'' \<mapsto> snd up),
     y_user_cipher := Some up\<rparr>"
  have 2: "create_user_key ''public.pem'' ''private.pem'' False ?s2 = Returns ?s3"
    using create_user_key_new [of ?s2 "''private.pem''" False "''public.pem''" up] none(2) ok(1) assms(5) ne(6,14,22)
    by (simp add: writable_def up_def)
  obtain bs where 3: "create_user_json_key ?s3 = Returns (?s3\<lparr>y_aes_count := Suc (y_aes_count s), y_uuid_count := Suc (y_uuid_count s),
      y_config_tx := set_slot (\<lambda>out. out\<lparr>kmc_is_generated := True, kmc_user_json_info := Some (fresh_info s (fresh_uuid_text s))\<rparr>) (y_config_tx s),
      y_disk := (y_disk ?s3)(p \<mapsto> bs)\<rparr>)"
    "kl_parse (y_lib s) (chars bs) = None" "kl_parse (y_lib s) (chars (cr_open (y_crypto s) (snd up) bs)) = Some (fresh_info s (fresh_uuid_text s))"
    using create_user_json_key_new [of ?s3 up] none(3) ok(2) assms(5) ne(4,12,20,25,26) up by (auto simp: writable_def fresh_info_def fresh_uuid_text_def)
  let ?s4 = "?s3\<lparr>y_aes_count := Suc (y_aes_count s), y_uuid_count := Suc (y_uuid_count s), y_disk := (y_disk ?s3)(p \<mapsto> bs),
     y_config_tx := commit key_manager_cfg_package0 (set_slot (\<lambda>out. out\<lparr>kmc_is_generated := True,
       kmc_user_json_info := Some (fresh_info s (fresh_uuid_text s)), kmc_cmd := cmd_initialized_keys\<rparr>) (y_config_tx s))\<rparr>"
  have 4: "y_process_config_input (start_message dev d p) s = Returns ?s4"
    unfolding start_config [OF assms(1-3)] run_all.simps 1 and_run.simps 2 3 y_config_slot_def upd_def by (simp add: set_slot_def slot_def)
  have "device_files (y_crypto s) (y_disk ?s4) dev"
    using ne(4-6,12-14,20-22) 1(2) by (simp add: device_files_def)
  moreover have "user_files (y_lib s) (y_crypto s) (y_disk ?s4) d p up (fresh_info s (fresh_uuid_text s))"
    using ne(25,26) up 3(2,3) by (simp add: user_files_def)
  ultimately show ?thesis
    using assms(6) by (intro that [OF 4, of up]) simp_all
qed

section \<open>Concrete runs\<close>

lemma ex_fields [simp]: "kl_parse ex_key_lib = ex_parse" "kl_print ex_key_lib = ex_print" "cr_open ex_crypto k y = tl y" "cr_load ex_crypto k k' = Inr ()"
  "cr_new_rsa ex_crypto n = ([3, of_nat n], [4])"
  by (simp_all add: ex_key_lib_def ex_crypto_def)

lemma ex_parse_print [simp]: "ex_parse (ex_print (key_info key iv u)) = Some (key_info key iv u)"
  using ex_read_escape [of u "[]"] by (simp add: key_info_def ex_parse_def ex_print_def ex_read_escape)

lemma ex_parse_sealed [simp]: "ex_parse (chars (0 # x)) = None" "ex_parse (chars []) = None"
  by (simp_all add: ex_parse_def chars_def char_of_0)

lemma ex_documents [simp]: "documents_ok ex_key_lib ex_crypto"
  by (auto simp: documents_ok_def) (auto simp: ex_crypto_def)

definition ex_device :: key_manager where
  "ex_device = (key_manager_new ex_key_lib ex_crypto of_nat [''v/public.pem'' \<mapsto> [3], ''v/private.pem'' \<mapsto> [4], ''v/cert.pem'' \<mapsto> [5]])
     \<lparr>y_user_key_path := ''u'', y_user_json_key_path := ''i'', y_user_cipher := Some ([3], [4])\<rparr>"

lemma ex_device_simps [simp]: "y_lib ex_device = ex_key_lib" "y_crypto ex_device = ex_crypto" "y_user_key_path ex_device = ''u''"
  "y_user_json_key_path ex_device = ''i''" "y_kernel_tx ex_device = fifo_new kernel_key_manager_package0" "writable ex_device"
  "y_stuck ex_device = []" "y_no_directory ex_device = []" "y_error_text ex_device = []" "device_files ex_crypto (y_disk ex_device) ''v''"
  "y_rsa_count ex_device = 0" "y_user_cipher ex_device = Some ([3], [4])"
  by (simp_all add: ex_device_def key_manager_new_def writable_def device_files_def)

lemma ex_words [simp]: "word ''v''" "word ''u''" "word ''i''" "apart ''v'' ''u'' ''i''"
  by (simp_all add: word_def is_space_def apart_def device_paths_def user_paths_def info_paths_def)

text \<open>
  C35: The keys of a user survive a restart. The first start on a disk without key files makes them and reports that it
  did; a key manager started later on the disk as that start left it loads the same pair of keys and the same key
  document (user id and key of the user's data), reports that nothing was made, and leaves the disk as it is.
\<close>

theorem keys_survive_restart:
  assumes "word dev" "word d" "word p" "apart dev d p" "crypto_ok C" "documents_ok L C"
    "disk (dev @ ''/private.pem'') = None" "disk (d @ ''/private.pem'') = None" "disk p = None"
  shows "\<exists>s1 o1 s2 o2. y_process_config_input (start_message dev d p) (key_manager_new L C us disk) = Returns s1
     \<and> pending (y_config_tx s1) = [o1] \<and> kmc_is_generated o1
     \<and> y_process_config_input (start_message dev d p) (key_manager_new L C us' (y_disk s1)) = Returns s2
     \<and> pending (y_config_tx s2) = [o2] \<and> \<not> kmc_is_generated o2
     \<and> y_user_cipher s1 \<noteq> None \<and> y_user_cipher s2 = y_user_cipher s1
     \<and> kmc_user_json_info o1 \<noteq> None \<and> kmc_user_json_info o2 = kmc_user_json_info o1 \<and> y_disk s2 = y_disk s1"
proof -
  let ?s = "key_manager_new L C us disk"
  have new: "writable (key_manager_new L C v e)" "y_crypto (key_manager_new L C v e) = C" "y_lib (key_manager_new L C v e) = L"
    "y_disk (key_manager_new L C v e) = e" "y_config_tx (key_manager_new L C v e) = fifo_new key_manager_cfg_package0" for v e
    by (simp_all add: key_manager_new_def writable_def)
  have gen: "\<not> kmc_is_generated key_manager_cfg_package0"
    by (simp add: key_manager_cfg_package0_def package.defs)
  obtain s1 up where s1: "y_process_config_input (start_message dev d p) ?s = Returns s1" "y_user_cipher s1 = Some up"
    "device_files C (y_disk s1) dev" "user_files L C (y_disk s1) d p up (fresh_info ?s (fresh_uuid_text ?s))"
    "pending (y_config_tx s1) = [key_manager_cfg_package0\<lparr>kmc_is_generated := True,
       kmc_user_json_info := Some (fresh_info ?s (fresh_uuid_text ?s)), kmc_cmd := cmd_initialized_keys\<rparr>]"
    by (rule start_creates [of dev d p ?s]) (use assms in \<open>auto simp: new\<close>)
  let ?t = "key_manager_new L C us' (y_disk s1)"
  obtain s2 where "y_process_config_input (start_message dev d p) ?t = Returns s2" "loaded d p up ?t s2"
    "pending (y_config_tx s2) = [key_manager_cfg_package0\<lparr>kmc_user_json_info := Some (fresh_info ?s (fresh_uuid_text ?s)),
       kmc_cmd := cmd_initialized_keys\<rparr>]"
    by (rule start_loads [of dev d p ?t up "fresh_info ?s (fresh_uuid_text ?s)"]) (use assms s1 in \<open>auto simp: new\<close>)
  with s1 gen show ?thesis
    by (auto simp: loaded_def new)
qed

theorem keys_survive_restart_witness:
  "\<exists>s s2 o2. y_user_cipher s2 \<noteq> None \<and> pending (y_config_tx s2) = [o2] \<and> \<not> kmc_is_generated o2
     \<and> y_process_config_input (start_message ''v'' ''u'' ''i'') s = Returns s2 \<and> kmc_user_json_info o2 \<noteq> None"
  using keys_survive_restart [of "''v''" "''u''" "''i''" ex_crypto ex_key_lib Map.empty of_nat of_nat] by simp metis

section \<open>New keys for the user\<close>

lemma c_message_text: "CHR 0x00 \<notin> set u \<Longrightarrow> c_message (with_payload (bytes_of u) p) k = k u"
  using c_str_bytes_of [of u "[]"] by (simp add: c_message_def with_payload_def must_def)

definition regenerate_request :: "ID32 \<Rightarrow> string \<Rightarrow> kernel_key_manager_package" where
  "regenerate_request i u = key_request cmd_regenerate_user_keys i kernel_key_manager_package0 (bytes_of u)"

lemma regenerate_steps:
  assumes "CHR 0x00 \<notin> set u"
  shows "y_process_kernel_input (regenerate_request i u) s = and_run (catching_all (catching_poco (regenerate_keys (regenerate_request i u))
       (run_all [remove_tmp_files, look y_error_text (\<lambda>t. y_payload (bytes_of t)), y_slot (\<lambda>out. out\<lparr>km_cmd := cmd_failed\<rparr>)]))
       (run_all [remove_tmp_files, y_slot (\<lambda>out. out\<lparr>km_cmd := cmd_failed\<rparr>)])
       (s\<lparr>y_kernel_tx := set_slot (\<lambda>out. out\<lparr>km_request_id := i\<rparr>) (y_kernel_tx s)\<rparr>)) y_commit"
  by (simp add: y_process_kernel_input_def regenerate_request_def key_request_def handle_kernel_regenerate_user_keys_def check_def y_slot_def)

definition regenerated :: "string \<Rightarrow> string \<Rightarrow> byte list \<times> byte list \<Rightarrow> byte list \<Rightarrow> disk \<Rightarrow> disk" where
  "regenerated d p up bs disk = disk(d @ ''/public.tmp'' \<mapsto> fst up, d @ ''/private.tmp'' \<mapsto> snd up, p @ ''.tmp'' \<mapsto> bs,
      d @ ''/public.tmp'' := None, d @ ''/public.pem'' \<mapsto> fst up, d @ ''/private.tmp'' := None, d @ ''/private.pem'' \<mapsto> snd up,
      p @ ''.tmp'' := None, p \<mapsto> bs)"

lemma regenerate_makes_pair:
  assumes "apart dev d p" "crypto_ok (y_crypto s)" "writable s" "y_user_key_path s = d" "y_user_json_key_path s = p"
    "documents_ok (y_lib s) (y_crypto s)" "CHR 0x00 \<notin> set u" "up = cr_new_rsa (y_crypto s) (y_rsa_count s)"
  obtains s' bs where "regenerate_keys (regenerate_request i u) s = Returns s'" "y_user_cipher s' = Some up"
    "y_kernel_tx s' = set_slot (\<lambda>out. out\<lparr>km_aes_key := kl_b64_encode (y_lib s) (fst (cr_new_aes (y_crypto s) (y_aes_count s))),
        km_aes_iv := kl_b64_encode (y_lib s) (snd (cr_new_aes (y_crypto s) (y_aes_count s))),
        km_cmd := cmd_regenerate_user_keys_succeeded\<rparr>) (y_kernel_tx s)"
    "y_disk s' = regenerated d p up bs (y_disk s)"
    "kl_parse (y_lib s) (chars bs) = None" "kl_parse (y_lib s) (chars (cr_open (y_crypto s) (snd up) bs)) = Some (fresh_info s u)"
proof -
  let ?s1 = "s\<lparr>y_rsa_count := Suc (y_rsa_count s), y_disk := (y_disk s)(d @ ''/public.tmp'' \<mapsto> fst up, d @ ''/private.tmp'' \<mapsto> snd up),
     y_user_cipher := Some up\<rparr>"
  let ?s2 = "?s1\<lparr>y_aes_count := Suc (y_aes_count s)\<rparr>"
  have 1: "create_user_key ''public.tmp'' ''private.tmp'' True s = Returns ?s1"
    using create_user_key_new [of s "''private.tmp''" True "''public.tmp''" up] assms by simp
  obtain bs where bs: "encrypt_user_json_info_with_user_key (fresh_info s u) (p @ ''.tmp'') ?s2 = Returns (?s2\<lparr>y_disk := (y_disk ?s1)(p @ ''.tmp'' \<mapsto> bs)\<rparr>)"
    "kl_parse (y_lib s) (chars bs) = None" "kl_parse (y_lib s) (chars (cr_open (y_crypto s) (snd up) bs)) = Some (fresh_info s u)"
    by (rule encrypt_user_info [of ?s2 up]) (use assms in \<open>auto simp: writable_def fresh_info_def Let_def crypto_ok_def\<close>)
  note ne = apart_user [OF assms(1)]
  have st: "y_stuck s = []"
    using assms(3) by (simp add: writable_def)
  let ?tx = "set_slot (\<lambda>out. out\<lparr>km_aes_key := kl_b64_encode (y_lib s) (fst (cr_new_aes (y_crypto s) (y_aes_count s))),
        km_aes_iv := kl_b64_encode (y_lib s) (snd (cr_new_aes (y_crypto s) (y_aes_count s))),
        km_cmd := cmd_regenerate_user_keys_succeeded\<rparr>) (y_kernel_tx s)"
  have "regenerate_keys (regenerate_request i u) s = Returns (?s2\<lparr>y_disk := regenerated d p up bs (y_disk s), y_kernel_tx := ?tx\<rparr>)"
    using ne st bs(1) assms(4,5)
    by (simp add: regenerate_keys_def look_def 1 new_json_key regenerate_request_def key_request_def c_message_text [OF assms(7)] obj_set_info
        Let_def fresh_info_def regenerated_def y_move_def get_text_info need_def y_slot_def set_slot_def slot_def del: obj_set.simps)
  with bs show ?thesis
    by (intro that) auto
qed

lemma regenerate_succeeds:
  assumes "apart dev d p" "crypto_ok (y_crypto s)" "writable s" "y_user_key_path s = d" "y_user_json_key_path s = p"
    "documents_ok (y_lib s) (y_crypto s)" "CHR 0x00 \<notin> set u" "fifo_ok (y_kernel_tx s)" "device_files (y_crypto s) (y_disk s) dev"
  obtains out s' where "asks s (regenerate_request i u) out s'" "km_cmd out = cmd_regenerate_user_keys_succeeded" "km_request_id out = i"
    "y_user_cipher s' = Some (cr_new_rsa (y_crypto s) (y_rsa_count s))" "device_files (y_crypto s) (y_disk s') dev"
    "user_files (y_lib s) (y_crypto s) (y_disk s') d p (cr_new_rsa (y_crypto s) (y_rsa_count s)) (fresh_info s u)"
    "get_text (y_lib s) ''aes_key'' (fresh_info s u) = Some (km_aes_key out)" "get_text (y_lib s) ''aes_iv'' (fresh_info s u) = Some (km_aes_iv out)"
proof -
  let ?s = "s\<lparr>y_kernel_tx := set_slot (\<lambda>out. out\<lparr>km_request_id := i\<rparr>) (y_kernel_tx s)\<rparr>"
  define up where "up = cr_new_rsa (y_crypto s) (y_rsa_count s)"
  have up: "is_pair (y_crypto s) up"
    using assms(2) by (simp add: crypto_ok_def up_def)
  obtain t bs where bs: "regenerate_keys (regenerate_request i u) ?s = Returns t" "y_user_cipher t = Some up" "y_disk t = regenerated d p up bs (y_disk s)"
    "y_kernel_tx t = set_slot (\<lambda>out. out\<lparr>km_aes_key := kl_b64_encode (y_lib s) (fst (cr_new_aes (y_crypto s) (y_aes_count s))),
        km_aes_iv := kl_b64_encode (y_lib s) (snd (cr_new_aes (y_crypto s) (y_aes_count s))),
        km_cmd := cmd_regenerate_user_keys_succeeded\<rparr>) (y_kernel_tx ?s)"
    "kl_parse (y_lib s) (chars bs) = None" "kl_parse (y_lib s) (chars (cr_open (y_crypto s) (snd up) bs)) = Some (fresh_info s u)"
    by (rule regenerate_makes_pair [of dev d p ?s u up i]) (use assms in \<open>auto simp: writable_def up_def fresh_info_def\<close>)
  let ?out = "(slot (y_kernel_tx s))\<lparr>km_request_id := i, km_aes_key := kl_b64_encode (y_lib s) (fst (cr_new_aes (y_crypto s) (y_aes_count s))),
        km_aes_iv := kl_b64_encode (y_lib s) (snd (cr_new_aes (y_crypto s) (y_aes_count s))), km_cmd := cmd_regenerate_user_keys_succeeded\<rparr>"
  have "\<exists>s'. asks s (regenerate_request i u) ?out s' \<and> y_user_cipher s' = Some up \<and> y_disk s' = y_disk t"
    using assms(8) bs(1,2,4)
    by (simp add: asks_def regenerate_steps [OF assms(7)] catching_all_def catching_poco_def y_commit_def)
  then obtain s' where s': "asks s (regenerate_request i u) ?out s'" "y_user_cipher s' = Some up" "y_disk s' = regenerated d p up bs (y_disk s)"
    using bs(3) by auto
  have "device_files (y_crypto s) (regenerated d p up bs (y_disk s)) dev"
    using assms(9) apart_device_all [OF assms(1)] by (simp add: device_files_def regenerated_def)
  moreover have "user_files (y_lib s) (y_crypto s) (regenerated d p up bs (y_disk s)) d p up (fresh_info s u)"
    using apart_user [OF assms(1)] up bs(5,6) by (simp add: user_files_def regenerated_def)
  ultimately show ?thesis
    using s' by (intro that [of ?out s']) (simp_all add: up_def fresh_info_def Let_def get_text_info)
qed

text \<open>
  C36: Keys that were regenerated are the user's keys after the next restart. The answer to the kernel says so under the
  request's id and carries the new key of the user's data; a key manager started later on the disk loads the new pair,
  and a document with that key and with the user id the kernel asked for.
\<close>

theorem regenerated_keys_survive_restart:
  assumes "word dev" "word d" "word p" "apart dev d p" "crypto_ok (y_crypto s)" "documents_ok (y_lib s) (y_crypto s)" "writable s"
    "device_files (y_crypto s) (y_disk s) dev" "y_user_key_path s = d" "y_user_json_key_path s = p" "CHR 0x00 \<notin> set u" "fifo_ok (y_kernel_tx s)"
  shows "\<exists>out s' s2 o2 obj. asks s (regenerate_request i u) out s' \<and> km_cmd out = cmd_regenerate_user_keys_succeeded \<and> km_request_id out = i
     \<and> y_user_cipher s' = Some (cr_new_rsa (y_crypto s) (y_rsa_count s))
     \<and> y_process_config_input (start_message dev d p) (key_manager_new (y_lib s) (y_crypto s) us (y_disk s')) = Returns s2
     \<and> y_user_cipher s2 = y_user_cipher s' \<and> pending (y_config_tx s2) = [o2] \<and> kmc_user_json_info o2 = Some obj
     \<and> get_text (y_lib s) ''uuid'' obj = Some u \<and> get_text (y_lib s) ''aes_key'' obj = Some (km_aes_key out)
     \<and> get_text (y_lib s) ''aes_iv'' obj = Some (km_aes_iv out)"
proof -
  obtain out s' where s': "asks s (regenerate_request i u) out s'" "km_cmd out = cmd_regenerate_user_keys_succeeded" "km_request_id out = i"
    "y_user_cipher s' = Some (cr_new_rsa (y_crypto s) (y_rsa_count s))" "device_files (y_crypto s) (y_disk s') dev"
    "user_files (y_lib s) (y_crypto s) (y_disk s') d p (cr_new_rsa (y_crypto s) (y_rsa_count s)) (fresh_info s u)"
    "get_text (y_lib s) ''aes_key'' (fresh_info s u) = Some (km_aes_key out)" "get_text (y_lib s) ''aes_iv'' (fresh_info s u) = Some (km_aes_iv out)"
    by (rule regenerate_succeeds [OF assms(4,5,7,9,10,6,11,12,8)])
  let ?t = "key_manager_new (y_lib s) (y_crypto s) us (y_disk s')"
  obtain s2 where "y_process_config_input (start_message dev d p) ?t = Returns s2" "loaded d p (cr_new_rsa (y_crypto s) (y_rsa_count s)) ?t s2"
    "pending (y_config_tx s2) = [key_manager_cfg_package0\<lparr>kmc_user_json_info := Some (fresh_info s u), kmc_cmd := cmd_initialized_keys\<rparr>]"
    by (rule start_loads [OF assms(1-3), of ?t "cr_new_rsa (y_crypto s) (y_rsa_count s)" "fresh_info s u"])
      (use s'(5,6) in \<open>simp_all add: key_manager_new_def writable_def\<close>)
  with s' show ?thesis
    by (intro exI [of _ out] exI [of _ s'] exI [of _ s2]) (auto simp: loaded_def fresh_info_def Let_def get_text_info)
qed

theorem regenerated_keys_survive_restart_witness:
  "\<exists>out s'. asks ex_device (regenerate_request 7 ''me'') out s' \<and> km_cmd out = cmd_regenerate_user_keys_succeeded
     \<and> y_user_cipher s' = Some ([3, 0], [4])"
  using regenerated_keys_survive_restart [of "''v''" "''u''" "''i''" ex_device "''me''" 7 of_nat] by simp blast

text \<open>
  A regeneration that fails leaves the key manager with keys that are nowhere on the disk. When the new key document
  cannot be written, the kernel is told of the failure and every file but the temporary ones is as it was, yet the pair
  of keys in use is the new one: what was encrypted for the user's public key on the disk is no longer decrypted with
  the matching private key, until the next restart.
\<close>

theorem failed_regeneration_changes_cipher:
  assumes "crypto_ok (y_crypto s)" "y_locked s = [y_user_json_key_path s @ ''.tmp'']" "y_stuck s = []" "y_no_directory s = []"
    "y_user_key_path s @ ''/public.tmp'' \<noteq> y_user_json_key_path s @ ''.tmp''" "y_user_key_path s @ ''/private.tmp'' \<noteq> y_user_json_key_path s @ ''.tmp''"
    "CHR 0x00 \<notin> set u" "length (y_error_text s) < 2 ^ 32" "fifo_ok (y_kernel_tx s)"
  shows "\<exists>out s'. asks s (regenerate_request i u) out s' \<and> km_cmd out = cmd_failed \<and> km_request_id out = i
     \<and> y_disk s' = (y_disk s)(y_user_key_path s @ ''/public.tmp'' := None, y_user_key_path s @ ''/private.tmp'' := None,
         y_user_json_key_path s @ ''.tmp'' := None)
     \<and> y_user_cipher s' = Some (cr_new_rsa (y_crypto s) (y_rsa_count s))"
proof -
  obtain up where up: "cr_new_rsa (y_crypto s) (y_rsa_count s) = up" "cr_load (y_crypto s) (fst up) (snd up) = Inr ()"
    using assms(1) by (simp add: crypto_ok_def is_pair_def)
  let ?d = "y_user_key_path s" and ?p = "y_user_json_key_path s"
  let ?s0 = "s\<lparr>y_kernel_tx := set_slot (\<lambda>out. out\<lparr>km_request_id := i\<rparr>) (y_kernel_tx s)\<rparr>"
  let ?s1 = "?s0\<lparr>y_rsa_count := Suc (y_rsa_count s), y_disk := (y_disk s)(?d @ ''/public.tmp'' \<mapsto> fst up, ?d @ ''/private.tmp'' \<mapsto> snd up),
     y_user_cipher := Some up\<rparr>"
  have 1: "create_user_key ''public.tmp'' ''private.tmp'' True ?s0 = Returns ?s1"
    using up assms(2-6) by (simp add: create_user_key_def y_write_def file_simps)
  have "regenerate_keys (regenerate_request i u) ?s0 = Raises Poco_error (?s1\<lparr>y_aes_count := Suc (y_aes_count s)\<rparr>)"
    using assms(2,4)
    by (simp add: regenerate_keys_def look_def 1 new_json_key regenerate_request_def key_request_def c_message_text [OF assms(7)]
        Let_def encrypt_user_json_info_with_user_key_def only_if_def y_directories_def skip_def y_write_def del: obj_set.simps)
  then show ?thesis
    using assms(8,9)
    by (simp add: asks_def regenerate_steps [OF assms(7)] catching_all_def catching_poco_def y_commit_def remove_tmp_files_def look_def y_remove_def
        y_payload_fits y_slot_def up(1) fun_upd_twist)
qed

theorem failed_regeneration_changes_cipher_witness:
  "\<exists>out s'. asks (ex_device\<lparr>y_locked := [''i.tmp'']\<rparr>) (regenerate_request 7 ''me'') out s' \<and> km_cmd out = cmd_failed
     \<and> y_user_cipher s' = Some ([3, 0], [4])"
  using failed_regeneration_changes_cipher [of "ex_device\<lparr>y_locked := [''i.tmp'']\<rparr>" "''me''" 7] by simp blast

section \<open>Keys of another device\<close>

definition keys_message :: "ID32 \<Rightarrow> byte list \<times> byte list \<Rightarrow> byte list \<Rightarrow> link_key_manager_package" where
  "keys_message i up info = link_key_manager_package0\<lparr>kt_cmd := cmd_request_keys_response, kt_public_key := fst up,
     kt_private_key := snd up, kt_user_json_info := info, lk_request_id := i\<rparr>"

definition received :: "string \<Rightarrow> string \<Rightarrow> byte list \<times> byte list \<Rightarrow> byte list \<Rightarrow> disk \<Rightarrow> disk" where
  "received d p up info disk = disk(d @ ''/public.pem.tmp'' := None, d @ ''/public.pem'' \<mapsto> fst up,
     d @ ''/private.pem.tmp'' := None, d @ ''/private.pem'' \<mapsto> snd up, p @ ''.tmp'' := None, p \<mapsto> info)"

lemma write_in_file_free:
  assumes "writable s" "bs \<noteq> []"
  shows "write_in_file bs f s = Returns (s\<lparr>y_disk := (y_disk s)(f @ ''.tmp'' := None, f \<mapsto> bs)\<rparr>)"
  using assms by (simp add: write_in_file_def writable_def y_write_free y_move_def skip_def)

lemma written:
  assumes "writable s" "bs \<noteq> []"
  shows "write_in_file bs f s = Returns (s\<lparr>y_disk := (y_disk s)(f @ ''.tmp'' := None, f \<mapsto> bs)\<rparr>)"
    "write_in_file bs f (s\<lparr>y_disk := D\<rparr>) = Returns (s\<lparr>y_disk := D(f @ ''.tmp'' := None, f \<mapsto> bs)\<rparr>)"
  using write_in_file_free [of s bs f] write_in_file_free [of "s\<lparr>y_disk := D\<rparr>" bs f] assms by (simp_all add: writable_def)

lemma overwrite_keys:
  assumes "writable s" "apart dev d p" "y_user_key_path s = d" "y_user_json_key_path s = p" "fst up \<noteq> []" "snd up \<noteq> []" "info \<noteq> []"
    "cr_load (y_crypto s) (fst up) (snd up) = Inr ()"
  shows "overwrite_user_keys (keys_message i up info) s = Returns (s\<lparr>y_disk := received d p up info (y_disk s), y_user_cipher := Some up\<rparr>)"
  using apart_user [OF assms(2)] assms(3-8)
  by (simp add: overwrite_user_keys_def keys_message_def look_def written [OF assms(1)] load_pair_def y_read_def need_def attempt_def
      upd_def received_def)

lemma received_files:
  assumes "apart dev d p"
  shows "received d p up info disk (d @ ''/public.pem'') = Some (fst up)" "received d p up info disk (d @ ''/private.pem'') = Some (snd up)"
    "received d p up info disk p = Some info" "device_files C (received d p up info disk) dev = device_files C disk dev"
  using apart_user [OF assms] apart_device_all [OF assms] by (simp_all add: received_def device_files_def)

text \<open>
  A device that receives the keys of another one takes over the user. When the three texts of the message belong
  together, the kernel is told the key of the user's data, the pair in use is the received one, and so it is after a
  restart.
\<close>

theorem received_keys_are_taken_over:
  assumes "word dev" "word d" "word p" "apart dev d p" "writable s" "device_files (y_crypto s) (y_disk s) dev"
    "y_user_key_path s = d" "y_user_json_key_path s = p" "fifo_ok (y_kernel_tx s)"
    "fst up \<noteq> []" "snd up \<noteq> []" "info \<noteq> []" "is_pair (y_crypto s) up" "kl_parse (y_lib s) (chars info) = None"
    "kl_parse (y_lib s) (chars (cr_open (y_crypto s) (snd up) info)) = Some obj"
    "get_text (y_lib s) ''aes_key'' obj = Some key" "get_text (y_lib s) ''aes_iv'' obj = Some iv"
  shows "\<exists>s' out s2 o2. y_process_link_input (keys_message i up info) s = Returns s'
     \<and> pending (y_kernel_tx s') = pending (y_kernel_tx s) @ [out] \<and> km_cmd out = cmd_request_keys_response
     \<and> km_request_id out = i \<and> km_aes_key out = key \<and> km_aes_iv out = iv \<and> y_user_cipher s' = Some up
     \<and> y_process_config_input (start_message dev d p) (key_manager_new (y_lib s) (y_crypto s) us (y_disk s')) = Returns s2
     \<and> y_user_cipher s2 = Some up \<and> pending (y_config_tx s2) = [o2] \<and> kmc_user_json_info o2 = Some obj"
proof -
  let ?D = "received d p up info (y_disk s)"
  let ?s1 = "s\<lparr>y_disk := ?D, y_user_cipher := Some up\<rparr>"
  let ?s2 = "?s1\<lparr>y_kernel_tx := commit kernel_key_manager_package0 (set_slot (\<lambda>out. out\<lparr>km_cmd := cmd_request_keys_response, km_aes_key := key,
     km_aes_iv := iv, km_request_id := i\<rparr>) (y_kernel_tx s))\<rparr>"
  have "cr_load (y_crypto s) (fst up) (snd up) = Inr ()"
    using assms(13) by (simp add: is_pair_def)
  then have 1: "overwrite_user_keys (keys_message i up info) s = Returns ?s1"
    using overwrite_keys [OF assms(5,4,7,8,10-12)] by simp
  have km: "kt_cmd (keys_message i up info) = cmd_request_keys_response" "lk_request_id (keys_message i up info) = i"
    by (simp_all add: keys_message_def)
  have 2: "y_process_link_input (keys_message i up info) s = Returns ?s2"
    using assms(15-17)
    by (simp add: y_process_link_input_def handle_link_request_keys_respons_def catching_poco_def km 1 decrypt_user_json_info_def action_defs
        y_read_def user_cipher_def received_files [OF assms(4)] assms(8) y_slot_def y_commit_def set_slot_def slot_def)
  let ?t = "key_manager_new (y_lib s) (y_crypto s) us ?D"
  have u: "user_files (y_lib s) (y_crypto s) ?D d p up obj"
    using assms(13-15) by (simp add: user_files_def received_files [OF assms(4)])
  obtain s3 where "y_process_config_input (start_message dev d p) ?t = Returns s3" "loaded d p up ?t s3"
    "pending (y_config_tx s3) = [key_manager_cfg_package0\<lparr>kmc_user_json_info := Some obj, kmc_cmd := cmd_initialized_keys\<rparr>]"
    by (rule start_loads [OF assms(1-3), of ?t up obj])
      (use assms(6) u in \<open>simp_all add: key_manager_new_def writable_def received_files [OF assms(4)]\<close>)
  with 2 assms(9) show ?thesis
    by (intro exI [of _ ?s2]) (auto simp: loaded_def)
qed

theorem received_keys_are_taken_over_witness:
  "\<exists>s' out. y_process_link_input (keys_message 7 ([8], [9]) (0 # bytes_of (ex_print (key_info ''k'' ''v'' ''me'')))) ex_device = Returns s'
     \<and> pending (y_kernel_tx s') = [out] \<and> km_cmd out = cmd_request_keys_response \<and> km_aes_key out = ''k'' \<and> y_user_cipher s' = Some ([8], [9])"
  using received_keys_are_taken_over [of "''v''" "''u''" "''i''" ex_device "([8], [9])"
    "0 # bytes_of (ex_print (key_info ''k'' ''v'' ''me''))" "key_info ''k'' ''v'' ''me''" "''k''" "''v''" 7 of_nat]
  by (simp add: get_text_info) blast

text \<open>Keys that are of no use: the pair cannot be loaded, or it cannot decrypt the document, which is not plain either.\<close>

definition useless :: "klib \<Rightarrow> crypto \<Rightarrow> byte list \<times> byte list \<Rightarrow> byte list \<Rightarrow> bool" where
  "useless L C up info \<longleftrightarrow> cr_load C (fst up) (snd up) = Inl Poco_error
     \<or> cr_load C (fst up) (snd up) = Inr () \<and> kl_parse L (chars info) = None \<and> kl_parse L (chars (cr_open C (snd up) info)) = None"

definition config_says :: "key_manager_cfg_package \<Rightarrow> key_manager \<Rightarrow> key_manager" where
  "config_says inp s = s\<lparr>y_config_rx := fifo_write key_manager_cfg_package0 inp (y_config_rx s)\<rparr>"

lemma overwrite_bad_pair:
  assumes "writable s" "apart dev d p" "y_user_key_path s = d" "y_user_json_key_path s = p" "fst up \<noteq> []" "snd up \<noteq> []" "info \<noteq> []"
    "cr_load (y_crypto s) (fst up) (snd up) = Inl e"
  shows "overwrite_user_keys (keys_message i up info) s = Raises e (s\<lparr>y_disk := received d p up info (y_disk s)\<rparr>)"
  using apart_user [OF assms(2)] assms(3-8)
  by (simp add: overwrite_user_keys_def keys_message_def look_def written [OF assms(1)] load_pair_def y_read_def need_def attempt_def
      raise_error_def received_def)

lemma set_payload_km [simp]: "km_cmd (set_payload p q) = km_cmd q" "km_request_id (set_payload p q) = km_request_id q"
  by (cases q; simp add: set_payload_def)+

lemma useless_keys_received:
  assumes "apart dev d p" "writable s" "y_user_key_path s = d" "y_user_json_key_path s = p" "fifo_ok (y_kernel_tx s)"
    "fst up \<noteq> []" "snd up \<noteq> []" "info \<noteq> []" "length (y_error_text s) < 2 ^ 32" "useless (y_lib s) (y_crypto s) up info"
  obtains s' out where "y_process_link_input (keys_message i up info) s = Returns s'" "pending (y_kernel_tx s') = pending (y_kernel_tx s) @ [out]"
    "km_cmd out = cmd_request_keys_fail" "km_request_id out = i" "y_disk s' = received d p up info (y_disk s)"
    "y_user_cipher s' = (if cr_load (y_crypto s) (fst up) (snd up) = Inr () then Some up else y_user_cipher s)"
proof -
  have km: "kt_cmd (keys_message i up info) = cmd_request_keys_response" "lk_request_id (keys_message i up info) = i"
    by (simp_all add: keys_message_def)
  let ?r = "s\<lparr>y_disk := received d p up info (y_disk s), y_user_cipher := (if cr_load (y_crypto s) (fst up) (snd up) = Inr () then Some up
     else y_user_cipher s)\<rparr>"
  let ?out = "set_payload (text_pkg (y_error_text s)) ((slot (y_kernel_tx s))\<lparr>km_cmd := cmd_request_keys_fail, km_request_id := i\<rparr>)"
  have 1: "and_run (overwrite_user_keys (keys_message i up info) s) (decrypt_user_json_info k) = Raises Poco_error ?r" for k
  proof (cases "cr_load (y_crypto s) (fst up) (snd up) = Inr ()")
    case True
    then show ?thesis
      using overwrite_keys [OF assms(2,1,3,4,6-8) True] assms(4,10)
      by (simp add: useless_def decrypt_user_json_info_def y_read_def user_cipher_def action_defs received_files [OF assms(1)])
  next
    case False
    then have "cr_load (y_crypto s) (fst up) (snd up) = Inl Poco_error"
      using assms(10) by (auto simp: useless_def)
    with overwrite_bad_pair [OF assms(2,1,3,4,6-8) this] show ?thesis
      by simp
  qed
  have 2: "y_process_link_input (keys_message i up info) s = Returns (?r\<lparr>y_kernel_tx := commit kernel_key_manager_package0 (set_slot (\<lambda>_. ?out) (y_kernel_tx s))\<rparr>)"
    unfolding y_process_link_input_def handle_link_request_keys_respons_def catching_poco_def run_all.simps(2) [of "check _"]
      run_all.simps(2) [of "overwrite_user_keys _"]
    by (simp add: km check_def 1 y_slot_def y_commit_def look_def text_package_pkg [OF assms(9)] set_slot_def slot_def)
  show ?thesis
    by (rule that [OF 2, of ?out]) (use assms(5) in simp_all)
qed

text \<open>A start on a disk with such keys tells the kernel that the keys are not there, and the configuration nothing.\<close>

lemma start_with_useless_keys:
  assumes "word dev" "word d" "word p" "apart dev d p" "device_files C (received d p up info disk) dev" "useless L C up info"
  obtains s2 out2 where "y_handle_config_input (config_says (start_message dev d p) (key_manager_new L C us (received d p up info disk))) = Returns s2"
    "pending (y_kernel_tx s2) = [out2]" "km_cmd out2 = cmd_key_init_fail" "pending (y_config_tx s2) = []" "y_disk s2 = received d p up info disk"
proof -
  let ?D = "received d p up info disk" and ?m = "start_message dev d p"
  let ?s = "config_says ?m (key_manager_new L C us ?D)"
  let ?s1 = "?s\<lparr>y_user_key_path := d, y_user_json_key_path := p\<rparr>"
  obtain dp where 1: "create_device_key dev ?s1 = Returns (?s1\<lparr>y_device_cipher := Some dp\<rparr>)"
    using create_device_key_there [of ?s1 dev] assms(5) by (auto simp: config_says_def key_manager_new_def writable_def)
  let ?s2 = "?s1\<lparr>y_device_cipher := Some dp\<rparr>"
  obtain t where t: "y_process_config_input ?m ?s = Raises Poco_error t" "y_kernel_tx t = fifo_new kernel_key_manager_package0"
    "y_config_tx t = fifo_new key_manager_cfg_package0" "y_disk t = ?D"
  proof (cases "cr_load C (fst up) (snd up) = Inr ()")
    case True
    then have "create_user_key ''public.pem'' ''private.pem'' False ?s2 = Returns (?s2\<lparr>y_user_cipher := Some up\<rparr>)"
      by (simp add: create_user_key_def file_simps config_says_def key_manager_new_def received_files [OF assms(4)])
    moreover have "create_user_json_key (?s2\<lparr>y_user_cipher := Some up\<rparr>) = Raises Poco_error (?s2\<lparr>y_user_cipher := Some up\<rparr>)"
      using assms(6) True
      by (simp add: useless_def create_user_json_key_def parse_user_info_as_json_def decrypt_user_json_info_def file_simps config_says_def
          key_manager_new_def received_files [OF assms(4)])
    ultimately have "y_process_config_input ?m ?s = Raises Poco_error (?s2\<lparr>y_user_cipher := Some up\<rparr>)"
      unfolding start_config [OF assms(1-3)] run_all.simps 1 and_run.simps by simp
    then show ?thesis
      by (rule that) (simp_all add: config_says_def key_manager_new_def)
  next
    case False
    then have "cr_load C (fst up) (snd up) = Inl Poco_error"
      using assms(6) by (auto simp: useless_def)
    then have "create_user_key ''public.pem'' ''private.pem'' False ?s2 = Raises Poco_error ?s2"
      by (simp add: create_user_key_def file_simps config_says_def key_manager_new_def received_files [OF assms(4)])
    then have "y_process_config_input ?m ?s = Raises Poco_error ?s2"
      unfolding start_config [OF assms(1-3)] run_all.simps 1 and_run.simps by simp
    then show ?thesis
      by (rule that) (simp_all add: config_says_def key_manager_new_def)
  qed
  have "fifo_front (y_config_rx ?s) = Some ?m"
    by (simp add: config_says_def key_manager_new_def fifo_front_pending fifo_write_def)
  then have 2: "y_handle_config_input ?s = Returns (t\<lparr>y_kernel_tx := commit kernel_key_manager_package0
      (set_slot (\<lambda>out. out\<lparr>km_cmd := cmd_key_init_fail\<rparr>) (y_kernel_tx t)), y_config_rx := (y_config_rx t)\<lparr>m_internal := tl (m_internal (y_config_rx t))\<rparr>\<rparr>)"
    by (simp add: y_handle_config_input_def t(1) send_key_init_fail_to_kernel_def y_slot_def y_commit_def upd_def)
  show ?thesis
    by (rule that [OF 2, of "kernel_key_manager_package0\<lparr>km_cmd := cmd_key_init_fail\<rparr>"]) (simp_all add: t)
qed

text \<open>
  C37: Received keys replace the old ones before they are tried. When the received pair cannot be loaded, or the received
  key document cannot be decrypted with it, the kernel is told that the request failed, but the old key files are gone:
  the disk holds what was received. A pair that was loaded is in use from then on, one that was not leaves the old pair in
  use, whose files are gone. The next start on that disk fails: the kernel is told that there are no keys, and the
  configuration never hears that the keys are ready.
\<close>

theorem bad_keys_replace_the_old:
  assumes "word dev" "word d" "word p" "apart dev d p" "writable s" "device_files (y_crypto s) (y_disk s) dev"
    "y_user_key_path s = d" "y_user_json_key_path s = p" "fifo_ok (y_kernel_tx s)" "fst up \<noteq> []" "snd up \<noteq> []" "info \<noteq> []"
    "length (y_error_text s) < 2 ^ 32" "useless (y_lib s) (y_crypto s) up info"
  shows "\<exists>s' out s2 out2. y_process_link_input (keys_message i up info) s = Returns s'
     \<and> pending (y_kernel_tx s') = pending (y_kernel_tx s) @ [out] \<and> km_cmd out = cmd_request_keys_fail \<and> km_request_id out = i
     \<and> map (y_disk s') [d @ ''/public.pem'', d @ ''/private.pem'', p] = [Some (fst up), Some (snd up), Some info]
     \<and> y_user_cipher s' = (if cr_load (y_crypto s) (fst up) (snd up) = Inr () then Some up else y_user_cipher s)
     \<and> y_handle_config_input (config_says (start_message dev d p) (key_manager_new (y_lib s) (y_crypto s) us (y_disk s'))) = Returns s2
     \<and> pending (y_kernel_tx s2) = [out2] \<and> km_cmd out2 = cmd_key_init_fail \<and> pending (y_config_tx s2) = [] \<and> y_disk s2 = y_disk s'"
proof -
  obtain s' out where s': "y_process_link_input (keys_message i up info) s = Returns s'" "pending (y_kernel_tx s') = pending (y_kernel_tx s) @ [out]"
    "km_cmd out = cmd_request_keys_fail" "km_request_id out = i" "y_disk s' = received d p up info (y_disk s)"
    "y_user_cipher s' = (if cr_load (y_crypto s) (fst up) (snd up) = Inr () then Some up else y_user_cipher s)"
    by (rule useless_keys_received [OF assms(4,5,7-14)])
  have "device_files (y_crypto s) (received d p up info (y_disk s)) dev"
    using assms(6) by (simp add: received_files [OF assms(4)])
  then obtain s2 out2 where "y_handle_config_input (config_says (start_message dev d p) (key_manager_new (y_lib s) (y_crypto s) us (y_disk s'))) = Returns s2"
    "pending (y_kernel_tx s2) = [out2]" "km_cmd out2 = cmd_key_init_fail" "pending (y_config_tx s2) = []" "y_disk s2 = y_disk s'"
    unfolding s'(5) by (rule start_with_useless_keys [OF assms(1-4) _ assms(14)])
  with s' show ?thesis
    by (intro exI [of _ s'] exI [of _ out] exI [of _ s2] exI [of _ out2]) (simp add: received_files [OF assms(4)])
qed

text \<open>A library that refuses one private key, and a pair that does not fit the document.\<close>

definition ex_strict :: key_manager where
  "ex_strict = ex_device\<lparr>y_crypto := ex_crypto\<lparr>cr_load := \<lambda>_ b. if b = [9] then Inl Poco_error else Inr ()\<rparr>\<rparr>"

lemma ex_one: "ex_parse (chars [1]) = None" "cr_open ex_crypto k [1] = []"
  by (simp_all add: ex_parse_def chars_def char_of_def)

lemma ex_strict_ready: "writable ex_strict" "device_files (y_crypto ex_strict) (y_disk ex_strict) ''v''" "y_user_key_path ex_strict = ''u''"
  "y_user_json_key_path ex_strict = ''i''" "fifo_ok (y_kernel_tx ex_strict)" "length (y_error_text ex_strict) < 2 ^ 32"
  "useless (y_lib ex_strict) (y_crypto ex_strict) ([8], [9]) [1]" "useless (y_lib ex_strict) (y_crypto ex_strict) ([8], [7]) [1]"
  "y_user_cipher ex_strict = Some ([3], [4])" "pending (y_kernel_tx ex_strict) = []" "cr_load (y_crypto ex_strict) [8] [9] = Inl Poco_error"
  "cr_load (y_crypto ex_strict) [8] [7] = Inr ()"
  by (simp_all add: ex_strict_def ex_device_def key_manager_new_def writable_def device_files_def useless_def ex_one)

theorem bad_keys_replace_the_old_witness:
  "(\<exists>s' out. y_process_link_input (keys_message 7 ([8], [9]) [1]) ex_strict = Returns s' \<and> pending (y_kernel_tx s') = [out]
      \<and> km_cmd out = cmd_request_keys_fail \<and> y_disk s' ''u/private.pem'' = Some [9] \<and> y_user_cipher s' = Some ([3], [4]))
   \<and> (\<exists>s' out. y_process_link_input (keys_message 7 ([8], [7]) [1]) ex_strict = Returns s' \<and> pending (y_kernel_tx s') = [out]
      \<and> km_cmd out = cmd_request_keys_fail \<and> y_disk s' ''u/private.pem'' = Some [7] \<and> y_user_cipher s' = Some ([8], [7]))"
  using bad_keys_replace_the_old [OF ex_words ex_strict_ready(1-5) _ _ _ ex_strict_ready(6,7), of 7]
    bad_keys_replace_the_old [OF ex_words ex_strict_ready(1-5) _ _ _ ex_strict_ready(6,8), of 7]
  by (simp add: ex_strict_ready) blast

end
