(* ===== verification/Link_Props.thy ===== *)
theory Link_Props
  imports Link_Inv Link_Peer_Props Key_Files_Props
begin

text \<open>
  What the link promises: one connection per group, messages that reach the routers of the peers, and a watch that
  closes the connections of silent peers and of no others.
\<close>

section \<open>Groups\<close>

text \<open>
  C10: Of all connections to one group of peers at most one is announced, in every state a link comes to, whatever order
  connections, device ids, verifications, closings and ends come in; and the entry of a group is always one of its peers,
  so the assertion of the balancer never fails.
\<close>

theorem one_connection_per_group:
  assumes "l_peers s0 = []" "l_balance s0 = Map.empty" "link_step\<^sup>*\<^sup>* s0 s"
    "peer_of i s = Some p" "peer_of j s = Some q" "pe_gid p = pe_gid q" "pe_gid p \<noteq> - 1" "pe_device_id p \<noteq> []" "pe_device_id q \<noteq> []"
  shows "i = j \<and> l_balance s (pe_gid p) = Some i"
proof -
  have "group_ok s"
    using reachable_groups [OF assms(3,1,2)] .
  then show ?thesis
    using group_okD(4) [of s i p] group_okD(4) [of s j q] assms(4-9) by simp
qed

lemma start_sync_serializes: "\<exists>pkg. rd_serialize (router_data0\<lparr>rd_cmd := c, rd_last_updated := t\<rparr>) default_package = Some pkg"
  by (simp add: rd_serialize_def write_out_def payload_tail_def rd_header_size_def length_rd_header_bytes router_data0_def package.defs
      default_package_def mem_read_def payload_of_def length_rd_header_bytes Let_def be32_def)

definition ex_unmet :: link where
  "ex_unmet = (link_new ex_key_lib)\<lparr>l_request_counter := 5, l_config_rx := fifo_write link_cfg_package0 (link_cfg_package0\<lparr>lc_cmd := cmd_peer_verified,
     lc_peer_id := 5, lc_device_id := default_package\<lparr>p_size := 1, p_message := Some [9]\<rparr>\<rparr>) (fifo_new link_cfg_package0)\<rparr>"

definition ex_groups :: link where
  "ex_groups = ex_unmet\<lparr>l_request_counter := 6, l_peers := [(5, new_peer ''10.0.0.3:7070'' 3 True 0)]\<rparr>"

lemma ex_groups_run: "\<exists>s p. accept_connection_with_balancing 5 (default_package\<lparr>p_size := 1, p_message := Some [9]\<rparr>) ex_groups = Returns s
    \<and> peer_of 5 s = Some p \<and> pe_gid p = 3 \<and> pe_device_id p = [9]"
proof -
  obtain pkg where pkg: "rd_serialize (router_data0\<lparr>rd_cmd := cmd_start_storage_sync, rd_last_updated := 0\<rparr>) default_package = Some pkg"
    using start_sync_serializes by blast
  show ?thesis
    by (simp add: accept_connection_with_balancing_def with_peer_def action_defs ex_unmet_def ex_groups_def link_new_def new_peer_def peer_of_def announce_def
      mem_read_def upd_peer_def configure_peer_by_device_id_def obj_has_def get_object_def post_kernel_start_storage_sync_def get_peer_last_seen_def
      pkg l_send_notification_to_router_def l_router_def text_fits_def peer_json_def ex_key_lib_def ex_print_def ex_escape_def hex_id_def hex_pair_def)
qed

theorem one_connection_per_group_witness:
  "\<exists>s p. link_step\<^sup>*\<^sup>* ex_unmet s \<and> peer_of 5 s = Some p \<and> pe_device_id p = [9] \<and> l_balance s 3 = Some 5"
proof -
  have "create_new_peer_info ''10.0.0.3:7070'' 3 True ex_unmet = Returns ex_groups"
    by (simp add: create_new_peer_info_def get_peer_id_def look_def upd_def ex_groups_def ex_unmet_def link_new_def
      LINK_REQUEST_UPPER_BOUND_def)
  then have 1: "link_step ex_unmet ex_groups"
    by (intro link_step.joins [of ex_unmet]) (simp_all add: peer_of_def ex_unmet_def link_new_def)
  obtain s p where s: "accept_connection_with_balancing 5 (default_package\<lparr>p_size := 1, p_message := Some [9]\<rparr>) ex_groups = Returns s"
    "peer_of 5 s = Some p" "pe_gid p = 3" "pe_device_id p = [9]"
    using ex_groups_run by blast
  let ?s = "s\<lparr>l_config_rx := consume (l_config_rx s)\<rparr>"
  have p: "peer_of 5 ?s = Some p"
    using s(2) by (simp add: peer_of_def)
  have front: "fifo_front (l_config_rx ex_groups) = Some (link_cfg_package0\<lparr>lc_cmd := cmd_peer_verified,
     lc_peer_id := 5, lc_device_id := default_package\<lparr>p_size := 1, p_message := Some [9]\<rparr>\<rparr>)"
    by (simp add: ex_groups_def ex_unmet_def fifo_front_pending fifo_write_def)
  have there: "peer_of 5 ex_groups = Some (new_peer ''10.0.0.3:7070'' 3 True 0)"
    by (simp add: ex_groups_def peer_of_def)
  have "handle_config_input_of_link ex_groups = Returns ?s"
    unfolding handle_config_input_of_link_def front
    by (simp add: process_config_input_of_link_def handle_config_peer_verified_def guarded_def look_def there on_some_def upd_def s(1))
  then have 2: "link_step\<^sup>*\<^sup>* ex_unmet ?s"
    by (rule rtranclp.rtrancl_into_rtrancl [OF r_into_rtranclp [of link_step, OF 1] link_step.config_speaks])
  have "l_balance ?s (pe_gid p) = Some 5"
    using one_connection_per_group [OF _ _ 2 p p] s(3,4) by (simp add: ex_unmet_def link_new_def)
  with 2 p s(3,4) show ?thesis
    by auto
qed

section \<open>Messages for the peers\<close>

lemma post_peer_peer: "post_peer i f s = Returns s' \<Longrightarrow> peer_of k s' = (if k = i
    then map_option (\<lambda>p. p\<lparr>pe_out := commit link_peer_package0 (set_slot f (pe_out p))\<rparr>) (peer_of k s) else peer_of k s)"
  by (auto simp: post_peer_def upd_peer_def peer_of_def map_of_upd)

definition with_message :: "router_link_package \<Rightarrow> peer \<Rightarrow> peer" where
  "with_message inp p = p\<lparr>pe_out := commit link_peer_package0 (set_slot (\<lambda>out. set_payload inp (out\<lparr>lpp_cmd := cmd_data\<rparr>)) (pe_out p))\<rparr>"

text \<open>A loop over the peers in which each turn changes its own peer only.\<close>

definition on_peer :: "ID32 \<Rightarrow> (peer \<Rightarrow> peer) \<Rightarrow> link \<Rightarrow> link" where
  "on_peer i f s = s\<lparr>l_peers := map (\<lambda>(j, q). if j = i then (j, f q) else (j, q)) (l_peers s)\<rparr>"

lemma peer_of_on_peer [simp]: "peer_of k (on_peer i f s) = (if k = i then map_option f (peer_of k s) else peer_of k s)"
  by (simp add: on_peer_def peer_of_def map_of_upd)

lemma on_peer_router [simp]: "l_router_tx (on_peer i f s) = l_router_tx s" "l_now (on_peer i f s) = l_now s"
  by (simp_all add: on_peer_def)

lemma on_peer_keys [simp]: "map fst (l_peers (on_peer i f s)) = map fst (l_peers s)"
  by (auto simp: on_peer_def)

lemma peer_of_updates [simp]: "peer_of k (s\<lparr>l_now := t\<rparr>) = peer_of k s" "peer_of k (s\<lparr>l_keep_alive_timeout := b\<rparr>) = peer_of k s"
  by (simp_all add: peer_of_def)

lemma upd_peer_on: "upd_peer i f s = Returns (on_peer i f s)"
  by (simp add: upd_peer_def on_peer_def)

lemma on_peer_twice: "on_peer i f (on_peer i g s) = on_peer i (\<lambda>q. f (g q)) s"
proof -
  have "map (\<lambda>(j, q). if j = i then (j, f q) else (j, q)) (map (\<lambda>(j, q). if j = i then (j, g q) else (j, q)) ps)
      = map (\<lambda>(j, q). if j = i then (j, f (g q)) else (j, q)) ps" for ps
    by (induction ps) auto
  then show ?thesis
    by (simp add: on_peer_def del: map_map)
qed

lemma on_peer_id: "on_peer i id s = s"
proof -
  have m: "map (\<lambda>(j, q). if j = i then (j, id q) else (j, q)) ps = ps" for ps
    by (induction ps) auto
  show ?thesis
    unfolding on_peer_def m by simp
qed

definition turned :: "(ID32 \<times> 'a) list \<Rightarrow> (ID32 \<Rightarrow> 'a \<Rightarrow> peer \<Rightarrow> peer) \<Rightarrow> link \<Rightarrow> link \<Rightarrow> bool" where
  "turned ps g s s' \<longleftrightarrow> l_router_tx s' = l_router_tx s \<and> map fst (l_peers s') = map fst (l_peers s)
     \<and> (\<forall>i. peer_of i s' = (case map_of ps i of Some p \<Rightarrow> map_option (g i p) (peer_of i s) | None \<Rightarrow> peer_of i s))"

lemma peers_loop:
  assumes "\<forall>i p s. (i, p) \<in> set ps \<longrightarrow> h (i, p) s = Returns (on_peer i (g i p) s)" "distinct (map fst ps)"
  shows "\<exists>s'. each ps h s = Returns s' \<and> turned ps g s s'"
  using assms
proof (induction ps arbitrary: s)
  case Nil
  then show ?case
    by (simp add: turned_def)
next
  case (Cons e ps)
  obtain i p where e: "e = (i, p)"
    by (cases e)
  have new: "map_of ps i = None" and "distinct (map fst ps)"
    using Cons.prems(2) e by (simp_all add: map_of_eq_None_iff)
  have "h e s = Returns (on_peer i (g i p) s)"
    using Cons.prems(1) e by simp
  moreover obtain s' where "each ps h (on_peer i (g i p) s) = Returns s'" "turned ps g (on_peer i (g i p) s) s'"
    using Cons.IH [of "on_peer i (g i p) s"] Cons.prems(1) \<open>distinct (map fst ps)\<close> by auto
  ultimately show ?case
    using new by (intro exI [of _ s']) (auto simp: e turned_def split: option.split)
qed

lemma broadcast_state:
  assumes "distinct (map fst (l_peers s))"
  obtains s' where "broadcast inp s = Returns s'" "\<And>i. peer_of i s' = map_option (\<lambda>p. if reached inp p then with_message inp p else p) (peer_of i s)"
    "l_router_tx s' = (if \<exists>i p. peer_of i s = Some p \<and> reached inp p then l_router_tx s
       else commit router_link_package0 (set_slot (\<lambda>_. inp\<lparr>rl_cmd := cmd_nack\<rparr>) (l_router_tx s)))"
proof -
  have h: "only_if (reached inp p) (pass_on inp i) t = Returns (on_peer i (if reached inp p then with_message inp else id) t)" for i p t
    unfolding with_message_def [abs_def] by (simp add: only_if_def skip_def pass_on_def post_peer_def upd_peer_on on_peer_id)
  obtain t where t: "each (l_peers s) (\<lambda>(i, p). only_if (reached inp p) (pass_on inp i)) s = Returns t"
    "turned (l_peers s) (\<lambda>_ p. if reached inp p then with_message inp else id) s t"
    using peers_loop [OF _ assms, of "\<lambda>(i, p). only_if (reached inp p) (pass_on inp i)" "\<lambda>_ p. if reached inp p then with_message inp else id" s]
    by (auto simp: h)
  have some: "(\<exists>i p. peer_of i s = Some p \<and> reached inp p) \<longleftrightarrow> \<not> (\<forall>(i, p) \<in> set (l_peers s). \<not> reached inp p)"
    using map_of_eq_Some_iff [OF assms] by (auto simp: peer_of_def)
  define s' where "s' = (if \<forall>(i, p) \<in> set (l_peers s). \<not> reached inp p
     then t\<lparr>l_router_tx := commit router_link_package0 (set_slot (\<lambda>_. inp\<lparr>rl_cmd := cmd_nack\<rparr>) (l_router_tx t))\<rparr> else t)"
  have "broadcast inp s = Returns s'"
    using t(1) by (simp add: broadcast_def look_def only_if_def post_nack_to_router_def l_router_def upd_def skip_def s'_def)
  moreover have "peer_of i s' = map_option (\<lambda>p. if reached inp p then with_message inp p else p) (peer_of i s)" for i
    using t(2) by (simp add: turned_def s'_def peer_of_def split: option.split)
  moreover have "l_router_tx s' = (if \<exists>i p. peer_of i s = Some p \<and> reached inp p then l_router_tx s
       else commit router_link_package0 (set_slot (\<lambda>_. inp\<lparr>rl_cmd := cmd_nack\<rparr>) (l_router_tx s)))"
    unfolding some using t(2) by (simp add: turned_def s'_def)
  ultimately show ?thesis
    using that by blast
qed

lemma data_reaches_router:
  assumes "peer_of j t = Some q" "fifo_front (pe_in q) = Some out" "delivers inp out" "framable inp" "p_flags inp \<noteq> LINK_MSG"
    "pe_device_id q \<noteq> []" "fifo_ok (l_router_tx t)"
  obtains t' rp where "handle_peer_input j t = Returns t'" "pending (l_router_tx t') = pending (l_router_tx t) @ [rp]"
    "rl_cmd rp = cmd_received_data" "j \<in> set (rl_peers rp)" "payload_of rp = payload_of inp" "p_flags rp = p_flags inp"
proof -
  obtain bs where bs: "payload_of inp = Some bs"
    using assms(4) by (auto simp: framable_def small_package_def)
  have out: "lpp_cmd out = cmd_data" "p_flags out = p_flags inp" "p_size out \<noteq> 0" "p_size out = p_size inp" "p_message out = Some bs" "payload_of out = Some bs"
    using assms(3,4) bs by (auto simp: delivers_def framable_def)
  let ?rp = "(set_payload out (slot (l_router_tx t)))\<lparr>rl_cmd := cmd_received_data, rl_peers := insort_insert j (rl_peers (slot (l_router_tx t)))\<rparr>"
  let ?t = "on_peer j (\<lambda>p. p\<lparr>pe_last_received_time := l_now t, pe_ping_sent := False\<rparr>) t"
  have "process_peer_input j out t = Returns (?t\<lparr>l_router_tx := commit router_link_package0 (set_slot (\<lambda>_. ?rp) (l_router_tx t))\<rparr>)"
    using assms(1,5,6) out
    by (simp add: process_peer_input_def handle_link_peer_data_def handle_router_message_of_link_peer_def post_received_data_to_router_def
        with_peer_def must_def look_def upd_peer_on check_def l_router_def upd_def has_message_def set_slot_def)
  then have "handle_peer_input j t = Returns (on_peer j (\<lambda>p. p\<lparr>pe_in := consume (pe_in p)\<rparr>)
      (?t\<lparr>l_router_tx := commit router_link_package0 (set_slot (\<lambda>_. ?rp) (l_router_tx t))\<rparr>))"
    using assms(1,2) by (simp add: handle_peer_input_def with_peer_def look_def must_def guarded_def upd_peer_on)
  moreover have "payload_of ?rp = payload_of out"
    by (simp add: payload_of_def)
  ultimately show ?thesis
    using that [of _ ?rp] assms(7) out bs by (simp add: set_insort_insert)
qed

lemma sends_frame:
  assumes "fifo_front (q_link_rx a) = Some m" "framable m" "lpp_cmd m = cmd_data" "\<not> q_socket_broken a" "q_sent a = []"
  obtains a' where "handle_link_input_of_peer a = Returns a'" "q_sent a' = frame m"
  using assms
  by (simp add: handle_link_input_of_peer_def handle_link_data_of_peer_def catching_all_def action_defs send_by_socket_frame q_send_def
      has_data_pending fifo_front_pending split: list.split_asm)

text \<open>
  C7: A broadcast arrives. A message the router broadcasts is left for every announced peer the broadcast may reach; the task
  of that connection writes it on the socket; and however the network cuts the bytes, the link at the other end hands
  its router a message with the same payload and flags, under the id by which it knows the sender.
\<close>

theorem broadcast_arrives:
  assumes "distinct (map fst (l_peers s))" "peer_of i s = Some p" "reached inp p" "framable inp" "p_flags inp \<noteq> LINK_MSG"
    "fifo_ok (pe_out p)" "pending (pe_out p) = []" "\<not> q_socket_broken a" "q_sent a = []"
    "fifo_ok (q_link_tx b)" "pending (q_link_tx b) = []" "fifo_ok (q_error b)"
    "peer_of j t = Some q" "pe_device_id q \<noteq> []" "fifo_ok (l_router_tx t)"
  shows "\<exists>s' p' a'. broadcast inp s = Returns s' \<and> peer_of i s' = Some p' \<and> handle_link_input_of_peer (a\<lparr>q_link_rx := pe_out p'\<rparr>) = Returns a'
    \<and> (\<forall>segs. concat segs = q_sent a' \<and> [] \<notin> set segs \<longrightarrow> (\<exists>b' t' rp. handle_socket_input (b\<lparr>q_socket_in := segs\<rparr>) = Returns b'
      \<and> handle_peer_input j (on_peer j (\<lambda>q. q\<lparr>pe_in := q_link_tx b'\<rparr>) t) = Returns t'
      \<and> pending (l_router_tx t') = pending (l_router_tx t) @ [rp] \<and> rl_cmd rp = cmd_received_data \<and> j \<in> set (rl_peers rp)
      \<and> payload_of rp = payload_of inp \<and> p_flags rp = p_flags inp))"
proof -
  define m where "m = set_payload inp ((slot (pe_out p))\<lparr>lpp_cmd := cmd_data\<rparr>)"
  have m: "framable m" "lpp_cmd m = cmd_data" "payload_of m = payload_of inp" "p_flags m = p_flags inp" "p_size m = p_size inp"
    using assms(4) by (simp_all add: m_def framable_def small_package_def) (simp_all add: set_payload_def)
  obtain s' where s': "broadcast inp s = Returns s'" "peer_of i s' = Some (with_message inp p)"
    by (rule broadcast_state [OF assms(1), of inp]) (use assms(2,3) in simp)
  have front: "fifo_front (q_link_rx (a\<lparr>q_link_rx := pe_out (with_message inp p)\<rparr>)) = Some m"
    using assms(6,7) by (simp add: fifo_front_pending with_message_def m_def)
  obtain a' where a': "handle_link_input_of_peer (a\<lparr>q_link_rx := pe_out (with_message inp p)\<rparr>) = Returns a'" "q_sent a' = frame m"
    by (rule sends_frame [OF front m(1,2)]) (use assms(8,9) in auto)
  have "\<exists>b' t' rp. handle_socket_input (b\<lparr>q_socket_in := segs\<rparr>) = Returns b'
      \<and> handle_peer_input j (on_peer j (\<lambda>q. q\<lparr>pe_in := q_link_tx b'\<rparr>) t) = Returns t'
      \<and> pending (l_router_tx t') = pending (l_router_tx t) @ [rp] \<and> rl_cmd rp = cmd_received_data \<and> j \<in> set (rl_peers rp)
      \<and> payload_of rp = payload_of inp \<and> p_flags rp = p_flags inp" if segs: "concat segs = q_sent a'" "[] \<notin> set segs" for segs
  proof -
    obtain b' out where b': "handle_socket_input (b\<lparr>q_socket_in := segs\<rparr>) = Returns b'" "pending (q_link_tx b') = [out]" "delivers m out"
      using read_stream [of "[m]" "b\<lparr>q_socket_in := segs\<rparr>"] m(1) segs a'(2) assms(10-12) by (auto simp: list_all2_Cons1)
    have out: "delivers inp out"
      using b'(3) m(3-5) by (simp add: delivers_def)
    have "peer_of j (on_peer j (\<lambda>q. q\<lparr>pe_in := q_link_tx b'\<rparr>) t) = Some (q\<lparr>pe_in := q_link_tx b'\<rparr>)"
      using assms(13) by simp
    then obtain t' rp where "handle_peer_input j (on_peer j (\<lambda>q. q\<lparr>pe_in := q_link_tx b'\<rparr>) t) = Returns t'"
      "pending (l_router_tx t') = pending (l_router_tx t) @ [rp]" "rl_cmd rp = cmd_received_data" "j \<in> set (rl_peers rp)"
      "payload_of rp = payload_of inp" "p_flags rp = p_flags inp"
      by (rule data_reaches_router [OF _ _ out assms(4,5)]) (use assms(14,15) b'(2) in \<open>auto simp: fifo_front_pending\<close>)
    then show ?thesis
      using b'(1) by blast
  qed
  with s' a'(1) show ?thesis
    by blast
qed

definition ex_peer :: peer where
  "ex_peer = (new_peer ''10.0.0.2:7070'' (- 1) True 0)\<lparr>pe_device_id := [1], pe_rating := 5\<rparr>"

definition ex_link :: link where
  "ex_link = (link_new ex_key_lib)\<lparr>l_peers := [(7, ex_peer)]\<rparr>"

definition ex_broadcast :: router_link_package where
  "ex_broadcast = router_link_package0\<lparr>rl_cmd := cmd_broadcast, rl_cmd_rating := 2, p_size := 2, p_message := Some [65, 66]\<rparr>"

theorem broadcast_arrives_witness:
  "\<exists>s' p' a'. broadcast ex_broadcast ex_link = Returns s' \<and> peer_of 7 s' = Some p'
    \<and> handle_link_input_of_peer ((link_peer_new [])\<lparr>q_link_rx := pe_out p'\<rparr>) = Returns a'
    \<and> (\<forall>segs. concat segs = q_sent a' \<and> [] \<notin> set segs \<longrightarrow> (\<exists>b' t' rp. handle_socket_input ((link_peer_new [])\<lparr>q_socket_in := segs\<rparr>) = Returns b'
      \<and> handle_peer_input 7 (on_peer 7 (\<lambda>q. q\<lparr>pe_in := q_link_tx b'\<rparr>) ex_link) = Returns t'
      \<and> pending (l_router_tx t') = pending (l_router_tx ex_link) @ [rp] \<and> rl_cmd rp = cmd_received_data \<and> 7 \<in> set (rl_peers rp)
      \<and> payload_of rp = payload_of ex_broadcast \<and> p_flags rp = p_flags ex_broadcast))"
  by (rule broadcast_arrives [where p = ex_peer and q = ex_peer])
    (simp_all add: ex_link_def ex_peer_def ex_broadcast_def link_new_def link_peer_new_def new_peer_def peer_of_def reached_def is_rating_enough_def
      router_link_package0_def package.defs default_package_def framable_def small_package_def payload_of_def mem_read_def LINK_MSG_def)

section \<open>Silent peers\<close>

definition shut :: "peer \<Rightarrow> peer" where
  "shut p = p\<lparr>pe_device_id := [], pe_out := commit link_peer_package0 (set_slot (\<lambda>out. put_text ''Shutdown peer'' (out\<lparr>lpp_cmd := cmd_shutdown\<rparr>)) (pe_out p))\<rparr>"

definition pinged :: "peer \<Rightarrow> peer" where
  "pinged p = p\<lparr>pe_ping_sent := True, pe_ping := commit link_peer_package0 (set_slot (set_payload (default_package\<lparr>p_flags := PING\<rparr>)) (pe_ping p))\<rparr>"

text \<open>What a turn of the watch makes of a peer.\<close>

definition watched :: "nat \<Rightarrow> peer \<Rightarrow> peer \<Rightarrow> peer" where
  "watched t p = (if pe_ping_sent p then (if is_elapsed p t then shut else (\<lambda>q. q\<lparr>pe_ping_sent := False\<rparr>))
     else if is_elapsed p t then (if pe_device_id p = [] then shut else pinged) else id)"

lemma keep_alive_watched: "keep_alive t (i, p) s = Returns (on_peer i (watched t p) s)"
  by (simp add: keep_alive_def watched_def send_shutdown_message_to_peer_def post_peer_def ping_peer_def upd_peer_on on_peer_twice on_peer_id
      skip_def shut_def [abs_def] pinged_def [abs_def])

lemma keep_alive_turn:
  assumes "distinct (map fst (l_peers s))" "l_keep_alive_timeout s"
  obtains s' where "handle_keep_alive_messages s = Returns s'" "\<And>k. peer_of k s' = map_option (\<lambda>p. watched (l_now s) p p) (peer_of k s)"
    "map fst (l_peers s') = map fst (l_peers s)"
proof -
  obtain u where u: "each (l_peers s) (keep_alive (l_now s)) s = Returns u" "turned (l_peers s) (\<lambda>_. watched (l_now s)) s u"
    using peers_loop [OF _ assms(1), of "keep_alive (l_now s)" "\<lambda>_. watched (l_now s)" s] by (auto simp: keep_alive_watched)
  have "handle_keep_alive_messages s = Returns (u\<lparr>l_keep_alive_timeout := False\<rparr>)"
    using assms(2) u(1) by (simp add: handle_keep_alive_messages_def look_def only_if_def upd_def)
  then show ?thesis
    by (rule that) (use u(2) in \<open>auto simp: turned_def peer_of_def split: option.split\<close>)
qed

text \<open>
  C39: Silent peers are closed and living ones are not. The first turn of the watch that finds a peer silent for too long
  pings it; when nothing has come by the next turn the connection is told to shut down and the peer no longer counts as
  announced, but when an answer came in between, the next turn within the waiting time leaves the peer as it is.
\<close>

theorem silent_peers_are_closed:
  assumes "distinct (map fst (l_peers s))" "l_keep_alive_timeout s" "peer_of i s = Some p" "pe_device_id p \<noteq> []" "\<not> pe_ping_sent p"
    "is_elapsed p (l_now s)" "fifo_ok (pe_ping p)" "fifo_ok (pe_out p)"
  shows "\<exists>s1 p1. handle_keep_alive_messages s = Returns s1 \<and> peer_of i s1 = Some p1 \<and> pe_device_id p1 = pe_device_id p
    \<and> map p_flags (pending (pe_ping p1)) = map p_flags (pending (pe_ping p)) @ [PING]
    \<and> (\<forall>t \<ge> l_now s. \<exists>s2 p2 m. handle_keep_alive_messages (s1\<lparr>l_now := t, l_keep_alive_timeout := True\<rparr>) = Returns s2
        \<and> peer_of i s2 = Some p2 \<and> pe_device_id p2 = [] \<and> pending (pe_out p2) = pending (pe_out p) @ [m] \<and> lpp_cmd m = cmd_shutdown)
    \<and> (\<forall>t t' inp. lpp_cmd inp = cmd_data \<and> p_size inp = 0 \<and> p_flags inp = PONG \<and> t' < t + PONG_WAIT_TIME \<longrightarrow>
        (\<exists>s2 s3 p2. process_peer_input i inp (s1\<lparr>l_now := t\<rparr>) = Returns s2
        \<and> handle_keep_alive_messages (s2\<lparr>l_now := t', l_keep_alive_timeout := True\<rparr>) = Returns s3
        \<and> peer_of i s3 = Some p2 \<and> pe_device_id p2 = pe_device_id p \<and> pending (pe_out p2) = pending (pe_out p)))"
proof -
  obtain s1 where s1: "handle_keep_alive_messages s = Returns s1" "peer_of i s1 = Some (pinged p)" "map fst (l_peers s1) = map fst (l_peers s)"
    by (rule keep_alive_turn [OF assms(1,2)]) (use assms(3-6) in \<open>simp add: watched_def\<close>)
  have p1: "pe_device_id (pinged p) = pe_device_id p" "map p_flags (pending (pe_ping (pinged p))) = map p_flags (pending (pe_ping p)) @ [PING]"
    "pe_ping_sent (pinged p)" "is_elapsed (pinged p) = is_elapsed p" "pe_out (pinged p) = pe_out p"
    using assms(7) by (simp_all add: pinged_def is_elapsed_def fun_eq_iff)
  have silent: "\<exists>s2 p2 m. handle_keep_alive_messages (s1\<lparr>l_now := t, l_keep_alive_timeout := True\<rparr>) = Returns s2
        \<and> peer_of i s2 = Some p2 \<and> pe_device_id p2 = [] \<and> pending (pe_out p2) = pending (pe_out p) @ [m] \<and> lpp_cmd m = cmd_shutdown"
    if t: "t \<ge> l_now s" for t
  proof -
    have el: "is_elapsed p t"
      using assms(6) t by (simp add: is_elapsed_def)
    obtain s2 where "handle_keep_alive_messages (s1\<lparr>l_now := t, l_keep_alive_timeout := True\<rparr>) = Returns s2" "peer_of i s2 = Some (shut (pinged p))"
      by (rule keep_alive_turn [of "s1\<lparr>l_now := t, l_keep_alive_timeout := True\<rparr>"])
        (use assms(1) s1 p1(3,4) el in \<open>simp_all add: watched_def\<close>)
    then show ?thesis
      using assms(8) p1(5) by (simp add: shut_def put_text_def)
  qed
  have answers: "\<exists>s2 s3 p2. process_peer_input i inp (s1\<lparr>l_now := t\<rparr>) = Returns s2
        \<and> handle_keep_alive_messages (s2\<lparr>l_now := t', l_keep_alive_timeout := True\<rparr>) = Returns s3
        \<and> peer_of i s3 = Some p2 \<and> pe_device_id p2 = pe_device_id p \<and> pending (pe_out p2) = pending (pe_out p)"
    if inp: "lpp_cmd inp = cmd_data" "p_size inp = 0" "p_flags inp = PONG" and t: "t' < t + PONG_WAIT_TIME" for t t' inp
  proof -
    define s2 where "s2 = on_peer i (\<lambda>p. p\<lparr>pe_last_received_time := t, pe_ping_sent := False\<rparr>) (s1\<lparr>l_now := t\<rparr>)"
    have run: "process_peer_input i inp (s1\<lparr>l_now := t\<rparr>) = Returns s2"
      using inp by (simp add: process_peer_input_def handle_link_peer_data_def handle_empty_data_def look_def upd_peer_on skip_def s2_def
          PONG_def PING_def)
    have s2: "peer_of i s2 = Some ((pinged p)\<lparr>pe_last_received_time := t, pe_ping_sent := False\<rparr>)" "map fst (l_peers s2) = map fst (l_peers s)"
      using s1(2,3) by (simp_all add: s2_def)
    obtain s3 where "handle_keep_alive_messages (s2\<lparr>l_now := t', l_keep_alive_timeout := True\<rparr>) = Returns s3"
      "peer_of i s3 = Some ((pinged p)\<lparr>pe_last_received_time := t, pe_ping_sent := False\<rparr>)"
      by (rule keep_alive_turn [of "s2\<lparr>l_now := t', l_keep_alive_timeout := True\<rparr>"])
        (use assms(1) s2 t in \<open>simp_all add: watched_def is_elapsed_def\<close>)
    with run show ?thesis
      using p1(1,5) by simp
  qed
  show ?thesis
    using s1(1,2) p1(1,2) silent answers by blast
qed

theorem silent_peers_are_closed_witness:
  "\<exists>s1 p1. handle_keep_alive_messages (ex_link\<lparr>l_now := PONG_WAIT_TIME, l_keep_alive_timeout := True\<rparr>) = Returns s1 \<and> peer_of 7 s1 = Some p1
    \<and> pe_device_id p1 = [1] \<and> map p_flags (pending (pe_ping p1)) = [PING]
    \<and> (\<exists>s2 p2. handle_keep_alive_messages (s1\<lparr>l_now := 2 * PONG_WAIT_TIME, l_keep_alive_timeout := True\<rparr>) = Returns s2
        \<and> peer_of 7 s2 = Some p2 \<and> pe_device_id p2 = [])"
proof -
  let ?l = "ex_link\<lparr>l_now := PONG_WAIT_TIME, l_keep_alive_timeout := True\<rparr>"
  have l: "distinct (map fst (l_peers ?l))" "l_keep_alive_timeout ?l" "peer_of 7 ?l = Some ex_peer"
    by (simp_all add: ex_link_def peer_of_def)
  have p: "pe_device_id ex_peer \<noteq> []" "\<not> pe_ping_sent ex_peer" "is_elapsed ex_peer (l_now ?l)" "fifo_ok (pe_ping ex_peer)" "fifo_ok (pe_out ex_peer)"
    by (simp_all add: ex_peer_def new_peer_def is_elapsed_def)
  have e: "pe_device_id ex_peer = [1]" "map p_flags (pending (pe_ping ex_peer)) = []"
    by (simp_all add: ex_peer_def new_peer_def)
  from silent_peers_are_closed [OF l p, unfolded e(1,2) append_Nil] show ?thesis
    apply (elim exE conjE)
    apply (drule spec [of _ "2 * PONG_WAIT_TIME"])
    apply (drule mp)
     apply simp
    apply (elim exE conjE)
    apply (intro exI conjI)
         apply assumption+
    done
qed

section \<open>Peers without a group\<close>

text \<open>
  C40: When the connection of a peer ends that belongs to no group (one that connected to this device has the group -1), the
  balancer's table is read behind its end, which is undefined: such a peer has never an entry, because only groups
  have one.
\<close>

theorem guest_leaving_is_undefined:
  assumes "l_peers s0 = []" "l_balance s0 = Map.empty" "link_step\<^sup>*\<^sup>* s0 s" "peer_of i s = Some p" "pe_gid p = - 1"
  shows "remove_peer i s = Crashes"
proof -
  have "l_balance s (pe_gid p) = None"
    using group_okD(2) [OF reachable_groups [OF assms(3,1,2)], of "pe_gid p"] assms(5) by (cases "l_balance s (pe_gid p)") auto
  then show ?thesis
    using assms(4) by (simp add: remove_peer_def remove_from_balance_info_def action_defs)
qed

theorem guest_leaving_is_undefined_witness:
  "\<exists>s. create_new_peer_info ''10.0.0.3:7070'' (- 1) False ex_unmet = Returns s \<and> remove_peer 5 s = Crashes"
proof -
  let ?s = "ex_unmet\<lparr>l_request_counter := 6, l_peers := [(5, new_peer ''10.0.0.3:7070'' (- 1) False 0)]\<rparr>"
  have run: "create_new_peer_info ''10.0.0.3:7070'' (- 1) False ex_unmet = Returns ?s"
    by (simp add: create_new_peer_info_def get_peer_id_def look_def upd_def ex_unmet_def link_new_def LINK_REQUEST_UPPER_BOUND_def)
  have "link_step ex_unmet ?s"
    by (rule link_step.joins [OF _ run]) (simp add: peer_of_def ex_unmet_def link_new_def)
  then have "remove_peer 5 ?s = Crashes"
    by (intro guest_leaving_is_undefined [of ex_unmet _ _ "new_peer ''10.0.0.3:7070'' (- 1) False 0"] r_into_rtranclp)
      (simp_all add: peer_of_def ex_unmet_def link_new_def new_peer_def)
  with run show ?thesis
    by blast
qed

end
