(* ===== verification/Link_Pairing_Props.thy ===== *)
theory Link_Pairing_Props
  imports Link_Peer_Props Link_Config Key_Files_Props
begin

text \<open>
  Pairing: a device that shows its code hands the user's keys to the device that sends the code, and to nobody else.
\<close>

section \<open>Messages of the transfer\<close>

definition transferable :: "key_transfer_package \<Rightarrow> bool" where
  "transferable d \<longleftrightarrow> small_package d \<and> 28 + length (kt_code d) + length (kt_public_key d) + length (kt_private_key d)
     + length (kt_user_json_info d) + unat (p_size d) < 2 ^ 24"

definition transfer_frame :: "key_transfer_package \<Rightarrow> byte list" where
  "transfer_frame d = (case kt_serialize d default_package of None \<Rightarrow> [] | Some pkg \<Rightarrow> frame pkg)"

lemma serialized_transfer:
  assumes "transferable d"
  obtains pkg tail where "kt_serialize d default_package = Some pkg" "framable pkg" "p_message pkg = Some (kt_header_bytes d @ tail)"
    "payload_of pkg = Some (kt_header_bytes d @ tail)" "payload_tail d = Some tail" "unat (p_size pkg) = length (kt_header_bytes d) + length tail"
proof -
  have fits: "kt_fits d"
    using assms by (simp add: transferable_def kt_fits_def)
  have len: "length (kt_header_bytes d) + 4 + unat (p_size d) < 2 ^ 24" "small_package d"
    using assms by (simp_all add: transferable_def length_kt_header_bytes [OF fits])
  have hs: "unat (kt_header_size d) = length (kt_header_bytes d)"
    by (rule ktf.hsize_hdr [OF fits])
  define n where "n = unat (kt_header_size d) + 4 + unat (p_size d)"
  obtain tail where tail: "payload_tail d = Some tail"
    "kt_serialize d default_package = Some (default_package\<lparr>p_size := of_nat n, p_message := Some (kt_header_bytes d @ tail)\<rparr>)"
    using write_out_Some [OF len(2), of n "kt_header_bytes d" default_package] len(1) hs by (auto simp: kt_serialize_def n_def)
  have n: "n = length (kt_header_bytes d) + length tail" "n < 2 ^ 24" "0 < n"
    using len(1) payload_tail_length [OF tail(1)] by (simp_all add: hs n_def)
  then have u: "unat (of_nat n :: ID32) = n"
    by (intro unat_of_nat_32) simp
  let ?p = "default_package\<lparr>p_size := of_nat n, p_message := Some (kt_header_bytes d @ tail)\<rparr>"
  have "(of_nat n :: ID32) \<noteq> 0"
    using u n(3) by (metis unat_0 less_irrefl)
  then have ne: "p_size ?p \<noteq> 0"
    by simp
  have p: "payload_of ?p = Some (kt_header_bytes d @ tail)"
    using ne n(1) u by (simp add: payload_of_def mem_read_def)
  show ?thesis
    by (rule that [OF tail(2)]) (use p ne n u tail(1) in \<open>simp_all add: framable_def small_package_def\<close>)
qed

lemma transmit_run: "transferable d \<Longrightarrow> transmit d s = Returns (s\<lparr>l_wire := l_wire s @ transfer_frame d\<rparr>)"
  by (erule serialized_transfer) (simp add: transmit_def must_def send_by_socket_frame say_def upd_def transfer_frame_def)

lemma read_transfer:
  assumes "transferable d" "[] \<notin> set segs" "concat segs = transfer_frame d @ ys"
  obtains pkg rest tail where "read_message segs = Some (pkg, rest)" "concat rest = ys" "[] \<notin> set rest"
    "p_message pkg = Some (kt_header_bytes d @ tail)" "payload_tail d = Some tail" "unat (p_size pkg) = length (kt_header_bytes d) + length tail"
proof -
  obtain src tail where src: "kt_serialize d default_package = Some src" "framable src"
    "payload_of src = Some (kt_header_bytes d @ tail)" "payload_tail d = Some tail" "unat (p_size src) = length (kt_header_bytes d) + length tail"
    using serialized_transfer [OF assms(1)] by metis
  have "concat segs = frame src @ ys" "\<forall>seg \<in> set segs. seg \<noteq> []"
    using assms(2,3) src(1) by (auto simp: transfer_frame_def)
  then obtain pkg rest where "read_message segs = Some (pkg, rest)" "concat rest = ys" "\<forall>seg \<in> set rest. seg \<noteq> []"
    "p_size pkg = p_size src" "p_message pkg = payload_of src"
    by (elim read_frame [OF src(2), rotated]) auto
  then show ?thesis
    by (intro that [of pkg rest tail]) (use src in auto)
qed

section \<open>The three messages\<close>

definition hello :: key_transfer_package where
  "hello = put_text ''Connected'' key_transfer_package0"

definition code_message :: "string \<Rightarrow> key_transfer_package" where
  "code_message c = key_transfer_package0\<lparr>kt_code := bytes_of c\<rparr>"

definition user_keys_message :: "byte list \<times> byte list \<Rightarrow> byte list \<Rightarrow> key_transfer_package" where
  "user_keys_message up info = key_transfer_package0\<lparr>kt_public_key := fst up, kt_private_key := snd up, kt_user_json_info := info\<rparr>"

lemma transfer_package0 [simp]: "kt_code key_transfer_package0 = []" "kt_public_key key_transfer_package0 = []"
  "kt_private_key key_transfer_package0 = []" "kt_user_json_info key_transfer_package0 = []" "p_size key_transfer_package0 = 0"
  "p_message key_transfer_package0 = None" "p_version key_transfer_package0 = 0"
  by (simp_all add: key_transfer_package0_def default_package_def package.defs)

lemma hello_transferable: "transferable hello" "payload_of hello = Some (bytes_of ''Connected'')" "p_size hello = 9"
proof -
  show p: "payload_of hello = Some (bytes_of ''Connected'')"
    by (simp add: hello_def put_text_def payload_of_def mem_read_def bytes_of_def)
  then show "transferable hello"
    by (simp add: transferable_def small_package_def) (simp add: hello_def put_text_def)
  show "p_size hello = 9"
    by (simp add: hello_def put_text_def)
qed

lemma code_transferable: "28 + length c < 2 ^ 24 \<Longrightarrow> transferable (code_message c)"
  by (simp add: transferable_def code_message_def small_package_def payload_of_def bytes_of_def)

lemma keys_transferable: "28 + length (fst up) + length (snd up) + length info < 2 ^ 24 \<Longrightarrow> transferable (user_keys_message up info)"
  by (simp add: transferable_def user_keys_message_def small_package_def payload_of_def)

lemma kt_fits_transferable: "transferable d \<Longrightarrow> kt_fits d"
  by (simp add: transferable_def kt_fits_def)

text \<open>What the two ends make of a message.\<close>

lemma sized_message_payload: "payload_of p = Some bs \<Longrightarrow> p_size p \<noteq> 0 \<Longrightarrow> sized_message p k s = k (chars bs) s"
  by (auto simp: sized_message_def payload_of_def must_def mem_read_def split: option.splits if_splits)

lemma hello_read:
  assumes "[] \<notin> set segs" "concat segs = transfer_frame hello @ ys"
  obtains hp rest hm where "read_message segs = Some (hp, rest)" "concat rest = ys" "[] \<notin> set rest"
    "extract_payload hp (unat (kt_header_size key_transfer_package0)) key_transfer_package0 = Done hm" "p_size hm = 9"
    "\<And>(k :: string \<Rightarrow> link act) s. sized_message hm k s = k ''Connected'' s"
proof -
  obtain hp rest tail where r: "read_message segs = Some (hp, rest)" "concat rest = ys" "[] \<notin> set rest"
    "p_message hp = Some (kt_header_bytes hello @ tail)" "payload_tail hello = Some tail" "unat (p_size hp) = length (kt_header_bytes hello) + length tail"
    by (rule read_transfer [OF hello_transferable(1) assms])
  have "unat (kt_header_size key_transfer_package0) = length (kt_header_bytes hello)"
    using ktf.hsize_hdr [OF kt_fits_transferable [OF hello_transferable(1)]] by (simp add: hello_def put_text_def kt_header_size_def)
  moreover have "small_package hello"
    using hello_transferable(1) by (simp add: transferable_def)
  ultimately obtain hm where hm: "extract_payload hp (unat (kt_header_size key_transfer_package0)) key_transfer_package0 = Done hm"
    "payload_of hm = Some (bytes_of ''Connected'')" "p_size hm = 9"
    using extract_payload_tail [OF _ r(5,4,6), of key_transfer_package0] hello_transferable(2,3) by auto
  have "sized_message hm k s = k ''Connected'' s" for k :: "string \<Rightarrow> link act" and s
    using sized_message_payload [OF hm(2)] hm(3) by simp
  with r(1-3) hm(1,3) show ?thesis
    by (rule that)
qed

section \<open>The two ends\<close>

definition shows_code :: "link \<Rightarrow> string \<Rightarrow> byte list \<times> byte list \<Rightarrow> byte list \<Rightarrow> bool" where
  "shows_code y c up info \<longleftrightarrow> l_code y = c \<and> c \<noteq> [] \<and> l_user_key_path y \<noteq> [] \<and> fst up \<noteq> [] \<and> snd up \<noteq> [] \<and> info \<noteq> []
     \<and> l_disk y (l_user_key_path y @ ''/public.pem'') = Some (fst up) \<and> l_disk y (l_user_key_path y @ ''/private.pem'') = Some (snd up)
     \<and> l_disk y (l_user_json_info_path y) = Some info \<and> 28 + length c < 2 ^ 24 \<and> 28 + length (fst up) + length (snd up) + length info < 2 ^ 24"

lemma stranger_gets_hello:
  "new_connection_run who [] y = Returns (y\<lparr>l_wire := l_wire y @ transfer_frame hello\<rparr>)"
  by (simp add: new_connection_run_def hello_def [symmetric] transmit_run [OF hello_transferable(1)] catching_poco_def action_defs
      read_message_def read_message_size_def read_nbytes.simps [of 4])

lemma server_answers:
  assumes "shows_code y c up info" "[] \<notin> set segs" "concat segs = transfer_frame (code_message c)"
  shows "new_connection_run who segs y = Returns (y\<lparr>l_wire := l_wire y @ transfer_frame hello @ transfer_frame (user_keys_message up info),
    l_notification := ''Successfully sent keys to '' @ who\<rparr>)"
proof -
  have t: "transferable (code_message c)" "transferable (user_keys_message up info)"
    using assms(1) by (simp_all add: shows_code_def code_transferable keys_transferable)
  obtain pkg rest tail where r: "read_message segs = Some (pkg, rest)" "p_message pkg = Some (kt_header_bytes (code_message c) @ tail)"
    by (rule read_transfer [OF t(1) assms(2), of "[]"]) (use assms(3) in auto)
  obtain ktp n where x: "kt_extract_header pkg key_transfer_package0 = Some (ktp, n)" "kt_code ktp = bytes_of c"
    using kt_extract_header_encoded [OF kt_fits_transferable [OF t(1)] r(2), of key_transfer_package0] by (auto simp: code_message_def)
  have keys: "send_user_keys s = Returns (s\<lparr>l_wire := l_wire s @ transfer_frame (user_keys_message up info)\<rparr>)"
    if "l_disk s = l_disk y" "l_user_key_path s = l_user_key_path y" "l_user_json_info_path s = l_user_json_info_path y" for s
    using assms(1) that transmit_run [OF t(2), unfolded user_keys_message_def]
    by (simp add: send_user_keys_def look_def file_or_empty_def shows_code_def check_def user_keys_message_def)
  show ?thesis
    using assms(1)
    by (simp add: new_connection_run_def hello_def [symmetric] transmit_run [OF hello_transferable(1)] catching_poco_def action_defs
        r(1) x keys shows_code_def)
qed

lemma client_waits:
  assumes "28 + length c < 2 ^ 24" "[] \<notin> set segs" "concat segs = transfer_frame hello"
  shows "connect_server_and_save_keys (Inr segs) c i x = Raises Poco_error (x\<lparr>l_wire := l_wire x @ transfer_frame (code_message c)\<rparr>)"
proof -
  obtain hp rest hm where h: "read_message segs = Some (hp, rest)" "concat rest = []" "[] \<notin> set rest"
    "extract_payload hp (unat (kt_header_size key_transfer_package0)) key_transfer_package0 = Done hm" "p_size hm = 9"
    "\<And>(k :: string \<Rightarrow> link act) s. sized_message hm k s = k ''Connected'' s"
    by (rule hello_read [OF assms(2), of "[]"]) (use assms(3) in auto)
  have "rest = []"
    using h(2,3) by (cases rest) auto
  then have "read_message rest = None"
    by (simp add: read_message_def read_message_size_def read_nbytes_short)
  then show ?thesis
    using h(5) by (simp add: connect_server_and_save_keys_def attempt_def need_def h(1,4,6) only_if_def code_message_def [symmetric]
        transmit_run [OF code_transferable [OF assms(1)]] save_user_keys_def raise_error_def)
qed

lemma client_takes_keys:
  assumes "28 + length c < 2 ^ 24" "28 + length (fst up) + length (snd up) + length info < 2 ^ 24"
    "[] \<notin> set segs" "concat segs = transfer_frame hello @ transfer_frame (user_keys_message up info)"
    "slot (l_key_manager_tx x) = link_key_manager_package0"
  shows "connect_server_and_save_keys (Inr segs) c i x = Returns (x\<lparr>l_wire := l_wire x @ transfer_frame (code_message c),
    l_key_manager_tx := commit link_key_manager_package0 (set_slot (\<lambda>_. keys_message i up info) (l_key_manager_tx x))\<rparr>)"
proof -
  obtain hp rest hm where h: "read_message segs = Some (hp, rest)" "concat rest = transfer_frame (user_keys_message up info)" "[] \<notin> set rest"
    "extract_payload hp (unat (kt_header_size key_transfer_package0)) key_transfer_package0 = Done hm" "p_size hm = 9"
    "\<And>(k :: string \<Rightarrow> link act) s. sized_message hm k s = k ''Connected'' s"
    by (rule hello_read [OF assms(3,4)], rule that)
  have t: "transferable (user_keys_message up info)"
    by (rule keys_transferable [OF assms(2)])
  obtain pkg rest' tail where r: "read_message rest = Some (pkg, rest')" "p_message pkg = Some (kt_header_bytes (user_keys_message up info) @ tail)"
    by (rule read_transfer [OF t h(3), of "[]"]) (use h(2) in auto)
  have "\<exists>n out. kt_extract_header pkg link_key_manager_package0 = Some (out, n)
      \<and> out\<lparr>lk_request_id := i, kt_cmd := cmd_request_keys_response\<rparr> = keys_message i up info"
    using kt_extract_header_encoded [OF kt_fits_transferable [OF t] r(2), of link_key_manager_package0]
    by (simp add: user_keys_message_def keys_message_def link_key_manager_package0_def default_package_def package.defs)
  then obtain n out where x: "kt_extract_header pkg link_key_manager_package0 = Some (out, n)"
      "out\<lparr>lk_request_id := i, kt_cmd := cmd_request_keys_response\<rparr> = keys_message i up info"
    by blast
  show ?thesis
    using h(5) x assms(5) by (simp add: connect_server_and_save_keys_def attempt_def need_def h(1,4,6) only_if_def code_message_def [symmetric]
        transmit_run [OF code_transferable [OF assms(1)]] save_user_keys_def r(1) look_def must_def upd_def)
qed

section \<open>Pairing\<close>

text \<open>
  C8: A device that knows the code takes over the user. Whoever connects is greeted; the greeted device answers with the code; to
  the code the other device answers with the user's keys and tells its user so; and when the network has carried these
  bytes, in whatever segments, the key manager of the new device is handed exactly these keys, after which the user's
  pair is in use there, the kernel knows the key of the user's document, and a restart loads them again.
\<close>

theorem paired_device_takes_over_user:
  assumes "shows_code y c up info" "l_wire y = []" "l_wire x = []" "slot (l_key_manager_tx x) = link_key_manager_package0"
    "fifo_ok (l_key_manager_tx x)"
    "word dev" "word d" "word p" "apart dev d p" "writable s" "device_files (y_crypto s) (y_disk s) dev"
    "y_user_key_path s = d" "y_user_json_key_path s = p" "fifo_ok (y_kernel_tx s)"
    "is_pair (y_crypto s) up" "kl_parse (y_lib s) (chars info) = None"
    "kl_parse (y_lib s) (chars (cr_open (y_crypto s) (snd up) info)) = Some obj"
    "get_text (y_lib s) ''aes_key'' obj = Some key" "get_text (y_lib s) ''aes_iv'' obj = Some iv"
  shows "\<exists>h xs ys m. (\<exists>y0. new_connection_run who [] y = Returns y0 \<and> l_wire y0 = h)
    \<and> (\<forall>segs. concat segs = h \<and> [] \<notin> set segs \<longrightarrow>
        (\<exists>x0. connect_server_and_save_keys (Inr segs) c i x = Raises Poco_error x0 \<and> l_wire x0 = xs))
    \<and> (\<forall>segs. concat segs = xs \<and> [] \<notin> set segs \<longrightarrow> (\<exists>y'. new_connection_run who segs y = Returns y' \<and> l_wire y' = ys
        \<and> l_notification y' = ''Successfully sent keys to '' @ who))
    \<and> (\<forall>segs. concat segs = ys \<and> [] \<notin> set segs \<longrightarrow> (\<exists>x'. connect_server_and_save_keys (Inr segs) c i x = Returns x'
        \<and> l_wire x' = xs \<and> pending (l_key_manager_tx x') = pending (l_key_manager_tx x) @ [m]))
    \<and> (\<exists>s' out s2 o2. y_process_link_input m s = Returns s'
        \<and> pending (y_kernel_tx s') = pending (y_kernel_tx s) @ [out] \<and> km_cmd out = cmd_request_keys_response
        \<and> km_request_id out = i \<and> km_aes_key out = key \<and> km_aes_iv out = iv \<and> y_user_cipher s' = Some up
        \<and> y_process_config_input (start_message dev d p) (key_manager_new (y_lib s) (y_crypto s) us (y_disk s')) = Returns s2
        \<and> y_user_cipher s2 = Some up \<and> pending (y_config_tx s2) = [o2] \<and> kmc_user_json_info o2 = Some obj)"
proof -
  have b: "28 + length c < 2 ^ 24" "28 + length (fst up) + length (snd up) + length info < 2 ^ 24" "fst up \<noteq> []" "snd up \<noteq> []" "info \<noteq> []"
    using assms(1) by (simp_all add: shows_code_def)
  show ?thesis
    by (rule exI [of _ "transfer_frame hello"], rule exI [of _ "transfer_frame (code_message c)"],
        rule exI [of _ "transfer_frame hello @ transfer_frame (user_keys_message up info)"], rule exI [of _ "keys_message i up info"],
        intro conjI received_keys_are_taken_over [OF assms(6-14) b(3-5) assms(15-19)])
      (use assms(2-5) in \<open>auto simp: stranger_gets_hello client_waits [OF b(1)] server_answers [OF assms(1)] client_takes_keys [OF b(1,2)]\<close>)
qed

definition ex_shows :: link where
  "ex_shows = (link_new ex_key_lib)\<lparr>l_code := ''Ab3'', l_user_key_path := ''u'', l_user_json_info_path := ''i'',
     l_disk := [''u/public.pem'' \<mapsto> [8], ''u/private.pem'' \<mapsto> [9], ''i'' \<mapsto> 0 # bytes_of (ex_print (key_info ''k'' ''v'' ''me''))]\<rparr>"

lemma segments: "\<exists>segs. concat segs = bs \<and> [] \<notin> set segs"
  by (rule exI [of _ "if bs = [] then [] else [bs]"]) simp

theorem paired_device_takes_over_user_witness:
  "\<exists>segs segs' y' x' m s'. new_connection_run ''10.0.0.5'' segs ex_shows = Returns y' \<and> concat segs = l_wire x'
     \<and> connect_server_and_save_keys (Inr segs') ''Ab3'' 7 (link_new ex_key_lib) = Returns x' \<and> concat segs' = l_wire y'
     \<and> pending (l_key_manager_tx x') = [m] \<and> y_process_link_input m ex_device = Returns s' \<and> y_user_cipher s' = Some ([8], [9])"
proof -
  let ?info = "0 # bytes_of (ex_print (key_info ''k'' ''v'' ''me''))"
  have y: "shows_code ex_shows ''Ab3'' ([8], [9]) ?info" "l_wire ex_shows = []"
    by (simp_all add: ex_shows_def shows_code_def link_new_def key_info_def ex_print_def ex_escape_def bytes_of_def)
  have x: "l_wire (link_new ex_key_lib) = []" "slot (l_key_manager_tx (link_new ex_key_lib)) = link_key_manager_package0"
    "fifo_ok (l_key_manager_tx (link_new ex_key_lib))" "pending (l_key_manager_tx (link_new ex_key_lib)) = []"
    by (simp_all add: link_new_def)
  obtain xs ys m s' where
    y': "\<forall>segs. concat segs = xs \<and> [] \<notin> set segs \<longrightarrow> (\<exists>y'. new_connection_run ''10.0.0.5'' segs ex_shows = Returns y' \<and> l_wire y' = ys
        \<and> l_notification y' = ''Successfully sent keys to '' @ ''10.0.0.5'')"
    and x': "\<forall>segs. concat segs = ys \<and> [] \<notin> set segs \<longrightarrow> (\<exists>x'. connect_server_and_save_keys (Inr segs) ''Ab3'' 7 (link_new ex_key_lib) = Returns x'
        \<and> l_wire x' = xs \<and> pending (l_key_manager_tx x') = pending (l_key_manager_tx (link_new ex_key_lib)) @ [m])"
    and s': "y_process_link_input m ex_device = Returns s'" "y_user_cipher s' = Some ([8], [9])"
    using paired_device_takes_over_user [OF y x(1-3), of "''v''" "''u''" "''i''" ex_device "key_info ''k'' ''v'' ''me''" "''k''" "''v''" "''10.0.0.5''" 7 of_nat]
    by (simp add: get_text_info del: append_Cons) blast
  obtain segs segs' where "concat segs = xs" "[] \<notin> set segs" "concat segs' = ys" "[] \<notin> set segs'"
    using segments by meson
  then show ?thesis
    using y' x' s' x(4) by (metis append_Nil)
qed

text \<open>
  C12: Only the code opens a device. Whatever bytes a stranger sends, unless a complete message that carries the code is
  among them, all he gets is the greeting, and nothing else of the device changes; a message too short for its own header is
  read behind its end, which is undefined.
\<close>

theorem keys_only_for_the_code:
  assumes "\<And>pkg rest ktp n. read_message segs = Some (pkg, rest) \<Longrightarrow> kt_extract_header pkg key_transfer_package0 = Some (ktp, n)
    \<Longrightarrow> kt_code ktp \<noteq> bytes_of (l_code y)"
  shows "case new_connection_run who segs y of Returns y' \<Rightarrow> y' = y\<lparr>l_wire := l_wire y @ transfer_frame hello\<rparr>
    | Raises e y' \<Rightarrow> False
    | Crashes \<Rightarrow> \<exists>pkg rest. read_message segs = Some (pkg, rest) \<and> kt_extract_header pkg key_transfer_package0 = None"
  using assms
  by (auto simp: new_connection_run_def hello_def [symmetric] transmit_run [OF hello_transferable(1)] catching_poco_def action_defs
      split: option.split prod.split)

lemma transfer_frame_nonempty: "transferable d \<Longrightarrow> transfer_frame d \<noteq> []"
  by (erule serialized_transfer) (auto simp: transfer_frame_def frame_def dest: payload_tail_length)

theorem keys_only_for_the_code_witness:
  "case new_connection_run ''10.0.0.6'' [transfer_frame (code_message ''guess'')] ex_shows of
      Returns y' \<Rightarrow> y' = ex_shows\<lparr>l_wire := l_wire ex_shows @ transfer_frame hello\<rparr>
    | Raises e y' \<Rightarrow> False
    | Crashes \<Rightarrow> \<exists>pkg rest. read_message [transfer_frame (code_message ''guess'')] = Some (pkg, rest)
        \<and> kt_extract_header pkg key_transfer_package0 = None"
proof (rule keys_only_for_the_code)
  fix pkg rest ktp n
  assume r: "read_message [transfer_frame (code_message ''guess'')] = Some (pkg, rest)" "kt_extract_header pkg key_transfer_package0 = Some (ktp, n)"
  have t: "transferable (code_message ''guess'')"
    by (simp add: code_transferable)
  obtain pkg' tail where "read_message [transfer_frame (code_message ''guess'')] = Some (pkg', rest)"
    "p_message pkg' = Some (kt_header_bytes (code_message ''guess'') @ tail)"
    by (rule read_transfer [OF t, of "[transfer_frame (code_message ''guess'')]" "[]"]) (use r(1) transfer_frame_nonempty [OF t] in auto)
  then have "kt_code ktp = bytes_of ''guess''"
    using r kt_extract_header_encoded [OF kt_fits_transferable [OF t], of pkg tail key_transfer_package0] by (auto simp: code_message_def)
  then show "kt_code ktp \<noteq> bytes_of (l_code ex_shows)"
    by (simp add: ex_shows_def bytes_of_def)
qed

end
