(* ===== verification/Spec2Isabelle.thy ===== *)
theory Spec2Isabelle
  imports Router_Props Protocol_Props Backup_Props User_Manager_Props Kernel_Get_Props Kernel_Save_Props Node_Props Link_Props Link_Pairing_Props
begin

text \<open>
  Metax, a peer-to-peer store of encrypted files.

  \<^bold>\<open>The program.\<close> A node is a set of tasks, each a thread with its own state, that exchange packages over channels
  (\<^verbatim>\<open>src/src/platform/fifo.hpp\<close>, wired together by \<^verbatim>\<open>src/src/metax/hop.cpp\<close>). The web interface (\<^verbatim>\<open>metax_web_api\<close>)
  hands requests to the kernel. The kernel keeps the requests, cuts files into pieces, has them encrypted by the
  key manager, saves them through the storage, and finds, saves and copies them on other nodes through the router.
  The router turns requests into tenders that it floods to its peers through the link, and routes what comes back.
  The backup keeps the journal of what the node stores and synchronises it with the other nodes of the same user;
  the user manager keeps the document with the user's keys, the key manager the keys and the ciphers, and the link the
  connections, each with a task of its own. A task's loop waits for its channels and serves at most one
  package of each in a fixed order.

  \<^bold>\<open>Shared notions.\<close>
  \<^item> \<open>Metax_Prelude\<close>: machine words, the outcome of a step (\<open>Done\<close>, an exception, a failed assertion, undefined
    behaviour), rules for running steps in sequence.
  \<^item> \<open>Wire\<close>: bytes on the wire, \<open>wire_codec\<close> is the contract of a fixed-width number and is interpreted for the four
    widths in use. \<open>Poco_Lib\<close>: what is used of the Poco library: \<open>poco\<close> collects its text functions for uuids,
    numbers and tokens as parameters, \<open>poco_ok\<close> their documented behaviour, \<open>poco_ref\<close> a reference that satisfies it.
    \<open>Text_Json\<close>: decimal numbers, the tables the code iterates over in the order of their keys, and JSON objects, which are
    sorted association lists; \<open>klib\<close> are the functions on JSON texts.
  \<^item> \<open>Actions\<close>: the language of the handlers of the kernel, the key manager and the link. An action is a function from the
    state to a \<open>run\<close>: it returns, raises with the state reached so far, or crashes.
  \<^item> \<open>Commands\<close>, \<open>Protocols\<close> (\<^verbatim>\<open>metax/protocols.hpp\<close>): the commands, the packages between the tasks, and the three
    formats that leave the node; \<open>wire_format\<close> is what a header promises. \<open>Package\<close>
    (\<^verbatim>\<open>platform/default_package.cpp\<close>): the payload of every package.
  \<^item> \<open>Csp_Fifo\<close> (\<^verbatim>\<open>platform/fifo.txx\<close>): the channel; \<open>channel\<close> is its contract, \<open>pending\<close> what a reader will see.

  \<^bold>\<open>The tasks.\<close> In each the state is a record of the members the code has, an operation is a function of that
    state, and the package at hand is passed to the handler that the code lets read it from the channel.
  \<^item> Router (\<^verbatim>\<open>metax/router.cpp\<close>): \<open>Router_State\<close> has tenders and their tables, \<open>Router_Kernel\<close> what the kernel and the
    storage ask, \<open>Router_Link\<close> what peers send, \<open>Router_Loop\<close> expiry and the loop. \<open>router_step\<close> is one iteration or
    an action of the environment (a package arrives, the timer fires). \<open>Router_Inv\<close> proves the invariant of
    the tables for every handler, \<open>Router_Traffic\<close> reads off the channels what a handler sends, \<open>Router_Expiry\<close> follows the
    timeline; \<open>Router_Props\<close> has the properties.
  \<^item> Storage (\<^verbatim>\<open>metax/storage.cpp\<close>, \<^verbatim>\<open>platform/db_json.cpp\<close>): \<open>Db_Json\<close> is the database on a storage and a cache directory,
    \<open>Storage\<close> the task. \<open>Storage_Inv\<close> reduces every message to its effect on the database; \<open>keyed_store\<close>
    is the contract of a map with keys, which both the database and the JSON objects of the journal fulfil.
  \<^item> Backup (\<^verbatim>\<open>metax/backup.cpp\<close>): \<open>Backup\<close>, \<open>Backup_Inv\<close>, \<open>Backup_Props\<close>. A received journal is a fold over its lines.
  \<^item> User manager (\<^verbatim>\<open>metax/user_manager.cpp\<close>): \<open>User_Manager\<close>, \<open>User_Manager_Props\<close>.
  \<^item> Kernel (\<^verbatim>\<open>metax/kernel.cpp\<close>): its handlers use pointers into its tables, exceptions and assertions in the middle of
    a handler, so they are actions that crash by reading an erased entry. \<open>Kernel_State\<close>: a reference to a request, a unit or a livestream
    is its key; \<open>with_req\<close> reads through it and crashes if the entry is gone, \<open>touch_req\<close> is \<^verbatim>\<open>operator[]\<close> and enters a
    blank one. \<open>Kernel_Pieces\<close> cuts files and computes ranges, \<open>Kernel_Post\<close> posts packages, \<open>Kernel_Respond\<close> answers the
    web interface, \<open>Kernel_Save\<close>, \<open>Kernel_Copy\<close>, \<open>Kernel_Get\<close>, \<open>Kernel_Live\<close> are the life of a request of each kind, and
    \<open>Kernel_Storage\<close>, \<open>Kernel_Keys\<close>, \<open>Kernel_Router\<close>, \<open>Kernel_Ims\<close> the handlers of what comes from the storage, the key
    manager, the router and the other tasks; the last ends with a turn of the loop, \<open>kernel_turn\<close>.
  \<^item> Key manager (\<^verbatim>\<open>metax/key_manager.cpp\<close>): \<open>Key_Manager\<close>. OpenSSL is the parameter \<open>crypto\<close>, \<open>crypto_ok\<close> its documented
    behaviour; the disk is a map, with the paths that cannot be written or moved. \<open>Key_Manager_Props\<close> follows a shared file
    and a livestream through two key managers, \<open>Key_Files_Props\<close> the key files through starts, regeneration and replacement, by
    keys that fit and by keys that cannot be loaded or decrypt nothing.
  \<^item> Link (\<^verbatim>\<open>metax/link_peer.cpp\<close>, \<^verbatim>\<open>metax/link.cpp\<close>): \<open>Link_Peer\<close> is the task at the end of a connection: frames on a socket
    that delivers its bytes in segments of any size. \<open>Link\<close> has the table of peers, the announcement of a peer and what
    peers send, \<open>Link_Tasks\<close> the messages of the router, the watch over silent peers and the life of a connection,
    \<open>Link_Config\<close> the requests of the configuration manager and both ends of a transfer of keys. \<open>link_step\<close> is a step of the
    link or of its surroundings.

  \<^bold>\<open>What is shown of the kernel.\<close> \<open>Kernel_Tables\<close> has the typing of the tables and a rule calculus for it (\<open>safe\<close>),
  \<open>Kernel_Safe\<close> applies it to every handler, so that it holds in every state of \<open>kernel_reachable\<close>, in which other tasks
  and the clock may do what they like between turns. \<open>Kernel_Props\<close>: who is answered, when a synchronisation ends, who hears of
  an update, what happens while the kernel cannot serve, and inputs it does not survive. \<open>Kernel_Save_Props\<close>: the
  queues of saves and their limits. \<open>Kernel_Files_Props\<close>, \<open>Kernel_Get_Props\<close>: a file that is got piece by piece is the file
  that was cut. \<open>Node_Props\<close> joins the kernels of a saving and a getting node with the storage between them.

  \<^bold>\<open>What is shown of the link.\<close> \<open>Link_Peer_Props\<close>: what is framed at one end is read at the other, in order and whole.
  \<open>Link_Inv\<close> has a rule calculus for actions and a preorder of states (\<open>preorder_of_states\<close>, interpreted for \<open>closing\<close>, what an
  action may do to a peer that is not being announced, and for \<open>keeps_groups\<close>) and derives that every reachable link has
  one connection per group. \<open>Link_Props\<close>: a broadcast arrives at the router of every announced peer, silent peers are
  closed, and the end of a connection without a group is undefined. \<open>Link_Pairing_Props\<close> joins the links of two devices and the
  key manager of one: the code opens the keys, and nothing else does.

  \<^bold>\<open>Bounds and loops.\<close> Numbers have the width they have in the code: 16-bit hop counts wrap, request ids are
  masked to 28 bits, offsets of pieces are 32 bits (which is why a file above 4 GiB is lost), the accounted size of the
  storage is 64 bits. No function needs fuel: each loop ends because a list gets shorter or a size smaller, and
  the only one that can run for ever, at the end of the backup and of the user manager, is a \<open>partial_function\<close> whose
  value is \<open>None\<close> exactly then. The bound 150 of saves on their way, the 600 turns a command waits for the user's
  document and the size 7000000 of a piece are the constants of the code.

  \<^bold>\<open>Parameters.\<close> Text of JSON documents, encryption, base64, the text of uuids and numbers, time, fresh uuids, names of
  temporary files, and whether a file can be opened come from outside and are arguments or fields of the state;
  properties that depend on them say how, and their witnesses use concrete ones.

  \<^bold>\<open>Not modelled.\<close> Logging. Of the link, the listening socket with its reactor, the SSL contexts, timeouts of sockets, the
  system calls that list the local networks, and the joining of threads at its end; writing on the socket of a key transfer
  does not fail. Of the key manager, the pass phrase and the fields of the certificate. The configuration manager and the
  wallet, whose work is reading XML files; the web interface, which is HTTP and websockets over the Poco server. The
  storage threads that the kernel starts for requests of peers are recorded in the kernel's state as jobs; what they do is
  modelled in \<open>Storage\<close>. The copies of the sources for Android and iOS are the same files.
\<close>

end
